(* ===== verification/Prelude.thy ===== *)
theory Prelude
  imports "HOL-Library.Word" "HOL-Library.Sublist" "HOL-Library.Code_Target_Nat"
begin

text \<open>
  Shared vocabulary of the development: fixed-width integers under Rust's names, results
  that carry an error, list operations with Rust's out-of-range answers (\<open>get\<close>,
  \<open>partition_point\<close>, slices), and the collections of simplification rules the component
  theories add to.
\<close>

named_theorems text_simps \<open>evaluation of the text operations\<close>
named_theorems addr_simps \<open>address classification and conversion\<close>
named_theorems bypass_simps \<open>matching of bypass rules\<close>
named_theorems mode_simps \<open>lookups in a proxy mode\<close>
named_theorems watch_simps \<open>the operations on the shared watcher state\<close>

section \<open>Integers\<close>

type_synonym u8 = "8 word"
type_synonym u16 = "16 word"
type_synonym u64 = "64 word"
type_synonym ipv4_bits = "32 word"
type_synonym ipv6_bits = "128 word"

lemma u16_less: "unat p < 65536" for p :: u16
proof -
  have "unat p < 2 ^ LENGTH(16)" by (rule unsigned_less)
  then show ?thesis by simp
qed

lemma u16_of_nat: "n < 65536 \<Longrightarrow> of_nat n = p \<longleftrightarrow> n = unat p" for p :: u16
  by (auto simp: unsigned_of_nat take_bit_nat_eq_self)

section \<open>Results\<close>

text \<open>A Rust \<open>Result\<close> is a sum: \<open>Inl\<close> the error, \<open>Inr\<close> the value.\<close>

definition map_err :: "('e \<Rightarrow> 'f) \<Rightarrow> 'e + 'a \<Rightarrow> 'f + 'a" where
  "map_err f r = (case r of Inl e \<Rightarrow> Inl (f e) | Inr x \<Rightarrow> Inr x)"

definition ok_or :: "'e \<Rightarrow> 'a option \<Rightarrow> 'e + 'a" where
  "ok_or e v = (case v of None \<Rightarrow> Inl e | Some x \<Rightarrow> Inr x)"

definition result_ok :: "'e + 'a \<Rightarrow> 'a option" where
  "result_ok r = (case r of Inl _ \<Rightarrow> None | Inr x \<Rightarrow> Some x)"

definition is_ok :: "'e + 'a \<Rightarrow> bool" where
  "is_ok r \<longleftrightarrow> (case r of Inl _ \<Rightarrow> False | Inr _ \<Rightarrow> True)"

fun or_else :: "'a option \<Rightarrow> 'a option \<Rightarrow> 'a option" where
  "or_else (Some x) _ = Some x"
| "or_else None y = y"

definition unwrap_or :: "'a \<Rightarrow> 'a option \<Rightarrow> 'a" where
  "unwrap_or d v = (case v of None \<Rightarrow> d | Some x \<Rightarrow> x)"

lemma map_err_simps [simp]:
  "map_err f (Inl e) = Inl (f e)"
  "map_err f (Inr x) = Inr x"
  by (simp_all add: map_err_def)

lemma map_err_eq_Inr [simp]: "map_err f r = Inr x \<longleftrightarrow> r = Inr x"
  by (cases r) simp_all

lemma ok_or_simps [simp]:
  "ok_or e None = Inl e"
  "ok_or e (Some x) = Inr x"
  by (simp_all add: ok_or_def)

lemma ok_or_eq_Inr [simp]: "ok_or e v = Inr x \<longleftrightarrow> v = Some x"
  by (cases v) simp_all

lemma result_ok_simps [simp]:
  "result_ok (Inl e) = None"
  "result_ok (Inr x) = Some x"
  by (simp_all add: result_ok_def)

lemma is_ok_simps [simp]:
  "\<not> is_ok (Inl e)"
  "is_ok (Inr x)"
  by (simp_all add: is_ok_def)

lemma or_else_None2 [simp]: "or_else x None = x"
  by (cases x) simp_all

lemma or_else_eq_None [simp]: "or_else x y = None \<longleftrightarrow> x = None \<and> y = None"
  by (cases x) simp_all

lemma or_else_assoc: "or_else (or_else x y) z = or_else x (or_else y z)"
  by (cases x) simp_all

lemma unwrap_or_simps [simp]:
  "unwrap_or d None = d"
  "unwrap_or d (Some x) = x"
  by (simp_all add: unwrap_or_def)

section \<open>Lists under Rust's indexing\<close>

text \<open>\<open>slice::get\<close>: no value out of range.\<close>

fun get_opt :: "'a list \<Rightarrow> nat \<Rightarrow> 'a option" where
  "get_opt [] _ = None"
| "get_opt (x # xs) 0 = Some x"
| "get_opt (x # xs) (Suc i) = get_opt xs i"

lemma get_opt_eq: "get_opt xs i = (if i < length xs then Some (xs ! i) else None)"
  by (induction xs i rule: get_opt.induct) auto

text \<open>\<open>slice::partition_point\<close> on a slice partitioned by the predicate.\<close>

definition partition_point :: "('a \<Rightarrow> bool) \<Rightarrow> 'a list \<Rightarrow> nat" where
  "partition_point p xs = length (takeWhile p xs)"

lemma get_opt_length_takeWhile:
  "get_opt xs (length (takeWhile p xs)) =
     (case dropWhile p xs of [] \<Rightarrow> None | y # _ \<Rightarrow> Some y)"
  by (induction xs) auto

lemma get_partition_point:
  "get_opt xs (partition_point p xs) = (case dropWhile p xs of [] \<Rightarrow> None | y # _ \<Rightarrow> Some y)"
  by (simp add: partition_point_def get_opt_length_takeWhile)

text \<open>The range \<open>&s[from..upto]\<close> of a slice.\<close>

definition slice :: "nat \<Rightarrow> nat \<Rightarrow> 'a list \<Rightarrow> 'a list" where
  "slice i j xs = take (j - i) (drop i xs)"

lemma slice_append_drop: "i \<le> j \<Longrightarrow> slice i j xs @ drop j xs = drop i xs"
  by (simp add: slice_def) (metis add_diff_inverse_nat append_take_drop_id drop_drop
      linorder_not_le add.commute)

lemma length_slice [simp]: "j \<le> length xs \<Longrightarrow> length (slice i j xs) = j - i"
  by (simp add: slice_def)

lemma nth_slice [simp]: "k < j - i \<Longrightarrow> j \<le> length xs \<Longrightarrow> slice i j xs ! k = xs ! (i + k)"
  by (simp add: slice_def)

text \<open>The first element that satisfies a predicate, and the position of the last one.\<close>

fun rposition :: "('a \<Rightarrow> bool) \<Rightarrow> 'a list \<Rightarrow> nat option" where
  "rposition p [] = None"
| "rposition p (x # xs) =
     (case rposition p xs of
        Some i \<Rightarrow> Some (Suc i)
      | None \<Rightarrow> if p x then Some 0 else None)"

lemma rposition_None [simp]: "rposition p xs = None \<longleftrightarrow> (\<forall>x\<in>set xs. \<not> p x)"
  by (induction xs) (auto split: option.splits)

lemma rposition_append_Cons:
  "p x \<Longrightarrow> \<forall>z\<in>set zs. \<not> p z \<Longrightarrow> rposition p (ys @ x # zs) = Some (length ys)"
  by (induction ys) (auto split: option.splits)

lemma rposition_SomeD:
  "rposition p xs = Some i \<Longrightarrow>
     \<exists>ys x zs. xs = ys @ x # zs \<and> length ys = i \<and> p x \<and> (\<forall>z\<in>set zs. \<not> p z)"
proof (induction xs arbitrary: i)
  case Nil
  then show ?case by simp
next
  case (Cons x xs)
  show ?case
  proof (cases "rposition p xs")
    case None
    with Cons.prems have "i = 0" "p x" by (auto split: if_splits)
    with None have "x # xs = [] @ x # xs \<and> length [] = i \<and> p x \<and> (\<forall>z\<in>set xs. \<not> p z)"
      by simp
    then show ?thesis by blast
  next
    case (Some k)
    with Cons.IH obtain ys y zs where
      "xs = ys @ y # zs" "length ys = k" "p y" "\<forall>z\<in>set zs. \<not> p z" by blast
    moreover from Some Cons.prems have "i = Suc k" by simp
    ultimately have "x # xs = (x # ys) @ y # zs \<and> length (x # ys) = i \<and> p y \<and> (\<forall>z\<in>set zs. \<not> p z)"
      by simp
    then show ?thesis by blast
  qed
qed

end
