(* ===== verification/Text.thy ===== *)
theory Text
  imports Prelude
begin

text \<open>
  Rust's \<open>str\<close> as its UTF-8 bytes: a text is a HOL \<open>string\<close> whose characters are
  bytes, so offsets and lengths are the ones Rust counts. The operations of \<open>str\<close> the
  source uses are written on bytes; an operation that inspects a character outside ASCII
  (Unicode white space, control characters, U+FFFD) recognises the byte sequence that
  encodes it, which is exact on well-formed UTF-8 because such a sequence starts with a
  byte that no continuation byte equals.
\<close>

section \<open>Bytes\<close>

definition is_digit :: "char \<Rightarrow> bool" where
  "is_digit c \<longleftrightarrow> c \<in> set ''0123456789''"

definition is_upper :: "char \<Rightarrow> bool" where
  "is_upper c \<longleftrightarrow> c \<in> set ''ABCDEFGHIJKLMNOPQRSTUVWXYZ''"

definition is_lower :: "char \<Rightarrow> bool" where
  "is_lower c \<longleftrightarrow> c \<in> set ''abcdefghijklmnopqrstuvwxyz''"

definition lower_char :: "char \<Rightarrow> char" where
  "lower_char c = (if is_upper c
     then Char (digit0 c) (digit1 c) (digit2 c) (digit3 c) (digit4 c) True (digit6 c) (digit7 c)
     else c)"

definition upper_char :: "char \<Rightarrow> char" where
  "upper_char c = (if is_lower c
     then Char (digit0 c) (digit1 c) (digit2 c) (digit3 c) (digit4 c) False (digit6 c) (digit7 c)
     else c)"

definition ascii_char :: "char \<Rightarrow> bool" where
  "ascii_char c \<longleftrightarrow> \<not> digit7 c"

text \<open>A byte that continues a multi-byte character: \<open>10xxxxxx\<close>.\<close>

definition continuation_byte :: "char \<Rightarrow> bool" where
  "continuation_byte c \<longleftrightarrow> digit7 c \<and> \<not> digit6 c"

definition digit_val :: "char \<Rightarrow> nat" where
  "digit_val c = of_char c - 48"

definition to_ascii_lowercase :: "string \<Rightarrow> string" where
  "to_ascii_lowercase s = map lower_char s"

definition to_ascii_uppercase :: "string \<Rightarrow> string" where
  "to_ascii_uppercase s = map upper_char s"

definition eq_ignore_ascii_case :: "string \<Rightarrow> string \<Rightarrow> bool" where
  "eq_ignore_ascii_case s t \<longleftrightarrow> to_ascii_lowercase s = to_ascii_lowercase t"

definition is_ascii :: "string \<Rightarrow> bool" where
  "is_ascii s \<longleftrightarrow> list_all ascii_char s"

definition all_digits :: "string \<Rightarrow> bool" where
  "all_digits s \<longleftrightarrow> list_all is_digit s"

text \<open>\<open>s.chars().count()\<close>: every character has one byte that is not a continuation byte.\<close>

definition char_count :: "string \<Rightarrow> nat" where
  "char_count s = length (filter (\<lambda>c. \<not> continuation_byte c) s)"

lemma lower_char_idem [simp]: "lower_char (lower_char c) = lower_char c"
  by (auto simp: lower_char_def is_upper_def)

lemma not_upper_lower_char [simp]: "\<not> is_upper (lower_char c)"
  by (auto simp: lower_char_def is_upper_def)

lemma lower_char_not_upper [simp]: "\<not> is_upper c \<Longrightarrow> lower_char c = c"
  by (simp add: lower_char_def)

lemma lower_char_eq_iff:
  "c \<notin> set ''abcdefghijklmnopqrstuvwxyz'' \<Longrightarrow> lower_char d = c \<longleftrightarrow> d = c \<and> \<not> is_upper c"
  by (auto simp: lower_char_def is_upper_def)

lemma length_to_ascii_lowercase [simp]: "length (to_ascii_lowercase s) = length s"
  by (simp add: to_ascii_lowercase_def)

lemma to_ascii_lowercase_idem [simp]:
  "to_ascii_lowercase (to_ascii_lowercase s) = to_ascii_lowercase s"
  by (simp add: to_ascii_lowercase_def)

lemma to_ascii_lowercase_append [simp]:
  "to_ascii_lowercase (s @ t) = to_ascii_lowercase s @ to_ascii_lowercase t"
  by (simp add: to_ascii_lowercase_def)

lemma to_ascii_lowercase_Nil [simp]: "to_ascii_lowercase [] = []"
  by (simp add: to_ascii_lowercase_def)

lemma to_ascii_lowercase_eq_Nil [simp]: "to_ascii_lowercase s = [] \<longleftrightarrow> s = []"
  by (simp add: to_ascii_lowercase_def)

lemma to_ascii_lowercase_Cons [simp]:
  "to_ascii_lowercase (c # s) = lower_char c # to_ascii_lowercase s"
  by (simp add: to_ascii_lowercase_def)

lemma eq_ignore_ascii_case_refl [simp]: "eq_ignore_ascii_case s s"
  by (simp add: eq_ignore_ascii_case_def)

lemma is_digit_ascii: "is_digit c \<Longrightarrow> ascii_char c"
  by (auto simp: is_digit_def ascii_char_def)

lemma digit_val_less: "is_digit c \<Longrightarrow> digit_val c < 10"
  by (auto simp: is_digit_def digit_val_def)

section \<open>Prefixes, suffixes and searching\<close>

fun strip_prefix :: "string \<Rightarrow> string \<Rightarrow> string option" where
  "strip_prefix [] s = Some s"
| "strip_prefix (c # p) [] = None"
| "strip_prefix (c # p) (d # s) = (if c = d then strip_prefix p s else None)"

definition strip_suffix :: "string \<Rightarrow> string \<Rightarrow> string option" where
  "strip_suffix p s = map_option rev (strip_prefix (rev p) (rev s))"

definition starts_with :: "string \<Rightarrow> string \<Rightarrow> bool" where
  "starts_with p s \<longleftrightarrow> strip_prefix p s \<noteq> None"

definition ends_with :: "string \<Rightarrow> string \<Rightarrow> bool" where
  "ends_with p s \<longleftrightarrow> strip_suffix p s \<noteq> None"

fun find_str :: "string \<Rightarrow> string \<Rightarrow> nat option" where
  "find_str p [] = (if p = [] then Some 0 else None)"
| "find_str p (c # s) =
     (if starts_with p (c # s) then Some 0 else map_option Suc (find_str p s))"

definition contains_str :: "string \<Rightarrow> string \<Rightarrow> bool" where
  "contains_str p s \<longleftrightarrow> find_str p s \<noteq> None"

text \<open>\<open>str::find\<close> for a set of ASCII characters.\<close>

fun find_char :: "(char \<Rightarrow> bool) \<Rightarrow> string \<Rightarrow> nat option" where
  "find_char p [] = None"
| "find_char p (c # s) = (if p c then Some 0 else map_option Suc (find_char p s))"

lemma strip_prefix_iff [simp]: "strip_prefix p s = Some r \<longleftrightarrow> s = p @ r"
  by (induction p s rule: strip_prefix.induct) auto

lemma strip_prefix_append [simp]: "strip_prefix p (p @ r) = Some r"
  by simp

lemma strip_prefix_None: "strip_prefix p s = None \<longleftrightarrow> (\<forall>r. s \<noteq> p @ r)"
  by (metis not_None_eq strip_prefix_iff)

lemma strip_suffix_iff [simp]: "strip_suffix p s = Some r \<longleftrightarrow> s = r @ p"
  by (auto simp: strip_suffix_def) (metis rev_append rev_rev_ident)

lemma strip_suffix_append [simp]: "strip_suffix p (r @ p) = Some r"
  by simp

lemma strip_suffix_None: "strip_suffix p s = None \<longleftrightarrow> (\<forall>r. s \<noteq> r @ p)"
  by (metis not_None_eq strip_suffix_iff)

lemma starts_with_iff: "starts_with p s \<longleftrightarrow> (\<exists>r. s = p @ r)"
  by (auto simp: starts_with_def)

lemma ends_with_iff: "ends_with p s \<longleftrightarrow> (\<exists>r. s = r @ p)"
  by (auto simp: ends_with_def)

lemma starts_with_Nil [simp]: "starts_with [] s"
  by (simp add: starts_with_def)

lemma ends_with_Nil [simp]: "ends_with [] s"
  by (simp add: ends_with_iff)

lemma find_str_Some:
  "find_str p s = Some i \<Longrightarrow> i \<le> length s \<and> starts_with p (drop i s) \<and>
     (\<forall>j<i. \<not> starts_with p (drop j s))"
proof (induction p s arbitrary: i rule: find_str.induct)
  case (1 p)
  then show ?case by (auto split: if_splits)
next
  case (2 p c s)
  show ?case
  proof (cases "starts_with p (c # s)")
    case True
    with 2 show ?thesis by auto
  next
    case False
    with 2 obtain k where k: "find_str p s = Some k" "i = Suc k" by auto
    with 2(1) [OF False k(1)] False show ?thesis
      by (auto simp: less_Suc_eq_0_disj)
  qed
qed

lemma find_str_None: "find_str p s = None \<Longrightarrow> \<not> starts_with p (drop j s)"
proof (induction p s arbitrary: j rule: find_str.induct)
  case (1 p)
  then show ?case by (auto simp: starts_with_iff split: if_splits)
next
  case (2 p c s)
  then show ?case by (cases j) (auto split: if_splits)
qed

lemma contains_str_iff: "contains_str p s \<longleftrightarrow> (\<exists>a b. s = a @ p @ b)"
proof
  assume "contains_str p s"
  then obtain i where "find_str p s = Some i" by (auto simp: contains_str_def)
  then obtain b where "drop i s = p @ b" using find_str_Some [of p s i] by (auto simp: starts_with_iff)
  then have "s = take i s @ p @ b" by (metis append_take_drop_id)
  then show "\<exists>a b. s = a @ p @ b" by blast
next
  assume "\<exists>a b. s = a @ p @ b"
  then obtain a b where s: "s = a @ p @ b" by blast
  then have "starts_with p (drop (length a) s)" by (simp add: starts_with_iff)
  then show "contains_str p s" using find_str_None by (auto simp: contains_str_def)
qed

lemma find_char_None [simp]: "find_char p s = None \<longleftrightarrow> (\<forall>c\<in>set s. \<not> p c)"
  by (induction s) auto

lemma find_char_Some:
  "find_char p s = Some i \<longleftrightarrow> i < length s \<and> p (s ! i) \<and> (\<forall>j<i. \<not> p (s ! j))"
proof (induction s arbitrary: i)
  case Nil
  then show ?case by simp
next
  case (Cons c s)
  then show ?case by (cases i) (auto simp: less_Suc_eq_0_disj)
qed

lemma find_char_append:
  "\<forall>c\<in>set a. \<not> p c \<Longrightarrow> p d \<Longrightarrow> find_char p (a @ d # b) = Some (length a)"
  by (induction a) auto

section \<open>Splitting\<close>

text \<open>\<open>split_once\<close> and \<open>rsplit_once\<close> at a character, \<open>split_once\<close> at a text, and
  \<open>split\<close> at every character of a set.\<close>

definition split_once_char :: "(char \<Rightarrow> bool) \<Rightarrow> string \<Rightarrow> (string \<times> string) option" where
  "split_once_char p s =
     (case dropWhile (\<lambda>c. \<not> p c) s of
        [] \<Rightarrow> None
      | _ # r \<Rightarrow> Some (takeWhile (\<lambda>c. \<not> p c) s, r))"

definition rsplit_once_char :: "(char \<Rightarrow> bool) \<Rightarrow> string \<Rightarrow> (string \<times> string) option" where
  "rsplit_once_char p s = map_option (\<lambda>(a, b). (rev b, rev a)) (split_once_char p (rev s))"

definition split_once_str :: "string \<Rightarrow> string \<Rightarrow> (string \<times> string) option" where
  "split_once_str p s =
     map_option (\<lambda>i. (take i s, drop (i + length p) s)) (find_str p s)"

fun split_chars :: "(char \<Rightarrow> bool) \<Rightarrow> string \<Rightarrow> string list" where
  "split_chars p [] = [[]]"
| "split_chars p (c # s) =
     (if p c then [] # split_chars p s
      else (case split_chars p s of
              [] \<Rightarrow> [[c]]
            | w # ws \<Rightarrow> (c # w) # ws))"

lemma split_once_char_append:
  "\<forall>c\<in>set a. \<not> p c \<Longrightarrow> p d \<Longrightarrow> split_once_char p (a @ d # b) = Some (a, b)"
  by (simp add: split_once_char_def takeWhile_tail)

lemma split_once_char_Some:
  "split_once_char p s = Some (a, b) \<longleftrightarrow>
     (\<exists>d. s = a @ d # b \<and> p d \<and> (\<forall>c\<in>set a. \<not> p c))"
proof
  assume h: "split_once_char p s = Some (a, b)"
  then obtain d where d: "dropWhile (\<lambda>c. \<not> p c) s = d # b" "a = takeWhile (\<lambda>c. \<not> p c) s"
    by (auto simp: split_once_char_def split: list.splits)
  then have "p d" by (metis dropWhile_eq_Cons_conv)
  moreover have "s = a @ d # b" using d by (metis takeWhile_dropWhile_id)
  moreover have "\<forall>c\<in>set a. \<not> p c" using d(2) by (auto dest: set_takeWhileD)
  ultimately show "\<exists>d. s = a @ d # b \<and> p d \<and> (\<forall>c\<in>set a. \<not> p c)" by blast
next
  assume "\<exists>d. s = a @ d # b \<and> p d \<and> (\<forall>c\<in>set a. \<not> p c)"
  then show "split_once_char p s = Some (a, b)" by (auto simp: split_once_char_append)
qed

lemma split_once_char_None [simp]: "split_once_char p s = None \<longleftrightarrow> (\<forall>c\<in>set s. \<not> p c)"
proof -
  have "dropWhile (\<lambda>c. \<not> p c) s = [] \<longleftrightarrow> (\<forall>c\<in>set s. \<not> p c)"
    by simp
  then show ?thesis
    by (cases "dropWhile (\<lambda>c. \<not> p c) s")
      (auto simp: split_once_char_def simp del: dropWhile_eq_Nil_conv)
qed

lemma rsplit_once_char_append:
  "\<forall>c\<in>set b. \<not> p c \<Longrightarrow> p d \<Longrightarrow> rsplit_once_char p (a @ d # b) = Some (a, b)"
  by (simp add: rsplit_once_char_def split_once_char_append)

lemma rsplit_once_char_Some:
  "rsplit_once_char p s = Some (a, b) \<longleftrightarrow>
     (\<exists>d. s = a @ d # b \<and> p d \<and> (\<forall>c\<in>set b. \<not> p c))"
proof
  assume "rsplit_once_char p s = Some (a, b)"
  then obtain d where "rev s = rev b @ d # rev a" "p d" "\<forall>c\<in>set (rev b). \<not> p c"
    by (auto simp: rsplit_once_char_def split_once_char_Some)
  then have "s = a @ d # b" by (metis append.assoc append_Cons append_Nil rev.simps(2)
        rev_append rev_rev_ident)
  with \<open>p d\<close> \<open>\<forall>c\<in>set (rev b). \<not> p c\<close> show "\<exists>d. s = a @ d # b \<and> p d \<and> (\<forall>c\<in>set b. \<not> p c)"
    by auto
next
  assume "\<exists>d. s = a @ d # b \<and> p d \<and> (\<forall>c\<in>set b. \<not> p c)"
  then show "rsplit_once_char p s = Some (a, b)" by (auto simp: rsplit_once_char_append)
qed

lemma rsplit_once_char_None [simp]: "rsplit_once_char p s = None \<longleftrightarrow> (\<forall>c\<in>set s. \<not> p c)"
  by (simp add: rsplit_once_char_def)

lemma split_once_str_Some:
  "split_once_str p s = Some (a, b) \<Longrightarrow> s = a @ p @ b"
proof -
  assume "split_once_str p s = Some (a, b)"
  then obtain i where i: "find_str p s = Some i" "a = take i s" "b = drop (i + length p) s"
    by (auto simp: split_once_str_def)
  then obtain r where r: "drop i s = p @ r" using find_str_Some [of p s i] by (auto simp: starts_with_iff)
  then have "b = r" using i(3) by (metis append_eq_conv_conj drop_drop add.commute)
  with r i(2) show ?thesis by (metis append_take_drop_id)
qed

lemma split_once_str_None: "split_once_str p s = None \<longleftrightarrow> \<not> contains_str p s"
  by (simp add: split_once_str_def contains_str_def)

lemma split_chars_not_Nil [simp]: "split_chars p s \<noteq> []"
  by (induction s) (auto split: list.splits)

lemma split_chars_none: "\<forall>c\<in>set s. \<not> p c \<Longrightarrow> split_chars p s = [s]"
  by (induction s) auto

lemma split_chars_append:
  "\<forall>c\<in>set a. \<not> p c \<Longrightarrow> p d \<Longrightarrow> split_chars p (a @ d # b) = a # split_chars p b"
  by (induction a) auto

lemma split_chars_no_sep: "w \<in> set (split_chars p s) \<Longrightarrow> c \<in> set w \<Longrightarrow> \<not> p c"
proof (induction s arbitrary: w)
  case Nil
  then show ?case by simp
next
  case (Cons d s)
  then show ?case by (cases "split_chars p s") (fastforce split: if_splits)+
qed

section \<open>Trimming\<close>

text \<open>The number of bytes of the white-space character (Unicode \<open>White_Space\<close>) a text
  starts with, 0 when it starts with none; and the same for the reversed text's end.\<close>

definition ascii_trim_chars :: string where
  "ascii_trim_chars = [CHR '' '', CHR 0x09, CHR 0x0A, CHR 0x0B, CHR 0x0C, CHR 0x0D]"

definition ws2 :: "string list" where
  "ws2 = [[CHR 0xC2, CHR 0x85], [CHR 0xC2, CHR 0xA0]]"

definition ws3 :: "string list" where
  "ws3 = [[CHR 0xE1, CHR 0x9A, CHR 0x80],
     [CHR 0xE2, CHR 0x80, CHR 0x80], [CHR 0xE2, CHR 0x80, CHR 0x81],
     [CHR 0xE2, CHR 0x80, CHR 0x82], [CHR 0xE2, CHR 0x80, CHR 0x83],
     [CHR 0xE2, CHR 0x80, CHR 0x84], [CHR 0xE2, CHR 0x80, CHR 0x85],
     [CHR 0xE2, CHR 0x80, CHR 0x86], [CHR 0xE2, CHR 0x80, CHR 0x87],
     [CHR 0xE2, CHR 0x80, CHR 0x88], [CHR 0xE2, CHR 0x80, CHR 0x89],
     [CHR 0xE2, CHR 0x80, CHR 0x8A], [CHR 0xE2, CHR 0x80, CHR 0xA8],
     [CHR 0xE2, CHR 0x80, CHR 0xA9], [CHR 0xE2, CHR 0x80, CHR 0xAF],
     [CHR 0xE2, CHR 0x81, CHR 0x9F], [CHR 0xE3, CHR 0x80, CHR 0x80]]"

definition ws_len :: "string \<Rightarrow> nat" where
  "ws_len s = (case s of
       [] \<Rightarrow> 0
     | c # _ \<Rightarrow>
         if ascii_char c then (if c \<in> set ascii_trim_chars then 1 else 0)
         else if take 2 s \<in> set ws2 then 2
         else if take 3 s \<in> set ws3 then 3 else 0)"

definition ws_len_rev :: "string \<Rightarrow> nat" where
  "ws_len_rev s = (case s of
       [] \<Rightarrow> 0
     | c # _ \<Rightarrow>
         if ascii_char c then (if c \<in> set ascii_trim_chars then 1 else 0)
         else if rev (take 2 s) \<in> set ws2 then 2
         else if rev (take 3 s) \<in> set ws3 then 3 else 0)"

text \<open>Drop matches of \<open>p\<close> from the front while there is one.\<close>

function trim_with :: "(string \<Rightarrow> nat) \<Rightarrow> string \<Rightarrow> string" where
  "trim_with p s = (if s = [] \<or> p s = 0 then s else trim_with p (drop (p s) s))"
  by pat_completeness auto
termination
  by (relation "measure (\<lambda>(p, s). length s)") auto

declare trim_with.simps [simp del]

definition trim_text :: "string \<Rightarrow> string" where
  "trim_text s = rev (trim_with ws_len_rev (rev (trim_with ws_len s)))"

fun has_whitespace :: "string \<Rightarrow> bool" where
  "has_whitespace [] = False"
| "has_whitespace (c # s) = (0 < ws_len (c # s) \<or> has_whitespace s)"

text \<open>\<open>trim_matches\<close> and \<open>trim_end_matches\<close> for a set of ASCII characters.\<close>

definition trim_chars :: "(char \<Rightarrow> bool) \<Rightarrow> string \<Rightarrow> string" where
  "trim_chars p s = rev (dropWhile p (rev (dropWhile p s)))"

definition trim_end_chars :: "(char \<Rightarrow> bool) \<Rightarrow> string \<Rightarrow> string" where
  "trim_end_chars p s = rev (dropWhile p (rev s))"

definition ascii_whitespace :: "char \<Rightarrow> bool" where
  "ascii_whitespace c \<longleftrightarrow> c \<in> {CHR '' '', CHR 0x09, CHR 0x0A, CHR 0x0C, CHR 0x0D}"

lemma trim_with_sublist: "suffix (trim_with p s) s"
proof (induction p s rule: trim_with.induct)
  case (1 p s)
  show ?case
  proof (cases "s = [] \<or> p s = 0")
    case True
    then show ?thesis by (simp add: trim_with.simps [of p s])
  next
    case False
    with 1 have "suffix (trim_with p (drop (p s) s)) (drop (p s) s)" by simp
    then have "suffix (trim_with p (drop (p s) s)) s"
      by (rule suffix_order.trans [OF _ suffix_drop])
    with False show ?thesis by (simp add: trim_with.simps [of p s])
  qed
qed

lemma trim_with_stop: "trim_with p s = [] \<or> p (trim_with p s) = 0"
proof (induction p s rule: trim_with.induct)
  case (1 p s)
  then show ?case by (cases "s = [] \<or> p s = 0") (auto simp: trim_with.simps [of p s])
qed

lemma trim_with_idem [simp]: "trim_with p (trim_with p s) = trim_with p s"
  using trim_with_stop [of p s] by (auto simp: trim_with.simps [of p "trim_with p s"])

lemma trim_text_clean:
  assumes "ws_len s = 0" and "ws_len_rev (rev s) = 0"
  shows "trim_text s = s"
  using assms by (simp add: trim_text_def trim_with.simps)

lemma trim_text_Nil [simp]: "trim_text [] = []"
  by (simp add: trim_text_def trim_with.simps)

lemma length_trim_text: "length (trim_text s) \<le> length s"
proof -
  have "length (trim_text s) \<le> length (trim_with ws_len s)"
    using suffix_length_le [OF trim_with_sublist [of ws_len_rev "rev (trim_with ws_len s)"]]
    by (simp add: trim_text_def)
  also have "\<dots> \<le> length s" by (rule suffix_length_le [OF trim_with_sublist])
  finally show ?thesis .
qed

lemma set_trim_text: "set (trim_text s) \<subseteq> set s"
proof -
  have "set (trim_with ws_len_rev (rev (trim_with ws_len s))) \<subseteq> set (rev (trim_with ws_len s))"
    by (rule set_mono_suffix [OF trim_with_sublist])
  moreover have "set (trim_with ws_len s) \<subseteq> set s"
    by (rule set_mono_suffix [OF trim_with_sublist])
  ultimately show ?thesis by (auto simp: trim_text_def)
qed

section \<open>Numbers in decimal\<close>

fun digits_value :: "nat \<Rightarrow> string \<Rightarrow> nat" where
  "digits_value acc [] = acc"
| "digits_value acc (c # s) = digits_value (10 * acc + digit_val c) s"

definition digit_char :: "nat \<Rightarrow> char" where
  "digit_char d = ''0123456789'' ! d"

fun show_nat :: "nat \<Rightarrow> string" where
  "show_nat n = (if n < 10 then [digit_char n] else show_nat (n div 10) @ [digit_char (n mod 10)])"

declare show_nat.simps [simp del]

lemma digit_char_digit: "d < 10 \<Longrightarrow> is_digit (digit_char d)"
  unfolding is_digit_def digit_char_def by (rule nth_mem) simp

lemma digit_val_digit_char: "d < 10 \<Longrightarrow> digit_val (digit_char d) = d"
proof -
  assume "d < 10"
  then have "d \<in> {0, 1, 2, 3, 4, 5, 6, 7, 8, 9}" by auto
  then show ?thesis by (auto simp: digit_char_def digit_val_def)
qed

lemma digits_value_append: "digits_value a (s @ t) = digits_value (digits_value a s) t"
  by (induction s arbitrary: a) auto

lemma show_nat_not_Nil [simp]: "show_nat n \<noteq> []"
  by (subst show_nat.simps) simp

lemma show_nat_digits: "c \<in> set (show_nat n) \<Longrightarrow> is_digit c"
proof (induction n rule: show_nat.induct)
  case (1 n)
  then show ?case
    by (cases "n < 10") (auto simp: show_nat.simps [of n] digit_char_digit)
qed

lemma all_digits_show_nat [simp]: "all_digits (show_nat n)"
  by (auto simp: all_digits_def list_all_iff show_nat_digits)

lemma digits_value_show_nat [simp]: "digits_value 0 (show_nat n) = n"
proof (induction n rule: show_nat.induct)
  case (1 n)
  show ?case
  proof (cases "n < 10")
    case True
    then show ?thesis by (simp add: show_nat.simps [of n] digit_val_digit_char)
  next
    case False
    with 1 show ?thesis
      by (simp add: show_nat.simps [of n] digits_value_append digit_val_digit_char)
  qed
qed

lemma show_nat_no_leading_zero: "0 < n \<Longrightarrow> hd (show_nat n) \<noteq> CHR ''0''"
proof (induction n rule: show_nat.induct)
  case (1 n)
  show ?case
  proof (cases "n < 10")
    case True
    with 1 have "n \<in> {1, 2, 3, 4, 5, 6, 7, 8, 9}" by auto
    with True show ?thesis by (auto simp: show_nat.simps [of n] digit_char_def)
  next
    case False
    with 1 show ?thesis by (simp add: show_nat.simps [of n])
  qed
qed

section \<open>Characters\<close>

text \<open>\<open>chars()\<close>: every character as the bytes that encode it, a byte that is not a
  continuation byte and the continuation bytes after it.\<close>

function chars :: "string \<Rightarrow> string list" where
  "chars [] = []"
| "chars (c # s) =
     (c # takeWhile continuation_byte s) # chars (dropWhile continuation_byte s)"
  by pat_completeness auto
termination
  by (relation "measure length") (auto simp: le_imp_less_Suc length_dropWhile_le)

definition byte_val :: "char \<Rightarrow> nat" where
  "byte_val c = of_char c"

text \<open>\<open>char::is_control\<close>: the C0 characters, DEL and the C1 characters, U+0080 to U+009F.\<close>

definition is_control :: "string \<Rightarrow> bool" where
  "is_control ch \<longleftrightarrow> (case ch of
       [c] \<Rightarrow> byte_val c < 0x20 \<or> byte_val c = 0x7F
     | [c, d] \<Rightarrow> c = CHR 0xC2 \<and> 0x80 \<le> byte_val d \<and> byte_val d < 0xA0
     | _ \<Rightarrow> False)"

text \<open>\<open>String::from_utf8\<close>: whether the bytes are well-formed UTF-8, by the table of byte
  ranges of the Unicode standard.\<close>

fun valid_utf8 :: "string \<Rightarrow> bool" where
  "valid_utf8 [] = True"
| "valid_utf8 (c # s) =
     (let b = byte_val c; cont = (\<lambda>lo hi d. lo \<le> byte_val d \<and> byte_val d \<le> hi) in
      if b < 0x80 then valid_utf8 s
      else if 0xC2 \<le> b \<and> b \<le> 0xDF then
        (case s of d # r \<Rightarrow> cont 0x80 0xBF d \<and> valid_utf8 r | _ \<Rightarrow> False)
      else if 0xE0 \<le> b \<and> b \<le> 0xEF then
        (case s of
           d # e # r \<Rightarrow>
             cont (if b = 0xE0 then 0xA0 else 0x80) (if b = 0xED then 0x9F else 0xBF) d
               \<and> cont 0x80 0xBF e \<and> valid_utf8 r
         | _ \<Rightarrow> False)
      else if 0xF0 \<le> b \<and> b \<le> 0xF4 then
        (case s of
           d # e # f # r \<Rightarrow>
             cont (if b = 0xF0 then 0x90 else 0x80) (if b = 0xF4 then 0x8F else 0xBF) d
               \<and> cont 0x80 0xBF e \<and> cont 0x80 0xBF f \<and> valid_utf8 r
         | _ \<Rightarrow> False)
      else False)"

text \<open>\<open>match_indices\<close>: the offsets of the matches of a text, left to right, none of which
  overlaps another.\<close>

function match_indices :: "string \<Rightarrow> nat \<Rightarrow> string \<Rightarrow> nat list" where
  "match_indices p off s =
     (case find_str p s of
        None \<Rightarrow> []
      | Some i \<Rightarrow>
          if p = [] \<or> s = [] then [off + i]
          else (off + i) # match_indices p (off + i + length p) (drop (i + length p) s))"
  by pat_completeness auto
termination
  by (relation "measure (\<lambda>(p, off, s). length s)") auto

declare match_indices.simps [simp del]

text \<open>\<open>join\<close> at a character.\<close>

fun intercalate_char :: "char \<Rightarrow> string list \<Rightarrow> string" where
  "intercalate_char c [] = []"
| "intercalate_char c [w] = w"
| "intercalate_char c (w # v # ws) = w @ c # intercalate_char c (v # ws)"

lemma find_char_find: "find_char p s = List.find (\<lambda>i. p (s ! i)) [0..<length s]"
proof (cases "find_char p s")
  case None
  then have "\<not> (\<exists>i. i \<in> set [0..<length s] \<and> p (s ! i))" by simp
  then have "List.find (\<lambda>i. p (s ! i)) [0..<length s] = None" by (auto simp: find_None_iff)
  with None show ?thesis by simp
next
  case (Some i)
  then have "i < length s" "p (s ! i)" "\<forall>j<i. \<not> p (s ! j)" by (simp_all add: find_char_Some)
  then have "List.find (\<lambda>i. p (s ! i)) [0..<length s] = Some i"
    by (auto simp: find_Some_iff intro!: exI [of _ i])
  with Some show ?thesis by simp
qed

lemma concat_chars [simp]: "concat (chars s) = s"
  by (induction s rule: chars.induct) simp_all

lemma chars_not_Nil: "ch \<in> set (chars s) \<Longrightarrow> ch \<noteq> []"
  by (induction s rule: chars.induct) auto

end
