(* ===== verification/Net_Addr.thy ===== *)
theory Net_Addr
  imports Text
begin

unbundle bit_operations_syntax

text \<open>
  The part of Rust's \<open>std::net\<close> the source uses: \<open>Ipv4Addr\<close> and \<open>Ipv6Addr\<close> as words of
  32 and 128 bits, their \<open>FromStr\<close> parsers (as \<open>core::net::parser\<close> reads the text: a
  decimal octet has no leading zero, an IPv6 address may end in a dotted quad), their
  \<open>Display\<close>, and the classification methods.
\<close>

datatype ip_addr = IpV4 ipv4_bits | IpV6 ipv6_bits

section \<open>Reading\<close>

definition hex_val :: "char \<Rightarrow> nat option" where
  "hex_val c = (if is_digit c then Some (digit_val c)
     else if lower_char c \<in> set ''abcdef'' then Some (of_char (lower_char c) - 87) else None)"

definition radix_val :: "nat \<Rightarrow> char \<Rightarrow> nat option" where
  "radix_val radix c = (if radix = 16 then hex_val c
     else if is_digit c then Some (digit_val c) else None)"

fun radix_value :: "nat \<Rightarrow> nat \<Rightarrow> string \<Rightarrow> nat" where
  "radix_value radix acc [] = acc"
| "radix_value radix acc (c # s) =
     radix_value radix (radix * acc + unwrap_or 0 (radix_val radix c)) s"

definition read_number ::
    "nat \<Rightarrow> nat \<Rightarrow> bool \<Rightarrow> nat \<Rightarrow> string \<Rightarrow> (nat \<times> string) option" where
  "read_number radix max_digits allow_zero_prefix max_value s =
     (let ds = takeWhile (\<lambda>c. radix_val radix c \<noteq> None) s; n = length ds;
          v = radix_value radix 0 ds
      in if n = 0 \<or> max_digits < n \<or> (\<not> allow_zero_prefix \<and> hd ds = CHR ''0'' \<and> 1 < n)
            \<or> max_value < v
         then None else Some (v, drop n s))"

definition read_separated ::
    "char \<Rightarrow> nat \<Rightarrow> (string \<Rightarrow> ('a \<times> string) option) \<Rightarrow> string \<Rightarrow> ('a \<times> string) option" where
  "read_separated sep i inner s =
     (if i = 0 then inner s
      else (case s of [] \<Rightarrow> None | c # r \<Rightarrow> if c = sep then inner r else None))"

fun read_octets :: "nat \<Rightarrow> nat \<Rightarrow> string \<Rightarrow> (nat list \<times> string) option" where
  "read_octets i 0 s = Some ([], s)"
| "read_octets i (Suc n) s =
     (case read_separated (CHR ''.'') i (read_number 10 3 False 255) s of
        None \<Rightarrow> None
      | Some (v, r) \<Rightarrow>
          (case read_octets (Suc i) n r of
             None \<Rightarrow> None
           | Some (vs, r') \<Rightarrow> Some (v # vs, r')))"

definition ipv4_of_octets :: "nat list \<Rightarrow> ipv4_bits" where
  "ipv4_of_octets os = foldl (\<lambda>w b. w * 256 + of_nat b) 0 os"

definition ipv6_of_segments :: "nat list \<Rightarrow> ipv6_bits" where
  "ipv6_of_segments gs = foldl (\<lambda>w g. w * 65536 + of_nat g) 0 gs"

definition parse_ipv4 :: "string \<Rightarrow> ipv4_bits option" where
  "parse_ipv4 s =
     (if 15 < length s then None
      else (case read_octets 0 4 s of
              Some (os, []) \<Rightarrow> Some (ipv4_of_octets os)
            | _ \<Rightarrow> None))"

text \<open>\<open>read_groups\<close>: up to \<open>limit\<close> groups from group \<open>i\<close> on, the last two of which may be
  written as a dotted quad; whether they were, and the rest of the text.\<close>

function read_groups :: "nat \<Rightarrow> nat \<Rightarrow> string \<Rightarrow> nat list \<times> bool \<times> string" where
  "read_groups limit i s =
     (if limit \<le> i then ([], False, s)
      else (case (if i < limit - 1
                  then read_separated (CHR '':'') i (read_octets 0 4) s else None) of
              Some ([a, b, c, d], r) \<Rightarrow> ([a * 256 + b, c * 256 + d], True, r)
            | _ \<Rightarrow>
                (case read_separated (CHR '':'') i (read_number 16 4 True 65535) s of
                   None \<Rightarrow> ([], False, s)
                 | Some (g, r) \<Rightarrow>
                     (let (gs, v4, r') = read_groups limit (Suc i) r in (g # gs, v4, r')))))"
  by pat_completeness auto
termination
  by (relation "measure (\<lambda>(limit, i, s). limit - i)") auto

declare read_groups.simps [simp del]

definition parse_ipv6 :: "string \<Rightarrow> ipv6_bits option" where
  "parse_ipv6 s =
     (let (front, v4, r) = read_groups 8 0 s in
      if length front = 8 then (if r = [] then Some (ipv6_of_segments front) else None)
      else if v4 then None
      else (case strip_prefix ''::'' r of
              None \<Rightarrow> None
            | Some r1 \<Rightarrow>
                (let (back, _, r2) = read_groups (8 - (length front + 1)) 0 r1 in
                 if r2 = []
                 then Some (ipv6_of_segments
                        (front @ replicate (8 - length front - length back) 0 @ back))
                 else None)))"

definition parse_ip :: "string \<Rightarrow> ip_addr option" where
  "parse_ip s = (case parse_ipv4 s of
      Some v4 \<Rightarrow> Some (IpV4 v4)
    | None \<Rightarrow> map_option IpV6 (parse_ipv6 s))"

section \<open>Writing\<close>

definition octets :: "ipv4_bits \<Rightarrow> nat list" where
  "octets w = map (\<lambda>k. unat (drop_bit k w AND 0xFF)) [24, 16, 8, 0]"

definition segments :: "ipv6_bits \<Rightarrow> nat list" where
  "segments w = map (\<lambda>k. unat (drop_bit k w AND 0xFFFF)) [112, 96, 80, 64, 48, 32, 16, 0]"

definition hex_char :: "nat \<Rightarrow> char" where
  "hex_char d = ''0123456789abcdef'' ! d"

fun show_hex :: "nat \<Rightarrow> string" where
  "show_hex n = (if n < 16 then [hex_char n] else show_hex (n div 16) @ [hex_char (n mod 16)])"

declare show_hex.simps [simp del]

definition show_ipv4 :: "ipv4_bits \<Rightarrow> string" where
  "show_ipv4 w = intercalate_char (CHR ''.'') (map show_nat (octets w))"

text \<open>The longest run of zero segments, the first of the longest: \<open>(start, length)\<close>.\<close>

fun zero_run :: "nat \<Rightarrow> nat \<times> nat \<Rightarrow> nat \<times> nat \<Rightarrow> nat list \<Rightarrow> nat \<times> nat" where
  "zero_run i current longest [] = longest"
| "zero_run i (cs, cl) (ls, ll) (g # gs) =
     (if g = 0 then
        (let c = (if cl = 0 then i else cs, Suc cl)
         in zero_run (Suc i) c (if ll < snd c then c else (ls, ll)) gs)
      else zero_run (Suc i) (0, 0) (ls, ll) gs)"

definition ipv4_mapped :: "ipv6_bits \<Rightarrow> ipv4_bits option" where
  "ipv4_mapped w = (if drop_bit 32 w = 0xFFFF then Some (ucast w) else None)"

definition show_groups :: "nat list \<Rightarrow> string" where
  "show_groups gs = intercalate_char (CHR '':'') (map show_hex gs)"

definition show_ipv6 :: "ipv6_bits \<Rightarrow> string" where
  "show_ipv6 w =
     (case ipv4_mapped w of
        Some v4 \<Rightarrow> ''::ffff:'' @ show_ipv4 v4
      | None \<Rightarrow>
          (let gs = segments w; (st, n) = zero_run 0 (0, 0) (0, 0) gs
           in if 1 < n then show_groups (take st gs) @ ''::'' @ show_groups (drop (st + n) gs)
              else show_groups gs))"

fun show_ip :: "ip_addr \<Rightarrow> string" where
  "show_ip (IpV4 w) = show_ipv4 w"
| "show_ip (IpV6 w) = show_ipv6 w"

section \<open>Classification\<close>

definition ipv4_localhost :: ipv4_bits where "ipv4_localhost = 0x7F000001"
definition ipv6_localhost :: ipv6_bits where "ipv6_localhost = 1"

fun ip_is_loopback :: "ip_addr \<Rightarrow> bool" where
  "ip_is_loopback (IpV4 w) \<longleftrightarrow> drop_bit 24 w = 127"
| "ip_is_loopback (IpV6 w) \<longleftrightarrow> w = ipv6_localhost"

definition ipv4_is_link_local :: "ipv4_bits \<Rightarrow> bool" where
  "ipv4_is_link_local w \<longleftrightarrow> drop_bit 16 w = 0xA9FE"

definition ipv6_is_unicast_link_local :: "ipv6_bits \<Rightarrow> bool" where
  "ipv6_is_unicast_link_local w \<longleftrightarrow> drop_bit 118 w = 0x3FA"

lemmas ip_class_defs [addr_simps] =
  ipv4_localhost_def ipv6_localhost_def ipv4_is_link_local_def ipv6_is_unicast_link_local_def
  ipv4_mapped_def

end
