(* ===== verification/Util.thy ===== *)
theory Util
  imports Net_Addr
begin

unbundle bit_operations_syntax

text \<open>
  The helpers of \<open>src/util.rs\<close>: the host and port grammar, the glob matcher, percent
  decoding, the masks that keep a credential out of every message, and the script digest.
  The mask scans a text once through tables of offsets, as the source does; a reference
  definition that looks for the delimiter inside each span states what the tables compute.
\<close>

section \<open>Host and port\<close>

text \<open>\<open>quote_if_not_credential_shaped\<close> answers with the text, to be shown quoted, or with
  what stands for it.\<close>

datatype quoted = Quoted string | Withheld string

text \<open>The reason of a parse error: one constructor for every message of the source, holding
  the values the message interpolates.\<close>

datatype reason =
    UnbalancedBracket
  | TextAfterLiteral
  | PortOutOfRange nat
  | PortNotDigits nat nat
  | EmptyAddress
  | AtAfterPath
  | NotValidText
  | MissingHost
  | EmptyPort
  | InvalidIpv6Literal quoted
  | InvalidHost quoted string
  | LooksLikeProxyUrl string
  | ContainsWhitespace
  | NamesScheme
  | SlashInWindowsList
  | LeadingDotInWindowsList
  | NonDecimalCidr
  | NotCidr
  | TrailingDotAsWritten
  | PortInMacosList
  | BracketedNotAddress
  | ForbiddenCharacter string
  | GlobInUnicodeLabel
  | NotIdna
  | EmptyLabel
  | SubdomainOfAddress
  | UnreachableName
  | GnomeLiteralStar
  | MacosLiteralStar
  | NonDecimalIpv4

definition port_from_digits :: "string \<Rightarrow> u16 option" where
  "port_from_digits text =
     (if text = [] \<or> \<not> all_digits text then None
      else (let n = digits_value 0 text in if n < 65536 then Some (of_nat n) else None))"

definition invalid_port_reason :: "string \<Rightarrow> reason" where
  "invalid_port_reason text =
     (let len = char_count text; digits = length (filter is_digit text)
      in if digits = len then PortOutOfRange len else PortNotDigits len digits)"

definition parse_port :: "string \<Rightarrow> reason + u16 option" where
  "parse_port text =
     (if text = [] then Inr None
      else ok_or (invalid_port_reason text) (map_option Some (port_from_digits text)))"

definition split_host_port :: "string \<Rightarrow> reason + (string \<times> u16 option)" where
  "split_host_port input =
     (if starts_with ''['' input then
        (case find_char (\<lambda>c. c = CHR '']'') input of
           None \<Rightarrow> Inl UnbalancedBracket
         | Some end_at \<Rightarrow>
             (let host = take (Suc end_at) input; rest = drop (Suc end_at) input in
              if rest = [] then Inr (host, None)
              else (case strip_prefix '':'' rest of
                      None \<Rightarrow> Inl TextAfterLiteral
                    | Some port \<Rightarrow>
                        (case parse_port port of Inl e \<Rightarrow> Inl e | Inr p \<Rightarrow> Inr (host, p)))))
      else
        (case rposition (\<lambda>c. c = CHR '':'') input of
           Some idx \<Rightarrow>
             if CHR '':'' \<in> set (take idx input) then Inr (input, None)
             else (case parse_port (drop (Suc idx) input) of
                     Inl e \<Rightarrow> Inl e
                   | Inr p \<Rightarrow> Inr (take idx input, p))
         | None \<Rightarrow> Inr (input, None)))"

definition strip_brackets :: "string \<Rightarrow> string" where
  "strip_brackets host =
     (case strip_prefix ''['' host of
        None \<Rightarrow> host
      | Some rest \<Rightarrow> unwrap_or host (strip_suffix '']'' rest))"

section \<open>Globs and percent escapes\<close>

fun glob_parts :: "string list \<Rightarrow> string \<Rightarrow> string option" where
  "glob_parts [] rest = Some rest"
| "glob_parts (part # parts) rest =
     (case find_str part rest of
        Some idx \<Rightarrow> glob_parts parts (drop (idx + length part) rest)
      | None \<Rightarrow> None)"

definition glob_match :: "string \<Rightarrow> string \<Rightarrow> bool" where
  "glob_match pattern text =
     (case split_once_char (\<lambda>c. c = CHR ''*'') pattern of
        None \<Rightarrow> pattern = text
      | Some (first, after_first) \<Rightarrow>
          (let (middle, last_part) =
                 unwrap_or ([], after_first) (rsplit_once_char (\<lambda>c. c = CHR ''*'') after_first)
           in (case strip_prefix first text of
                 None \<Rightarrow> False
               | Some rest \<Rightarrow>
                   (case glob_parts (split_chars (\<lambda>c. c = CHR ''*'') middle) rest of
                      None \<Rightarrow> False
                    | Some rest' \<Rightarrow> ends_with last_part rest'))))"

text \<open>The loop of \<open>percent_decode\<close>, on the bytes from the current one on.\<close>

fun percent_bytes :: "string \<Rightarrow> string" where
  "percent_bytes (c # h # l # s) =
     (if c = CHR ''%'' then
        (case (hex_val h, hex_val l) of
           (Some hi, Some lo) \<Rightarrow> char_of (hi * 16 + lo) # percent_bytes s
         | _ \<Rightarrow> c # percent_bytes (h # l # s))
      else c # percent_bytes (h # l # s))"
| "percent_bytes s = s"

definition percent_decode :: "string \<Rightarrow> string" where
  "percent_decode input =
     (if CHR ''%'' \<notin> set input then input
      else (let out = percent_bytes input in if valid_utf8 out then out else input))"

section \<open>The user-name delimiter\<close>

definition encoded_colon_here :: "string \<Rightarrow> nat \<Rightarrow> bool" where
  "encoded_colon_here s i \<longleftrightarrow>
     get_opt s i = Some (CHR ''%'') \<and> get_opt s (i + 1) = Some (CHR ''3'')
       \<and> (\<exists>h\<in>set ''aA''. get_opt s (i + 2) = Some h)"

definition encoded_colon_at :: "string \<Rightarrow> nat option" where
  "encoded_colon_at text = List.find (encoded_colon_here text) [0..<length text - 2]"

definition earlier_end :: "nat option \<Rightarrow> nat option \<Rightarrow> nat option" where
  "earlier_end literal encoded =
     (case (literal, encoded) of
        (Some l, Some e) \<Rightarrow> Some (if l \<le> e then l + 1 else e + 3)
      | (Some l, None) \<Rightarrow> Some (l + 1)
      | (None, Some e) \<Rightarrow> Some (e + 3)
      | (None, None) \<Rightarrow> None)"

definition userinfo_delimiter_end :: "string \<Rightarrow> nat option" where
  "userinfo_delimiter_end segment =
     earlier_end (find_char (\<lambda>c. c = CHR '':'') segment) (encoded_colon_at segment)"

definition scheme_delimiter_end :: "string \<Rightarrow> nat option" where
  "scheme_delimiter_end token =
     (case find_str ''://'' token of
        None \<Rightarrow> None
      | Some at \<Rightarrow> if userinfo_delimiter_end (take at token) = None then Some (at + 3) else None)"

definition after_scheme :: "string \<Rightarrow> string" where
  "after_scheme token =
     (case scheme_delimiter_end token of None \<Rightarrow> token | Some n \<Rightarrow> drop n token)"

definition withheld_description :: "string \<Rightarrow> string" where
  "withheld_description text =
     ''<'' @ show_nat (char_count text)
       @ '' characters, withheld: it may hold a user:password fragment>''"

definition quote_if_not_credential_shaped :: "string \<Rightarrow> quoted" where
  "quote_if_not_credential_shaped text =
     (if userinfo_delimiter_end text = None then Quoted text
      else Withheld (withheld_description text))"

section \<open>Masking\<close>

definition MASK :: string where "MASK = ''***''"

definition offsets :: "(nat \<Rightarrow> bool) \<Rightarrow> string \<Rightarrow> nat list" where
  "offsets p s = filter p [0..<length s]"

definition boundary_char :: "char \<Rightarrow> bool" where
  "boundary_char c \<longleftrightarrow> c = CHR '' '' \<or> c = CHR 0x09 \<or> c = CHR 0x0A"

definition scheme_here :: "string \<Rightarrow> nat \<Rightarrow> bool" where
  "scheme_here s i \<longleftrightarrow> get_opt s i = Some (CHR '':'') \<and> get_opt s (i + 1) = Some (CHR ''/'')
     \<and> get_opt s (i + 2) = Some (CHR ''/'')"

text \<open>The tables of one pass over the bytes.\<close>

record userinfo_index =
  at_positions :: "nat list"
  boundaries :: "nat list"
  colons :: "nat list"
  encoded_colons :: "nat list"
  schemes :: "nat list"

definition userinfo_index :: "string \<Rightarrow> userinfo_index" where
  "userinfo_index s =
     \<lparr> at_positions = offsets (\<lambda>i. s ! i = CHR ''@'') s,
       boundaries = offsets (\<lambda>i. boundary_char (s ! i)) s,
       colons = offsets (\<lambda>i. s ! i = CHR '':'') s,
       encoded_colons = offsets (encoded_colon_here s) s,
       schemes = offsets (scheme_here s) s \<rparr>"

definition first_from :: "nat list \<Rightarrow> nat \<Rightarrow> nat option" where
  "first_from xs n = get_opt xs (partition_point (\<lambda>x. x < n) xs)"

definition first_delimiter_end :: "userinfo_index \<Rightarrow> nat \<Rightarrow> nat \<Rightarrow> nat option" where
  "first_delimiter_end ix start stop =
     earlier_end (Option.bind (first_from (colons ix) start) (\<lambda>c. if c < stop then Some c else None))
       (Option.bind (first_from (encoded_colons ix) start)
          (\<lambda>e. if e + 3 \<le> stop then Some e else None))"

text \<open>\<open>continues ix s at rest\<close>: the next \<open>@\<close> ends the same userinfo.\<close>

definition same_userinfo :: "string \<Rightarrow> nat \<Rightarrow> nat list \<Rightarrow> bool" where
  "same_userinfo s at later =
     (case later of
        [] \<Rightarrow> False
      | nxt # _ \<Rightarrow>
          (let between = slice (at + 1) nxt s in
           \<not> list_ex (\<lambda>b. boundary_char b \<or> b = CHR 0x0D) between
             \<and> \<not> contains_str ''//'' between))"

definition segment_start :: "userinfo_index \<Rightarrow> nat \<Rightarrow> nat \<Rightarrow> nat" where
  "segment_start ix copied at =
     (let crossed = partition_point (\<lambda>b. b < at) (boundaries ix);
          after_marker = (if crossed = 0 then 0 else boundaries ix ! (crossed - 1) + 1);
          base = max after_marker copied
      in (case first_from (schemes ix) base of
            Some sc \<Rightarrow>
              if sc + 3 \<le> at \<and> first_delimiter_end ix base sc = None then sc + 3 else base
          | None \<Rightarrow> base))"

fun redact_loop :: "userinfo_index \<Rightarrow> string \<Rightarrow> nat list \<Rightarrow> nat \<Rightarrow> string \<Rightarrow> string" where
  "redact_loop ix s [] copied out = out @ drop copied s"
| "redact_loop ix s (at # later) copied out =
     (if same_userinfo s at later then redact_loop ix s later copied out
      else (case first_delimiter_end ix (segment_start ix copied at) at of
              Some delimiter_end \<Rightarrow>
                redact_loop ix s later at (out @ slice copied delimiter_end s @ MASK)
            | None \<Rightarrow> redact_loop ix s later copied out))"

definition redact_userinfo :: "string \<Rightarrow> string" where
  "redact_userinfo input =
     (if CHR ''@'' \<notin> set input then input
      else (let ix = userinfo_index input in redact_loop ix input (at_positions ix) 0 []))"

section \<open>Withholding\<close>

definition blank_split :: "string \<Rightarrow> string list" where
  "blank_split s = split_chars boundary_char s"

definition carries_a_mask_boundary :: "string \<Rightarrow> bool" where
  "carries_a_mask_boundary piece =
     list_ex (\<lambda>at. (3 \<le> at \<and> encoded_colon_here piece (at - 3))
                  \<or> ends_with '':'' (take at piece))
       (match_indices ''***@'' 0 piece)"

fun stranded_tail :: "bool \<Rightarrow> string list \<Rightarrow> bool" where
  "stranded_tail past [] = False"
| "stranded_tail past (piece # pieces) =
     (if past \<and> (case rsplit_once_char (\<lambda>c. c = CHR ''@'') piece of
                    Some (before_at, _) \<Rightarrow> userinfo_delimiter_end (after_scheme before_at) = None
                  | None \<Rightarrow> False)
      then True
      else stranded_tail (past \<or> carries_a_mask_boundary piece) pieces)"

definition mask_boundary_stranded_a_tail :: "string \<Rightarrow> bool" where
  "mask_boundary_stranded_a_tail token = stranded_tail False (blank_split token)"

definition stranded_userinfo_shaped :: "string \<Rightarrow> bool" where
  "stranded_userinfo_shaped token =
     (let rest = after_scheme token;
          rest = (case rsplit_once_char (\<lambda>c. c = CHR ''@'') rest of
                    None \<Rightarrow> rest | Some (_, host_port) \<Rightarrow> host_port);
          head = hd (split_chars (\<lambda>c. c = CHR ''/'' \<or> c = CHR ''?'' \<or> c = CHR ''#'') rest);
          rest = trim_text (if head = [] then rest else head)
      in if parse_ipv6 rest \<noteq> None then False
         else
           (let host = (case rsplit_once_char (\<lambda>c. c = CHR '':'') rest of
                          Some (before, port) \<Rightarrow>
                            (let digits = unwrap_or port (strip_prefix ''-'' port)
                             in if digits \<noteq> [] \<and> all_digits digits then before else rest)
                        | None \<Rightarrow> rest);
                host = strip_brackets host
            in if parse_ipv6 host \<noteq> None then False
               else CHR '':'' \<in> set host \<or> encoded_colon_at host \<noteq> None))"

definition residual_credential_shaped :: "string \<Rightarrow> bool" where
  "residual_credential_shaped token =
     (mask_boundary_stranded_a_tail token
      \<or> list_ex (\<lambda>piece.
           (case rsplit_once_char (\<lambda>c. c = CHR ''@'') piece of
              None \<Rightarrow> stranded_userinfo_shaped piece
            | Some (before_at, _) \<Rightarrow>
                (let userinfo = after_scheme before_at in
                 (case userinfo_delimiter_end userinfo of
                    None \<Rightarrow> False
                  | Some n \<Rightarrow> drop n userinfo \<noteq> MASK) \<and> stranded_userinfo_shaped before_at)))
         (blank_split token))"

definition redact_offending_token :: "string \<Rightarrow> string" where
  "redact_offending_token input =
     (let masked = redact_userinfo input in
      if stranded_userinfo_shaped masked \<or> residual_credential_shaped masked
      then withheld_description masked else masked)"

section \<open>Untrusted text\<close>

definition MAX_UNTRUSTED :: nat where "MAX_UNTRUSTED = 256"

definition ellipsis :: string where "ellipsis = [CHR 0xE2, CHR 0x80, CHR 0xA6]"

definition sanitized_char :: "string \<Rightarrow> string" where
  "sanitized_char ch = (if is_control ch then ''.'' else ch)"

definition sanitize_untrusted :: "string \<Rightarrow> string" where
  "sanitize_untrusted input =
     concat (map sanitized_char (take MAX_UNTRUSTED (chars input)))
       @ (if MAX_UNTRUSTED < length (chars input) then ellipsis else [])"

definition redact_and_sanitize_untrusted :: "string \<Rightarrow> string" where
  "redact_and_sanitize_untrusted input =
     (let controls_replaced = concat (map sanitized_char (chars input))
      in sanitize_untrusted (redact_userinfo controls_replaced))"

section \<open>The script digest\<close>

definition fnv_prime :: u64 where "fnv_prime = 0x100000001b3"

definition fnv_step :: "u64 \<Rightarrow> u8 \<Rightarrow> u64" where
  "fnv_step hash byte = (hash XOR ucast byte) * fnv_prime"

definition fnv1a :: "u8 list \<Rightarrow> u64" where
  "fnv1a bytes = foldl fnv_step 0xcbf29ce484222325 bytes"

end
