(* ===== verification/Glob.thy ===== *)
theory Glob
  imports Util
begin

text \<open>
  What \<open>glob_match\<close> of \<open>src/util.rs\<close> accepts. The reference is the language of the
  pattern, by recursion on its characters: a star stands for any text, every other
  character for itself. The matcher takes the leftmost occurrence of each part and never
  goes back; the equivalence says nothing is lost by that.
\<close>

fun glob_lang :: "string \<Rightarrow> string \<Rightarrow> bool" where
  "glob_lang [] s \<longleftrightarrow> s = []"
| "glob_lang (c # p) s \<longleftrightarrow>
     (if c = CHR ''*'' then list_ex (\<lambda>k. glob_lang p (drop k s)) [0..<Suc (length s)]
      else (case s of [] \<Rightarrow> False | d # r \<Rightarrow> c = d \<and> glob_lang p r))"

definition star :: "char \<Rightarrow> bool" where
  "star c \<longleftrightarrow> c = CHR ''*''"

fun parts_lang :: "string list \<Rightarrow> string \<Rightarrow> string \<Rightarrow> bool" where
  "parts_lang [] l s \<longleftrightarrow> (\<exists>a. s = a @ l)"
| "parts_lang (w # ws) l s \<longleftrightarrow> (\<exists>a r. s = a @ w @ r \<and> parts_lang ws l r)"

lemma glob_lang_star [simp]: "glob_lang (CHR ''*'' # p) s \<longleftrightarrow> (\<exists>a r. s = a @ r \<and> glob_lang p r)"
proof
  assume "glob_lang (CHR ''*'' # p) s"
  then obtain k where "glob_lang p (drop k s)" by (auto simp: list_ex_iff simp del: upt_Suc)
  then show "\<exists>a r. s = a @ r \<and> glob_lang p r" by (metis append_take_drop_id)
next
  assume "\<exists>a r. s = a @ r \<and> glob_lang p r"
  then obtain a r where "s = a @ r" "glob_lang p r" by blast
  then show "glob_lang (CHR ''*'' # p) s"
    by (auto simp: list_ex_iff simp del: upt_Suc intro!: bexI [of _ "length a"])
qed

lemma glob_lang_char:
  "c \<noteq> CHR ''*'' \<Longrightarrow> glob_lang (c # p) s \<longleftrightarrow> (\<exists>r. s = c # r \<and> glob_lang p r)"
  by (cases s) auto

declare glob_lang.simps(2) [simp del]

lemma glob_lang_literal:
  "\<forall>c\<in>set w. \<not> star c \<Longrightarrow> glob_lang (w @ p) s \<longleftrightarrow> (\<exists>r. s = w @ r \<and> glob_lang p r)"
proof (induction w arbitrary: s)
  case Nil
  then show ?case by simp
next
  case (Cons c w)
  then show ?case by (auto simp: star_def glob_lang_char)
qed

lemma parts_lang_suffix: "parts_lang ws l r \<Longrightarrow> parts_lang ws l (a @ r)"
  by (cases ws) (simp_all, (metis append.assoc)+)

lemma glob_lang_parts:
  assumes "\<forall>c\<in>set l. \<not> star c"
  shows "glob_lang (CHR ''*'' # m @ CHR ''*'' # l) s \<longleftrightarrow> parts_lang (split_chars star m) l s"
proof (induction "length m" arbitrary: m s rule: less_induct)
  case less
  have last: "(\<exists>a r. s' = a @ r \<and> glob_lang l r) \<longleftrightarrow> (\<exists>a. s' = a @ l)" for s'
    using glob_lang_literal [OF assms, of "[]"] by auto
  show ?case
  proof (cases "split_once_char star m")
    case None
    then have n: "\<forall>c\<in>set m. \<not> star c" by simp
    show ?thesis
      by (simp add: glob_lang_literal [OF n] split_chars_none [OF n] last) blast
  next
    case (Some ab)
    then obtain a b where m: "m = a @ CHR ''*'' # b" and a: "\<forall>c\<in>set a. \<not> star c"
      by (cases ab) (auto simp: split_once_char_Some star_def)
    have "split_chars star m = a # split_chars star b"
      unfolding m by (rule split_chars_append [OF a]) (simp add: star_def)
    moreover have "glob_lang (CHR ''*'' # b @ CHR ''*'' # l) r \<longleftrightarrow>
        parts_lang (split_chars star b) l r" for r
      using less [of b r] by (simp add: m)
    ultimately show ?thesis
      unfolding m append_assoc append_Cons glob_lang_star [of "a @ _"] glob_lang_literal [OF a]
      by (simp del: glob_lang_star) blast
  qed
qed

lemma glob_parts_iff:
  "parts_lang ws l s \<longleftrightarrow>
     (case glob_parts ws s of None \<Rightarrow> False | Some r \<Rightarrow> ends_with l r)"
proof (induction ws s rule: glob_parts.induct)
  case (1 rest)
  then show ?case by (simp add: ends_with_iff)
next
  case (2 w ws s)
  show ?case
  proof (cases "find_str w s")
    case None
    then have "\<not> contains_str w s" by (simp add: contains_str_def)
    with None show ?thesis by (auto simp: contains_str_iff)
  next
    case (Some i)
    then obtain r0 where i: "i \<le> length s" "drop i s = w @ r0" "\<forall>j<i. \<not> starts_with w (drop j s)"
      using find_str_Some [OF Some] by (auto simp: starts_with_iff)
    then have r0: "r0 = drop (i + length w) s" by (metis add.commute append_eq_conv_conj drop_drop)
    have s: "s = take i s @ w @ r0" using i by (metis append_take_drop_id)
    have "parts_lang (w # ws) l s \<longleftrightarrow> parts_lang ws l r0"
    proof
      assume "parts_lang (w # ws) l s"
      then obtain a r where ar: "s = a @ w @ r" "parts_lang ws l r" by auto
      then have "starts_with w (drop (length a) s)" by (simp add: starts_with_iff)
      with i(3) have "i \<le> length a" by (metis linorder_not_le)
      moreover have "r = drop (length a + length w) s" using ar by simp
      ultimately have "r = drop (length a - i) r0" by (simp add: r0 add.commute)
      then have "r0 = take (length a - i) r0 @ r" by (metis append_take_drop_id)
      with ar(2) show "parts_lang ws l r0" by (metis parts_lang_suffix)
    next
      assume "parts_lang ws l r0"
      with s show "parts_lang (w # ws) l s" by auto
    qed
    with 2 [OF Some] Some show ?thesis by (simp add: r0)
  qed
qed

lemma star_eq: "(\<lambda>c. c = CHR ''*'') = star"
  by (auto simp: star_def)

lemma glob_match_lang: "glob_match pattern text \<longleftrightarrow> glob_lang pattern text"
proof (cases "split_once_char star pattern")
  case None
  then have "\<forall>c\<in>set pattern. \<not> star c" by simp
  from glob_lang_literal [OF this, of "[]"] show ?thesis
    unfolding glob_match_def star_eq None by auto
next
  case (Some ab)
  then obtain w rest where p: "pattern = w @ CHR ''*'' # rest" "\<forall>c\<in>set w. \<not> star c"
      and sp: "split_once_char star pattern = Some (w, rest)"
    by (cases ab) (auto simp: split_once_char_Some star_def)
  obtain m l where ml: "unwrap_or ([], rest) (rsplit_once_char star rest) = (m, l)" by fastforce
  have l: "\<forall>c\<in>set l. \<not> star c" and
    g: "glob_lang (CHR ''*'' # rest) s \<longleftrightarrow> parts_lang (split_chars star m) l s" for s
  proof -
    have "(\<forall>c\<in>set l. \<not> star c) \<and>
      (glob_lang (CHR ''*'' # rest) s \<longleftrightarrow> parts_lang (split_chars star m) l s)" for s
    proof (cases "rsplit_once_char star rest")
      case None
      then have "\<forall>c\<in>set rest. \<not> star c" by simp
      moreover from ml have "m = []" "l = rest" unfolding None by auto
      ultimately show ?thesis
        using glob_lang_literal [of rest "[]"] by auto
    next
      case (Some xy)
      with ml have "rsplit_once_char star rest = Some (m, l)" by simp
      then have "rest = m @ CHR ''*'' # l" "\<forall>c\<in>set l. \<not> star c"
        by (auto simp: rsplit_once_char_Some star_def)
      with glob_lang_parts show ?thesis by simp
    qed
    then show "\<forall>c\<in>set l. \<not> star c"
      "glob_lang (CHR ''*'' # rest) s \<longleftrightarrow> parts_lang (split_chars star m) l s" by auto
  qed
  show ?thesis
  proof (cases "strip_prefix w text")
    case None
    then have "\<not> glob_lang pattern text" 
      by (simp add: p(1) glob_lang_literal [OF p(2)] strip_prefix_None)
    moreover have "\<not> glob_match pattern text"
      using sp ml None by (simp add: glob_match_def star_eq)
    ultimately show ?thesis by simp
  next
    case (Some r)
    then have "text = w @ r" by simp
    then show ?thesis using sp ml g [of r] glob_lang_literal [OF p(2), of "CHR ''*'' # rest" "text"]
      by (simp add: glob_match_def star_eq p(1) glob_parts_iff)
  qed
qed

end
