(* ===== verification/Masking.thy ===== *)
theory Masking
  imports Util
begin

text \<open>
  The mask of \<open>redact_userinfo\<close> in \<open>src/util.rs\<close>. The first half shows that the tables
  of offsets compute what searching each span again computes (\<open>redact_by_rescanning\<close>); the
  second half that a credential written as \<open>user:secret@host\<close>, after a scheme or not, is
  replaced whatever the secret is.
\<close>

section \<open>Finding an offset\<close>

lemma find_map: "List.find p (map f xs) = map_option f (List.find (\<lambda>x. p (f x)) xs)"
  by (induction xs) auto

lemma upt_shift: "[a..<b] = map ((+) a) [0..<b - a]"
  by (rule nth_equalityI) auto

lemma find_upt_shift:
  "List.find p [a..<b] = map_option ((+) a) (List.find (\<lambda>i. p (a + i)) [0..<b - a])"
  by (subst upt_shift) (simp add: find_map)

lemma find_upt_bounded:
  "Option.bind (List.find p [a..<n]) (\<lambda>c. if c < b then Some c else None) =
     List.find p [a..<min b n]"
proof (cases "List.find p [a..<n]")
  case None
  then have "\<forall>i. a \<le> i \<and> i < n \<longrightarrow> \<not> p i" by (auto simp: find_None_iff)
  then have "List.find p [a..<min b n] = None" by (auto simp: find_None_iff)
  with None show ?thesis by simp
next
  case (Some c)
  then obtain k where k: "k < n - a" "c = a + k" "p c" "\<forall>j<k. \<not> p (a + j)"
    by (auto simp: find_Some_iff)
  show ?thesis
  proof (cases "c < b")
    case True
    then have "List.find p [a..<min b n] = Some c"
      using k by (auto simp: find_Some_iff intro!: exI [of _ k])
    with Some True show ?thesis by simp
  next
    case False
    have "\<not> p i" if "a \<le> i" "i < b" for i
      using that False k(2) k(4) by (metis add_diff_inverse_nat less_le_not_le
          linorder_not_less nat_add_left_cancel_less less_trans not_less_iff_gr_or_eq)
    then have "List.find p [a..<min b n] = None" by (auto simp: find_None_iff)
    with Some False show ?thesis by simp
  qed
qed

lemma upt_split: "a \<le> b \<Longrightarrow> b \<le> c \<Longrightarrow> [a..<c] = [a..<b] @ [b..<c]" for a :: nat
  by (metis le_add_diff_inverse upt_add_eq_append)

lemma dropWhile_filter_upt:
  "dropWhile (\<lambda>x. x < a) (filter p [0..<n]) = filter p [a..<n]"
proof (cases "a \<le> n")
  case True
  then have "[0..<n] = [0..<a] @ [a..<n]" by (metis le0 upt_add_eq_append le_add_diff_inverse)
  moreover have "dropWhile (\<lambda>x. x < a) (filter p [0..<a] @ ys) = dropWhile (\<lambda>x. x < a) ys" for ys
    by (rule dropWhile_append2) auto
  moreover have "dropWhile (\<lambda>x. x < a) (filter p [a..<n]) = filter p [a..<n]"
    using hd_in_set [of "filter p [a..<n]"] by (fastforce simp: dropWhile_eq_self_iff)
  ultimately show ?thesis by simp
next
  case False
  then have "dropWhile (\<lambda>x. x < a) (filter p [0..<n]) = []" by auto
  with False show ?thesis by simp
qed

lemma takeWhile_filter_upt:
  "a \<le> n \<Longrightarrow> takeWhile (\<lambda>x. x < a) (filter p [0..<n]) = filter p [0..<a]"
proof -
  assume "a \<le> n"
  then have "[0..<n] = [0..<a] @ [a..<n]" by (metis le0 upt_add_eq_append le_add_diff_inverse)
  moreover have "takeWhile (\<lambda>x. x < a) (filter p [0..<a] @ ys) =
      filter p [0..<a] @ takeWhile (\<lambda>x. x < a) ys" for ys
    by (rule takeWhile_append2) auto
  moreover have "takeWhile (\<lambda>x. x < a) (filter p [a..<n]) = []"
    using hd_in_set [of "filter p [a..<n]"] by (fastforce simp: takeWhile_eq_Nil_iff)
  ultimately show ?thesis by simp
qed

lemma find_filter: "List.find p xs = (case filter p xs of [] \<Rightarrow> None | y # _ \<Rightarrow> Some y)"
  by (induction xs) auto

lemma first_from_offsets: "first_from (offsets p s) a = List.find p [a..<length s]"
  by (simp add: first_from_def get_partition_point offsets_def dropWhile_filter_upt find_filter)

lemma rposition_snoc [simp]:
  "rposition p (xs @ [x]) = (if p x then Some (length xs) else rposition p xs)"
  by (induction xs) auto

lemma rposition_last:
  "rposition p xs =
     (let f = filter (\<lambda>i. p (xs ! i)) [0..<length xs] in if f = [] then None else Some (last f))"
proof (induction xs rule: rev_induct)
  case Nil
  then show ?case by simp
next
  case (snoc x xs)
  have "filter (\<lambda>i. p ((xs @ [x]) ! i)) [0..<length xs] = filter (\<lambda>i. p (xs ! i)) [0..<length xs]"
    by (rule filter_cong) (auto simp: nth_append)
  with snoc show ?case by (auto simp: Let_def)
qed

lemma get_opt_drop [simp]: "get_opt (drop i s) j = get_opt s (i + j)"
  by (auto simp: get_opt_eq)

lemma get_opt_take [simp]: "get_opt (take n s) j = (if j < n then get_opt s j else None)"
  by (auto simp: get_opt_eq)

lemma get_opt_slice: "get_opt (slice a b s) i = (if i < b - a then get_opt s (a + i) else None)"
  by (simp add: slice_def)

section \<open>The tables compute the delimiter of the span\<close>

definition delimiter_in :: "string \<Rightarrow> nat \<Rightarrow> nat \<Rightarrow> nat option" where
  "delimiter_in s a b = map_option ((+) a) (userinfo_delimiter_end (slice a b s))"

lemma earlier_end_shift:
  "earlier_end (map_option ((+) a) x) (map_option ((+) a) y) = map_option ((+) a) (earlier_end x y)"
  by (cases x; cases y) (auto simp: earlier_end_def)

lemma encoded_colon_here_slice:
  "encoded_colon_here (slice a b s) i \<longleftrightarrow> i + 2 < b - a \<and> encoded_colon_here s (a + i)"
  by (auto simp: encoded_colon_here_def get_opt_slice add.assoc split: if_splits)

lemma find_char_slice:
  assumes "b \<le> length s"
  shows "map_option ((+) a) (find_char p (slice a b s)) = List.find (\<lambda>i. p (s ! i)) [a..<b]"
proof -
  have "List.find (\<lambda>i. p (slice a b s ! i)) [0..<b - a] = List.find (\<lambda>i. p (s ! (a + i))) [0..<b - a]"
    using assms by (intro find_cong refl) auto
  then show ?thesis using assms by (simp add: find_char_find find_upt_shift [of _ a b])
qed

lemma encoded_colon_at_slice:
  assumes "b \<le> length s"
  shows "map_option ((+) a) (encoded_colon_at (slice a b s)) =
     List.find (encoded_colon_here s) [a..<b - 2]"
proof -
  have "List.find (encoded_colon_here (slice a b s)) [0..<b - a - 2] =
      List.find (\<lambda>i. encoded_colon_here s (a + i)) [0..<b - a - 2]"
    by (intro find_cong refl) (auto simp: encoded_colon_here_slice)
  then show ?thesis using assms
    by (simp add: encoded_colon_at_def find_upt_shift [of _ a "b - 2"] diff_right_commute)
qed

lemma first_delimiter_end_index:
  assumes "b \<le> length s"
  shows "first_delimiter_end (userinfo_index s) a b = delimiter_in s a b"
proof -
  have e: "(\<lambda>e. if e + 3 \<le> b then Some e else None) = (\<lambda>e. if e < b - 2 then Some e else None)"
    by (rule ext) (simp add: less_diff_conv)
  show ?thesis
    using assms
    by (simp add: first_delimiter_end_def userinfo_index_def first_from_offsets e find_upt_bounded
        delimiter_in_def userinfo_delimiter_end_def min.absorb1
        find_char_slice encoded_colon_at_slice flip: earlier_end_shift)
qed

lemma scheme_here_0: "scheme_here s 0 \<longleftrightarrow> starts_with ''://'' s"
  by (cases s; cases "tl s"; cases "tl (tl s)")
    (auto simp: scheme_here_def starts_with_def get_opt_eq numeral_2_eq_2)

lemma scheme_here_drop: "scheme_here s i \<longleftrightarrow> starts_with ''://'' (drop i s)"
  by (simp flip: scheme_here_0) (simp add: scheme_here_def)


lemma find_str_find:
  "find_str p s = List.find (\<lambda>i. starts_with p (drop i s)) [0..<Suc (length s)]"
proof (induction p s rule: find_str.induct)
  case (1 p)
  then show ?case by (auto simp: starts_with_iff)
next
  case (2 p c s)
  have "[0..<Suc (length (c # s))] = 0 # map Suc [0..<Suc (length s)]"
    by (simp add: map_Suc_upt upt_conv_Cons del: upt_Suc)
  with 2 show ?case by (simp add: find_map del: upt_Suc)
qed

lemma find_str_scheme: "find_str ''://'' s = List.find (scheme_here s) [0..<length s - 2]"
proof -
  have short: "\<not> scheme_here s i" if "length s - 2 \<le> i" for i
    using that by (auto simp: scheme_here_def get_opt_eq split: if_splits)
  have "List.find (scheme_here s) [0..<Suc (length s)] =
      List.find (scheme_here s) [0..<length s - 2]"
  proof -
    have "[0..<Suc (length s)] = [0..<length s - 2] @ [length s - 2..<Suc (length s)]"
      by (metis bot_nat_0.extremum diff_le_self le_SucI le_add_diff_inverse upt_add_eq_append)
    moreover have "filter (scheme_here s) [length s - 2..<Suc (length s)] = []"
      by (rule filter_False) (use short in auto)
    ultimately show ?thesis by (simp only: find_filter filter_append append_Nil2)
  qed
  then show ?thesis by (simp only: find_str_find scheme_here_drop [symmetric])
qed

section \<open>The reference: each span is searched again\<close>

definition after_boundary :: "string \<Rightarrow> nat \<Rightarrow> nat" where
  "after_boundary s at =
     (case rposition boundary_char (take at s) of None \<Rightarrow> 0 | Some i \<Rightarrow> Suc i)"

definition span_start :: "string \<Rightarrow> nat \<Rightarrow> nat \<Rightarrow> nat" where
  "span_start s copied at =
     (let base = max (after_boundary s at) copied
      in base + unwrap_or 0 (scheme_delimiter_end (slice base at s)))"

fun redact_spans :: "string \<Rightarrow> nat list \<Rightarrow> nat \<Rightarrow> string \<Rightarrow> string" where
  "redact_spans s [] copied out = out @ drop copied s"
| "redact_spans s (at # later) copied out =
     (if same_userinfo s at later then redact_spans s later copied out
      else (case delimiter_in s (span_start s copied at) at of
              Some delimiter_end \<Rightarrow>
                redact_spans s later at (out @ slice copied delimiter_end s @ MASK)
            | None \<Rightarrow> redact_spans s later copied out))"

definition redact_by_rescanning :: "string \<Rightarrow> string" where
  "redact_by_rescanning s =
     redact_spans s (filter (\<lambda>i. s ! i = CHR ''@'') [0..<length s]) 0 []"

lemma after_boundary_index:
  assumes "at \<le> length s"
  shows "after_boundary s at =
     (let crossed = partition_point (\<lambda>b. b < at) (boundaries (userinfo_index s))
      in if crossed = 0 then 0 else boundaries (userinfo_index s) ! (crossed - 1) + 1)"
proof -
  define f where "f = filter (\<lambda>i. boundary_char (s ! i)) [0..<length s]"
  define g where "g = filter (\<lambda>i. boundary_char (s ! i)) [0..<at]"
  have tw: "takeWhile (\<lambda>b. b < at) f = g"
    unfolding f_def g_def by (rule takeWhile_filter_upt [OF assms])
  have "filter (\<lambda>i. boundary_char (take at s ! i)) [0..<length (take at s)] = g"
    unfolding g_def using assms by (intro filter_cong) auto
  then have "rposition boundary_char (take at s) = (if g = [] then None else Some (last g))"
    by (simp add: rposition_last Let_def)
  moreover have "f ! (length g - 1) = last g" if "g \<noteq> []"
    using that tw by (metis last_conv_nth length_greater_0_conv diff_less takeWhile_nth zero_less_one)
  ultimately show ?thesis
    by (simp add: after_boundary_def userinfo_index_def offsets_def partition_point_def
        tw Let_def flip: f_def)
qed

lemma take_slice [simp]: "take k (slice a b s) = slice a (min b (a + k)) s"
proof -
  have "min k (b - a) = min b (a + k) - a" by auto
  then show ?thesis by (simp add: slice_def)
qed

lemma segment_start_index:
  assumes "at \<le> length s"
  shows "segment_start (userinfo_index s) copied at = span_start s copied at"
proof -
  define base where "base = max (after_boundary s at) copied"
  have sh: "scheme_here (slice base at s) i \<longleftrightarrow> i + 2 < at - base \<and> scheme_here s (base + i)" for i
    by (auto simp: scheme_here_def get_opt_slice add.assoc split: if_splits)
  have fs: "map_option ((+) base) (find_str ''://'' (slice base at s)) =
      List.find (scheme_here s) [base..<at - 2]"
  proof -
    have "List.find (scheme_here (slice base at s)) [0..<at - base - 2] =
        List.find (\<lambda>i. scheme_here s (base + i)) [0..<at - base - 2]"
      by (intro find_cong refl) (auto simp: sh)
    then show ?thesis using assms
      by (simp add: find_str_scheme find_upt_shift [of _ base "at - 2"] diff_right_commute)
  qed
  have eq: "Option.bind (first_from (schemes (userinfo_index s)) base)
      (\<lambda>c. if c < at - 2 then Some c else None) = List.find (scheme_here s) [base..<at - 2]"
    using assms by (simp add: userinfo_index_def first_from_offsets find_upt_bounded min.absorb1)
  have d: "first_delimiter_end (userinfo_index s) base sc = None \<longleftrightarrow>
      userinfo_delimiter_end (slice base sc s) = None" if "sc \<le> at" for sc
    using assms that by (simp add: first_delimiter_end_index delimiter_in_def)
  have "span_start s copied at = (case List.find (scheme_here s) [base..<at - 2] of
        None \<Rightarrow> base
      | Some sc \<Rightarrow> if first_delimiter_end (userinfo_index s) base sc = None then sc + 3 else base)"
  proof (cases "find_str ''://'' (slice base at s)")
    case None
    with fs show ?thesis
      by (simp add: span_start_def scheme_delimiter_end_def flip: base_def)
  next
    case (Some k)
    with fs have f: "List.find (scheme_here s) [base..<at - 2] = Some (base + k)" by simp
    then have "base + k < at - 2" by (auto simp: find_Some_iff)
    with Some f show ?thesis
      by (simp add: span_start_def scheme_delimiter_end_def d min.absorb2 flip: base_def)
  qed
  also have "\<dots> = segment_start (userinfo_index s) copied at"
    unfolding eq [symmetric]
    by (cases "first_from (schemes (userinfo_index s)) base")
      (auto simp: segment_start_def Let_def base_def after_boundary_index [OF assms])
  finally show ?thesis by simp
qed

lemma redact_loop_spans:
  "\<forall>at\<in>set ats. at \<le> length s \<Longrightarrow>
     redact_loop (userinfo_index s) s ats copied out = redact_spans s ats copied out"
  by (induction ats arbitrary: copied out)
    (simp_all add: segment_start_index first_delimiter_end_index split: option.splits)

lemma redact_userinfo_rescans: "redact_userinfo s = redact_by_rescanning s"
proof (cases "CHR ''@'' \<in> set s")
  case True
  have "at_positions (userinfo_index s) = filter (\<lambda>i. s ! i = CHR ''@'') [0..<length s]"
    by (simp add: userinfo_index_def offsets_def)
  moreover have "\<forall>at\<in>set (filter (\<lambda>i. s ! i = CHR ''@'') [0..<length s]). at \<le> length s" by auto
  ultimately show ?thesis
    using True by (simp add: redact_userinfo_def redact_by_rescanning_def redact_loop_spans)
next
  case False
  then have "filter (\<lambda>i. s ! i = CHR ''@'') [0..<length s] = []" by (auto simp: filter_empty_conv in_set_conv_nth)
  with False show ?thesis by (simp add: redact_userinfo_def redact_by_rescanning_def)
qed


section \<open>What a masked text no longer holds\<close>

text \<open>A name in front of the delimiter: no delimiter, terminator or boundary of its own.\<close>

definition plain_name :: "string \<Rightarrow> bool" where
  "plain_name u \<longleftrightarrow> userinfo_delimiter_end u = None \<and> CHR ''@'' \<notin> set u
     \<and> \<not> list_ex boundary_char u"

text \<open>A secret the mask covers whole: no white space it stops at, and not both an \<open>@\<close>
  and a \<open>//\<close>.\<close>

definition maskable_secret :: "string \<Rightarrow> bool" where
  "maskable_secret pw \<longleftrightarrow> \<not> list_ex (\<lambda>b. boundary_char b \<or> b = CHR 0x0D) pw
     \<and> (CHR ''@'' \<notin> set pw \<or> \<not> contains_str ''//'' pw)"

lemma plain_nameD:
  assumes "plain_name u"
  shows "\<forall>c\<in>set u. c \<noteq> CHR '':''" and "encoded_colon_at u = None"
    and "CHR ''@'' \<notin> set u" and "\<forall>c\<in>set u. \<not> boundary_char c"
proof -
  from assms have "earlier_end (find_char (\<lambda>c. c = CHR '':'') u) (encoded_colon_at u) = None"
    by (simp add: plain_name_def userinfo_delimiter_end_def)
  then have "find_char (\<lambda>c. c = CHR '':'') u = None \<and> encoded_colon_at u = None"
    by (auto simp: earlier_end_def split: option.splits)
  then show "\<forall>c\<in>set u. c \<noteq> CHR '':''" "encoded_colon_at u = None" by auto
qed (use assms in \<open>auto simp: plain_name_def list_ex_iff\<close>)

lemma encoded_colon_at_None:
  "encoded_colon_at u = None \<longleftrightarrow> (\<forall>i. \<not> encoded_colon_here u i)"
proof -
  have "i < length u - 2" if "encoded_colon_here u i" for i
    using that by (auto simp: encoded_colon_here_def get_opt_eq split: if_splits)
  then show ?thesis by (auto simp: encoded_colon_at_def find_None_iff)
qed

lemma userinfo_delimiter_end_plain:
  assumes "plain_name u"
  shows "userinfo_delimiter_end (u @ CHR '':'' # r) = Some (length u + 1)"
proof -
  note u = plain_nameD [OF assms]
  have "find_char (\<lambda>c. c = CHR '':'') (u @ CHR '':'' # r) = Some (length u)"
    using u(1) by (auto intro: find_char_append)
  moreover have "length u \<le> e" if e: "encoded_colon_at (u @ CHR '':'' # r) = Some e" for e
  proof (rule ccontr)
    assume lt: "\<not> length u \<le> e"
    from e have h: "encoded_colon_here (u @ CHR '':'' # r) e"
      by (auto simp: encoded_colon_at_def find_Some_iff)
    have "e + 2 < length u"
    proof (rule ccontr)
      assume "\<not> e + 2 < length u"
      with lt have "e + 1 = length u \<or> e + 2 = length u" by linarith
      with h show False by (auto simp: encoded_colon_here_def get_opt_eq nth_append split: if_splits)
    qed
    with h have "encoded_colon_here u e"
      by (auto simp: encoded_colon_here_def get_opt_eq nth_append split: if_splits)
    with u(2) show False by (simp add: encoded_colon_at_None)
  qed
  ultimately show ?thesis
    by (cases "encoded_colon_at (u @ CHR '':'' # r)")
      (auto simp: userinfo_delimiter_end_def earlier_end_def)
qed

lemma find_str_plain:
  assumes "\<forall>c\<in>set u. c \<noteq> CHR '':''"
  shows "find_str ''://'' (u @ ''://'' @ r) = Some (length u)"
  using assms by (induction u) (auto simp: starts_with_iff)

lemma scheme_delimiter_end_plain:
  "plain_name u \<Longrightarrow> scheme_delimiter_end (u @ ''://'' @ r) = Some (length u + 3)"
  by (simp add: scheme_delimiter_end_def find_str_plain [OF plain_nameD(1), simplified]
      plain_name_def)

text \<open>All the terminators but the last continue the same userinfo.\<close>

lemma redact_spans_continue:
  assumes "\<And>ys at nxt zs. ats @ [p] = ys @ at # nxt # zs \<Longrightarrow> same_userinfo s at [nxt]"
  shows "redact_spans s (ats @ [p]) copied out = redact_spans s [p] copied out"
  using assms
proof (induction ats)
  case Nil
  then show ?case by simp
next
  case (Cons at ats)
  have "same_userinfo s at (ats @ [p])"
  proof (cases ats)
    case Nil
    then show ?thesis using Cons.prems [of "[]" at p "[]"] by simp
  next
    case (Cons b bs)
    then show ?thesis using Cons.prems [of "[]" at b "bs @ [p]"] by (simp add: same_userinfo_def)
  qed
  then have "redact_spans s ((at # ats) @ [p]) copied out = redact_spans s (ats @ [p]) copied out"
    by simp
  also have "\<dots> = redact_spans s [p] copied out"
    by (rule Cons.IH) (use Cons.prems in \<open>metis append_Cons\<close>)
  finally show ?case .
qed


lemma redact_userinfo_core:
  assumes pre: "CHR ''@'' \<notin> set pre" "\<not> list_ex boundary_char pre"
    and sd: "unwrap_or 0 (scheme_delimiter_end (pre @ user @ CHR '':'' # pw)) = length pre"
    and u: "plain_name user" and pw: "maskable_secret pw" and host: "CHR ''@'' \<notin> set host"
  shows "redact_userinfo (pre @ user @ '':'' @ pw @ ''@'' @ host) =
     pre @ user @ '':'' @ MASK @ ''@'' @ host"
proof -
  define A where "A = pre @ user @ '':''"
  define s where "s = A @ pw @ ''@'' @ host"
  define n where "n = length A"
  define p where "p = n + length pw"
  define ats where "ats = filter (\<lambda>i. s ! i = CHR ''@'') [n..<p]"
  note un = plain_nameD [OF u]
  have A: "CHR ''@'' \<notin> set A" "\<forall>c\<in>set A. \<not> boundary_char c"
    using pre un by (auto simp: A_def list_ex_iff boundary_char_def)
  have len: "length s = p + Suc (length host)" by (simp add: s_def p_def n_def)
  have pos: "filter (\<lambda>i. s ! i = CHR ''@'') [0..<length s] = ats @ [p]"
  proof -
    have "[0..<length s] = [0..<n] @ [n..<p] @ [p] @ [Suc p..<length s]"
      using upt_split [of 0 n "length s"] upt_split [of n p "length s"]
        upt_split [of p "Suc p" "length s"] len p_def by simp
    moreover have "filter (\<lambda>i. s ! i = CHR ''@'') [0..<n] = []"
      using A(1) by (auto simp: filter_empty_conv s_def n_def nth_append in_set_conv_nth)
    moreover have "filter (\<lambda>i. s ! i = CHR ''@'') [Suc p..<length s] = []"
      using host by (auto simp: filter_empty_conv s_def p_def n_def nth_append in_set_conv_nth
          nth_Cons' )
    moreover have "s ! p = CHR ''@''" by (simp add: s_def p_def n_def nth_append)
    ultimately show ?thesis by (simp add: ats_def)
  qed
  have "same_userinfo s at [nxt]" if split: "ats @ [p] = ys @ at # nxt # zs" for ys at nxt zs
  proof -
    have "sorted_wrt (<) (ats @ [p])"
      by (auto simp: ats_def sorted_wrt_append intro: sorted_wrt_filter)
    with split have lt: "at < nxt" by (simp add: sorted_wrt_append)
    have "set (ys @ at # nxt # zs) \<subseteq> {n..p}"
      unfolding split [symmetric] by (auto simp: ats_def p_def)
    then have b: "n \<le> at" "nxt \<le> p" by auto
    have between: "slice (at + 1) nxt s = slice (at + 1 - n) (nxt - n) pw"
      using lt b by (auto simp: slice_def s_def n_def p_def)
    have sub: "\<exists>x y. pw = x @ slice (at + 1) nxt s @ y"
      unfolding between by (metis append_take_drop_id slice_def)
    have at: "at \<in> set ats"
      using split lt b(2) by (metis append_butlast_last_id butlast_append butlast_snoc in_set_conv_decomp
          last.simps last_appendR list.distinct(1) butlast.simps(2))
    then have "pw ! (at - n) = CHR ''@''" "at - n < length pw"
      by (auto simp: ats_def s_def n_def p_def nth_append split: if_splits)
    then have "CHR ''@'' \<in> set pw" by (metis nth_mem)
    then have "\<not> contains_str ''//'' pw" using pw by (simp add: maskable_secret_def)
    then have "\<not> contains_str ''//'' (slice (at + 1) nxt s)"
      using sub unfolding contains_str_iff by (metis append.assoc)
    moreover have "\<not> list_ex (\<lambda>b. boundary_char b \<or> b = CHR 0x0D) (slice (at + 1) nxt s)"
    proof -
      from sub have "set (slice (at + 1) nxt s) \<subseteq> set pw" by auto
      with pw show ?thesis unfolding maskable_secret_def list_ex_iff by blast
    qed
    ultimately show ?thesis by (simp add: same_userinfo_def)
  qed
  then have "redact_spans s (ats @ [p]) 0 [] = redact_spans s [p] 0 []"
    by (rule redact_spans_continue)
  moreover have "take p s = pre @ user @ CHR '':'' # pw"
    by (simp add: s_def p_def n_def A_def)
  then have span: "span_start s 0 p = length pre"
  proof -
    have "\<forall>c\<in>set (A @ pw). \<not> boundary_char c"
      using A pw by (auto simp: maskable_secret_def list_ex_iff)
    then have "rposition boundary_char (A @ pw) = None" by simp
    then have "after_boundary s p = 0"
      unfolding after_boundary_def by (simp add: s_def p_def n_def del: rposition_None)
    then show ?thesis using sd \<open>take p s = _\<close> by (simp add: span_start_def slice_def)
  qed
  moreover have "delimiter_in s (length pre) p = Some n"
  proof -
    have "slice (length pre) p s = user @ CHR '':'' # pw"
      by (simp add: slice_def s_def p_def n_def A_def)
    then show ?thesis
      by (simp add: delimiter_in_def userinfo_delimiter_end_plain [OF u] n_def A_def)
  qed
  moreover have "slice 0 n s = A" "drop p s = ''@'' @ host"
    by (simp_all add: slice_def s_def n_def p_def)
  ultimately have "redact_userinfo s = A @ MASK @ ''@'' @ host"
    by (simp add: redact_userinfo_rescans redact_by_rescanning_def pos same_userinfo_def)
  then show ?thesis by (simp add: s_def A_def)
qed

lemma redact_userinfo_masks_url:
  assumes "plain_name scheme" "plain_name user" "maskable_secret pw" "CHR ''@'' \<notin> set host"
  shows "redact_userinfo (scheme @ ''://'' @ user @ '':'' @ pw @ ''@'' @ host) =
     scheme @ ''://'' @ user @ '':'' @ MASK @ ''@'' @ host"
  using redact_userinfo_core [of "scheme @ ''://''" user pw host] assms
    scheme_delimiter_end_plain [OF assms(1), of "user @ CHR '':'' # pw"]
  by (simp add: plain_name_def boundary_char_def)

lemma redact_userinfo_masks_bare:
  assumes "plain_name user" "maskable_secret pw" "\<not> starts_with ''//'' pw" "CHR ''@'' \<notin> set host"
  shows "redact_userinfo (user @ '':'' @ pw @ ''@'' @ host) = user @ '':'' @ MASK @ ''@'' @ host"
proof -
  have "scheme_delimiter_end (user @ CHR '':'' # pw) = None"
  proof (cases "find_str ''://'' (user @ CHR '':'' # pw)")
    case None
    then show ?thesis by (simp add: scheme_delimiter_end_def)
  next
    case (Some i)
    then have "i \<le> length (user @ CHR '':'' # pw)" 
      and st: "starts_with ''://'' (drop i (user @ CHR '':'' # pw))" using find_str_Some by blast+
    have "length user < i"
    proof (rule ccontr)
      assume "\<not> length user < i"
      then consider "i < length user" | "i = length user" by linarith
      then show False
      proof cases
        case 1
        from st obtain r where "drop i (user @ CHR '':'' # pw) = CHR '':'' # r"
          by (auto simp: starts_with_iff)
        with 1 have "user ! i = CHR '':''"
          by (metis append_Cons drop_eq_Nil drop_append hd_drop_conv_nth hd_append2 leD list.sel(1))
        with 1 plain_nameD(1) [OF assms(1)] show False by auto
      next
        case 2
        with st assms(3) show False by (simp add: starts_with_def)
      qed
    qed
    then have "take i (user @ CHR '':'' # pw) = user @ CHR '':'' # take (i - Suc (length user)) pw"
      by (simp add: take_Cons' Suc_diff_Suc)
    with Some show ?thesis
      by (simp add: scheme_delimiter_end_def userinfo_delimiter_end_plain [OF assms(1)])
  qed
  then show ?thesis
    using redact_userinfo_core [of "[]" user pw host] assms by simp
qed

end
