(* ===== verification/Util_Facts.thy ===== *)
theory Util_Facts
  imports Glob Masking
begin

unbundle bit_operations_syntax

text \<open>
  What the other helpers of \<open>src/util.rs\<close> guarantee: the port grammar and the split of an
  authority, percent escapes, the rendering of untrusted text, the script digest; and the
  properties of the component.
\<close>
section \<open>Ports\<close>

lemma port_from_digits_show [simp]: "port_from_digits (show_nat (unat p)) = Some p"
  by (simp add: port_from_digits_def u16_less)

lemma port_from_digits_Some:
  "port_from_digits t = Some p \<longleftrightarrow> t \<noteq> [] \<and> all_digits t \<and> digits_value 0 t = unat p"
  using u16_less [of p] by (auto simp: port_from_digits_def Let_def u16_of_nat)

lemma port_from_digits_zero:
  "t \<noteq> [] \<Longrightarrow> port_from_digits (CHR ''0'' # t) = port_from_digits t"
  by (simp add: port_from_digits_def all_digits_def is_digit_def digit_val_def)

lemma parse_port_Inr:
  "parse_port t = Inr v \<longleftrightarrow> (t = [] \<and> v = None) \<or> (\<exists>p. port_from_digits t = Some p \<and> v = Some p)"
  by (auto simp: parse_port_def port_from_digits_def)

lemma rposition_colon:
  "rposition (\<lambda>c. c = d) s = Some i \<Longrightarrow>
     s = take i s @ d # drop (Suc i) s \<and> d \<notin> set (drop (Suc i) s) \<and> i < length s"
  by (drule rposition_SomeD) auto

lemma split_host_port_Inr:
  assumes "split_host_port s = Inr (h, port)"
  shows "case port of None \<Rightarrow> s = h \<or> s = h @ '':''
     | Some p \<Rightarrow> \<exists>t. s = h @ '':'' @ t \<and> port_from_digits t = Some p"
proof (cases "starts_with ''['' s")
  case True
  then obtain i where i: "find_char (\<lambda>c. c = CHR '']'') s = Some i"
    using assms by (cases "find_char (\<lambda>c. c = CHR '']'') s") (auto simp: split_host_port_def)
  have sp: "s = take (Suc i) s @ drop (Suc i) s" by simp
  show ?thesis
  proof (cases "drop (Suc i) s")
    case Nil
    with assms True i sp show ?thesis by (auto simp: split_host_port_def Let_def)
  next
    case (Cons c rest)
    with assms True i have "c = CHR '':''" "h = take (Suc i) s" "parse_port rest = Inr port"
      by (auto simp: split_host_port_def Let_def split: if_splits sum.splits option.splits)
    with Cons sp show ?thesis
      by (cases port) (auto simp: parse_port_Inr)
  qed
next
  case False
  show ?thesis
  proof (cases "rposition (\<lambda>c. c = CHR '':'') s")
    case None
    with assms False show ?thesis by (auto simp: split_host_port_def)
  next
    case (Some i)
    note sp = rposition_colon [OF Some]
    show ?thesis
    proof (cases "CHR '':'' \<in> set (take i s)")
      case True
      with assms False Some show ?thesis by (auto simp: split_host_port_def)
    next
      case nc: False
      with assms False Some have "h = take i s" "parse_port (drop (Suc i) s) = Inr port"
        by (auto simp: split_host_port_def split: sum.splits)
      moreover from this sp have "s = h @ '':'' @ drop (Suc i) s" by simp
      ultimately show ?thesis by (cases port) (auto simp: parse_port_Inr)
    qed
  qed
qed

lemma split_host_port_append:
  assumes "CHR '':'' \<notin> set h" "\<not> starts_with ''['' (h @ '':'')" "CHR '':'' \<notin> set t"
  shows "split_host_port (h @ CHR '':'' # t) =
     (case parse_port t of Inl e \<Rightarrow> Inl e | Inr v \<Rightarrow> Inr (h, v))"
proof -
  have "\<not> starts_with ''['' (h @ CHR '':'' # t)" using assms(2) by (cases h) (auto simp: starts_with_iff)
  moreover have "rposition (\<lambda>c. c = CHR '':'') (h @ CHR '':'' # t) = Some (length h)"
    using assms(3) by (intro rposition_append_Cons) auto
  ultimately show ?thesis using assms(1)
    by (simp add: split_host_port_def split: sum.split)
qed

lemma split_host_port_bracketed:
  assumes "CHR '']'' \<notin> set x"
  shows "split_host_port (''['' @ x @ '']:'' @ t) =
     (case parse_port t of Inl e \<Rightarrow> Inl e | Inr v \<Rightarrow> Inr (''['' @ x @ '']'', v))"
proof -
  have "find_char (\<lambda>c. c = CHR '']'') (''['' @ x @ '']:'' @ t) = Some (Suc (length x))"
    using find_char_append [of "''['' @ x" "\<lambda>c. c = CHR '']''" "CHR '']''" "'':'' @ t"] assms
    by auto
  then show ?thesis by (simp add: split_host_port_def starts_with_iff split: sum.split)
qed

lemma split_host_port_no_colon:
  assumes "CHR '':'' \<notin> set h" "\<not> starts_with ''['' h"
  shows "split_host_port h = Inr (h, None)"
proof -
  have "rposition (\<lambda>c. c = CHR '':'') h = None" using assms(1) by auto
  with assms(2) show ?thesis by (simp add: split_host_port_def del: rposition_None)
qed

lemma strip_brackets_bracketed [simp]: "strip_brackets (CHR ''['' # x @ '']'') = x"
  by (simp add: strip_brackets_def)

section \<open>Percent escapes\<close>

definition percent_encode :: "string \<Rightarrow> string" where
  "percent_encode s =
     concat (map (\<lambda>c. [CHR ''%'', hex_char (byte_val c div 16), hex_char (byte_val c mod 16)]) s)"

lemma hex_val_hex_char: "d < 16 \<Longrightarrow> hex_val (hex_char d) = Some d"
proof -
  have "list_all (\<lambda>d. hex_val (hex_char d) = Some d) [0..<16]" by code_simp
  then show "d < 16 \<Longrightarrow> hex_val (hex_char d) = Some d" by (simp add: list_all_iff)
qed

lemma byte_val_less: "byte_val c < 256"
  by (simp add: byte_val_def)

lemma percent_bytes_encode: "percent_bytes (percent_encode s) = s"
proof (induction s)
  case Nil
  then show ?case by (simp add: percent_encode_def)
next
  case (Cons c s)
  have "byte_val c div 16 < 16" using byte_val_less [of c] by simp
  then have "hex_val (hex_char (byte_val c div 16)) = Some (byte_val c div 16)"
    "hex_val (hex_char (byte_val c mod 16)) = Some (byte_val c mod 16)"
    by (simp_all add: hex_val_hex_char)
  moreover have "char_of (byte_val c div 16 * 16 + byte_val c mod 16) = c"
    by (simp add: byte_val_def)
  ultimately show ?case using Cons by (simp add: percent_encode_def)
qed

lemma percent_decode_encode: "valid_utf8 s \<Longrightarrow> percent_decode (percent_encode s) = s"
proof (cases s)
  case Nil
  then show ?thesis by (simp add: percent_encode_def percent_decode_def)
next
  case (Cons c r)
  then have "CHR ''%'' \<in> set (percent_encode s)" by (simp add: percent_encode_def)
  moreover assume "valid_utf8 s"
  ultimately show ?thesis by (simp add: percent_decode_def percent_bytes_encode)
qed

lemma percent_decode_valid: "valid_utf8 s \<Longrightarrow> valid_utf8 (percent_decode s)"
  by (simp add: percent_decode_def Let_def)

section \<open>Untrusted text\<close>

lemma valid_utf8_lead: "valid_utf8 (c # s) \<Longrightarrow> \<not> continuation_byte c"
proof
  assume v: "valid_utf8 (c # s)" and "continuation_byte c"
  then obtain b0 b1 b2 b3 b4 b5 where "c = Char b0 b1 b2 b3 b4 b5 False True"
    by (cases c) (auto simp: continuation_byte_def)
  then have "0x80 \<le> byte_val c \<and> byte_val c < 0xC0"
    by (auto simp: byte_val_def of_char_def horner_sum_simps)
  with v show False by (simp add: Let_def)
qed

lemma byte_range: "0x80 \<le> byte_val c \<Longrightarrow> byte_val c \<le> 0xBF \<Longrightarrow> continuation_byte c"
  by (cases c) (auto simp: byte_val_def of_char_def horner_sum_simps continuation_byte_def
      of_bool_def split: if_splits)


lemma continuation_range: "continuation_byte c \<Longrightarrow> 0x80 \<le> byte_val c"
  by (cases c) (auto simp: byte_val_def of_char_def horner_sum_simps continuation_byte_def)

lemma valid_utf8_dropWhile:
  assumes "valid_utf8 (c # s)"
  shows "valid_utf8 (dropWhile continuation_byte s)"
    and "byte_val c < 0x80 \<Longrightarrow> takeWhile continuation_byte s = []"
proof -
  have lead: "dropWhile continuation_byte r = r \<and> takeWhile continuation_byte r = []"
    if "valid_utf8 r" for r
    using that valid_utf8_lead by (cases r) auto
  consider "byte_val c < 0x80" | "0x80 \<le> byte_val c" "byte_val c \<le> 0xDF"
    | "0xE0 \<le> byte_val c" "byte_val c \<le> 0xEF" | "0xF0 \<le> byte_val c" by linarith
  then have "valid_utf8 (dropWhile continuation_byte s) \<and>
      (byte_val c < 0x80 \<longrightarrow> takeWhile continuation_byte s = [])"
  proof cases
    case 1
    with assms lead [of s] show ?thesis by (simp add: Let_def)
  next
    case 2
    with assms obtain d r where "s = d # r" "0x80 \<le> byte_val d" "byte_val d \<le> 0xBF" "valid_utf8 r"
      by (cases s) (simp_all add: Let_def split: if_splits)
    with 2 lead show ?thesis by (simp add: byte_range)
  next
    case 3
    with assms obtain d e r where "s = d # e # r" "0x80 \<le> byte_val d" "byte_val d \<le> 0xBF"
      "0x80 \<le> byte_val e" "byte_val e \<le> 0xBF" "valid_utf8 r"
      by (cases s; cases "tl s") (simp_all add: Let_def split: if_splits)
    with 3 lead show ?thesis by (simp add: byte_range)
  next
    case 4
    with assms obtain d e f r where "s = d # e # f # r" "0x80 \<le> byte_val d" "byte_val d \<le> 0xBF"
      "0x80 \<le> byte_val e" "byte_val e \<le> 0xBF" "0x80 \<le> byte_val f" "byte_val f \<le> 0xBF"
      "valid_utf8 r"
      by (cases s; cases "tl s"; cases "tl (tl s)") (simp_all add: Let_def split: if_splits)
    with 4 lead show ?thesis by (simp add: byte_range)
  qed
  then show "valid_utf8 (dropWhile continuation_byte s)"
    "byte_val c < 0x80 \<Longrightarrow> takeWhile continuation_byte s = []" by auto
qed

definition printable_byte :: "char \<Rightarrow> bool" where
  "printable_byte c \<longleftrightarrow> 0x20 \<le> byte_val c \<and> byte_val c \<noteq> 0x7F"

lemma printable_sanitized:
  "valid_utf8 s \<Longrightarrow> ch \<in> set (chars s) \<Longrightarrow> c \<in> set (sanitized_char ch) \<Longrightarrow> printable_byte c"
proof (induction s rule: chars.induct)
  case 1
  then show ?case by simp
next
  case (2 b s)
  show ?case
  proof (cases "ch \<in> set (chars (dropWhile continuation_byte s))")
    case True
    with 2 valid_utf8_dropWhile(1) show ?thesis by blast
  next
    case False
    with 2 have ch: "ch = b # takeWhile continuation_byte s" by simp
    show ?thesis
    proof (cases "is_control ch")
      case True
      with 2 show ?thesis by (simp add: sanitized_char_def printable_byte_def byte_val_def)
    next
      case nc: False
      then have c: "c \<in> set ch" using 2 by (simp add: sanitized_char_def)
      show ?thesis
      proof (cases "byte_val b < 0x80")
        case True
        then have "ch = [b]" using ch valid_utf8_dropWhile(2) [OF 2(2)] by simp
        with nc c show ?thesis by (simp add: is_control_def printable_byte_def)
      next
        case False
        with c ch have "0x80 \<le> byte_val c"
          by (auto dest!: set_takeWhileD continuation_range)
        then show ?thesis by (simp add: printable_byte_def)
      qed
    qed
  qed
qed

lemma set_redact_spans:
  "set (redact_spans s ats copied out) \<subseteq> set s \<union> set out \<union> set MASK"
proof (induction ats arbitrary: copied out)
  case Nil
  show ?case using set_drop_subset [of copied s] by auto
next
  case (Cons at ats)
  have "set (slice copied d s) \<subseteq> set s" for d
    using set_take_subset [of "d - copied" "drop copied s"] set_drop_subset [of copied s]
    by (auto simp: slice_def)
  then show ?case using Cons [of copied out] Cons
    by (fastforce split: option.splits if_splits)
qed

lemma set_redact_userinfo: "set (redact_userinfo s) \<subseteq> set s \<union> set MASK"
  using set_redact_spans [of s _ 0 "[]"] by (simp add: redact_userinfo_rescans redact_by_rescanning_def)

lemma sanitize_untrusted_sub:
  "set (sanitize_untrusted s) \<subseteq> set s \<union> set ''.'' \<union> set ellipsis"
proof -
  have "set (sanitized_char ch) \<subseteq> set s \<union> set ''.''" if "ch \<in> set (chars s)" for ch
    using that by (auto simp: sanitized_char_def) (metis UN_I concat_chars set_concat)
  then show ?thesis
    by (auto simp: sanitize_untrusted_def dest: in_set_takeD)
qed

lemma untrusted_text_is_one_line:
  assumes "valid_utf8 input"
  shows "list_all printable_byte (redact_and_sanitize_untrusted input)"
proof -
  define x where "x = concat (map sanitized_char (chars input))"
  have "list_all printable_byte x"
    using printable_sanitized [OF assms] by (auto simp: x_def list_all_iff)
  moreover have "list_all printable_byte (MASK @ ''.'' @ ellipsis)" by code_simp
  moreover have "set (redact_and_sanitize_untrusted input) \<subseteq> set x \<union> set (MASK @ ''.'' @ ellipsis)"
    using sanitize_untrusted_sub [of "redact_userinfo x"] set_redact_userinfo [of x]
    by (auto simp: redact_and_sanitize_untrusted_def x_def)
  ultimately show ?thesis unfolding list_all_iff by blast
qed

lemma length_chars_append: "length (chars (a @ b)) \<le> length (chars a) + length (chars b)"
proof (induction a rule: chars.induct)
  case 1
  then show ?case by simp
next
  case (2 c s)
  show ?case
  proof (cases "dropWhile continuation_byte s")
    case Nil
    then have s: "takeWhile continuation_byte s = s" by (metis append_Nil2 takeWhile_dropWhile_id)
    have all: "dropWhile continuation_byte (s @ b) = dropWhile continuation_byte b"
      using Nil by (simp add: dropWhile_append)
    have "length (chars (dropWhile continuation_byte b)) \<le> length (chars b)" by (cases b) auto
    then show ?thesis by (simp add: all Nil)
  next
    case (Cons d r)
    then have "dropWhile continuation_byte (s @ b) = dropWhile continuation_byte s @ b"
      by (metis dropWhile_append dropWhile_eq_Nil_conv list.distinct(1))
    with 2 show ?thesis by simp
  qed
qed

lemma length_chars_sanitized:
  "ch \<in> set (chars s) \<Longrightarrow> length (chars (sanitized_char ch)) \<le> 1"
proof (induction s rule: chars.induct)
  case 1
  then show ?case by simp
next
  case (2 c s)
  have e: "dropWhile continuation_byte (takeWhile continuation_byte s) = []"
    by (auto dest: set_takeWhileD)
  have "chars (dropWhile continuation_byte (takeWhile continuation_byte s)) = []"
    unfolding e by simp
  with 2 show ?case by (auto simp: sanitized_char_def)
qed

lemma length_chars_concat:
  "\<forall>ch\<in>set chs. length (chars (f ch)) \<le> 1 \<Longrightarrow>
     length (chars (concat (map f chs))) \<le> length chs"
proof (induction chs)
  case Nil
  then show ?case by simp
next
  case (Cons ch chs)
  then show ?case using length_chars_append [of "f ch" "concat (map f chs)"] by auto
qed

lemma sanitize_untrusted_bounded: "length (chars (sanitize_untrusted s)) \<le> MAX_UNTRUSTED + 1"
proof -
  let ?front = "concat (map sanitized_char (take MAX_UNTRUSTED (chars s)))"
  have "length (chars ?front) \<le> length (take MAX_UNTRUSTED (chars s))"
    by (rule length_chars_concat) (use length_chars_sanitized in \<open>auto dest!: in_set_takeD\<close>)
  then have "length (chars ?front) \<le> MAX_UNTRUSTED" by simp
  moreover have "length (chars ellipsis) = 1" by code_simp
  ultimately show ?thesis
    using length_chars_append [of ?front ellipsis] by (auto simp: sanitize_untrusted_def)
qed

section \<open>The script digest\<close>

lemma fnv_prime_inverse: "fnv_prime * 0xce965057aff6957b = 1"
  by (simp add: fnv_prime_def)

lemma fnv_step_inj_hash: "fnv_step h b = fnv_step h' b \<longleftrightarrow> h = h'"
  and fnv_step_inj_byte: "fnv_step h b = fnv_step h b' \<longleftrightarrow> b = b'"
proof -
  have cancel: "x * fnv_prime = y * fnv_prime \<longleftrightarrow> x = y" for x y
  proof
    assume "x * fnv_prime = y * fnv_prime"
    then have "x * (fnv_prime * 0xce965057aff6957b) = y * (fnv_prime * 0xce965057aff6957b)"
      by (simp only: mult.assoc [symmetric])
    then show "x = y" by (simp only: fnv_prime_inverse mult_1_right)
  qed simp
  have xor: "x XOR z = y XOR z \<longleftrightarrow> x = y" "z XOR x = z XOR y \<longleftrightarrow> x = y" for x y z :: u64
    by (auto simp: bit_eq_iff bit_xor_iff)
  show "fnv_step h b = fnv_step h' b \<longleftrightarrow> h = h'" by (simp add: fnv_step_def cancel xor)
  have "b = b'" if "(ucast b :: u64) = ucast b'"
  proof (rule bit_word_eqI)
    fix n
    assume "n < LENGTH(8)"
    moreover from that have "bit (ucast b :: u64) n = bit (ucast b' :: u64) n" by simp
    ultimately show "bit b n = bit b' n" by (simp add: bit_unsigned_iff)
  qed
  then show "fnv_step h b = fnv_step h b' \<longleftrightarrow> b = b'" by (auto simp: fnv_step_def cancel xor)
qed

lemma foldl_fnv_inj: "foldl fnv_step h bs = foldl fnv_step h' bs \<longleftrightarrow> h = h'"
  by (induction bs arbitrary: h h') (simp_all add: fnv_step_inj_hash)

lemma fnv1a_tells_one_byte_apart: "fnv1a (xs @ a # ys) = fnv1a (xs @ b # ys) \<longleftrightarrow> a = b"
  by (simp add: fnv1a_def foldl_fnv_inj fnv_step_inj_byte)

section \<open>Properties\<close>

text \<open>C7. \<open>glob_match\<close>, which takes the leftmost place of every part and never goes back,
  accepts exactly the language of the pattern.\<close>

theorem glob_match_reference: "glob_match pattern text \<longleftrightarrow> glob_lang pattern text"
  by (rule glob_match_lang)

text \<open>The one-pass scan of \<open>redact_userinfo\<close> over tables of offsets gives what
  searching every span again gives: the delimiter that ends the user name, the boundary, the
  scheme and the \<open>@\<close> that ends the credential are the ones the definition by rescanning
  finds.\<close>

theorem redact_userinfo_one_pass: "redact_userinfo s = redact_by_rescanning s"
  by (rule redact_userinfo_rescans)

text \<open>C5. A credential in a URL is masked whole, under the conditions \<open>util.rs\<close> names: the secret has
  no white space in it (\<open>alice:my pass@host\<close> comes out whole) and not both an \<open>@\<close> and a \<open>//\<close>,
  scheme and user name are plain (no delimiter, no \<open>@\<close>, no boundary), and what follows the last
  \<open>@\<close> of the userinfo has none. Then the text comes out with \<open>***\<close> in the secret's place, so two
  such texts that differ in the secret alone come out the same.\<close>

theorem secret_of_a_url_is_masked:
  assumes "plain_name scheme" "plain_name user" "maskable_secret pw" "CHR ''@'' \<notin> set host"
  shows "redact_userinfo (scheme @ ''://'' @ user @ '':'' @ pw @ ''@'' @ host) =
     scheme @ ''://'' @ user @ '':***@'' @ host"
  using redact_userinfo_masks_url [OF assms] by (simp add: MASK_def)

theorem secret_of_a_url_is_masked_witness:
  "redact_userinfo (''http'' @ ''://'' @ ''al'' @ '':'' @ ''p@s'' @ ''@'' @ ''h:80'') =
     ''http'' @ ''://'' @ ''al'' @ '':***@'' @ ''h:80''"
  by (rule secret_of_a_url_is_masked; code_simp)

text \<open>A text from outside is stored on one line: whatever well-formed text a script or a
  service returns, \<open>redact_and_sanitize_untrusted\<close> holds no ASCII control character and at
  most 257 characters.\<close>

theorem untrusted_text_is_bounded_and_plain:
  assumes "valid_utf8 input"
  shows "list_all printable_byte (redact_and_sanitize_untrusted input)
     \<and> length (chars (redact_and_sanitize_untrusted input)) \<le> 257"
  using untrusted_text_is_one_line [OF assms] sanitize_untrusted_bounded
  by (simp add: redact_and_sanitize_untrusted_def MAX_UNTRUSTED_def)

theorem untrusted_text_is_bounded_and_plain_witness:
  "list_all printable_byte (redact_and_sanitize_untrusted [CHR ''a'', CHR 0x0A, CHR ''b''])
     \<and> length (chars (redact_and_sanitize_untrusted [CHR ''a'', CHR 0x0A, CHR ''b''])) \<le> 257"
  by (rule untrusted_text_is_bounded_and_plain) code_simp

text \<open>\<open>split_host_port\<close> loses nothing and invents nothing: when it succeeds, the input
  is the host, or the host and a colon, or the host, a colon and the digits of the port.\<close>

theorem split_host_port_lossless:
  assumes "split_host_port s = Inr (h, port)"
  shows "case port of None \<Rightarrow> s = h \<or> s = h @ '':''
     | Some p \<Rightarrow> \<exists>t. s = h @ '':'' @ t \<and> port_from_digits t = Some p"
  by (rule split_host_port_Inr [OF assms])

theorem split_host_port_lossless_witness:
  "\<exists>t. ''[::1]:8080'' = ''[::1]'' @ '':'' @ t \<and> port_from_digits t = Some 8080"
proof -
  have "split_host_port ''[::1]:8080'' = Inr (''[::1]'', Some 8080)" by code_simp
  from split_host_port_lossless [OF this] show ?thesis by simp
qed

text \<open>Percent decoding undoes percent encoding, for every well-formed text.\<close>

theorem percent_decode_undoes_encode:
  assumes "valid_utf8 s"
  shows "percent_decode (percent_encode s) = s"
  by (rule percent_decode_encode [OF assms])

theorem percent_decode_undoes_encode_witness:
  "percent_decode (percent_encode ''p:a@s%'') = ''p:a@s%''"
  by (rule percent_decode_undoes_encode) code_simp

text \<open>The script digest tells two scripts apart that differ in one byte.\<close>

theorem fnv1a_tells_scripts_apart: "fnv1a (xs @ a # ys) = fnv1a (xs @ b # ys) \<longleftrightarrow> a = b"
  by (rule fnv1a_tells_one_byte_apart)

end
