(* ===== verification/External.thy ===== *)
theory External
  imports Net_Addr
begin

text \<open>
  What the crates the source depends on give it. \<open>url\<close> parses hosts and URLs, \<open>ipnet\<close>
  networks; neither is under \<open>src/\<close>, so each operation is a field of a record every
  definition that uses it takes as an argument. Their values are known by what the source
  observes of them: a host is a name or an address, a network an address and a prefix
  length, a URL its serialisation, its host and its ports.

  The predicates at the end are the documented laws a theorem may ask of them, and
  \<open>plain_external\<close> is an instance that satisfies the laws, for use at concrete inputs.
\<close>

unbundle bit_operations_syntax

section \<open>Values\<close>

datatype host = Domain string | Ipv4 ipv4_bits | Ipv6 ipv6_bits

datatype ip_net = NetV4 ipv4_bits nat | NetV6 ipv6_bits nat

record url =
  as_str :: string
  url_scheme :: string
  url_host :: "host option"
  url_port :: "u16 option"
  port_or_known_default :: "u16 option"

record external =
  host_parse :: "string \<Rightarrow> string + host"
  host_show :: "host \<Rightarrow> string"
  url_parse :: "string \<Rightarrow> string + url"
  set_username :: "string \<Rightarrow> url \<Rightarrow> url option"
  set_password :: "string \<Rightarrow> url \<Rightarrow> url option"
  net_parse :: "string \<Rightarrow> ip_net option"
  net_new :: "ip_addr \<Rightarrow> nat \<Rightarrow> ip_net option"
  net_trunc_addr :: "ip_net \<Rightarrow> ip_addr"
  net_contains :: "ip_net \<Rightarrow> ip_addr \<Rightarrow> bool"
  net_show :: "ip_net \<Rightarrow> string"

section \<open>Documented laws\<close>

text \<open>\<open>Host::parse\<close>: a domain comes out not empty, in ASCII and in lower case, and is read
  back as it is; a dotted quad is that address.\<close>

definition host_parse_laws :: "external \<Rightarrow> bool" where
  "host_parse_laws E \<longleftrightarrow>
     (\<forall>s d. host_parse E s = Inr (Domain d) \<longrightarrow>
        d \<noteq> [] \<and> is_ascii d \<and> to_ascii_lowercase d = d \<and> host_parse E d = Inr (Domain d))
     \<and> (\<forall>a. host_parse E (show_ipv4 a) = Inr (Ipv4 a))"

text \<open>\<open>Display\<close> of a host.\<close>

definition host_show_laws :: "external \<Rightarrow> bool" where
  "host_show_laws E \<longleftrightarrow>
     (\<forall>d. host_show E (Domain d) = d) \<and> (\<forall>a. host_show E (Ipv4 a) = show_ipv4 a)"

text \<open>\<open>IpNet::contains\<close>: the family is the same and the bits of the prefix are.\<close>

fun net_covers :: "ip_net \<Rightarrow> ip_addr \<Rightarrow> bool" where
  "net_covers (NetV4 n p) (IpV4 a) \<longleftrightarrow> drop_bit (32 - p) n = drop_bit (32 - p) a"
| "net_covers (NetV6 n p) (IpV6 a) \<longleftrightarrow> drop_bit (128 - p) n = drop_bit (128 - p) a"
| "net_covers _ _ \<longleftrightarrow> False"

definition net_laws :: "external \<Rightarrow> bool" where
  "net_laws E \<longleftrightarrow>
     (\<forall>n a. net_contains E n a \<longleftrightarrow> net_covers n a)
     \<and> (\<forall>a p. net_new E (IpV4 a) p = (if p \<le> 32 then Some (NetV4 a p) else None))
     \<and> (\<forall>a p. net_new E (IpV6 a) p = (if p \<le> 128 then Some (NetV6 a p) else None))"

section \<open>An instance\<close>

definition name_char :: "char \<Rightarrow> bool" where
  "name_char c \<longleftrightarrow> is_lower c \<or> is_digit c \<or> c \<in> set ''.-_*''"

fun plain_host :: "string \<Rightarrow> string + host" where
  "plain_host s =
     (let t = to_ascii_lowercase s in
      case parse_ipv4 t of
        Some a \<Rightarrow> Inr (Ipv4 a)
      | None \<Rightarrow>
          if t = [] then Inl ''empty host''
          else if \<not> list_all name_char t then Inl ''invalid international domain name''
          else if is_digit (last t) then Inl ''invalid IPv4 address''
          else Inr (Domain t))"

fun plain_host_show :: "host \<Rightarrow> string" where
  "plain_host_show (Domain d) = d"
| "plain_host_show (Ipv4 a) = show_ipv4 a"
| "plain_host_show (Ipv6 a) = ''['' @ show_ipv6 a @ '']''"

fun plain_net_new :: "ip_addr \<Rightarrow> nat \<Rightarrow> ip_net option" where
  "plain_net_new (IpV4 a) p = (if p \<le> 32 then Some (NetV4 a p) else None)"
| "plain_net_new (IpV6 a) p = (if p \<le> 128 then Some (NetV6 a p) else None)"

definition plain_net :: "string \<Rightarrow> ip_net option" where
  "plain_net s =
     (case split_once_char (\<lambda>c. c = CHR ''/'') s of
        None \<Rightarrow> None
      | Some (a, p) \<Rightarrow>
          (case parse_ip a of
             None \<Rightarrow> None
           | Some ip \<Rightarrow>
               if p \<noteq> [] \<and> all_digits p then plain_net_new ip (digits_value 0 p) else None))"

fun plain_trunc_addr :: "ip_net \<Rightarrow> ip_addr" where
  "plain_trunc_addr (NetV4 n p) = IpV4 (push_bit (32 - p) (drop_bit (32 - p) n))"
| "plain_trunc_addr (NetV6 n p) = IpV6 (push_bit (128 - p) (drop_bit (128 - p) n))"

fun plain_net_show :: "ip_net \<Rightarrow> string" where
  "plain_net_show (NetV4 n p) = show_ipv4 n @ ''/'' @ show_nat p"
| "plain_net_show (NetV6 n p) = show_ipv6 n @ ''/'' @ show_nat p"

definition plain_url :: "string \<Rightarrow> string + url" where
  "plain_url s =
     (case split_once_str ''://'' s of
        None \<Rightarrow> Inl ''relative URL without a base''
      | Some (sch, rest) \<Rightarrow>
          (let auth = hd (split_chars (\<lambda>c. c = CHR ''/'') rest) in
           case plain_host auth of
             Inl e \<Rightarrow> Inl e
           | Inr h \<Rightarrow>
               Inr \<lparr> as_str = s, url_scheme = sch, url_host = Some h, url_port = None,
                     port_or_known_default =
                       (if sch = ''http'' then Some 80 else if sch = ''https'' then Some 443
                        else None) \<rparr>))"

definition plain_external :: external where
  "plain_external =
     \<lparr> host_parse = plain_host, host_show = plain_host_show, url_parse = plain_url,
       set_username = (\<lambda>_ u. Some u), set_password = (\<lambda>_ u. Some u),
       net_parse = plain_net, net_new = plain_net_new, net_trunc_addr = plain_trunc_addr,
       net_contains = net_covers, net_show = plain_net_show \<rparr>"

lemma plain_external_simps [simp]:
  "host_parse plain_external = plain_host"
  "host_show plain_external = plain_host_show"
  "url_parse plain_external = plain_url"
  "set_username plain_external = (\<lambda>_ u. Some u)"
  "set_password plain_external = (\<lambda>_ u. Some u)"
  "net_parse plain_external = plain_net"
  "net_new plain_external = plain_net_new"
  "net_trunc_addr plain_external = plain_trunc_addr"
  "net_contains plain_external = net_covers"
  "net_show plain_external = plain_net_show"
  by (simp_all add: plain_external_def)

lemma plain_host_show_laws: "host_show_laws plain_external"
  by (simp add: host_show_laws_def)

lemma plain_net_laws: "net_laws plain_external"
  by (simp add: net_laws_def)

end
