(* ===== verification/Net_Addr_Facts.thy ===== *)
theory Net_Addr_Facts
  imports External Util_Facts
begin

text \<open>
  The dotted quad is read back as it is written, and the instance of the host parser keeps
  the laws stated of it. An IPv6 address is read ending as it is written, whichever way it is: with
  an IPv4 address at its end, with its longest run of zero segments left out, or in full.
\<close>

unbundle bit_operations_syntax

section \<open>Octets\<close>

lemma radix_value_digits: "all_digits s \<Longrightarrow> radix_value 10 acc s = digits_value acc s"
  by (induction s arbitrary: acc) (simp_all add: all_digits_def radix_val_def)

lemma length_show_nat: "n < 10 ^ Suc k \<Longrightarrow> length (show_nat n) \<le> Suc k"
proof (induction k arbitrary: n)
  case 0
  then show ?case by (simp add: show_nat.simps [of n])
next
  case (Suc k)
  then have "n div 10 < 10 ^ Suc k" by (simp add: less_mult_imp_div_less mult.commute)
  then show ?case using Suc.IH by (subst show_nat.simps) simp
qed

lemma octet_text:
  assumes "n < 256"
  shows "length (show_nat n) \<le> 3" "hd (show_nat n) = CHR ''0'' \<Longrightarrow> length (show_nat n) = 1"
    "radix_value 10 0 (show_nat n) = n"
proof -
  show "length (show_nat n) \<le> 3" using length_show_nat [of n 2] assms by simp
  show "radix_value 10 0 (show_nat n) = n" by (simp add: radix_value_digits)
  show "length (show_nat n) = 1" if "hd (show_nat n) = CHR ''0''"
  proof -
    have "n = 0" using show_nat_no_leading_zero [of n] that by auto
    then show ?thesis by (simp add: show_nat.simps [of 0])
  qed
qed

lemma read_octet:
  assumes "n < 256" "rest = [] \<or> hd rest = CHR ''.''"
  shows "read_number 10 3 False 255 (show_nat n @ rest) = Some (n, rest)"
proof -
  have d: "\<forall>c\<in>set (show_nat n). radix_val 10 c \<noteq> None"
    using show_nat_digits by (auto simp: radix_val_def)
  have r: "rest = [] \<or> radix_val 10 (hd rest) = None"
    using assms(2) by (auto simp: radix_val_def is_digit_def)
  have take: "takeWhile (\<lambda>c. radix_val 10 c \<noteq> None) (show_nat n @ rest) = show_nat n"
    using d r by (cases rest) (auto simp: takeWhile_append takeWhile_eq_all_conv)
  note o = octet_text [OF assms(1)]
  have "\<not> (hd (show_nat n) = CHR ''0'' \<and> 1 < length (show_nat n))" using o(2) by auto
  then show ?thesis
    using assms(1) o(1,3) unfolding read_number_def Let_def take by auto
qed

lemma read_four_octets:
  assumes "a < 256" "b < 256" "c < 256" "d < 256"
  shows "read_octets 0 4 (show_nat a @ CHR ''.'' # show_nat b @ CHR ''.'' # show_nat c
      @ CHR ''.'' # show_nat d) = Some ([a, b, c, d], [])"
proof -
  have "read_number 10 3 False 255 (show_nat d) = Some (d, [])"
    using read_octet [OF assms(4), of "[]"] by simp
  then show ?thesis
    using read_octet [OF assms(1)] read_octet [OF assms(2)] read_octet [OF assms(3)]
    by (simp add: numeral_eq_Suc read_separated_def)
qed

lemma unat_octet: "unat (drop_bit k w AND 0xFF :: ipv4_bits) = unat w div 2 ^ k mod 256"
proof -
  have "drop_bit k w AND 0xFF = take_bit 8 (drop_bit k w)"
    by (simp add: take_bit_eq_mask mask_eq_exp_minus_1)
  also have "unat \<dots> = take_bit 8 (drop_bit k (take_bit 32 (unat w)))"
    by (simp only: unsigned_take_bit_eq unsigned_drop_bit_eq) simp
  also have "take_bit 32 (unat w) = unat w" using unsigned_less [of w, where 'a = nat] by (intro take_bit_nat_eq_self) simp
  finally show ?thesis by (simp add: take_bit_eq_mod drop_bit_eq_div)
qed

lemma octets_bytes: "list_all (\<lambda>n. n < 256) (octets w)"
  unfolding octets_def list.map unat_octet by simp

lemma base_256:
  assumes "n < 256 ^ 4"
  shows "((n div 2 ^ 24 mod 256 * 256 + n div 2 ^ 16 mod 256) * 256 + n div 2 ^ 8 mod 256) * 256
      + n mod 256 = (n :: nat)"
proof -
  have "n div 2 ^ 24 mod 256 = n div 2 ^ 24" using assms by (simp add: less_mult_imp_div_less)
  moreover have "n div 2 ^ 24 = n div 2 ^ 16 div 256" "n div 2 ^ 16 = n div 2 ^ 8 div 256"
      "n div 2 ^ 8 = n div 256"
    by (simp_all add: div_mult2_eq [symmetric])
  ultimately show ?thesis by (metis div_mult_mod_eq)
qed

lemma ipv4_of_octets_octets: "ipv4_of_octets (octets w) = w"
proof -
  define n where "n = unat w"
  have "n < 256 ^ 4" using unsigned_less [of w] by (simp add: n_def)
  have "ipv4_of_octets (octets w) =
      of_nat (((n div 2 ^ 24 mod 256 * 256 + n div 2 ^ 16 mod 256) * 256 + n div 2 ^ 8 mod 256) * 256
        + n mod 256)"
    by (simp add: ipv4_of_octets_def octets_def unat_octet n_def)
  also have "\<dots> = of_nat n" using base_256 [OF \<open>n < 256 ^ 4\<close>] by (simp only:)
  finally show ?thesis by (simp add: n_def)
qed

lemma parse_show_ipv4: "parse_ipv4 (show_ipv4 w) = Some w"
proof -
  obtain a b c d where o: "octets w = [a, b, c, d]" by (simp add: octets_def)
  then have small: "a < 256" "b < 256" "c < 256" "d < 256" using octets_bytes [of w] by simp_all
  have "length (show_ipv4 w) \<le> 15"
    using octet_text(1) [OF small(1)] octet_text(1) [OF small(2)] octet_text(1) [OF small(3)]
      octet_text(1) [OF small(4)] by (simp add: show_ipv4_def o)
  then show ?thesis
    using read_four_octets [OF small] ipv4_of_octets_octets [of w]
    by (simp add: parse_ipv4_def show_ipv4_def o)
qed

section \<open>The instance\<close>

lemma lowercase_ipv4: "to_ascii_lowercase (show_ipv4 w) = show_ipv4 w"
proof -
  have "lower_char c = c" if "c \<in> set (show_ipv4 w)" for c
    using that show_nat_digits
    by (fastforce simp: show_ipv4_def octets_def is_digit_def is_upper_def intro: lower_char_not_upper)
  then show ?thesis unfolding to_ascii_lowercase_def by (rule map_idI)
qed

lemma name_char_ascii: "name_char c \<Longrightarrow> ascii_char c"
  by (auto simp: name_char_def is_lower_def is_digit_def ascii_char_def)

lemma plain_host_Domain:
  "plain_host s = Inr (Domain d) \<longleftrightarrow>
     d = to_ascii_lowercase s \<and> parse_ipv4 d = None \<and> d \<noteq> [] \<and> list_all name_char d
       \<and> \<not> is_digit (last d)"
  by (auto simp: Let_def split: option.splits)

lemma plain_host_parse_laws: "host_parse_laws plain_external"
proof -
  have "is_ascii d" if "list_all name_char d" for d
    using that name_char_ascii by (auto simp: is_ascii_def list_all_iff)
  then show ?thesis
    using parse_show_ipv4 lowercase_ipv4
    by (auto simp: host_parse_laws_def plain_host_Domain simp del: plain_host.simps)
       (simp_all add: Let_def)
qed

section \<open>Hexadecimal groups\<close>

definition hex_digit :: "char \<Rightarrow> bool" where
  "hex_digit c \<longleftrightarrow> c \<in> set ''0123456789abcdef''"

lemma hex_char_digit: "d < 16 \<Longrightarrow> hex_digit (hex_char d)"
  unfolding hex_digit_def hex_char_def by (rule nth_mem) simp

lemma hex_digit_val: "hex_digit c \<Longrightarrow> \<exists>v. radix_val 16 c = Some v"
  by (auto simp: hex_digit_def radix_val_def hex_val_def is_digit_def lower_char_def is_upper_def)

lemma show_hex_digits: "c \<in> set (show_hex n) \<Longrightarrow> hex_digit c"
proof (induction n rule: show_hex.induct)
  case (1 n)
  then show ?case
    by (cases "n < 16") (auto simp: show_hex.simps [of n] hex_char_digit)
qed

lemma show_hex_not_Nil [simp]: "show_hex n \<noteq> []"
  by (subst show_hex.simps) simp

lemma radix_value_append:
  "radix_value r a (s @ t) = radix_value r (radix_value r a s) t"
  by (induction s arbitrary: a) auto

lemma radix_value_show_hex: "radix_value 16 0 (show_hex n) = n"
proof (induction n rule: show_hex.induct)
  case (1 n)
  show ?case
  proof (cases "n < 16")
    case True
    then show ?thesis by (simp add: show_hex.simps [of n] radix_val_def hex_val_hex_char)
  next
    case False
    with 1 show ?thesis
      by (simp add: show_hex.simps [of n] radix_value_append radix_val_def hex_val_hex_char)
  qed
qed

lemma length_show_hex: "n < 16 ^ Suc k \<Longrightarrow> length (show_hex n) \<le> Suc k"
proof (induction k arbitrary: n)
  case 0
  then show ?case by (simp add: show_hex.simps [of n])
next
  case (Suc k)
  then have "n div 16 < 16 ^ Suc k" by (simp add: less_mult_imp_div_less mult.commute)
  then show ?case using Suc.IH by (subst show_hex.simps) simp
qed

text \<open>What may follow a group: nothing, or a colon.\<close>

definition colon_next :: "string \<Rightarrow> bool" where
  "colon_next r \<longleftrightarrow> r = [] \<or> hd r = CHR '':''"

lemma radix_colon [simp]: "radix_val n (CHR '':'') = None"
  by (simp add: radix_val_def hex_val_def is_digit_def lower_char_def is_upper_def)

lemma read_group:
  assumes "g < 65536" "colon_next rest"
  shows "read_number 16 4 True 65535 (show_hex g @ rest) = Some (g, rest)"
proof -
  have d: "\<forall>c\<in>set (show_hex g). radix_val 16 c \<noteq> None"
    using show_hex_digits hex_digit_val by fastforce
  have take: "takeWhile (\<lambda>c. radix_val 16 c \<noteq> None) (show_hex g @ rest) = show_hex g"
    using d assms(2) by (cases rest) (auto simp: takeWhile_append takeWhile_eq_all_conv colon_next_def)
  have "length (show_hex g) \<le> 4" using length_show_hex [of g 3] assms(1) by simp
  then show ?thesis
    using assms(1) unfolding read_number_def Let_def take by (simp add: radix_value_show_hex)
qed

text \<open>A group is not the start of a dotted quad.\<close>

lemma group_number_rest:
  "read_number 10 3 z m s = Some (v, r) \<Longrightarrow> r = dropWhile (\<lambda>c. radix_val 10 c \<noteq> None) s"
  by (auto simp: read_number_def Let_def dropWhile_eq_drop split: if_splits)

lemma group_no_dot:
  assumes "\<forall>c\<in>set h. hex_digit c" "colon_next rest"
  shows "dropWhile (\<lambda>c. radix_val 10 c \<noteq> None) (h @ rest) = []
    \<or> hd (dropWhile (\<lambda>c. radix_val 10 c \<noteq> None) (h @ rest)) \<noteq> CHR ''.''"
  using assms
proof (induction h)
  case Nil
  then show ?case by (cases rest) (auto simp: colon_next_def)
next
  case (Cons c h)
  then show ?case by (auto simp: hex_digit_def)
qed

lemma read_octets_no_dot:
  assumes "dropWhile (\<lambda>c. radix_val 10 c \<noteq> None) s = []
    \<or> hd (dropWhile (\<lambda>c. radix_val 10 c \<noteq> None) s) \<noteq> CHR ''.''"
  shows "read_octets 0 4 s = None"
proof (cases "read_number 10 3 False 255 s")
  case None
  then show ?thesis by (simp add: numeral_eq_Suc read_separated_def)
next
  case (Some p)
  obtain v r where p: "p = (v, r)" by fastforce
  with Some have "r = dropWhile (\<lambda>c. radix_val 10 c \<noteq> None) s" by (intro group_number_rest) simp
  with assms have "r = [] \<or> hd r \<noteq> CHR ''.''" by simp
  with Some p show ?thesis
    by (cases r) (simp_all add: numeral_eq_Suc read_separated_def)
qed

lemma read_octets_group:
  "colon_next rest \<Longrightarrow> read_octets 0 4 (show_hex g @ rest) = None"
  by (rule read_octets_no_dot, rule group_no_dot) (auto dest: show_hex_digits)

lemma read_octets_colon: "read_octets 0 4 (CHR '':'' # s) = None"
  by (rule read_octets_no_dot) simp

section \<open>Groups\<close>

text \<open>The groups from the \<open>i\<close>-th on as they are written.\<close>

fun groups_text :: "nat \<Rightarrow> nat list \<Rightarrow> string" where
  "groups_text i [] = []"
| "groups_text i (g # gs) = (if i = 0 then [] else '':'') @ show_hex g @ groups_text (Suc i) gs"

lemma groups_text_colon: "colon_next rest \<Longrightarrow> colon_next (groups_text (Suc i) gs @ rest)"
  by (cases gs) (auto simp: colon_next_def)

lemma intercalate_groups:
  "intercalate_char (CHR '':'') (map show_hex (g # gs)) = show_hex g @ groups_text (Suc i) gs"
proof (induction gs arbitrary: g i)
  case Nil
  then show ?case by simp
next
  case (Cons h gs)
  from Cons [of h "Suc i"] show ?case by simp
qed

lemma show_groups_text: "show_groups gs = groups_text 0 gs"
  using intercalate_groups [where i = 0] by (cases gs) (simp_all add: show_groups_def)

text \<open>Where a reading of groups stops: at the end, or at a double colon.\<close>

definition stops :: "string \<Rightarrow> bool" where
  "stops r \<longleftrightarrow> r = [] \<or> (\<exists>s. r = CHR '':'' # CHR '':'' # s)"

lemma stops_colon: "stops r \<Longrightarrow> colon_next r"
  by (auto simp: stops_def colon_next_def)

lemma read_number_colon: "read_number 16 4 True 65535 (CHR '':'' # s) = None"
  by (simp add: read_number_def)

lemma read_number_empty: "read_number r d z m [] = None"
  by (simp add: read_number_def)

lemma ipv6_groups_stop:
  assumes "stops r" shows "read_groups limit i r = ([], False, r)"
proof -
  have "read_octets 0 4 [] = None" by (simp add: numeral_eq_Suc read_separated_def read_number_empty)
  with assms show ?thesis
    by (subst read_groups.simps)
      (auto simp: stops_def read_separated_def read_octets_colon read_number_colon read_number_empty)
qed

lemma read_groups_text:
  assumes "list_all (\<lambda>g. g < 65536) gs" "i + length gs \<le> limit" "stops r"
  shows "read_groups limit i (groups_text i gs @ r) = (gs, False, r)"
  using assms(1,2)
proof (induction gs arbitrary: i)
  case Nil
  then show ?case using assms(3) by (simp add: ipv6_groups_stop)
next
  case (Cons g gs)
  have rest: "colon_next (groups_text (Suc i) gs @ r)"
    using stops_colon [OF assms(3)] by (rule groups_text_colon)
  from Cons have "read_groups limit (Suc i) (groups_text (Suc i) gs @ r) = (gs, False, r)" by simp
  moreover have "g < 65536" using Cons by simp
  ultimately show ?case
    using Cons.prems read_octets_group [OF rest, of g] read_group [OF _ rest, of g]
    by (subst read_groups.simps) (auto simp: read_separated_def)
qed

section \<open>The run that is left out\<close>

definition zeros :: "nat list \<Rightarrow> nat \<Rightarrow> nat \<Rightarrow> bool" where
  "zeros xs st n \<longleftrightarrow> n = 0 \<or> (st + n \<le> length xs \<and> (\<forall>k<n. xs ! (st + k) = 0))"

lemma zeros_append: "zeros xs st n \<Longrightarrow> zeros (xs @ ys) st n"
  by (auto simp: zeros_def nth_append)

lemma zero_run_zeros:
  "zeros pre cs cl \<Longrightarrow> cl = 0 \<or> cs + cl = length pre \<Longrightarrow> zeros pre ls ll \<Longrightarrow>
     zero_run (length pre) (cs, cl) (ls, ll) gs = (st, n) \<Longrightarrow> zeros (pre @ gs) st n"
proof (induction gs arbitrary: pre cs cl ls ll)
  case Nil
  then show ?case by simp
next
  case (Cons g gs)
  let ?cs = "if cl = 0 then length pre else cs"
  show ?case
  proof (cases "g = 0")
    case True
    have c: "zeros (pre @ [g]) ?cs (Suc cl)" "?cs + Suc cl = length (pre @ [g])"
      using Cons.prems(1,2) True
      by (auto simp: zeros_def nth_append less_Suc_eq)
    have l: "zeros (pre @ [g]) ls ll" using Cons.prems(3) by (rule zeros_append)
    have "zero_run (length (pre @ [g])) (?cs, Suc cl)
        (if ll < Suc cl then (?cs, Suc cl) else (ls, ll)) gs = (st, n)"
      using Cons.prems(4) True by (simp add: Let_def)
    then have "zeros ((pre @ [g]) @ gs) st n"
      using Cons.IH [OF c(1) _ c(1)] Cons.IH [OF c(1) _ l] c(2)
      by (cases "ll < Suc cl") simp_all
    then show ?thesis by simp
  next
    case False
    then have "zero_run (length (pre @ [g])) (0, 0) (ls, ll) gs = (st, n)"
      using Cons.prems(4) by simp
    moreover have "zeros (pre @ [g]) 0 0" by (simp add: zeros_def)
    ultimately have "zeros ((pre @ [g]) @ gs) st n"
      using Cons.IH zeros_append [OF Cons.prems(3), of "[g]"] by blast
    then show ?thesis by simp
  qed
qed

lemma zero_run_split:
  assumes "zero_run 0 (0, 0) (0, 0) gs = (st, n)"
  shows "gs = take st gs @ replicate n 0 @ drop (st + n) gs \<and> (n = 0 \<or> st + n \<le> length gs)"
proof -
  have z: "zeros gs st n" using zero_run_zeros [of "[]" 0 0 0 0 gs st n] assms by (simp add: zeros_def)
  have "take n (drop st gs) = replicate n 0"
    using z by (intro nth_equalityI) (auto simp: zeros_def)
  then have "drop st gs = replicate n 0 @ drop (st + n) gs"
    by (metis append_take_drop_id drop_drop add.commute)
  then show ?thesis using z by (auto simp: zeros_def) (metis append_take_drop_id)+
qed

section \<open>Segments\<close>

lemma unat_segment: "unat (drop_bit k w AND 0xFFFF :: ipv6_bits) = unat w div 2 ^ k mod 65536"
proof -
  have "drop_bit k w AND 0xFFFF = take_bit 16 (drop_bit k w)"
    by (simp add: take_bit_eq_mask mask_eq_exp_minus_1)
  also have "unat \<dots> = take_bit 16 (drop_bit k (take_bit 128 (unat w)))"
    by (simp only: unsigned_take_bit_eq unsigned_drop_bit_eq) simp
  also have "take_bit 128 (unat w) = unat w"
    using unsigned_less [of w, where 'a = nat] by (intro take_bit_nat_eq_self) simp
  finally show ?thesis by (simp add: take_bit_eq_mod drop_bit_eq_div)
qed

lemma segments_small: "list_all (\<lambda>g. g < 65536) (segments w)"
  unfolding segments_def list.map unat_segment by simp

lemma length_segments [simp]: "length (segments w) = 8"
  by (simp add: segments_def)

lemma base_65536: "n div 2 ^ (k + 16) * 65536 + n div 2 ^ k mod 65536 = (n div 2 ^ k :: nat)"
proof -
  have "n div 2 ^ (k + 16) = n div 2 ^ k div 65536" by (simp add: power_add div_mult2_eq)
  then show ?thesis by (simp only: div_mult_mod_eq)
qed

lemma ipv6_of_segments_segments: "ipv6_of_segments (segments w) = w"
proof -
  define n where "n = unat w"
  have "n < 2 ^ 128" using unsigned_less [of w] by (simp add: n_def)
  then have "n div 2 ^ 112 mod 65536 = n div 2 ^ 112" by (simp add: less_mult_imp_div_less)
  then have "((((((n div 2 ^ 112 mod 65536 * 65536 + n div 2 ^ 96 mod 65536) * 65536
        + n div 2 ^ 80 mod 65536) * 65536 + n div 2 ^ 64 mod 65536) * 65536
        + n div 2 ^ 48 mod 65536) * 65536 + n div 2 ^ 32 mod 65536) * 65536
        + n div 2 ^ 16 mod 65536) * 65536 + n div 2 ^ 0 mod 65536 = n div 2 ^ 0"
    using base_65536 [of n 96] base_65536 [of n 80] base_65536 [of n 64] base_65536 [of n 48]
      base_65536 [of n 32] base_65536 [of n 16] base_65536 [of n 0]
    by (simp only: numeral_plus_numeral add_num_simps add_0)
  then have "of_nat (((((((n div 2 ^ 112 mod 65536 * 65536 + n div 2 ^ 96 mod 65536) * 65536
        + n div 2 ^ 80 mod 65536) * 65536 + n div 2 ^ 64 mod 65536) * 65536
        + n div 2 ^ 48 mod 65536) * 65536 + n div 2 ^ 32 mod 65536) * 65536
        + n div 2 ^ 16 mod 65536) * 65536 + n div 2 ^ 0 mod 65536) = (of_nat n :: ipv6_bits)"
    by (simp only: power_0 div_by_1)
  moreover have "ipv6_of_segments (segments w) = of_nat (((((((n div 2 ^ 112 mod 65536 * 65536
        + n div 2 ^ 96 mod 65536) * 65536
        + n div 2 ^ 80 mod 65536) * 65536 + n div 2 ^ 64 mod 65536) * 65536
        + n div 2 ^ 48 mod 65536) * 65536 + n div 2 ^ 32 mod 65536) * 65536
        + n div 2 ^ 16 mod 65536) * 65536 + n div 2 ^ 0 mod 65536)"
    unfolding ipv6_of_segments_def segments_def list.map unat_segment n_def [symmetric]
    by (simp only: foldl.simps of_nat_add of_nat_mult of_nat_numeral mult_zero_left add_0)
  ultimately show ?thesis by (simp add: n_def)
qed

lemma mapped_segments:
  assumes "ipv4_mapped w = Some v" "octets v = [a, b, c, d]"
  shows "ipv6_of_segments [0, 0, 0, 0, 0, 65535, a * 256 + b, c * 256 + d] = w"
proof -
  define n where "n = unat w"
  from assms(1) have top: "drop_bit 32 w = 0xFFFF" and v: "v = ucast w"
    by (auto simp: ipv4_mapped_def split: if_splits)
  have "unat (drop_bit 32 w) = n div 2 ^ 32"
  proof -
    have "unat (drop_bit 32 w) = drop_bit 32 (take_bit 128 n)"
      unfolding n_def by (simp only: unsigned_drop_bit_eq) simp
    also have "take_bit 128 n = n"
      using unsigned_less [of w, where 'a = nat] unfolding n_def by (intro take_bit_nat_eq_self) simp
    finally show ?thesis by (simp only: drop_bit_eq_div)
  qed
  with top have hi: "n div 2 ^ 32 = 65535" by simp
  have lo: "unat v = n mod 2 ^ 32"
    by (simp add: v n_def unsigned_ucast_eq take_bit_eq_mod)
  have unat: "unat (of_nat k :: ipv4_bits) = k" if "k < 2 ^ 32" for k
    using that by (simp add: unsigned_of_nat take_bit_nat_eq_self)
  have "((a * 256 + b) * 256 + c) * 256 + d < 2 ^ 32"
    using octets_bytes [of v] assms(2) by simp
  from unat [OF this] have "unat v = ((a * 256 + b) * 256 + c) * 256 + d"
    using ipv4_of_octets_octets [of v] assms(2) by (simp add: ipv4_of_octets_def)
  with lo have "(a * 256 + b) * 65536 + (c * 256 + d) = n mod 2 ^ 32" by simp
  then have "65535 * 2 ^ 32 + ((a * 256 + b) * 65536 + (c * 256 + d)) = n"
    using div_mult_mod_eq [of n "2 ^ 32"] unfolding hi by (simp only:)
  then have "of_nat (65535 * 2 ^ 32 + ((a * 256 + b) * 65536 + (c * 256 + d))) = w"
    unfolding n_def by (simp only: of_nat_unat ucast_id)
  then show ?thesis by (simp add: ipv6_of_segments_def algebra_simps)
qed

lemma parse_mapped:
  assumes "ipv4_mapped w = Some v"
  shows "parse_ipv6 (''::ffff:'' @ show_ipv4 v) = Some w"
proof -
  obtain a b c d where o: "octets v = [a, b, c, d]" by (simp add: octets_def)
  then have small: "a < 256" "b < 256" "c < 256" "d < 256" using octets_bytes [of v] by simp_all
  let ?r = "'':ffff:'' @ show_ipv4 v"
  have front: "read_groups 8 0 (''::ffff:'' @ show_ipv4 v) = ([], False, ''::ffff:'' @ show_ipv4 v)"
    by (rule ipv6_groups_stop) (simp add: stops_def)
  have "read_octets 0 4 (show_ipv4 v) = Some ([a, b, c, d], [])"
    using read_four_octets [OF small] by (simp add: show_ipv4_def o)
  then have quad: "read_groups 7 1 (CHR '':'' # show_ipv4 v) = ([a * 256 + b, c * 256 + d], True, [])"
    by (subst read_groups.simps) (simp add: read_separated_def)
  have ffff: "''ffff'' = show_hex 65535" by (simp add: show_hex.simps hex_char_def)
  have colon: "colon_next (CHR '':'' # show_ipv4 v)" by (simp add: colon_next_def)
  have "read_groups 7 0 (show_hex 65535 @ CHR '':'' # show_ipv4 v)
      = ([65535, a * 256 + b, c * 256 + d], True, [])"
    using read_octets_group [OF colon] read_group [OF _ colon, of 65535] quad
    by (subst read_groups.simps) (simp add: read_separated_def)
  then have "read_groups 7 0 (''ffff:'' @ show_ipv4 v)
      = ([65535, a * 256 + b, c * 256 + d], True, [])"
    by (simp flip: ffff)
  moreover have "replicate 5 (0 :: nat) = [0, 0, 0, 0, 0]" by (simp add: numeral_eq_Suc)
  ultimately show ?thesis
    using mapped_segments [OF assms o] unfolding parse_ipv6_def front by simp
qed

lemma parse_groups:
  assumes "ipv4_mapped w = None"
  shows "parse_ipv6 (show_ipv6 w) = Some w"
proof -
  obtain st n where run: "zero_run 0 (0, 0) (0, 0) (segments w) = (st, n)" by fastforce
  define front where "front = take st (segments w)"
  define ending where "ending = drop (st + n) (segments w)"
  have cut: "segments w = front @ replicate n 0 @ ending" and range: "n = 0 \<or> st + n \<le> 8"
    using zero_run_split [OF run] by (simp_all add: front_def ending_def)
  have small: "list_all (\<lambda>g. g < 65536) front" "list_all (\<lambda>g. g < 65536) ending"
    using segments_small [of w] unfolding cut by simp_all
  show ?thesis
  proof (cases "1 < n")
    case True
    then have lens: "length front = st" "length ending = 8 - st - n" "st + n \<le> 8"
      using range by (auto simp: front_def ending_def)
    have shown: "show_ipv6 w = groups_text 0 front @ ''::'' @ groups_text 0 ending"
      using assms run True by (simp add: show_ipv6_def show_groups_text Let_def front_def ending_def)
    have "read_groups 8 0 (groups_text 0 front @ ''::'' @ groups_text 0 ending)
        = (front, False, ''::'' @ groups_text 0 ending)"
      by (rule read_groups_text) (use small lens in \<open>auto simp: stops_def\<close>)
    moreover have "read_groups (8 - (length front + 1)) 0 (groups_text 0 ending @ [])
        = (ending, False, [])"
      by (rule read_groups_text) (use small lens True in \<open>auto simp: stops_def\<close>)
    moreover have "8 - length front - length ending = n" using lens by simp
    ultimately show ?thesis
      using lens True cut ipv6_of_segments_segments [of w]
      by (simp add: parse_ipv6_def shown)
  next
    case False
    have shown: "show_ipv6 w = groups_text 0 (segments w)"
      using assms run False by (simp add: show_ipv6_def show_groups_text Let_def)
    have "read_groups 8 0 (groups_text 0 (segments w) @ []) = (segments w, False, [])"
      by (rule read_groups_text) (auto simp: segments_small stops_def)
    then show ?thesis by (simp add: parse_ipv6_def shown ipv6_of_segments_segments)
  qed
qed

lemma parse_show_ipv6: "parse_ipv6 (show_ipv6 w) = Some w"
proof (cases "ipv4_mapped w")
  case None
  then show ?thesis by (rule parse_groups)
next
  case (Some v)
  then show ?thesis using parse_mapped [OF Some] by (simp add: show_ipv6_def)
qed

section \<open>An address of either family\<close>

lemma octets_of_groups:
  assumes "colon_next r" "gs \<noteq> [] \<or> r \<noteq> []"
  shows "read_octets 0 4 (groups_text 0 gs @ r) = None"
proof (cases gs)
  case Nil
  with assms show ?thesis by (cases r) (auto simp: colon_next_def read_octets_colon)
next
  case (Cons g gs')
  then show ?thesis
    using read_octets_group [OF groups_text_colon [OF assms(1), of 0 gs'], of g] by simp
qed

lemma show_ipv6_no_ipv4: "parse_ipv4 (show_ipv6 w) = None"
proof -
  have "read_octets 0 4 (show_ipv6 w) = None"
  proof (cases "ipv4_mapped w")
    case (Some v)
    then show ?thesis by (simp add: show_ipv6_def read_octets_colon)
  next
    case None
    obtain st n where run: "zero_run 0 (0, 0) (0, 0) (segments w) = (st, n)" by fastforce
    have "segments w \<noteq> []" by (metis length_segments list.size(3) zero_neq_numeral)
    then show ?thesis
      using None run octets_of_groups [of "[]" "segments w"]
        octets_of_groups [of "''::'' @ groups_text 0 (drop (st + n) (segments w))"
          "take st (segments w)"]
      by (simp add: show_ipv6_def show_groups_text Let_def colon_next_def)
  qed
  then show ?thesis by (simp add: parse_ipv4_def)
qed

lemma parse_show_ip: "parse_ip (show_ip a) = Some a"
  by (cases a) (simp_all add: parse_ip_def parse_show_ipv4 parse_show_ipv6 show_ipv6_no_ipv4)

end
