(* ===== verification/Diagnostic.thy ===== *)
theory Diagnostic
  imports External Util
begin

text \<open>
  The records of what was dropped (\<open>src/diagnostic.rs\<close>), the credentials of an endpoint
  (\<open>src/auth.rs\<close>), the request schemes (\<open>src/endpoint.rs\<close>) and the crate's error type
  (\<open>src/error.rs\<close>). A record and an error mask what they hold when they are built, so the
  constructors here are the only way the other theories build one.
\<close>

section \<open>Schemes\<close>

datatype scheme = Http | Https | Ftp | Socks | AllSchemes

definition scheme_ALL :: "scheme list" where
  "scheme_ALL = [Http, Https, Ftp, Socks, AllSchemes]"

fun scheme_as_str :: "scheme \<Rightarrow> string" where
  "scheme_as_str Http = ''http''"
| "scheme_as_str Https = ''https''"
| "scheme_as_str Ftp = ''ftp''"
| "scheme_as_str Socks = ''socks''"
| "scheme_as_str AllSchemes = ''all''"

definition scheme_from_name :: "string \<Rightarrow> scheme option" where
  "scheme_from_name name =
     (let n = to_ascii_lowercase (trim_text name) in
      if n = ''http'' then Some Http
      else if n = ''https'' then Some Https
      else if n = ''ftp'' then Some Ftp
      else if n = ''socks'' then Some Socks
      else if n = ''all'' then Some AllSchemes
      else None)"

text \<open>The derived order of \<open>Scheme\<close> is the order of its constructors.\<close>

fun scheme_index :: "scheme \<Rightarrow> nat" where
  "scheme_index Http = 0"
| "scheme_index Https = 1"
| "scheme_index Ftp = 2"
| "scheme_index Socks = 3"
| "scheme_index AllSchemes = 4"

lemma scheme_index_inject [simp]: "scheme_index s = scheme_index t \<longleftrightarrow> s = t"
  by (cases s; cases t) simp_all

instantiation scheme :: linorder
begin

definition less_eq_scheme :: "scheme \<Rightarrow> scheme \<Rightarrow> bool" where
  "less_eq_scheme s t \<longleftrightarrow> scheme_index s \<le> scheme_index t"

definition less_scheme :: "scheme \<Rightarrow> scheme \<Rightarrow> bool" where
  "less_scheme s t \<longleftrightarrow> scheme_index s < scheme_index t"

instance
  by standard (auto simp: less_eq_scheme_def less_scheme_def)

end

text \<open>The schemes are finitely many, so maps on them are compared by evaluation.\<close>

instantiation scheme :: enum
begin

definition enum_scheme :: "scheme list" where
  "enum_scheme = scheme_ALL"

definition enum_all_scheme :: "(scheme \<Rightarrow> bool) \<Rightarrow> bool" where
  "enum_all_scheme p \<longleftrightarrow> list_all p scheme_ALL"

definition enum_ex_scheme :: "(scheme \<Rightarrow> bool) \<Rightarrow> bool" where
  "enum_ex_scheme p \<longleftrightarrow> list_ex p scheme_ALL"

instance
proof
  have univ: "s \<in> set scheme_ALL" for s by (cases s) (simp_all add: scheme_ALL_def)
  then show "(UNIV :: scheme set) = set enum_class.enum" by (auto simp: enum_scheme_def)
  show "distinct (enum_class.enum :: scheme list)" by (simp add: enum_scheme_def scheme_ALL_def)
  show "enum_class.enum_all p \<longleftrightarrow> Ball UNIV p" for p :: "scheme \<Rightarrow> bool"
    using univ by (auto simp: enum_all_scheme_def list_all_iff)
  show "enum_class.enum_ex p \<longleftrightarrow> Bex UNIV p" for p :: "scheme \<Rightarrow> bool"
    using univ by (auto simp: enum_ex_scheme_def list_ex_iff)
qed

end

lemma set_scheme_ALL [simp]: "set scheme_ALL = UNIV"
proof -
  have "s \<in> set scheme_ALL" for s by (cases s) (simp_all add: scheme_ALL_def)
  then show ?thesis by auto
qed

section \<open>Rejected values\<close>

datatype rejection_kind =
  InvalidProxyEndpoint | InvalidBypassEntry | UnknownProxyScheme | UnsupportedMapping

datatype rejection_source =
    ProxyServer
  | BypassList
  | EnvironmentVariable string
  | Kioslaverc string
  | GSettings string
  | SystemConfiguration string
  | ProxyInfo string

record rejected_value =
  rv_kind :: rejection_kind
  rv_source :: rejection_source
  redacted_input :: string
  affected_scheme :: "scheme option"

definition rejected_new ::
    "rejection_kind \<Rightarrow> rejection_source \<Rightarrow> string \<Rightarrow> rejected_value" where
  "rejected_new kind source input =
     \<lparr> rv_kind = kind, rv_source = source, redacted_input = redact_offending_token input,
       affected_scheme = None \<rparr>"

definition for_scheme :: "scheme option \<Rightarrow> rejected_value \<Rightarrow> rejected_value" where
  "for_scheme s r = r\<lparr>affected_scheme := s\<rparr>"

lemma rejected_new_simps [simp]:
  "rv_kind (rejected_new k s i) = k"
  "rv_source (rejected_new k s i) = s"
  "redacted_input (rejected_new k s i) = redact_offending_token i"
  "affected_scheme (rejected_new k s i) = None"
  by (simp_all add: rejected_new_def)

lemma for_scheme_simps [simp]:
  "affected_scheme (for_scheme s r) = s"
  "redacted_input (for_scheme s r) = redacted_input r"
  "rv_kind (for_scheme s r) = rv_kind r"
  by (simp_all add: for_scheme_def)

section \<open>Credentials\<close>

datatype password = Present string | Absent | NotRead | InKeychain

datatype password_state = StatePresent | StateAbsent | StateNotRead | StateInKeychain

record proxy_auth =
  username :: string
  auth_password :: password

definition auth_new :: "string \<Rightarrow> string option \<Rightarrow> proxy_auth" where
  "auth_new user pw =
     \<lparr> username = user, auth_password = (case pw of None \<Rightarrow> Absent | Some p \<Rightarrow> Present p) \<rparr>"

definition from_username :: "string \<Rightarrow> proxy_auth" where
  "from_username user = auth_new user None"

definition mark_missing :: "password \<Rightarrow> proxy_auth \<Rightarrow> proxy_auth" where
  "mark_missing reason a =
     (case auth_password a of Present _ \<Rightarrow> a | _ \<Rightarrow> a\<lparr>auth_password := reason\<rparr>)"

definition password_not_read :: "proxy_auth \<Rightarrow> proxy_auth" where
  "password_not_read a = mark_missing NotRead a"

definition password_in_keychain :: "proxy_auth \<Rightarrow> proxy_auth" where
  "password_in_keychain a = mark_missing InKeychain a"

definition password_of :: "proxy_auth \<Rightarrow> string option" where
  "password_of a = (case auth_password a of Present p \<Rightarrow> Some p | _ \<Rightarrow> None)"

definition has_password :: "proxy_auth \<Rightarrow> bool" where
  "has_password a \<longleftrightarrow> (case auth_password a of Present _ \<Rightarrow> True | _ \<Rightarrow> False)"

definition password_state_of :: "proxy_auth \<Rightarrow> password_state" where
  "password_state_of a =
     (case auth_password a of
        Present _ \<Rightarrow> StatePresent
      | Absent \<Rightarrow> StateAbsent
      | NotRead \<Rightarrow> StateNotRead
      | InKeychain \<Rightarrow> StateInKeychain)"

text \<open>The fields the hand-written \<open>Debug\<close> prints: the user name and the password.\<close>

definition auth_debug :: "proxy_auth \<Rightarrow> string \<times> string option" where
  "auth_debug a =
     ((case split_once_char (\<lambda>c. c = CHR '':'') (username a) of
         Some (user, _) \<Rightarrow> user @ '':'' @ MASK
       | None \<Rightarrow> username a),
      map_option (\<lambda>_. MASK) (password_of a))"

section \<open>Errors\<close>

datatype proxy_error =
    InvalidProxyServer string reason
  | InvalidBypassPattern string reason
  | InvalidProxyUrl string string
  | UnsupportedProxyScheme string
  | CgiHttpProxy string
  | Io string string
  | Sandboxed string string
  | Unsupported
  | PacNotSupported string
  | ProxyEntryUnusable scheme rejected_value
  | PacFetchRequired url
  | PacEvaluation string
  | PacTimeout nat
  | PacSaturated nat nat
  | PacInvalidResult string
  | PacEngineUnavailable

definition error_proxy_server :: "string \<Rightarrow> reason \<Rightarrow> proxy_error" where
  "error_proxy_server input reason = InvalidProxyServer (redact_offending_token input) reason"

definition error_bypass :: "string \<Rightarrow> reason \<Rightarrow> proxy_error" where
  "error_bypass input reason = InvalidBypassPattern (redact_offending_token input) reason"

definition error_invalid_proxy_url :: "string \<Rightarrow> string \<Rightarrow> proxy_error" where
  "error_invalid_proxy_url input source = InvalidProxyUrl (redact_offending_token input) source"

definition error_io :: "string \<Rightarrow> string \<Rightarrow> proxy_error" where
  "error_io context source = Io context source"

definition error_pac_invalid_result :: "string \<Rightarrow> proxy_error" where
  "error_pac_invalid_result result = PacInvalidResult (redact_and_sanitize_untrusted result)"

definition error_pac_evaluation :: "string \<Rightarrow> proxy_error" where
  "error_pac_evaluation reason = PacEvaluation (redact_and_sanitize_untrusted reason)"

end
