(* ===== verification/Endpoint.thy ===== *)
theory Endpoint
  imports Diagnostic
begin

text \<open>
  \<open>src/endpoint.rs\<close>: the address of a proxy, how it is read from the text a source holds and
  how it is written back; the entry of one scheme; the host a URL or an authority names.
\<close>

section \<open>Hosts\<close>

definition parse_host :: "external \<Rightarrow> string \<Rightarrow> reason + host" where
  "parse_host E s =
     (let t = trim_text s in
      if t = [] then Inl MissingHost
      else
        (case Option.bind (strip_prefix ''['' t) (strip_suffix '']'') of
           Some inner \<Rightarrow>
             (case parse_ipv6 inner of
                Some a \<Rightarrow> Inr (Ipv6 a)
              | None \<Rightarrow> Inl (InvalidIpv6Literal (quote_if_not_credential_shaped inner)))
         | None \<Rightarrow>
             (case parse_ipv6 t of
                Some a \<Rightarrow> Inr (Ipv6 a)
              | None \<Rightarrow>
                  map_err (InvalidHost (quote_if_not_credential_shaped t)) (host_parse E t))))"

definition request_host :: "url \<Rightarrow> host option" where
  "request_host u =
     (case url_host u of
        None \<Rightarrow> None
      | Some (Domain []) \<Rightarrow> None
      | Some h \<Rightarrow> Some h)"

definition has_request_host :: "url \<Rightarrow> bool" where
  "has_request_host u \<longleftrightarrow> request_host u \<noteq> None"

section \<open>The wire protocol\<close>

datatype proxy_scheme = PsHttp | PsHttps | PsSocks4 | PsSocks4a | PsSocks5 | PsSocks5h

fun proxy_scheme_as_str :: "proxy_scheme \<Rightarrow> string" where
  "proxy_scheme_as_str PsHttp = ''http''"
| "proxy_scheme_as_str PsHttps = ''https''"
| "proxy_scheme_as_str PsSocks4 = ''socks4''"
| "proxy_scheme_as_str PsSocks4a = ''socks4a''"
| "proxy_scheme_as_str PsSocks5 = ''socks5''"
| "proxy_scheme_as_str PsSocks5h = ''socks5h''"

fun proxy_scheme_default_port :: "proxy_scheme \<Rightarrow> u16" where
  "proxy_scheme_default_port PsHttp = 80"
| "proxy_scheme_default_port PsHttps = 443"
| "proxy_scheme_default_port PsSocks4 = 1080"
| "proxy_scheme_default_port PsSocks4a = 1080"
| "proxy_scheme_default_port PsSocks5 = 1080"
| "proxy_scheme_default_port PsSocks5h = 1080"

definition proxy_scheme_from_str :: "string \<Rightarrow> proxy_error + proxy_scheme" where
  "proxy_scheme_from_str s =
     (let n = to_ascii_lowercase (trim_text s) in
      if n = ''http'' then Inr PsHttp
      else if n = ''https'' then Inr PsHttps
      else if n = ''socks4'' then Inr PsSocks4
      else if n = ''socks'' \<or> n = ''socks5'' then Inr PsSocks5
      else if n = ''socks4a'' then Inr PsSocks4a
      else if n = ''socks5h'' then Inr PsSocks5h
      else Inl (UnsupportedProxyScheme (redact_offending_token n)))"

section \<open>Endpoints\<close>

record proxy_endpoint =
  scheme_hint :: "proxy_scheme option"
  ep_host :: host
  ep_port :: u16
  ep_auth :: "proxy_auth option"

definition endpoint_new :: "host \<Rightarrow> u16 \<Rightarrow> proxy_endpoint" where
  "endpoint_new h p = \<lparr> scheme_hint = None, ep_host = h, ep_port = p, ep_auth = None \<rparr>"

definition with_scheme_hint :: "proxy_scheme \<Rightarrow> proxy_endpoint \<Rightarrow> proxy_endpoint" where
  "with_scheme_hint s e = e\<lparr>scheme_hint := Some s\<rparr>"

definition with_auth :: "proxy_auth \<Rightarrow> proxy_endpoint \<Rightarrow> proxy_endpoint" where
  "with_auth a e = e\<lparr>ep_auth := Some a\<rparr>"

definition parse_userinfo :: "string \<Rightarrow> proxy_auth" where
  "parse_userinfo s =
     (case split_once_char (\<lambda>c. c = CHR '':'') s of
        Some (user, pw) \<Rightarrow> auth_new (percent_decode user) (Some (percent_decode pw))
      | None \<Rightarrow> from_username (percent_decode s))"

definition replacement_character :: string where
  "replacement_character = [CHR 0xEF, CHR 0xBF, CHR 0xBD]"

definition path_char :: "char \<Rightarrow> bool" where
  "path_char c \<longleftrightarrow> c = CHR ''/'' \<or> c = CHR ''?'' \<or> c = CHR ''#''"

text \<open>What \<open>ProxyEndpoint::parse\<close> does with the text after the scheme.\<close>

definition parse_authority ::
    "external \<Rightarrow> string \<Rightarrow> proxy_scheme option \<Rightarrow> string \<Rightarrow> u16 \<Rightarrow> proxy_error + proxy_endpoint"
  where
  "parse_authority E input hint after default_port =
     (let (rest, dropped) =
            (case find_char path_char after of
               Some n \<Rightarrow> (take n after, drop n after)
             | None \<Rightarrow> (after, []))
      in if CHR ''@'' \<in> set dropped then Inl (error_proxy_server input AtAfterPath)
         else if contains_str replacement_character rest
         then Inl (error_proxy_server input NotValidText)
         else
           (let (auth, host_port) =
                  (case rsplit_once_char (\<lambda>c. c = CHR ''@'') rest of
                     Some (userinfo, hp) \<Rightarrow> (Some (parse_userinfo userinfo), hp)
                   | None \<Rightarrow> (None, rest))
            in if host_port = [] then Inl (error_proxy_server input MissingHost)
               else
                 (case split_host_port host_port of
                    Inl r \<Rightarrow> Inl (error_proxy_server input r)
                  | Inr (host_text, port) \<Rightarrow>
                      (case parse_host E host_text of
                         Inl r \<Rightarrow> Inl (error_proxy_server input r)
                       | Inr h \<Rightarrow>
                           if port = None \<and> length host_text < length host_port
                           then Inl (error_proxy_server input EmptyPort)
                           else Inr \<lparr> scheme_hint = hint, ep_host = h,
                                      ep_port = unwrap_or default_port
                                        (or_else port (map_option proxy_scheme_default_port hint)),
                                      ep_auth = auth \<rparr>))))"

definition endpoint_parse :: "external \<Rightarrow> string \<Rightarrow> u16 \<Rightarrow> proxy_error + proxy_endpoint" where
  "endpoint_parse E input default_port =
     (let trimmed = trim_text input in
      if trimmed = [] then Inl (error_proxy_server input EmptyAddress)
      else
        (case split_once_str ''://'' trimmed of
           Some (scheme, after) \<Rightarrow>
             (case proxy_scheme_from_str scheme of
                Inl e \<Rightarrow> Inl e
              | Inr hint \<Rightarrow> parse_authority E input (Some hint) after default_port)
         | None \<Rightarrow> parse_authority E input None trimmed default_port))"

definition authority :: "external \<Rightarrow> proxy_endpoint \<Rightarrow> string" where
  "authority E e =
     (case ep_host e of
        Ipv6 a \<Rightarrow> ''['' @ show_ipv6 a @ '']:'' @ show_nat (unat (ep_port e))
      | h \<Rightarrow> host_show E h @ '':'' @ show_nat (unat (ep_port e)))"

definition endpoint_show :: "external \<Rightarrow> proxy_endpoint \<Rightarrow> string" where
  "endpoint_show E e =
     (case scheme_hint e of None \<Rightarrow> [] | Some s \<Rightarrow> proxy_scheme_as_str s @ ''://'') @ authority E e"

section \<open>Entries\<close>

datatype proxy_entry = Use proxy_endpoint | Disabled | Unusable rejected_value

fun entry_endpoint :: "proxy_entry \<Rightarrow> proxy_endpoint option" where
  "entry_endpoint (Use e) = Some e"
| "entry_endpoint Disabled = None"
| "entry_endpoint (Unusable r) = None"

fun entry_is_disabled :: "proxy_entry \<Rightarrow> bool" where
  "entry_is_disabled Disabled = True"
| "entry_is_disabled (Use e) = False"
| "entry_is_disabled (Unusable r) = False"

fun entry_rejected :: "proxy_entry \<Rightarrow> rejected_value option" where
  "entry_rejected (Unusable r) = Some r"
| "entry_rejected (Use e) = None"
| "entry_rejected Disabled = None"

end
