(* ===== verification/Bypass.thy ===== *)
theory Bypass
  imports Glob Endpoint
begin

text \<open>
  \<open>src/bypass.rs\<close>, the reading of an entry: the five dialects a list is written in,
  \<open>HostPattern::parse_in\<close> stage by stage, and the helpers that read GLib's lists. The
  stages stand in the order the source has them, and each is a definition of its own.
\<close>

section \<open>Patterns and dialects\<close>

datatype host_pattern =
    AllHosts
  | Cidr ip_net
  | Exact host "u16 option"
  | DomainSuffix string bool "u16 option"
  | Wildcard string "u16 option"
  | Local
  | SubtractImplicit

datatype bypass_dialect = Suffix | Windows | MacOs | Gnome | Kde

definition LOCAL_TOKEN :: string where "LOCAL_TOKEN = ''<local>''"

definition NO_LOOPBACK_TOKEN :: string where "NO_LOOPBACK_TOKEN = ''<-loopback>''"

definition dialect_trim :: "bypass_dialect \<Rightarrow> string \<Rightarrow> string" where
  "dialect_trim d entry =
     (case d of
        Gnome \<Rightarrow> trim_end_chars ascii_whitespace entry
      | MacOs \<Rightarrow> entry
      | Windows \<Rightarrow> trim_chars (\<lambda>c. c \<in> set ascii_trim_chars) entry
      | Suffix \<Rightarrow> trim_text entry
      | Kde \<Rightarrow> trim_text entry)"

section \<open>Characters and labels of a host\<close>

definition is_forbidden_host_char :: "string \<Rightarrow> bool" where
  "is_forbidden_host_char ch \<longleftrightarrow>
     is_control ch \<or> (\<exists>c\<in>set ''#%<>?[]^|''. ch = [c]) \<or> ch = [CHR 0x5C]"

definition dot :: "char \<Rightarrow> bool" where "dot c \<longleftrightarrow> c = CHR ''.''"

definition LOAN :: string where "LOAN = ''.a''"

definition idna_label :: "external \<Rightarrow> string \<Rightarrow> reason + string" where
  "idna_label E label =
     (if is_ascii label then Inr label
      else if CHR ''*'' \<in> set label then Inl GlobInUnicodeLabel
      else (case host_parse E (label @ LOAN) of
              Inr (Domain ascii) \<Rightarrow> ok_or NotIdna (strip_suffix LOAN ascii)
            | _ \<Rightarrow> Inl NotIdna))"

fun idna_labels :: "external \<Rightarrow> string list \<Rightarrow> reason + string list" where
  "idna_labels E [] = Inr []"
| "idna_labels E (label # labels) =
     (case idna_label E label of
        Inl e \<Rightarrow> Inl e
      | Inr l \<Rightarrow> (case idna_labels E labels of Inl e \<Rightarrow> Inl e | Inr ls \<Rightarrow> Inr (l # ls)))"

definition idna_ascii :: "external \<Rightarrow> string \<Rightarrow> reason + string" where
  "idna_ascii E host_text =
     (case idna_labels E (split_chars dot host_text) of
        Inl e \<Rightarrow> Inl e
      | Inr ls \<Rightarrow> Inr (intercalate_char (CHR ''.'') ls))"

section \<open>Reading an entry\<close>

text \<open>The tokens that are read before the dialect is.\<close>

definition parse_token :: "bypass_dialect \<Rightarrow> string \<Rightarrow> host_pattern option" where
  "parse_token d lowered =
     (if lowered = ''*'' \<and> d \<noteq> MacOs \<and> d \<noteq> Gnome then Some AllHosts
      else if lowered = LOCAL_TOKEN then Some Local
      else if lowered = NO_LOOPBACK_TOKEN then Some SubtractImplicit
      else None)"

text \<open>The guards on the whole entry, the first that refuses it.\<close>

definition refuse_entry :: "bypass_dialect \<Rightarrow> string \<Rightarrow> string \<Rightarrow> reason option" where
  "refuse_entry d entry lowered =
     (if CHR ''@'' \<in> set entry then Some (LooksLikeProxyUrl (redact_offending_token entry))
      else if has_whitespace entry then Some ContainsWhitespace
      else if contains_str ''://'' lowered then Some NamesScheme
      else if d = Windows \<and> CHR ''/'' \<in> set lowered then Some SlashInWindowsList
      else if d = Windows \<and> starts_with ''.'' lowered \<and> dropWhile dot lowered \<noteq> []
      then Some LeadingDotInWindowsList
      else None)"

text \<open>The CIDR readings: \<open>None\<close> when the entry is not a block, and a host is read instead.\<close>

definition parse_cidr ::
    "external \<Rightarrow> bypass_dialect \<Rightarrow> string \<Rightarrow> (reason + host_pattern) option" where
  "parse_cidr E d lowered =
     (let folded =
            (case split_once_char (\<lambda>c. c = CHR ''/'') lowered of
               None \<Rightarrow> None
             | Some (address, pfx) \<Rightarrow>
                 if parse_ip address = None
                    \<and> length (split_chars dot address) = 4
                    \<and> list_all (\<lambda>part. part \<noteq> []) (split_chars dot address)
                    \<and> \<not> list_ex is_forbidden_host_char (chars address)
                 then (case parse_host E address of
                         Inr (Ipv4 v4) \<Rightarrow>
                           if d = MacOs \<or> d = Kde then Some (Inl NonDecimalCidr)
                           else map_option (\<lambda>net. Inr (Cidr net))
                                  (net_parse E (show_ipv4 v4 @ ''/'' @ pfx))
                       | _ \<Rightarrow> None)
                 else None)
      in case folded of
           Some r \<Rightarrow> Some r
         | None \<Rightarrow>
             (case net_parse E lowered of
                Some net \<Rightarrow> Some (Inr (Cidr net))
              | None \<Rightarrow> if CHR ''/'' \<in> set lowered then Some (Inl NotCidr) else None))"

text \<open>The host part and the port of an entry that is not a block, in ASCII.\<close>

definition parse_host_part ::
    "external \<Rightarrow> bypass_dialect \<Rightarrow> string \<Rightarrow> reason + (string \<times> u16 option)" where
  "parse_host_part E d lowered =
     (case split_host_port lowered of
        Inl r \<Rightarrow> Inl r
      | Inr (bracketed_text, port) \<Rightarrow>
          (let host_text = strip_brackets bracketed_text in
           if (d = Windows \<or> d = Kde) \<and> ends_with ''.'' host_text
              \<and> trim_chars (\<lambda>c. c = CHR ''*'' \<or> c = CHR ''.'') host_text \<noteq> []
           then Inl TrailingDotAsWritten
           else if d = MacOs \<and> port \<noteq> None then Inl PortInMacosList
           else if length host_text \<noteq> length bracketed_text
                   \<and> (case parse_host E host_text of
                        Inr (Ipv4 _) \<Rightarrow> False | Inr (Ipv6 _) \<Rightarrow> False | _ \<Rightarrow> True)
           then Inl BracketedNotAddress
           else
             (case List.find is_forbidden_host_char (chars host_text) of
                Some bad \<Rightarrow> Inl (ForbiddenCharacter bad)
              | None \<Rightarrow>
                  if is_ascii host_text then Inr (host_text, port)
                  else (case idna_ascii E host_text of
                          Inl r \<Rightarrow> Inl r
                        | Inr encoded \<Rightarrow> Inr (encoded, port)))))"

definition root_stripped :: "string \<Rightarrow> string" where
  "root_stripped s = unwrap_or s (strip_suffix ''.'' s)"

text \<open>The guards on the labels, and on what a subdomain spelling names.\<close>

definition refuse_labels :: "external \<Rightarrow> string \<Rightarrow> reason option" where
  "refuse_labels E host_text =
     (let subdomain_body = or_else (strip_prefix ''*.'' host_text) (strip_prefix ''.'' host_text);
          labelled = root_stripped (unwrap_or host_text subdomain_body)
      in if labelled \<noteq> [] \<and> list_ex (\<lambda>l. l = []) (split_chars dot labelled) then Some EmptyLabel
         else
           (case map_option root_stripped subdomain_body of
              None \<Rightarrow> None
            | Some body \<Rightarrow>
                if body = [] then None
                else
                  (let fits_a_dotted_quad =
                         CHR ''*'' \<in> set body \<and> length (filter dot body) < 3
                           \<and> list_all (\<lambda>b. is_digit b \<or> b = CHR ''.'' \<or> b = CHR ''*'') body
                   in case parse_host E body of
                        Inr (Domain _) \<Rightarrow> None
                      | Inr _ \<Rightarrow> Some SubdomainOfAddress
                      | Inl _ \<Rightarrow> if fits_a_dotted_quad then None else Some UnreachableName)))"

text \<open>A \<open>*.\<close> spelling.\<close>

definition parse_star_dot ::
    "bypass_dialect \<Rightarrow> string \<Rightarrow> u16 option \<Rightarrow> reason + host_pattern option" where
  "parse_star_dot d rest0 port =
     (let rest = root_stripped rest0 in
      if rest = [] then Inr None
      else if CHR ''*'' \<notin> set rest
      then Inr (Some (DomainSuffix (CHR ''.'' # rest) (d = Gnome) port))
      else if d = Gnome then Inl GnomeLiteralStar
      else if d = MacOs then Inl MacosLiteralStar
      else Inr (Some (Wildcard (''*.'' @ rest) port)))"

text \<open>A glob that does not start with \<open>*.\<close>.\<close>

definition parse_glob ::
    "bypass_dialect \<Rightarrow> string \<Rightarrow> u16 option \<Rightarrow> reason + host_pattern option" where
  "parse_glob d host_text port =
     (if d = Gnome then Inl GnomeLiteralStar
      else if d = MacOs then
        (case strip_suffix ''.*'' host_text of
           Some head \<Rightarrow>
             if head \<noteq> [] \<and> CHR ''*'' \<notin> set head \<and> \<not> starts_with ''.'' head
             then Inr (Some (Wildcard (head @ ''.*'') port))
             else Inl MacosLiteralStar
         | None \<Rightarrow> Inl MacosLiteralStar)
      else Inr (Some (Wildcard
             (if starts_with ''.'' host_text then CHR ''*'' # host_text else host_text) port)))"

text \<open>A plain name, or an address spelled some other way than the canonical one.\<close>

definition parse_plain ::
    "external \<Rightarrow> bypass_dialect \<Rightarrow> string \<Rightarrow> u16 option \<Rightarrow> reason + host_pattern option" where
  "parse_plain E d host_text port =
     (case parse_host E host_text of
        Inl _ \<Rightarrow> Inl UnreachableName
      | Inr h \<Rightarrow>
          (let v4 = (case h of Ipv4 _ \<Rightarrow> True | _ \<Rightarrow> False) in
           if (d = Windows \<or> d = MacOs \<or> d = Kde) \<and> v4 then Inl NonDecimalIpv4
           else if v4 \<or> d = Windows \<or> d = MacOs then Inr (Some (Exact h port))
           else Inr (Some (DomainSuffix (CHR ''.'' # host_text) True port))))"

definition host_of_ip :: "ip_addr \<Rightarrow> host" where
  "host_of_ip ip = (case ip of IpV4 a \<Rightarrow> Ipv4 a | IpV6 a \<Rightarrow> Ipv6 a)"

text \<open>The pattern a host part stands for.\<close>

definition parse_name ::
    "external \<Rightarrow> bypass_dialect \<Rightarrow> string \<Rightarrow> u16 option \<Rightarrow> reason + host_pattern option" where
  "parse_name E d host_text0 port =
     (case strip_prefix ''*.'' host_text0 of
        Some rest \<Rightarrow> parse_star_dot d rest port
      | None \<Rightarrow>
          (let host_text = root_stripped host_text0 in
           if host_text = [] then Inr None
           else
             (case parse_ip host_text of
                Some ip \<Rightarrow> Inr (Some (Exact (host_of_ip ip) port))
              | None \<Rightarrow>
                  if CHR ''*'' \<in> set host_text then parse_glob d host_text port
                  else
                    (case strip_prefix ''.'' host_text of
                       Some rest \<Rightarrow>
                         if rest = [] then Inr None
                         else Inr (Some (DomainSuffix host_text (d = Gnome) port))
                     | None \<Rightarrow> parse_plain E d host_text port))))"

definition parse_host_entry ::
    "external \<Rightarrow> bypass_dialect \<Rightarrow> string \<Rightarrow> reason + host_pattern option" where
  "parse_host_entry E d lowered =
     (case parse_host_part E d lowered of
        Inl r \<Rightarrow> Inl r
      | Inr (host_text, port) \<Rightarrow>
          (case refuse_labels E host_text of
             Some r \<Rightarrow> Inl r
           | None \<Rightarrow> parse_name E d host_text port))"

definition parse_in ::
    "external \<Rightarrow> string \<Rightarrow> bypass_dialect \<Rightarrow> proxy_error + host_pattern option" where
  "parse_in E entry0 d =
     (let entry = dialect_trim d entry0; lowered = to_ascii_lowercase entry in
      if entry = [] then Inr None
      else
        (case parse_token d lowered of
           Some p \<Rightarrow> Inr (Some p)
         | None \<Rightarrow>
             (case refuse_entry d entry lowered of
                Some r \<Rightarrow> Inl (error_bypass entry r)
              | None \<Rightarrow>
                  map_err (error_bypass entry)
                    (case parse_cidr E d lowered of
                       Some (Inl r) \<Rightarrow> Inl r
                     | Some (Inr p) \<Rightarrow> Inr (Some p)
                     | None \<Rightarrow> parse_host_entry E d lowered))))"

definition pattern_parse :: "external \<Rightarrow> string \<Rightarrow> proxy_error + host_pattern option" where
  "pattern_parse E entry = parse_in E entry Suffix"

section \<open>GLib's reading\<close>

definition glib_mask :: "external \<Rightarrow> string \<Rightarrow> ip_net option" where
  "glib_mask E entry =
     (let (address, pfx) =
            (case split_once_char (\<lambda>c. c = CHR ''/'') entry of
               Some (a, p) \<Rightarrow> (a, Some p)
             | None \<Rightarrow> (entry, None))
      in case parse_ip address of
           None \<Rightarrow> None
         | Some ip \<Rightarrow>
             (let full = (case ip of IpV4 _ \<Rightarrow> 32 | IpV6 _ \<Rightarrow> 128);
                  bits = (case pfx of
                            Some p \<Rightarrow>
                              if p \<noteq> [] \<and> all_digits p \<and> digits_value 0 p < 256
                              then Some (digits_value 0 p) else None
                          | None \<Rightarrow> Some full)
              in case bits of
                   None \<Rightarrow> None
                 | Some n \<Rightarrow>
                     (case net_new E ip n of
                        None \<Rightarrow> None
                      | Some net \<Rightarrow> if net_trunc_addr E net = ip then Some net else None)))"

datatype glib_refusal =
    OpenBracket
  | BracketedWithoutPort
  | PortNotNumber
  | AfterEmptyName
  | WinInetToken
  | NotAscii
  | GlibTrailingDot
  | NotGlibMask
  | NotInetPton

definition glib_name :: "string \<Rightarrow> glib_refusal + string" where
  "glib_name entry =
     (let split =
            (case strip_prefix ''['' entry of
               Some inner \<Rightarrow>
                 (case split_once_char (\<lambda>c. c = CHR '']'') inner of
                    None \<Rightarrow> Inl OpenBracket
                  | Some (address, rest) \<Rightarrow>
                      (case strip_prefix '':'' rest of
                         None \<Rightarrow> Inl BracketedWithoutPort
                       | Some port \<Rightarrow> Inr (address, Some port)))
             | None \<Rightarrow>
                 (case split_once_char (\<lambda>c. c = CHR '':'') entry of
                    Some (name, port) \<Rightarrow>
                      if CHR '':'' \<in> set port then Inr (entry, None) else Inr (name, Some port)
                  | None \<Rightarrow> Inr (entry, None)))
      in case split of
           Inl r \<Rightarrow> Inl r
         | Inr (name, port) \<Rightarrow>
             if (case port of None \<Rightarrow> False | Some p \<Rightarrow> \<not> all_digits p) then Inl PortNotNumber
             else if parse_ip name \<noteq> None then Inr name
             else Inr (unwrap_or name (or_else (strip_prefix ''*.'' name) (strip_prefix ''.'' name))))"

text \<open>Why GLib would not match an entry that is not a mask; whether the names end with it.\<close>

definition glib_refusal :: "external \<Rightarrow> bool \<Rightarrow> string \<Rightarrow> glib_refusal option \<times> bool" where
  "glib_refusal E names_ended entry =
     (case glib_name entry of
        Inl r \<Rightarrow> (Some r, names_ended)
      | Inr name \<Rightarrow>
          if name = [] then (None, True)
          else
            ((if names_ended then Some AfterEmptyName
              else if eq_ignore_ascii_case name LOCAL_TOKEN
                      \<or> eq_ignore_ascii_case name NO_LOOPBACK_TOKEN
              then Some WinInetToken
              else if \<not> is_ascii name then Some NotAscii
              else if ends_with ''.'' name then Some GlibTrailingDot
              else if CHR ''/'' \<in> set name then Some NotGlibMask
              else if parse_ip name = None
                      \<and> (case parse_host E name of Inr (Ipv4 _) \<Rightarrow> True | _ \<Rightarrow> False)
              then Some NotInetPton
              else None), names_ended))"

end
