(* ===== verification/Bypass_Rules.thy ===== *)
theory Bypass_Rules
  imports Bypass
begin

text \<open>
  \<open>src/bypass.rs\<close>, the rules: a list with its switches, what is pushed onto it, and whether
  a destination bypasses the proxy.
\<close>

section \<open>Destinations\<close>

definition port_matches :: "u16 option \<Rightarrow> u16 option \<Rightarrow> bool" where
  "port_matches rule_port port \<longleftrightarrow> (case rule_port of None \<Rightarrow> True | Some p \<Rightarrow> port = Some p)"

fun host_key :: "external \<Rightarrow> host \<Rightarrow> string" where
  "host_key E (Domain d) =
     to_ascii_lowercase (if is_ascii d then d
       else (case idna_ascii E d of Inr a \<Rightarrow> a | Inl _ \<Rightarrow> d))"
| "host_key E (Ipv4 a) = show_ipv4 a"
| "host_key E (Ipv6 a) = show_ipv6 a"

fun host_ip :: "host \<Rightarrow> ip_addr option" where
  "host_ip (Domain _) = None"
| "host_ip (Ipv4 a) = Some (IpV4 a)"
| "host_ip (Ipv6 a) = Some (IpV6 a)"

fun reduce_mapped :: "ip_addr \<Rightarrow> ip_addr" where
  "reduce_mapped (IpV6 a) = (case ipv4_mapped a of Some v4 \<Rightarrow> IpV4 v4 | None \<Rightarrow> IpV6 a)"
| "reduce_mapped (IpV4 a) = IpV4 a"

definition is_loopback_address :: "ip_addr \<Rightarrow> bool" where
  "is_loopback_address ip \<longleftrightarrow> ip = IpV4 ipv4_localhost \<or> ip = IpV6 ipv6_localhost"

fun reduce_mapped_net :: "external \<Rightarrow> ip_net \<Rightarrow> ip_net" where
  "reduce_mapped_net E (NetV4 a p) = NetV4 a p"
| "reduce_mapped_net E (NetV6 a p) =
     (case (ipv4_mapped a, 96 \<le> p) of
        (Some v4, True) \<Rightarrow> unwrap_or (NetV6 a p) (net_new E (IpV4 v4) (p - 96))
      | _ \<Rightarrow> NetV6 a p)"

definition is_loopback :: "string \<Rightarrow> ip_addr option \<Rightarrow> bool" where
  "is_loopback host_text ip \<longleftrightarrow>
     (case ip of
        Some a \<Rightarrow> ip_is_loopback a
      | None \<Rightarrow>
          (let name = root_stripped host_text
           in name = ''localhost'' \<or> name = ''loopback'' \<or> ends_with ''.localhost'' name))"

definition is_link_local :: "ip_addr option \<Rightarrow> bool" where
  "is_link_local ip \<longleftrightarrow>
     (case ip of
        Some (IpV4 a) \<Rightarrow> ipv4_is_link_local a
      | Some (IpV6 a) \<Rightarrow> ipv6_is_unicast_link_local a
      | None \<Rightarrow> False)"

definition is_simple_host_name :: "string \<Rightarrow> ip_addr option \<Rightarrow> bool" where
  "is_simple_host_name host_text ip \<longleftrightarrow> ip = None \<and> CHR ''.'' \<notin> set host_text"

definition strip_suffix_ascii_case :: "string \<Rightarrow> string \<Rightarrow> string option" where
  "strip_suffix_ascii_case s sfx =
     (if length s < length sfx then None
      else (let n = length s - length sfx in
            if (case get_opt s n of Some c \<Rightarrow> continuation_byte c | None \<Rightarrow> False) then None
            else if eq_ignore_ascii_case (drop n s) sfx then Some (take n s) else None))"

section \<open>The implicit set\<close>

datatype implicit_bypass = Broad | WinInet | CfNetwork | EmptySet

fun implicit_covers :: "implicit_bypass \<Rightarrow> string \<Rightarrow> ip_addr option \<Rightarrow> bool" where
  "implicit_covers Broad host_text ip = is_loopback host_text (map_option reduce_mapped ip)"
| "implicit_covers WinInet host_text ip =
     (case ip of
        Some a \<Rightarrow> is_loopback_address a \<or> is_link_local (Some a)
      | None \<Rightarrow> host_text = ''localhost'' \<or> host_text = ''loopback'')"
| "implicit_covers CfNetwork host_text ip =
     (case ip of Some a \<Rightarrow> is_loopback_address a | None \<Rightarrow> host_text = ''localhost'')"
| "implicit_covers EmptySet host_text ip = False"

section \<open>One pattern\<close>

fun pattern_matches ::
    "external \<Rightarrow> host_pattern \<Rightarrow> string \<Rightarrow> ip_addr option \<Rightarrow> u16 option \<Rightarrow> bool \<Rightarrow> bool" where
  "pattern_matches E AllHosts host_text ip port reduce = True"
| "pattern_matches E (Cidr net) host_text ip port reduce =
     (case ip of
        Some a \<Rightarrow> net_contains E (if reduce then reduce_mapped_net E net else net) a
      | None \<Rightarrow> False)"
| "pattern_matches E (Exact h rule_port) host_text ip port reduce =
     ((case (map_option (\<lambda>a. if reduce then reduce_mapped a else a) (host_ip h), ip) of
         (Some rule_ip, Some a) \<Rightarrow> rule_ip = a
       | _ \<Rightarrow> host_text = host_key E h)
      \<and> port_matches rule_port port)"
| "pattern_matches E (DomainSuffix sfx match_self rule_port) host_text ip port reduce =
     ((let bare = unwrap_or sfx (strip_prefix ''.'' sfx) in
       bare \<noteq> []
       \<and> (case strip_suffix_ascii_case host_text bare of
            None \<Rightarrow> False
          | Some rest \<Rightarrow> ends_with ''.'' rest \<or> (match_self \<and> rest = [])))
      \<and> port_matches rule_port port)"
| "pattern_matches E (Wildcard pattern rule_port) host_text ip port reduce =
     (glob_match (if list_ex is_upper pattern then to_ascii_lowercase pattern else pattern) host_text
      \<and> port_matches rule_port port)"
| "pattern_matches E Local host_text ip port reduce = is_simple_host_name host_text ip"
| "pattern_matches E SubtractImplicit host_text ip port reduce = False"

section \<open>Writing a pattern\<close>

fun host_display :: "external \<Rightarrow> host \<Rightarrow> string" where
  "host_display E (Ipv6 a) = ''['' @ show_ipv6 a @ '']''"
| "host_display E (Domain d) = host_show E (Domain d)"
| "host_display E (Ipv4 a) = host_show E (Ipv4 a)"

definition write_with_port :: "string \<Rightarrow> u16 option \<Rightarrow> string" where
  "write_with_port base port =
     (case port of Some p \<Rightarrow> base @ '':'' @ show_nat (unat p) | None \<Rightarrow> base)"

fun pattern_show :: "external \<Rightarrow> host_pattern \<Rightarrow> string" where
  "pattern_show E AllHosts = ''*''"
| "pattern_show E (Cidr net) = net_show E net"
| "pattern_show E (Exact h port) = write_with_port (host_display E h) port"
| "pattern_show E (DomainSuffix sfx match_self port) =
     write_with_port
       (case (match_self, strip_prefix ''.'' sfx) of
          (True, Some bare) \<Rightarrow> bare
        | (False, None) \<Rightarrow> CHR ''.'' # sfx
        | _ \<Rightarrow> sfx) port"
| "pattern_show E (Wildcard pattern port) = write_with_port pattern port"
| "pattern_show E Local = LOCAL_TOKEN"
| "pattern_show E SubtractImplicit = NO_LOOPBACK_TOKEN"

section \<open>The rules\<close>

record bypass_rules =
  patterns :: "host_pattern list"
  exclude_simple_hostnames :: bool
  reversed_exceptions :: bool
  br_rejected :: "rejected_value list"
  require_explicit_port :: bool
  implicit :: implicit_bypass
  ipv4_mapped_as_ipv4 :: bool
  strip_trailing_dot :: bool

definition bypass_new :: bypass_rules where
  "bypass_new =
     \<lparr> patterns = [], exclude_simple_hostnames = False, reversed_exceptions = False,
       br_rejected = [], require_explicit_port = False, implicit = Broad,
       ipv4_mapped_as_ipv4 = True, strip_trailing_dot = True \<rparr>"

definition bypass_loopback :: "bypass_rules \<Rightarrow> bool" where
  "bypass_loopback r \<longleftrightarrow> \<not> list_ex (\<lambda>p. p = SubtractImplicit) (patterns r)"

definition excludes_simple_hostnames :: "bypass_rules \<Rightarrow> bool" where
  "excludes_simple_hostnames r \<longleftrightarrow>
     exclude_simple_hostnames r \<or> list_ex (\<lambda>p. p = Local) (patterns r)"

definition bypass_is_empty :: "bypass_rules \<Rightarrow> bool" where
  "bypass_is_empty r \<longleftrightarrow>
     patterns r = [] \<and> \<not> exclude_simple_hostnames r \<and> \<not> reversed_exceptions r"

definition push_pattern :: "host_pattern \<Rightarrow> bypass_rules \<Rightarrow> bypass_rules" where
  "push_pattern p r = r\<lparr>patterns := patterns r @ [p]\<rparr>"

definition push_rejected :: "rejection_source \<Rightarrow> string \<Rightarrow> bypass_rules \<Rightarrow> bypass_rules" where
  "push_rejected source entry r =
     r\<lparr>br_rejected := br_rejected r @ [rejected_new InvalidBypassEntry source entry]\<rparr>"

fun dedup_runs :: "host_pattern list \<Rightarrow> host_pattern list \<Rightarrow> host_pattern list" where
  "dedup_runs seen [] = []"
| "dedup_runs seen (p # ps) =
     (if p = SubtractImplicit then p # dedup_runs [] ps
      else if p \<in> set seen then dedup_runs seen ps
      else p # dedup_runs (p # seen) ps)"

definition dedup_patterns :: "bypass_rules \<Rightarrow> bypass_rules" where
  "dedup_patterns r = r\<lparr>patterns := dedup_runs [] (patterns r)\<rparr>"

definition push_entry_from ::
    "external \<Rightarrow> string \<Rightarrow> bypass_dialect \<Rightarrow> rejection_source \<Rightarrow> bypass_rules \<Rightarrow> bypass_rules" where
  "push_entry_from E entry d source r =
     (case parse_in E entry d of
        Inr (Some p) \<Rightarrow> push_pattern p r
      | Inr None \<Rightarrow> r
      | Inl _ \<Rightarrow> push_rejected source entry r)"

definition push_entry_in :: "external \<Rightarrow> string \<Rightarrow> bypass_dialect \<Rightarrow> bypass_rules \<Rightarrow> bypass_rules" where
  "push_entry_in E entry d r = push_entry_from E entry d BypassList r"

fun push_gnome_entries ::
    "external \<Rightarrow> bool \<Rightarrow> string list \<Rightarrow> bypass_rules \<Rightarrow> bypass_rules" where
  "push_gnome_entries E names_ended [] r = r"
| "push_gnome_entries E names_ended (entry0 # entries) r =
     (let entry = dialect_trim Gnome entry0 in
      case glib_mask E entry of
        Some net \<Rightarrow> push_gnome_entries E names_ended entries (push_pattern (Cidr net) r)
      | None \<Rightarrow>
          (let (refusal, ended) = glib_refusal E names_ended entry in
           push_gnome_entries E ended entries
             (case refusal of
                Some _ \<Rightarrow> push_rejected BypassList entry r
              | None \<Rightarrow>
                  if ended \<and> entry = [] then r else push_entry_in E entry Gnome r)))"

section \<open>Matching\<close>

text \<open>The loop over the entries, from the last to the first.\<close>

fun match_entries ::
    "external \<Rightarrow> bypass_rules \<Rightarrow> bool \<Rightarrow> bool \<Rightarrow> string \<Rightarrow> string \<Rightarrow> ip_addr option \<Rightarrow> u16 option
       \<Rightarrow> host_pattern list \<Rightarrow> bool" where
  "match_entries E r covered unnamed host_text entry_text ip port [] = (covered \<or> unnamed)"
| "match_entries E r covered unnamed host_text entry_text ip port (p # ps) =
     (if p = SubtractImplicit then
        (if covered then unnamed
         else match_entries E r covered unnamed host_text entry_text ip port ps)
      else if pattern_matches E p (if p = Local then host_text else entry_text) ip port
                (ipv4_mapped_as_ipv4 r)
      then \<not> reversed_exceptions r
      else match_entries E r covered unnamed host_text entry_text ip port ps)"

definition rules_match :: "external \<Rightarrow> bypass_rules \<Rightarrow> host \<Rightarrow> u16 option \<Rightarrow> bool" where
  "rules_match E r h port =
     (let host_text = host_key E h in
      if host_text = [] then False
      else
        (let written = host_ip h;
             ip = (if ipv4_mapped_as_ipv4 r then map_option reduce_mapped written else written);
             covered = implicit_covers (implicit r) host_text written;
             entry_text = (if strip_trailing_dot r then root_stripped host_text else host_text);
             unnamed = (reversed_exceptions r \<and> br_rejected r = [])
         in if exclude_simple_hostnames r \<and> CHR ''.'' \<notin> set host_text
               \<and> (bypass_loopback r \<or> \<not> covered)
            then True
            else match_entries E r covered unnamed host_text entry_text ip port
                   (rev (patterns r))))"

definition matches_url :: "external \<Rightarrow> bypass_rules \<Rightarrow> url \<Rightarrow> bool" where
  "matches_url E r u =
     (case request_host u of
        None \<Rightarrow> False
      | Some h \<Rightarrow>
          rules_match E r h (if require_explicit_port r then url_port u else port_or_known_default u))"

definition matches_authority :: "external \<Rightarrow> bypass_rules \<Rightarrow> string \<Rightarrow> bool" where
  "matches_authority E r s =
     (case split_host_port (trim_text s) of
        Inl _ \<Rightarrow> False
      | Inr (host_text, port) \<Rightarrow>
          (case parse_host E host_text of Inl _ \<Rightarrow> False | Inr h \<Rightarrow> rules_match E r h port))"

end
