(* ===== verification/Mode.thy ===== *)
theory Mode
  imports Bypass_Rules
begin

text \<open>
  \<open>src/mode.rs\<close>: what one source says about proxying, and the lookups in it. A per-scheme
  map is a map from schemes to entries.
\<close>

type_synonym scheme_map = "scheme \<rightharpoonup> proxy_entry"

datatype proxy_mode =
    Direct
  | Manual scheme_map bypass_rules "rejected_value list"
  | Pac url "rejected_value list"
  | PacInline string "rejected_value list"
  | WpadAutoDetect

section \<open>The precedence rule\<close>

fun answer_from :: "proxy_entry option \<Rightarrow> proxy_entry list \<Rightarrow> proxy_entry option" where
  "answer_from dropped [] = dropped"
| "answer_from dropped (Unusable r # es) = answer_from (or_else dropped (Some (Unusable r))) es"
| "answer_from dropped (Use e # es) = Some (Use e)"
| "answer_from dropped (Disabled # es) = Some Disabled"

definition first_answer :: "proxy_entry list \<Rightarrow> proxy_entry option" where
  "first_answer es = answer_from None es"

fun present :: "'a option list \<Rightarrow> 'a list" where
  "present [] = []"
| "present (None # xs) = present xs"
| "present (Some x # xs) = x # present xs"

section \<open>Building a mode\<close>

definition manual_rejected :: "scheme_map \<Rightarrow> rejected_value list" where
  "manual_rejected m =
     present (map (\<lambda>s. case m s of Some (Unusable r) \<Rightarrow> Some r | _ \<Rightarrow> None) scheme_ALL)"

definition mode_manual :: "scheme_map \<Rightarrow> bypass_rules \<Rightarrow> proxy_mode" where
  "mode_manual m b = Manual m b (manual_rejected m)"

definition mode_pac :: "url \<Rightarrow> proxy_mode" where
  "mode_pac u = Pac u []"

definition mode_pac_inline :: "string \<Rightarrow> proxy_mode" where
  "mode_pac_inline script = PacInline script []"

fun file_rejected :: "rejected_value list \<Rightarrow> scheme_map \<Rightarrow> scheme_map" where
  "file_rejected [] m = m"
| "file_rejected (v # vs) m =
     file_rejected vs
       (case affected_scheme v of
          None \<Rightarrow> m
        | Some s \<Rightarrow> if m s = None then m(s \<mapsto> Unusable v) else m)"

fun with_rejected :: "rejected_value list \<Rightarrow> proxy_mode \<Rightarrow> proxy_mode" where
  "with_rejected vs (Manual m b old) = Manual (file_rejected vs m) b vs"
| "with_rejected vs (Pac u old) = Pac u vs"
| "with_rejected vs (PacInline s old) = PacInline s vs"
| "with_rejected vs Direct = Direct"
| "with_rejected vs WpadAutoDetect = WpadAutoDetect"

section \<open>Reading a mode\<close>

fun is_direct :: "proxy_mode \<Rightarrow> bool" where
  "is_direct Direct = True"
| "is_direct (Manual m b r) = False"
| "is_direct (Pac u r) = False"
| "is_direct (PacInline s r) = False"
| "is_direct WpadAutoDetect = False"

fun mode_bypass :: "proxy_mode \<Rightarrow> bypass_rules option" where
  "mode_bypass (Manual m b r) = Some b"
| "mode_bypass Direct = None"
| "mode_bypass (Pac u r) = None"
| "mode_bypass (PacInline s r) = None"
| "mode_bypass WpadAutoDetect = None"

fun mode_rejected :: "proxy_mode \<Rightarrow> rejected_value list option" where
  "mode_rejected (Manual m b r) = Some r"
| "mode_rejected (Pac u r) = Some r"
| "mode_rejected (PacInline s r) = Some r"
| "mode_rejected Direct = None"
| "mode_rejected WpadAutoDetect = None"

definition entry_for :: "proxy_mode \<Rightarrow> scheme \<Rightarrow> proxy_entry option" where
  "entry_for mode s =
     (case mode of
        Manual m b r \<Rightarrow> first_answer (present (map m [s, AllSchemes]))
      | _ \<Rightarrow> None)"

definition endpoint_for :: "proxy_mode \<Rightarrow> scheme \<Rightarrow> proxy_endpoint option" where
  "endpoint_for mode s = Option.bind (entry_for mode s) entry_endpoint"

definition configured :: "scheme_map \<Rightarrow> scheme \<Rightarrow> proxy_entry option" where
  "configured m s =
     (case m s of
        Some (Use e) \<Rightarrow> Some (Use e)
      | Some (Unusable r) \<Rightarrow> Some (Unusable r)
      | _ \<Rightarrow> None)"

definition websocket_entry :: "proxy_mode \<Rightarrow> proxy_entry option" where
  "websocket_entry mode =
     (case mode of
        Manual m b r \<Rightarrow>
          first_answer (present (map (configured m) [Socks, Https, Http] @ [m AllSchemes]))
      | _ \<Rightarrow> None)"

definition websocket_endpoint :: "proxy_mode \<Rightarrow> proxy_endpoint option" where
  "websocket_endpoint mode = Option.bind (websocket_entry mode) entry_endpoint"

text \<open>What \<open>Debug\<close> prints of a mode that holds a script or its location.\<close>

datatype mode_debug = ShowUrl string | ShowScript nat u64 | ShowOther

definition mode_debug :: "proxy_mode \<Rightarrow> mode_debug" where
  "mode_debug mode =
     (case mode of
        Pac u r \<Rightarrow> ShowUrl (redact_userinfo (as_str u))
      | PacInline script r \<Rightarrow> ShowScript (length script) (fnv1a (map of_char script))
      | _ \<Rightarrow> ShowOther)"

end
