(* ===== verification/Parse.thy ===== *)
theory Parse
  imports Mode
begin

text \<open>
  \<open>src/parse.rs\<close>: the Windows \<open>ProxyServer\<close> string and the bypass lists.
\<close>

section \<open>Lists\<close>

definition WINDOWS_DEFAULT_PORT :: u16 where "WINDOWS_DEFAULT_PORT = 80"

definition list_separator :: "char \<Rightarrow> bool" where
  "list_separator c \<longleftrightarrow> c = CHR '',''"

definition windows_server_separator :: "char \<Rightarrow> bool" where
  "windows_server_separator c \<longleftrightarrow> c \<in> {CHR '';'', CHR '' '', CHR 0x09, CHR 0x0D, CHR 0x0A}"

definition windows_bypass_separator :: "char \<Rightarrow> bool" where
  "windows_bypass_separator c \<longleftrightarrow>
     c \<in> {CHR '';'', CHR '','', CHR '' '', CHR 0x09, CHR 0x0D, CHR 0x0A}"

definition dialect_rules :: "bypass_dialect \<Rightarrow> bypass_rules" where
  "dialect_rules d = bypass_new
     \<lparr> implicit := (case d of
          Suffix \<Rightarrow> Broad | Windows \<Rightarrow> WinInet | MacOs \<Rightarrow> CfNetwork
        | Gnome \<Rightarrow> EmptySet | Kde \<Rightarrow> EmptySet),
       strip_trailing_dot := (d = Suffix),
       ipv4_mapped_as_ipv4 := (d = Suffix) \<rparr>"

definition bypass_entries_in ::
    "external \<Rightarrow> string list \<Rightarrow> bypass_dialect \<Rightarrow> bypass_rules" where
  "bypass_entries_in E entries d =
     dedup_patterns
       (if d = Gnome then push_gnome_entries E False entries (dialect_rules d)
        else foldl (\<lambda>r entry. push_entry_in E (dialect_trim d entry) d r) (dialect_rules d) entries)"

definition proxy_override :: "external \<Rightarrow> string \<Rightarrow> bypass_rules" where
  "proxy_override E spec = bypass_entries_in E (split_chars windows_bypass_separator spec) Windows"

definition no_proxy :: "external \<Rightarrow> string \<Rightarrow> bypass_rules" where
  "no_proxy E spec = bypass_entries_in E (split_chars list_separator spec) Suffix"

definition kde_no_proxy_for :: "external \<Rightarrow> string \<Rightarrow> bypass_rules" where
  "kde_no_proxy_for E spec = bypass_entries_in E (split_chars list_separator spec) Kde"

section \<open>The \<open>ProxyServer\<close> string\<close>

definition split_scheme_key :: "string \<Rightarrow> (string \<times> string) option" where
  "split_scheme_key token =
     (case find_char (\<lambda>c. c = CHR ''='') token of
        None \<Rightarrow> None
      | Some eq \<Rightarrow>
          (let boundary =
                 unwrap_or (length token) (find_char (\<lambda>c. c = CHR '':'' \<or> path_char c) token)
           in if eq < boundary then Some (take eq token, drop (Suc eq) token) else None))"

text \<open>One token: the map and the drops so far, and after it.\<close>

definition server_token ::
    "external \<Rightarrow> string \<Rightarrow> scheme_map \<times> rejected_value list \<Rightarrow> scheme_map \<times> rejected_value list"
  where
  "server_token E token0 st =
     (let (m, rejected) = st; token = trim_text token0 in
      if token = [] then st
      else
        (case split_scheme_key token of
           Some (key, value) \<Rightarrow>
             (case scheme_from_name key of
                None \<Rightarrow> (m, rejected @ [rejected_new UnknownProxyScheme ProxyServer token])
              | Some s \<Rightarrow>
                  if trim_text value = [] then (m(s \<mapsto> Disabled), rejected)
                  else
                    (case endpoint_parse E value
                            (if s = Socks then proxy_scheme_default_port PsSocks4
                             else WINDOWS_DEFAULT_PORT) of
                       Inr e \<Rightarrow>
                         (m(s \<mapsto> Use (if s = Socks \<and> scheme_hint e = None
                                       then e\<lparr>scheme_hint := Some PsSocks4\<rparr> else e)), rejected)
                     | Inl _ \<Rightarrow>
                         (m, rejected @
                            [for_scheme (Some (if s = Socks then AllSchemes else s))
                               (rejected_new InvalidProxyEndpoint ProxyServer token)])))
         | None \<Rightarrow>
             (case endpoint_parse E token WINDOWS_DEFAULT_PORT of
                Inr e \<Rightarrow> (m(AllSchemes \<mapsto> Use e), rejected)
              | Inl _ \<Rightarrow>
                  (m, rejected @
                     [for_scheme (Some AllSchemes)
                        (rejected_new InvalidProxyEndpoint ProxyServer token)]))))"

fun or_insert :: "scheme list \<Rightarrow> proxy_entry \<Rightarrow> scheme_map \<Rightarrow> scheme_map" where
  "or_insert [] e m = m"
| "or_insert (s # ss) e m = or_insert ss e (if m s = None then m(s \<mapsto> e) else m)"

definition apply_socks_catch_all :: "scheme_map \<Rightarrow> scheme_map" where
  "apply_socks_catch_all m =
     (if m AllSchemes \<noteq> None then m
      else (case m Socks of
              Some (Use e) \<Rightarrow> or_insert [Http, Https, Ftp, AllSchemes] (Use e) m
            | _ \<Rightarrow> m))"

definition proxy_server_with_rejected ::
    "external \<Rightarrow> string \<Rightarrow> scheme_map \<times> rejected_value list" where
  "proxy_server_with_rejected E spec =
     (let (m, rejected) =
            foldl (\<lambda>st token. server_token E token st) (Map.empty, [])
              (split_chars windows_server_separator spec)
      in (apply_socks_catch_all m, rejected))"

definition proxy_server :: "external \<Rightarrow> string \<Rightarrow> scheme_map" where
  "proxy_server E spec = fst (proxy_server_with_rejected E spec)"

definition map_is_empty :: "scheme_map \<Rightarrow> bool" where
  "map_is_empty m \<longleftrightarrow> list_all (\<lambda>s. m s = None) scheme_ALL"

definition windows_manual :: "external \<Rightarrow> string \<Rightarrow> string \<Rightarrow> proxy_mode" where
  "windows_manual E server override_list =
     (let (per_scheme, rejected) = proxy_server_with_rejected E server in
      if map_is_empty per_scheme \<and> rejected = [] then Direct
      else with_rejected rejected (mode_manual per_scheme (proxy_override E override_list)))"

end
