(* ===== verification/Mode_Facts.thy ===== *)
theory Mode_Facts
  imports Parse
begin

text \<open>
  The lookups of \<open>src/mode.rs\<close> and the reading of the Windows server string in
  \<open>src/parse.rs\<close>. Every lookup walks a chain of slots and takes the first entry that is an
  answer; that rule is a locale, with the chain of each lookup as an instance.
\<close>

section \<open>The first answer of a chain\<close>

definition live :: "proxy_entry \<Rightarrow> bool" where
  "live e \<longleftrightarrow> entry_rejected e = None"

lemma live_simps [simp]: "live (Use e)" "live Disabled" "\<not> live (Unusable r)"
  by (simp_all add: live_def)

lemma not_live: "\<not> live e \<longleftrightarrow> (\<exists>r. e = Unusable r)"
  by (cases e) simp_all

lemma answer_from_spec:
  "answer_from d es =
     (case List.find live es of
        Some e \<Rightarrow> Some e
      | None \<Rightarrow> or_else d (case es of [] \<Rightarrow> None | e # _ \<Rightarrow> Some e))"
proof (induction d es rule: answer_from.induct)
  case (2 dropped r es)
  then show ?case by (auto simp: or_else_assoc split: option.splits)
qed simp_all

lemma first_answer_spec:
  "first_answer es =
     (case List.find live es of
        Some e \<Rightarrow> Some e
      | None \<Rightarrow> (case es of [] \<Rightarrow> None | e # _ \<Rightarrow> Some e))"
  by (simp add: first_answer_def answer_from_spec split: option.splits)

lemma find_live_None: "List.find live es = None \<longleftrightarrow> (\<forall>e\<in>set es. \<not> live e)"
  by (auto simp: find_None_iff)

lemma find_append: "List.find p (a @ b) = or_else (List.find p a) (List.find p b)"
  by (induction a) auto

locale answer_chain =
  fixes chain :: "'m \<Rightarrow> proxy_entry list" and answer :: "'m \<Rightarrow> proxy_entry option"
  assumes answer_is_first: "answer m = first_answer (chain m)"
begin

lemma answer_None: "answer m = None \<longleftrightarrow> chain m = []"
  by (auto simp: answer_is_first first_answer_spec find_live_None split: option.splits list.splits)

lemma answer_in_chain: "answer m = Some e \<Longrightarrow> e \<in> set (chain m)"
  by (auto simp: answer_is_first first_answer_spec find_Some_iff split: option.splits list.splits)

lemma answer_lost: "answer m = Some (Unusable r) \<Longrightarrow> e \<in> set (chain m) \<Longrightarrow> \<not> live e"
  by (auto simp: answer_is_first first_answer_spec find_live_None find_Some_iff
      split: option.splits list.splits) (metis live_simps(3))+

lemma all_lost:
  assumes "chain m \<noteq> []" "\<forall>e\<in>set (chain m). \<not> live e"
  shows "\<exists>r. answer m = Some (Unusable r) \<and> Unusable r \<in> set (chain m)"
proof -
  obtain e es where c: "chain m = e # es" using assms(1) by (cases "chain m") auto
  then obtain r where "e = Unusable r" using assms(2) not_live by auto
  with c assms(2) show ?thesis
    using find_live_None [of "chain m"] by (simp add: answer_is_first first_answer_spec)
qed

lemma first_live: "chain m = ds @ e # es \<Longrightarrow> \<forall>d\<in>set ds. \<not> live d \<Longrightarrow> live e \<Longrightarrow>
    answer m = Some e"
  using find_live_None [of ds] by (simp add: answer_is_first first_answer_spec find_append)

end

lemma present_append [simp]: "present (a @ b) = present a @ present b"
  by (induction a rule: present.induct) simp_all

lemma set_present: "x \<in> set (present xs) \<longleftrightarrow> Some x \<in> set xs"
  by (induction xs rule: present.induct) auto

definition entry_chain :: "scheme \<Rightarrow> scheme_map \<Rightarrow> proxy_entry list" where
  "entry_chain s m = present (map m [s, AllSchemes])"

definition websocket_chain :: "scheme_map \<Rightarrow> proxy_entry list" where
  "websocket_chain m = present (map (configured m) [Socks, Https, Http] @ [m AllSchemes])"

interpretation entry: answer_chain "entry_chain s" "\<lambda>m. entry_for (Manual m b r) s"
  by unfold_locales (simp add: entry_for_def entry_chain_def)

interpretation websocket: answer_chain websocket_chain "\<lambda>m. websocket_entry (Manual m b r)"
  by unfold_locales (simp add: websocket_entry_def websocket_chain_def)

section \<open>Filing the drops\<close>

lemma file_rejected_spec:
  "file_rejected vs m s =
     (case m s of
        Some e \<Rightarrow> Some e
      | None \<Rightarrow> map_option Unusable (List.find (\<lambda>v. affected_scheme v = Some s) vs))"
  by (induction vs m rule: file_rejected.induct) (auto split: option.splits)

section \<open>The server string\<close>

text \<open>What one token says: the entry it sets, or the drop it is recorded as.\<close>

definition default_port_of :: "scheme \<Rightarrow> u16" where
  "default_port_of s = (if s = Socks then 1080 else 80)"

definition socks4_hint :: "scheme \<Rightarrow> proxy_endpoint \<Rightarrow> proxy_endpoint" where
  "socks4_hint s e =
     (if s = Socks \<and> scheme_hint e = None then with_scheme_hint PsSocks4 e else e)"

definition token_entry :: "external \<Rightarrow> string \<Rightarrow> (scheme \<times> proxy_entry) option" where
  "token_entry E token =
     (case split_scheme_key (trim_text token) of
        None \<Rightarrow>
          (if trim_text token = [] then None
           else map_option (\<lambda>e. (AllSchemes, Use e)) (result_ok (endpoint_parse E (trim_text token) 80)))
      | Some (key, value) \<Rightarrow>
          Option.bind (scheme_from_name key)
            (\<lambda>s. if trim_text value = [] then Some (s, Disabled)
                 else map_option (\<lambda>e. (s, Use (socks4_hint s e)))
                        (result_ok (endpoint_parse E value (default_port_of s)))))"

lemma split_scheme_key_Nil [simp]: "split_scheme_key [] = None"
  by (simp add: split_scheme_key_def)

lemma server_token_map:
  "fst (server_token E token (m, rejected)) =
     (case token_entry E token of None \<Rightarrow> m | Some (s, e) \<Rightarrow> m(s \<mapsto> e))"
  by (auto simp: server_token_def token_entry_def default_port_of_def socks4_hint_def
      with_scheme_hint_def WINDOWS_DEFAULT_PORT_def Let_def split: option.splits sum.splits)

lemma server_token_recorded:
  "snd (server_token E token (m, rejected)) = rejected
     \<longleftrightarrow> trim_text token = [] \<or> token_entry E token \<noteq> None"
  by (auto simp: server_token_def token_entry_def default_port_of_def socks4_hint_def
      WINDOWS_DEFAULT_PORT_def Let_def split: option.splits sum.splits)

lemma server_token_keeps: "prefix rejected (snd (server_token E token (m, rejected)))"
  by (auto simp: server_token_def Let_def split: option.splits sum.splits)

lemma server_tokens_map:
  "fst (foldl (\<lambda>st token. server_token E token st) (m, rejected) ts) =
     m ++ map_of (rev (present (map (token_entry E) ts)))"
proof (induction ts arbitrary: m rejected)
  case (Cons t ts)
  obtain m' r' where t: "server_token E t (m, rejected) = (m', r')" by fastforce
  then have "m' = (case token_entry E t of None \<Rightarrow> m | Some (s, e) \<Rightarrow> m(s \<mapsto> e))"
    using server_token_map [of E t m rejected] by simp
  with Cons [of m' r'] t show ?case
    by (cases "token_entry E t") (auto simp: map_add_def fun_eq_iff split: option.splits)
qed simp

lemma server_tokens_keep:
  "prefix rejected (snd (foldl (\<lambda>st token. server_token E token st) (m, rejected) ts))"
proof (induction ts arbitrary: m rejected)
  case (Cons t ts)
  obtain m' r' where t: "server_token E t (m, rejected) = (m', r')" by fastforce
  have "prefix rejected r'" using server_token_keeps [of rejected E t m] t by simp
  then show ?case using Cons [of r' m'] t by (auto intro: prefix_order.trans)
qed simp

lemma server_tokens_recorded:
  "snd (foldl (\<lambda>st token. server_token E token st) (m, rejected) ts) = rejected
     \<longleftrightarrow> (\<forall>t\<in>set ts. trim_text t = [] \<or> token_entry E t \<noteq> None)"
proof (induction ts arbitrary: m rejected)
  case (Cons t ts)
  obtain m' r' where t: "server_token E t (m, rejected) = (m', r')" by fastforce
  have p: "prefix rejected r'" using server_token_keeps [of rejected E t m] t by simp
  show ?case
  proof (cases "r' = rejected")
    case True
    then show ?thesis using Cons [of m' r'] server_token_recorded [of E t m rejected]
      by (simp add: t)
  next
    case False
    then have "\<not> (trim_text t = [] \<or> token_entry E t \<noteq> None)"
      using server_token_recorded [of E t m rejected] t by simp
    moreover have "snd (foldl (\<lambda>st token. server_token E token st) (m', r') ts) \<noteq> rejected"
      using server_tokens_keep [of r' E m' ts] p False by (metis prefix_order.antisym)
    ultimately show ?thesis using t by auto
  qed
qed simp

lemma or_insert_spec:
  "or_insert ss e m s = (if s \<in> set ss \<and> m s = None then Some e else m s)"
  by (induction ss e m rule: or_insert.induct) auto

lemma apply_socks_catch_all_spec:
  "apply_socks_catch_all m s =
     (case m s of
        Some x \<Rightarrow> Some x
      | None \<Rightarrow>
          if m AllSchemes = None
          then (case m Socks of Some (Use e) \<Rightarrow> Some (Use e) | _ \<Rightarrow> None) else None)"
  by (cases s) (auto simp: apply_socks_catch_all_def or_insert_spec simp del: or_insert.simps
      split: option.splits proxy_entry.splits)

lemma map_of_rev_last:
  assumes "\<forall>x\<in>set us. \<forall>v. x \<noteq> Some (k, v)"
  shows "map_of (rev (present (ts @ Some (k, v) # us))) k = Some v"
proof -
  have "map_of (rev (present us)) k = None"
    using assms by (auto simp: map_of_eq_None_iff set_present)
  then show ?thesis by (simp add: map_add_def)
qed

lemma map_is_empty_iff: "map_is_empty m \<longleftrightarrow> m = Map.empty"
  by (auto simp: map_is_empty_def list_all_iff)

lemma proxy_server_spec:
  "proxy_server_with_rejected E spec =
     (apply_socks_catch_all (map_of (rev (present (map (token_entry E) ts)))), rejected)"
  if "ts = split_chars windows_server_separator spec"
    "rejected = snd (foldl (\<lambda>st token. server_token E token st) (Map.empty, []) ts)"
  using that server_tokens_map [of E Map.empty "[]" ts]
  by (simp add: proxy_server_with_rejected_def split_beta)

section \<open>Properties\<close>

text \<open>A live catch-all answers for a scheme whose own setting was lost, and an off switch
  does not let it through: \<open>entry_for\<close> on every shape of the two slots.\<close>

theorem entry_for_precedence:
  "entry_for (Manual m b r) s =
     (case (m s, m AllSchemes) of
        (Some (Use e), _) \<Rightarrow> Some (Use e)
      | (Some Disabled, _) \<Rightarrow> Some Disabled
      | (Some (Unusable v), Some (Use e)) \<Rightarrow> Some (Use e)
      | (Some (Unusable v), Some Disabled) \<Rightarrow> Some Disabled
      | (Some (Unusable v), _) \<Rightarrow> Some (Unusable v)
      | (None, x) \<Rightarrow> x)"
  by (cases "m s"; cases "m AllSchemes"; cases "the (m s)"; cases "the (m AllSchemes)")
    (simp_all add: entry_for_def first_answer_def)

text \<open>The WebSocket lookup answers with a lost setting only when no slot of its chain,
  SOCKS, HTTPS, HTTP and the catch-all, holds a proxy, and the catch-all is not an off
  switch.\<close>

theorem websocket_loss_is_the_last_resort:
  assumes "websocket_entry (Manual m b r) = Some (Unusable v)"
  shows "\<not> (\<exists>s\<in>{Socks, Https, Http, AllSchemes}. \<exists>e. m s = Some (Use e))
     \<and> m AllSchemes \<noteq> Some Disabled"
proof -
  have lost: "\<not> live e" if "e \<in> set (websocket_chain m)" for e
    by (rule websocket.answer_lost [OF assms that])
  have "Use e \<in> set (websocket_chain m)"
    if "m s = Some (Use e)" "s \<in> {Socks, Https, Http, AllSchemes}" for s e
    using that by (auto simp: websocket_chain_def set_present configured_def)
  moreover have "Disabled \<in> set (websocket_chain m)" if "m AllSchemes = Some Disabled"
    using that by (simp add: websocket_chain_def set_present)
  ultimately show ?thesis using lost live_simps by blast
qed

text \<open>The list of drops and the map agree: after \<open>with_rejected\<close> an occupied slot is
  what it was, and an empty one holds the first record that names it, or nothing.\<close>

theorem rejected_list_is_mirrored:
  "\<exists>m'. with_rejected vs (mode_manual m b) = Manual m' b vs
     \<and> m' s = (case m s of
                 Some e \<Rightarrow> Some e
               | None \<Rightarrow> map_option Unusable (List.find (\<lambda>v. affected_scheme v = Some s) vs))"
  by (simp add: mode_manual_def file_rejected_spec)

text \<open>The last token that is accepted for a scheme decides it: a later token that was
  rejected, or that names another scheme, changes nothing.\<close>

theorem last_accepted_token_wins:
  assumes "split_chars windows_server_separator spec = ts @ t # us"
    "token_entry E t = Some (s, e)" "\<forall>t'\<in>set us. \<forall>e'. token_entry E t' \<noteq> Some (s, e')"
  shows "proxy_server E spec s = Some e"
proof -
  have "map_of (rev (present (map (token_entry E) (ts @ t # us)))) s = Some e"
    using map_of_rev_last [of "map (token_entry E) us" s "map (token_entry E) ts" e] assms by simp
  then show ?thesis
    by (simp add: proxy_server_def proxy_server_spec [OF assms(1) [symmetric] refl]
        apply_socks_catch_all_spec)
qed

text \<open>\<open>socks=\<close> fills the schemes the string left unset, and only when it set no
  catch-all.\<close>

theorem socks_fills_the_gaps:
  "apply_socks_catch_all m s =
     (if m s \<noteq> None then m s
      else if m AllSchemes \<noteq> None then None
      else (case m Socks of Some (Use e) \<Rightarrow> Some (Use e) | _ \<Rightarrow> None))"
  by (auto simp: apply_socks_catch_all_spec split: option.splits)

text \<open>A setting that was written never reads as no proxy: \<open>windows_manual\<close> answers
  \<open>Direct\<close> exactly when every token of the server string is blank.\<close>

theorem windows_manual_direct_iff_blank:
  "windows_manual E server override_list = Direct \<longleftrightarrow>
     list_all (\<lambda>t. trim_text t = []) (split_chars windows_server_separator server)"
proof -
  define ts where "ts = split_chars windows_server_separator server"
  define rejected where
    "rejected = snd (foldl (\<lambda>st token. server_token E token st) (Map.empty, []) ts)"
  define m where "m = map_of (rev (present (map (token_entry E) ts)))"
  have "m = Map.empty \<longleftrightarrow> (\<forall>t\<in>set ts. token_entry E t = None)"
  proof
    assume "m = Map.empty"
    then have "rev (present (map (token_entry E) ts)) = []" by (simp add: m_def)
    then have "\<not> (\<exists>x. Some x \<in> set (map (token_entry E) ts))" by (metis set_present empty_iff list.set(1) rev_is_Nil_conv)
    then show "\<forall>t\<in>set ts. token_entry E t = None" by (metis image_eqI list.set_map not_None_eq)
  next
    assume "\<forall>t\<in>set ts. token_entry E t = None"
    then have "present (map (token_entry E) ts) = []" by (induction ts) simp_all
    then show "m = Map.empty" by (simp add: m_def)
  qed
  moreover have "apply_socks_catch_all m = Map.empty \<longleftrightarrow> m = Map.empty"
    by (auto simp: fun_eq_iff apply_socks_catch_all_spec split: option.splits)
  moreover have "rejected = [] \<longleftrightarrow> (\<forall>t\<in>set ts. trim_text t = [] \<or> token_entry E t \<noteq> None)"
    unfolding rejected_def by (rule server_tokens_recorded)
  moreover have "token_entry E t = None" if "trim_text t = []" for t
    using that by (simp add: token_entry_def)
  ultimately have "apply_socks_catch_all m = Map.empty \<and> rejected = [] \<longleftrightarrow>
      list_all (\<lambda>t. trim_text t = []) ts"
    by (auto simp: list_all_iff)
  then show ?thesis
    by (simp add: windows_manual_def proxy_server_spec [OF ts_def rejected_def] map_is_empty_iff
        mode_manual_def flip: m_def ts_def)
qed

text \<open>The properties with a hypothesis, at a concrete input.\<close>

theorem websocket_loss_is_the_last_resort_witness:
  "\<not> (\<exists>s\<in>{Socks, Https, Http, AllSchemes}. \<exists>e.
         [Https \<mapsto> Unusable (rejected_new InvalidProxyEndpoint ProxyServer ''x y'')] s = Some (Use e))
     \<and> [Https \<mapsto> Unusable (rejected_new InvalidProxyEndpoint ProxyServer ''x y'')] AllSchemes
         \<noteq> Some Disabled"
  by (rule websocket_loss_is_the_last_resort
      [of _ bypass_new "[]" "rejected_new InvalidProxyEndpoint ProxyServer ''x y''"])
    (simp add: websocket_entry_def configured_def first_answer_def)

theorem last_accepted_token_wins_witness:
  "proxy_server plain_external ''http=a:1;http=b:2;http=c:x'' Http =
     Some (Use (endpoint_new (Domain ''b'') 2))"
proof (rule last_accepted_token_wins)
  show "split_chars windows_server_separator ''http=a:1;http=b:2;http=c:x'' =
      [''http=a:1''] @ ''http=b:2'' # [''http=c:x'']" by code_simp
  show "token_entry plain_external ''http=b:2'' = Some (Http, Use (endpoint_new (Domain ''b'') 2))"
    by code_simp
  have "token_entry plain_external ''http=c:x'' = None" by code_simp
  then show "\<forall>t'\<in>set [''http=c:x'']. \<forall>e'. token_entry plain_external t' \<noteq> Some (Http, e')"
    by simp
qed

end
