(* ===== verification/Env_Config.thy ===== *)
theory Env_Config
  imports Parse "HOL-Library.List_Lexorder" "HOL-Library.Char_ord"
begin

text \<open>
  \<open>src/env.rs\<close> and \<open>src/config.rs\<close>: the snapshot of the process environment, the snapshot
  of the system's sources, and the fold of one into the other. Whether the build is for
  Windows is an argument, and so is the clock.
\<close>

section \<open>The environment\<close>

definition CGI_MARKER_VAR :: string where "CGI_MARKER_VAR = ''REQUEST_METHOD''"

definition SCHEME_VARS :: "(scheme \<times> string) list" where
  "SCHEME_VARS =
     [(Http, ''http_proxy''), (Https, ''https_proxy''), (Ftp, ''ftp_proxy''),
      (AllSchemes, ''all_proxy'')]"

definition NO_PROXY_VAR :: string where "NO_PROXY_VAR = ''no_proxy''"

record proxy_env =
  env_per_scheme :: scheme_map
  env_bypass :: bypass_rules
  env_rejected :: "rejected_value list"
  env_captured_at :: nat

text \<open>The variables, a name once: the first value of a name is the one that is kept.\<close>

fun first_values :: "(string \<times> string) list \<Rightarrow> (string \<times> string) list" where
  "first_values [] = []"
| "first_values ((k, v) # vs) = (k, v) # first_values (filter (\<lambda>(k', _). k' \<noteq> k) vs)"

definition min_name :: "string list \<Rightarrow> string option" where
  "min_name ks = (case ks of [] \<Rightarrow> None | k # r \<Rightarrow> Some (fold min r k))"

definition any_case_on_windows ::
    "bool \<Rightarrow> (string \<times> string) list \<Rightarrow> string \<Rightarrow> string option" where
  "any_case_on_windows win vars name =
     (if \<not> win then None
      else Option.bind (min_name (filter (\<lambda>k. eq_ignore_ascii_case k name) (map fst vars)))
             (map_of vars))"

definition env_lookup :: "bool \<Rightarrow> (string \<times> string) list \<Rightarrow> string \<Rightarrow> string option" where
  "env_lookup win vars lower =
     or_else (map_of vars lower)
       (or_else (map_of vars (to_ascii_uppercase lower)) (any_case_on_windows win vars lower))"

text \<open>The CGI guard: the name of an \<open>http_proxy\<close> set beside a request method.\<close>

definition cgi_refusal :: "bool \<Rightarrow> (string \<times> string) list \<Rightarrow> string option" where
  "cgi_refusal win vars =
     (case or_else (map_of vars CGI_MARKER_VAR) (any_case_on_windows win vars CGI_MARKER_VAR) of
        None \<Rightarrow> None
      | Some meth \<Rightarrow>
          if meth = [] then None
          else min_name (filter (\<lambda>k. eq_ignore_ascii_case k ''http_proxy'') (map fst vars)))"

definition scheme_var ::
    "external \<Rightarrow> bool \<Rightarrow> (string \<times> string) list \<Rightarrow> scheme \<times> string
       \<Rightarrow> scheme_map \<times> rejected_value list \<Rightarrow> scheme_map \<times> rejected_value list" where
  "scheme_var E win vars sn st =
     (let (s, name) = sn; (m, rejected) = st in
      case env_lookup win vars name of
        None \<Rightarrow> st
      | Some value \<Rightarrow>
          (let trimmed = trim_text value in
           if trimmed = [] then (m(s \<mapsto> Disabled), rejected)
           else (case endpoint_parse E trimmed 80 of
                   Inr e \<Rightarrow> (m(s \<mapsto> Use e), rejected)
                 | Inl _ \<Rightarrow>
                     (m, rejected @
                        [for_scheme (Some s)
                           (rejected_new InvalidProxyEndpoint (EnvironmentVariable name) trimmed)]))))"

definition env_from_vars ::
    "external \<Rightarrow> bool \<Rightarrow> nat \<Rightarrow> (string \<times> string) list \<Rightarrow> proxy_error + proxy_env" where
  "env_from_vars E win now pairs =
     (let vars = first_values pairs in
      case cgi_refusal win vars of
        Some variable \<Rightarrow> Inl (CgiHttpProxy variable)
      | None \<Rightarrow>
          (let (m, rejected) =
                 foldl (\<lambda>st sn. scheme_var E win vars sn st) (Map.empty, []) SCHEME_VARS
           in Inr \<lparr> env_per_scheme = m,
                    env_bypass = (case env_lookup win vars NO_PROXY_VAR of
                                    Some value \<Rightarrow> no_proxy E value | None \<Rightarrow> bypass_new),
                    env_rejected = rejected,
                    env_captured_at = now \<rparr>))"

definition env_is_empty :: "proxy_env \<Rightarrow> bool" where
  "env_is_empty e \<longleftrightarrow> map_is_empty (env_per_scheme e) \<and> env_rejected e = []"

definition env_is_configured :: "proxy_env \<Rightarrow> bool" where
  "env_is_configured e \<longleftrightarrow> \<not> map_is_empty (env_per_scheme e) \<or> \<not> bypass_is_empty (env_bypass e)"

definition env_endpoint_for :: "proxy_env \<Rightarrow> scheme \<Rightarrow> proxy_endpoint option" where
  "env_endpoint_for e s =
     Option.bind (or_else (env_per_scheme e s) (env_per_scheme e AllSchemes)) entry_endpoint"

definition env_to_mode :: "proxy_env \<Rightarrow> proxy_mode" where
  "env_to_mode e =
     (if env_is_empty e then Direct
      else with_rejected (env_rejected e) (mode_manual (env_per_scheme e) (env_bypass e)))"

section \<open>The snapshot\<close>

datatype config_source =
    Registry
  | GroupPolicy
  | WinHttpDefault
  | SystemConfigurationSetup
  | SystemConfigurationState
  | GSettingsSource
  | KioslavercSource
  | KioslavercEnv
  | Portal
  | Env
  | ConnectivityManager
  | CfNetworkSystemSettings

record proxy_config =
  effective :: proxy_mode
  sources :: "(config_source \<times> proxy_mode) list"
  fallbacks :: "config_source list"
  captured_at :: nat

definition config_new :: "nat \<Rightarrow> proxy_mode \<Rightarrow> (config_source \<times> proxy_mode) list \<Rightarrow> proxy_config" where
  "config_new now mode srcs =
     \<lparr> effective = mode, sources = srcs, fallbacks = [], captured_at = now \<rparr>"

definition with_fallbacks :: "config_source list \<Rightarrow> proxy_config \<Rightarrow> proxy_config" where
  "with_fallbacks fs c = c\<lparr>fallbacks := fs\<rparr>"

definition from_ordered_sources :: "nat \<Rightarrow> (config_source \<times> proxy_mode) list \<Rightarrow> proxy_config" where
  "from_ordered_sources now srcs =
     config_new now (case srcs of [] \<Rightarrow> Direct | (_, mode) # _ \<Rightarrow> mode) srcs"

definition from_source :: "nat \<Rightarrow> config_source \<Rightarrow> proxy_mode \<Rightarrow> proxy_config" where
  "from_source now s mode = from_ordered_sources now [(s, mode)]"

definition config_direct :: "nat \<Rightarrow> proxy_config" where
  "config_direct now = from_ordered_sources now []"

definition config_source_mode :: "config_source \<Rightarrow> proxy_config \<Rightarrow> proxy_mode option" where
  "config_source_mode s c = map_option snd (List.find (\<lambda>sm. fst sm = s) (sources c))"

definition env_to_config :: "nat \<Rightarrow> proxy_env \<Rightarrow> proxy_config" where
  "env_to_config now e = (from_source now Env (env_to_mode e))\<lparr>captured_at := env_captured_at e\<rparr>"

text \<open>Equality of snapshots: everything but the time of capture.\<close>

definition config_eq :: "proxy_config \<Rightarrow> proxy_config \<Rightarrow> bool" where
  "config_eq a b \<longleftrightarrow>
     effective a = effective b \<and> sources a = sources b \<and> fallbacks a = fallbacks b"

datatype env_precedence = BeforeSystem | AfterSystem

definition env_wins :: "proxy_env \<Rightarrow> env_precedence \<Rightarrow> proxy_config \<Rightarrow> bool" where
  "env_wins e precedence c \<longleftrightarrow>
     env_is_configured e
     \<and> (case precedence of
          BeforeSystem \<Rightarrow> True
        | AfterSystem \<Rightarrow>
            is_direct (effective c) \<and> list_all (\<lambda>sm. fst sm = Env) (sources c))"

definition with_env :: "proxy_env \<Rightarrow> env_precedence \<Rightarrow> proxy_config \<Rightarrow> proxy_config" where
  "with_env e precedence c =
     (if \<not> env_is_configured e \<and> env_rejected e = [] \<and> br_rejected (env_bypass e) = [] then c
      else
        (let mode = env_to_mode e;
             c' = (if env_wins e precedence c
                   then c\<lparr>effective := mode, sources := (Env, mode) # sources c\<rparr>
                   else c\<lparr>sources := sources c @ [(Env, mode)]\<rparr>)
         in c'\<lparr>captured_at := min (captured_at c) (env_captured_at e)\<rparr>))"

end
