(* ===== verification/Watch.thy ===== *)
theory Watch
  imports Env_Config
begin

text \<open>
  \<open>src/watch.rs\<close>: the options of a watcher, the fail-soft rule for a notification route, the
  health of a watcher, and the state the backend threads share with the stream. An
  operation of \<open>Shared\<close> is a function on that state that also gives the waker it takes and
  wakes after it unlocks; each holds the mutex from its first access to its last, so one
  operation is one step. A \<open>Duration\<close> is its number of nanoseconds, a waker a number.
\<close>

section \<open>Options\<close>

definition DEFAULT_DEBOUNCE :: nat where "DEFAULT_DEBOUNCE = 200 * 1000000"
definition MIN_POLL_INTERVAL :: nat where "MIN_POLL_INTERVAL = DEFAULT_DEBOUNCE"
definition MAX_DEBOUNCE :: nat where "MAX_DEBOUNCE = 24 * 60 * 60 * 1000000000"
definition MAX_QUEUED_CHANGES :: nat where "MAX_QUEUED_CHANGES = 1024"

definition effective_poll_interval :: "nat \<Rightarrow> nat" where
  "effective_poll_interval requested =
     (if requested < MIN_POLL_INTERVAL then MIN_POLL_INTERVAL else requested)"

definition effective_debounce :: "nat \<Rightarrow> nat" where
  "effective_debounce requested = (if MAX_DEBOUNCE < requested then MAX_DEBOUNCE else requested)"

record watch_options =
  debounce :: nat
  watch_group_policy :: bool
  opt_poll_interval :: "nat option"

definition watch_options_new :: watch_options where
  "watch_options_new =
     \<lparr> debounce = DEFAULT_DEBOUNCE, watch_group_policy = True, opt_poll_interval = None \<rparr>"

datatype 'a fail_soft = Live 'a | Degraded proxy_error | Fatal proxy_error

definition watch_fail_soft :: "bool \<Rightarrow> nat option \<Rightarrow> proxy_error + 'a \<Rightarrow> 'a fail_soft" where
  "watch_fail_soft leading poll established =
     (case established of
        Inr v \<Rightarrow> Live v
      | Inl e \<Rightarrow> if leading \<and> poll = None then Fatal e else Degraded e)"

text \<open>\<open>establish\<close> is run only when \<open>reachable\<close> passes.\<close>

definition watch_fail_soft_reachable ::
    "proxy_error + unit \<Rightarrow> bool \<Rightarrow> nat option \<Rightarrow> (unit \<Rightarrow> proxy_error + 'a)
       \<Rightarrow> proxy_error + 'a fail_soft" where
  "watch_fail_soft_reachable reachable leading poll establish =
     (case reachable of
        Inl e \<Rightarrow> Inl e
      | Inr _ \<Rightarrow> Inr (watch_fail_soft leading poll (establish ())))"

section \<open>Health\<close>

record watch_health =
  degraded :: "config_source list"
  has_live_notifications :: bool
  poll_interval :: "nat option"
  stopped :: bool

definition is_fully_live :: "watch_health \<Rightarrow> bool" where
  "is_fully_live h \<longleftrightarrow> \<not> stopped h \<and> degraded h = [] \<and> has_live_notifications h"

definition is_frozen :: "watch_health \<Rightarrow> bool" where
  "is_frozen h \<longleftrightarrow> stopped h \<or> (\<not> has_live_notifications h \<and> poll_interval h = None)"

fun add_missing :: "config_source list \<Rightarrow> config_source list \<Rightarrow> config_source list" where
  "add_missing known [] = known"
| "add_missing known (s # ss) =
     add_missing (if s \<in> set known then known else known @ [s]) ss"

definition merge_runtime_health ::
    "watch_health \<Rightarrow> config_source list \<Rightarrow> bool \<Rightarrow> bool \<Rightarrow> watch_health" where
  "merge_runtime_health construction runtime no_live closed =
     \<lparr> degraded = add_missing (degraded construction) runtime,
       has_live_notifications = has_live_notifications construction \<and> \<not> no_live,
       poll_interval = poll_interval construction,
       stopped = closed \<rparr>"

section \<open>Events\<close>

record watch_state =
  ws_config :: proxy_config
  ws_health :: watch_health

datatype watch_event = SnapshotEvent watch_state | ErrorEvent proxy_error watch_state

fun event_state :: "watch_event \<Rightarrow> watch_state" where
  "event_state (SnapshotEvent st) = st"
| "event_state (ErrorEvent e st) = st"

text \<open>\<open>Poll<Option<WatchEvent>>\<close>.\<close>

datatype poll = Ready watch_event | Ended | Pending

section \<open>The shared state\<close>

datatype queued = QSnapshot | QError proxy_error

record shared =
  sh_current :: proxy_config
  sh_queue :: "queued list"
  sh_dropped :: nat
  sh_waker :: "nat option"
  sh_closed :: bool
  sh_dirty :: bool
  runtime_degraded :: "config_source list"
  runtime_no_live :: bool
  construction :: "watch_health option"

definition shared_new :: "proxy_config \<Rightarrow> shared" where
  "shared_new initial =
     \<lparr> sh_current = initial, sh_queue = [QSnapshot], sh_dropped = 0, sh_waker = None,
       sh_closed = False, sh_dirty = False, runtime_degraded = [], runtime_no_live = False,
       construction = None \<rparr>"

definition set_construction_health :: "watch_health \<Rightarrow> shared \<Rightarrow> shared" where
  "set_construction_health h sh =
     (case construction sh of None \<Rightarrow> sh\<lparr>construction := Some h\<rparr> | Some _ \<Rightarrow> sh)"

definition NOT_ESTABLISHED :: watch_health where
  "NOT_ESTABLISHED =
     \<lparr> degraded = [], has_live_notifications = False, poll_interval = None, stopped = False \<rparr>"

definition merged_health :: "shared \<Rightarrow> watch_health" where
  "merged_health sh =
     merge_runtime_health (unwrap_or NOT_ESTABLISHED (construction sh)) (runtime_degraded sh)
       (runtime_no_live sh) (sh_closed sh)"

definition stamp :: "shared \<Rightarrow> watch_state" where
  "stamp sh = \<lparr> ws_config = sh_current sh, ws_health = merged_health sh \<rparr>"

text \<open>The common end of an operation that owes the consumer a wake-up.\<close>

definition take_waker :: "shared \<Rightarrow> shared \<times> nat option" where
  "take_waker sh = (sh\<lparr>sh_waker := None\<rparr>, sh_waker sh)"

definition degrade :: "config_source \<Rightarrow> shared \<Rightarrow> shared \<times> nat option" where
  "degrade source sh =
     (if source \<in> set (runtime_degraded sh)
         \<or> (case construction sh of Some h \<Rightarrow> source \<in> set (degraded h) | None \<Rightarrow> False)
      then (sh, None)
      else take_waker
             (sh\<lparr>runtime_degraded := runtime_degraded sh @ [source], sh_dirty := True\<rparr>))"

definition mark_no_live_notifications :: "shared \<Rightarrow> shared \<times> nat option" where
  "mark_no_live_notifications sh =
     (if runtime_no_live sh
         \<or> (case construction sh of Some h \<Rightarrow> \<not> has_live_notifications h | None \<Rightarrow> False)
      then (sh, None)
      else take_waker (sh\<lparr>runtime_no_live := True, sh_dirty := True\<rparr>))"

text \<open>\<open>trim_to_capacity\<close>: the front is discarded until the queue fits.\<close>

definition trim_to_capacity :: "shared \<Rightarrow> shared" where
  "trim_to_capacity sh =
     (let extra = length (sh_queue sh) - MAX_QUEUED_CHANGES
      in sh\<lparr>sh_queue := drop extra (sh_queue sh), sh_dropped := sh_dropped sh + extra\<rparr>)"

definition remove_at :: "nat \<Rightarrow> 'a list \<Rightarrow> 'a list" where
  "remove_at i xs = take i xs @ drop (Suc i) xs"

definition fold_snapshot :: "queued list \<Rightarrow> queued list" where
  "fold_snapshot q =
     (case rposition (\<lambda>i. i = QSnapshot) q of
        Some at \<Rightarrow>
          if at + 1 = length q then q
          else if 0 < at then remove_at at q @ [QSnapshot]
          else q @ [QSnapshot]
      | None \<Rightarrow> q @ [QSnapshot])"

definition emit :: "proxy_config \<Rightarrow> shared \<Rightarrow> shared \<times> nat option" where
  "emit config sh =
     (if config_eq (sh_current sh) config then (sh, None)
      else take_waker
             (trim_to_capacity
                (sh\<lparr>sh_current := config, sh_queue := fold_snapshot (sh_queue sh),
                    sh_dirty := False\<rparr>)))"

definition is_error :: "queued \<Rightarrow> bool" where
  "is_error i \<longleftrightarrow> (case i of QError _ \<Rightarrow> True | QSnapshot \<Rightarrow> False)"

definition fail :: "proxy_error \<Rightarrow> shared \<Rightarrow> shared \<times> nat option" where
  "fail e sh =
     (if sh_queue sh \<noteq> [] \<and> is_error (last (sh_queue sh))
      then (sh\<lparr>sh_queue := butlast (sh_queue sh) @ [QError e]\<rparr>, None)
      else take_waker (sh\<lparr>sh_queue := sh_queue sh @ [QError e]\<rparr>))"

definition close :: "shared \<Rightarrow> shared \<times> nat option" where
  "close sh =
     (if sh_closed sh then (sh, None)
      else take_waker (sh\<lparr>sh_closed := True, sh_dirty := True\<rparr>))"

definition poll_next :: "nat \<Rightarrow> shared \<Rightarrow> shared \<times> poll" where
  "poll_next waker sh =
     (case sh_queue sh of
        item # rest \<Rightarrow>
          (let sh1 = sh\<lparr>sh_queue := rest,
                        sh_dropped := (if rest = [] then 0 else sh_dropped sh)\<rparr>
           in case item of
                QSnapshot \<Rightarrow>
                  (let sh2 = sh1\<lparr>sh_dirty := False\<rparr> in (sh2, Ready (SnapshotEvent (stamp sh2))))
              | QError e \<Rightarrow> (sh1, Ready (ErrorEvent e (stamp sh1))))
      | [] \<Rightarrow>
          if sh_dirty sh then
            (let sh1 = sh\<lparr>sh_dirty := False\<rparr> in (sh1, Ready (SnapshotEvent (stamp sh1))))
          else if sh_closed sh then (sh, Ended)
          else (sh\<lparr>sh_waker := Some waker\<rparr>, Pending))"

text \<open>\<open>ThreadGuard::drop\<close>, the wakers it wakes included.\<close>

definition backend_panic :: proxy_error where
  "backend_panic = Io ''running the proxy-watch backend thread'' ''the watcher thread panicked''"

definition guard_drop :: "bool \<Rightarrow> shared \<Rightarrow> shared \<times> nat option list" where
  "guard_drop panicking sh =
     (let (sh1, w1) = (if panicking then mark_no_live_notifications sh else (sh, None));
          (sh2, w2) = (if panicking then fail backend_panic sh1 else (sh1, None));
          (sh3, w3) = close sh2
      in (sh3, [w1, w2, w3]))"

section \<open>The watcher as a transition system\<close>

text \<open>What a run sees beside the shared state: the snapshot the consumer was last given, and
  the waker it is parked with. A consumer polls once the constructor has returned; the
  backend may act before that.\<close>

record watcher =
  wt_shared :: shared
  wt_reported :: "watch_state option"
  wt_parked :: "nat option"

definition wake :: "nat option \<Rightarrow> nat option \<Rightarrow> nat option" where
  "wake w parked = (case w of None \<Rightarrow> parked | Some _ \<Rightarrow> None)"

definition backend :: "(shared \<Rightarrow> shared \<times> nat option) \<Rightarrow> watcher \<Rightarrow> watcher" where
  "backend f wt =
     (let (sh, w) = f (wt_shared wt)
      in wt\<lparr>wt_shared := sh, wt_parked := wake w (wt_parked wt)\<rparr>)"

definition watcher_new :: "proxy_config \<Rightarrow> watcher" where
  "watcher_new initial =
     \<lparr> wt_shared = shared_new initial, wt_reported = None, wt_parked = None \<rparr>"

definition consumer_poll :: "nat \<Rightarrow> watcher \<Rightarrow> watcher \<times> poll" where
  "consumer_poll waker wt =
     (let (sh, r) = poll_next waker (wt_shared wt)
      in (wt\<lparr>wt_shared := sh,
             wt_reported := (case r of Ready (SnapshotEvent st) \<Rightarrow> Some st | _ \<Rightarrow> wt_reported wt),
             wt_parked := (case r of Pending \<Rightarrow> Some waker | _ \<Rightarrow> wt_parked wt)\<rparr>, r))"

inductive watch_step :: "watcher \<Rightarrow> watcher \<Rightarrow> bool" where
  step_emit: "watch_step wt (backend (emit config) wt)"
| step_fail: "watch_step wt (backend (fail e) wt)"
| step_degrade: "watch_step wt (backend (degrade source) wt)"
| step_no_live: "watch_step wt (backend mark_no_live_notifications wt)"
| step_close: "watch_step wt (backend close wt)"
| step_construct:
    "construction (wt_shared wt) = None \<Longrightarrow>
       watch_step wt (wt\<lparr>wt_shared := set_construction_health h (wt_shared wt)\<rparr>)"
| step_poll:
    "construction (wt_shared wt) \<noteq> None \<Longrightarrow> watch_step wt (fst (consumer_poll waker wt))"

inductive watch_run :: "proxy_config \<Rightarrow> watcher \<Rightarrow> bool" for initial where
  run_start: "watch_run initial (watcher_new initial)"
| run_step: "watch_run initial wt \<Longrightarrow> watch_step wt wt' \<Longrightarrow> watch_run initial wt'"

inductive_cases watch_step_cases: "watch_step wt wt'"

end
