(* ===== verification/Watch_Facts.thy ===== *)
theory Watch_Facts
  imports Watch
begin

text \<open>
  What the watcher of \<open>src/watch.rs\<close> guarantees. The contract of a backend operation is a
  locale; \<open>emit\<close>, \<open>fail\<close>, \<open>degrade\<close>, \<open>mark_no_live_notifications\<close> and \<open>close\<close> are
  its instances, and every run keeps the invariant \<open>watcher_ok\<close>: the queue is bounded, a
  parked consumer has nothing to take, and a drained stream has reported the state.
\<close>

section \<open>The queue\<close>

definition snapshots :: "queued list \<Rightarrow> nat" where
  "snapshots q = length (filter (\<lambda>i. i = QSnapshot) q)"

definition failures :: "queued list \<Rightarrow> queued list" where
  "failures q = filter is_error q"

text \<open>At most two snapshots, two only when the front is one; the same of a queue that a
  snapshot is put behind.\<close>

definition few_snapshots :: "queued list \<Rightarrow> bool" where
  "few_snapshots q \<longleftrightarrow> snapshots q \<le> 1 \<or> (snapshots q = 2 \<and> hd q = QSnapshot)"

definition room_behind :: "queued list \<Rightarrow> bool" where
  "room_behind q \<longleftrightarrow> snapshots q = 0 \<or> (snapshots q = 1 \<and> hd q = QSnapshot)"

definition queue_ok :: "queued list \<Rightarrow> bool" where
  "queue_ok q \<longleftrightarrow> few_snapshots q
     \<and> (length q \<le> MAX_QUEUED_CHANGES
        \<or> (length q = MAX_QUEUED_CHANGES + 1 \<and> is_error (last q)))"

lemma is_error_simps [simp]: "is_error (QError e)" "\<not> is_error QSnapshot"
  by (simp_all add: is_error_def)

lemma not_is_error [simp]: "\<not> is_error i \<longleftrightarrow> i = QSnapshot"
  by (cases i) simp_all

lemma snapshots_simps [simp]:
  "snapshots (a @ b) = snapshots a + snapshots b"
  "snapshots (i # q) = (if i = QSnapshot then Suc (snapshots q) else snapshots q)"
  "snapshots [] = 0"
  by (simp_all add: snapshots_def)

lemma snapshots_0: "snapshots q = 0 \<longleftrightarrow> QSnapshot \<notin> set q"
  by (auto simp: snapshots_def filter_empty_conv)

lemma failures_append [simp]: "failures (a @ b) = failures a @ failures b"
  by (simp add: failures_def)

lemma few_snapshots_behind: "few_snapshots (ys @ [QSnapshot]) \<longleftrightarrow> room_behind ys"
  by (cases ys) (auto simp: few_snapshots_def room_behind_def)

lemma room_behind_drop: "room_behind ys \<Longrightarrow> room_behind (drop n ys)"
proof (cases n)
  case (Suc m)
  moreover assume "room_behind ys"
  ultimately have "QSnapshot \<notin> set (drop n ys)"
    by (cases ys) (auto simp: room_behind_def snapshots_0 split: if_splits dest: in_set_dropD)
  then show ?thesis by (simp add: room_behind_def snapshots_0)
qed simp

text \<open>Publishing leaves a snapshot last, and the failures as they were.\<close>

lemma fold_snapshot_shape:
  obtains ys where "fold_snapshot q = ys @ [QSnapshot]" "failures ys = failures q"
    "length ys \<le> length q" "few_snapshots q \<Longrightarrow> room_behind ys"
proof (cases "rposition (\<lambda>i. i = QSnapshot) q")
  case None
  then have "QSnapshot \<notin> set q" by auto
  moreover have "fold_snapshot q = q @ [QSnapshot]"
    using None by (simp add: fold_snapshot_def del: rposition_None)
  ultimately show ?thesis using that [of q] by (simp add: room_behind_def snapshots_0)
next
  case (Some k)
  then obtain ys zs where q: "q = ys @ QSnapshot # zs" "length ys = k" "QSnapshot \<notin> set zs"
    using rposition_SomeD [OF Some] by auto
  then have z: "snapshots zs = 0" by (simp add: snapshots_0)
  consider "zs = []" | "zs \<noteq> []" "0 < k" | "zs \<noteq> []" "k = 0" by blast
  then show ?thesis
  proof cases
    case 1
    then have "fold_snapshot q = ys @ [QSnapshot]" using Some q by (simp add: fold_snapshot_def)
    then show ?thesis
      using that [of ys] q 1 by (simp add: few_snapshots_behind) (simp add: failures_def)
  next
    case 2
    then have "fold_snapshot q = (ys @ zs) @ [QSnapshot]"
      using Some q by (simp add: fold_snapshot_def remove_at_def)
    moreover have "failures (ys @ zs) = failures q" using q by (simp add: failures_def)
    moreover have "few_snapshots q \<Longrightarrow> room_behind (ys @ zs)"
      using q(1) 2 z q(2) by (cases ys) (auto simp: few_snapshots_def room_behind_def split: if_splits)
    ultimately show ?thesis using that [of "ys @ zs"] q by simp
  next
    case 3
    then have "fold_snapshot q = q @ [QSnapshot]" using Some q by (simp add: fold_snapshot_def)
    moreover have "room_behind q" using q 3 z by (simp add: room_behind_def)
    ultimately show ?thesis using that [of q] by simp
  qed
qed

lemma QSnapshot_fold [simp]: "QSnapshot \<in> set (fold_snapshot q)"
  by (rule fold_snapshot_shape [of q]) auto

lemma fold_snapshot_trimmed:
  assumes "queue_ok q"
  shows "queue_ok (drop (length (fold_snapshot q) - MAX_QUEUED_CHANGES) (fold_snapshot q))"
    and "QSnapshot \<in> set (drop (length (fold_snapshot q) - MAX_QUEUED_CHANGES) (fold_snapshot q))"
proof -
  obtain ys where ys: "fold_snapshot q = ys @ [QSnapshot]" "room_behind ys"
    using fold_snapshot_shape [of q] assms unfolding queue_ok_def by metis
  define n where "n = length (fold_snapshot q) - MAX_QUEUED_CHANGES"
  have "n \<le> length ys" using ys(1) by (simp add: n_def MAX_QUEUED_CHANGES_def)
  then have d: "drop n (fold_snapshot q) = drop n ys @ [QSnapshot]" using ys(1) by simp
  then show "QSnapshot \<in> set (drop (length (fold_snapshot q) - MAX_QUEUED_CHANGES) (fold_snapshot q))"
    by (simp add: n_def)
  have "few_snapshots (drop n (fold_snapshot q))"
    unfolding d by (simp add: few_snapshots_behind room_behind_drop ys(2))
  moreover have "length (drop n (fold_snapshot q)) \<le> MAX_QUEUED_CHANGES" by (simp add: n_def)
  ultimately show "queue_ok (drop (length (fold_snapshot q) - MAX_QUEUED_CHANGES) (fold_snapshot q))"
    by (simp add: queue_ok_def n_def)
qed

lemma few_snapshots_error: "few_snapshots (q @ [QError e]) \<longleftrightarrow> few_snapshots q"
  by (cases q) (auto simp: few_snapshots_def)

lemma queue_ok_fail:
  assumes "queue_ok q" "q = [] \<or> \<not> is_error (last q)"
  shows "queue_ok (q @ [QError e])"
  using assms by (auto simp: queue_ok_def few_snapshots_error)

lemma queue_ok_replace:
  assumes "queue_ok q" "q \<noteq> []" "is_error (last q)"
  shows "queue_ok (butlast q @ [QError e])"
proof -
  obtain ys e0 where q: "q = ys @ [QError e0]"
    using assms(2,3) by (cases q rule: rev_cases) (auto simp: is_error_def split: queued.splits)
  then show ?thesis using assms(1) by (auto simp: queue_ok_def few_snapshots_error)
qed

lemma snapshot_in_butlast:
  "QSnapshot \<in> set q \<Longrightarrow> is_error (last q) \<Longrightarrow> QSnapshot \<in> set (butlast q)"
  by (cases q rule: rev_cases) (auto simp: is_error_def)

lemma queue_ok_tl:
  assumes "queue_ok (i # q)"
  shows "queue_ok q"
  using assms by (auto simp: queue_ok_def few_snapshots_def split: if_splits)

section \<open>The contract of a backend operation\<close>

text \<open>What a call from a backend thread owes the consumer. The queue keeps its shape; a
  snapshot that is queued stays queued; when none is left queued and no transition is
  pending, the state is the one it was; and the waker is taken unless nothing the consumer
  waits for has changed.\<close>

locale backend_operation =
  fixes f :: "shared \<Rightarrow> shared \<times> nat option"
  assumes queue_kept: "queue_ok (sh_queue sh) \<Longrightarrow> queue_ok (sh_queue (fst (f sh)))"
    and construction_kept: "construction (fst (f sh)) = construction sh"
    and snapshot_kept: "queue_ok (sh_queue sh) \<Longrightarrow> QSnapshot \<in> set (sh_queue sh) \<Longrightarrow>
      QSnapshot \<in> set (sh_queue (fst (f sh)))"
    and nothing_new: "queue_ok (sh_queue sh) \<Longrightarrow> QSnapshot \<notin> set (sh_queue (fst (f sh))) \<Longrightarrow>
      \<not> sh_dirty (fst (f sh)) \<Longrightarrow> \<not> sh_dirty sh \<and> stamp (fst (f sh)) = stamp sh"
    and waker_taken: "(snd (f sh) = sh_waker sh \<and> sh_waker (fst (f sh)) = None)
      \<or> (snd (f sh) = None \<and> sh_waker (fst (f sh)) = sh_waker sh
         \<and> (sh_queue sh = [] \<longrightarrow> fst (f sh) = sh))"

definition watcher_ok :: "watcher \<Rightarrow> bool" where
  "watcher_ok wt \<longleftrightarrow>
     (let sh = wt_shared wt in
      queue_ok (sh_queue sh)
      \<and> wt_parked wt = sh_waker sh
      \<and> (sh_waker sh \<noteq> None \<longrightarrow> sh_queue sh = [] \<and> \<not> sh_dirty sh \<and> \<not> sh_closed sh)
      \<and> (construction sh = None \<longrightarrow> QSnapshot \<in> set (sh_queue sh))
      \<and> (QSnapshot \<notin> set (sh_queue sh) \<and> \<not> sh_dirty sh \<longrightarrow> wt_reported wt = Some (stamp sh)))"

context backend_operation
begin

lemma backend_keeps_ok:
  assumes "watcher_ok wt"
  shows "watcher_ok (backend f wt)"
proof -
  define sh where "sh = wt_shared wt"
  obtain sh' w where f: "f sh = (sh', w)" by fastforce
  note inv = assms [unfolded watcher_ok_def Let_def, folded sh_def]
  have "queue_ok (sh_queue sh')" using queue_kept [of sh] inv f by simp
  moreover have "wake w (wt_parked wt) = sh_waker sh'"
    using waker_taken [of sh] inv f by (auto simp: wake_def split: option.splits)
  moreover have "sh_waker sh' \<noteq> None \<longrightarrow> sh_queue sh' = [] \<and> \<not> sh_dirty sh' \<and> \<not> sh_closed sh'"
    using waker_taken [of sh] inv f by auto
  moreover have "construction sh' = None \<longrightarrow> QSnapshot \<in> set (sh_queue sh')"
    using construction_kept [of sh] snapshot_kept [of sh] inv f by auto
  moreover have "QSnapshot \<notin> set (sh_queue sh') \<and> \<not> sh_dirty sh' \<longrightarrow> wt_reported wt = Some (stamp sh')"
    using nothing_new [of sh] snapshot_kept [of sh] inv f by auto
  ultimately show ?thesis
    by (simp add: watcher_ok_def backend_def f flip: sh_def)
qed

end

lemma stamp_cong:
  "sh_current a = sh_current b \<Longrightarrow> construction a = construction b \<Longrightarrow>
   runtime_degraded a = runtime_degraded b \<Longrightarrow> runtime_no_live a = runtime_no_live b \<Longrightarrow>
   sh_closed a = sh_closed b \<Longrightarrow> stamp a = stamp b"
  by (simp add: stamp_def merged_health_def)

lemmas shared_op_defs [watch_simps] = take_waker_def trim_to_capacity_def Let_def

interpretation emit: backend_operation "emit config"
  by unfold_locales
    (auto simp: emit_def watch_simps fold_snapshot_trimmed)

interpretation fail: backend_operation "fail e"
  by unfold_locales
    (auto simp: fail_def watch_simps queue_ok_replace queue_ok_fail snapshot_in_butlast
      intro: stamp_cong)

interpretation degrade: backend_operation "degrade source"
  by unfold_locales (auto simp: degrade_def watch_simps)

interpretation no_live: backend_operation mark_no_live_notifications
  by unfold_locales (auto simp: mark_no_live_notifications_def watch_simps)

interpretation close: backend_operation close
  by unfold_locales (auto simp: close_def watch_simps)


section \<open>Every run\<close>

lemma watcher_ok_new: "watcher_ok (watcher_new initial)"
  by (simp add: watcher_ok_def watcher_new_def shared_new_def queue_ok_def few_snapshots_def
      MAX_QUEUED_CHANGES_def)

lemma stamp_queue [simp]: "stamp (sh\<lparr>sh_queue := q\<rparr>) = stamp sh"
  "stamp (sh\<lparr>sh_dropped := n\<rparr>) = stamp sh" "stamp (sh\<lparr>sh_dirty := d\<rparr>) = stamp sh"
  "stamp (sh\<lparr>sh_waker := w\<rparr>) = stamp sh"
  by (simp_all add: stamp_def merged_health_def)

lemma consumer_poll_ok:
  assumes ok: "watcher_ok wt" and c: "construction (wt_shared wt) \<noteq> None"
  shows "watcher_ok (fst (consumer_poll w wt))"
proof (cases "sh_queue (wt_shared wt)")
  case Nil
  then show ?thesis using assms
    by (auto simp: watcher_ok_def consumer_poll_def poll_next_def Let_def queue_ok_def
        few_snapshots_def)
next
  case (Cons i q)
  have q: "queue_ok q" using ok Cons queue_ok_tl by (auto simp: watcher_ok_def Let_def)
  show ?thesis
    using ok q Cons c by (cases i) (auto simp: watcher_ok_def consumer_poll_def poll_next_def Let_def)
qed

lemma watch_step_ok: "watch_step wt wt' \<Longrightarrow> watcher_ok wt \<Longrightarrow> watcher_ok wt'"
proof (induction rule: watch_step.induct)
  case (step_construct wt h)
  then show ?case
    by (auto simp: watcher_ok_def set_construction_health_def Let_def)
qed (simp_all add: emit.backend_keeps_ok fail.backend_keeps_ok degrade.backend_keeps_ok
    no_live.backend_keeps_ok close.backend_keeps_ok consumer_poll_ok)

lemma watch_run_ok: "watch_run initial wt \<Longrightarrow> watcher_ok wt"
  by (induction rule: watch_run.induct) (auto simp: watcher_ok_new intro: watch_step_ok)

lemmas watch_run_facts = watch_run_ok [unfolded watcher_ok_def Let_def]

lemma pending_poll:
  assumes "snd (consumer_poll w wt) = Pending"
  shows "sh_queue (wt_shared wt) = []" "\<not> sh_dirty (wt_shared wt)" "\<not> sh_closed (wt_shared wt)"
    "stamp (wt_shared (fst (consumer_poll w wt))) = stamp (wt_shared wt)"
    "wt_reported (fst (consumer_poll w wt)) = wt_reported wt"
  using assms
  by (auto simp: consumer_poll_def poll_next_def Let_def split: list.splits queued.splits if_splits)

lemma ended_poll:
  assumes "snd (consumer_poll w wt) = Ended"
  shows "sh_queue (wt_shared wt) = []" "\<not> sh_dirty (wt_shared wt)" "sh_closed (wt_shared wt)"
  using assms
  by (auto simp: consumer_poll_def poll_next_def Let_def split: list.splits queued.splits if_splits)

lemma stopped_stamp [simp]: "stopped (ws_health (stamp sh)) = sh_closed sh"
  by (simp add: stamp_def merged_health_def merge_runtime_health_def)

text \<open>How many polls are owed before the stream has nothing to say.\<close>

definition owed :: "watcher \<Rightarrow> nat" where
  "owed wt = length (sh_queue (wt_shared wt)) + (if sh_dirty (wt_shared wt) then 1 else 0)"

fun polls :: "nat \<Rightarrow> nat \<Rightarrow> watcher \<Rightarrow> watcher" where
  "polls 0 w wt = wt"
| "polls (Suc n) w wt = polls n w (fst (consumer_poll w wt))"

lemma poll_decreases:
  "snd (consumer_poll w wt) = Ready e \<Longrightarrow> owed (fst (consumer_poll w wt)) < owed wt"
  by (auto simp: owed_def consumer_poll_def poll_next_def Let_def
      split: list.splits queued.splits if_splits)

lemma poll_not_ready:
  "snd (consumer_poll w wt) = r \<Longrightarrow> owed wt = 0 \<longleftrightarrow> r = Pending \<or> r = Ended"
  by (auto simp: owed_def consumer_poll_def poll_next_def Let_def
      split: list.splits queued.splits if_splits)

lemma polls_drain: "owed (polls (owed wt) w wt) = 0"
proof -
  have "owed wt \<le> n \<Longrightarrow> owed (polls n w wt) = 0" for n
  proof (induction n arbitrary: wt)
    case (Suc n)
    show ?case
    proof (cases "snd (consumer_poll w wt)")
      case (Ready e)
      with Suc poll_decreases [OF Ready] show ?thesis by simp
    next
      case Ended
      then have "owed wt = 0" using poll_not_ready by blast
      then have "owed (fst (consumer_poll w wt)) = 0"
        by (auto simp: owed_def consumer_poll_def poll_next_def Let_def split: list.splits if_splits)
      with Suc.IH show ?thesis by simp
    next
      case Pending
      then have "owed wt = 0" using poll_not_ready by blast
      then have "owed (fst (consumer_poll w wt)) = 0"
        by (auto simp: owed_def consumer_poll_def poll_next_def Let_def split: list.splits if_splits)
      with Suc.IH show ?thesis by simp
    qed
  qed simp
  then show ?thesis by simp
qed

lemma emit_queue:
  assumes "\<not> config_eq (sh_current sh) config"
  shows "sh_current (fst (emit config sh)) = config"
    and "last (sh_queue (fst (emit config sh))) = QSnapshot"
    and "suffix (failures (sh_queue (fst (emit config sh)))) (failures (sh_queue sh))"
proof -
  obtain ys where ys: "fold_snapshot (sh_queue sh) = ys @ [QSnapshot]"
    "failures ys = failures (sh_queue sh)"
    by (rule fold_snapshot_shape)
  define n where "n = length (fold_snapshot (sh_queue sh)) - MAX_QUEUED_CHANGES"
  have n: "n \<le> length ys" using ys(1) by (simp add: n_def MAX_QUEUED_CHANGES_def)
  have q: "sh_queue (fst (emit config sh)) = drop n ys @ [QSnapshot]"
    using assms ys(1) n by (simp add: emit_def watch_simps n_def)
  show "sh_current (fst (emit config sh)) = config"
    using assms by (simp add: emit_def watch_simps)
  show "last (sh_queue (fst (emit config sh))) = QSnapshot" by (simp add: q)
  have "failures ys = failures (take n ys) @ failures (drop n ys)"
    by (metis append_take_drop_id failures_append)
  moreover have "failures (drop n ys @ [QSnapshot]) = failures (drop n ys)"
    by (simp add: failures_def)
  ultimately show "suffix (failures (sh_queue (fst (emit config sh)))) (failures (sh_queue sh))"
    unfolding q ys(2) [symmetric] suffix_def by metis
qed

lemma guard_drop_panicking:
  assumes "\<not> sh_closed sh"
  shows "let sh' = fst (guard_drop True sh) in
     sh_closed sh' \<and> sh_dirty sh' \<and> last (sh_queue sh') = QError backend_panic
       \<and> \<not> has_live_notifications (ws_health (stamp sh')) \<and> stopped (ws_health (stamp sh'))"
  using assms
  by (auto simp: guard_drop_def mark_no_live_notifications_def fail_def close_def take_waker_def
      Let_def stamp_def merged_health_def merge_runtime_health_def unwrap_or_def
      NOT_ESTABLISHED_def split: option.splits)

section \<open>Properties\<close>

text \<open>C2. The stream is level-triggered: in every run, when a poll finds nothing to deliver,
  the last snapshot the consumer was given is the state of the watcher now, configuration
  and health.\<close>

theorem pending_means_up_to_date:
  assumes "watch_run initial wt" "snd (consumer_poll w wt) = Pending"
  shows "wt_reported wt = Some (stamp (wt_shared wt))"
  using watch_run_facts [OF assms(1)] pending_poll [OF assms(2)] by simp

text \<open>C3. No wake-up is lost: in every run, while the consumer is parked, polling it would
  find nothing to deliver and not the end of the stream; every operation that changes that
  takes its waker.\<close>

theorem parked_consumer_misses_nothing:
  assumes "watch_run initial wt" "wt_parked wt = Some w"
  shows "snd (consumer_poll v wt) = Pending"
proof -
  have "sh_queue (wt_shared wt) = []" "\<not> sh_dirty (wt_shared wt)" "\<not> sh_closed (wt_shared wt)"
    using watch_run_facts [OF assms(1)] assms(2) by auto
  then show ?thesis by (simp add: consumer_poll_def poll_next_def)
qed

text \<open>The stream ends only after it has said that the watcher stopped: when a poll
  answers the end, the last snapshot delivered is the present state, and it reports
  \<open>stopped\<close>.\<close>

theorem end_of_stream_is_announced:
  assumes "watch_run initial wt" "snd (consumer_poll w wt) = Ended"
  shows "\<exists>st. wt_reported wt = Some st \<and> st = stamp (wt_shared wt) \<and> stopped (ws_health st)"
  using watch_run_facts [OF assms(1)] ended_poll [OF assms(2)] by simp

text \<open>The queue is bounded in every run: at most 1025 undelivered items, the last of
  1025 a failure, and at most two snapshots among them.\<close>

theorem queue_is_bounded:
  assumes "watch_run initial wt"
  shows "length (sh_queue (wt_shared wt)) \<le> 1025
     \<and> (length (sh_queue (wt_shared wt)) = 1025 \<longrightarrow> is_error (last (sh_queue (wt_shared wt))))
     \<and> snapshots (sh_queue (wt_shared wt)) \<le> 2"
  using watch_run_facts [OF assms]
  by (auto simp: queue_ok_def few_snapshots_def MAX_QUEUED_CHANGES_def)

text \<open>Polling drains the stream: in every run, after at most 1026 polls with no backend
  operation between them, the next poll delivers nothing more.\<close>

theorem polling_drains_the_stream:
  assumes "watch_run initial wt"
  shows "owed wt \<le> 1026 \<and> snd (consumer_poll w (polls (owed wt) w wt)) \<in> {Pending, Ended}"
proof -
  have "length (sh_queue (wt_shared wt)) \<le> 1025"
    using watch_run_facts [OF assms] by (auto simp: queue_ok_def MAX_QUEUED_CHANGES_def)
  then show ?thesis
    using poll_not_ready [OF refl, where w = w and wt = "polls (owed wt) w wt"] polls_drain [where w = w and wt = wt]
    by (simp add: owed_def)
qed

text \<open>Publishing a changed configuration puts a snapshot behind every queued failure,
  keeps the failures in order, and discards only the oldest of them.\<close>

theorem emit_puts_the_snapshot_last:
  assumes "\<not> config_eq (sh_current sh) config"
  shows "sh_current (fst (emit config sh)) = config
     \<and> last (sh_queue (fst (emit config sh))) = QSnapshot
     \<and> suffix (failures (sh_queue (fst (emit config sh)))) (failures (sh_queue sh))"
  using emit_queue [OF assms] by simp

text \<open>A backend thread that panics never leaves the stream open or the health live: the
  guard closes the state, the failure is the last item queued, and the health the state
  stamps has no live route and says stopped.\<close>

theorem panic_closes_the_stream:
  assumes "\<not> sh_closed sh"
  shows "let sh' = fst (guard_drop True sh) in
     sh_closed sh' \<and> sh_dirty sh' \<and> last (sh_queue sh') = QError backend_panic
       \<and> \<not> has_live_notifications (ws_health (stamp sh')) \<and> stopped (ws_health (stamp sh'))"
  by (rule guard_drop_panicking [OF assms])

section \<open>The properties at a concrete run\<close>

text \<open>A run that starts, reports its first snapshot and parks; then the same run, closed and
  drained.\<close>

definition sample_config :: proxy_config where
  "sample_config = config_direct 0"

definition sample_health :: watch_health where
  "sample_health =
     \<lparr> degraded = [], has_live_notifications = True, poll_interval = None, stopped = False \<rparr>"

definition sample_ready :: watcher where
  "sample_ready = (watcher_new sample_config)
     \<lparr>wt_shared := set_construction_health sample_health (shared_new sample_config)\<rparr>"

definition sample_reported :: watcher where
  "sample_reported = fst (consumer_poll 7 sample_ready)"

definition sample_parked :: watcher where
  "sample_parked = fst (consumer_poll 7 sample_reported)"

definition sample_closed :: watcher where
  "sample_closed = fst (consumer_poll 7 (backend close sample_parked))"

lemma sample_run_ready: "watch_run sample_config sample_ready"
proof -
  have "watch_step (watcher_new sample_config) sample_ready"
    using step_construct [of "watcher_new sample_config" sample_health]
    by (simp add: sample_ready_def watcher_new_def shared_new_def)
  then show ?thesis by (rule run_step [OF run_start])
qed

lemma sample_construction:
  "construction (wt_shared sample_ready) \<noteq> None"
  "construction (wt_shared sample_reported) \<noteq> None"
  "construction (wt_shared (backend close sample_parked)) \<noteq> None"
  by code_simp+

lemma sample_run_reported: "watch_run sample_config sample_reported"
  unfolding sample_reported_def
  by (rule run_step [OF sample_run_ready step_poll [OF sample_construction(1)]])

lemma sample_run_parked: "watch_run sample_config sample_parked"
  unfolding sample_parked_def
  by (rule run_step [OF sample_run_reported step_poll [OF sample_construction(2)]])

lemma sample_run_closed: "watch_run sample_config sample_closed"
  unfolding sample_closed_def
  by (rule run_step [OF run_step [OF sample_run_parked step_close]
        step_poll [OF sample_construction(3)]])

theorem pending_means_up_to_date_witness:
  "wt_reported sample_reported = Some (stamp (wt_shared sample_reported))"
proof (rule pending_means_up_to_date [OF sample_run_reported, of 7])
  show "snd (consumer_poll 7 sample_reported) = Pending" by code_simp
qed

theorem parked_consumer_misses_nothing_witness: "snd (consumer_poll 8 sample_parked) = Pending"
proof (rule parked_consumer_misses_nothing [OF sample_run_parked, of 7])
  show "wt_parked sample_parked = Some 7" by code_simp
qed

theorem end_of_stream_is_announced_witness:
  "\<exists>st. wt_reported sample_closed = Some st \<and> st = stamp (wt_shared sample_closed)
     \<and> stopped (ws_health st)"
proof (rule end_of_stream_is_announced [OF sample_run_closed, of 7])
  show "snd (consumer_poll 7 sample_closed) = Ended" by code_simp
qed

theorem queue_is_bounded_witness:
  "length (sh_queue (wt_shared sample_ready)) \<le> 1025
     \<and> snapshots (sh_queue (wt_shared sample_ready)) \<le> 2"
  using queue_is_bounded [OF sample_run_ready] by blast

theorem polling_drains_the_stream_witness:
  "owed sample_ready \<le> 1026
     \<and> snd (consumer_poll 7 (polls (owed sample_ready) 7 sample_ready)) \<in> {Pending, Ended}"
  by (rule polling_drains_the_stream [OF sample_run_ready])

definition sample_queue :: shared where
  "sample_queue = (shared_new sample_config)
     \<lparr>sh_queue := [QSnapshot, QError Unsupported, QSnapshot, QError backend_panic]\<rparr>"

definition sample_change :: proxy_config where
  "sample_change = from_source 0 Registry WpadAutoDetect"

theorem emit_puts_the_snapshot_last_witness:
  "sh_current (fst (emit sample_change sample_queue)) = sample_change
     \<and> last (sh_queue (fst (emit sample_change sample_queue))) = QSnapshot
     \<and> suffix (failures (sh_queue (fst (emit sample_change sample_queue))))
         (failures (sh_queue sample_queue))"
proof (rule emit_puts_the_snapshot_last)
  show "\<not> config_eq (sh_current sample_queue) sample_change" by code_simp
qed

theorem panic_closes_the_stream_witness:
  "let sh' = fst (guard_drop True sample_queue) in
     sh_closed sh' \<and> sh_dirty sh' \<and> last (sh_queue sh') = QError backend_panic
       \<and> \<not> has_live_notifications (ws_health (stamp sh')) \<and> stopped (ws_health (stamp sh'))"
proof (rule panic_closes_the_stream)
  show "\<not> sh_closed sample_queue" by code_simp
qed

end
