(* ===== verification/Resolve.thy ===== *)
theory Resolve
  imports Env_Config
begin

text \<open>
  \<open>src/resolve.rs\<close>: from a snapshot and a URL to the steps that reach it; and the parts of
  \<open>src/pac\<close> that meet it: what a script's answer is read into (\<open>pac/result.rs\<close>).
\<close>

section \<open>Steps\<close>

datatype proxy_step =
    StepDirect
  | StepHttp proxy_endpoint
  | StepHttps proxy_endpoint
  | StepSocks4 proxy_endpoint
  | StepSocks5 proxy_endpoint

definition step_is_direct :: "proxy_step \<Rightarrow> bool" where
  "step_is_direct s \<longleftrightarrow> (case s of StepDirect \<Rightarrow> True | _ \<Rightarrow> False)"

fun step_endpoint :: "proxy_step \<Rightarrow> proxy_endpoint option" where
  "step_endpoint StepDirect = None"
| "step_endpoint (StepHttp e) = Some e"
| "step_endpoint (StepHttps e) = Some e"
| "step_endpoint (StepSocks4 e) = Some e"
| "step_endpoint (StepSocks5 e) = Some e"

fun step_scheme :: "proxy_step \<Rightarrow> string option" where
  "step_scheme StepDirect = None"
| "step_scheme (StepHttp e) = Some ''http''"
| "step_scheme (StepHttps e) = Some ''https''"
| "step_scheme (StepSocks4 e) = Some ''socks4''"
| "step_scheme (StepSocks5 e) = Some ''socks5''"

definition step_url_scheme :: "proxy_step \<Rightarrow> proxy_endpoint \<Rightarrow> string" where
  "step_url_scheme s e =
     (case (s, scheme_hint e) of
        (StepSocks4 _, Some PsSocks4a) \<Rightarrow> ''socks4a''
      | (StepSocks5 _, Some PsSocks5h) \<Rightarrow> ''socks5h''
      | _ \<Rightarrow> unwrap_or [] (step_scheme s))"

definition escape_percent :: "string \<Rightarrow> string" where
  "escape_percent s = concat (map (\<lambda>c. if c = CHR ''%'' then ''%25'' else [c]) s)"

definition step_to_url :: "external \<Rightarrow> proxy_step \<Rightarrow> url option" where
  "step_to_url E s =
     (case step_endpoint s of
        None \<Rightarrow> None
      | Some e \<Rightarrow>
          if \<not> is_ok (parse_host E (host_show E (ep_host e))) then None
          else
            (case url_parse E (step_url_scheme s e @ ''://'' @ authority E e) of
               Inl _ \<Rightarrow> None
             | Inr u \<Rightarrow>
                 (case ep_auth e of
                    None \<Rightarrow> Some u
                  | Some a \<Rightarrow>
                      (case set_username E (escape_percent (username a)) u of
                         None \<Rightarrow> None
                       | Some u' \<Rightarrow>
                           (case password_of a of
                              None \<Rightarrow> Some u'
                            | Some pw \<Rightarrow> set_password E (escape_percent pw) u')))))"

definition step_from_endpoint :: "proxy_endpoint \<Rightarrow> proxy_step" where
  "step_from_endpoint e =
     (case scheme_hint e of
        None \<Rightarrow> StepHttp e
      | Some PsHttp \<Rightarrow> StepHttp e
      | Some PsHttps \<Rightarrow> StepHttps e
      | Some PsSocks4 \<Rightarrow> StepSocks4 e
      | Some PsSocks4a \<Rightarrow> StepSocks4 e
      | Some PsSocks5 \<Rightarrow> StepSocks5 e
      | Some PsSocks5h \<Rightarrow> StepSocks5 e)"

section \<open>Resolving\<close>

definition request_scheme :: "url \<Rightarrow> scheme" where
  "request_scheme u =
     (let s = url_scheme u in
      if s = ''http'' then Http
      else if s = ''https'' then Https
      else if s = ''ftp'' then Ftp
      else if s \<in> {''socks'', ''socks4'', ''socks4a'', ''socks5'', ''socks5h''} then Socks
      else AllSchemes)"

text \<open>The entry that answers for a URL.\<close>

definition url_entry :: "proxy_mode \<Rightarrow> url \<Rightarrow> proxy_entry option" where
  "url_entry mode u =
     (if url_scheme u = ''ws'' \<or> url_scheme u = ''wss'' then websocket_entry mode
      else entry_for mode (request_scheme u))"

definition resolve_mode :: "external \<Rightarrow> proxy_mode \<Rightarrow> url \<Rightarrow> proxy_error + proxy_step list" where
  "resolve_mode E mode u =
     (case mode of
        Direct \<Rightarrow> Inr [StepDirect]
      | Pac _ _ \<Rightarrow> Inl (PacNotSupported ''pac'')
      | PacInline _ _ \<Rightarrow> Inl (PacNotSupported ''pac-inline'')
      | WpadAutoDetect \<Rightarrow> Inl (PacNotSupported ''wpad'')
      | Manual _ _ _ \<Rightarrow>
          if \<not> has_request_host u then Inr [StepDirect]
          else if (case mode_bypass mode of Some b \<Rightarrow> matches_url E b u | None \<Rightarrow> False)
          then Inr [StepDirect]
          else (case url_entry mode u of
                  Some (Use e) \<Rightarrow> Inr [step_from_endpoint e]
                | Some Disabled \<Rightarrow> Inr [StepDirect]
                | Some (Unusable r) \<Rightarrow>
                    Inl (ProxyEntryUnusable (unwrap_or AllSchemes (affected_scheme r)) r)
                | None \<Rightarrow> Inr [StepDirect]))"

definition resolve :: "external \<Rightarrow> proxy_config \<Rightarrow> url \<Rightarrow> proxy_error + proxy_step list" where
  "resolve E c u = resolve_mode E (effective c) u"

text \<open>\<open>resolve_with_pac_using\<close>: the script that is run when the mode needs one, and the
  evaluation left to \<open>run\<close>.\<close>

definition resolve_with_pac_using ::
    "external \<Rightarrow> proxy_config \<Rightarrow> url \<Rightarrow> string option \<Rightarrow> (string \<Rightarrow> proxy_error + proxy_step list)
       \<Rightarrow> proxy_error + proxy_step list" where
  "resolve_with_pac_using E c u script run =
     (let mode = effective c in
      if (case mode of Direct \<Rightarrow> True | Manual _ _ _ \<Rightarrow> True | _ \<Rightarrow> False) then resolve_mode E mode u
      else if \<not> has_request_host u then Inr [StepDirect]
      else (case script of
              Some s \<Rightarrow> run s
            | None \<Rightarrow>
                (case mode of
                   PacInline s _ \<Rightarrow> run s
                 | Pac pac_url _ \<Rightarrow> Inl (PacFetchRequired pac_url)
                 | WpadAutoDetect \<Rightarrow> Inl (PacNotSupported ''wpad'')
                 | _ \<Rightarrow> Inl (PacNotSupported ''unknown''))))"

section \<open>What a script answers\<close>

definition MAX_CHAIN :: nat where "MAX_CHAIN = 64"

record chain =
  steps :: "proxy_step list"
  seen :: "proxy_step set"

definition chain_new :: chain where
  "chain_new = \<lparr> steps = [], seen = {} \<rparr>"

definition chain_is_full :: "chain \<Rightarrow> bool" where
  "chain_is_full c \<longleftrightarrow> length (steps c) = MAX_CHAIN"

definition chain_push :: "proxy_step \<Rightarrow> chain \<Rightarrow> chain" where
  "chain_push s c =
     (if chain_is_full c then c
      else if s \<in> seen c then c
      else \<lparr> steps = steps c @ [s], seen = insert s (seen c) \<rparr>)"

definition chain_finish :: "chain \<Rightarrow> proxy_step list option" where
  "chain_finish c = (if steps c = [] then None else Some (steps c))"

fun split_ascii_whitespace :: "string \<Rightarrow> string list" where
  "split_ascii_whitespace s =
     filter (\<lambda>w. w \<noteq> []) (split_chars ascii_whitespace s)"

definition pac_keyword :: "string \<Rightarrow> proxy_scheme option" where
  "pac_keyword k =
     (if k = ''PROXY'' \<or> k = ''HTTP'' then Some PsHttp
      else if k = ''HTTPS'' then Some PsHttps
      else if k = ''SOCKS'' \<or> k = ''SOCKS4'' then Some PsSocks4
      else if k = ''SOCKS5'' then Some PsSocks5h
      else None)"

definition parse_candidate :: "external \<Rightarrow> string \<Rightarrow> proxy_step option" where
  "parse_candidate E candidate =
     (case split_ascii_whitespace candidate of
        [] \<Rightarrow> None
      | keyword # rest \<Rightarrow>
          if 1 < length rest then None
          else
            (let k = to_ascii_uppercase keyword; address = get_opt rest 0 in
             if k = ''DIRECT'' then (if address = None then Some StepDirect else None)
             else
               (case pac_keyword k of
                  None \<Rightarrow> None
                | Some scheme \<Rightarrow>
                    (case address of
                       None \<Rightarrow> None
                     | Some a \<Rightarrow>
                         if list_ex path_char a then None
                         else if has_whitespace a then None
                         else
                           (case endpoint_parse E a (proxy_scheme_default_port scheme) of
                              Inl _ \<Rightarrow> None
                            | Inr e \<Rightarrow>
                                (let e1 = with_scheme_hint scheme e;
                                     e2 = (if ep_port e1 = 0
                                           then e1\<lparr>ep_port := proxy_scheme_default_port scheme\<rparr>
                                           else e1)
                                 in Some (step_from_endpoint (e2\<lparr>ep_auth := None\<rparr>))))))))"

fun push_candidates :: "external \<Rightarrow> string list \<Rightarrow> chain \<Rightarrow> chain" where
  "push_candidates E [] c = c"
| "push_candidates E (cand # cands) c =
     (case parse_candidate E cand of
        None \<Rightarrow> push_candidates E cands c
      | Some s \<Rightarrow>
          (let c' = chain_push s c in
           if chain_is_full c' then c' else push_candidates E cands c'))"

definition candidate_separator :: "char \<Rightarrow> bool" where
  "candidate_separator c \<longleftrightarrow> c = CHR '';'' \<or> c = CHR 0x0A \<or> c = CHR 0x0D"

definition parse_find_proxy_result :: "external \<Rightarrow> string \<Rightarrow> proxy_error + proxy_step list" where
  "parse_find_proxy_result E result =
     ok_or (error_pac_invalid_result result)
       (chain_finish (push_candidates E (split_chars candidate_separator result) chain_new))"

end
