(* ===== verification/Resolve_Facts.thy ===== *)
theory Resolve_Facts
  imports Mode_Facts Resolve
begin

text \<open>
  From the environment and the system's sources to a routing decision: the snapshot of
  \<open>src/env.rs\<close>, its fold into \<open>src/config.rs\<close>'s, and \<open>src/resolve.rs\<close>, which never
  answers direct for a setting that was lost; and the chain a PAC script's answer is read
  into.
\<close>

section \<open>The environment\<close>

lemma map_of_filter_ne: "k \<noteq> k0 \<Longrightarrow> map_of (filter (\<lambda>(k', _). k' \<noteq> k0) vs) k = map_of vs k"
  by (induction vs) auto

lemma map_of_first_values [simp]: "map_of (first_values ps) = map_of ps"
proof (induction ps rule: first_values.induct)
  case (2 k v vs)
  then show ?case by (auto simp: fun_eq_iff map_of_filter_ne)
qed simp

lemma fold_min_least:
  "fold min r (k :: string) \<in> set (k # r) \<and> (\<forall>x\<in>set (k # r). fold min r k \<le> x)"
proof (induction r arbitrary: k)
  case (Cons a r)
  from Cons [of "min a k"] show ?case by (auto simp: min_def split: if_splits)
qed simp

lemma min_name_Some:
  "min_name ks = Some m \<longleftrightarrow> m \<in> set ks \<and> (\<forall>x\<in>set ks. m \<le> x)"
proof (cases ks)
  case (Cons k r)
  have "(fold min r k = m) \<longleftrightarrow> m \<in> set ks \<and> (\<forall>x\<in>set ks. m \<le> x)"
    using fold_min_least [of r k] Cons by (metis order.antisym)
  then show ?thesis by (simp add: min_name_def Cons)
qed (simp add: min_name_def)

lemma min_name_None [simp]: "min_name ks = None \<longleftrightarrow> ks = []"
  by (simp add: min_name_def split: list.splits)

lemma min_name_cong: "set ks = set ks' \<Longrightarrow> min_name ks = min_name ks'"
proof -
  assume eq: "set ks = set ks'"
  show ?thesis
  proof (cases "min_name ks'")
    case None
    then have "ks' = []" by simp
    with eq have "ks = []" by simp
    with \<open>ks' = []\<close> show ?thesis by simp
  next
    case (Some m)
    then have "m \<in> set ks \<and> (\<forall>x\<in>set ks. m \<le> x)" unfolding eq min_name_Some .
    with Some show ?thesis by (simp only: min_name_Some [symmetric])
  qed
qed

lemma dom_keys: "set (map fst vs) = dom (map_of vs)"
  by (simp add: dom_map_of_conv_image_fst)

lemma min_name_keys:
  "map_of vs = map_of vs' \<Longrightarrow> min_name (filter p (map fst vs)) = min_name (filter p (map fst vs'))"
  by (rule min_name_cong) (simp only: set_filter dom_keys)

lemma any_case_cong:
  "map_of vs = map_of vs' \<Longrightarrow> any_case_on_windows win vs name = any_case_on_windows win vs' name"
  using min_name_keys [of vs vs'] by (simp add: any_case_on_windows_def)

lemma env_lookup_cong: "map_of vs = map_of vs' \<Longrightarrow> env_lookup win vs name = env_lookup win vs' name"
  using any_case_cong [of vs vs' win name] by (simp add: env_lookup_def)

lemma cgi_refusal_cong: "map_of vs = map_of vs' \<Longrightarrow> cgi_refusal win vs = cgi_refusal win vs'"
  using any_case_cong [of vs vs' win] min_name_keys [of vs vs'] by (simp add: cgi_refusal_def split: option.split)

lemma scheme_var_cong:
  "map_of vs = map_of vs' \<Longrightarrow> scheme_var E win vs sn st = scheme_var E win vs' sn st"
  using env_lookup_cong [of vs vs' win] by (simp add: scheme_var_def split_beta)

lemma scheme_var_spec:
  "scheme_var E win vars (s, name) (m, rejected) =
     (case env_lookup win vars name of
        None \<Rightarrow> (m, rejected)
      | Some value \<Rightarrow>
          if trim_text value = [] then (m(s \<mapsto> Disabled), rejected)
          else (case endpoint_parse E (trim_text value) 80 of
                  Inr e \<Rightarrow> (m(s \<mapsto> Use e), rejected)
                | Inl _ \<Rightarrow> (m, rejected @ [for_scheme (Some s)
                    (rejected_new InvalidProxyEndpoint (EnvironmentVariable name) (trim_text value))])))"
  by (simp add: scheme_var_def Let_def split: option.split)

text \<open>What one variable says: the entry of its scheme, if it has one.\<close>

definition var_entry :: "external \<Rightarrow> string option \<Rightarrow> proxy_entry option" where
  "var_entry E v =
     Option.bind v
       (\<lambda>value. if trim_text value = [] then Some Disabled
                else map_option Use (result_ok (endpoint_parse E (trim_text value) 80)))"

definition var_lost :: "external \<Rightarrow> string option \<Rightarrow> bool" where
  "var_lost E v \<longleftrightarrow> v \<noteq> None \<and> var_entry E v = None"

lemma scheme_var_map:
  "fst (scheme_var E win vars (s, name) (m, rejected)) =
     (case var_entry E (env_lookup win vars name) of None \<Rightarrow> m | Some e \<Rightarrow> m(s \<mapsto> e))"
  by (auto simp: scheme_var_spec var_entry_def split: option.splits sum.splits)

lemma scheme_var_rejected:
  "snd (scheme_var E win vars (s, name) (m, rejected)) =
     (if var_lost E (env_lookup win vars name)
      then rejected @ [for_scheme (Some s) (rejected_new InvalidProxyEndpoint
             (EnvironmentVariable name) (trim_text (the (env_lookup win vars name))))]
      else rejected)"
  by (auto simp: scheme_var_spec var_entry_def var_lost_def split: option.splits sum.splits)

lemma scheme_vars_fold:
  assumes "distinct (map fst sns)"
  shows "fst (foldl (\<lambda>st sn. scheme_var E win vars sn st) (m, rejected) sns) s =
      (case map_of sns s of
         None \<Rightarrow> m s
       | Some name \<Rightarrow>
           (case var_entry E (env_lookup win vars name) of None \<Rightarrow> m s | Some e \<Rightarrow> Some e))"
    and "v \<in> set (snd (foldl (\<lambda>st sn. scheme_var E win vars sn st) (m, rejected) sns)) \<longleftrightarrow>
      v \<in> set rejected \<or>
      (\<exists>(s, name)\<in>set sns. var_lost E (env_lookup win vars name) \<and>
         v = for_scheme (Some s) (rejected_new InvalidProxyEndpoint (EnvironmentVariable name)
               (trim_text (the (env_lookup win vars name)))))"
proof -
  have "fst (foldl (\<lambda>st sn. scheme_var E win vars sn st) st sns) s =
      (case map_of sns s of
         None \<Rightarrow> fst st s
       | Some name \<Rightarrow>
           (case var_entry E (env_lookup win vars name) of None \<Rightarrow> fst st s | Some e \<Rightarrow> Some e))" for st
    using assms
  proof (induction sns arbitrary: st)
    case (Cons sn sns)
    obtain s0 name where sn: "sn = (s0, name)" by fastforce
    obtain m' r' where st: "st = (m', r')" by fastforce
    have "map_of sns s0 = None" using Cons.prems by (simp add: sn map_of_eq_None_iff)
    then show ?case
      using Cons scheme_var_map [of E win vars s0 name m' r'] unfolding sn st
      by (auto split: option.splits)
  qed simp
  then show "fst (foldl (\<lambda>st sn. scheme_var E win vars sn st) (m, rejected) sns) s =
      (case map_of sns s of
         None \<Rightarrow> m s
       | Some name \<Rightarrow>
           (case var_entry E (env_lookup win vars name) of None \<Rightarrow> m s | Some e \<Rightarrow> Some e))"
    by (simp split: option.split)
  have "v \<in> set (snd (foldl (\<lambda>st sn. scheme_var E win vars sn st) st sns)) \<longleftrightarrow>
      v \<in> set (snd st) \<or>
      (\<exists>(s, name)\<in>set sns. var_lost E (env_lookup win vars name) \<and>
         v = for_scheme (Some s) (rejected_new InvalidProxyEndpoint (EnvironmentVariable name)
               (trim_text (the (env_lookup win vars name)))))" for st
  proof (induction sns arbitrary: st)
    case (Cons sn sns)
    obtain s0 name where sn: "sn = (s0, name)" by fastforce
    obtain m' r' where st: "st = (m', r')" by fastforce
    show ?case
      using Cons scheme_var_rejected [of E win vars s0 name m' r'] unfolding sn st
      by (auto split: if_splits)
  qed simp
  then show "v \<in> set (snd (foldl (\<lambda>st sn. scheme_var E win vars sn st) (m, rejected) sns)) \<longleftrightarrow>
      v \<in> set rejected \<or>
      (\<exists>(s, name)\<in>set sns. var_lost E (env_lookup win vars name) \<and>
         v = for_scheme (Some s) (rejected_new InvalidProxyEndpoint (EnvironmentVariable name)
               (trim_text (the (env_lookup win vars name)))))" by simp
qed

lemma SCHEME_VARS_simps [simp]:
  "distinct (map fst SCHEME_VARS)"
  "map_of SCHEME_VARS Http = Some ''http_proxy''"
  "map_of SCHEME_VARS Https = Some ''https_proxy''"
  "map_of SCHEME_VARS Ftp = Some ''ftp_proxy''"
  "map_of SCHEME_VARS Socks = None"
  "map_of SCHEME_VARS AllSchemes = Some ''all_proxy''"
  by (simp_all add: SCHEME_VARS_def)

lemma env_per_scheme_spec:
  assumes "env_from_vars E win now ps = Inr e"
  shows "env_per_scheme e s =
     (case map_of SCHEME_VARS s of
        None \<Rightarrow> None
      | Some name \<Rightarrow> var_entry E (env_lookup win (first_values ps) name))"
proof -
  have e: "env_per_scheme e = fst (foldl (\<lambda>st sn. scheme_var E win (first_values ps) sn st)
      (Map.empty, []) SCHEME_VARS)"
    using assms by (auto simp: env_from_vars_def Let_def split_beta split: option.splits)
  show ?thesis
    unfolding e scheme_vars_fold(1) [OF SCHEME_VARS_simps(1)] by (simp split: option.split)
qed

lemma env_rejected_spec:
  assumes "env_from_vars E win now ps = Inr e"
    and "map_of SCHEME_VARS s = Some name" "var_lost E (env_lookup win (first_values ps) name)"
  shows "for_scheme (Some s) (rejected_new InvalidProxyEndpoint (EnvironmentVariable name)
      (trim_text (the (env_lookup win (first_values ps) name)))) \<in> set (env_rejected e)"
proof -
  have mem: "(s, name) \<in> set SCHEME_VARS" using assms(2) by (rule map_of_SomeD)
  have e: "env_rejected e = snd (foldl (\<lambda>st sn. scheme_var E win (first_values ps) sn st)
      (Map.empty, []) SCHEME_VARS)"
    using assms(1) by (auto simp: env_from_vars_def Let_def split_beta split: option.splits)
  show ?thesis
    unfolding e scheme_vars_fold(2) [OF SCHEME_VARS_simps(1)] using mem assms(3) by blast
qed

section \<open>Lost settings\<close>

definition url_slots :: "url \<Rightarrow> scheme list" where
  "url_slots u =
     (if url_scheme u = ''ws'' \<or> url_scheme u = ''wss'' then [Socks, Https, Http, AllSchemes]
      else [request_scheme u, AllSchemes])"

definition url_chain :: "scheme_map \<Rightarrow> url \<Rightarrow> proxy_entry list" where
  "url_chain m u =
     (if url_scheme u = ''ws'' \<or> url_scheme u = ''wss'' then websocket_chain m
      else entry_chain (request_scheme u) m)"

lemma url_chain_all_lost:
  assumes "url_chain m u \<noteq> []" "\<forall>e\<in>set (url_chain m u). \<not> live e"
  shows "\<exists>r. url_entry (Manual m b rj) u = Some (Unusable r) \<and> Unusable r \<in> set (url_chain m u)"
proof (cases "url_scheme u = ''ws'' \<or> url_scheme u = ''wss''")
  case True
  then show ?thesis
    using websocket.all_lost [of m b rj] assms by (simp add: url_chain_def url_entry_def)
next
  case False
  then show ?thesis
    using entry.all_lost [of "request_scheme u" m b rj] assms by (simp add: url_chain_def url_entry_def)
qed

lemma set_present_map: "set (present (map m ss)) = {e. \<exists>s\<in>set ss. m s = Some e}"
  unfolding set_eq_iff mem_Collect_eq set_present by force

lemma configured_lost: "\<forall>e. m s = Some e \<longrightarrow> \<not> live e \<Longrightarrow> configured m s = m s"
  by (cases "m s") (auto simp: configured_def live_def split: proxy_entry.splits)

lemma set_url_chain:
  assumes "\<forall>s\<in>set (url_slots u). \<forall>e. m s = Some e \<longrightarrow> \<not> live e"
  shows "set (url_chain m u) = {e. \<exists>s\<in>set (url_slots u). m s = Some e}"
proof -
  have "url_chain m u = present (map m (url_slots u))"
  proof (cases "url_scheme u = ''ws'' \<or> url_scheme u = ''wss''")
    case True
    with assms have "configured m Socks = m Socks" "configured m Https = m Https"
        "configured m Http = m Http"
      by (simp_all add: url_slots_def configured_lost)
    with True show ?thesis by (simp add: url_chain_def websocket_chain_def url_slots_def)
  qed (simp add: url_chain_def entry_chain_def url_slots_def)
  then show ?thesis by (simp only: set_present_map)
qed

lemma url_entry_lost:
  assumes slots: "\<forall>s\<in>set (url_slots u). \<forall>e. m s = Some e \<longrightarrow> \<not> live e"
    and some: "s \<in> set (url_slots u)" "m s \<noteq> None"
  shows "\<exists>r. url_entry (Manual m b rj) u = Some (Unusable r)
     \<and> (\<exists>s\<in>set (url_slots u). m s = Some (Unusable r))"
proof -
  note eq = set_url_chain [OF slots]
  obtain e where "m s = Some e" using some by auto
  with some eq have "e \<in> set (url_chain m u)" by blast
  then have "url_chain m u \<noteq> []" by auto
  moreover have "\<forall>e\<in>set (url_chain m u). \<not> live e" using slots eq by blast
  ultimately show ?thesis using url_chain_all_lost [of m u b rj] eq by auto
qed

lemma resolve_lost:
  assumes mode: "mode = with_rejected vs (mode_manual m b)"
    and host: "has_request_host u" and proxied: "\<not> matches_url E b u"
    and empty: "\<forall>s\<in>set (url_slots u). m s = None"
    and v: "v \<in> set vs" "affected_scheme v = Some s" "s \<in> set (url_slots u)"
  shows "\<exists>r\<in>set vs. (\<exists>t\<in>set (url_slots u). affected_scheme r = Some t)
     \<and> resolve_mode E mode u = Inl (ProxyEntryUnusable
          (unwrap_or AllSchemes (affected_scheme r)) r)"
proof -
  define m' where "m' = file_rejected vs m"
  have mode': "mode = Manual m' b vs" by (simp add: mode mode_manual_def m'_def)
  have slot: "m' t = map_option Unusable (List.find (\<lambda>v. affected_scheme v = Some t) vs)"
    if "t \<in> set (url_slots u)" for t
    using empty that by (simp add: m'_def file_rejected_spec)
  have "List.find (\<lambda>v. affected_scheme v = Some s) vs \<noteq> None" using v by (auto simp: find_None_iff)
  then have some: "m' s \<noteq> None" using slot [OF v(3)] by auto
  have lost: "\<forall>t\<in>set (url_slots u). \<forall>e. m' t = Some e \<longrightarrow> \<not> live e" using slot by auto
  obtain r t where r: "url_entry (Manual m' b vs) u = Some (Unusable r)" "t \<in> set (url_slots u)"
      "m' t = Some (Unusable r)"
    using url_entry_lost [OF lost v(3) some] by blast
  then have "r \<in> set vs" "affected_scheme r = Some t"
    using slot [OF r(2)] by (auto simp: find_Some_iff)
  moreover have "resolve_mode E mode u =
      Inl (ProxyEntryUnusable (unwrap_or AllSchemes (affected_scheme r)) r)"
    using r(1) host proxied by (simp add: resolve_mode_def mode')
  ultimately show ?thesis using r(2) by blast
qed

section \<open>The chain of a script's answer\<close>

definition chain_ok :: "chain \<Rightarrow> bool" where
  "chain_ok c \<longleftrightarrow> seen c = set (steps c) \<and> distinct (steps c) \<and> length (steps c) \<le> MAX_CHAIN"

lemma chain_push_ok: "chain_ok c \<Longrightarrow> chain_ok (chain_push s c)"
  by (auto simp: chain_ok_def chain_push_def chain_is_full_def)

fun first_of_each :: "'a set \<Rightarrow> 'a list \<Rightarrow> 'a list" where
  "first_of_each known [] = []"
| "first_of_each known (x # xs) =
     (if x \<in> known then first_of_each known xs else x # first_of_each (insert x known) xs)"

lemma push_candidates_spec:
  assumes "chain_ok c"
  shows "chain_ok (push_candidates E cands c)
     \<and> steps (push_candidates E cands c) =
        take MAX_CHAIN (steps c @ first_of_each (seen c) (present (map (parse_candidate E) cands)))"
  using assms
proof (induction cands arbitrary: c)
  case Nil
  then show ?case by (simp add: chain_ok_def)
next
  case (Cons cand cands)
  show ?case
  proof (cases "parse_candidate E cand")
    case None
    with Cons show ?thesis by simp
  next
    case (Some s)
    have ok: "chain_ok (chain_push s c)" by (rule chain_push_ok [OF Cons.prems])
    show ?thesis
    proof (cases "chain_is_full (chain_push s c)")
      case True
      show ?thesis
      proof (cases "chain_is_full c \<or> s \<in> seen c")
        case True
        then show ?thesis using Some Cons.prems ok \<open>chain_is_full (chain_push s c)\<close>
          by (auto simp: Let_def chain_push_def chain_is_full_def chain_ok_def)
      next
        case False
        then have "MAX_CHAIN - length (steps c) = Suc 0"
          using \<open>chain_is_full (chain_push s c)\<close> by (auto simp: chain_push_def chain_is_full_def)
        then show ?thesis using Some Cons.prems ok False \<open>chain_is_full (chain_push s c)\<close>
          by (simp add: Let_def chain_push_def chain_is_full_def chain_ok_def)
      qed
    next
      case False
      then have "\<not> chain_is_full c" by (auto simp: chain_push_def split: if_splits)
      have "length (steps c) \<le> MAX_CHAIN" using Cons.prems by (simp add: chain_ok_def)
      with \<open>\<not> chain_is_full c\<close> have "MAX_CHAIN - length (steps c) = Suc (MAX_CHAIN - Suc (length (steps c)))"
        by (simp add: chain_is_full_def)
      with \<open>\<not> chain_is_full c\<close> show ?thesis using Some Cons.IH [OF ok] False
        by (auto simp: Let_def chain_push_def split: if_splits)
    qed
  qed
qed

lemma first_of_each_set: "set (first_of_each known xs) = set xs - known"
  by (induction known xs rule: first_of_each.induct) auto

lemma first_of_each_distinct: "distinct (first_of_each known xs)"
  by (induction known xs rule: first_of_each.induct) (auto simp: first_of_each_set)

lemma parse_candidate_clean:
  assumes "parse_candidate E cand = Some s" "step_endpoint s = Some e"
  shows "ep_auth e = None \<and> ep_port e \<noteq> 0 \<and> scheme_hint e \<noteq> None"
proof -
  have port: "proxy_scheme_default_port h \<noteq> 0" for h by (cases h) simp_all
  have from_ep: "step_endpoint (step_from_endpoint x) = Some x" for x
    by (auto simp: step_from_endpoint_def split: option.splits proxy_scheme.splits)
  show ?thesis
    using assms port
    by (auto simp: parse_candidate_def Let_def with_scheme_hint_def from_ep
        split: list.splits if_splits option.splits sum.splits)
qed

lemma parse_find_proxy_result_spec:
  "parse_find_proxy_result E result =
     (let found = take MAX_CHAIN (first_of_each {}
            (present (map (parse_candidate E) (split_chars candidate_separator result))))
      in if found = [] then Inl (error_pac_invalid_result result) else Inr found)"
proof -
  have "chain_ok chain_new" by (simp add: chain_ok_def chain_new_def)
  from push_candidates_spec [OF this, of E "split_chars candidate_separator result"]
  show ?thesis
    by (simp add: parse_find_proxy_result_def chain_finish_def chain_new_def Let_def)
qed

section \<open>One decision\<close>

text \<open>The entry a URL is answered from, when it is an endpoint, is one the map holds.\<close>

lemma first_answer_use: "first_answer es = Some (Use e) \<Longrightarrow> Use e \<in> set es"
  by (auto simp: first_answer_spec find_Some_iff in_set_conv_nth split: option.splits list.splits)

lemma url_entry_use:
  assumes "url_entry (Manual m b r) u = Some (Use e)"
  shows "\<exists>s\<in>set (url_slots u). m s = Some (Use e)"
proof -
  have "Use e \<in> set (url_chain m u)"
    using assms first_answer_use
    by (auto simp: url_entry_def url_chain_def entry_for_def websocket_entry_def entry_chain_def
        websocket_chain_def split: if_splits)
  then show ?thesis
    by (auto simp: url_chain_def url_slots_def entry_chain_def websocket_chain_def set_present
        configured_def split: if_splits option.splits proxy_entry.splits)
qed

lemma resolve_manual:
  "resolve_mode E (Manual m b r) u =
     (if \<not> has_request_host u \<or> matches_url E b u then Inr [StepDirect]
      else (case url_entry (Manual m b r) u of
              Some (Use e) \<Rightarrow> Inr [step_from_endpoint e]
            | Some Disabled \<Rightarrow> Inr [StepDirect]
            | Some (Unusable v) \<Rightarrow> Inl (ProxyEntryUnusable (unwrap_or AllSchemes (affected_scheme v)) v)
            | None \<Rightarrow> Inr [StepDirect]))"
  by (simp add: resolve_mode_def)

lemma resolve_routes:
  assumes "resolve E c u = Inr ss"
  shows "ss = [StepDirect]
     \<or> (\<exists>m b r e. effective c = Manual m b r \<and> has_request_host u \<and> \<not> matches_url E b u
          \<and> (\<exists>s\<in>set (url_slots u). m s = Some (Use e)) \<and> ss = [step_from_endpoint e])"
proof (cases "effective c")
  case (Manual m b r)
  show ?thesis
  proof (cases "\<not> has_request_host u \<or> matches_url E b u")
    case True
    with assms Manual show ?thesis by (simp add: resolve_def resolve_manual)
  next
    case False
    then show ?thesis
      using assms Manual url_entry_use [of m b r u]
      by (auto simp: resolve_def resolve_manual split: option.splits proxy_entry.splits)
  qed
qed (use assms in \<open>simp_all add: resolve_def resolve_mode_def\<close>)

lemma env_rejected_iff:
  assumes "env_from_vars E win now ps = Inr e"
  shows "v \<in> set (env_rejected e) \<longleftrightarrow>
     (\<exists>(s, name)\<in>set SCHEME_VARS. var_lost E (env_lookup win (first_values ps) name) \<and>
        v = for_scheme (Some s) (rejected_new InvalidProxyEndpoint (EnvironmentVariable name)
              (trim_text (the (env_lookup win (first_values ps) name)))))"
proof -
  have e: "env_rejected e = snd (foldl (\<lambda>st sn. scheme_var E win (first_values ps) sn st)
      (Map.empty, []) SCHEME_VARS)"
    using assms by (auto simp: env_from_vars_def Let_def split_beta split: option.splits)
  show ?thesis
    unfolding e scheme_vars_fold(2) [OF SCHEME_VARS_simps(1)] by simp
qed

lemma env_rejected_only:
  assumes "env_from_vars E win now ps = Inr e" "map_of SCHEME_VARS s = Some name"
    and none: "env_lookup win (first_values ps) ''all_proxy'' = None"
    and r: "r \<in> set (env_rejected e)"
      "affected_scheme r = Some s \<or> affected_scheme r = Some AllSchemes"
  shows "r = for_scheme (Some s) (rejected_new InvalidProxyEndpoint (EnvironmentVariable name)
     (trim_text (the (env_lookup win (first_values ps) name))))"
proof -
  obtain s' name' where r': "(s', name') \<in> set SCHEME_VARS"
      "var_lost E (env_lookup win (first_values ps) name')"
      "r = for_scheme (Some s') (rejected_new InvalidProxyEndpoint (EnvironmentVariable name')
            (trim_text (the (env_lookup win (first_values ps) name'))))"
    using r(1) unfolding env_rejected_iff [OF assms(1)] by blast
  have name': "map_of SCHEME_VARS s' = Some name'" using r'(1) map_of_eq_Some_iff by fastforce
  have "s' \<noteq> AllSchemes"
  proof
    assume "s' = AllSchemes"
    with name' have "name' = ''all_proxy''" by (metis SCHEME_VARS_simps(6) option.inject)
    with r'(2) none show False by (simp add: var_lost_def)
  qed
  then have s': "s' = s" using r'(3) r(2) by auto
  with name' assms(2) have "name' = name" by simp
  with s' r'(3) show ?thesis by simp
qed

end
