(* ===== verification/Resolve_Correct.thy ===== *)
theory Resolve_Correct
  imports Resolve_Facts
begin

text \<open>
  What \<open>Resolve\<close>, \<open>Env_Config\<close> and the reading of a script's answer promise, over the
  lemmas of \<open>Resolve_Facts\<close>; each property with a hypothesis is followed by its use at a
  concrete input.
\<close>

section \<open>Routing\<close>

text \<open>C1. A setting that was written and could not be used is never answered direct: when
  a manual configuration holds nothing for the schemes a URL is answered from, and a record
  of a dropped value names one of them, resolving the URL is an error that carries a record
  of the list.\<close>

theorem lost_setting_is_never_direct:
  assumes "effective c = with_rejected vs (mode_manual m b)"
    and "has_request_host u" "\<not> matches_url E b u"
    and "\<forall>s\<in>set (url_slots u). m s = None"
    and "v \<in> set vs" "affected_scheme v = Some s" "s \<in> set (url_slots u)"
  shows "\<exists>r\<in>set vs. resolve E c u =
     Inl (ProxyEntryUnusable (unwrap_or AllSchemes (affected_scheme r)) r)"
  unfolding resolve_def using resolve_lost [OF assms] by blast

theorem lost_setting_is_never_direct_witness:
  "\<exists>r\<in>set [for_scheme (Some Https) (rejected_new InvalidProxyEndpoint ProxyServer ''https=x y'')].
     resolve plain_external
       (config_new 0 (with_rejected
          [for_scheme (Some Https) (rejected_new InvalidProxyEndpoint ProxyServer ''https=x y'')]
          (mode_manual Map.empty bypass_new)) [])
       \<lparr> as_str = ''https://a.b/'', url_scheme = ''https'', url_host = Some (Domain ''a.b''),
         url_port = None, port_or_known_default = Some 443 \<rparr>
     = Inl (ProxyEntryUnusable (unwrap_or AllSchemes (affected_scheme r)) r)"
proof -
  have "\<not> matches_url plain_external bypass_new
      \<lparr> as_str = ''https://a.b/'', url_scheme = ''https'', url_host = Some (Domain ''a.b''),
        url_port = None, port_or_known_default = Some 443 \<rparr>" by code_simp
  then show ?thesis
    by (intro lost_setting_is_never_direct
        [where m = Map.empty and b = bypass_new and s = Https
           and v = "for_scheme (Some Https) (rejected_new InvalidProxyEndpoint ProxyServer ''https=x y'')"])
      (simp_all add: config_new_def url_slots_def request_scheme_def has_request_host_def
         request_host_def)
qed

text \<open>C4. An answer is one step, and it goes to a proxy only when the URL has a host, the
  rules do not bypass it, and one of the URL's schemes names that proxy.\<close>

theorem an_answer_is_one_named_step:
  assumes "resolve E c u = Inr ss"
  shows "ss = [StepDirect]
     \<or> (\<exists>m b r e. effective c = Manual m b r \<and> has_request_host u \<and> \<not> matches_url E b u
          \<and> (\<exists>s\<in>set (url_slots u). m s = Some (Use e)) \<and> ss = [step_from_endpoint e])"
  using assms by (rule resolve_routes)

theorem an_answer_is_one_named_step_witness:
  "[StepHttp (endpoint_new (Domain ''p'') 8080)] = [StepDirect]
     \<or> (\<exists>m b r e. effective (config_new 0 (mode_manual [Http \<mapsto> Use (endpoint_new (Domain ''p'') 8080)]
             bypass_new) []) = Manual m b r
          \<and> has_request_host \<lparr> as_str = ''http://a.b/'', url_scheme = ''http'',
             url_host = Some (Domain ''a.b''), url_port = None, port_or_known_default = Some 80 \<rparr>
          \<and> \<not> matches_url plain_external b \<lparr> as_str = ''http://a.b/'', url_scheme = ''http'',
             url_host = Some (Domain ''a.b''), url_port = None, port_or_known_default = Some 80 \<rparr>
          \<and> (\<exists>s\<in>set (url_slots \<lparr> as_str = ''http://a.b/'', url_scheme = ''http'',
             url_host = Some (Domain ''a.b''), url_port = None, port_or_known_default = Some 80 \<rparr>).
               m s = Some (Use e))
          \<and> [StepHttp (endpoint_new (Domain ''p'') 8080)] = [step_from_endpoint e])"
  by (rule an_answer_is_one_named_step) code_simp

text \<open>With a PAC entry the answer of \<open>resolve\<close> stands wherever it has one: a direct
  or manual mode resolves as without a script, no script is run for them nor for a URL
  without a host, and what is run is the given script, or the inline one.\<close>

theorem pac_is_asked_only_when_needed:
  "resolve_with_pac_using E c u script run =
     (case resolve E c u of
        Inl (PacNotSupported kind) \<Rightarrow>
          if \<not> has_request_host u then Inr [StepDirect]
          else (case (script, effective c) of
                  (Some s, _) \<Rightarrow> run s
                | (None, PacInline s r) \<Rightarrow> run s
                | (None, Pac pac_url r) \<Rightarrow> Inl (PacFetchRequired pac_url)
                | _ \<Rightarrow> Inl (PacNotSupported ''wpad''))
      | answer \<Rightarrow> answer)"
proof (cases "effective c")
  case (Manual m b r)
  then have "resolve_with_pac_using E c u script run = resolve E c u"
    by (simp add: resolve_with_pac_using_def resolve_def)
  moreover have "resolve E c u \<noteq> Inl (PacNotSupported kind)" for kind
    using Manual by (simp add: resolve_def resolve_manual split: option.splits proxy_entry.splits)
  ultimately show ?thesis by (simp split: sum.split proxy_error.split)
qed (simp_all add: resolve_with_pac_using_def resolve_def resolve_mode_def split: option.split)

section \<open>The environment\<close>

text \<open>The environment is a set of variables: two that give every name the same first
  value make the same snapshot, in whatever order and however often they list the names.\<close>

theorem environment_order_is_irrelevant:
  assumes "map_of ps = map_of qs"
  shows "env_from_vars E win now ps = env_from_vars E win now qs"
proof -
  have eq: "map_of (first_values ps) = map_of (first_values qs)" using assms by simp
  then show ?thesis
    unfolding env_from_vars_def Let_def
    by (simp only: env_lookup_cong [OF eq] cgi_refusal_cong [OF eq] scheme_var_cong [OF eq])
qed

theorem environment_order_is_irrelevant_witness:
  "env_from_vars plain_external True 0
     [(''HTTP_PROXY'', ''a:1''), (''Http_Proxy'', ''b:2''), (''no_proxy'', ''c'')]
   = env_from_vars plain_external True 0
     [(''no_proxy'', ''c''), (''Http_Proxy'', ''b:2''), (''no_proxy'', ''d''), (''HTTP_PROXY'', ''a:1'')]"
  by (rule environment_order_is_irrelevant) (simp add: fun_eq_iff)

text \<open>A scheme's variable that is set and does not parse makes every URL of the scheme
  an error, unless the catch-all variable is set too or the list of \<open>no_proxy\<close> names the
  host.\<close>

theorem broken_variable_is_an_error:
  assumes "env_from_vars E win now ps = Inr e"
    and "map_of SCHEME_VARS s = Some name" "request_scheme u = s"
    and "url_scheme u \<noteq> ''ws''" "url_scheme u \<noteq> ''wss''"
    and "env_lookup win (first_values ps) name = Some value" "trim_text value \<noteq> []"
    and "endpoint_parse E (trim_text value) 80 = Inl err"
    and "env_lookup win (first_values ps) ''all_proxy'' = None"
    and "has_request_host u" "\<not> matches_url E (env_bypass e) u"
  shows "resolve E (env_to_config now' e) u =
     Inl (ProxyEntryUnusable s (for_scheme (Some s)
       (rejected_new InvalidProxyEndpoint (EnvironmentVariable name) (trim_text value))))"
proof -
  define v where "v = for_scheme (Some s)
    (rejected_new InvalidProxyEndpoint (EnvironmentVariable name) (trim_text value))"
  have lost: "var_lost E (env_lookup win (first_values ps) name)"
    using assms(6-8) by (simp add: var_lost_def var_entry_def)
  have v: "v \<in> set (env_rejected e)" "affected_scheme v = Some s"
    using env_rejected_spec [OF assms(1,2) lost] assms(6) by (simp_all add: v_def)
  have only: "r = v" if "r \<in> set (env_rejected e)"
      "affected_scheme r = Some s \<or> affected_scheme r = Some AllSchemes" for r
    using env_rejected_only [OF assms(1,2,9) that] assms(6) by (simp add: v_def)
  have slots: "set (url_slots u) = {s, AllSchemes}"
    using assms(3-5) by (simp add: url_slots_def)
  have none: "\<forall>t\<in>set (url_slots u). env_per_scheme e t = None"
    using assms(2,9) lost slots
    by (simp add: env_per_scheme_spec [OF assms(1)] var_lost_def var_entry_def)
  have "effective (env_to_config now' e) =
      with_rejected (env_rejected e) (mode_manual (env_per_scheme e) (env_bypass e))"
    using v(1) by (auto simp: env_to_config_def from_source_def from_ordered_sources_def
        config_new_def env_to_mode_def env_is_empty_def)
  note lost_mode = resolve_lost [OF this assms(10,11) none v]
  have "s \<in> set (url_slots u)" using slots by simp
  from lost_mode [OF this] obtain r where r: "r \<in> set (env_rejected e)" "\<exists>t\<in>set (url_slots u). affected_scheme r = Some t"
      "resolve E (env_to_config now' e) u =
        Inl (ProxyEntryUnusable (unwrap_or AllSchemes (affected_scheme r)) r)"
    unfolding resolve_def by blast
  then have "r = v" using only slots by auto
  with r(3) v(2) show ?thesis by (simp add: v_def)
qed

theorem broken_variable_is_an_error_witness:
  "resolve plain_external
     (env_to_config 0 \<lparr> env_per_scheme = Map.empty, env_bypass = bypass_new,
       env_rejected = [for_scheme (Some Http) (rejected_new InvalidProxyEndpoint
         (EnvironmentVariable ''http_proxy'') ''a:x'')], env_captured_at = 0 \<rparr>)
     \<lparr> as_str = ''http://a.b/'', url_scheme = ''http'', url_host = Some (Domain ''a.b''),
       url_port = None, port_or_known_default = Some 80 \<rparr>
   = Inl (ProxyEntryUnusable Http (for_scheme (Some Http)
       (rejected_new InvalidProxyEndpoint (EnvironmentVariable ''http_proxy'') (trim_text ''a:x''))))"
proof -
  define env where "env = \<lparr> env_per_scheme = Map.empty, env_bypass = bypass_new,
       env_rejected = [for_scheme (Some Http) (rejected_new InvalidProxyEndpoint
         (EnvironmentVariable ''http_proxy'') ''a:x'')], env_captured_at = 0 \<rparr>"
  define u where "u = \<lparr> as_str = ''http://a.b/'', url_scheme = ''http'',
    url_host = Some (Domain ''a.b''), url_port = None, port_or_known_default = Some 80 \<rparr>"
  have err: "endpoint_parse plain_external ''a:x'' 80
      = Inl (error_proxy_server ''a:x'' (PortNotDigits 1 0))"
    by code_simp
  have t: "trim_text ''a:x'' = ''a:x''" by code_simp
  have "env_from_vars plain_external False 0 [(''http_proxy'', ''a:x'')] = Inr env"
    unfolding env_def by (simp add: env_from_vars_def cgi_refusal_def any_case_on_windows_def
        CGI_MARKER_VAR_def env_lookup_def NO_PROXY_VAR_def to_ascii_uppercase_def
        SCHEME_VARS_def scheme_var_spec t err)
  moreover have "\<not> matches_url plain_external bypass_new u" unfolding u_def by code_simp
  ultimately show ?thesis
    unfolding u_def [symmetric] env_def [symmetric]
    by (intro broken_variable_is_an_error [where win = False and now = 0
          and ps = "[(''http_proxy'', ''a:x'')]"])
      (simp_all add: u_def request_scheme_def has_request_host_def request_host_def env_lookup_def
         any_case_on_windows_def to_ascii_uppercase_def t err env_def)
qed

text \<open>Folding the environment into a snapshot rewrites nothing that is there: every
  other source stays, in its order, and the fallbacks too; the mode is the environment's
  exactly when the environment wins, and the capture time is the older one.\<close>

theorem with_env_adds_and_keeps:
  "filter (\<lambda>sm. fst sm \<noteq> Env) (sources (with_env e p c)) = filter (\<lambda>sm. fst sm \<noteq> Env) (sources c)
   \<and> fallbacks (with_env e p c) = fallbacks c
   \<and> effective (with_env e p c) = (if env_wins e p c then env_to_mode e else effective c)
   \<and> captured_at (with_env e p c) \<in> {captured_at c, min (captured_at c) (env_captured_at e)}"
  by (simp add: with_env_def Let_def env_wins_def)

section \<open>A script's answer\<close>

text \<open>C6. A script's answer is read as: the candidates that parse, each once in the order
  of its first mention, and no more than 64 of them; none is an error.\<close>

theorem script_answer_reference:
  "parse_find_proxy_result E result =
     (let found = take 64 (first_of_each {}
            (present (map (parse_candidate E) (split_chars candidate_separator result))))
      in if found = [] then Inl (error_pac_invalid_result result) else Inr found)"
  using parse_find_proxy_result_spec [of E result] unfolding MAX_CHAIN_def .

text \<open>What is accepted of a script's answer: at least one step and at most 64, no two
  the same, and no endpoint with a port zero, with credentials or without its protocol.\<close>

theorem script_answer_is_clean:
  assumes "parse_find_proxy_result E result = Inr ss"
  shows "1 \<le> length ss \<and> length ss \<le> 64 \<and> distinct ss
     \<and> (\<forall>s\<in>set ss. \<forall>e. step_endpoint s = Some e \<longrightarrow>
           ep_auth e = None \<and> ep_port e \<noteq> 0 \<and> scheme_hint e \<noteq> None)"
proof -
  define all where "all = present (map (parse_candidate E) (split_chars candidate_separator result))"
  have ss: "ss = take 64 (first_of_each {} all)" "ss \<noteq> []"
    using assms parse_find_proxy_result_spec [of E result]
    by (auto simp: Let_def MAX_CHAIN_def all_def split: if_splits)
  then have "set ss \<subseteq> set all" using first_of_each_set by (metis Diff_empty set_take_subset)
  then have "\<exists>c. parse_candidate E c = Some s" if "s \<in> set ss" for s
  proof -
    from that \<open>set ss \<subseteq> set all\<close> have "Some s \<in> set (map (parse_candidate E)
        (split_chars candidate_separator result))" unfolding all_def set_present [symmetric] ..
    then show ?thesis by auto
  qed
  then have "\<forall>s\<in>set ss. \<forall>e. step_endpoint s = Some e \<longrightarrow>
      ep_auth e = None \<and> ep_port e \<noteq> 0 \<and> scheme_hint e \<noteq> None"
    using parse_candidate_clean by blast
  moreover have "distinct ss" unfolding ss(1) using first_of_each_distinct by (rule distinct_take)
  moreover have "1 \<le> length ss" using ss(2) by (simp add: Suc_le_eq)
  ultimately show ?thesis using ss(1) by simp
qed

theorem script_answer_is_clean_witness:
  "distinct [StepHttp \<lparr> scheme_hint = Some PsHttp, ep_host = Domain ''p'', ep_port = 80,
     ep_auth = None \<rparr>, StepDirect]
   \<and> ep_port \<lparr> scheme_hint = Some PsHttp, ep_host = Domain ''p'', ep_port = 80, ep_auth = None \<rparr> \<noteq> 0"
proof -
  have "parse_find_proxy_result plain_external ''PROXY u:pw@p:0; DIRECT; proxy p'' =
      Inr [StepHttp \<lparr> scheme_hint = Some PsHttp, ep_host = Domain ''p'', ep_port = 80,
        ep_auth = None \<rparr>, StepDirect]" by code_simp
  from script_answer_is_clean [OF this] show ?thesis by simp
qed

end
