(* ===== verification/Bypass_Facts.thy ===== *)
theory Bypass_Facts
  imports Mode_Facts Util_Facts
begin

text \<open>
  \<open>src/bypass.rs\<close>: the entries of a list decide from the last to the first, so which orders
  and repeats matter; what each dialect can read out of an entry; and what a list of
  entries becomes.
\<close>

section \<open>Rules that decide from the last\<close>

text \<open>A rule gives a verdict or none; the first verdict from the front of the list counts.\<close>

fun decide :: "('p \<Rightarrow> bool option) \<Rightarrow> bool \<Rightarrow> 'p list \<Rightarrow> bool" where
  "decide verdict otherwise [] = otherwise"
| "decide verdict otherwise (p # ps) =
     (case verdict p of Some b \<Rightarrow> b | None \<Rightarrow> decide verdict otherwise ps)"

lemma decide_agreeing:
  assumes "\<forall>p\<in>set ps. verdict p \<in> {None, Some b}"
  shows "decide verdict d ps = (if \<exists>p\<in>set ps. verdict p = Some b then b else d)"
  using assms
proof (induction ps)
  case (Cons p ps)
  then show ?case by (cases "verdict p") simp_all
qed simp

lemma decide_append: "decide verdict d (ps @ qs) = decide verdict (decide verdict d qs) ps"
  by (induction ps) (auto split: option.split)

locale last_rule =
  fixes verdict :: "'p \<Rightarrow> bool option"
    and otherwise :: bool
    and answer :: "'p list \<Rightarrow> bool"
  assumes answer_is: "answer ps = decide verdict otherwise (rev ps)"
begin

lemma answer_last: "verdict p = Some b \<Longrightarrow> answer (ps @ [p]) = b"
  by (simp add: answer_is)

lemma answer_skip: "verdict p = None \<Longrightarrow> answer (ps @ [p]) = answer ps"
  by (simp add: answer_is)

lemma answer_agreeing:
  assumes "\<forall>p\<in>set ps. verdict p \<in> {None, Some b}"
  shows "answer ps = (if \<exists>p\<in>set ps. verdict p = Some b then b else otherwise)"
  using decide_agreeing [of "rev ps" verdict b otherwise] assms by (simp add: answer_is)

lemma answer_repeat:
  assumes "p \<in> set qs" "\<forall>q\<in>set qs. verdict q \<in> {None, Some b}"
  shows "answer (ps @ qs @ p # rs) = answer (ps @ qs @ rs)"
proof -
  have v: "verdict p \<in> {None, Some b}" using assms by blast
  have all: "decide verdict d (rev qs) = (if \<exists>q\<in>set qs. verdict q = Some b then b else d)" for d
    using decide_agreeing [of "rev qs" verdict b d] assms(2) by simp
  then have "(case verdict p of None \<Rightarrow> decide verdict d (rev qs) | Some x \<Rightarrow> x) = decide verdict d (rev qs)"
    for d
  proof (cases "verdict p")
    case (Some x)
    with v assms(1) have "x = b" "\<exists>q\<in>set qs. verdict q = Some b" by auto
    with Some all show ?thesis by simp
  qed simp
  then have "decide verdict d ([p] @ rev qs) = decide verdict d (rev qs)" for d by simp
  then have "decide verdict otherwise (rev rs @ ([p] @ rev qs) @ rev ps) =
      decide verdict otherwise (rev rs @ rev qs @ rev ps)" by (simp only: decide_append)
  then show ?thesis by (simp add: answer_is)
qed

lemma answer_otherwise_or_verdict:
  "answer ps = otherwise \<or> (\<exists>p\<in>set ps. verdict p = Some (answer ps))"
proof -
  have "decide verdict otherwise ps = otherwise \<or> (\<exists>p\<in>set ps. verdict p = Some (decide verdict otherwise ps))" for ps
    by (induction ps) (auto split: option.split)
  from this [of "rev ps"] show ?thesis by (simp add: answer_is)
qed

end

text \<open>What an entry says of a destination. The destination is what \<open>rules_match\<close> derives of
  a host: its text, the text an entry is compared with, the address and the port.\<close>

record destination =
  de_text :: string
  de_entry_text :: string
  de_ip :: "ip_addr option"
  de_port :: "u16 option"
  de_covered :: bool

definition destination_of :: "external \<Rightarrow> bypass_rules \<Rightarrow> host \<Rightarrow> u16 option \<Rightarrow> destination" where
  "destination_of E r h port =
     \<lparr> de_text = host_key E h,
       de_entry_text = (if strip_trailing_dot r then root_stripped (host_key E h) else host_key E h),
       de_ip = (if ipv4_mapped_as_ipv4 r then map_option reduce_mapped (host_ip h) else host_ip h),
       de_port = port,
       de_covered = implicit_covers (implicit r) (host_key E h) (host_ip h) \<rparr>"

definition entry_matches :: "external \<Rightarrow> bypass_rules \<Rightarrow> destination \<Rightarrow> host_pattern \<Rightarrow> bool" where
  "entry_matches E r de p \<longleftrightarrow>
     pattern_matches E p (if p = Local then de_text de else de_entry_text de) (de_ip de) (de_port de)
       (ipv4_mapped_as_ipv4 r)"

definition unnamed_bypasses :: "bypass_rules \<Rightarrow> bool" where
  "unnamed_bypasses r \<longleftrightarrow> reversed_exceptions r \<and> br_rejected r = []"

definition entry_verdict :: "external \<Rightarrow> bypass_rules \<Rightarrow> destination \<Rightarrow> host_pattern \<Rightarrow> bool option" where
  "entry_verdict E r de p =
     (if p = SubtractImplicit then if de_covered de then Some (unnamed_bypasses r) else None
      else if entry_matches E r de p then Some (\<not> reversed_exceptions r) else None)"

definition entries_answer :: "external \<Rightarrow> bypass_rules \<Rightarrow> destination \<Rightarrow> host_pattern list \<Rightarrow> bool" where
  "entries_answer E r de ps =
     match_entries E r (de_covered de) (unnamed_bypasses r) (de_text de) (de_entry_text de) (de_ip de)
       (de_port de) (rev ps)"

lemma match_entries_decide:
  "match_entries E r (de_covered de) (unnamed_bypasses r) (de_text de) (de_entry_text de) (de_ip de)
       (de_port de) ps
     = decide (entry_verdict E r de) (de_covered de \<or> unnamed_bypasses r) ps"
proof (induction ps)
  case (Cons p ps)
  then show ?case
    by (cases "de_covered de") (simp_all add: entry_verdict_def [of E r de p] entry_matches_def)
qed simp

interpretation rules: last_rule
  "entry_verdict E r de" "de_covered de \<or> unnamed_bypasses r" "entries_answer E r de"
  by unfold_locales (simp add: entries_answer_def match_entries_decide)

definition simple_switch :: "bypass_rules \<Rightarrow> destination \<Rightarrow> bool" where
  "simple_switch r de \<longleftrightarrow>
     exclude_simple_hostnames r \<and> CHR ''.'' \<notin> set (de_text de) \<and> (bypass_loopback r \<or> \<not> de_covered de)"

lemma rules_match_answer:
  "rules_match E r h port \<longleftrightarrow>
     (let de = destination_of E r h port
      in de_text de \<noteq> [] \<and> (simple_switch r de \<or> entries_answer E r de (patterns r)))"
  unfolding rules_match_def Let_def destination_of_def simple_switch_def entries_answer_def
    unnamed_bypasses_def destination.simps
  by (simp only: if_bool_eq_conj) blast

section \<open>Order and repeats\<close>

lemma verdicts_agree:
  "p \<noteq> SubtractImplicit \<Longrightarrow> entry_verdict E r de p \<in> {None, Some (\<not> reversed_exceptions r)}"
  by (simp add: entry_verdict_def)

lemma answer_without_subtract:
  assumes "SubtractImplicit \<notin> set ps"
  shows "entries_answer E r de ps =
     (if \<exists>p\<in>set ps. entry_matches E r de p then \<not> reversed_exceptions r
      else de_covered de \<or> unnamed_bypasses r)"
proof -
  have "\<forall>p\<in>set ps. entry_verdict E r de p \<in> {None, Some (\<not> reversed_exceptions r)}"
    using assms verdicts_agree by metis
  moreover have "entry_verdict E r de p = Some (\<not> reversed_exceptions r) \<longleftrightarrow> entry_matches E r de p"
    if "p \<in> set ps" for p
    using that assms by (auto simp: entry_verdict_def)
  ultimately show ?thesis using rules.answer_agreeing [of ps E r de "\<not> reversed_exceptions r"] by auto
qed

lemma destination_patterns [simp]:
  "destination_of E (r\<lparr>patterns := ps\<rparr>) h port = destination_of E r h port"
  "unnamed_bypasses (r\<lparr>patterns := ps\<rparr>) = unnamed_bypasses r"
  "entry_matches E (r\<lparr>patterns := ps\<rparr>) de p = entry_matches E r de p"
  "entry_verdict E (r\<lparr>patterns := ps\<rparr>) de = entry_verdict E r de"
  by (simp_all add: destination_of_def unnamed_bypasses_def entry_matches_def entry_verdict_def
      fun_eq_iff)

lemma entries_answer_patterns [simp]:
  "entries_answer E (r\<lparr>patterns := qs\<rparr>) de ps = entries_answer E r de ps"
  by (simp add: rules.answer_is)

lemma set_dedup_runs: "set (dedup_runs seen ps) \<union> set seen = set ps \<union> set seen"
  by (induction seen ps rule: dedup_runs.induct) auto

lemma dedup_runs_answer:
  assumes "SubtractImplicit \<notin> set seen" "set seen \<subseteq> set qs" "SubtractImplicit \<notin> set qs"
  shows "entries_answer E r de (os @ qs @ dedup_runs seen ps) = entries_answer E r de (os @ qs @ ps)"
  using assms
proof (induction seen ps arbitrary: os qs rule: dedup_runs.induct)
  case (2 seen p ps)
  have agree: "\<forall>q\<in>set qs. entry_verdict E r de q \<in> {None, Some (\<not> reversed_exceptions r)}"
    using "2.prems"(3) verdicts_agree by metis
  consider "p = SubtractImplicit" | "p \<noteq> SubtractImplicit" "p \<in> set seen"
    | "p \<noteq> SubtractImplicit" "p \<notin> set seen" by blast
  then show ?case
  proof cases
    case 1
    then show ?thesis using "2.IH"(1) [of "[]" "os @ qs @ [p]"] by simp
  next
    case 2
    with "2.prems" have "p \<in> set qs" by blast
    then have "entries_answer E r de (os @ qs @ p # ps) = entries_answer E r de (os @ qs @ ps)"
      using agree by (rule rules.answer_repeat)
    with 2 show ?thesis using "2.IH"(2) [of qs os] "2.prems" by simp
  next
    case 3
    have "set (p # seen) \<subseteq> set (qs @ [p])" using "2.prems" by auto
    with 3 show ?thesis using "2.IH"(3) [of "qs @ [p]" os] "2.prems" by simp
  qed
qed simp

lemma dedup_runs_subtract: "SubtractImplicit \<in> set (dedup_runs seen ps) \<longleftrightarrow> SubtractImplicit \<in> set ps"
  by (induction seen ps rule: dedup_runs.induct) auto

lemma dedup_match: "rules_match E (dedup_patterns r) h port = rules_match E r h port"
proof -
  have "entries_answer E r de (dedup_runs [] (patterns r)) = entries_answer E r de (patterns r)" for de
    using dedup_runs_answer [of "[]" "[]" E r de "[]"] by simp
  moreover have "bypass_loopback (dedup_patterns r) = bypass_loopback r"
    using dedup_runs_subtract [of "[]" "patterns r"]
    by (auto simp: bypass_loopback_def dedup_patterns_def list_ex_iff)
  ultimately show ?thesis
    by (simp add: rules_match_answer dedup_patterns_def simple_switch_def Let_def)
qed

section \<open>What a list becomes\<close>

lemma push_entries_spec:
  "foldl (\<lambda>r e. push_entry_in E (dialect_trim d e) d r) r es =
     r\<lparr>patterns := patterns r
           @ present (map (\<lambda>e. case parse_in E (dialect_trim d e) d of Inr p \<Rightarrow> p | Inl _ \<Rightarrow> None) es),
       br_rejected := br_rejected r
           @ map (\<lambda>e. rejected_new InvalidBypassEntry BypassList (dialect_trim d e))
               (filter (\<lambda>e. \<not> is_ok (parse_in E (dialect_trim d e) d)) es)\<rparr>"
proof (induction es arbitrary: r)
  case (Cons e es)
  then show ?case
    by (cases "parse_in E (dialect_trim d e) d")
      (auto simp: push_entry_in_def push_entry_from_def push_pattern_def push_rejected_def
        is_ok_def split: option.split)
qed simp

lemma set_dedup: "set (patterns (dedup_patterns r)) = set (patterns r)"
  using set_dedup_runs [of "[]" "patterns r"] by (simp add: dedup_patterns_def)

lemma dedup_rejected [simp]: "br_rejected (dedup_patterns r) = br_rejected r"
  by (simp add: dedup_patterns_def)

lemma dialect_rules_fields [simp]:
  "patterns (dialect_rules d) = []" "br_rejected (dialect_rules d) = []"
  "reversed_exceptions (dialect_rules d) = False"
  by (simp_all add: dialect_rules_def bypass_new_def)

text \<open>After an entry GLib reads as an empty name, only masks are added.\<close>

lemma glib_refusal_ended:
  assumes "glib_refusal E True entry = (refusal, ended)"
  shows "ended \<and> (refusal \<noteq> None \<or> glib_name entry = Inr [])"
  using assms by (auto simp: glib_refusal_def split: sum.splits if_splits)

lemma trim_end_idem [simp]: "trim_end_chars p (trim_end_chars p s) = trim_end_chars p s"
  by (simp add: trim_end_chars_def)

definition nameless :: "string \<Rightarrow> bool" where
  "nameless h \<longleftrightarrow> h = [] \<or> h = ''.'' \<or> h = ''*.''"

lemma glib_name_parts:
  assumes "glib_name entry = Inr n"
  shows "\<exists>name t. all_digits t
     \<and> (entry = name \<or> entry = name @ '':'' @ t \<or> entry = ''['' @ name @ '']:'' @ t)
     \<and> n = (if parse_ip name \<noteq> None then name
            else unwrap_or name (or_else (strip_prefix ''*.'' name) (strip_prefix ''.'' name)))"
proof (cases "strip_prefix ''['' entry")
  case (Some inner)
  show ?thesis
  proof (cases "split_once_char (\<lambda>c. c = CHR '']'') inner")
    case None
    with Some assms show ?thesis by (simp add: glib_name_def del: strip_prefix_iff split_once_char_None)
  next
    case (Some ar)
    obtain address rest where ar: "ar = (address, rest)" by fastforce
    show ?thesis
    proof (cases "strip_prefix '':'' rest")
      case None
      with Some \<open>strip_prefix ''['' entry = Some inner\<close> assms show ?thesis
        by (simp add: glib_name_def ar del: strip_prefix_iff)
    next
      case (Some t)
      then have rest: "rest = '':'' @ t" by simp
      have "inner = address @ CHR '']'' # rest"
        using \<open>split_once_char _ inner = Some ar\<close> unfolding ar by (auto simp: split_once_char_Some)
      then have "entry = ''['' @ address @ '']:'' @ t"
        using \<open>strip_prefix ''['' entry = Some inner\<close> rest by simp
      moreover have "all_digits t \<and> n = (if parse_ip address \<noteq> None then address
            else unwrap_or address (or_else (strip_prefix ''*.'' address) (strip_prefix ''.'' address)))"
        using assms \<open>strip_prefix ''['' entry = Some inner\<close> \<open>split_once_char _ inner = Some ar\<close> Some
        by (simp add: glib_name_def ar del: strip_prefix_iff split: if_splits)
      ultimately show ?thesis by blast
    qed
  qed
next
  case None
  note no_bracket = None
  show ?thesis
  proof (cases "split_once_char (\<lambda>c. c = CHR '':'') entry")
    case None
    have "n = (if parse_ip entry \<noteq> None then entry
            else unwrap_or entry (or_else (strip_prefix ''*.'' entry) (strip_prefix ''.'' entry)))"
      using assms no_bracket None
      by (simp add: glib_name_def del: strip_prefix_iff split_once_char_None split: if_splits)
    moreover have "all_digits []" by (simp add: all_digits_def)
    ultimately show ?thesis by blast
  next
    case (Some np)
    obtain name t where np: "np = (name, t)" by fastforce
    have entry: "entry = name @ '':'' @ t" using Some unfolding np by (auto simp: split_once_char_Some)
    show ?thesis
    proof (cases "CHR '':'' \<in> set t")
      case True
      have "n = (if parse_ip entry \<noteq> None then entry
            else unwrap_or entry (or_else (strip_prefix ''*.'' entry) (strip_prefix ''.'' entry)))"
        using assms no_bracket Some True
        by (simp add: glib_name_def np del: strip_prefix_iff split: if_splits)
      moreover have "all_digits []" by (simp add: all_digits_def)
      ultimately show ?thesis by blast
    next
      case False
      then have "all_digits t \<and> n = (if parse_ip name \<noteq> None then name
            else unwrap_or name (or_else (strip_prefix ''*.'' name) (strip_prefix ''.'' name)))"
        using assms no_bracket Some
        by (simp add: glib_name_def np del: strip_prefix_iff split: if_splits)
      with entry show ?thesis by blast
    qed
  qed
qed

lemma glib_empty_name_forms:
  assumes "glib_name entry = Inr []"
  shows "\<exists>h t. nameless h \<and> all_digits t
     \<and> (entry = h \<or> entry = h @ '':'' @ t \<or> entry = ''['' @ h @ '']:'' @ t)"
proof -
  have "nameless name"
    if "[] = (if parse_ip name \<noteq> None then name
         else unwrap_or name (or_else (strip_prefix ''*.'' name) (strip_prefix ''.'' name)))" for name
    using that
    by (cases "strip_prefix ''*.'' name"; cases "strip_prefix ''.'' name")
      (auto simp: nameless_def split: if_splits)
  with glib_name_parts [OF assms] show ?thesis by blast
qed

lemma parse_name_nameless: "nameless h \<Longrightarrow> parse_name E d h port = Inr None"
  by (auto simp: nameless_def parse_name_def parse_star_dot_def root_stripped_def
      strip_suffix_def Let_def)

lemma gnome_host_entry_nameless:
  assumes "split_host_port s = Inr (b, port)" "nameless (strip_brackets b)"
  shows "parse_host_entry E Gnome s \<noteq> Inr (Some p)"
proof -
  have "is_ascii (strip_brackets b)" using assms(2) by (auto simp: nameless_def is_ascii_def ascii_char_def)
  then have "h = strip_brackets b" if "parse_host_part E Gnome s = Inr (h, q)" for h q
    using that assms(1) by (auto simp: parse_host_part_def Let_def split: if_splits option.splits)
  then show ?thesis
    using assms(2) parse_name_nameless
    by (auto simp: parse_host_entry_def split: sum.splits option.splits)
qed

lemma digits_not: "all_digits t \<Longrightarrow> c \<in> set t \<Longrightarrow> is_digit c"
  by (simp add: all_digits_def list_all_iff)

lemma lowercase_digits: "all_digits t \<Longrightarrow> to_ascii_lowercase t = t"
  by (induction t) (auto simp: all_digits_def is_digit_def is_upper_def intro!: lower_char_not_upper)

lemma gnome_nameless_no_rule:
  assumes "glib_name entry = Inr []" "dialect_trim Gnome entry = entry"
    and "parse_in E entry Gnome = Inr (Some p)"
  shows "\<exists>n. p = Cidr n"
proof -
  obtain h t where f: "nameless h" "all_digits t"
      "entry = h \<or> entry = h @ '':'' @ t \<or> entry = ''['' @ h @ '']:'' @ t"
    using glib_empty_name_forms [OF assms(1)] by blast
  have h: "to_ascii_lowercase h = h" "CHR '':'' \<notin> set h" "CHR '']'' \<notin> set h"
      "\<not> starts_with ''['' h" "\<not> starts_with ''['' (h @ '':'')" "CHR ''<'' \<notin> set h"
      "strip_brackets h = h" "strip_brackets (''['' @ h @ '']'') = h"
    using f(1) by (auto simp: nameless_def starts_with_iff to_ascii_lowercase_def lower_char_def
        is_upper_def strip_brackets_def strip_suffix_def)
  have low: "to_ascii_lowercase entry = entry"
    using f(3) h(1) lowercase_digits [OF f(2)] by (auto simp: lower_char_def is_upper_def)
  have colon: "CHR '':'' \<notin> set t" using digits_not [OF f(2)] by (auto simp: is_digit_def)
  have "CHR ''<'' \<notin> set entry"
    using f(3) h(6) digits_not [OF f(2), of "CHR ''<''"] by (auto simp: is_digit_def)
  then have tok: "parse_token Gnome entry = None"
    by (auto simp: parse_token_def LOCAL_TOKEN_def NO_LOOPBACK_TOKEN_def)
  have "parse_host_entry E Gnome entry \<noteq> Inr (Some p)"
  proof (cases "split_host_port entry")
    case (Inl e)
    then show ?thesis by (simp add: parse_host_entry_def parse_host_part_def)
  next
    case (Inr bp)
    have "strip_brackets (fst bp) = h"
      using Inr f(3) h split_host_port_no_colon [OF h(2,4)]
        split_host_port_append [OF h(2,5) colon] split_host_port_bracketed [OF h(3), of t]
      by (auto split: sum.splits)
    with Inr f(1) show ?thesis
      using gnome_host_entry_nameless [of entry "fst bp" "snd bp" E p] by simp
  qed
  with assms(2,3) show ?thesis
    by (auto simp: parse_in_def Let_def low tok parse_cidr_def map_err_def
        split: if_splits option.splits sum.splits prod.splits host.splits)
qed

lemma gnome_ended_adds_masks:
  "set (patterns (push_gnome_entries E True es r)) \<subseteq> set (patterns r) \<union> range Cidr"
proof (induction es arbitrary: r)
  case (Cons e es)
  define entry where "entry = dialect_trim Gnome e"
  have trimmed: "dialect_trim Gnome entry = entry" by (simp add: entry_def dialect_trim_def)
  show ?case
  proof (cases "glib_mask E entry")
    case (Some net)
    then show ?thesis using Cons.IH [of "push_pattern (Cidr net) r"]
      by (auto simp: entry_def push_pattern_def)
  next
    case None
    obtain refusal ended where ref: "glib_refusal E True entry = (refusal, ended)" by fastforce
    note f = glib_refusal_ended [OF ref]
    define r' where "r' = (case refusal of Some _ \<Rightarrow> push_rejected BypassList entry r
      | None \<Rightarrow> if ended \<and> entry = [] then r else push_entry_in E entry Gnome r)"
    have "set (patterns r') \<subseteq> set (patterns r) \<union> range Cidr"
    proof (cases refusal)
      case None
      with f have "glib_name entry = Inr []" by simp
      then have "\<exists>n. p = Cidr n" if "parse_in E entry Gnome = Inr (Some p)" for p
        using gnome_nameless_no_rule [OF _ trimmed that] by blast
      with None show ?thesis
        by (auto simp: r'_def push_entry_in_def push_entry_from_def push_pattern_def
            push_rejected_def split: sum.split option.split)
    qed (simp add: r'_def push_rejected_def)
    moreover have "push_gnome_entries E True (e # es) r = push_gnome_entries E True es r'"
      using None ref f by (simp add: entry_def [symmetric] r'_def Let_def split: option.split)
    ultimately show ?thesis using Cons.IH [of r'] by auto
  qed
qed simp

section \<open>What a dialect reads\<close>

text \<open>\<open>ipnet\<close> reads a network only from an address and a prefix length with a slash between.\<close>

definition net_parse_laws :: "external \<Rightarrow> bool" where
  "net_parse_laws E \<longleftrightarrow> (\<forall>s n. net_parse E s = Some n \<longrightarrow> CHR ''/'' \<in> set s)"

lemma plain_net_parse_laws: "net_parse_laws plain_external"
  by (auto simp: net_parse_laws_def plain_net_def split_once_char_Some split: option.splits)

text \<open>What each reader's lists can say, the two tokens aside.\<close>

definition dialect_allows :: "bypass_dialect \<Rightarrow> host_pattern \<Rightarrow> bool" where
  "dialect_allows d p \<longleftrightarrow>
     (case p of
        AllHosts \<Rightarrow> d \<noteq> MacOs \<and> d \<noteq> Gnome
      | Cidr n \<Rightarrow> d \<noteq> Windows
      | Exact h port \<Rightarrow> d = MacOs \<longrightarrow> port = None
      | DomainSuffix sfx match_self port \<Rightarrow>
          (d = MacOs \<longrightarrow> port = None) \<and> (d = Gnome \<longrightarrow> match_self)
          \<and> (match_self \<longrightarrow> d \<noteq> Windows \<and> d \<noteq> MacOs) \<and> (\<exists>name. name \<noteq> [] \<and> sfx = CHR ''.'' # name)
      | Wildcard pattern port \<Rightarrow>
          d \<noteq> Gnome
          \<and> (d = MacOs \<longrightarrow> port = None \<and> (\<exists>head. CHR ''*'' \<notin> set head \<and> pattern = head @ ''.*''))
      | Local \<Rightarrow> False
      | SubtractImplicit \<Rightarrow> False)"

text \<open>The two tokens are read in every dialect, also for readers whose lists do not have them.\<close>

definition reads_as :: "bypass_dialect \<Rightarrow> string \<Rightarrow> host_pattern \<Rightarrow> bool" where
  "reads_as d entry p \<longleftrightarrow>
     (if to_ascii_lowercase (dialect_trim d entry) = ''<local>'' then p = Local
      else if to_ascii_lowercase (dialect_trim d entry) = ''<-loopback>'' then p = SubtractImplicit
      else dialect_allows d p)"

lemma parse_host_part_mac: "parse_host_part E MacOs s = Inr (h, port) \<Longrightarrow> port = None"
  by (auto simp: parse_host_part_def Let_def split: sum.splits if_splits option.splits prod.splits)

lemma parse_name_allows:
  assumes "parse_name E d h port = Inr (Some p)" "d = MacOs \<longrightarrow> port = None"
  shows "dialect_allows d p"
proof (cases "strip_prefix ''*.'' h")
  case (Some rest)
  then show ?thesis using assms
    by (auto simp: parse_name_def parse_star_dot_def dialect_allows_def Let_def
        simp del: strip_prefix_iff split: if_splits)
next
  case None
  define t where "t = root_stripped h"
  consider (ip) ip where "parse_ip t = Some ip" | (star) "parse_ip t = None" "CHR ''*'' \<in> set t"
    | (name) "parse_ip t = None" "CHR ''*'' \<notin> set t" by fastforce
  then show ?thesis
  proof cases
    case ip
    then show ?thesis using assms None t_def
      by (auto simp: parse_name_def dialect_allows_def Let_def simp del: strip_prefix_iff split: if_splits)
  next
    case star
    then have "parse_glob d t port = Inr (Some p)" using assms None t_def
      by (auto simp: parse_name_def Let_def simp del: strip_prefix_iff split: if_splits)
    then show ?thesis using assms(2)
      by (auto simp: parse_glob_def dialect_allows_def split: if_splits option.splits)
  next
    case name
    show ?thesis
    proof (cases "strip_prefix ''.'' t")
      case (Some rest)
      then have "t = CHR ''.'' # rest" by simp
      with Some show ?thesis using assms None t_def name
        by (auto simp: parse_name_def dialect_allows_def Let_def simp del: strip_prefix_iff
            split: if_splits)
    next
      case None
      then have "parse_plain E d t port = Inr (Some p)" "t \<noteq> []"
        using assms \<open>strip_prefix ''*.'' h = None\<close> t_def name
        by (auto simp: parse_name_def Let_def simp del: strip_prefix_iff split: if_splits)
      then show ?thesis using assms(2)
        by (cases d) (auto simp: parse_plain_def dialect_allows_def Let_def
            split: if_splits sum.splits host.splits)
    qed
  qed
qed

lemma parse_cidr_allows:
  assumes "parse_cidr E d s = Some (Inr p)" "net_parse_laws E" "d = Windows \<longrightarrow> CHR ''/'' \<notin> set s"
  shows "dialect_allows d p"
proof -
  have "CHR ''/'' \<in> set s"
    using assms(1,2)
    by (auto simp: parse_cidr_def net_parse_laws_def Let_def split_once_char_Some
        split: if_splits option.splits sum.splits host.splits prod.splits)
  with assms(3) have "d \<noteq> Windows" by auto
  moreover have "\<exists>n. p = Cidr n"
    using assms(1)
    by (auto simp: parse_cidr_def Let_def split: if_splits option.splits sum.splits host.splits prod.splits)
  ultimately show ?thesis by (auto simp: dialect_allows_def)
qed

lemma parse_in_allows:
  assumes "parse_in E entry d = Inr (Some p)" "net_parse_laws E"
  shows "reads_as d entry p"
proof -
  define e where "e = dialect_trim d entry"
  define l where "l = to_ascii_lowercase e"
  have "e \<noteq> []" using assms(1) by (auto simp: parse_in_def e_def)
  show ?thesis
  proof (cases "parse_token d l")
    case (Some q)
    then have "reads_as d entry q"
      by (auto simp: parse_token_def reads_as_def dialect_allows_def LOCAL_TOKEN_def NO_LOOPBACK_TOKEN_def
          e_def l_def split: if_splits)
    with Some assms(1) show ?thesis by (auto simp: parse_in_def e_def l_def Let_def split: if_splits)
  next
    case None
    have ref: "refuse_entry d e l = None"
      using assms(1) None by (auto simp: parse_in_def e_def l_def Let_def split: if_splits option.splits)
    then have slash: "d = Windows \<longrightarrow> CHR ''/'' \<notin> set l"
      by (auto simp: refuse_entry_def split: if_splits)
    have res: "(case parse_cidr E d l of Some (Inl r) \<Rightarrow> Inl r | Some (Inr p) \<Rightarrow> Inr (Some p)
        | None \<Rightarrow> parse_host_entry E d l) = Inr (Some p)"
      using assms(1) None ref \<open>e \<noteq> []\<close> unfolding parse_in_def Let_def e_def [symmetric] l_def [symmetric]
      by (auto simp: map_err_def split: sum.splits)
    have "dialect_allows d p"
    proof (cases "parse_cidr E d l")
      case None
      with res obtain h port where "parse_host_part E d l = Inr (h, port)"
          "parse_name E d h port = Inr (Some p)"
        by (auto simp: parse_host_entry_def split: sum.splits option.splits)
      then show ?thesis using parse_name_allows parse_host_part_mac by blast
    next
      case (Some r)
      with res have "parse_cidr E d l = Some (Inr p)" by (auto split: sum.splits)
      then show ?thesis using assms(2) slash by (rule parse_cidr_allows)
    qed
    moreover have "l \<noteq> ''<local>''" "l \<noteq> ''<-loopback>''"
      using None by (auto simp: parse_token_def LOCAL_TOKEN_def NO_LOOPBACK_TOKEN_def split: if_splits)
    ultimately show ?thesis by (simp add: reads_as_def e_def l_def)
  qed
qed

section \<open>Mapped addresses\<close>

unbundle bit_operations_syntax

lemma bit_mapped:
  assumes "ipv4_mapped a = Some v4"
  shows "n < 32 \<Longrightarrow> bit v4 n = bit a n" and "32 \<le> n \<Longrightarrow> bit a n = bit (0xFFFF :: ipv6_bits) (n - 32)"
proof -
  have v4: "v4 = ucast a" and top: "drop_bit 32 a = 0xFFFF"
    using assms by (auto simp: ipv4_mapped_def split: if_splits)
  show "n < 32 \<Longrightarrow> bit v4 n = bit a n" by (simp add: v4 bit_unsigned_iff)
  assume "32 \<le> n"
  then have "bit a n = bit (drop_bit 32 a) (n - 32)" by (simp add: bit_drop_bit_eq)
  then show "bit a n = bit (0xFFFF :: ipv6_bits) (n - 32)" by (simp only: top)
qed

lemma drop_bit_eq_bits:
  fixes a b :: "'w::len word"
  shows "drop_bit k a = drop_bit k b \<longleftrightarrow> (\<forall>n\<ge>k. n < LENGTH('w) \<longrightarrow> bit a n = bit b n)"
proof
  assume h: "drop_bit k a = drop_bit k b"
  show "\<forall>n\<ge>k. n < LENGTH('w) \<longrightarrow> bit a n = bit b n"
  proof (intro allI impI)
    fix n assume "k \<le> n"
    from h have "bit (drop_bit k a) (n - k) = bit (drop_bit k b) (n - k)" by simp
    with \<open>k \<le> n\<close> show "bit a n = bit b n" by (simp add: bit_drop_bit_eq)
  qed
next
  assume h: "\<forall>n\<ge>k. n < LENGTH('w) \<longrightarrow> bit a n = bit b n"
  show "drop_bit k a = drop_bit k b"
  proof (rule bit_word_eqI)
    fix n
    show "bit (drop_bit k a) n = bit (drop_bit k b) n"
    proof (cases "k + n < LENGTH('w)")
      case True
      with h show ?thesis by (simp add: bit_drop_bit_eq)
    next
      case False
      then have "\<not> bit a (k + n)" "\<not> bit b (k + n)" using bit_imp_le_length by blast+
      then show ?thesis by (simp add: bit_drop_bit_eq)
    qed
  qed
qed

lemma mapped_net_covers:
  assumes "ipv4_mapped n = Some w" "ipv4_mapped a = Some v4" "96 \<le> p" "p \<le> 128"
  shows "net_covers (NetV4 w (p - 96)) (IpV4 v4) \<longleftrightarrow> net_covers (NetV6 n p) (IpV6 a)"
proof -
  have low: "bit w i = bit n i" "bit v4 i = bit a i" if "i < 32" for i
    using bit_mapped(1) [OF assms(1) that] bit_mapped(1) [OF assms(2) that] .
  have high: "bit n i = bit a i" if "32 \<le> i" for i
    using bit_mapped(2) [OF assms(1) that] bit_mapped(2) [OF assms(2) that] by simp
  define k where "k = 128 - p"
  have "32 - (p - 96) = k" using assms(3,4) by (simp add: k_def)
  have "(\<forall>i\<ge>k. i < 32 \<longrightarrow> bit w i = bit v4 i) \<longleftrightarrow> (\<forall>i\<ge>k. i < 128 \<longrightarrow> bit n i = bit a i)"
  proof (rule iffI; intro allI impI)
    fix i
    assume h: "\<forall>i\<ge>k. i < 32 \<longrightarrow> bit w i = bit v4 i" "k \<le> i" "i < 128"
    show "bit n i = bit a i"
    proof (cases "i < 32")
      case True
      with h low [OF True] show ?thesis by simp
    qed (simp add: high)
  next
    fix i
    assume h: "\<forall>i\<ge>k. i < 128 \<longrightarrow> bit n i = bit a i" "k \<le> i" "i < 32"
    then have "bit n i = bit a i" by simp
    with low [OF h(3)] show "bit w i = bit v4 i" by simp
  qed
  then show ?thesis
    using \<open>32 - (p - 96) = k\<close> by (simp add: drop_bit_eq_bits k_def [symmetric])
qed

section \<open>Suffixes\<close>

lemma continuation_not_ascii: "continuation_byte c \<Longrightarrow> \<not> ascii_char c"
  by (simp add: continuation_byte_def ascii_char_def)

lemma ascii_lower_char: "ascii_char (lower_char c) \<longleftrightarrow> ascii_char c"
  by (simp add: lower_char_def ascii_char_def)

lemma strip_suffix_ascii_case_iff:
  assumes "is_ascii bare" "bare \<noteq> []"
  shows "strip_suffix_ascii_case s bare = Some pre \<longleftrightarrow>
     (\<exists>tail. s = pre @ tail \<and> eq_ignore_ascii_case tail bare)"
proof
  assume "strip_suffix_ascii_case s bare = Some pre"
  then show "\<exists>tail. s = pre @ tail \<and> eq_ignore_ascii_case tail bare"
    by (auto simp: strip_suffix_ascii_case_def Let_def split: if_splits
        intro!: exI [of _ "drop (length s - length bare) s"])
next
  assume "\<exists>tail. s = pre @ tail \<and> eq_ignore_ascii_case tail bare"
  then obtain tail where t: "s = pre @ tail" "to_ascii_lowercase tail = to_ascii_lowercase bare"
    by (auto simp: eq_ignore_ascii_case_def)
  then have len: "length tail = length bare" by (metis length_to_ascii_lowercase)
  with assms(2) obtain c cs b bs where c: "tail = c # cs" "bare = b # bs"
    by (cases tail; cases bare) auto
  then have "lower_char c = lower_char b" using t(2) by simp
  moreover have "ascii_char b" using assms(1) c(2) by (simp add: is_ascii_def)
  ultimately have "ascii_char c" using ascii_lower_char by metis
  then have "\<not> continuation_byte c" using continuation_not_ascii by blast
  moreover have "get_opt s (length pre) = Some c" by (simp add: t(1) c(1) get_opt_eq)
  ultimately show "strip_suffix_ascii_case s bare = Some pre"
    using t len by (simp add: strip_suffix_ascii_case_def eq_ignore_ascii_case_def)
qed

lemma domain_suffix_spec:
  assumes "is_ascii bare" "bare \<noteq> []"
  shows "pattern_matches E (DomainSuffix (CHR ''.'' # bare) match_self rule_port) host_text ip port reduce
     \<longleftrightarrow> (\<exists>pre tail. host_text = pre @ tail \<and> eq_ignore_ascii_case tail bare
            \<and> (ends_with ''.'' pre \<or> (match_self \<and> pre = [])))
         \<and> port_matches rule_port port"
proof -
  have "pattern_matches E (DomainSuffix (CHR ''.'' # bare) match_self rule_port) host_text ip port reduce
      \<longleftrightarrow> (\<exists>pre. strip_suffix_ascii_case host_text bare = Some pre
             \<and> (ends_with ''.'' pre \<or> (match_self \<and> pre = [])))
          \<and> port_matches rule_port port"
    using assms(2) by (auto split: option.split)
  then show ?thesis unfolding strip_suffix_ascii_case_iff [OF assms] by blast
qed

end
