(* ===== verification/Bypass_Correct.thy ===== *)
theory Bypass_Correct
  imports Bypass_Facts
begin

text \<open>
  What the bypass lists promise, over the lemmas of \<open>Bypass_Facts\<close>; each property with a
  hypothesis is followed by its use at a concrete input.
\<close>

section \<open>Lists\<close>

text \<open>Collapsing repeats changes no answer: for every rule set, \<open><-loopback>\<close> tokens and
  inverted lists included, and every destination, the deduplicated list bypasses exactly
  what the list did.\<close>

theorem dedup_changes_no_answer:
  "rules_match E (dedup_patterns r) h port \<longleftrightarrow> rules_match E r h port"
  by (rule dedup_match)

text \<open>Without a \<open><-loopback>\<close> token the order and the number of the entries is
  irrelevant: two lists with the same entries bypass the same destinations.\<close>

theorem entry_order_is_irrelevant:
  assumes "SubtractImplicit \<notin> set (patterns r)" "set ps = set (patterns r)"
  shows "rules_match E (r\<lparr>patterns := ps\<rparr>) h port \<longleftrightarrow> rules_match E r h port"
proof -
  have "entries_answer E r de ps = entries_answer E r de (patterns r)" for de
    using assms by (simp add: answer_without_subtract)
  moreover have "bypass_loopback (r\<lparr>patterns := ps\<rparr>)" "bypass_loopback r"
    using assms by (auto simp: bypass_loopback_def list_ex_iff)
  ultimately show ?thesis by (simp add: rules_match_answer simple_switch_def Let_def)
qed

theorem entry_order_is_irrelevant_witness:
  "rules_match plain_external ((no_proxy plain_external ''a.b,10.0.0.0/8'')
       \<lparr>patterns := [Cidr (NetV4 0x0A000000 8), DomainSuffix ''.a.b'' True None, Cidr (NetV4 0x0A000000 8)]\<rparr>)
       (Ipv4 0x0A010203) None
   \<longleftrightarrow> rules_match plain_external (no_proxy plain_external ''a.b,10.0.0.0/8'') (Ipv4 0x0A010203) None"
proof -
  have p: "patterns (no_proxy plain_external ''a.b,10.0.0.0/8'') =
      [DomainSuffix ''.a.b'' True None, Cidr (NetV4 0x0A000000 8)]" by code_simp
  show ?thesis by (rule entry_order_is_irrelevant) (auto simp: p)
qed

text \<open>An inclusion list with an entry that could not be read sends nothing direct for
  being absent from it: what such a list still bypasses is covered by the implicit set.\<close>

theorem incomplete_inclusion_list_proxies:
  assumes "reversed_exceptions r" "br_rejected r \<noteq> []" "\<not> exclude_simple_hostnames r"
    and "rules_match E r h port"
  shows "implicit_covers (implicit r) (host_key E h) (host_ip h)"
proof -
  define de where "de = destination_of E r h port"
  have un: "\<not> unnamed_bypasses r" using assms(2) by (simp add: unnamed_bypasses_def)
  have "entries_answer E r de (patterns r)"
    using assms(3,4) by (simp add: rules_match_answer simple_switch_def Let_def de_def)
  moreover have "entry_verdict E r de p \<noteq> Some True" for p
    using assms(1) un by (simp add: entry_verdict_def)
  ultimately have "de_covered de"
    using rules.answer_otherwise_or_verdict [of E r de "patterns r"] un by auto
  then show ?thesis by (simp add: de_def destination_of_def)
qed

theorem incomplete_inclusion_list_proxies_witness:
  "implicit_covers Broad (host_key plain_external (Domain ''localhost''))
     (host_ip (Domain ''localhost''))"
proof -
  define r where "r = (no_proxy plain_external ''a b'')\<lparr>reversed_exceptions := True\<rparr>"
  have r: "reversed_exceptions r" "br_rejected r \<noteq> []" "\<not> exclude_simple_hostnames r"
      "implicit r = Broad" "rules_match plain_external r (Domain ''localhost'') None"
    unfolding r_def by code_simp+
  from incomplete_inclusion_list_proxies [OF r(1-3,5)] show ?thesis unfolding r(4) .
qed

text \<open>No entry of a list goes missing: outside GNOME, the rules are the patterns of the
  entries that were read, and the records are those of the entries that were not, in
  order.\<close>

theorem every_entry_is_accounted_for:
  assumes "d \<noteq> Gnome"
  shows "set (patterns (bypass_entries_in E es d)) =
       {p. \<exists>e\<in>set es. parse_in E (dialect_trim d e) d = Inr (Some p)}
     \<and> br_rejected (bypass_entries_in E es d) =
       map (\<lambda>e. rejected_new InvalidBypassEntry BypassList (dialect_trim d e))
         (filter (\<lambda>e. \<not> is_ok (parse_in E (dialect_trim d e) d)) es)"
proof -
  have "Some p \<in> (\<lambda>e. case parse_in E (dialect_trim d e) d of Inr p \<Rightarrow> p | Inl _ \<Rightarrow> None) ` set es
      \<longleftrightarrow> (\<exists>e\<in>set es. parse_in E (dialect_trim d e) d = Inr (Some p))" for p
    by (force split: sum.splits)
  then show ?thesis
    using assms by (auto simp: bypass_entries_in_def push_entries_spec set_dedup set_present)
qed

theorem every_entry_is_accounted_for_witness:
  "br_rejected (bypass_entries_in plain_external [''a.b'', ''x y'', ''c:d''] Suffix) =
     map (\<lambda>e. rejected_new InvalidBypassEntry BypassList (dialect_trim Suffix e))
       (filter (\<lambda>e. \<not> is_ok (parse_in plain_external (dialect_trim Suffix e) Suffix))
          [''a.b'', ''x y'', ''c:d''])"
  using every_entry_is_accounted_for [of Suffix plain_external "[''a.b'', ''x y'', ''c:d'']"] by simp

text \<open>GLib stops reading names at the first one of length zero: after it, a GNOME list
  adds masks and nothing else.\<close>

theorem gnome_names_end:
  "set (patterns (push_gnome_entries E True es r)) \<subseteq> set (patterns r) \<union> range Cidr"
  by (rule gnome_ended_adds_masks)

section \<open>Entries\<close>

text \<open>C10. An entry becomes only what its reader's lists can say: no match-all and no port in
  a macOS list, no wildcard in a GNOME list and every suffix there with the domain itself,
  no network in a Windows list and no name that covers its subdomains. The two tokens of Windows are
  read under every dialect, of their exact spelling and nothing else: \<open><local>\<close> as the names without
  a dot, \<open><-loopback>\<close> as the end of the implicit set, although on macOS, for one, they
  bypass nothing.\<close>

theorem dialects_keep_to_their_readers:
  assumes "net_parse_laws E" "parse_in E entry d = Inr (Some p)"
  shows "(if to_ascii_lowercase (dialect_trim d entry) = ''<local>'' then p = Local
      else if to_ascii_lowercase (dialect_trim d entry) = ''<-loopback>'' then p = SubtractImplicit
      else dialect_allows d p \<and> p \<noteq> Local \<and> p \<noteq> SubtractImplicit)"
  using parse_in_allows [OF assms(2,1)]
  by (auto simp: reads_as_def dialect_allows_def split: if_splits)

theorem dialects_keep_to_their_readers_witness:
  "dialect_allows MacOs (Wildcard ''10.*'' None) \<and> to_ascii_lowercase (dialect_trim MacOs ''10.*'') \<noteq> ''<local>''"
proof -
  have "parse_in plain_external ''10.*'' MacOs = Inr (Some (Wildcard ''10.*'' None))"
    "to_ascii_lowercase (dialect_trim MacOs ''10.*'') \<noteq> ''<local>''"
    "to_ascii_lowercase (dialect_trim MacOs ''10.*'') \<noteq> ''<-loopback>''" by code_simp+
  with dialects_keep_to_their_readers [OF plain_net_parse_laws this(1)] show ?thesis by simp
qed

text \<open>A network written in IPv4-mapped form is reduced without changing what it covers:
  the reduced rule meets the IPv4 address exactly when the rule as written meets the mapped
  one.\<close>

theorem mapped_network_keeps_its_members:
  assumes "net_laws E" "ipv4_mapped n = Some w" "ipv4_mapped a = Some v4" "96 \<le> p" "p \<le> 128"
  shows "net_contains E (reduce_mapped_net E (NetV6 n p)) (reduce_mapped (IpV6 a)) \<longleftrightarrow>
     net_contains E (NetV6 n p) (IpV6 a)"
proof -
  have "reduce_mapped_net E (NetV6 n p) = NetV4 w (p - 96)"
    using assms by (simp add: net_laws_def)
  moreover have "reduce_mapped (IpV6 a) = IpV4 v4" using assms by simp
  ultimately show ?thesis
    using assms(1) mapped_net_covers [OF assms(2-5)] by (simp add: net_laws_def)
qed

theorem mapped_network_keeps_its_members_witness:
  "net_contains plain_external (reduce_mapped_net plain_external (NetV6 0xFFFF0A000000 104))
     (reduce_mapped (IpV6 0xFFFF0A010203)) \<longleftrightarrow>
   net_contains plain_external (NetV6 0xFFFF0A000000 104) (IpV6 0xFFFF0A010203)"
proof (rule mapped_network_keeps_its_members [OF plain_net_laws])
  show "ipv4_mapped 0xFFFF0A000000 = Some 0x0A000000" "ipv4_mapped 0xFFFF0A010203 = Some 0x0A010203"
    by code_simp+
qed simp_all

text \<open>A suffix rule meets whole labels only: the destination is the name itself, when the
  rule covers it, or ends in a dot and the name, in any letter case; a name that merely ends
  in the same letters is not met.\<close>

theorem suffix_meets_whole_labels:
  assumes "is_ascii name" "name \<noteq> []"
  shows "pattern_matches E (DomainSuffix (CHR ''.'' # name) match_self rule_port) host_text ip port reduce
     \<longleftrightarrow> (\<exists>pre tail. host_text = pre @ tail \<and> eq_ignore_ascii_case tail name
            \<and> (ends_with ''.'' pre \<or> (match_self \<and> pre = [])))
         \<and> port_matches rule_port port"
  by (rule domain_suffix_spec [OF assms])

theorem suffix_meets_whole_labels_witness:
  "\<not> (\<exists>pre tail. ''evilexample.com'' = pre @ tail \<and> eq_ignore_ascii_case tail ''example.com''
        \<and> (ends_with ''.'' pre \<or> (True \<and> pre = [])))"
proof -
  have "\<not> pattern_matches plain_external (DomainSuffix ''.example.com'' True None)
      ''evilexample.com'' None None True" by code_simp
  moreover have "is_ascii ''example.com''" by code_simp
  ultimately show ?thesis
    using suffix_meets_whole_labels
      [of "''example.com''" plain_external True None "''evilexample.com''" None None True]
    by (simp add: port_matches_def)
qed

text \<open>The last word on a covered destination is the entry's: an entry added at the end
  that meets it decides, whatever the list said before, and so does a \<open><-loopback>\<close> for a
  destination of the implicit set.\<close>

theorem last_entry_decides:
  assumes "host_key E h \<noteq> []" "\<not> exclude_simple_hostnames r"
  shows "rules_match E (push_pattern p r) h port =
     (if p = SubtractImplicit \<and> implicit_covers (implicit r) (host_key E h) (host_ip h)
      then reversed_exceptions r \<and> br_rejected r = []
      else if p \<noteq> SubtractImplicit \<and> entry_matches E r (destination_of E r h port) p
      then \<not> reversed_exceptions r
      else rules_match E r h port)"
proof -
  define de where "de = destination_of E r h port"
  have de: "de_text de = host_key E h"
      "de_covered de = implicit_covers (implicit r) (host_key E h) (host_ip h)"
    by (simp_all add: de_def destination_of_def)
  have "rules_match E (push_pattern p r) h port = entries_answer E r de (patterns r @ [p])"
    "rules_match E r h port = entries_answer E r de (patterns r)"
    using assms de by (simp_all add: rules_match_answer push_pattern_def simple_switch_def Let_def
        de_def [symmetric])
  moreover have "entries_answer E r de (patterns r @ [p]) =
      (case entry_verdict E r de p of Some b \<Rightarrow> b | None \<Rightarrow> entries_answer E r de (patterns r))"
    using rules.answer_last [of E r de p] rules.answer_skip [of E r de p]
    by (auto split: option.split)
  ultimately show ?thesis
    by (simp add: entry_verdict_def [of E r de p] de unnamed_bypasses_def flip: de_def)
qed

theorem last_entry_decides_witness:
  "rules_match plain_external (push_pattern SubtractImplicit bypass_new) (Domain ''localhost'') None
     = False"
proof -
  have "host_key plain_external (Domain ''localhost'') \<noteq> []" "\<not> exclude_simple_hostnames bypass_new"
      "implicit_covers (implicit bypass_new) (host_key plain_external (Domain ''localhost''))
         (host_ip (Domain ''localhost''))" "\<not> reversed_exceptions bypass_new"
    by code_simp+
  with last_entry_decides [of plain_external "Domain ''localhost''" bypass_new SubtractImplicit None]
  show ?thesis by simp
qed

end
