(* ===== verification/Endpoint_Facts.thy ===== *)
theory Endpoint_Facts
  imports Endpoint Util_Facts Net_Addr_Facts
begin

text \<open>
  \<open>src/endpoint.rs\<close>: what is read back from what was written, and that a password reaches
  neither an error nor the address it stands in front of.
\<close>

section \<open>Searches\<close>

lemma contains_str_split:
  assumes "c \<notin> set p" "p \<noteq> []"
  shows "contains_str p (a @ c # b) \<longleftrightarrow> contains_str p a \<or> contains_str p b"
proof
  assume "contains_str p (a @ c # b)"
  then obtain x y where xy: "a @ c # b = x @ p @ y" by (auto simp: contains_str_iff)
  then consider (left) z where "a = x @ p @ z" | (right) z where "b = z @ p @ y"
    | (over) u v where "p = u @ c # v"
    using assms(2) by (fastforce simp: append_eq_append_conv2 Cons_eq_append_conv append_eq_Cons_conv)
  then show "contains_str p a \<or> contains_str p b"
    using assms(1) by cases (auto simp: contains_str_iff)
next
  have "\<exists>u v. (s @ p @ t) @ c # b = u @ p @ v" for s t by (metis append.assoc)
  moreover have "\<exists>u v. a @ c # s @ p @ t = u @ p @ v" for s t by (metis append.assoc append_Cons)
  moreover assume "contains_str p a \<or> contains_str p b"
  ultimately show "contains_str p (a @ c # b)" by (auto simp: contains_str_iff)
qed

lemma split_once_str_first:
  assumes "hd p \<notin> set a" "p \<noteq> []"
  shows "split_once_str p (a @ p @ b) = Some (a, b)"
proof -
  have "find_str p (a @ p @ b) = Some (length a)"
    using assms
  proof (induction a)
    case Nil
    then obtain x q where "p = x # q" by (cases p) auto
    moreover have "starts_with p (p @ b)" by (auto simp: starts_with_iff)
    ultimately show ?case by simp
  next
    case (Cons x a)
    then have "\<not> starts_with p (x # a @ p @ b)" by (cases p) (auto simp: starts_with_iff)
    with Cons show ?case by simp
  qed
  then show ?thesis by (simp add: split_once_str_def)
qed

section \<open>Noninterference\<close>

text \<open>The end of \<open>ProxyEndpoint::parse\<close>, after the userinfo.\<close>

definition parse_address ::
    "external \<Rightarrow> string \<Rightarrow> proxy_scheme option \<Rightarrow> string \<Rightarrow> u16 \<Rightarrow> proxy_error + proxy_endpoint"
  where
  "parse_address E input hint host_port default_port =
     (if host_port = [] then Inl (error_proxy_server input MissingHost)
      else
        (case split_host_port host_port of
           Inl r \<Rightarrow> Inl (error_proxy_server input r)
         | Inr (host_text, port) \<Rightarrow>
             (case parse_host E host_text of
                Inl r \<Rightarrow> Inl (error_proxy_server input r)
              | Inr h \<Rightarrow>
                  if port = None \<and> length host_text < length host_port
                  then Inl (error_proxy_server input EmptyPort)
                  else Inr \<lparr> scheme_hint = hint, ep_host = h,
                             ep_port = unwrap_or default_port
                               (or_else port (map_option proxy_scheme_default_port hint)),
                             ep_auth = None \<rparr>)))"

definition with_userinfo :: "string option \<Rightarrow> proxy_error + proxy_endpoint \<Rightarrow> proxy_error + proxy_endpoint" where
  "with_userinfo userinfo r =
     (case r of Inl e \<Rightarrow> Inl e | Inr e \<Rightarrow> Inr (e\<lparr>ep_auth := map_option parse_userinfo userinfo\<rparr>))"

definition before_path :: "string \<Rightarrow> string" where
  "before_path s = takeWhile (\<lambda>c. \<not> path_char c) s"

lemma cut_at_char:
  "(case find_char p s of Some n \<Rightarrow> (take n s, drop n s) | None \<Rightarrow> (s, [])) =
     (takeWhile (\<lambda>c. \<not> p c) s, dropWhile (\<lambda>c. \<not> p c) s)"
proof (induction s)
  case (Cons c s)
  then show ?case by (cases "find_char p s") (simp_all del: find_char_None)
qed simp

lemma parse_authority_eq:
  "parse_authority E input hint after p =
     (if CHR ''@'' \<in> set (dropWhile (\<lambda>c. \<not> path_char c) after)
      then Inl (error_proxy_server input AtAfterPath)
      else if contains_str replacement_character (before_path after)
      then Inl (error_proxy_server input NotValidText)
      else (case rsplit_once_char (\<lambda>c. c = CHR ''@'') (before_path after) of
              Some (userinfo, hp) \<Rightarrow> with_userinfo (Some userinfo) (parse_address E input hint hp p)
            | None \<Rightarrow> parse_address E input hint (before_path after) p))"
proof -
  have cut: "(case find_char path_char after of Some n \<Rightarrow> (take n after, drop n after) | None \<Rightarrow> (after, []))
      = (before_path after, dropWhile (\<lambda>c. \<not> path_char c) after)"
    by (simp add: before_path_def cut_at_char)
  have tail: "(if hp = [] then Inl (error_proxy_server input MissingHost)
      else (case split_host_port hp of
          Inl r \<Rightarrow> Inl (error_proxy_server input r)
        | Inr (host_text, port) \<Rightarrow>
            (case parse_host E host_text of
               Inl r \<Rightarrow> Inl (error_proxy_server input r)
             | Inr h \<Rightarrow>
                 if port = None \<and> length host_text < length hp
                 then Inl (error_proxy_server input EmptyPort)
                 else Inr \<lparr> scheme_hint = hint, ep_host = h,
                            ep_port = unwrap_or p (or_else port (map_option proxy_scheme_default_port hint)),
                            ep_auth = auth \<rparr>))) =
      (case parse_address E input hint hp p of
         Inl e \<Rightarrow> Inl e | Inr e \<Rightarrow> Inr (e\<lparr>ep_auth := auth\<rparr>))" for hp auth
    by (auto simp: parse_address_def split: sum.splits prod.splits)
  have none: "(case parse_address E input hint hp p of
      Inl e \<Rightarrow> Inl e | Inr e \<Rightarrow> Inr (e\<lparr>ep_auth := None\<rparr>)) = parse_address E input hint hp p" for hp
    by (auto simp: parse_address_def split: sum.splits prod.splits)
  show ?thesis
    unfolding parse_authority_def cut Let_def prod.case
    by (cases "rsplit_once_char (\<lambda>c. c = CHR ''@'') (before_path after)")
      (simp_all only: option.case prod.case tail none with_userinfo_def option.map split: prod.split, simp?)
qed

lemma rsplit_at_userinfo:
  assumes "CHR ''@'' \<notin> set h"
  shows "rsplit_once_char (\<lambda>c. c = CHR ''@'') (u @ CHR ''@'' # h) = Some (u, h)"
  using assms by (auto simp: rsplit_once_char_Some)

lemma replacement_simps [simp]:
  "CHR '':'' \<notin> set replacement_character" "CHR ''@'' \<notin> set replacement_character"
  "replacement_character \<noteq> []"
  by (simp_all add: replacement_character_def)

text \<open>A secret that reaches neither the host nor a reason: the mask covers it, no character in
  it ends the authority, and it is text.\<close>

definition quiet_secret :: "string \<Rightarrow> bool" where
  "quiet_secret pw \<longleftrightarrow>
     maskable_secret pw \<and> \<not> list_ex path_char pw \<and> \<not> contains_str replacement_character pw"

lemma parse_authority_secret:
  assumes "quiet_secret pw" "CHR ''@'' \<notin> set host"
  shows "parse_authority E input hint (user @ '':'' @ pw @ ''@'' @ host) p =
     (if list_ex path_char user then Inl (error_proxy_server input AtAfterPath)
      else if contains_str replacement_character user
              \<or> contains_str replacement_character (before_path host)
      then Inl (error_proxy_server input NotValidText)
      else with_userinfo (Some (user @ '':'' @ pw)) (parse_address E input hint (before_path host) p))"
proof (cases "list_ex path_char user")
  case True
  then have "dropWhile (\<lambda>c. \<not> path_char c) (user @ CHR '':'' # pw @ CHR ''@'' # host) =
      dropWhile (\<lambda>c. \<not> path_char c) user @ CHR '':'' # pw @ CHR ''@'' # host"
    by (auto simp: list_ex_iff intro: dropWhile_append1)
  with True show ?thesis by (simp add: parse_authority_eq)
next
  case False
  have clean: "\<forall>c\<in>set (user @ CHR '':'' # pw @ [CHR ''@'']). \<not> path_char c"
    using False assms(1) by (auto simp: quiet_secret_def list_ex_iff path_char_def)
  then have cut: "before_path ((user @ CHR '':'' # pw @ [CHR ''@'']) @ host) =
        user @ CHR '':'' # pw @ CHR ''@'' # before_path host"
      "dropWhile (\<lambda>c. \<not> path_char c) ((user @ CHR '':'' # pw @ [CHR ''@'']) @ host) =
        dropWhile (\<lambda>c. \<not> path_char c) host"
    by (simp_all add: before_path_def takeWhile_append2 dropWhile_append2 path_char_def)
  have at: "CHR ''@'' \<notin> set (dropWhile (\<lambda>c. \<not> path_char c) host)" "CHR ''@'' \<notin> set (before_path host)"
    using assms(2) by (auto simp: before_path_def dest: set_dropWhileD set_takeWhileD)
  have repl: "contains_str replacement_character (user @ CHR '':'' # pw @ CHR ''@'' # before_path host)
      \<longleftrightarrow> contains_str replacement_character user \<or> contains_str replacement_character (before_path host)"
    using assms(1) by (simp add: contains_str_split quiet_secret_def)
  show ?thesis
    using False cut at repl rsplit_at_userinfo [OF at(2), of "user @ CHR '':'' # pw"]
    by (simp add: parse_authority_eq)
qed

lemma parse_address_input:
  assumes "redact_userinfo a = redact_userinfo b"
  shows "parse_address E a hint hp p = parse_address E b hint hp p"
proof -
  have "error_proxy_server a r = error_proxy_server b r" for r
    using assms by (simp add: error_proxy_server_def redact_offending_token_def)
  then show ?thesis unfolding parse_address_def by (simp only:)
qed

text \<open>Two results that differ at most in the credentials.\<close>

fun same_but_credentials ::
    "proxy_error + proxy_endpoint \<Rightarrow> proxy_error + proxy_endpoint \<Rightarrow> bool" where
  "same_but_credentials (Inl a) (Inl b) \<longleftrightarrow> a = b"
| "same_but_credentials (Inr a) (Inr b) \<longleftrightarrow> a\<lparr>ep_auth := None\<rparr> = b\<lparr>ep_auth := None\<rparr>"
| "same_but_credentials (Inl a) (Inr b) \<longleftrightarrow> False"
| "same_but_credentials (Inr a) (Inl b) \<longleftrightarrow> False"

lemma same_but_credentials_refl [simp]: "same_but_credentials r r"
  by (cases r) simp_all

lemma same_with_userinfo [simp]: "same_but_credentials (with_userinfo u r) (with_userinfo v r)"
  by (cases r) (simp_all add: with_userinfo_def)

lemma parse_secret_noninterference:
  assumes plain: "plain_name scheme" "plain_name user" and host: "CHR ''@'' \<notin> set host"
    and pw: "quiet_secret pw" "quiet_secret pw'"
    and trimmed: "trim_text (scheme @ ''://'' @ user @ '':'' @ pw @ ''@'' @ host)
        = scheme @ ''://'' @ user @ '':'' @ pw @ ''@'' @ host"
      "trim_text (scheme @ ''://'' @ user @ '':'' @ pw' @ ''@'' @ host)
        = scheme @ ''://'' @ user @ '':'' @ pw' @ ''@'' @ host"
  shows "same_but_credentials
     (endpoint_parse E (scheme @ ''://'' @ user @ '':'' @ pw @ ''@'' @ host) p)
     (endpoint_parse E (scheme @ ''://'' @ user @ '':'' @ pw' @ ''@'' @ host) p)"
proof -
  define a where "a = scheme @ ''://'' @ user @ '':'' @ pw @ ''@'' @ host"
  define b where "b = scheme @ ''://'' @ user @ '':'' @ pw' @ ''@'' @ host"
  have "maskable_secret pw" "maskable_secret pw'" using pw by (auto simp: quiet_secret_def)
  then have red: "redact_userinfo a = redact_userinfo b"
    using redact_userinfo_masks_url [OF plain _ host] by (simp add: a_def b_def)
  then have err: "error_proxy_server a r = error_proxy_server b r" for r
    by (simp add: error_proxy_server_def redact_offending_token_def)
  have first: "split_once_str ''://'' (scheme @ ''://'' @ rest) = Some (scheme, rest)" for rest
    using plain_nameD(1) [OF plain(1)] by (intro split_once_str_first) auto
  have ne: "scheme @ ''://'' @ rest \<noteq> []" for rest by simp
  have parse: "endpoint_parse E (scheme @ ''://'' @ rest) p =
      (case proxy_scheme_from_str scheme of Inl e \<Rightarrow> Inl e
       | Inr hint \<Rightarrow> parse_authority E (scheme @ ''://'' @ rest) (Some hint) rest p)"
    if "trim_text (scheme @ ''://'' @ rest) = scheme @ ''://'' @ rest" for rest
    unfolding endpoint_parse_def Let_def that first by (simp add: ne)
  show ?thesis
    unfolding parse [OF trimmed(1)] parse [OF trimmed(2)]
    unfolding parse_authority_secret [OF pw(1) host] parse_authority_secret [OF pw(2) host]
    unfolding a_def [symmetric] b_def [symmetric] err parse_address_input [OF red]
    by (simp split: sum.split)
qed

section \<open>Round trip\<close>

text \<open>A text without a colon is no IPv6 address.\<close>

lemma read_number_rest: "read_number radix n z m s = Some (v, r) \<Longrightarrow> set r \<subseteq> set s"
  by (auto simp: read_number_def Let_def split: if_splits dest: in_set_dropD)

lemma read_octets_rest: "read_octets i n s = Some (vs, r) \<Longrightarrow> set r \<subseteq> set s"
proof (induction i n s arbitrary: vs r rule: read_octets.induct)
  case (2 i n s)
  obtain v r1 vs1 where step: "read_separated (CHR ''.'') i (read_number 10 3 False 255) s = Some (v, r1)"
      "read_octets (Suc i) n r1 = Some (vs1, r)"
    using "2.prems" by (auto split: option.splits prod.splits)
  then have "set r1 \<subseteq> set s"
    by (auto simp: read_separated_def split: if_splits list.splits dest!: read_number_rest)
  moreover have "set r \<subseteq> set r1" using "2.IH" step by auto
  ultimately show ?case by simp
qed simp

lemma read_octets_length: "read_octets i n s = Some (vs, r) \<Longrightarrow> length vs = n"
  by (induction i n s arbitrary: vs r rule: read_octets.induct) (auto split: option.splits prod.splits)

lemma read_separated_none: "c \<notin> set s \<Longrightarrow> 0 < i \<Longrightarrow> read_separated c i inner s = None"
  by (auto simp: read_separated_def split: list.splits)

lemma read_groups_stop: "CHR '':'' \<notin> set s \<Longrightarrow> 0 < i \<Longrightarrow> read_groups limit i s = ([], False, s)"
  by (simp add: read_groups.simps [of limit i s] read_separated_none)

lemma parse_ipv6_colon:
  assumes "CHR '':'' \<notin> set s"
  shows "parse_ipv6 s = None"
proof -
  obtain gs v4 r where g: "read_groups 8 0 s = (gs, v4, r)" by (metis prod_cases3)
  have "length gs \<le> 2 \<and> (v4 \<or> set r \<subseteq> set s)"
  proof (cases "read_octets 0 4 s")
    case None
    then have "read_groups 8 0 s =
        (case read_number 16 4 True 65535 s of None \<Rightarrow> ([], False, s)
         | Some (g, r) \<Rightarrow> (let (gs, v4, r') = read_groups 8 (Suc 0) r in (g # gs, v4, r')))"
      by (simp add: read_groups.simps [of 8 0 s] read_separated_def)
    note groups = this
    show ?thesis
    proof (cases "read_number 16 4 True 65535 s")
      case None
      with g groups show ?thesis by auto
    next
      case (Some vr)
      obtain v r1 where vr: "vr = (v, r1)" by fastforce
      then have sub: "set r1 \<subseteq> set s" using Some read_number_rest by blast
      with assms have "CHR '':'' \<notin> set r1" by blast
      then have "read_groups 8 (Suc 0) r1 = ([], False, r1)" by (intro read_groups_stop) simp_all
      with g groups Some sub show ?thesis by (auto simp: vr)
    qed
  next
    case (Some osr)
    obtain os r1 where osr: "osr = (os, r1)" by fastforce
    have four: "length os = 4" using Some unfolding osr by (rule read_octets_length)
    then obtain a b c d where "os = [a, b, c, d]"
      by (auto simp: numeral_eq_Suc length_Suc_conv)
    then have "read_groups 8 0 s = ([a * 256 + b, c * 256 + d], True, r1)"
      using Some by (simp add: read_groups.simps [of 8 0 s] read_separated_def osr)
    with g show ?thesis by auto
  qed
  then have "length gs \<noteq> 8" "v4 \<or> strip_prefix ''::'' r = None"
    using assms by (auto simp: strip_prefix_None)
  then show ?thesis by (auto simp: parse_ipv6_def g)
qed

lemma octet_dots: "c \<in> set (show_ipv4 a) \<Longrightarrow> is_digit c \<or> c = CHR ''.''"
  using show_nat_digits by (auto simp: show_ipv4_def octets_def)

lemma show_ipv4_not_Nil [simp]: "show_ipv4 a \<noteq> []"
  by (simp add: show_ipv4_def octets_def)

text \<open>What no host name holds: a character that ends the host, or a blank.\<close>

definition host_char :: "char \<Rightarrow> bool" where
  "host_char c \<longleftrightarrow> ascii_char c \<and> c \<notin> set ascii_trim_chars \<and> c \<notin> set ''#/:?@[''"

definition host_name_laws :: "external \<Rightarrow> bool" where
  "host_name_laws E \<longleftrightarrow>
     (\<forall>s d. host_parse E s = Inr (Domain d) \<longrightarrow> d \<noteq> [] \<and> list_all host_char d)"

lemma digit_host_char: "is_digit c \<Longrightarrow> host_char c"
  by (auto simp: is_digit_def host_char_def ascii_trim_chars_def ascii_char_def)

lemma trim_host_like:
  assumes "s \<noteq> []" "host_char (hd s)" "host_char (last s)"
  shows "trim_text s = s"
proof (rule trim_text_clean)
  show "ws_len s = 0"
    using assms(1,2) by (cases s) (auto simp: ws_len_def host_char_def)
  have "ws_len_rev r = 0" if "r \<noteq> []" "host_char (hd r)" for r
    using that by (cases r) (auto simp: ws_len_rev_def host_char_def)
  from this [of "rev s"] assms(1,3) show "ws_len_rev (rev s) = 0" by (simp add: hd_rev)
qed

lemma parse_host_plain:
  assumes "CHR '':'' \<notin> set t" "CHR ''['' \<notin> set t" "trim_text t = t" "t \<noteq> []" "host_parse E t = Inr h"
  shows "parse_host E t = Inr h"
proof -
  have "strip_prefix ''['' t = None" using assms(2) by (auto simp: strip_prefix_None)
  then show ?thesis
    using assms parse_ipv6_colon [OF assms(1)] by (simp add: parse_host_def Let_def map_err_def del: strip_prefix_iff)
qed

lemma parse_address_show:
  assumes t: "list_all host_char t" "t \<noteq> []" "host_parse E t = Inr h"
  shows "parse_address E input hint (t @ '':'' @ show_nat (unat port)) p =
     Inr \<lparr> scheme_hint = hint, ep_host = h, ep_port = port, ep_auth = None \<rparr>"
proof -
  have hc: "host_char c" if "c \<in> set t" for c using t(1) that by (simp add: list_all_iff)
  have no: "CHR '':'' \<notin> set t" "CHR ''['' \<notin> set t" using hc by (auto simp: host_char_def)
  have "\<not> starts_with ''['' (t @ '':'')" using no(2) t(2) by (cases t) (auto simp: starts_with_iff)
  moreover have "CHR '':'' \<notin> set (show_nat (unat port))"
    using show_nat_digits [of _ "unat port"] by (auto simp: is_digit_def)
  ultimately have split: "split_host_port (t @ CHR '':'' # show_nat (unat port)) = Inr (t, Some port)"
    using split_host_port_append [OF no(1)] by (simp add: parse_port_def)
  have "trim_text t = t" using hc t(2) by (intro trim_host_like) auto
  then have "parse_host E t = Inr h" using no t(2,3) by (intro parse_host_plain)
  with split show ?thesis by (simp add: parse_address_def)
qed

lemma parse_authority_show:
  assumes t: "list_all host_char t" "t \<noteq> []" "host_parse E t = Inr h"
  shows "parse_authority E input hint (t @ '':'' @ show_nat (unat port)) p =
     Inr \<lparr> scheme_hint = hint, ep_host = h, ep_port = port, ep_auth = None \<rparr>"
proof -
  define s where "s = t @ '':'' @ show_nat (unat port)"
  have hc: "host_char c \<or> c = CHR '':''" if "c \<in> set s" for c
    using t(1) that show_nat_digits digit_host_char by (auto simp: s_def list_all_iff)
  then have c: "\<forall>c\<in>set s. \<not> path_char c" "\<forall>c\<in>set s. c \<noteq> CHR ''@''" "\<forall>c\<in>set s. ascii_char c"
    by (fastforce simp: host_char_def path_char_def ascii_char_def)+
  have cut: "before_path s = s" "dropWhile (\<lambda>c. \<not> path_char c) s = []"
    using c(1) by (simp_all add: before_path_def takeWhile_eq_all_conv)
  have "rsplit_once_char (\<lambda>c. c = CHR ''@'') s = None" using c(2) by simp
  moreover have "\<not> contains_str replacement_character s"
    using c(3) by (fastforce simp: contains_str_iff replacement_character_def ascii_char_def)
  ultimately have "parse_authority E input hint s p = parse_address E input hint s p"
    unfolding parse_authority_eq cut by (simp del: rsplit_once_char_None)
  then show ?thesis using parse_address_show [OF t] by (simp add: s_def)
qed

lemma proxy_scheme_round_trip: "proxy_scheme_from_str (proxy_scheme_as_str s) = Inr s"
  by (cases s; hypsubst; code_simp)

lemma endpoint_round_trip:
  assumes "list_all host_char t" "t \<noteq> []" "host_parse E t = Inr h"
    and show_host: "host_show E h = t" "\<forall>a. h \<noteq> Ipv6 a"
  shows "endpoint_parse E (endpoint_show E \<lparr> scheme_hint = hint, ep_host = h, ep_port = port, ep_auth = auth \<rparr>) p =
     Inr \<lparr> scheme_hint = hint, ep_host = h, ep_port = port, ep_auth = None \<rparr>"
proof -
  define s where "s = t @ '':'' @ show_nat (unat port)"
  have auth: "authority E \<lparr> scheme_hint = hint, ep_host = h, ep_port = port, ep_auth = auth \<rparr> = s"
    using show_host by (cases h) (simp_all add: authority_def s_def)
  note parse_s = parse_authority_show [OF assms(1-3), where port = port, folded s_def]
  have ends: "host_char (hd s)" "host_char (last s)" "s \<noteq> []"
    using assms(1,2) show_nat_digits [of _ "unat port"]
    by (auto simp: s_def list_all_iff hd_append intro!: digit_host_char)
  show ?thesis
  proof (cases hint)
    case None
    have "\<not> contains_str ''://'' s"
    proof
      assume "contains_str ''://'' s"
      then have "CHR ''/'' \<in> set s" by (auto simp: contains_str_iff)
      moreover have "CHR ''/'' \<notin> set (show_nat (unat port))"
        using show_nat_digits [of "CHR ''/''" "unat port"] by (auto simp: is_digit_def)
      ultimately show False using assms(1) by (auto simp: s_def list_all_iff host_char_def)
    qed
    then have "split_once_str ''://'' s = None" by (simp add: split_once_str_None)
    then show ?thesis
      using None auth trim_host_like [OF ends(3,1,2)] ends(3) parse_s
      by (simp add: endpoint_show_def endpoint_parse_def Let_def)
  next
    case (Some sc)
    define whole where "whole = proxy_scheme_as_str sc @ ''://'' @ s"
    have "host_char (hd whole)" "CHR '':'' \<notin> set (proxy_scheme_as_str sc)" "whole \<noteq> []"
      by (cases sc; simp add: whole_def host_char_def ascii_char_def ascii_trim_chars_def)+
    moreover have "last whole = last s" using ends(3) by (simp add: whole_def)
    ultimately have "trim_text whole = whole" "split_once_str ''://'' whole = Some (proxy_scheme_as_str sc, s)"
      using ends(2) trim_host_like [of whole] split_once_str_first [of "''://''" _ s]
      by (simp_all add: whole_def)
    then have "endpoint_parse E whole p =
        Inr \<lparr> scheme_hint = hint, ep_host = h, ep_port = port, ep_auth = None \<rparr>"
      using Some \<open>whole \<noteq> []\<close> parse_s proxy_scheme_round_trip [of sc]
      by (simp add: endpoint_parse_def Let_def)
    moreover have "endpoint_show E \<lparr> scheme_hint = hint, ep_host = h, ep_port = port, ep_auth = auth \<rparr> = whole"
      using Some auth by (simp add: endpoint_show_def whole_def)
    ultimately show ?thesis by (simp only:)
  qed
qed

lemma ipv4_host_chars: "list_all host_char (show_ipv4 a)"
  using octet_dots digit_host_char
  by (fastforce simp: list_all_iff host_char_def ascii_char_def ascii_trim_chars_def)

lemma plain_host_name_laws: "host_name_laws plain_external"
proof -
  have "host_char c" if "name_char c" for c
    using that by (auto simp: name_char_def host_char_def is_lower_def is_digit_def ascii_char_def
        ascii_trim_chars_def)
  then show ?thesis
    by (auto simp: host_name_laws_def plain_host_Domain list_all_iff simp del: plain_host.simps)
qed

section \<open>Properties\<close>

text \<open>A password does not reach what parsing an address gives away: two addresses that
  differ only in it (without white space, without a character that ends the authority, and
  not both an \<open>@\<close> and a \<open>//\<close>) are both accepted, as endpoints that differ only in their
  credentials, or both refused with the same error.\<close>

theorem password_does_not_reach_the_answer:
  assumes "plain_name scheme" "plain_name user" "CHR ''@'' \<notin> set host"
    and "quiet_secret pw" "quiet_secret pw'"
    and "trim_text (scheme @ ''://'' @ user @ '':'' @ pw @ ''@'' @ host)
        = scheme @ ''://'' @ user @ '':'' @ pw @ ''@'' @ host"
      "trim_text (scheme @ ''://'' @ user @ '':'' @ pw' @ ''@'' @ host)
        = scheme @ ''://'' @ user @ '':'' @ pw' @ ''@'' @ host"
  shows "same_but_credentials
     (endpoint_parse E (scheme @ ''://'' @ user @ '':'' @ pw @ ''@'' @ host) p)
     (endpoint_parse E (scheme @ ''://'' @ user @ '':'' @ pw' @ ''@'' @ host) p)"
  by (rule parse_secret_noninterference [OF assms])

theorem password_does_not_reach_the_answer_witness:
  "same_but_credentials
     (endpoint_parse plain_external (''http'' @ ''://'' @ ''al'' @ '':'' @ ''p@s'' @ ''@'' @ ''h:x'') 80)
     (endpoint_parse plain_external (''http'' @ ''://'' @ ''al'' @ '':'' @ ''q'' @ ''@'' @ ''h:x'') 80)"
  by (rule password_does_not_reach_the_answer; code_simp)

text \<open>C8. An endpoint is read back from its text, without its credentials and whatever the
  default port, when its host is a name or an IPv4 address the host parser gives back.\<close>

theorem endpoint_reads_back:
  assumes "host_parse_laws E" "host_show_laws E" "host_name_laws E"
    and "case h of Domain d \<Rightarrow> host_parse E d = Inr (Domain d) | Ipv4 a \<Rightarrow> True | Ipv6 a \<Rightarrow> False"
  shows "endpoint_parse E
       (endpoint_show E \<lparr> scheme_hint = hint, ep_host = h, ep_port = port, ep_auth = auth \<rparr>) p =
     Inr \<lparr> scheme_hint = hint, ep_host = h, ep_port = port, ep_auth = None \<rparr>"
proof (cases h)
  case (Domain d)
  with assms have "list_all host_char d" "d \<noteq> []" "host_parse E d = Inr h" "host_show E h = d"
    by (auto simp: host_name_laws_def host_show_laws_def)
  then show ?thesis using Domain by (intro endpoint_round_trip) auto
next
  case (Ipv4 a)
  with assms have "host_parse E (show_ipv4 a) = Inr h" "host_show E h = show_ipv4 a"
    by (auto simp: host_parse_laws_def host_show_laws_def)
  then show ?thesis using Ipv4 ipv4_host_chars by (intro endpoint_round_trip) auto
qed (use assms in simp)

theorem endpoint_reads_back_witness:
  "endpoint_parse plain_external
       (endpoint_show plain_external \<lparr> scheme_hint = Some PsSocks5h, ep_host = Domain ''p.q'',
          ep_port = 1081, ep_auth = Some (auth_new ''u'' (Some ''x'')) \<rparr>) 80 =
     Inr \<lparr> scheme_hint = Some PsSocks5h, ep_host = Domain ''p.q'', ep_port = 1081, ep_auth = None \<rparr>"
proof (rule endpoint_reads_back [OF plain_host_parse_laws plain_host_show_laws plain_host_name_laws])
  have "host_parse plain_external ''p.q'' = Inr (Domain ''p.q'')" by code_simp
  then show "case Domain ''p.q'' of Domain d \<Rightarrow> host_parse plain_external d = Inr (Domain d)
      | Ipv4 a \<Rightarrow> True | Ipv6 a \<Rightarrow> False" by (simp only: host.case)
qed

end
