(* ===== verification/Pac_Time.thy ===== *)
theory Pac_Time
  imports Net_Addr "HOL-Library.Log_Nat"
begin

text \<open>
  \<open>src/pac/policy.rs\<close> and \<open>src/pac/time.rs\<close>: the envelope a PAC script runs in and the
  calendar behind \<open>weekdayRange\<close>, \<open>dateRange\<close> and \<open>timeRange\<close>. A \<open>SystemTime\<close> is its distance
  from the epoch in nanoseconds; an \<open>i64\<close> is an integer, and where the source guards its
  bounds the guard is written out.
\<close>

section \<open>The policy\<close>

record pac_policy =
  resolve_dns :: bool
  allow_internal_addresses :: bool
  own_address :: "ip_addr option"
  pp_timeout :: "nat option"
  local_utc_offset :: int
  pinned_now :: "int option"

definition DEFAULT_PAC_TIMEOUT :: nat where "DEFAULT_PAC_TIMEOUT = 5 * 1000000000"

definition policy_new :: pac_policy where
  "policy_new =
     \<lparr> resolve_dns = False, allow_internal_addresses = False, own_address = None,
       pp_timeout = Some DEFAULT_PAC_TIMEOUT, local_utc_offset = 0, pinned_now = None \<rparr>"

definition with_dns_resolution :: "bool \<Rightarrow> pac_policy \<Rightarrow> pac_policy" where
  "with_dns_resolution enabled p = p\<lparr>resolve_dns := enabled\<rparr>"

definition with_internal_addresses :: "bool \<Rightarrow> pac_policy \<Rightarrow> pac_policy" where
  "with_internal_addresses allowed p = p\<lparr>allow_internal_addresses := allowed\<rparr>"

definition with_my_ip_address :: "ip_addr \<Rightarrow> pac_policy \<Rightarrow> pac_policy" where
  "with_my_ip_address address p = p\<lparr>own_address := Some address\<rparr>"

definition with_timeout :: "nat option \<Rightarrow> pac_policy \<Rightarrow> pac_policy" where
  "with_timeout t p = p\<lparr>pp_timeout := t\<rparr>"

definition with_local_utc_offset :: "int \<Rightarrow> pac_policy \<Rightarrow> pac_policy" where
  "with_local_utc_offset seconds p = p\<lparr>local_utc_offset := seconds\<rparr>"

definition with_now :: "int \<Rightarrow> pac_policy \<Rightarrow> pac_policy" where
  "with_now now p = p\<lparr>pinned_now := Some now\<rparr>"

definition policy_my_ip_address :: "pac_policy \<Rightarrow> ip_addr" where
  "policy_my_ip_address p = unwrap_or (IpV4 ipv4_localhost) (own_address p)"

section \<open>Integers\<close>

definition I64_MAX :: int where "I64_MAX = 9223372036854775807"
definition I64_MIN :: int where "I64_MIN = - 9223372036854775808"

definition fits_i64 :: "int \<Rightarrow> bool" where
  "fits_i64 n \<longleftrightarrow> I64_MIN \<le> n \<and> n \<le> I64_MAX"

definition saturate_i64 :: "int \<Rightarrow> int" where
  "saturate_i64 n = max I64_MIN (min I64_MAX n)"

definition checked :: "int \<Rightarrow> int option" where
  "checked n = (if fits_i64 n then Some n else None)"

text \<open>The \<open>/\<close> of the source rounds to zero.\<close>

definition quot :: "int \<Rightarrow> int \<Rightarrow> int" where
  "quot a b = sgn a * sgn b * (\<bar>a\<bar> div \<bar>b\<bar>)"

section \<open>The calendar\<close>

record civil =
  cv_year :: int
  cv_month :: int
  cv_day :: int
  cv_hour :: int
  cv_minute :: int
  cv_second :: int
  cv_weekday :: int

definition civil_from_days :: "int \<Rightarrow> int \<times> int \<times> int" where
  "civil_from_days z0 =
     (let z = z0 + 719468;
          era = quot (if 0 \<le> z then z else z - 146096) 146097;
          doe = z - era * 146097;
          yoe = quot (doe - quot doe 1460 + quot doe 36524 - quot doe 146096) 365;
          y = yoe + era * 400;
          doy = doe - (365 * yoe + quot yoe 4 - quot yoe 100);
          mp = quot (5 * doy + 2) 153;
          d = doy - quot (153 * mp + 2) 5 + 1;
          m = (if mp < 10 then mp + 3 else mp - 9)
      in (if m \<le> 2 then y + 1 else y, m, d))"

definition civil_from_unix :: "int \<Rightarrow> civil" where
  "civil_from_unix secs =
     (let days = secs div 86400; rem = secs mod 86400;
          (year, month, day) = civil_from_days days
      in \<lparr> cv_year = year, cv_month = month, cv_day = day,
           cv_hour = quot rem 3600, cv_minute = quot rem 60 mod 60, cv_second = rem mod 60,
           cv_weekday = (days + 4) mod 7 \<rparr>)"

text \<open>\<open>clock\<close> is the time the machine has, read when the policy pins none.\<close>

definition civil_now :: "int \<Rightarrow> pac_policy \<Rightarrow> bool \<Rightarrow> civil" where
  "civil_now clock p gmt =
     (let base = unwrap_or clock (pinned_now p);
          secs =
            (if 0 \<le> base then (let s = base div 1000000000 in if fits_i64 s then s else I64_MAX)
             else
               (let magnitude = - base;
                    s = min 18446744073709551615
                          (magnitude div 1000000000
                             + (if magnitude mod 1000000000 \<noteq> 0 then 1 else 0))
                in - (if fits_i64 s then s else I64_MAX)));
          secs' = (if gmt then secs else saturate_i64 (secs + local_utc_offset p))
      in civil_from_unix secs')"

definition in_cyclic_range :: "int \<Rightarrow> int \<Rightarrow> int \<Rightarrow> bool" where
  "in_cyclic_range value lo hi \<longleftrightarrow>
     (if lo \<le> hi then lo \<le> value \<and> value \<le> hi else lo \<le> value \<or> value \<le> hi)"

section \<open>Names and arguments\<close>

fun position_of :: "string \<Rightarrow> string list \<Rightarrow> int option" where
  "position_of n [] = None"
| "position_of n (x # xs) = (if x = n then Some 0 else map_option (\<lambda>i. i + 1) (position_of n xs))"

definition DAYS :: "string list" where
  "DAYS = [''SUN'', ''MON'', ''TUE'', ''WED'', ''THU'', ''FRI'', ''SAT'']"

definition MONTHS :: "string list" where
  "MONTHS = [''JAN'', ''FEB'', ''MAR'', ''APR'', ''MAY'', ''JUN'', ''JUL'', ''AUG'', ''SEP'',
     ''OCT'', ''NOV'', ''DEC'']"

definition weekday_index :: "string \<Rightarrow> int option" where
  "weekday_index name = position_of (to_ascii_uppercase (trim_text name)) DAYS"

definition month_index :: "string \<Rightarrow> int option" where
  "month_index name =
     map_option (\<lambda>i. i + 1) (position_of (to_ascii_uppercase (trim_text name)) MONTHS)"

definition split_gmt :: "string list \<Rightarrow> string list \<times> bool" where
  "split_gmt args =
     (if args \<noteq> [] \<and> eq_ignore_ascii_case (trim_text (last args)) ''GMT''
      then (butlast args, True) else (args, False))"

section \<open>Numbers\<close>

text \<open>A decimal floating-point text as the standard library reads it: digits with at most one
  point, and an exponent. The value is \<open>digits * 10 ^ scale\<close>.\<close>

definition parse_exponent :: "string \<Rightarrow> int option" where
  "parse_exponent s =
     (case s of
        [] \<Rightarrow> None
      | c # r \<Rightarrow>
          (let (neg, ds) = (if c = CHR ''-'' then (True, r)
                            else if c = CHR ''+'' then (False, r) else (False, s))
           in if ds = [] \<or> \<not> all_digits ds then None
              else Some (if neg then - int (digits_value 0 ds) else int (digits_value 0 ds))))"

definition parse_decimal :: "string \<Rightarrow> (nat \<times> int) option" where
  "parse_decimal s =
     (let (mantissa, expo) =
            (case split_once_char (\<lambda>c. c = CHR ''e'' \<or> c = CHR ''E'') s of
               None \<Rightarrow> (s, Some 0)
             | Some (m, e) \<Rightarrow> (m, parse_exponent e));
          (whole, frac) = unwrap_or (mantissa, []) (split_once_char (\<lambda>c. c = CHR ''.'') mantissa)
      in if (whole = [] \<and> frac = []) \<or> \<not> all_digits whole \<or> \<not> all_digits frac then None
         else map_option (\<lambda>e. (digits_value 0 (whole @ frac), e - int (length frac))) expo)"

text \<open>The nearest binary64 to a non-negative fraction, ties to even, truncated to an integer;
  \<open>None\<close> when the fraction rounds to infinity. \<open>k\<close> is the exponent of its last place.\<close>

definition floor_log2 :: "nat \<Rightarrow> nat \<Rightarrow> int" where
  "floor_log2 p q =
     (if q \<le> p then int (floorlog 2 (p div q)) - 1
      else - int (floorlog 2 ((q + p - 1) div p - 1)))"

definition round_half_even :: "nat \<Rightarrow> nat \<Rightarrow> nat" where
  "round_half_even p q =
     (let m = p div q; r = p mod q
      in if 2 * r < q then m else if q < 2 * r then m + 1 else if even m then m else m + 1)"

definition binary64_trunc :: "nat \<Rightarrow> nat \<Rightarrow> nat option" where
  "binary64_trunc p q =
     (if p = 0 then Some 0
      else
        (let k = max (floor_log2 p q - 52) (- 1074);
             m = (if 0 \<le> k then round_half_even p (q * 2 ^ nat k)
                  else round_half_even (p * 2 ^ nat (- k)) q)
         in if 0 \<le> k
            then (let v = m * 2 ^ nat k in if 2 ^ 1024 \<le> v then None else Some v)
            else Some (m div 2 ^ nat (- k))))"

definition number :: "string \<Rightarrow> int option" where
  "number text =
     (let t = trim_text text;
          (neg, body) =
            (case t of
               [] \<Rightarrow> (False, [])
             | c # r \<Rightarrow> if c = CHR ''-'' then (True, r) else if c = CHR ''+'' then (False, r)
                         else (False, t))
      in case parse_decimal body of
           None \<Rightarrow> None
         | Some (digits, scale) \<Rightarrow>
             map_option (\<lambda>v. saturate_i64 (if neg then - int v else int v))
               (if 0 \<le> scale then binary64_trunc (digits * 10 ^ nat scale) 1
                else binary64_trunc digits (10 ^ nat (- scale))))"

end
