(* ===== verification/Pac_Host.thy ===== *)
theory Pac_Host
  imports Pac_Time Mode
begin

unbundle bit_operations_syntax

text \<open>
  \<open>src/pac/hostfn.rs\<close>: the functions a PAC script calls. The system resolver and, in a worker,
  the parent process that answers in its place are arguments; a date predicate takes the
  machine's clock. A \<open>u32\<close> is a 32-bit word, an \<open>i32\<close> the integer it stands for.
\<close>

section \<open>Names\<close>

definition is_plain_host_name :: "string \<Rightarrow> bool" where
  "is_plain_host_name host_text \<longleftrightarrow> CHR ''.'' \<notin> set host_text \<and> CHR '':'' \<notin> set host_text"

definition dns_domain_is :: "string \<Rightarrow> string \<Rightarrow> bool" where
  "dns_domain_is host_text domain \<longleftrightarrow>
     ends_with (to_ascii_lowercase domain) (to_ascii_lowercase host_text)"

definition local_host_or_domain_is :: "string \<Rightarrow> string \<Rightarrow> bool" where
  "local_host_or_domain_is host0 hostdom0 \<longleftrightarrow>
     (let host_text = to_ascii_lowercase host0; hostdom = to_ascii_lowercase hostdom0 in
      host_text = hostdom
      \<or> (CHR ''.'' \<notin> set host_text \<and> starts_with (host_text @ ''.'') hostdom))"

definition dns_domain_levels :: "string \<Rightarrow> nat" where
  "dns_domain_levels host_text = length (filter (\<lambda>c. c = CHR ''.'') host_text)"

section \<open>Globs with a question mark\<close>

definition MAX_MATCH_STEPS :: nat where "MAX_MATCH_STEPS = 2 ^ 24"

text \<open>The loop of \<open>wildcard_match\<close> on what is left of the pattern and of the text, character
  by character: \<open>last_star\<close> holds the pattern after the last \<open>*\<close> and the text it was met at, moved
  on by every retry.\<close>

fun wildcard_loop ::
    "nat \<Rightarrow> string list \<Rightarrow> string list \<Rightarrow> (string list \<times> string list) option \<Rightarrow> bool" where
  "wildcard_loop budget p [] last_star = list_all (\<lambda>c. c = ''*'') p"
| "wildcard_loop 0 p (tc # t) last_star = False"
| "wildcard_loop (Suc left) p (tc # t) last_star =
     (if p \<noteq> [] \<and> hd p = ''*'' then wildcard_loop left (tl p) (tc # t) (Some (tl p, tc # t))
      else if p \<noteq> [] \<and> (hd p = ''?'' \<or> hd p = tc) then wildcard_loop left (tl p) t last_star
      else (case last_star of
              Some (sp, resume) \<Rightarrow> wildcard_loop left sp (tl resume) (Some (sp, tl resume))
            | None \<Rightarrow> False))"

definition wildcard_match :: "string \<Rightarrow> string \<Rightarrow> bool" where
  "wildcard_match pattern text = wildcard_loop MAX_MATCH_STEPS (chars pattern) (chars text) None"

definition sh_exp_match :: "string \<Rightarrow> string \<Rightarrow> bool" where
  "sh_exp_match text pattern =
     (if CHR ''?'' \<notin> set pattern then glob_match pattern text else wildcard_match pattern text)"

section \<open>Addresses\<close>

text \<open>\<open>str::parse::<u32>\<close>: digits behind an optional plus, in range.\<close>

definition parse_u32 :: "string \<Rightarrow> nat option" where
  "parse_u32 s =
     (let ds = unwrap_or s (strip_prefix ''+'' s) in
      if ds = [] \<or> \<not> all_digits ds then None
      else (let n = digits_value 0 ds in if n < 2 ^ 32 then Some n else None))"

fun convert_parts :: "nat \<Rightarrow> string list \<Rightarrow> ipv4_bits \<Rightarrow> ipv4_bits" where
  "convert_parts index [] out = out"
| "convert_parts index (part # parts) out =
     (let octet = of_nat (unwrap_or 0 (parse_u32 (trim_text part))) AND 0xFF
      in convert_parts (Suc index) parts (out OR push_bit (24 - 8 * index) octet))"

definition convert_addr :: "string \<Rightarrow> int" where
  "convert_addr addr =
     sint (convert_parts 0 (take 4 (split_chars (\<lambda>c. c = CHR ''.'') addr)) 0)"

definition reference_group :: "string \<Rightarrow> nat option" where
  "reference_group g =
     (if g = [] \<or> 3 < length g \<or> \<not> all_digits g then None
      else (let n = digits_value 0 g in if n < 256 then Some n else None))"

fun reference_groups :: "nat \<Rightarrow> string list \<Rightarrow> nat list option" where
  "reference_groups n [] = (if n = 0 then Some [] else None)"
| "reference_groups n (g # groups) =
     (if n = 0 then None
      else (case reference_group g of
              None \<Rightarrow> None
            | Some o1 \<Rightarrow> map_option (\<lambda>os. o1 # os) (reference_groups (n - 1) groups)))"

definition reference_ipv4 :: "string \<Rightarrow> ipv4_bits option" where
  "reference_ipv4 text =
     map_option ipv4_of_octets (reference_groups 4 (split_chars (\<lambda>c. c = CHR ''.'') text))"

definition between :: "nat \<Rightarrow> nat \<Rightarrow> nat \<Rightarrow> bool" where
  "between lo n hi \<longleftrightarrow> lo \<le> n \<and> n \<le> hi"

definition ipv4_is_internal :: "ipv4_bits \<Rightarrow> bool" where
  "ipv4_is_internal w \<longleftrightarrow>
     (let os = octets w; a = os ! 0; b = os ! 1; c = os ! 2 in
      a = 127
      \<or> (a = 10 \<or> (a = 172 \<and> between 16 b 31) \<or> (a = 192 \<and> b = 168))
      \<or> (a = 169 \<and> b = 254)
      \<or> between 224 a 239
      \<or> a = 0
      \<or> (a = 100 \<and> between 64 b 127)
      \<or> (a = 192 \<and> b = 0 \<and> c = 0)
      \<or> (a = 192 \<and> b = 0 \<and> c = 2)
      \<or> (a = 198 \<and> b = 51 \<and> c = 100)
      \<or> (a = 203 \<and> b = 0 \<and> c = 113)
      \<or> (a = 192 \<and> b = 88 \<and> c = 99)
      \<or> (a = 198 \<and> b AND 0xfe = 18)
      \<or> 240 \<le> a)"

definition is_internal :: "ip_addr \<Rightarrow> bool" where
  "is_internal address =
     (case address of
        IpV4 w \<Rightarrow> ipv4_is_internal w
      | IpV6 w \<Rightarrow>
          (case ipv4_mapped w of
             Some v4 \<Rightarrow> ipv4_is_internal v4
           | None \<Rightarrow>
               (let s0 = segments w ! 0 in
                w = ipv6_localhost \<or> w = 0 \<or> s0 AND 0xff00 = 0xff00
                \<or> s0 AND 0xfe00 = 0xfc00 \<or> s0 AND 0xffc0 = 0xfe80)))"

section \<open>Resolving\<close>

record dns =
  ask_parent :: "string \<Rightarrow> ipv4_bits option option"
  lookup_host :: "string \<Rightarrow> ip_addr list option"

definition literal_ipv4 :: "external \<Rightarrow> string \<Rightarrow> ipv4_bits option" where
  "literal_ipv4 E host_text =
     (case parse_host E host_text of Inr (Ipv4 v4) \<Rightarrow> Some v4 | _ \<Rightarrow> None)"

definition unbracket_ipv6 :: "string \<Rightarrow> string" where
  "unbracket_ipv6 host_text =
     (let inner = strip_brackets host_text in if parse_ipv6 inner \<noteq> None then inner else host_text)"

fun as_ipv4 :: "ip_addr \<Rightarrow> ipv4_bits option" where
  "as_ipv4 (IpV4 v4) = Some v4"
| "as_ipv4 (IpV6 v6) = ipv4_mapped v6"

definition resolve_ipv4 :: "dns \<Rightarrow> pac_policy \<Rightarrow> string \<Rightarrow> ipv4_bits option" where
  "resolve_ipv4 D p host_text =
     (case ask_parent D host_text of
        Some answer \<Rightarrow> answer
      | None \<Rightarrow>
          if \<not> resolve_dns p \<or> host_text = [] then None
          else (case lookup_host D host_text of
                  None \<Rightarrow> None
                | Some addresses \<Rightarrow>
                    List.find (\<lambda>a. allow_internal_addresses p \<or> \<not> is_internal (IpV4 a))
                      (present (map as_ipv4 addresses))))"

definition dns_resolve :: "external \<Rightarrow> dns \<Rightarrow> pac_policy \<Rightarrow> string \<Rightarrow> ipv4_bits option" where
  "dns_resolve E D p host0 =
     (let host_text = unbracket_ipv6 (trim_text host0) in
      case literal_ipv4 E host_text of
        Some v4 \<Rightarrow> Some v4
      | None \<Rightarrow> if parse_ipv6 host_text \<noteq> None then None else resolve_ipv4 D p host_text)"

definition is_resolvable :: "external \<Rightarrow> dns \<Rightarrow> pac_policy \<Rightarrow> string \<Rightarrow> bool" where
  "is_resolvable E D p host0 =
     (let host_text = unbracket_ipv6 (trim_text host0) in
      if literal_ipv4 E host_text \<noteq> None \<or> parse_ipv6 host_text \<noteq> None then True
      else resolve_ipv4 D p host_text \<noteq> None)"

definition is_in_net :: "external \<Rightarrow> dns \<Rightarrow> pac_policy \<Rightarrow> string \<Rightarrow> string \<Rightarrow> string \<Rightarrow> bool" where
  "is_in_net E D p host_text pattern netmask =
     (case (reference_ipv4 pattern, reference_ipv4 netmask) of
        (Some pat, Some m) \<Rightarrow>
          (case or_else (reference_ipv4 host_text) (dns_resolve E D p host_text) of
             None \<Rightarrow> False
           | Some a \<Rightarrow> a AND m = pat AND m)
      | _ \<Rightarrow> False)"

section \<open>Dates\<close>

definition weekday_range :: "int \<Rightarrow> pac_policy \<Rightarrow> string list \<Rightarrow> bool" where
  "weekday_range clock p args0 =
     (let (args, gmt) = split_gmt args0 in
      if args = [] \<or> 2 < length args then False
      else (case weekday_index (hd args) of
              None \<Rightarrow> False
            | Some first \<Rightarrow>
                (case (case get_opt args 1 of
                         Some name \<Rightarrow> weekday_index name | None \<Rightarrow> Some first) of
                   None \<Rightarrow> False
                 | Some final \<Rightarrow> in_cyclic_range (cv_weekday (civil_now clock p gmt)) first final)))"

datatype date_part = DayPart int | MonthPart int | YearPart int

definition classify_date_part :: "string \<Rightarrow> date_part option" where
  "classify_date_part text =
     (case month_index text of
        Some month \<Rightarrow> Some (MonthPart month)
      | None \<Rightarrow>
          (case number text of
             None \<Rightarrow> None
           | Some v \<Rightarrow>
               if 1 \<le> v \<and> v \<le> 31 then Some (DayPart v)
               else if 1000 \<le> v then Some (YearPart v) else None))"

fun all_some :: "'a option list \<Rightarrow> 'a list option" where
  "all_some [] = Some []"
| "all_some (None # xs) = None"
| "all_some (Some x # xs) = map_option (\<lambda>ys. x # ys) (all_some xs)"

definition checked_my :: "int \<Rightarrow> int \<Rightarrow> int option" where
  "checked_my year month = Option.bind (checked (year * 100)) (\<lambda>v. checked (v + month))"

definition checked_ymd :: "int \<Rightarrow> int \<Rightarrow> int \<Rightarrow> int option" where
  "checked_ymd year month day =
     Option.bind (checked (year * 10000)) (\<lambda>v. checked (v + (month * 100 + day)))"

definition checked_hms :: "int \<Rightarrow> int \<Rightarrow> int \<Rightarrow> int option" where
  "checked_hms hour minute second =
     Option.bind (checked (hour * 3600)) (\<lambda>h.
       Option.bind (checked (minute * 60)) (\<lambda>m.
         Option.bind (checked (h + m)) (\<lambda>v. checked (v + second))))"

definition date_key :: "civil \<Rightarrow> int" where
  "date_key now = cv_year now * 10000 + cv_month now * 100 + cv_day now"

text \<open>A range whose ends may not fit: such a range does not match.\<close>

definition in_checked_range :: "int \<Rightarrow> int option \<Rightarrow> int option \<Rightarrow> bool" where
  "in_checked_range value lo hi =
     (case (lo, hi) of (Some l, Some h) \<Rightarrow> in_cyclic_range value l h | _ \<Rightarrow> False)"

definition date_parts_match :: "civil \<Rightarrow> date_part list \<Rightarrow> bool" where
  "date_parts_match now parts =
     (case parts of
        [DayPart day] \<Rightarrow> cv_day now = day
      | [MonthPart month] \<Rightarrow> cv_month now = month
      | [YearPart year] \<Rightarrow> cv_year now = year
      | [DayPart lo, DayPart hi] \<Rightarrow> in_cyclic_range (cv_day now) lo hi
      | [MonthPart lo, MonthPart hi] \<Rightarrow> in_cyclic_range (cv_month now) lo hi
      | [YearPart lo, YearPart hi] \<Rightarrow> in_cyclic_range (cv_year now) lo hi
      | [DayPart d1, MonthPart m1, DayPart d2, MonthPart m2] \<Rightarrow>
          in_cyclic_range (cv_month now * 100 + cv_day now) (m1 * 100 + d1) (m2 * 100 + d2)
      | [MonthPart m1, YearPart y1, MonthPart m2, YearPart y2] \<Rightarrow>
          in_checked_range (cv_year now * 100 + cv_month now) (checked_my y1 m1) (checked_my y2 m2)
      | [DayPart d1, MonthPart m1, YearPart y1, DayPart d2, MonthPart m2, YearPart y2] \<Rightarrow>
          in_checked_range (date_key now) (checked_ymd y1 m1 d1) (checked_ymd y2 m2 d2)
      | _ \<Rightarrow> False)"

definition date_range :: "int \<Rightarrow> pac_policy \<Rightarrow> string list \<Rightarrow> bool" where
  "date_range clock p args0 =
     (let (args, gmt) = split_gmt args0 in
      case all_some (map classify_date_part args) of
        None \<Rightarrow> False
      | Some parts \<Rightarrow> date_parts_match (civil_now clock p gmt) parts)"

definition time_range :: "int \<Rightarrow> pac_policy \<Rightarrow> string list \<Rightarrow> bool" where
  "time_range clock p args0 =
     (let (args, gmt) = split_gmt args0 in
      case all_some (map number args) of
        None \<Rightarrow> False
      | Some values \<Rightarrow>
          (let now = civil_now clock p gmt;
               seconds = cv_hour now * 3600 + cv_minute now * 60 + cv_second now
           in case values of
                [hour] \<Rightarrow> cv_hour now = hour
              | [lo, hi] \<Rightarrow> lo \<le> cv_hour now \<and> cv_hour now \<le> hi
              | [h1, m1, h2, m2] \<Rightarrow>
                  in_checked_range seconds (checked_hms h1 m1 0) (checked_hms h2 m2 59)
              | [h1, m1, s1, h2, m2, s2] \<Rightarrow>
                  in_checked_range seconds (checked_hms h1 m1 s1) (checked_hms h2 m2 s2)
              | _ \<Rightarrow> False))"

end
