(* ===== verification/Pac_Calendar.thy ===== *)
theory Pac_Calendar
  imports Pac_Time
begin

text \<open>
  The calendar of \<open>src/pac/time.rs\<close> against the rules of the Gregorian calendar, stated as the
  step from a day to the next.
\<close>

section \<open>The calendar by its rules\<close>

definition leap :: "int \<Rightarrow> bool" where
  "leap y \<longleftrightarrow> y mod 4 = 0 \<and> (y mod 100 \<noteq> 0 \<or> y mod 400 = 0)"

definition month_length :: "int \<Rightarrow> int \<Rightarrow> int" where
  "month_length y m =
     (if m = 2 then (if leap y then 29 else 28)
      else if m = 4 \<or> m = 6 \<or> m = 9 \<or> m = 11 then 30 else 31)"

fun next_day :: "int \<times> int \<times> int \<Rightarrow> int \<times> int \<times> int" where
  "next_day (y, m, d) =
     (if d < month_length y m then (y, m, d + 1)
      else if m < 12 then (y, m + 1, 1) else (y + 1, 1, 1))"

section \<open>The algorithm in eras of 400 years\<close>

lemma quot_nonneg: "0 \<le> a \<Longrightarrow> 0 < b \<Longrightarrow> quot a b = a div b"
  by (cases "a = 0") (simp_all add: quot_def)

lemma quot_era: "quot (if 0 \<le> z then z else z - 146096) 146097 = z div 146097"
proof (cases "0 \<le> z")
  case False
  have "146096 - z = 146097 * (- (z div 146097)) + (146096 - z mod 146097)"
    using mult_div_mod_eq [of 146097 z] by linarith
  then have "(146096 - z) div 146097 = - (z div 146097)"
    using pos_mod_bound [of 146097 z] pos_mod_sign [of 146097 z]
    by (intro int_div_pos_eq [where r = "146096 - z mod 146097"]) simp_all
  then show ?thesis using False by (simp add: quot_def)
qed (simp add: quot_nonneg)

definition year_start :: "int \<Rightarrow> int" where
  "year_start y = 365 * y + y div 4 - y div 100"

definition year_of_era :: "int \<Rightarrow> int" where
  "year_of_era doe = (doe - doe div 1460 + doe div 36524 - doe div 146096) div 365"

definition march_date :: "int \<Rightarrow> int \<times> int" where
  "march_date doy =
     (let mp = (5 * doy + 2) div 153
      in (if mp < 10 then mp + 3 else mp - 9, doy - (153 * mp + 2) div 5 + 1))"

definition era_date :: "int \<Rightarrow> int \<times> int \<times> int" where
  "era_date doe =
     (let yoe = year_of_era doe; (m, d) = march_date (doe - year_start yoe)
      in (if m \<le> 2 then yoe + 1 else yoe, m, d))"

definition add_years :: "int \<Rightarrow> int \<times> int \<times> int \<Rightarrow> int \<times> int \<times> int" where
  "add_years n ymd = (case ymd of (y, m, d) \<Rightarrow> (y + n, m, d))"

definition year_step :: "int \<Rightarrow> bool" where
  "year_step y \<longleftrightarrow> (year_of_era (year_start y) = y
     \<and> year_of_era (year_start (y + 1) - 1) = y
     \<and> year_start (y + 1) - year_start y = (if leap (y + 1) \<and> y < 399 then 366 else 365))"

lemma year_steps: "list_all year_step [0..399]"
  by code_simp

definition month_step :: "int \<Rightarrow> bool" where
  "month_step doy \<longleftrightarrow> (let (m, d) = march_date doy; (m', d') = march_date (doy + 1)
     in 1 \<le> m \<and> m \<le> 12 \<and> (if d < month_length 1 m then m' = m \<and> d' = d + 1
        else m \<noteq> 2 \<and> m' = (if m < 12 then m + 1 else 1) \<and> d' = 1))"

lemma month_steps: "list_all month_step [0..363]"
  by code_simp

lemma year_step_at: "0 \<le> y \<Longrightarrow> y < 400 \<Longrightarrow> year_step y"
  using year_steps by (simp add: list_all_iff)

lemma month_step_at: "0 \<le> doy \<Longrightarrow> doy < 364 \<Longrightarrow> month_step doy"
  using month_steps by (simp add: list_all_iff)

lemma div_step: "0 < (k::int) \<Longrightarrow> a \<le> b \<Longrightarrow> b div k \<le> a div k + (b - a)"
proof -
  assume k: "0 < k" and le: "a \<le> b"
  have "b - a \<le> k * (b - a)" using k le mult_right_mono [of 1 k "b - a"] by simp
  then have "b \<le> a + k * (b - a)" by linarith
  then have "b div k \<le> (a + k * (b - a)) div k" using k by (rule zdiv_mono1)
  then show ?thesis using k by simp
qed

lemma year_of_era_mono:
  assumes "0 \<le> a" "a \<le> b" "b < 146096"
  shows "year_of_era a \<le> year_of_era b"
proof -
  have "b div 1460 \<le> a div 1460 + (b - a)" using assms by (intro div_step) simp_all
  moreover have "a div 36524 \<le> b div 36524" using assms by (intro zdiv_mono1) simp_all
  moreover have "a div 146096 = 0" "b div 146096 = 0" using assms by (simp_all add: div_pos_pos_trivial)
  ultimately show ?thesis unfolding year_of_era_def by (intro zdiv_mono1) simp_all
qed

lemma year_start_400: "year_start 400 = 146096" "year_start 0 = 0"
  by (simp_all add: year_start_def)

lemma year_start_mono: "0 \<le> x \<Longrightarrow> x \<le> y \<Longrightarrow> year_start x \<le> year_start y"
proof -
  assume "0 \<le> x" "x \<le> y"
  then have "x div 4 \<le> y div 4" "y div 100 \<le> x div 100 + (y - x)"
    by (auto intro: zdiv_mono1 div_step)
  then show ?thesis using \<open>x \<le> y\<close> by (simp add: year_start_def)
qed

lemma year_of_era_eq:
  assumes "0 \<le> y" "y < 400" "year_start y \<le> doe" "doe < year_start (y + 1)"
  shows "year_of_era doe = y"
proof -
  have step: "year_step y" using assms by (intro year_step_at)
  have "year_start (y + 1) \<le> 146096" "0 \<le> year_start y"
    using year_start_mono [of "y + 1" 400] year_start_mono [of 0 y] assms by (simp_all add: year_start_400)
  then have "year_of_era (year_start y) \<le> year_of_era doe"
    "year_of_era doe \<le> year_of_era (year_start (y + 1) - 1)"
    using assms by (auto intro: year_of_era_mono)
  then show ?thesis using step by (simp add: year_step_def)
qed

lemma year_exists:
  assumes "0 \<le> doe"
  shows "doe < 146096 \<longrightarrow> (\<exists>y. 0 \<le> y \<and> y < 400 \<and> year_start y \<le> doe \<and> doe < year_start (y + 1))"
  using assms
proof (induction doe rule: int_ge_induct)
  case base
  show ?case by (intro impI exI [of _ 0]) (simp add: year_start_def)
next
  case (step doe)
  show ?case
  proof
    assume small: "doe + 1 < 146096"
    then obtain y where y: "0 \<le> y" "y < 400" "year_start y \<le> doe" "doe < year_start (y + 1)"
      using step.IH by auto
    show "\<exists>y. 0 \<le> y \<and> y < 400 \<and> year_start y \<le> doe + 1 \<and> doe + 1 < year_start (y + 1)"
    proof (cases "doe + 1 < year_start (y + 1)")
      case False
      then have e: "doe + 1 = year_start (y + 1)" using y by simp
      then have lt: "y + 1 < 400" using y small by (cases "y = 399") (simp_all add: year_start_400)
      then have "year_step (y + 1)" using y by (intro year_step_at) simp_all
      then have "year_start (y + 1) < year_start (y + 1 + 1)"
        by (simp add: year_step_def split: if_splits)
      then show ?thesis using e lt y by (intro exI [of _ "y + 1"]) simp
    qed (use y in \<open>auto\<close>)
  qed
qed

lemma march_ends:
  "march_date 0 = (3, 1)" "march_date 364 = (2, 28)" "march_date 365 = (2, 29)"
  by (simp_all add: march_date_def Let_def)

lemma month_step_date:
  assumes "let (m, d) = (m1, d1); (m', d') = (m2, d2)
     in 1 \<le> m \<and> m \<le> 12 \<and> (if d < month_length 1 m then m' = m \<and> d' = d + 1
        else m \<noteq> 2 \<and> m' = (if m < 12 then m + 1 else 1) \<and> d' = 1)"
  shows "(let (m, d) = (m2, d2) in (if m \<le> 2 then y + 1 else y, m, d))
    = next_day (let (m, d) = (m1, d1) in (if m \<le> 2 then y + 1 else y, m, d))"
proof -
  have "\<not> leap 1" by (simp add: leap_def)
  then show ?thesis using assms
    by (cases "m1 = 2") (auto simp: month_length_def split: if_splits)
qed

lemma era_step:
  assumes "0 \<le> doe" "doe < 146096"
  shows "era_date (doe + 1) = next_day (era_date doe)"
proof -
  obtain y where y: "0 \<le> y" "y < 400" "year_start y \<le> doe" "doe < year_start (y + 1)"
    using year_exists [of doe] assms by auto
  have len: "year_start (y + 1) - year_start y = (if leap (y + 1) \<and> y < 399 then 366 else 365)"
    using year_step_at [of y] y by (simp add: year_step_def)
  have yoe: "year_of_era doe = y" using y by (rule year_of_era_eq)
  define doy where "doy = doe - year_start y"
  have doy: "0 \<le> doy" "doy \<le> 365" using y len by (auto simp: doy_def split: if_splits)
  have here: "era_date doe = (let (m, d) = march_date doy in (if m \<le> 2 then y + 1 else y, m, d))"
    by (simp add: era_date_def Let_def yoe doy_def)
  show ?thesis
  proof (cases "doe + 1 < year_start (y + 1)")
    case True
    have "year_of_era (doe + 1) = y" using y True by (intro year_of_era_eq) simp_all
    then have there: "era_date (doe + 1)
        = (let (m, d) = march_date (doy + 1) in (if m \<le> 2 then y + 1 else y, m, d))"
      by (simp add: era_date_def Let_def doy_def algebra_simps)
    show ?thesis
    proof (cases "doy < 364")
      case True
      then have step: "month_step doy" using doy by (intro month_step_at)
      obtain m d m' d' where md: "march_date doy = (m, d)" "march_date (doy + 1) = (m', d')"
        by fastforce
      show ?thesis using step unfolding here there month_step_def md by (rule month_step_date)
    next
      case False
      then have "doy = 364" "leap (y + 1)" using True len by (auto simp: doy_def split: if_splits)
      then show ?thesis unfolding here there by (simp add: march_ends month_length_def)
    qed
  next
    case False
    then have e: "doe + 1 = year_start (y + 1)" using y by simp
    show ?thesis
    proof (cases "y = 399")
      case True
      then have "doe = 146095" using e by (simp add: year_start_400)
      moreover have "era_date 146096 = next_day (era_date 146095)" by code_simp
      ultimately show ?thesis by simp
    next
      case False
      then have "year_step (y + 1)" using y by (intro year_step_at) simp_all
      then have there: "era_date (doe + 1) = (y + 1, 3, 1)"
        unfolding e by (simp add: era_date_def year_step_def march_ends)
      have "doy = (if leap (y + 1) then 365 else 364)"
        using e len False y by (auto simp: doy_def split: if_splits)
      then show ?thesis unfolding here there by (simp add: march_ends month_length_def)
    qed
  qed
qed

section \<open>Every day\<close>

lemma add_years_next: "next_day (add_years (400 * n) ymd) = add_years (400 * n) (next_day ymd)"
proof (cases ymd)
  case (fields y m d)
  have "(y + 400 * n) mod 4 = y mod 4" "(y + 400 * n) mod 100 = y mod 100"
    using mod_mult_self2 [of y 4 "100 * n"] mod_mult_self2 [of y 100 "4 * n"] by simp_all
  moreover have "(y + 400 * n) mod 400 = y mod 400" by simp
  ultimately have "leap (y + 400 * n) = leap y" by (simp add: leap_def)
  then show ?thesis using fields by (simp add: add_years_def month_length_def)
qed

lemma add_years_add: "add_years a (add_years b ymd) = add_years (b + a) ymd"
  by (cases ymd) (simp add: add_years_def)

lemma day_of_year_bounds:
  assumes "0 \<le> doe" "doe \<le> 146096"
  shows "0 \<le> year_of_era doe" "0 \<le> doe - year_start (year_of_era doe)"
proof -
  have last: "year_of_era 146096 = 399" "year_start 399 = 145731"
    by (simp_all add: year_of_era_def year_start_def)
  show "0 \<le> year_of_era doe" "0 \<le> doe - year_start (year_of_era doe)"
    using year_exists [of doe] year_of_era_eq [of _ doe] last assms
    by (cases "doe = 146096"; force)+
qed

lemma civil_by_eras:
  "civil_from_days z0 =
     add_years (400 * ((z0 + 719468) div 146097)) (era_date ((z0 + 719468) mod 146097))"
proof -
  define z where "z = z0 + 719468"
  define doe where "doe = z mod 146097"
  have doe: "0 \<le> doe" "doe \<le> 146096" using pos_mod_bound [of 146097 z] by (auto simp: doe_def)
  have e: "z - z div 146097 * 146097 = doe" by (simp add: doe_def minus_div_mult_eq_mod)
  have "doe div 1460 \<le> doe" "doe div 146096 \<le> 1"
    using div_step [of 1460 0 doe] zdiv_mono1 [of doe 146096 146096] doe by simp_all
  moreover have "0 \<le> doe div 36524" "doe div 146096 = 0 \<or> doe = 146096"
    using doe by (auto intro: div_pos_pos_trivial simp: pos_imp_zdiv_nonneg_iff)
  ultimately have "0 \<le> doe - doe div 1460 + doe div 36524 - doe div 146096" by auto
  then have yoe: "quot (doe - quot doe 1460 + quot doe 36524 - quot doe 146096) 365 = year_of_era doe"
    using doe by (simp add: quot_nonneg year_of_era_def)
  define doy where "doy = doe - year_start (year_of_era doe)"
  have doy: "0 \<le> doy" "0 \<le> (5 * doy + 2) div 153"
    using day_of_year_bounds(2) [OF doe] by (simp_all add: doy_def)
  have left: "doe - (365 * year_of_era doe + quot (year_of_era doe) 4 - quot (year_of_era doe) 100) = doy"
    using day_of_year_bounds(1) [OF doe] by (simp add: quot_nonneg doy_def year_start_def)
  have mp: "quot (5 * doy + 2) 153 = (5 * doy + 2) div 153"
    "quot (153 * ((5 * doy + 2) div 153) + 2) 5 = (153 * ((5 * doy + 2) div 153) + 2) div 5"
    using doy by (simp_all add: quot_nonneg)
  show ?thesis
    unfolding civil_from_days_def Let_def z_def [symmetric] quot_era e yoe left mp
      era_date_def march_date_def doe_def [symmetric] doy_def [symmetric]
    by (simp add: add_years_def)
qed

lemma calendar_step: "civil_from_days (z + 1) = next_day (civil_from_days z)"
proof -
  define w where "w = z + 719468"
  define doe where "doe = w mod 146097"
  have doe: "0 \<le> doe" "doe \<le> 146096" using pos_mod_bound [of 146097 w] by (auto simp: doe_def)
  have w: "w = 146097 * (w div 146097) + doe" by (simp add: doe_def)
  have days: "civil_from_days (z + 1)
      = add_years (400 * ((w + 1) div 146097)) (era_date ((w + 1) mod 146097))"
    "civil_from_days z = add_years (400 * (w div 146097)) (era_date doe)"
    using civil_by_eras [of "z + 1"] civil_by_eras [of z] by (simp_all add: w_def doe_def algebra_simps)
  show ?thesis
  proof (cases "doe = 146096")
    case True
    then have "w + 1 = 146097 * (w div 146097 + 1)" using w by simp
    then have "(w + 1) div 146097 = w div 146097 + 1" "(w + 1) mod 146097 = 0"
      by (metis nonzero_mult_div_cancel_left zero_neq_numeral, metis mod_mult_self1_is_0)
    moreover have "next_day (era_date 146096) = add_years 400 (era_date 0)" by code_simp
    ultimately show ?thesis
      using True by (simp add: days add_years_next add_years_add distrib_left add.commute [of 400] del: next_day.simps)
  next
    case False
    then have "(w + 1) div 146097 = w div 146097" "(w + 1) mod 146097 = doe + 1"
      using w doe by (auto intro!: int_div_pos_eq [where r = "doe + 1"] int_mod_pos_eq [where q = "w div 146097"])
    then show ?thesis using era_step [of doe] doe False
      by (simp add: days add_years_next del: next_day.simps)
  qed
qed

text \<open>C9. The calendar counts days: day 0 is the first of January 1970, and the day after any
  day, before or after the epoch, is the next one of the Gregorian calendar.\<close>

theorem civil_from_days_counts_days:
  "civil_from_days 0 = (1970, 1, 1)
   \<and> civil_from_days (z + 1) = next_day (civil_from_days z)"
proof
  show "civil_from_days 0 = (1970, 1, 1)" by code_simp
qed (rule calendar_step)

end
