(* ===== verification/Pac_Dispatch.thy ===== *)
theory Pac_Dispatch
  imports Resolve Pac_Time
begin

text \<open>
  \<open>src/pac/mod.rs\<close> and \<open>src/pac/dispatch.rs\<close>: what a mode needs before it can be routed, what
  of a URL a script is shown, and the resolver that hands each mode to its engine. The
  engines and the setters of the crate \<open>url\<close> are arguments.
\<close>

section \<open>What a mode needs\<close>

datatype pac_requirement = NotNeeded | Inline string | Fetch url | Discover

fun requirement :: "proxy_mode \<Rightarrow> pac_requirement" where
  "requirement (Pac u r) = Fetch u"
| "requirement (PacInline script r) = Inline script"
| "requirement WpadAutoDetect = Discover"
| "requirement Direct = NotNeeded"
| "requirement (Manual m b r) = NotNeeded"

fun script_from_mode :: "proxy_mode \<Rightarrow> string option" where
  "script_from_mode (PacInline script r) = Some script"
| "script_from_mode (Pac u r) = None"
| "script_from_mode WpadAutoDetect = None"
| "script_from_mode Direct = None"
| "script_from_mode (Manual m b r) = None"

section \<open>What a script is shown of a URL\<close>

text \<open>The setters of a URL; \<open>None\<close> is a refusal, which leaves the URL as it was.\<close>

record url_ops =
  clear_username :: "url \<Rightarrow> url option"
  clear_password :: "url \<Rightarrow> url option"
  set_host_x :: "url \<Rightarrow> url option"
  set_host_empty :: "url \<Rightarrow> url option"
  has_authority :: "url \<Rightarrow> bool"
  clear_fragment :: "url \<Rightarrow> url"
  root_path :: "url \<Rightarrow> url"
  clear_query :: "url \<Rightarrow> url"
  host_str :: "url \<Rightarrow> string option"

definition lend_host :: "url_ops \<Rightarrow> url \<Rightarrow> url option" where
  "lend_host U u =
     Option.bind (set_host_x U u) (\<lambda>u1.
       Option.bind (clear_username U u1) (\<lambda>u2.
         Option.bind (clear_password U u2) (set_host_empty U)))"

definition sanitize_url :: "url_ops \<Rightarrow> url \<Rightarrow> url" where
  "sanitize_url U u =
     (let refused = (clear_username U u = None);
          u1 = unwrap_or u (clear_username U u);
          u2 = unwrap_or u1 (clear_password U u1);
          u3 = (if refused \<and> has_authority U u2 then unwrap_or u2 (lend_host U u2) else u2);
          u4 = clear_fragment U u3
      in if url_scheme u4 = ''https'' \<or> url_scheme u4 = ''wss''
         then clear_query U (root_path U u4) else u4)"

section \<open>Evaluating\<close>

text \<open>An engine runs a script for a URL and a host; the built-in one, when the build has it, is
  given the policy first.\<close>

type_synonym engine = "string \<Rightarrow> url \<Rightarrow> string \<Rightarrow> proxy_error + proxy_step list"

definition evaluate_with_host ::
    "url_ops \<Rightarrow> (pac_policy \<Rightarrow> engine) option \<Rightarrow> string \<Rightarrow> url \<Rightarrow> string \<Rightarrow> pac_policy
       \<Rightarrow> proxy_error + proxy_step list" where
  "evaluate_with_host U builtin script u host_text p =
     (case builtin of
        Some quickjs \<Rightarrow> quickjs p script (sanitize_url U u) host_text
      | None \<Rightarrow> Inl PacEngineUnavailable)"

definition evaluate ::
    "url_ops \<Rightarrow> (pac_policy \<Rightarrow> engine) option \<Rightarrow> string \<Rightarrow> url \<Rightarrow> pac_policy
       \<Rightarrow> proxy_error + proxy_step list" where
  "evaluate U builtin script u p =
     evaluate_with_host U builtin script u (unwrap_or [] (host_str U u)) p"

section \<open>The resolver\<close>

record pac_resolver =
  pr_policy :: pac_policy
  pr_evaluator :: "engine option"
  pr_native :: "(proxy_config \<Rightarrow> url \<Rightarrow> proxy_error + proxy_step list) option"

definition resolver_new :: "pac_policy \<Rightarrow> pac_resolver" where
  "resolver_new p = \<lparr> pr_policy = p, pr_evaluator = None, pr_native = None \<rparr>"

definition with_native ::
    "(proxy_config \<Rightarrow> url \<Rightarrow> proxy_error + proxy_step list) \<Rightarrow> pac_resolver \<Rightarrow> pac_resolver" where
  "with_native native r = r\<lparr>pr_native := Some native\<rparr>"

definition with_evaluator :: "engine \<Rightarrow> pac_resolver \<Rightarrow> pac_resolver" where
  "with_evaluator e r = r\<lparr>pr_evaluator := Some e\<rparr>"

definition mode_is_fetched :: "proxy_mode \<Rightarrow> bool" where
  "mode_is_fetched mode \<longleftrightarrow> (case mode of Pac _ _ \<Rightarrow> True | WpadAutoDetect \<Rightarrow> True | _ \<Rightarrow> False)"

definition resolve_config ::
    "external \<Rightarrow> url_ops \<Rightarrow> (pac_policy \<Rightarrow> engine) option \<Rightarrow> pac_resolver \<Rightarrow> proxy_config \<Rightarrow> url
       \<Rightarrow> string option \<Rightarrow> proxy_error + proxy_step list" where
  "resolve_config E U builtin r c u script =
     (case (pr_native r, script, mode_is_fetched (effective c)) of
        (Some native, None, True) \<Rightarrow> native c u
      | _ \<Rightarrow>
          resolve_with_pac_using E c u script
            (\<lambda>s. case pr_evaluator r of
                   Some e \<Rightarrow> e s (sanitize_url U u) (unwrap_or [] (host_str U u))
                 | None \<Rightarrow> evaluate U builtin s u (pr_policy r)))"

end
