(* ===== verification/Pac_Budget.thy ===== *)
theory Pac_Budget
  imports Diagnostic
begin

text \<open>
  \<open>src/pac/budget.rs\<close>: the slots that bound the evaluations of a process, the calls that wait
  for one, and the evaluation threads, which are kept idle between two scripts. What is done
  under one lock, or in one send or receive, is one step; the steps of calls and threads
  interleave in any order. Time does not appear: a deadline may pass at any step.
\<close>

section \<open>One call\<close>

text \<open>What a call receives from its thread within its budget.\<close>

datatype 'a reply = Answered 'a | TimedOut | Disconnected

definition run_with_timeout ::
    "nat \<Rightarrow> nat \<Rightarrow> bool \<Rightarrow> string option \<Rightarrow> (proxy_error + 's) reply \<Rightarrow> proxy_error + 's" where
  "run_with_timeout timeout limit acquired spawn_error received =
     (if timeout = 0 then Inl (PacTimeout timeout)
      else if \<not> acquired then Inl (PacSaturated timeout limit)
      else (case spawn_error of
              Some e \<Rightarrow> Inl (error_io ''spawning the PAC evaluation thread'' e)
            | None \<Rightarrow>
                (case received of
                   Answered result \<Rightarrow> result
                 | TimedOut \<Rightarrow> Inl (PacTimeout timeout)
                 | Disconnected \<Rightarrow>
                     Inl (error_pac_evaluation
                       ''the PAC evaluation thread ended without producing a result''))))"

section \<open>The state\<close>

text \<open>Where a thread is in \<open>work\<close>: at its first receive, in a script, listed as idle with the
  slot still held, with the reply still to send, waiting out \<open>linger\<close>, or waiting for a job
  that is on its way. \<open>mail\<close> is whether its channel holds a job.\<close>

datatype phase = Starting | Running | Parked | Replying | Lingering | Awaiting | Gone

record thread =
  phase :: phase
  mail :: bool

text \<open>\<open>pending\<close> calls hold a slot and look for a thread; \<open>sending\<close> are the threads taken off the
  list, each for a call that is about to hand it its job; \<open>creating\<close> calls found none.
  \<open>conversing\<close> are the slots of worker processes. A call waits asleep, or awake until it has
  looked at the count again; a wake-up follows a release in a step of its own.\<close>

record idle_entry =
  idle_id :: nat
  idle_process :: nat

record budget =
  taken :: nat
  asleep :: nat
  awake :: nat
  wakeups :: nat
  pending :: nat
  conversing :: nat
  creating :: nat
  sending :: "nat list"
  idle :: "idle_entry list"
  threads :: "thread list"

text \<open>The state a process finds: \<open>Slots::new\<close>, or in a child of \<open>fork\<close> the parent's list of idle
  threads and its count of taken slots, none of whose threads the child has. Thread ids go on
  from the parent's \<open>NEXT_THREAD\<close>.\<close>

definition budget_inherited :: "nat \<Rightarrow> nat \<Rightarrow> idle_entry list \<Rightarrow> budget" where
  "budget_inherited lost ids entries =
     \<lparr> taken = lost, asleep = 0, awake = 0, wakeups = 0, pending = 0, conversing = 0,
       creating = 0, sending = [], idle = entries,
       threads = replicate ids \<lparr> phase = Gone, mail = False \<rparr> \<rparr>"

definition budget_new :: budget where
  "budget_new = budget_inherited 0 0 []"

definition set_thread :: "nat \<Rightarrow> phase \<Rightarrow> bool \<Rightarrow> budget \<Rightarrow> budget" where
  "set_thread t p m b = b\<lparr>threads := (threads b)[t := \<lparr> phase = p, mail = m \<rparr>]\<rparr>"

definition in_phase :: "budget \<Rightarrow> nat \<Rightarrow> phase \<Rightarrow> bool" where
  "in_phase b t p \<longleftrightarrow> (case get_opt (threads b) t of None \<Rightarrow> False | Some th \<Rightarrow> phase th = p)"

definition has_mail :: "budget \<Rightarrow> nat \<Rightarrow> bool" where
  "has_mail b t \<longleftrightarrow> (case get_opt (threads b) t of None \<Rightarrow> False | Some th \<Rightarrow> mail th)"

section \<open>The steps\<close>

text \<open>\<open>None\<close>: the step cannot be taken. \<open>Slot::drop\<close> gives the slot back and wakes a call after.\<close>

definition slot_drop :: "budget \<Rightarrow> budget" where
  "slot_drop b = b\<lparr>taken := taken b - 1, wakeups := wakeups b + 1\<rparr>"

definition notify_one :: "budget \<Rightarrow> budget option" where
  "notify_one b =
     (if wakeups b = 0 then None
      else if asleep b = 0 then Some (b\<lparr>wakeups := wakeups b - 1\<rparr>)
      else Some (b\<lparr>wakeups := wakeups b - 1, asleep := asleep b - 1, awake := awake b + 1\<rparr>))"

text \<open>A slot for an evaluation in the process, or for a worker.\<close>

definition take_slot :: "bool \<Rightarrow> budget \<Rightarrow> budget" where
  "take_slot worker b =
     (if worker then b\<lparr>taken := taken b + 1, conversing := conversing b + 1\<rparr>
      else b\<lparr>taken := taken b + 1, pending := pending b + 1\<rparr>)"

definition acquire_arrive :: "nat \<Rightarrow> bool \<Rightarrow> bool \<Rightarrow> budget \<Rightarrow> budget option" where
  "acquire_arrive limit worker deadline_passed b =
     (if taken b < limit then Some (take_slot worker b)
      else if deadline_passed then Some b else Some (b\<lparr>asleep := asleep b + 1\<rparr>))"

definition acquire_timeout :: "budget \<Rightarrow> budget option" where
  "acquire_timeout b =
     (if asleep b = 0 then None else Some (b\<lparr>asleep := asleep b - 1, awake := awake b + 1\<rparr>))"

definition acquire_again :: "nat \<Rightarrow> bool \<Rightarrow> bool \<Rightarrow> budget \<Rightarrow> budget option" where
  "acquire_again limit worker deadline_passed b =
     (if awake b = 0 then None
      else
        (let b' = b\<lparr>awake := awake b - 1\<rparr> in
         if taken b < limit then Some (take_slot worker b')
         else if deadline_passed then Some b' else Some (b'\<lparr>asleep := asleep b + 1\<rparr>)))"

definition worker_ends :: "budget \<Rightarrow> budget option" where
  "worker_ends b =
     (if conversing b = 0 then None else Some (slot_drop (b\<lparr>conversing := conversing b - 1\<rparr>)))"

text \<open>An entry another process left is dropped, and the call looks again.\<close>

definition dispatch_pop :: "nat \<Rightarrow> budget \<Rightarrow> budget option" where
  "dispatch_pop process b =
     (if pending b = 0 then None
      else if idle b = [] then Some (b\<lparr>pending := pending b - 1, creating := creating b + 1\<rparr>)
      else
        (let entry = last (idle b);
             b' = b\<lparr>idle := butlast (idle b)\<rparr> in
         if idle_process entry \<noteq> process then Some b'
         else Some (b'\<lparr>pending := pending b - 1, sending := idle_id entry # sending b\<rparr>)))"

text \<open>The send to a thread that has ended fails and the call looks for another.\<close>

definition dispatch_send :: "nat \<Rightarrow> budget \<Rightarrow> budget option" where
  "dispatch_send t b =
     (if t \<notin> set (sending b) then None
      else
        (let b' = b\<lparr>sending := remove1 t (sending b)\<rparr> in
         case get_opt (threads b) t of
           None \<Rightarrow> None
         | Some th \<Rightarrow>
             if phase th = Gone then Some (b'\<lparr>pending := pending b + 1\<rparr>)
             else if mail th then None
             else Some (set_thread t (phase th) True b')))"

definition dispatch_spawn :: "bool \<Rightarrow> budget \<Rightarrow> budget option" where
  "dispatch_spawn succeeds b =
     (if creating b = 0 then None
      else
        (let b' = b\<lparr>creating := creating b - 1\<rparr> in
         if succeeds
         then Some (b'\<lparr>threads := threads b @ [\<lparr> phase = Starting, mail = True \<rparr>]\<rparr>)
         else Some (slot_drop b')))"

definition work_receive :: "nat \<Rightarrow> budget \<Rightarrow> budget option" where
  "work_receive t b =
     (if has_mail b t \<and> (in_phase b t Starting \<or> in_phase b t Lingering \<or> in_phase b t Awaiting)
      then Some (set_thread t Running False b) else None)"

definition work_finish :: "nat \<Rightarrow> nat \<Rightarrow> budget \<Rightarrow> budget option" where
  "work_finish process t b =
     (if in_phase b t Running
      then Some (set_thread t Parked (has_mail b t)
                  (b\<lparr>idle := idle b @ [\<lparr> idle_id = t, idle_process = process \<rparr>]\<rparr>))
      else None)"

definition work_panic :: "nat \<Rightarrow> budget \<Rightarrow> budget option" where
  "work_panic t b =
     (if in_phase b t Running then Some (slot_drop (set_thread t Gone (has_mail b t) b)) else None)"

definition work_free :: "nat \<Rightarrow> budget \<Rightarrow> budget option" where
  "work_free t b =
     (if in_phase b t Parked then Some (slot_drop (set_thread t Replying (has_mail b t) b)) else None)"

definition work_reply :: "nat \<Rightarrow> budget \<Rightarrow> budget option" where
  "work_reply t b =
     (if in_phase b t Replying then Some (set_thread t Lingering (has_mail b t) b) else None)"

text \<open>\<open>Vec::swap_remove\<close>: the last element takes the removed one's place.\<close>

definition swap_remove :: "'a list \<Rightarrow> nat \<Rightarrow> 'a list" where
  "swap_remove xs at = (if at + 1 = length xs then butlast xs else butlast (xs[at := last xs]))"

fun entry_position :: "nat \<Rightarrow> idle_entry list \<Rightarrow> nat option" where
  "entry_position t [] = None"
| "entry_position t (e # es) =
     (if idle_id e = t then Some 0 else map_option Suc (entry_position t es))"

text \<open>Lingered out with no job received: the thread takes itself off the list and ends, or a call
  already has.\<close>

definition work_linger_out :: "nat \<Rightarrow> budget \<Rightarrow> budget option" where
  "work_linger_out t b =
     (if \<not> in_phase b t Lingering then None
      else (case entry_position t (idle b) of
              Some at \<Rightarrow> Some (set_thread t Gone (has_mail b t) (b\<lparr>idle := swap_remove (idle b) at\<rparr>))
            | None \<Rightarrow> Some (set_thread t Awaiting (has_mail b t) b)))"

datatype budget_action =
    Arrive bool bool | Timeout | Again bool bool | Notify | WorkerEnds
  | Pop | Send nat | Spawn bool
  | Receive nat | Finish nat | Panic nat | Free nat | Reply nat | LingerOut nat

fun budget_op :: "nat \<Rightarrow> nat \<Rightarrow> budget_action \<Rightarrow> budget \<Rightarrow> budget option" where
  "budget_op limit process (Arrive worker passed) b = acquire_arrive limit worker passed b"
| "budget_op limit process Timeout b = acquire_timeout b"
| "budget_op limit process (Again worker passed) b = acquire_again limit worker passed b"
| "budget_op limit process Notify b = notify_one b"
| "budget_op limit process WorkerEnds b = worker_ends b"
| "budget_op limit process Pop b = dispatch_pop process b"
| "budget_op limit process (Send t) b = dispatch_send t b"
| "budget_op limit process (Spawn succeeds) b = dispatch_spawn succeeds b"
| "budget_op limit process (Receive t) b = work_receive t b"
| "budget_op limit process (Finish t) b = work_finish process t b"
| "budget_op limit process (Panic t) b = work_panic t b"
| "budget_op limit process (Free t) b = work_free t b"
| "budget_op limit process (Reply t) b = work_reply t b"
| "budget_op limit process (LingerOut t) b = work_linger_out t b"

text \<open>What other processes left: entries of theirs, for threads this process never had.\<close>

definition entries_of_others :: "nat \<Rightarrow> nat \<Rightarrow> idle_entry list \<Rightarrow> bool" where
  "entries_of_others process ids entries \<longleftrightarrow>
     list_all (\<lambda>e. idle_process e \<noteq> process \<and> idle_id e < ids) entries"

inductive budget_run :: "nat \<Rightarrow> nat \<Rightarrow> budget \<Rightarrow> bool" for limit process where
  start: "lost \<le> limit \<Longrightarrow> entries_of_others process ids entries \<Longrightarrow>
    budget_run limit process (budget_inherited lost ids entries)"
| step: "budget_run limit process b \<Longrightarrow> budget_op limit process op b = Some b' \<Longrightarrow>
    budget_run limit process b'"

fun run_ops :: "nat \<Rightarrow> nat \<Rightarrow> budget_action list \<Rightarrow> budget \<Rightarrow> budget option" where
  "run_ops limit process [] b = Some b"
| "run_ops limit process (op # ops) b =
     Option.bind (budget_op limit process op b) (run_ops limit process ops)"

lemma run_ops_run:
  "run_ops limit process ops b = Some b' \<Longrightarrow> budget_run limit process b \<Longrightarrow>
   budget_run limit process b'"
  by (induction ops arbitrary: b) (auto split: Option.bind_splits intro: budget_run.step)

end
