(* ===== verification/Pac_Budget_Facts.thy ===== *)
theory Pac_Budget_Facts
  imports Pac_Budget
begin

text \<open>
  What the slots and the evaluation threads keep in every interleaving of calls and threads: the
  account of the slots, one place at a time for the next job of a thread, and no lost wake-up.
\<close>

section \<open>The account\<close>

definition thread_slots :: "thread \<Rightarrow> nat" where
  "thread_slots th = (if mail th then 1 else 0) + (if phase th = Running \<or> phase th = Parked then 1 else 0)"

definition is_live :: "thread \<Rightarrow> bool" where "is_live th \<longleftrightarrow> phase th \<noteq> Gone"

definition live_in :: "thread list \<Rightarrow> nat" where "live_in ths = length (filter is_live ths)"

abbreviation live_threads :: "budget \<Rightarrow> nat" where "live_threads b \<equiv> live_in (threads b)"

definition running :: "budget \<Rightarrow> nat" where
  "running b = length (filter (\<lambda>th. phase th = Running) (threads b))"

definition held_by :: "thread list \<Rightarrow> nat" where "held_by ths = sum_list (map thread_slots ths)"

definition account_inv :: "nat \<Rightarrow> budget \<Rightarrow> bool" where
  "account_inv limit b \<longleftrightarrow>
     pending b + conversing b + creating b + length (sending b) + held_by (threads b) \<le> taken b \<and>
     taken b \<le> limit \<and> live_threads b + creating b \<le> limit"

text \<open>The next job of a thread has one place to be: its entry in the list, a call's hand, its channel.
  Before it lists itself it has none.\<close>

definition placed :: "thread \<Rightarrow> nat \<Rightarrow> nat \<Rightarrow> bool" where
  "placed th listed handed =
     (let places = listed + handed + (if mail th then 1 else 0) in
      case phase th of
        Starting \<Rightarrow> mail th \<and> places = 1
      | Running \<Rightarrow> places = 0
      | Gone \<Rightarrow> places = 0
      | Awaiting \<Rightarrow> listed = 0 \<and> places = 1
      | _ \<Rightarrow> places = 1)"

abbreviation entry_of :: "nat \<Rightarrow> nat \<Rightarrow> idle_entry" where
  "entry_of process t \<equiv> \<lparr> idle_id = t, idle_process = process \<rparr>"

definition entry_ok :: "nat \<Rightarrow> thread list \<Rightarrow> idle_entry \<Rightarrow> bool" where
  "entry_ok process ths e \<longleftrightarrow>
     idle_id e < length ths \<and> (idle_process e = process \<or> phase (ths ! idle_id e) = Gone)"

definition place_inv :: "nat \<Rightarrow> thread list \<Rightarrow> idle_entry list \<Rightarrow> nat list \<Rightarrow> bool" where
  "place_inv process ths es ss \<longleftrightarrow>
     (\<forall>t < length ths. placed (ths ! t) (count_list es (entry_of process t)) (count_list ss t)) \<and>
     (\<forall>e \<in> set es. entry_ok process ths e) \<and> (\<forall>t \<in> set ss. t < length ths)"

definition budget_inv :: "nat \<Rightarrow> nat \<Rightarrow> budget \<Rightarrow> bool" where
  "budget_inv limit process b \<longleftrightarrow>
     account_inv limit b \<and> place_inv process (threads b) (idle b) (sending b)"

section \<open>Lists updated in one place\<close>

lemma sum_list_update_nat:
  fixes f :: "'a \<Rightarrow> nat"
  shows "t < length xs \<Longrightarrow> sum_list (map f (xs[t := x])) + f (xs ! t) = sum_list (map f xs) + f x"
proof (induction xs arbitrary: t)
  case (Cons y ys) then show ?case by (cases t) auto
qed simp

lemma filter_update:
  "t < length xs \<Longrightarrow>
   length (filter P (xs[t := x])) + (if P (xs ! t) then 1 else 0) =
   length (filter P xs) + (if P x then 1 else 0)"
proof (induction xs arbitrary: t)
  case (Cons y ys) then show ?case by (cases t) auto
qed simp

lemma length_filter_sum_list: "length (filter P xs) = sum_list (map (\<lambda>x. if P x then 1 else 0) xs)"
  by (induction xs) auto

lemma count_list_remove1:
  "x \<in> set xs \<Longrightarrow> count_list (remove1 x xs) y + (if x = y then 1 else 0) = count_list xs y"
  by (induction xs) auto

lemma count_list_butlast:
  "xs \<noteq> [] \<Longrightarrow> count_list (butlast xs) y + (if last xs = y then 1 else 0) = count_list xs y"
  by (induction xs rule: rev_induct) (auto simp: count_list_append)

lemma count_list_update:
  "t < length xs \<Longrightarrow>
   count_list (xs[t := x]) y + (if xs ! t = y then 1 else 0) = count_list xs y + (if x = y then 1 else 0)"
proof (induction xs arbitrary: t)
  case (Cons z zs)
  show ?case
  proof (cases t)
    case (Suc n)
    then show ?thesis using Cons.IH [of n] Cons.prems by (auto split: if_splits)
  qed auto
qed simp

lemma count_list_swap_remove:
  assumes "at < length xs"
  shows "count_list (swap_remove xs at) y + (if xs ! at = y then 1 else 0) = count_list xs y"
proof (cases "at + 1 = length xs")
  case True
  then have "xs ! at = List.last xs" using assms by (metis add_diff_cancel_right' last_conv_nth list.size(3) not_less_zero)
  moreover have "xs \<noteq> []" using assms by auto
  ultimately show ?thesis using True count_list_butlast [of xs y]
    by (auto simp: swap_remove_def)
next
  case False
  have ne: "xs[at := List.last xs] \<noteq> []" using assms by auto
  have l: "List.last (xs[at := List.last xs]) = List.last xs"
    using False assms by (subst last_list_update) auto
  show ?thesis
    using count_list_butlast [OF ne, of y] count_list_update [OF assms, of "List.last xs" y] False l
    by (auto simp: swap_remove_def split: if_splits)
qed

lemma set_swap_remove: "at < length xs \<Longrightarrow> set (swap_remove xs at) \<subseteq> set xs"
proof
  fix y assume a: "at < length xs" "y \<in> set (swap_remove xs at)"
  then have "count_list (swap_remove xs at) y \<noteq> 0" by (simp add: count_list_0_iff)
  then have "count_list xs y \<noteq> 0" using count_list_swap_remove [OF a(1), of y] by simp
  then show "y \<in> set xs" by (simp add: count_list_0_iff)
qed

lemma entry_position_Some:
  "entry_position t es = Some at \<Longrightarrow> at < length es \<and> idle_id (es ! at) = t"
  by (induction es arbitrary: at) (auto split: if_splits)

lemma entry_position_None: "entry_position t es = None \<Longrightarrow> e \<in> set es \<Longrightarrow> idle_id e \<noteq> t"
  by (induction es) (auto split: if_splits)

section \<open>What a change of one thread does\<close>

lemma set_thread_frame [simp]:
  "taken (set_thread t p m b) = taken b" "asleep (set_thread t p m b) = asleep b"
  "awake (set_thread t p m b) = awake b" "wakeups (set_thread t p m b) = wakeups b"
  "pending (set_thread t p m b) = pending b" "conversing (set_thread t p m b) = conversing b"
  "creating (set_thread t p m b) = creating b" "sending (set_thread t p m b) = sending b"
  "idle (set_thread t p m b) = idle b" "length (threads (set_thread t p m b)) = length (threads b)"
  "threads (set_thread t p m b) = (threads b)[t := \<lparr> phase = p, mail = m \<rparr>]"
  by (simp_all add: set_thread_def)

lemma held_by_update:
  "t < length ths \<Longrightarrow> held_by (ths[t := th]) + thread_slots (ths ! t) = held_by ths + thread_slots th"
  by (simp add: held_by_def sum_list_update_nat)

lemma live_in_update:
  "t < length ths \<Longrightarrow>
   live_in (ths[t := th]) + (if is_live (ths ! t) then 1 else 0) = live_in ths + (if is_live th then 1 else 0)"
  by (simp add: live_in_def filter_update)

lemma in_phase_iff: "in_phase b t p \<longleftrightarrow> t < length (threads b) \<and> phase (threads b ! t) = p"
  by (simp add: in_phase_def get_opt_eq)

lemma has_mail_iff: "has_mail b t \<longleftrightarrow> t < length (threads b) \<and> mail (threads b ! t)"
  by (simp add: has_mail_def get_opt_eq)

text \<open>A thread whose next job is nowhere holds a slot as long as it lives, unless it is idle.\<close>

lemma live_without_idle:
  assumes inv: "place_inv process ths [] ss"
  shows "live_in ths \<le> length ss + held_by ths"
proof -
  define n where "n = length ths"
  have ss: "\<forall>t \<in> set ss. t < n" using inv by (simp add: place_inv_def n_def)
  have each: "(if is_live (ths ! t) then 1 else 0) \<le> count_list ss t + thread_slots (ths ! t)"
    if "t < n" for t
  proof -
    have "placed (ths ! t) 0 (count_list ss t)" using inv that by (simp add: place_inv_def n_def)
    then show ?thesis
      by (cases "phase (ths ! t)")
        (auto simp: placed_def thread_slots_def is_live_def split: if_splits)
  qed
  have "live_in ths = (\<Sum>t<n. if is_live (ths ! t) then 1 else 0)"
    by (simp add: live_in_def length_filter_sum_list sum_list_sum_nth n_def atLeast0LessThan)
  also have "\<dots> \<le> (\<Sum>t<n. count_list ss t + thread_slots (ths ! t))"
    by (rule sum_mono) (use each in auto)
  also have "\<dots> = (\<Sum>t<n. count_list ss t) + (\<Sum>t<n. thread_slots (ths ! t))"
    by (rule sum.distrib)
  also have "(\<Sum>t<n. thread_slots (ths ! t)) = held_by ths"
    by (simp add: held_by_def sum_list_sum_nth n_def atLeast0LessThan)
  also have "(\<Sum>t<n. count_list ss t) = length ss"
  proof -
    have "(\<Sum>t<n. count_list ss t) = (\<Sum>t\<in>set ss. count_list ss t)"
      by (rule sum.mono_neutral_right) (use ss in \<open>auto simp: count_list_0_iff\<close>)
    then show ?thesis by (simp add: sum_count_set)
  qed
  finally show ?thesis .
qed

section \<open>Every step keeps the account\<close>

lemma inv_start:
  "lost \<le> limit \<Longrightarrow> entries_of_others process ids entries \<Longrightarrow>
   budget_inv limit process (budget_inherited lost ids entries)"
  by (auto simp: budget_inv_def account_inv_def place_inv_def budget_inherited_def held_by_def
      entries_of_others_def live_in_def is_live_def thread_slots_def placed_def entry_ok_def
      list_all_iff count_list_0_iff sum_list_replicate)

lemma inv_calls:
  "budget_inv limit process b \<Longrightarrow> acquire_arrive limit worker passed b = Some b' \<Longrightarrow>
     budget_inv limit process b'"
  "budget_inv limit process b \<Longrightarrow> acquire_timeout b = Some b' \<Longrightarrow> budget_inv limit process b'"
  "budget_inv limit process b \<Longrightarrow> acquire_again limit worker passed b = Some b' \<Longrightarrow>
     budget_inv limit process b'"
  "budget_inv limit process b \<Longrightarrow> notify_one b = Some b' \<Longrightarrow> budget_inv limit process b'"
  "budget_inv limit process b \<Longrightarrow> worker_ends b = Some b' \<Longrightarrow> budget_inv limit process b'"
  by (auto simp: budget_inv_def account_inv_def acquire_arrive_def acquire_timeout_def
      acquire_again_def notify_one_def worker_ends_def slot_drop_def take_slot_def Let_def
      split: if_splits)

text \<open>A change of one thread, of its entry and of the hand it is in.\<close>

lemma place_update:
  assumes inv: "place_inv process ths es ss" and t: "t < length ths"
    and es: "\<And>u. u \<noteq> t \<Longrightarrow> count_list es' (entry_of process u) = count_list es (entry_of process u)"
    and ss: "\<And>u. u \<noteq> t \<Longrightarrow> count_list ss' u = count_list ss u"
    and sub: "set es' \<subseteq> insert (entry_of process t) (set es)" "set ss' \<subseteq> insert t (set ss)"
    and gone: "phase (ths ! t) = Gone \<Longrightarrow> phase th = Gone"
    and new: "placed th (count_list es' (entry_of process t)) (count_list ss' t)"
  shows "place_inv process (ths[t := th]) es' ss'"
  unfolding place_inv_def
proof (intro conjI allI impI ballI)
  fix u assume "u < length (ths[t := th])"
  then show "placed (ths[t := th] ! u) (count_list es' (entry_of process u)) (count_list ss' u)"
    using inv new es [of u] ss [of u] by (cases "u = t") (auto simp: place_inv_def)
next
  fix e assume "e \<in> set es'"
  then have "e = entry_of process t \<or> entry_ok process ths e"
    using sub inv by (auto simp: place_inv_def)
  then show "entry_ok process (ths[t := th]) e"
    using t gone by (auto simp: entry_ok_def nth_list_update)
next
  fix u assume "u \<in> set ss'"
  then show "u < length (ths[t := th])" using sub t inv by (auto simp: place_inv_def)
qed

lemma account_update:
  assumes inv: "account_inv limit b" and t: "t < length (threads b)"
    and slots: "pending b' + conversing b' + creating b' + length (sending b') + thread_slots th + taken b
      \<le> pending b + conversing b + creating b + length (sending b) + thread_slots (threads b ! t) + taken b'"
    and ths: "threads b' = (threads b)[t := th]" and "creating b' = creating b" "taken b' \<le> limit"
    and "is_live th \<Longrightarrow> is_live (threads b ! t)"
  shows "account_inv limit b'"
  using assms held_by_update [OF t, of th] live_in_update [OF t, of th]
  by (auto simp: account_inv_def split: if_splits)

lemmas thread_step_defs = budget_inv_def in_phase_iff has_mail_iff slot_drop_def set_thread_def

lemma placed_at:
  "place_inv process ths es ss \<Longrightarrow> t < length ths \<Longrightarrow>
   placed (ths ! t) (count_list es (entry_of process t)) (count_list ss t)"
  by (simp add: place_inv_def)

lemma inv_thread:
  assumes inv: "budget_inv limit process b" and t: "t < length (threads b)"
    and ths: "threads b' = (threads b)[t := th]" and es: "idle b' = idle b" "sending b' = sending b"
    and calls: "pending b' = pending b" "conversing b' = conversing b" "creating b' = creating b"
    and slots: "taken b + thread_slots th \<le> taken b' + thread_slots (threads b ! t)"
      "taken b' \<le> taken b"
    and live: "is_live th \<Longrightarrow> is_live (threads b ! t)"
    and placed: "placed (threads b ! t) (count_list (idle b) (entry_of process t)) (count_list (sending b) t) \<Longrightarrow>
      placed th (count_list (idle b) (entry_of process t)) (count_list (sending b) t)"
  shows "budget_inv limit process b'"
proof -
  have a: "account_inv limit b" and p: "place_inv process (threads b) (idle b) (sending b)"
    using inv by (simp_all add: budget_inv_def)
  have "account_inv limit b'"
    by (rule account_update [OF a t _ ths]) (use calls slots live es a in \<open>auto simp: account_inv_def\<close>)
  moreover have "place_inv process (threads b') (idle b') (sending b')"
    unfolding ths es
    by (rule place_update [OF p t]) (use live placed [OF placed_at [OF p t]] in \<open>auto simp: is_live_def\<close>)
  ultimately show ?thesis by (simp add: budget_inv_def)
qed

lemma inv_receive:
  assumes inv: "budget_inv limit process b" and step: "work_receive t b = Some b'"
  shows "budget_inv limit process b'"
  by (rule inv_thread [OF inv, of t _ "\<lparr> phase = Running, mail = False \<rparr>"])
    (use step in \<open>auto simp: work_receive_def in_phase_iff has_mail_iff thread_slots_def is_live_def
      placed_def Let_def split: if_splits\<close>)

lemma inv_free:
  assumes inv: "budget_inv limit process b" and step: "work_free t b = Some b'"
  shows "budget_inv limit process b'"
  by (rule inv_thread [OF inv, of t _ "\<lparr> phase = Replying, mail = mail (threads b ! t) \<rparr>"])
    (use step in \<open>auto simp: work_free_def in_phase_iff has_mail_iff slot_drop_def thread_slots_def
      is_live_def placed_def Let_def split: if_splits\<close>)

lemma inv_reply:
  assumes inv: "budget_inv limit process b" and step: "work_reply t b = Some b'"
  shows "budget_inv limit process b'"
  by (rule inv_thread [OF inv, of t _ "\<lparr> phase = Lingering, mail = mail (threads b ! t) \<rparr>"])
    (use step in \<open>auto simp: work_reply_def in_phase_iff has_mail_iff thread_slots_def
      is_live_def placed_def Let_def split: if_splits\<close>)

lemma inv_panic:
  assumes inv: "budget_inv limit process b" and step: "work_panic t b = Some b'"
  shows "budget_inv limit process b'"
  by (rule inv_thread [OF inv, of t _ "\<lparr> phase = Gone, mail = mail (threads b ! t) \<rparr>"])
    (use step in \<open>auto simp: work_panic_def in_phase_iff has_mail_iff slot_drop_def thread_slots_def
      is_live_def placed_def Let_def split: if_splits\<close>)

lemma inv_finish:
  assumes inv: "budget_inv limit process b" and step: "work_finish process t b = Some b'"
  shows "budget_inv limit process b'"
proof -
  let ?th = "\<lparr> phase = Parked, mail = mail (threads b ! t) \<rparr>"
  have a: "account_inv limit b" and p: "place_inv process (threads b) (idle b) (sending b)"
    using inv by (simp_all add: budget_inv_def)
  have t: "t < length (threads b)" "phase (threads b ! t) = Running"
    using step by (auto simp: work_finish_def in_phase_iff split: if_splits)
  have b': "b' = set_thread t Parked (mail (threads b ! t)) (b\<lparr>idle := idle b @ [entry_of process t]\<rparr>)"
    using step t by (auto simp: work_finish_def in_phase_iff has_mail_iff)
  have "account_inv limit b'"
    by (rule account_update [OF a t(1), of _ ?th])
      (use t a in \<open>auto simp: b' thread_slots_def is_live_def account_inv_def\<close>)
  moreover have "place_inv process ((threads b)[t := ?th]) (idle b @ [entry_of process t]) (sending b)"
    by (rule place_update [OF p t(1)])
      (use t placed_at [OF p t(1)] in \<open>auto simp: placed_def Let_def count_list_append split: if_splits\<close>)
  ultimately show ?thesis by (simp add: budget_inv_def b')
qed

lemma inv_linger_out:
  assumes inv: "budget_inv limit process b" and step: "work_linger_out t b = Some b'"
  shows "budget_inv limit process b'"
proof -
  have a: "account_inv limit b" and p: "place_inv process (threads b) (idle b) (sending b)"
    using inv by (simp_all add: budget_inv_def)
  have t: "t < length (threads b)" "phase (threads b ! t) = Lingering"
    using step by (auto simp: work_linger_out_def in_phase_iff split: if_splits)
  have mine: "idle_process e = process" if "e \<in> set (idle b)" "idle_id e = t" for e
    using p that t by (force simp: place_inv_def entry_ok_def)
  show ?thesis
  proof (cases "entry_position t (idle b)")
    case None
    have none: "count_list (idle b) (entry_of process t) = 0"
      using entry_position_None [OF None, of "entry_of process t"] by (auto simp: count_list_0_iff)
    show ?thesis
      by (rule inv_thread [OF inv t(1), of _ "\<lparr> phase = Awaiting, mail = mail (threads b ! t) \<rparr>"])
        (use step t None none in \<open>auto simp: work_linger_out_def in_phase_iff has_mail_iff
          thread_slots_def is_live_def placed_def Let_def split: if_splits\<close>)
  next
    case (Some at)
    let ?th = "\<lparr> phase = Gone, mail = mail (threads b ! t) \<rparr>"
    have b': "b' = set_thread t Gone (mail (threads b ! t)) (b\<lparr>idle := swap_remove (idle b) at\<rparr>)"
      using step t Some by (auto simp: work_linger_out_def in_phase_iff has_mail_iff)
    have at: "at < length (idle b)" "idle b ! at = entry_of process t"
      using entry_position_Some [OF Some] mine by auto
    note count = count_list_swap_remove [OF at(1), unfolded at(2)]
    have placed: "placed ?th (count_list (swap_remove (idle b) at) (entry_of process t))
        (count_list (sending b) t)"
      using placed_at [OF p t(1)] t count [of "entry_of process t"]
      by (auto simp: placed_def Let_def split: if_splits)
    have "account_inv limit b'"
      by (rule account_update [OF a t(1), of _ ?th])
        (use t a in \<open>auto simp: b' thread_slots_def is_live_def account_inv_def\<close>)
    moreover have "place_inv process ((threads b)[t := ?th]) (swap_remove (idle b) at) (sending b)"
    proof (rule place_update [OF p t(1)], goal_cases)
      case (1 u)
      then show ?case using count [of "entry_of process u"] by simp
    next
      case 3 then show ?case using set_swap_remove [OF at(1)] by auto
    next
      case 6 then show ?case by (rule placed)
    qed auto
    ultimately show ?thesis by (simp add: budget_inv_def b')
  qed
qed

lemma place_same_threads:
  assumes "place_inv process ths es ss"
    and "\<And>u. u < length ths \<Longrightarrow>
      count_list es' (entry_of process u) + count_list ss' u =
        count_list es (entry_of process u) + count_list ss u \<and>
      count_list es' (entry_of process u) \<le> count_list es (entry_of process u)"
    and "set es' \<subseteq> set es" "\<forall>t \<in> set ss'. t < length ths"
  shows "place_inv process ths es' ss'"
  unfolding place_inv_def
proof (intro conjI allI impI ballI)
  fix u assume u: "u < length ths"
  show "placed (ths ! u) (count_list es' (entry_of process u)) (count_list ss' u)"
    using placed_at [OF assms(1) u] assms(2) [OF u]
    by (cases "phase (ths ! u)") (auto simp: placed_def Let_def)
qed (use assms in \<open>auto simp: place_inv_def\<close>)

lemma inv_pop:
  assumes inv: "budget_inv limit process b" and step: "dispatch_pop process b = Some b'"
  shows "budget_inv limit process b'"
proof -
  have a: "account_inv limit b" and p: "place_inv process (threads b) (idle b) (sending b)"
    using inv by (simp_all add: budget_inv_def)
  have pending: "0 < pending b" using step by (simp add: dispatch_pop_def split: if_splits)
  show ?thesis
  proof (cases "idle b = []")
    case True
    then have "live_threads b \<le> length (sending b) + held_by (threads b)" using live_without_idle p by simp
    then show ?thesis
      using True step a p by (auto simp: dispatch_pop_def budget_inv_def account_inv_def split: if_splits)
  next
    case False
    let ?e = "List.last (idle b)"
    note count = count_list_butlast [OF False]
    have sub: "set (butlast (idle b)) \<subseteq> set (idle b)" by (auto dest: in_set_butlastD)
    show ?thesis
    proof (cases "idle_process ?e = process")
      case True
      have e: "?e = entry_of process (idle_id ?e)" using True by (cases ?e) simp
      have l: "idle_id ?e < length (threads b)"
        using p False last_in_set [OF False] by (auto simp: place_inv_def entry_ok_def)
      have b': "b' = b\<lparr>idle := butlast (idle b), pending := pending b - 1,
          sending := idle_id ?e # sending b\<rparr>"
        using step True False pending by (auto simp: dispatch_pop_def Let_def)
      have "place_inv process (threads b) (butlast (idle b)) (idle_id ?e # sending b)"
      proof (rule place_same_threads [OF p _ sub], goal_cases)
        case (1 u)
        have "?e = entry_of process u \<longleftrightarrow> idle_id ?e = u" using e by (metis idle_entry.select_convs(1))
        then show ?case using count [of "entry_of process u"] by auto
      next
        case 2 then show ?case using l p by (auto simp: place_inv_def)
      qed
      then show ?thesis using a pending by (auto simp: b' budget_inv_def account_inv_def)
    next
      case other: False
      have b': "b' = b\<lparr>idle := butlast (idle b)\<rparr>"
        using step other False pending by (auto simp: dispatch_pop_def Let_def)
      have "place_inv process (threads b) (butlast (idle b)) (sending b)"
      proof (rule place_same_threads [OF p _ sub], goal_cases)
        case (1 u)
        have "?e \<noteq> entry_of process u" using other by auto
        then show ?case using count [of "entry_of process u"] by auto
      next
        case 2 then show ?case using p by (auto simp: place_inv_def)
      qed
      then show ?thesis using a by (auto simp: b' budget_inv_def account_inv_def)
    qed
  qed
qed

text \<open>A thread in a call's hand lives, and its channel is empty.\<close>

lemma handed_thread:
  assumes "budget_inv limit process b" "t \<in> set (sending b)"
  shows "t < length (threads b)" "phase (threads b ! t) \<noteq> Gone" "phase (threads b ! t) \<noteq> Running"
    "phase (threads b ! t) \<noteq> Starting"
    "\<not> mail (threads b ! t)" "count_list (sending b) t = 1"
    "count_list (idle b) (entry_of process t) = 0"
proof -
  have p: "place_inv process (threads b) (idle b) (sending b)"
    using assms(1) by (simp add: budget_inv_def)
  show t: "t < length (threads b)" using p assms(2) by (simp add: place_inv_def)
  have "count_list (sending b) t \<noteq> 0" using assms(2) by (simp add: count_list_0_iff)
  then show "phase (threads b ! t) \<noteq> Gone" "phase (threads b ! t) \<noteq> Running"
    "phase (threads b ! t) \<noteq> Starting"
    "\<not> mail (threads b ! t)" "count_list (sending b) t = 1"
    "count_list (idle b) (entry_of process t) = 0"
    using placed_at [OF p t] by (auto simp: placed_def Let_def split: phase.splits if_splits)
qed

lemma inv_send:
  assumes inv: "budget_inv limit process b" and step: "dispatch_send t b = Some b'"
  shows "budget_inv limit process b'"
proof -
  have a: "account_inv limit b" and p: "place_inv process (threads b) (idle b) (sending b)"
    using inv by (simp_all add: budget_inv_def)
  have hand: "t \<in> set (sending b)" using step by (auto simp: dispatch_send_def split: if_splits)
  note th = handed_thread [OF inv hand]
  let ?th = "\<lparr> phase = phase (threads b ! t), mail = True \<rparr>"
  have b': "b' = set_thread t (phase (threads b ! t)) True (b\<lparr>sending := remove1 t (sending b)\<rparr>)"
    using step hand th by (auto simp: dispatch_send_def get_opt_eq Let_def)
  note count = count_list_remove1 [OF hand]
  have len: "length (remove1 t (sending b)) + 1 = length (sending b)"
    using hand by (simp add: length_remove1) (metis One_nat_def Suc_pred length_pos_if_in_set)
  have "account_inv limit b'"
    by (rule account_update [OF a th(1), of _ ?th])
      (use th len a in \<open>auto simp: b' thread_slots_def is_live_def account_inv_def\<close>)
  moreover have "place_inv process ((threads b)[t := ?th]) (idle b) (remove1 t (sending b))"
  proof (rule place_update [OF p th(1)], goal_cases)
    case 6
    have "count_list (remove1 t (sending b)) t = 0" using count [of t] th(6) by simp
    moreover have "placed (threads b ! t) 0 1" using placed_at [OF p th(1)] th(6,7) by simp
    ultimately show ?case using th
      by (cases "phase (threads b ! t)") (auto simp: placed_def Let_def)
  next
    case (2 u) then show ?case using count [of u] by simp
  next
    case 4 then show ?case using set_remove1_subset by fastforce
  qed auto
  ultimately show ?thesis by (simp add: budget_inv_def b')
qed

lemma inv_spawn:
  assumes inv: "budget_inv limit process b" and step: "dispatch_spawn succeeds b = Some b'"
  shows "budget_inv limit process b'"
proof -
  let ?new = "\<lparr> phase = Starting, mail = True \<rparr>" and ?n = "length (threads b)"
  have p: "place_inv process (threads b) (idle b) (sending b)" and a: "account_inv limit b"
    using inv by (simp_all add: budget_inv_def)
  have none: "count_list (idle b) (entry_of process ?n) = 0" "count_list (sending b) ?n = 0"
    using p by (auto simp: place_inv_def entry_ok_def count_list_0_iff)
  have "place_inv process (threads b @ [?new]) (idle b) (sending b)"
    unfolding place_inv_def
  proof (intro conjI allI impI ballI)
    fix u assume "u < length (threads b @ [?new])"
    then show "placed ((threads b @ [?new]) ! u) (count_list (idle b) (entry_of process u))
        (count_list (sending b) u)"
      using placed_at [OF p, of u] none by (auto simp: nth_append placed_def Let_def less_Suc_eq)
  next
    fix e assume "e \<in> set (idle b)"
    then have "entry_ok process (threads b) e" using p by (simp add: place_inv_def)
    then show "entry_ok process (threads b @ [?new]) e" by (auto simp: entry_ok_def nth_append)
  next
    fix u assume "u \<in> set (sending b)"
    then show "u < length (threads b @ [?new])" using p by (auto simp: place_inv_def)
  qed
  then show ?thesis
    using step a p
    by (auto simp: dispatch_spawn_def budget_inv_def account_inv_def slot_drop_def held_by_def
        live_in_def is_live_def thread_slots_def Let_def split: if_splits)
qed

lemma budget_op_inv:
  "budget_inv limit process b \<Longrightarrow> budget_op limit process op b = Some b' \<Longrightarrow> budget_inv limit process b'"
  by (cases op) (auto intro: inv_calls inv_pop inv_send inv_spawn inv_receive inv_finish inv_panic
    inv_free inv_reply inv_linger_out)

lemma budget_run_inv: "budget_run limit process b \<Longrightarrow> budget_inv limit process b"
  by (induction rule: budget_run.induct) (auto intro: inv_start budget_op_inv)

section \<open>No lost wake-up\<close>

text \<open>While a call sleeps, each free slot has a call on its way to it: one awake, or a wake-up not yet
  delivered.\<close>

definition wake_inv :: "nat \<Rightarrow> budget \<Rightarrow> bool" where
  "wake_inv limit b \<longleftrightarrow> (asleep b = 0 \<or> limit \<le> taken b + awake b + wakeups b)"

lemma budget_op_wake:
  assumes "wake_inv limit b" "taken b \<le> limit" "budget_op limit process op b = Some b'"
  shows "wake_inv limit b'"
proof (cases op)
  case (Arrive worker passed)
  then show ?thesis using assms
    by (auto simp: wake_inv_def acquire_arrive_def take_slot_def split: if_splits)
next
  case (Again worker passed)
  then show ?thesis using assms
    by (auto simp: wake_inv_def acquire_again_def take_slot_def Let_def split: if_splits)
next
  case (Send t)
  then show ?thesis using assms
    by (auto simp: wake_inv_def dispatch_send_def Let_def split: if_splits option.splits)
next
  case (LingerOut t)
  then show ?thesis using assms
    by (auto simp: wake_inv_def work_linger_out_def split: if_splits option.splits)
qed (use assms in \<open>auto simp: wake_inv_def acquire_timeout_def notify_one_def worker_ends_def
    slot_drop_def dispatch_pop_def dispatch_spawn_def work_receive_def work_finish_def work_panic_def
    work_free_def work_reply_def Let_def split: if_splits\<close>)

lemma budget_run_wake: "budget_run limit process b \<Longrightarrow> wake_inv limit b"
proof (induction rule: budget_run.induct)
  case (start lost ids entries) then show ?case by (simp add: wake_inv_def budget_inherited_def)
next
  case (step b op b')
  then show ?case
    using budget_op_wake budget_run_inv by (auto simp: budget_inv_def account_inv_def)
qed

section \<open>The properties\<close>

lemma running_held: "length (filter (\<lambda>th. phase th = Running) ths) \<le> held_by ths"
  by (induction ths) (auto simp: held_by_def thread_slots_def)

lemma budget_new_run: "budget_run limit process budget_new"
  unfolding budget_new_def by (rule budget_run.start) (auto simp: entries_of_others_def)

text \<open>C13. In every run, at most \<open>limit\<close> scripts and worker conversations run at once, whatever was
  abandoned to a timeout, and there are never more evaluation threads than \<open>limit\<close>.\<close>

theorem evaluations_are_bounded:
  assumes "budget_run limit process b"
  shows "running b + conversing b \<le> limit \<and> live_threads b + creating b \<le> limit"
  using budget_run_inv [OF assms] running_held [of "threads b"]
  by (auto simp: running_def budget_inv_def account_inv_def)

definition saturated_example :: "budget option" where
  "saturated_example =
     run_ops 1 7 [Arrive False False, Pop, Spawn True, Receive 0, Arrive False False] budget_new"

theorem evaluations_are_bounded_witness:
  "map_option running saturated_example = Some 1 \<and> map_option asleep saturated_example = Some 1 \<and>
   running (the saturated_example) + conversing (the saturated_example) \<le> 1"
proof -
  have e: "saturated_example = Some (the saturated_example)"
    by (simp add: saturated_example_def budget_new_def budget_inherited_def acquire_arrive_def
        take_slot_def dispatch_pop_def dispatch_spawn_def work_receive_def in_phase_def has_mail_def)
  then have run: "budget_run 1 7 (the saturated_example)"
    unfolding saturated_example_def using run_ops_run budget_new_run by fastforce
  have "map_option running saturated_example = Some 1" "map_option asleep saturated_example = Some 1"
    by (simp_all add: saturated_example_def budget_new_def budget_inherited_def acquire_arrive_def
        take_slot_def dispatch_pop_def dispatch_spawn_def work_receive_def in_phase_def has_mail_def
        set_thread_def running_def)
  then show ?thesis using evaluations_are_bounded [OF run] by simp
qed

text \<open>In every run, a thread taken off the idle list for a call is alive and its channel is empty,
  so the job it is sent is accepted at once.\<close>

theorem idle_thread_takes_its_job:
  assumes "budget_run limit process b" "t \<in> set (sending b)"
  shows "map_option (\<lambda>b'. has_mail b' t \<and> \<not> in_phase b' t Gone \<and> pending b' = pending b)
    (dispatch_send t b) = Some True"
  using handed_thread [OF budget_run_inv [OF assms(1)] assms(2)] assms(2)
  by (simp add: dispatch_send_def get_opt_eq Let_def has_mail_iff in_phase_iff)

definition handing_example :: "budget option" where
  "handing_example =
     run_ops 1 7 [Arrive False False, Pop, Spawn True, Receive 0, Finish 0, Free 0,
       Arrive False False, Pop, Reply 0, LingerOut 0] budget_new"

theorem idle_thread_takes_its_job_witness:
  "map_option sending handing_example = Some [0] \<and>
   map_option (\<lambda>b. has_mail b 0) (dispatch_send 0 (the handing_example)) = Some True"
proof -
  note defs = handing_example_def budget_new_def budget_inherited_def acquire_arrive_def
    take_slot_def dispatch_pop_def dispatch_spawn_def work_receive_def in_phase_def has_mail_def
    work_finish_def work_free_def work_reply_def work_linger_out_def set_thread_def slot_drop_def
  have e: "handing_example = Some (the handing_example)" and s: "sending (the handing_example) = [0]"
    by (simp_all add: defs)
  then have run: "budget_run 1 7 (the handing_example)"
    unfolding handing_example_def using run_ops_run budget_new_run by fastforce
  have "map_option (\<lambda>b'. has_mail b' 0 \<and> \<not> in_phase b' 0 Gone \<and> pending b' = pending (the handing_example))
      (dispatch_send 0 (the handing_example)) = Some True"
    by (rule idle_thread_takes_its_job [OF run]) (simp add: s)
  moreover have "map_option sending handing_example = Some [0]" using e s by (metis option.simps(9))
  ultimately show ?thesis by (auto simp: map_option_case split: option.splits)
qed

text \<open>C14. In every run, while calls sleep waiting for a slot, every free slot has a call on its way to
  it: no release is lost.\<close>

theorem no_release_is_lost:
  assumes "budget_run limit process b" "0 < asleep b"
  shows "limit - taken b \<le> awake b + wakeups b"
  using budget_run_wake [OF assms(1)] assms(2) by (auto simp: wake_inv_def)

definition waiting_example :: "budget option" where
  "waiting_example =
     run_ops 1 7 [Arrive True False, Arrive False False, Arrive True False, WorkerEnds] budget_new"

theorem no_release_is_lost_witness:
  "map_option (\<lambda>b. (asleep b, taken b, wakeups b)) waiting_example = Some (2, 0, 1) \<and>
   1 - taken (the waiting_example) \<le> awake (the waiting_example) + wakeups (the waiting_example)"
proof -
  have e: "waiting_example = Some (the waiting_example)"
    and s: "map_option (\<lambda>b. (asleep b, taken b, wakeups b)) waiting_example = Some (2, 0, 1)"
    by (simp_all add: waiting_example_def budget_new_def budget_inherited_def acquire_arrive_def
        take_slot_def worker_ends_def slot_drop_def)
  then have run: "budget_run 1 7 (the waiting_example)"
    unfolding waiting_example_def using run_ops_run budget_new_run by fastforce
  have "0 < asleep (the waiting_example)" using e s by (metis (no_types, lifting) Pair_inject option.inject option.simps(9) zero_less_numeral)
  then show ?thesis using no_release_is_lost [OF run] s by simp
qed

end
