(* ===== verification/Stores.thy ===== *)
theory Stores
  imports Env_Config
begin

text \<open>
  What the readers of the settings stores share: the integers and texts a key may hold, and
  the map of a store that configures nothing.
\<close>

text \<open>\<open>str::parse::<i64>\<close>, and the decimal spelling of an \<open>i64\<close>.\<close>

definition parse_i64 :: "string \<Rightarrow> int option" where
  "parse_i64 s =
     (let (neg, ds) =
            (case strip_prefix ''-'' s of
               Some r \<Rightarrow> (True, r)
             | None \<Rightarrow> (False, unwrap_or s (strip_prefix ''+'' s)))
      in if ds = [] \<or> \<not> all_digits ds then None
         else (let n = (if neg then - int (digits_value 0 ds) else int (digits_value 0 ds))
               in if - (2 ^ 63) \<le> n \<and> n < 2 ^ 63 then Some n else None))"

definition show_int :: "int \<Rightarrow> string" where
  "show_int n = (if n < 0 then CHR ''-'' # show_nat (nat (- n)) else show_nat (nat n))"

definition non_blank :: "string \<Rightarrow> string option" where
  "non_blank text = (let t = trim_text text in if t = [] then None else Some t)"

definition all_disabled :: "scheme_map \<Rightarrow> bool" where
  "all_disabled m \<longleftrightarrow>
     list_all (\<lambda>s. case m s of None \<Rightarrow> True | Some e \<Rightarrow> entry_is_disabled e) scheme_ALL"

text \<open>\<open>String::from_utf8_lossy\<close>: a maximal ill-formed run of bytes becomes one U+FFFD. What is
  left after the first character is given with the character.\<close>

definition utf8_tail :: "nat \<Rightarrow> nat \<Rightarrow> char \<Rightarrow> bool" where
  "utf8_tail lo hi d \<longleftrightarrow> lo \<le> byte_val d \<and> byte_val d \<le> hi"

definition second_byte :: "nat \<Rightarrow> nat \<times> nat" where
  "second_byte b =
     (if b = 0xE0 then (0xA0, 0xBF) else if b = 0xED then (0x80, 0x9F)
      else if b = 0xF0 then (0x90, 0xBF) else if b = 0xF4 then (0x80, 0x8F) else (0x80, 0xBF))"

fun utf8_tails :: "(nat \<times> nat) list \<Rightarrow> string \<Rightarrow> nat" where
  "utf8_tails [] s = 0"
| "utf8_tails (r # rs) [] = 0"
| "utf8_tails ((lo, hi) # rs) (d # s) = (if utf8_tail lo hi d then Suc (utf8_tails rs s) else 0)"

definition utf8_step :: "char \<Rightarrow> string \<Rightarrow> string \<times> string" where
  "utf8_step c s =
     (let b = byte_val c;
          tails = (if b < 0x80 then Some []
                   else if 0xC2 \<le> b \<and> b \<le> 0xDF then Some [(0x80, 0xBF)]
                   else if 0xE0 \<le> b \<and> b \<le> 0xEF then Some [second_byte b, (0x80, 0xBF)]
                   else if 0xF0 \<le> b \<and> b \<le> 0xF4
                   then Some [second_byte b, (0x80, 0xBF), (0x80, 0xBF)] else None)
      in case tails of
           None \<Rightarrow> (replacement_character, s)
         | Some rs \<Rightarrow>
             (let n = utf8_tails rs s
              in (if n = length rs then c # take n s else replacement_character, drop n s)))"

lemma length_snd_utf8_step: "length (snd (utf8_step c s)) \<le> length s"
  by (simp add: utf8_step_def Let_def split: option.splits)

function utf8_lossy :: "string \<Rightarrow> string" where
  "utf8_lossy [] = []"
| "utf8_lossy (c # s) = (let (ch, rest) = utf8_step c s in ch @ utf8_lossy rest)"
  by pat_completeness auto

termination
  by (relation "measure length")
    (simp, metis in_measure length_snd_utf8_step snd_conv le_imp_less_Suc length_Cons)

end
