(* ===== verification/Store_Contract.thy ===== *)
theory Store_Contract
  imports Resolve_Facts Stores
begin

text \<open>
  What the readers of the desktop stores owe the resolver: a setting a store holds and that could
  not be used does not turn into a direct connection for the URLs it was written for. The
  contract is a locale over the reader and over what it lost; each store's theory gives an
  instance.
\<close>

lemma affected_for_scheme [simp]: "affected_scheme (for_scheme s v) = s"
  by (simp add: for_scheme_def)

text \<open>A lookup of the scheme has an answer other than direct.\<close>

definition routed :: "proxy_mode \<Rightarrow> scheme \<Rightarrow> bool" where
  "routed mode s =
     (case mode of
        Direct \<Rightarrow> False
      | Manual m b r \<Rightarrow>
          (case entry_for mode s of
             Some (Use e) \<Rightarrow> True | Some (Unusable v) \<Rightarrow> True | Some Disabled \<Rightarrow> False | None \<Rightarrow> False)
      | Pac u r \<Rightarrow> True
      | PacInline script r \<Rightarrow> True
      | WpadAutoDetect \<Rightarrow> True)"

lemma routed_manual:
  assumes "m s \<noteq> Some Disabled" "m AllSchemes \<noteq> Some Disabled" "m s \<noteq> None \<or> m AllSchemes \<noteq> None"
  shows "routed (Manual m b r) s"
proof -
  have "entry_chain s m \<noteq> []" using assms(3) by (cases "m s") (auto simp: entry_chain_def)
  then have "entry_for (Manual m b r) s \<noteq> None" using entry.answer_None [of m b r s] by simp
  moreover have "entry_for (Manual m b r) s \<noteq> Some Disabled"
    using entry.answer_in_chain [of m b r s Disabled] assms(1,2) by (auto simp: entry_chain_def set_present)
  ultimately show ?thesis by (auto simp: routed_def split: option.split proxy_entry.split)
qed

lemma routed_filed:
  assumes "m s \<noteq> Some Disabled" "m AllSchemes \<noteq> Some Disabled"
    and "v \<in> set vs" "affected_scheme v = Some t" "t = s \<or> t = AllSchemes"
  shows "routed (with_rejected vs (mode_manual m b)) s"
proof -
  have "List.find (\<lambda>v. affected_scheme v = Some t) vs \<noteq> None" using assms(3,4) by (auto simp: find_None_iff)
  then have "file_rejected vs m t \<noteq> None" by (auto simp: file_rejected_spec split: option.splits)
  moreover have "file_rejected vs m k \<noteq> Some Disabled" if "m k \<noteq> Some Disabled" for k
    using that by (auto simp: file_rejected_spec split: option.splits)
  ultimately show ?thesis
    using assms by (auto simp: mode_manual_def intro!: routed_manual)
qed

text \<open>Answered by a proxy, or by an error.\<close>

definition proxied_or_refused :: "proxy_error + proxy_step list \<Rightarrow> bool" where
  "proxied_or_refused answer \<longleftrightarrow>
     (case answer of Inl e \<Rightarrow> True | Inr ss \<Rightarrow> \<exists>e. ss = [step_from_endpoint e])"

definition bypassed :: "external \<Rightarrow> proxy_mode \<Rightarrow> url \<Rightarrow> bool" where
  "bypassed E mode u \<longleftrightarrow> (case mode_bypass mode of Some b \<Rightarrow> matches_url E b u | None \<Rightarrow> False)"

lemma resolve_routed:
  assumes "routed mode (request_scheme u)" "url_scheme u \<noteq> ''ws''" "url_scheme u \<noteq> ''wss''"
    and "has_request_host u" "\<not> bypassed E mode u"
  shows "proxied_or_refused (resolve_mode E mode u)"
  using assms
  by (cases mode) (auto simp: routed_def resolve_mode_def url_entry_def proxied_or_refused_def
      bypassed_def split: option.splits proxy_entry.splits)

locale careful_store =
  fixes read_store :: "'i \<Rightarrow> proxy_error + proxy_mode" and lost :: "'i \<Rightarrow> scheme \<Rightarrow> bool"
  assumes lost_is_routed: "lost i s \<Longrightarrow> read_store i = Inr mode \<Longrightarrow> routed mode s"
begin

lemma lost_never_direct:
  assumes "lost i (request_scheme u)" "read_store i = Inr mode"
    and "url_scheme u \<noteq> ''ws''" "url_scheme u \<noteq> ''wss''"
    and "has_request_host u" "\<not> bypassed E mode u"
  shows "proxied_or_refused (resolve_mode E mode u)"
  using resolve_routed [OF lost_is_routed [OF assms(1,2)] assms(3-6)] .

lemma lost_never_off: "lost i s \<Longrightarrow> read_store i \<noteq> Inr Direct"
  using lost_is_routed [of i s Direct] by (auto simp: routed_def)

end

text \<open>The URL of the examples.\<close>

definition example_url :: url where
  "example_url = \<lparr> as_str = ''https://a.b/'', url_scheme = ''https'', url_host = Some (Domain ''a.b''),
     url_port = None, port_or_known_default = Some 443 \<rparr>"

end
