(* ===== verification/Gnome_Store.thy ===== *)
theory Gnome_Store
  imports Stores
begin

text \<open>
  \<open>src/sys/linux/gsettings_map.rs\<close>: the keys of the GNOME schema \<open>org.gnome.system.proxy\<close>,
  flattened into one map, and the mode they configure. An \<open>i32\<close> is the integer it stands
  for. The second half reads the keys out of GSettings as \<open>src/sys/linux/gnome.rs\<close> does; what GIO
  answers for a schema is an argument.
\<close>

section \<open>The schema\<close>

definition KEY_MODE :: string where "KEY_MODE = ''mode''"
definition KEY_AUTOCONFIG_URL :: string where "KEY_AUTOCONFIG_URL = ''autoconfig-url''"
definition KEY_IGNORE_HOSTS :: string where "KEY_IGNORE_HOSTS = ''ignore-hosts''"
definition KEY_USE_SAME_PROXY :: string where "KEY_USE_SAME_PROXY = ''use-same-proxy''"
definition KEY_HOST :: string where "KEY_HOST = ''host''"
definition KEY_PORT :: string where "KEY_PORT = ''port''"
definition KEY_USE_AUTHENTICATION :: string where "KEY_USE_AUTHENTICATION = ''use-authentication''"
definition KEY_AUTHENTICATION_USER :: string where
  "KEY_AUTHENTICATION_USER = ''authentication-user''"
definition KEY_AUTHENTICATION_PASSWORD :: string where
  "KEY_AUTHENTICATION_PASSWORD = ''authentication-password''"

record child_keys =
  ck_scheme :: scheme
  ck_child :: string
  ck_default_port :: u16
  ck_hint :: "proxy_scheme option"

definition CHILDREN :: "child_keys list" where
  "CHILDREN =
     [\<lparr> ck_scheme = Http, ck_child = ''http'', ck_default_port = 8080, ck_hint = None \<rparr>,
      \<lparr> ck_scheme = Https, ck_child = ''https'', ck_default_port = 8080, ck_hint = None \<rparr>,
      \<lparr> ck_scheme = Ftp, ck_child = ''ftp'', ck_default_port = 8080, ck_hint = None \<rparr>,
      \<lparr> ck_scheme = Socks, ck_child = ''socks'', ck_default_port = 1080,
        ck_hint = Some PsSocks5 \<rparr>]"

section \<open>The settings\<close>

datatype gvalue = GText string | GInt int | GFlag bool | GList "string list"

datatype shown_gvalue = ShowText string | ShowInt int | ShowFlag bool | ShowList "string list"

fun gvalue_debug :: "gvalue \<Rightarrow> shown_gvalue" where
  "gvalue_debug (GText text) = ShowText (redact_offending_token text)"
| "gvalue_debug (GInt n) = ShowInt n"
| "gvalue_debug (GFlag b) = ShowFlag b"
| "gvalue_debug (GList items) = ShowList items"

record gnome_settings =
  gs_entries :: "string \<rightharpoonup> gvalue"
  written_values :: "string set"

definition gnome_new :: gnome_settings where
  "gnome_new = \<lparr> gs_entries = Map.empty, written_values = {} \<rparr>"

definition gnome_insert :: "string \<Rightarrow> gvalue \<Rightarrow> gnome_settings \<Rightarrow> gnome_settings" where
  "gnome_insert key value g = g\<lparr>gs_entries := (gs_entries g)(key \<mapsto> value)\<rparr>"

definition mark_written :: "string \<Rightarrow> gnome_settings \<Rightarrow> gnome_settings" where
  "mark_written key g = g\<lparr>written_values := insert key (written_values g)\<rparr>"

definition gnome_from_iter :: "(string \<times> gvalue) list \<Rightarrow> gnome_settings" where
  "gnome_from_iter kvs = foldl (\<lambda>g (k, v). gnome_insert k v g) gnome_new kvs"

definition child_key :: "string \<Rightarrow> string \<Rightarrow> string" where
  "child_key child key = child @ ''.'' @ key"

definition has_written_value :: "gnome_settings \<Rightarrow> bool" where
  "has_written_value g \<longleftrightarrow> written_values g \<noteq> {}"

definition gnome_text :: "gnome_settings \<Rightarrow> string \<Rightarrow> string option" where
  "gnome_text g key = (case gs_entries g key of Some (GText text) \<Rightarrow> non_blank text | _ \<Rightarrow> None)"

definition gnome_flag :: "gnome_settings \<Rightarrow> string \<Rightarrow> bool option" where
  "gnome_flag g key = (case gs_entries g key of Some (GFlag flag) \<Rightarrow> Some flag | _ \<Rightarrow> None)"

definition port_of_int :: "int \<Rightarrow> u16 option" where
  "port_of_int n = (if 0 < n \<and> n < 65536 then Some (of_int n) else None)"

definition gnome_port :: "gnome_settings \<Rightarrow> string \<Rightarrow> u16 option" where
  "gnome_port g key = (case gs_entries g key of Some (GInt n) \<Rightarrow> port_of_int n | _ \<Rightarrow> None)"

definition gnome_list :: "gnome_settings \<Rightarrow> string \<Rightarrow> string list option" where
  "gnome_list g key = (case gs_entries g key of Some (GList items) \<Rightarrow> Some items | _ \<Rightarrow> None)"

section \<open>One child\<close>

definition child_host :: "gnome_settings \<Rightarrow> child_keys \<Rightarrow> string option" where
  "child_host g keys = gnome_text g (child_key (ck_child keys) KEY_HOST)"

definition use_same_proxy :: "gnome_settings \<Rightarrow> bool" where
  "use_same_proxy g \<longleftrightarrow> gnome_flag g KEY_USE_SAME_PROXY = Some True"

text \<open>The credentials of the \<open>http\<close> child.\<close>

definition child_auth :: "gnome_settings \<Rightarrow> child_keys \<Rightarrow> proxy_auth option" where
  "child_auth g keys =
     (if ck_scheme keys = Http
         \<and> gnome_flag g (child_key (ck_child keys) KEY_USE_AUTHENTICATION) = Some True
      then (case gnome_text g (child_key (ck_child keys) KEY_AUTHENTICATION_USER) of
              None \<Rightarrow> None
            | Some user \<Rightarrow>
                (let password_key = child_key (ck_child keys) KEY_AUTHENTICATION_PASSWORD;
                     auth = auth_new user (gnome_text g password_key)
                 in Some (if gs_entries g password_key \<noteq> None then auth else password_not_read auth)))
      else None)"

definition gnome_endpoint ::
    "external \<Rightarrow> gnome_settings \<Rightarrow> child_keys \<Rightarrow> rejected_value list
       \<Rightarrow> proxy_endpoint option \<times> rejected_value list" where
  "gnome_endpoint E g keys rejected =
     (case child_host g keys of
        None \<Rightarrow> (None, rejected)
      | Some h \<Rightarrow>
          (case endpoint_parse E h (ck_default_port keys) of
             Inl _ \<Rightarrow>
               (let attributed =
                      (if ck_scheme keys = Socks \<or> (ck_scheme keys = Http \<and> use_same_proxy g)
                       then AllSchemes else ck_scheme keys)
                in (None, rejected @
                      [for_scheme (Some attributed)
                         (rejected_new InvalidProxyEndpoint
                            (GSettings (ck_child keys @ ''.'' @ KEY_HOST)) h)]))
           | Inr e0 \<Rightarrow>
               (let e1 = (case gnome_port g (child_key (ck_child keys) KEY_PORT) of
                            None \<Rightarrow> e0 | Some port \<Rightarrow> e0\<lparr>ep_port := port\<rparr>);
                    e2 = (case ck_hint keys of
                            None \<Rightarrow> e1
                          | Some hint \<Rightarrow>
                              if scheme_hint e1 = None then with_scheme_hint hint e1 else e1);
                    e3 = (case child_auth g keys of None \<Rightarrow> e2 | Some auth \<Rightarrow> with_auth auth e2)
                in (Some e3, rejected))))"

fun read_children ::
    "external \<Rightarrow> gnome_settings \<Rightarrow> child_keys list \<Rightarrow> rejected_value list
       \<Rightarrow> (scheme \<times> proxy_endpoint option) list \<times> rejected_value list" where
  "read_children E g [] rejected = ([], rejected)"
| "read_children E g (keys # children) rejected =
     (let (endpoint, rejected') = gnome_endpoint E g keys rejected;
          (rest, rejected'') = read_children E g children rejected'
      in ((ck_scheme keys, endpoint) # rest, rejected''))"

definition endpoint_of :: "(scheme \<times> proxy_endpoint option) list \<Rightarrow> scheme \<Rightarrow> proxy_endpoint option"
  where
  "endpoint_of resolved wanted =
     (case List.find (\<lambda>se. fst se = wanted) resolved of None \<Rightarrow> None | Some (_, e) \<Rightarrow> e)"

definition host_of_scheme :: "gnome_settings \<Rightarrow> scheme \<Rightarrow> string option" where
  "host_of_scheme g s =
     (case List.find (\<lambda>keys. ck_scheme keys = s) CHILDREN of
        None \<Rightarrow> None | Some keys \<Rightarrow> child_host g keys)"

section \<open>The mode\<close>

definition gnome_bypass :: "external \<Rightarrow> gnome_settings \<Rightarrow> bypass_rules" where
  "gnome_bypass E g =
     (case gnome_list g KEY_IGNORE_HOSTS of
        Some items \<Rightarrow> bypass_entries_in E items Gnome
      | None \<Rightarrow> bypass_new)
     \<lparr> implicit := EmptySet, ipv4_mapped_as_ipv4 := False, strip_trailing_dot := False,
       require_explicit_port := True \<rparr>"

text \<open>The two ways the children fill the map: under \<open>use-same-proxy\<close>, and on their own.\<close>

fun fill_same ::
    "(scheme \<times> proxy_endpoint option) list \<Rightarrow> scheme_map \<Rightarrow> scheme_map" where
  "fill_same [] m = m"
| "fill_same ((s, endpoint) # resolved) m =
     fill_same resolved
       (if s = Http then m
        else (case endpoint of None \<Rightarrow> m | Some e \<Rightarrow> m(s \<mapsto> Use e)))"

fun fill_own ::
    "proxy_endpoint option \<Rightarrow> bool \<Rightarrow> rejected_value list
       \<Rightarrow> (scheme \<times> proxy_endpoint option) list \<Rightarrow> scheme_map \<Rightarrow> scheme_map" where
  "fill_own inherited_https caught rejected [] m = m"
| "fill_own inherited_https caught rejected ((s, endpoint) # resolved) m =
     fill_own inherited_https caught rejected resolved
       (case (if endpoint = None \<and> s = Https then inherited_https else endpoint) of
          Some e \<Rightarrow> m(s \<mapsto> Use e)
        | None \<Rightarrow>
            if \<not> caught \<and> \<not> list_ex (\<lambda>v. affected_scheme v = Some s) rejected
            then m(s \<mapsto> Disabled) else m)"

definition manual_children ::
    "external \<Rightarrow> gnome_settings \<Rightarrow> scheme_map \<times> rejected_value list" where
  "manual_children E g =
     (let (resolved, rejected) = read_children E g CHILDREN [];
          socks = endpoint_of resolved Socks;
          http = endpoint_of resolved Http;
          socks_unusable = (socks = None \<and> host_of_scheme g Socks \<noteq> None);
          (m, rejected') =
            (if use_same_proxy g then
               (fill_same resolved
                  (case http of None \<Rightarrow> Map.empty | Some e \<Rightarrow> [AllSchemes \<mapsto> Use e]), rejected)
             else
               (let (inherited_https, rejected') =
                      (if host_of_scheme g Https \<noteq> None then (None, rejected)
                       else (http,
                             case List.find (\<lambda>v. affected_scheme v = Some Http) rejected of
                               None \<Rightarrow> rejected
                             | Some v \<Rightarrow> rejected @ [for_scheme (Some Https) v]))
                in (fill_own inherited_https (socks \<noteq> None \<or> socks_unusable) rejected' resolved
                      Map.empty, rejected')));
          m' = (case socks of
                  Some e \<Rightarrow> if m AllSchemes = None then m(AllSchemes \<mapsto> Use e) else m
                | None \<Rightarrow> m)
      in (m', rejected'))"

definition gnome_manual_mode :: "external \<Rightarrow> gnome_settings \<Rightarrow> proxy_error + proxy_mode" where
  "gnome_manual_mode E g =
     (let (m, rejected) = manual_children E g in
      if all_disabled m \<and> rejected = [] then Inr Direct
      else Inr (with_rejected rejected (mode_manual m (gnome_bypass E g))))"

definition mode_from_settings :: "external \<Rightarrow> gnome_settings \<Rightarrow> proxy_error + proxy_mode" where
  "mode_from_settings E g =
     (let mode = unwrap_or ''none'' (gnome_text g KEY_MODE) in
      if mode = ''manual'' then gnome_manual_mode E g
      else if mode = ''auto'' then
        (case gnome_text g KEY_AUTOCONFIG_URL of
           Some u \<Rightarrow>
             (case url_parse E u of
                Inl source \<Rightarrow> Inl (error_invalid_proxy_url u source)
              | Inr parsed \<Rightarrow> Inr (mode_pac parsed))
         | None \<Rightarrow> Inr WpadAutoDetect)
      else Inr Direct)"

definition configured_mode :: "external \<Rightarrow> gnome_settings \<Rightarrow> proxy_error + proxy_mode option" where
  "configured_mode E g =
     (case mode_from_settings E g of
        Inl e \<Rightarrow> Inl e
      | Inr mode \<Rightarrow> Inr (if has_written_value g \<or> \<not> is_direct mode then Some mode else None))"

section \<open>Reading the keys\<close>

text \<open>\<open>src/sys/linux/gnome.rs\<close>: the keys that are read, out of what GIO says of the schema: the
  children it lists, the keys a child declares (the empty name is the schema itself), and of
  each what the getter of every type answers, whether the user set it, whether it may be
  written, and whether its default was moved.\<close>

record gio_key =
  gk_string :: string
  gk_boolean :: bool
  gk_int :: int
  gk_strv :: "string list"
  gk_user_value :: bool
  gk_writable :: bool
  gk_default_moved :: bool

record gio_schema =
  gio_children :: "string list"
  gio_installed :: "string \<Rightarrow> bool"
  gio_keys :: "string \<Rightarrow> string \<Rightarrow> gio_key option"

datatype kind = TextKind | FlagKind | IntKind | ListKind

definition ROOT_KEYS :: "(string \<times> kind) list" where
  "ROOT_KEYS =
     [(KEY_MODE, TextKind), (KEY_AUTOCONFIG_URL, TextKind), (KEY_IGNORE_HOSTS, ListKind),
      (KEY_USE_SAME_PROXY, FlagKind)]"

definition CHILD_KEYS :: "(string \<times> kind) list" where
  "CHILD_KEYS = [(KEY_HOST, TextKind), (KEY_PORT, IntKind)]"

definition HTTP_AUTH_KEYS :: "(string \<times> kind) list" where
  "HTTP_AUTH_KEYS = [(KEY_USE_AUTHENTICATION, FlagKind), (KEY_AUTHENTICATION_USER, TextKind)]"

definition READ_AUTHENTICATION_PASSWORD :: bool where "READ_AUTHENTICATION_PASSWORD = False"

definition was_written :: "gio_key \<Rightarrow> bool" where
  "was_written gk \<longleftrightarrow> gk_user_value gk \<or> \<not> gk_writable gk \<or> gk_default_moved gk"

fun kind_value :: "kind \<Rightarrow> gio_key \<Rightarrow> gvalue" where
  "kind_value TextKind gk = GText (gk_string gk)"
| "kind_value FlagKind gk = GFlag (gk_boolean gk)"
| "kind_value IntKind gk = GInt (gk_int gk)"
| "kind_value ListKind gk = GList (gk_strv gk)"

definition read_key :: "gio_schema \<Rightarrow> string \<Rightarrow> string \<Rightarrow> kind \<Rightarrow> gnome_settings \<Rightarrow> gnome_settings" where
  "read_key sc child key k g =
     (case gio_keys sc child key of
        None \<Rightarrow> g
      | Some gk \<Rightarrow>
          (let full = (if child = [] then key else child_key child key)
           in gnome_insert full (kind_value k gk) (if was_written gk then mark_written full g else g)))"

definition read_keys :: "gio_schema \<Rightarrow> string \<Rightarrow> (string \<times> kind) list \<Rightarrow> gnome_settings \<Rightarrow> gnome_settings" where
  "read_keys sc child ks g = foldl (\<lambda>g (key, k). read_key sc child key k g) g ks"

definition read_child :: "gio_schema \<Rightarrow> child_keys \<Rightarrow> gnome_settings \<Rightarrow> gnome_settings" where
  "read_child sc keys g =
     (if \<not> list_ex (\<lambda>c. c = ck_child keys) (gio_children sc) \<or> \<not> gio_installed sc (ck_child keys)
      then g
      else read_keys sc (ck_child keys)
             (CHILD_KEYS @ (if ck_scheme keys = Http
                then HTTP_AUTH_KEYS @ (if READ_AUTHENTICATION_PASSWORD
                                       then [(KEY_AUTHENTICATION_PASSWORD, TextKind)] else [])
                else [])) g)"

text \<open>\<open>None\<close> when GLib or the schema is not installed.\<close>

definition read_settings :: "gio_schema option \<Rightarrow> gnome_settings option" where
  "read_settings installed =
     (case installed of
        None \<Rightarrow> None
      | Some sc \<Rightarrow>
          Some (foldl (\<lambda>g keys. read_child sc keys g) (read_keys sc [] ROOT_KEYS gnome_new) CHILDREN))"

end
