(* ===== verification/Gnome_Facts.thy ===== *)
theory Gnome_Facts
  imports Store_Contract Gnome_Store
begin

text \<open>
  The reader of the GNOME schema: what it records, which entries it writes, and that it keeps
  the contract of \<open>Store_Contract\<close> for every host it could not read.
\<close>

section \<open>The children\<close>

text \<open>A child whose host is written and is not an endpoint, and the scheme it is recorded for.\<close>

definition child_lost :: "external \<Rightarrow> gnome_settings \<Rightarrow> child_keys \<Rightarrow> bool" where
  "child_lost E g keys \<longleftrightarrow>
     (case child_host g keys of None \<Rightarrow> False | Some h \<Rightarrow> \<not> is_ok (endpoint_parse E h (ck_default_port keys)))"

definition child_scheme :: "gnome_settings \<Rightarrow> child_keys \<Rightarrow> scheme" where
  "child_scheme g keys =
     (if ck_scheme keys = Socks \<or> (ck_scheme keys = Http \<and> use_same_proxy g) then AllSchemes
      else ck_scheme keys)"

definition child_endpoint :: "external \<Rightarrow> gnome_settings \<Rightarrow> child_keys \<Rightarrow> proxy_endpoint option" where
  "child_endpoint E g keys = fst (gnome_endpoint E g keys [])"

definition child_record :: "gnome_settings \<Rightarrow> child_keys \<Rightarrow> rejected_value" where
  "child_record g keys =
     for_scheme (Some (child_scheme g keys))
       (rejected_new InvalidProxyEndpoint (GSettings (ck_child keys @ ''.'' @ KEY_HOST))
          (unwrap_or [] (child_host g keys)))"

lemma gnome_endpoint_spec:
  "gnome_endpoint E g keys rejected =
     (child_endpoint E g keys, rejected @ (if child_lost E g keys then [child_record g keys] else []))"
  by (simp add: gnome_endpoint_def child_endpoint_def child_lost_def child_record_def child_scheme_def
      Let_def split: option.split sum.split)

lemma child_endpoint_None:
  "child_endpoint E g keys = None \<longleftrightarrow> child_host g keys = None \<or> child_lost E g keys"
  by (auto simp: child_endpoint_def gnome_endpoint_def child_lost_def Let_def
      split: option.split sum.split)

lemma read_children_spec:
  "read_children E g children rejected =
     (map (\<lambda>keys. (ck_scheme keys, child_endpoint E g keys)) children,
      rejected @ map (child_record g) (filter (child_lost E g) children))"
  by (induction children arbitrary: rejected) (auto simp: gnome_endpoint_spec)

section \<open>The map\<close>

lemma fill_same_entry:
  "fill_same resolved m s = Some Disabled \<Longrightarrow> m s = Some Disabled"
  by (induction resolved m rule: fill_same.induct) (auto split: if_splits option.splits)

text \<open>What \<open>fill_own\<close> disables: the scheme of a child with no endpoint and no record, in a map no
  catch-all fills.\<close>

lemma fill_own_disabled:
  "fill_own inherited caught rejected resolved m s = Some Disabled \<Longrightarrow>
   m s = Some Disabled \<or>
   (\<not> caught \<and> (s, None) \<in> set resolved \<and> \<not> list_ex (\<lambda>v. affected_scheme v = Some s) rejected)"
  by (induction inherited caught rejected resolved m rule: fill_own.induct)
    (auto split: if_splits option.splits)

definition inherits_loss :: "external \<Rightarrow> gnome_settings \<Rightarrow> scheme \<Rightarrow> bool" where
  "inherits_loss E g s \<longleftrightarrow>
     s = Https \<and> \<not> use_same_proxy g \<and> host_of_scheme g Https = None \<and>
     list_ex (\<lambda>keys. ck_scheme keys = Http \<and> child_lost E g keys) CHILDREN"

definition gnome_lost :: "external \<Rightarrow> gnome_settings \<Rightarrow> scheme \<Rightarrow> bool" where
  "gnome_lost E g s \<longleftrightarrow>
     gnome_text g KEY_MODE = Some ''manual'' \<and>
     (list_ex (\<lambda>keys. child_lost E g keys \<and> child_scheme g keys \<in> {s, AllSchemes}) CHILDREN \<or>
      inherits_loss E g s)"

lemma host_of_scheme_CHILDREN:
  "keys \<in> set CHILDREN \<Longrightarrow> host_of_scheme g (ck_scheme keys) = child_host g keys"
  by (auto simp: CHILDREN_def host_of_scheme_def)

lemma endpoint_of_CHILDREN:
  "keys \<in> set CHILDREN \<Longrightarrow>
   endpoint_of (map (\<lambda>keys. (ck_scheme keys, child_endpoint E g keys)) CHILDREN) (ck_scheme keys) =
     child_endpoint E g keys"
  by (auto simp: CHILDREN_def endpoint_of_def)

lemma CHILDREN_not_All: "keys \<in> set CHILDREN \<Longrightarrow> ck_scheme keys \<noteq> AllSchemes"
  by (auto simp: CHILDREN_def)

lemma child_scheme_All:
  "keys \<in> set CHILDREN \<Longrightarrow> child_scheme g keys = AllSchemes \<longleftrightarrow>
     ck_scheme keys = Socks \<or> (ck_scheme keys = Http \<and> use_same_proxy g)"
  by (auto simp: CHILDREN_def child_scheme_def)

text \<open>The list of drops, whatever the map.\<close>

lemma manual_children_rejected:
  assumes "keys \<in> set CHILDREN" "child_lost E g keys"
  shows "child_record g keys \<in> set (snd (manual_children E g))"
  using assms by (auto simp: manual_children_def read_children_spec Let_def split: option.split)

lemma manual_children_inherited:
  assumes "inherits_loss E g s"
  shows "\<exists>v\<in>set (snd (manual_children E g)). affected_scheme v = Some Https"
proof -
  let ?rejected = "map (child_record g) (filter (child_lost E g) CHILDREN)"
  obtain keys where keys: "keys \<in> set CHILDREN" "ck_scheme keys = Http" "child_lost E g keys"
    using assms by (auto simp: inherits_loss_def list_ex_iff)
  have "affected_scheme (child_record g keys) = Some Http"
    using assms keys(2) by (simp add: child_record_def child_scheme_def inherits_loss_def)
  then have "List.find (\<lambda>v. affected_scheme v = Some Http) ?rejected \<noteq> None"
    using keys by (auto simp: find_None_iff)
  then show ?thesis
    using assms by (auto simp: manual_children_def read_children_spec Let_def inherits_loss_def)
qed

lemma manual_children_own:
  assumes "\<not> use_same_proxy g" "fst (manual_children E g) k = Some Disabled"
  shows "\<not> list_ex (\<lambda>v. affected_scheme v = Some k) (snd (manual_children E g))"
    and "child_endpoint E g (CHILDREN ! 3) = None \<and> child_host g (CHILDREN ! 3) = None"
    and "k \<noteq> AllSchemes"
proof -
  let ?resolved = "map (\<lambda>keys. (ck_scheme keys, child_endpoint E g keys)) CHILDREN"
  have socks: "endpoint_of ?resolved Socks = child_endpoint E g (CHILDREN ! 3)"
    "host_of_scheme g Socks = child_host g (CHILDREN ! 3)"
    by (simp_all add: endpoint_of_def CHILDREN_def host_of_scheme_def)
  obtain inherited caught rejected where m:
    "fill_own inherited caught rejected ?resolved Map.empty k = Some Disabled"
    "rejected = snd (manual_children E g)"
    "caught \<longleftrightarrow> child_endpoint E g (CHILDREN ! 3) \<noteq> None \<or> child_host g (CHILDREN ! 3) \<noteq> None"
    using assms by (auto simp: manual_children_def read_children_spec Let_def socks
        split: option.splits if_splits prod.splits)
  note d = fill_own_disabled [OF m(1)]
  show "\<not> list_ex (\<lambda>v. affected_scheme v = Some k) (snd (manual_children E g))" using d m(2) by auto
  show "child_endpoint E g (CHILDREN ! 3) = None \<and> child_host g (CHILDREN ! 3) = None"
    using d m(3) by auto
  show "k \<noteq> AllSchemes" using d CHILDREN_not_All by auto
qed

lemma manual_children_same:
  "use_same_proxy g \<Longrightarrow> fst (manual_children E g) k \<noteq> Some Disabled"
  by (auto simp: manual_children_def read_children_spec Let_def split: option.splits if_splits prod.splits
      dest!: fill_same_entry)

lemma manual_children_All: "fst (manual_children E g) AllSchemes \<noteq> Some Disabled"
  using manual_children_same manual_children_own(3) by blast

lemma gnome_lost_record:
  assumes "gnome_lost E g s"
  shows "\<exists>v\<in>set (snd (manual_children E g)). affected_scheme v = Some s \<or> affected_scheme v = Some AllSchemes"
proof (cases "inherits_loss E g s")
  case True
  then have "s = Https" by (simp add: inherits_loss_def)
  then show ?thesis using manual_children_inherited [OF True] by auto
next
  case False
  then obtain keys where "keys \<in> set CHILDREN" "child_lost E g keys" "child_scheme g keys \<in> {s, AllSchemes}"
    using assms by (auto simp: gnome_lost_def list_ex_iff)
  then show ?thesis
    using manual_children_rejected [of keys E g]
    by (intro bexI [of _ "child_record g keys"]) (auto simp: child_record_def)
qed

lemma gnome_lost_not_disabled:
  assumes "gnome_lost E g s"
  shows "fst (manual_children E g) s \<noteq> Some Disabled"
proof
  assume d: "fst (manual_children E g) s = Some Disabled"
  have own: "\<not> use_same_proxy g" using manual_children_same d by blast
  note facts = manual_children_own [OF own d]
  have "\<not> inherits_loss E g s"
  proof
    assume i: "inherits_loss E g s"
    then have "s = Https" by (simp add: inherits_loss_def)
    then show False using facts(1) manual_children_inherited [OF i] by (auto simp: list_ex_iff)
  qed
  then obtain keys where keys: "keys \<in> set CHILDREN" "child_lost E g keys"
      "child_scheme g keys \<in> {s, AllSchemes}"
    using assms by (auto simp: gnome_lost_def list_ex_iff)
  then have "child_scheme g keys \<noteq> s"
    using manual_children_rejected [OF keys(1,2)] facts(1) by (auto simp: child_record_def list_ex_iff)
  then have "ck_scheme keys = Socks" using keys own child_scheme_All by auto
  then have "child_lost E g (CHILDREN ! 3)"
    using keys(1,2) by (auto simp: CHILDREN_def)
  then show False using facts(2) by (simp add: child_lost_def)
qed

section \<open>The contract\<close>

interpretation gnome: careful_store "mode_from_settings E" "gnome_lost E"
proof
  fix g s mode
  assume lost: "gnome_lost E g s" and read: "mode_from_settings E g = Inr mode"
  obtain m rejected where mc: "manual_children E g = (m, rejected)" by fastforce
  obtain v where v: "v \<in> set rejected" "affected_scheme v = Some s \<or> affected_scheme v = Some AllSchemes"
    using gnome_lost_record [OF lost] by (auto simp: mc)
  then have "mode = with_rejected rejected (mode_manual m (gnome_bypass E g))"
    using read lost by (auto simp: mode_from_settings_def gnome_lost_def gnome_manual_mode_def mc split: if_splits)
  then show "routed mode s"
    using routed_filed [of m s v rejected] v gnome_lost_not_disabled [OF lost] manual_children_All [of E g]
    by (auto simp: mc)
qed

text \<open>GNOME: when the host of a child is written and cannot be read, a URL of that child's
  scheme, and of every scheme the child serves, is answered by a proxy or by an error, never by
  a direct connection, unless the ignore list names its host.\<close>

theorem gnome_lost_host_is_never_direct:
  assumes "gnome_lost E g (request_scheme u)" "mode_from_settings E g = Inr mode"
    and "url_scheme u \<noteq> ''ws''" "url_scheme u \<noteq> ''wss''"
    and "has_request_host u" "\<not> bypassed E mode u"
  shows "proxied_or_refused (resolve_mode E mode u)"
  using assms by (rule gnome.lost_never_direct)

definition gnome_example :: gnome_settings where
  "gnome_example = gnome_from_iter
     [(KEY_MODE, GText ''manual''), (''http.host'', GText ''not a host''), (''https.host'', GText '' ''),
      (''ftp.host'', GText ''f''), (KEY_IGNORE_HOSTS, GList [''b.c''])]"

theorem gnome_lost_host_is_never_direct_witness:
  "gnome_lost plain_external gnome_example Https \<and>
   proxied_or_refused (resolve_mode plain_external
     (projr (mode_from_settings plain_external gnome_example)) example_url)"
proof -
  let ?E = plain_external and ?mode = "projr (mode_from_settings plain_external gnome_example)"
  have lost: "gnome_lost ?E gnome_example Https" by code_simp
  have "\<not> isl (mode_from_settings ?E gnome_example)" by code_simp
  then have read: "mode_from_settings ?E gnome_example = Inr ?mode" by simp
  have "\<not> bypassed ?E ?mode example_url" by code_simp
  then have "proxied_or_refused (resolve_mode ?E ?mode example_url)"
    by (intro gnome_lost_host_is_never_direct [OF _ read])
      (use lost in \<open>simp_all add: example_url_def request_scheme_def has_request_host_def request_host_def\<close>)
  with lost show ?thesis by simp
qed

end
