(* ===== verification/Kioslaverc.thy ===== *)
theory Kioslaverc
  imports Stores
begin

text \<open>
  \<open>src/sys/linux/kioslaverc.rs\<close>: the section \<open>[Proxy Settings]\<close> of KDE's \<open>kioslaverc\<close>, with
  the flags KConfig puts on a key, and the mode it configures. The process environment is
  an argument, a map from names to bytes; the clock is one too.
\<close>

section \<open>Keys and their flags\<close>

definition SECTION :: string where "SECTION = ''Proxy Settings''"
definition KEY_PROXY_TYPE :: string where "KEY_PROXY_TYPE = ''ProxyType''"
definition KEY_NO_PROXY_FOR :: string where "KEY_NO_PROXY_FOR = ''NoProxyFor''"
definition KEY_REVERSED_EXCEPTION :: string where "KEY_REVERSED_EXCEPTION = ''ReversedException''"
definition KEY_CONFIG_SCRIPT :: string where "KEY_CONFIG_SCRIPT = ''Proxy Config Script''"

definition trim_ascii :: "string \<Rightarrow> string" where
  "trim_ascii s = trim_chars ascii_whitespace s"

definition normalize_key :: "string \<Rightarrow> string" where
  "normalize_key key0 =
     (let key = trim_ascii key0 in
      case find_str ''[$'' key of
        Some index \<Rightarrow> if ends_with '']'' key then take index key else key
      | None \<Rightarrow> key)"

definition kconfig_flags :: "string \<Rightarrow> string" where
  "kconfig_flags name =
     (case split_once_str ''[$'' name of
        None \<Rightarrow> []
      | Some (_, tail) \<Rightarrow>
          (case split_once_char (\<lambda>c. c = CHR '']'') tail of None \<Rightarrow> [] | Some (fs, _) \<Rightarrow> fs))"

definition has_kconfig_flag :: "string \<Rightarrow> char \<Rightarrow> bool" where
  "has_kconfig_flag name flag \<longleftrightarrow> flag \<in> set (kconfig_flags name)"

datatype proxy_type = NoProxy | ManualProxy | PacProxy | WpadProxy | EnvVarProxy

definition proxy_type_from_i64 :: "int \<Rightarrow> proxy_type option" where
  "proxy_type_from_i64 v =
     (if v = 0 then Some NoProxy else if v = 1 then Some ManualProxy
      else if v = 2 then Some PacProxy else if v = 3 then Some WpadProxy
      else if v = 4 then Some EnvVarProxy else None)"

record slot_keys =
  sl_scheme :: scheme
  sl_key :: string
  sl_env_var :: "string option"
  sl_default_port :: u16
  sl_hint :: "proxy_scheme option"

definition SLOTS :: "slot_keys list" where
  "SLOTS =
     [\<lparr> sl_scheme = Http, sl_key = ''httpProxy'', sl_env_var = Some ''http_proxy'',
        sl_default_port = 8080, sl_hint = None \<rparr>,
      \<lparr> sl_scheme = Https, sl_key = ''httpsProxy'', sl_env_var = Some ''https_proxy'',
        sl_default_port = 8080, sl_hint = None \<rparr>,
      \<lparr> sl_scheme = Ftp, sl_key = ''ftpProxy'', sl_env_var = Some ''ftp_proxy'',
        sl_default_port = 8080, sl_hint = None \<rparr>,
      \<lparr> sl_scheme = Socks, sl_key = ''socksProxy'', sl_env_var = None,
        sl_default_port = 1080, sl_hint = Some PsSocks5 \<rparr>]"

section \<open>The section as it is applied\<close>

record kconfig_entry =
  ke_value :: "string option"
  ke_immutable :: bool
  ke_expand :: bool

record kio_settings =
  kio_entries :: "string \<rightharpoonup> kconfig_entry"
  group_immutable :: bool

definition kio_new :: kio_settings where
  "kio_new = \<lparr> kio_entries = Map.empty, group_immutable = False \<rparr>"

definition entry_debug :: "kconfig_entry \<Rightarrow> string option \<times> bool \<times> bool" where
  "entry_debug e = (map_option redact_offending_token (ke_value e), ke_immutable e, ke_expand e)"

definition kio_insert :: "string \<Rightarrow> string \<Rightarrow> kio_settings \<Rightarrow> kio_settings" where
  "kio_insert key value k =
     k\<lparr>kio_entries := (kio_entries k)(normalize_key key \<mapsto>
         \<lparr> ke_value = Some value, ke_immutable = False,
           ke_expand = has_kconfig_flag key (CHR ''e'') \<rparr>)\<rparr>"

text \<open>The flags are read from the left, up to a \<open>d\<close>.\<close>

definition kio_apply :: "string \<Rightarrow> string option \<Rightarrow> bool \<Rightarrow> kio_settings \<Rightarrow> kio_settings" where
  "kio_apply raw_key value group_locked k =
     (let key = normalize_key raw_key in
      if (case kio_entries k key of None \<Rightarrow> False | Some e \<Rightarrow> ke_immutable e) then k
      else
        (let flags = kconfig_flags raw_key;
             deleted_at = find_char (\<lambda>c. c = CHR ''d'') flags;
             immutable_flag =
               (case find_char (\<lambda>c. c = CHR ''i'') flags of
                  None \<Rightarrow> False
                | Some i \<Rightarrow> (case deleted_at of None \<Rightarrow> True | Some d \<Rightarrow> i < d))
         in k\<lparr>kio_entries := (kio_entries k)(key \<mapsto>
               \<lparr> ke_value = (if deleted_at \<noteq> None then None else value),
                 ke_immutable = (group_locked \<or> immutable_flag),
                 ke_expand = has_kconfig_flag raw_key (CHR ''e'') \<rparr>)\<rparr>))"

definition mark_group_immutable :: "kio_settings \<Rightarrow> kio_settings" where
  "mark_group_immutable k = k\<lparr>group_immutable := True\<rparr>"

definition kio_value :: "kio_settings \<Rightarrow> string \<Rightarrow> string option" where
  "kio_value k key = Option.bind (kio_entries k key) ke_value"

definition kio_text :: "kio_settings \<Rightarrow> string \<Rightarrow> string option" where
  "kio_text k key = (case kio_value k key of Some v \<Rightarrow> if v = [] then None else Some v | None \<Rightarrow> None)"

definition needs_expansion :: "kio_settings \<Rightarrow> string \<Rightarrow> bool" where
  "needs_expansion k key \<longleftrightarrow>
     (case kio_entries k key of
        None \<Rightarrow> False
      | Some e \<Rightarrow>
          ke_expand e \<and> (case ke_value e of None \<Rightarrow> False | Some v \<Rightarrow> CHR ''$'' \<in> set v))"

definition kio_has :: "kio_settings \<Rightarrow> string \<Rightarrow> bool" where
  "kio_has k key \<longleftrightarrow> kio_value k key \<noteq> None"

definition KCONFIG_FALSE :: "string list" where
  "KCONFIG_FALSE = [''false'', ''no'', ''off'', ''0'']"

definition reversed_exception :: "kio_settings \<Rightarrow> bool" where
  "reversed_exception k \<longleftrightarrow>
     (case kio_text k KEY_REVERSED_EXCEPTION of
        None \<Rightarrow> False
      | Some v \<Rightarrow> \<not> list_ex (\<lambda>no. eq_ignore_ascii_case v no) KCONFIG_FALSE)"

definition atoi_is_nonzero :: "string \<Rightarrow> bool" where
  "atoi_is_nonzero v0 \<longleftrightarrow>
     (let v = dropWhile ascii_whitespace v0;
          rest = unwrap_or v (or_else (strip_prefix ''+'' v) (strip_prefix ''-'' v))
      in list_ex (\<lambda>c. c \<noteq> CHR ''0'') (takeWhile is_digit rest))"

definition reversed_exception_is_disputed :: "kio_settings \<Rightarrow> bool" where
  "reversed_exception_is_disputed k \<longleftrightarrow>
     reversed_exception k
     \<and> (case kio_text k KEY_REVERSED_EXCEPTION of None \<Rightarrow> False | Some v \<Rightarrow> \<not> atoi_is_nonzero v)"

section \<open>Addresses and scripts\<close>

text \<open>\<open>rsplit_once(char::is_whitespace)\<close>, from the end of the text.\<close>

fun rsplit_whitespace :: "string \<Rightarrow> string \<Rightarrow> (string \<times> string) option" where
  "rsplit_whitespace [] tail = None"
| "rsplit_whitespace (c # r) tail =
     (if 0 < ws_len_rev (c # r) then Some (rev (drop (ws_len_rev (c # r)) (c # r)), tail)
      else rsplit_whitespace r (c # tail))"

definition normalize_address :: "string \<Rightarrow> string" where
  "normalize_address raw =
     (let trimmed = trim_text raw in
      case rsplit_whitespace (rev trimmed) [] of
        None \<Rightarrow> trimmed
      | Some (head, port) \<Rightarrow>
          if port = [] \<or> \<not> all_digits port then trimmed
          else
            (let host_text = trim_text head;
                 (lead, bare) = (case split_once_str ''://'' host_text of
                                   Some (scheme, rest) \<Rightarrow> (take (length scheme + 3) host_text, rest)
                                 | None \<Rightarrow> ([], host_text))
             in if parse_ipv6 bare \<noteq> None then lead @ ''['' @ bare @ '']:'' @ port
                else host_text @ '':'' @ port))"

definition path_safe :: "char \<Rightarrow> bool" where
  "path_safe c \<longleftrightarrow> is_upper c \<or> is_lower c \<or> is_digit c \<or> c \<in> set ''-._~!$&()*+,;=/'' \<or> c = CHR 0x27"

definition hex_upper :: "nat \<Rightarrow> char" where
  "hex_upper d = ''0123456789ABCDEF'' ! d"

definition escape_path :: "string \<Rightarrow> string" where
  "escape_path script =
     concat (map (\<lambda>c. if path_safe c then [c]
                     else [CHR ''%'', hex_upper (byte_val c div 16), hex_upper (byte_val c mod 16)])
               script)"

definition parse_script_location :: "external \<Rightarrow> string \<Rightarrow> proxy_error + url" where
  "parse_script_location E script =
     (case url_parse E script of
        Inr u \<Rightarrow> Inr u
      | Inl _ \<Rightarrow>
          if \<not> starts_with ''/'' script
          then Inl (error_invalid_proxy_url script ''relative URL without a base'')
          else map_err (error_invalid_proxy_url script)
                 (url_parse E (''file://'' @ escape_path script)))"

section \<open>The bypass list\<close>

definition bypass_from :: "external \<Rightarrow> kio_settings \<Rightarrow> bypass_rules" where
  "bypass_from E k =
     (let rules =
            (case kio_text k KEY_NO_PROXY_FOR of
               Some l \<Rightarrow>
                 if needs_expansion k KEY_NO_PROXY_FOR
                 then bypass_new\<lparr>br_rejected :=
                        [rejected_new UnsupportedMapping (Kioslaverc KEY_NO_PROXY_FOR) l]\<rparr>
                 else kde_no_proxy_for E l
             | None \<Rightarrow> bypass_new);
          rules' = rules\<lparr>implicit := EmptySet, ipv4_mapped_as_ipv4 := False,
                     strip_trailing_dot := False\<rparr>
      in if reversed_exception k then rules'\<lparr>reversed_exceptions := True\<rparr> else rules')"

section \<open>\<open>ProxyType = 1\<close>\<close>

record slot_state =
  ss_map :: scheme_map
  ss_rejected :: "rejected_value list"
  ss_socks :: "proxy_endpoint option"
  ss_socks_unusable :: bool
  ss_blank :: "scheme list"

definition slot_attribution :: "slot_keys \<Rightarrow> scheme" where
  "slot_attribution slot = (if sl_scheme slot = Socks then AllSchemes else sl_scheme slot)"

definition kio_record :: "rejection_kind \<Rightarrow> slot_keys \<Rightarrow> string \<Rightarrow> rejected_value" where
  "kio_record kind slot raw =
     for_scheme (Some (slot_attribution slot)) (rejected_new kind (Kioslaverc (sl_key slot)) raw)"

definition manual_slot :: "external \<Rightarrow> kio_settings \<Rightarrow> slot_keys \<Rightarrow> slot_state \<Rightarrow> slot_state" where
  "manual_slot E k slot st =
     (if \<not> kio_has k (sl_key slot) then st
      else
        (case kio_text k (sl_key slot) of
           None \<Rightarrow> st\<lparr>ss_blank := ss_blank st @ [sl_scheme slot]\<rparr>
         | Some raw \<Rightarrow>
             (let st1 = (if sl_scheme slot = Socks then st\<lparr>ss_socks_unusable := True\<rparr> else st) in
              if needs_expansion k (sl_key slot)
              then st1\<lparr>ss_rejected := ss_rejected st1 @ [kio_record UnsupportedMapping slot raw]\<rparr>
              else
                (case endpoint_parse E (normalize_address raw) (sl_default_port slot) of
                   Inl _ \<Rightarrow>
                     st1\<lparr>ss_rejected := ss_rejected st1 @ [kio_record InvalidProxyEndpoint slot raw]\<rparr>
                 | Inr e0 \<Rightarrow>
                     (let e = (case sl_hint slot of
                                 None \<Rightarrow> e0
                               | Some hint \<Rightarrow>
                                   if scheme_hint e0 = None then with_scheme_hint hint e0 else e0);
                          st2 = (if sl_scheme slot = Socks then st1\<lparr>ss_socks := Some e\<rparr> else st1)
                      in st2\<lparr>ss_map := (ss_map st2)(sl_scheme slot \<mapsto> Use e)\<rparr>)))))"

definition slot_init :: slot_state where
  "slot_init = \<lparr> ss_map = Map.empty, ss_rejected = [], ss_socks = None,
     ss_socks_unusable = False, ss_blank = [] \<rparr>"

definition manual_slots :: "external \<Rightarrow> kio_settings \<Rightarrow> slot_state" where
  "manual_slots E k = foldl (\<lambda>st slot. manual_slot E k slot st) slot_init SLOTS"

definition disable_all :: "scheme list \<Rightarrow> scheme_map \<Rightarrow> scheme_map" where
  "disable_all ss m = foldl (\<lambda>m s. m(s \<mapsto> Disabled)) m ss"

definition kio_manual_mode :: "external \<Rightarrow> kio_settings \<Rightarrow> proxy_mode" where
  "kio_manual_mode E k =
     (let st = manual_slots E k;
          m = (case ss_socks st of
                 Some e \<Rightarrow> (ss_map st)(AllSchemes \<mapsto> Use e)
               | None \<Rightarrow>
                   if \<not> ss_socks_unusable st then disable_all (ss_blank st) (ss_map st)
                   else ss_map st)
      in if all_disabled m \<and> ss_rejected st = [] then Direct
         else with_rejected (ss_rejected st) (mode_manual m (bypass_from E k)))"

section \<open>\<open>ProxyType = 2\<close>\<close>

definition pac_mode :: "external \<Rightarrow> kio_settings \<Rightarrow> proxy_error + proxy_mode" where
  "pac_mode E k =
     (case kio_text k KEY_CONFIG_SCRIPT of
        None \<Rightarrow> Inr Direct
      | Some script \<Rightarrow>
          if needs_expansion k KEY_CONFIG_SCRIPT
          then Inr (with_rejected
                 [for_scheme (Some AllSchemes)
                    (rejected_new UnsupportedMapping (Kioslaverc KEY_CONFIG_SCRIPT) script)]
                 (mode_manual Map.empty
                    (bypass_new\<lparr>implicit := EmptySet, ipv4_mapped_as_ipv4 := False\<rparr>)))
          else (case parse_script_location E script of
                  Inl e \<Rightarrow> Inl e
                | Inr u \<Rightarrow> Inr (mode_pac u)))"

section \<open>\<open>ProxyType = 4\<close>\<close>

definition forgeable_by_a_request_header :: "string \<Rightarrow> bool" where
  "forgeable_by_a_request_header name \<longleftrightarrow>
     5 \<le> length name \<and> (length name = 5 \<or> \<not> continuation_byte (name ! 5))
     \<and> eq_ignore_ascii_case (take 5 name) ''HTTP_''"

text \<open>One slot: an error, or the variables and the records so far.\<close>

definition env_slot ::
    "kio_settings \<Rightarrow> (string \<Rightarrow> string option) \<Rightarrow> bool \<Rightarrow> slot_keys
       \<Rightarrow> (string \<times> string) list \<times> rejected_value list
       \<Rightarrow> proxy_error + ((string \<times> string) list \<times> rejected_value list)" where
  "env_slot k env in_cgi slot st =
     (let (vars, skipped) = st in
      case kio_text k (sl_key slot) of
        None \<Rightarrow> Inr st
      | Some name \<Rightarrow>
          (case sl_env_var slot of
             None \<Rightarrow>
               Inr (vars, skipped @
                 [for_scheme (Some (slot_attribution slot))
                    (rejected_new UnsupportedMapping (Kioslaverc (sl_key slot))
                       (sl_key slot @ ''='' @ name))])
           | Some canonical \<Rightarrow>
               if needs_expansion k (sl_key slot)
               then Inr (vars, skipped @
                      [for_scheme (Some (sl_scheme slot))
                         (rejected_new UnsupportedMapping (Kioslaverc (sl_key slot)) name)])
               else
                 (case env name of
                    None \<Rightarrow> Inr st
                  | Some value \<Rightarrow>
                      if in_cgi \<and> forgeable_by_a_request_header name then Inl (CgiHttpProxy name)
                      else Inr (vars @ [(canonical, value)], skipped))))"

fun env_slots ::
    "kio_settings \<Rightarrow> (string \<Rightarrow> string option) \<Rightarrow> bool \<Rightarrow> slot_keys list
       \<Rightarrow> (string \<times> string) list \<times> rejected_value list
       \<Rightarrow> proxy_error + ((string \<times> string) list \<times> rejected_value list)" where
  "env_slots k env in_cgi [] st = Inr st"
| "env_slots k env in_cgi (slot # slots) st =
     (case env_slot k env in_cgi slot st of
        Inl e \<Rightarrow> Inl e
      | Inr st' \<Rightarrow> env_slots k env in_cgi slots st')"

definition env_no_proxy ::
    "kio_settings \<Rightarrow> (string \<Rightarrow> string option) \<Rightarrow> bool \<Rightarrow> proxy_error + string option" where
  "env_no_proxy k env in_cgi =
     (case kio_text k KEY_NO_PROXY_FOR of
        None \<Rightarrow> Inr None
      | Some name \<Rightarrow>
          (case env name of
             None \<Rightarrow> Inr None
           | Some value \<Rightarrow>
               if in_cgi \<and> forgeable_by_a_request_header name then Inl (CgiHttpProxy name)
               else Inr (Some value)))"

definition env_mode ::
    "external \<Rightarrow> nat \<Rightarrow> kio_settings \<Rightarrow> (string \<Rightarrow> string option) \<Rightarrow> proxy_error + proxy_mode" where
  "env_mode E now k os_env =
     (let env = (\<lambda>name. map_option utf8_lossy (os_env name));
          in_cgi = (case env CGI_MARKER_VAR of None \<Rightarrow> False | Some meth \<Rightarrow> meth \<noteq> [])
      in case env_slots k env in_cgi SLOTS ([], []) of
           Inl e \<Rightarrow> Inl e
         | Inr (vars, skipped) \<Rightarrow>
             (case env_no_proxy k env in_cgi of
                Inl e \<Rightarrow> Inl e
              | Inr no_proxy_for \<Rightarrow>
                  (case env_from_vars E False now
                          (vars @ (case no_proxy_for of None \<Rightarrow> [] | Some v \<Rightarrow> [(''no_proxy'', v)])) of
                     Inl e \<Rightarrow> Inl e
                   | Inr resolved \<Rightarrow>
                       Inr (if env_is_empty resolved \<and> skipped = [] then Direct
                            else with_rejected (env_rejected resolved @ skipped)
                              (mode_manual (env_per_scheme resolved)
                                 ((case no_proxy_for of
                                     None \<Rightarrow> bypass_new | Some v \<Rightarrow> kde_no_proxy_for E v)
                                  \<lparr>implicit := EmptySet, ipv4_mapped_as_ipv4 := False,
                                   strip_trailing_dot := False\<rparr>))))))"

section \<open>The whole section\<close>

record kde_config =
  kde_source :: config_source
  kde_mode :: proxy_mode

definition kio_proxy_type :: "kio_settings \<Rightarrow> proxy_type" where
  "kio_proxy_type k =
     unwrap_or NoProxy
       (Option.bind (Option.bind (kio_text k KEY_PROXY_TYPE) (\<lambda>v. parse_i64 (trim_ascii v)))
          proxy_type_from_i64)"

definition config_from_kioslaverc ::
    "external \<Rightarrow> nat \<Rightarrow> kio_settings \<Rightarrow> (string \<Rightarrow> string option) \<Rightarrow> proxy_error + kde_config" where
  "config_from_kioslaverc E now k os_env =
     (let wrap = (\<lambda>source r. case r of
            Inl e \<Rightarrow> Inl e | Inr mode \<Rightarrow> Inr \<lparr> kde_source = source, kde_mode = mode \<rparr>)
      in case kio_proxy_type k of
           NoProxy \<Rightarrow> wrap KioslavercSource (Inr Direct)
         | WpadProxy \<Rightarrow> wrap KioslavercSource (Inr WpadAutoDetect)
         | PacProxy \<Rightarrow> wrap KioslavercSource (pac_mode E k)
         | ManualProxy \<Rightarrow> wrap KioslavercSource (Inr (kio_manual_mode E k))
         | EnvVarProxy \<Rightarrow> wrap KioslavercEnv (env_mode E now k os_env))"

definition configured_from_kioslaverc ::
    "external \<Rightarrow> nat \<Rightarrow> kio_settings \<Rightarrow> (string \<Rightarrow> string option)
       \<Rightarrow> proxy_error + kde_config option" where
  "configured_from_kioslaverc E now k os_env =
     (if \<not> kio_has k KEY_PROXY_TYPE then Inr None
      else (case config_from_kioslaverc E now k os_env of
              Inl e \<Rightarrow> Inl e
            | Inr c \<Rightarrow> Inr (Some c)))"

end
