(* ===== verification/Kio_Facts.thy ===== *)
theory Kio_Facts
  imports Store_Contract Kioslaverc
begin

text \<open>
  The reader of KDE's \<open>[Proxy Settings]\<close>: what a slot leaves in the map and in the record, and
  that a slot which could not be used is never answered direct.
\<close>

section \<open>The slots of \<open>ProxyType = 1\<close>\<close>

definition slot_lost :: "external \<Rightarrow> kio_settings \<Rightarrow> slot_keys \<Rightarrow> bool" where
  "slot_lost E k slot \<longleftrightarrow>
     (case kio_text k (sl_key slot) of
        None \<Rightarrow> False
      | Some raw \<Rightarrow>
          needs_expansion k (sl_key slot) \<or>
          \<not> is_ok (endpoint_parse E (normalize_address raw) (sl_default_port slot)))"

definition fold_slots :: "external \<Rightarrow> kio_settings \<Rightarrow> slot_keys list \<Rightarrow> slot_state" where
  "fold_slots E k slots = foldl (\<lambda>st slot. manual_slot E k slot st) slot_init slots"

lemma fold_slots_snoc:
  "fold_slots E k (slots @ [slot]) = manual_slot E k slot (fold_slots E k slots)"
  by (simp add: fold_slots_def)

lemma fold_slots_Nil: "fold_slots E k [] = slot_init"
  by (simp add: fold_slots_def)

lemma kio_text_has: "kio_text k key = Some v \<Longrightarrow> kio_has k key"
  by (auto simp: kio_text_def kio_has_def split: option.splits)

lemmas manual_slot_cases = manual_slot_def Let_def slot_lost_def kio_record_def

lemma fold_slots_map:
  "ss_map (fold_slots E k slots) s = Some entry \<Longrightarrow> \<exists>e. entry = Use e"
proof (induction slots rule: rev_induct)
  case (snoc slot slots)
  then show ?case
    by (auto simp: fold_slots_snoc manual_slot_def Let_def split: if_splits option.splits sum.splits)
qed (simp add: fold_slots_Nil slot_init_def)

lemma fold_slots_blank:
  "s \<in> set (ss_blank (fold_slots E k slots)) \<Longrightarrow>
   \<exists>slot\<in>set slots. sl_scheme slot = s \<and> kio_text k (sl_key slot) = None"
proof (induction slots rule: rev_induct)
  case (snoc slot slots)
  then show ?case
    by (auto simp: fold_slots_snoc manual_slot_def Let_def split: if_splits option.splits sum.splits)
qed (simp add: fold_slots_Nil slot_init_def)

lemma fold_slots_socks:
  "ss_socks (fold_slots E k slots) \<noteq> None \<Longrightarrow>
   \<exists>slot\<in>set slots. sl_scheme slot = Socks \<and> kio_text k (sl_key slot) \<noteq> None \<and> \<not> slot_lost E k slot"
proof (induction slots rule: rev_induct)
  case (snoc slot slots)
  then show ?case
    by (auto simp: fold_slots_snoc manual_slot_cases split: if_splits option.splits sum.splits)
qed (simp add: fold_slots_Nil slot_init_def)

lemma fold_slots_unusable:
  "slot \<in> set slots \<Longrightarrow> sl_scheme slot = Socks \<Longrightarrow> slot_lost E k slot \<Longrightarrow>
   ss_socks_unusable (fold_slots E k slots)"
proof (induction slots rule: rev_induct)
  case (snoc x slots)
  then show ?case
    using kio_text_has [of k "sl_key x"]
    by (auto simp: fold_slots_snoc manual_slot_cases split: if_splits option.splits sum.splits)
qed simp

lemma fold_slots_record:
  "slot \<in> set slots \<Longrightarrow> slot_lost E k slot \<Longrightarrow>
   \<exists>v\<in>set (ss_rejected (fold_slots E k slots)). affected_scheme v = Some (slot_attribution slot)"
proof (induction slots rule: rev_induct)
  case (snoc x slots)
  then show ?case
    using kio_text_has [of k "sl_key x"]
    by (auto simp: fold_slots_snoc manual_slot_cases split: if_splits option.splits sum.splits)
qed simp

lemma disable_all_entry: "disable_all ss m s = (if s \<in> set ss then Some Disabled else m s)"
  by (induction ss rule: rev_induct) (auto simp: disable_all_def)

section \<open>The contract\<close>

definition kio_lost :: "external \<Rightarrow> kio_settings \<Rightarrow> scheme \<Rightarrow> bool" where
  "kio_lost E k s \<longleftrightarrow>
     (case kio_proxy_type k of
        ManualProxy \<Rightarrow>
          list_ex (\<lambda>slot. slot_lost E k slot \<and> slot_attribution slot \<in> {s, AllSchemes}) SLOTS
      | PacProxy \<Rightarrow> kio_text k KEY_CONFIG_SCRIPT \<noteq> None \<and> needs_expansion k KEY_CONFIG_SCRIPT
      | _ \<Rightarrow> False)"

definition kio_mode ::
    "external \<Rightarrow> nat \<Rightarrow> (string \<Rightarrow> string option) \<Rightarrow> kio_settings \<Rightarrow> proxy_error + proxy_mode" where
  "kio_mode E now env k =
     (case config_from_kioslaverc E now k env of Inl e \<Rightarrow> Inl e | Inr c \<Rightarrow> Inr (kde_mode c))"

lemma SLOTS_schemes:
  "slot \<in> set SLOTS \<Longrightarrow> sl_scheme slot \<noteq> AllSchemes"
  "slot \<in> set SLOTS \<Longrightarrow> slot' \<in> set SLOTS \<Longrightarrow> sl_scheme slot = sl_scheme slot' \<Longrightarrow> slot = slot'"
  by (auto simp: SLOTS_def)

lemma kio_manual_routed:
  assumes slot: "slot \<in> set SLOTS" "slot_lost E k slot" "slot_attribution slot \<in> {s, AllSchemes}"
  shows "routed (kio_manual_mode E k) s"
proof -
  define st where "st = fold_slots E k SLOTS"
  define m where "m = (case ss_socks st of Some e \<Rightarrow> (ss_map st)(AllSchemes \<mapsto> Use e)
    | None \<Rightarrow> if \<not> ss_socks_unusable st then disable_all (ss_blank st) (ss_map st) else ss_map st)"
  have st: "manual_slots E k = st" by (simp add: manual_slots_def fold_slots_def st_def)
  obtain v where v: "v \<in> set (ss_rejected st)" "affected_scheme v = Some (slot_attribution slot)"
    using fold_slots_record [OF slot(1,2)] by (auto simp: st_def)
  have mode: "kio_manual_mode E k = with_rejected (ss_rejected st) (mode_manual m (bypass_from E k))"
    using v(1) by (auto simp: kio_manual_mode_def st m_def Let_def)
  have use: "ss_map st x \<noteq> Some Disabled" for x using fold_slots_map [of E k SLOTS x] by (auto simp: st_def)
  have blank: "\<exists>slot\<in>set SLOTS. sl_scheme slot = x \<and> kio_text k (sl_key slot) = None"
    if "m x = Some Disabled" for x
    using that use [of x] fold_slots_blank [of x E k SLOTS]
    by (auto simp: m_def disable_all_entry st_def split: option.splits if_splits)
  have "m AllSchemes \<noteq> Some Disabled" using blank SLOTS_schemes(1) by blast
  moreover have "m s \<noteq> Some Disabled"
  proof
    assume d: "m s = Some Disabled"
    then obtain x where x: "x \<in> set SLOTS" "sl_scheme x = s" "kio_text k (sl_key x) = None"
      using blank by blast
    have "slot \<noteq> x" using slot(2) x(3) by (auto simp: slot_lost_def)
    then have "sl_scheme slot \<noteq> s" using SLOTS_schemes(2) slot(1) x by auto
    then have socks: "sl_scheme slot = Socks"
      using slot(3) x(1,2) SLOTS_schemes(1) [OF x(1)] SLOTS_schemes(1) [OF slot(1)]
      by (auto simp: slot_attribution_def split: if_splits)
    have "ss_socks st = None"
      using fold_slots_socks [of E k SLOTS] SLOTS_schemes(2) [OF slot(1)] slot(2) socks
      by (force simp: st_def)
    moreover have "ss_socks_unusable st"
      using fold_slots_unusable [OF slot(1) socks slot(2)] by (simp add: st_def)
    ultimately show False using d use [of s] by (simp add: m_def)
  qed
  ultimately show ?thesis
    unfolding mode using v slot(3) by (intro routed_filed [of m s v]) auto
qed

interpretation kioslaverc: careful_store "kio_mode E now env" "kio_lost E"
proof
  fix k s mode
  assume lost: "kio_lost E k s" and read: "kio_mode E now env k = Inr mode"
  show "routed mode s"
  proof (cases "kio_proxy_type k")
    case ManualProxy
    then show ?thesis
      using lost read kio_manual_routed [of _ E k s]
      by (auto simp: kio_lost_def kio_mode_def config_from_kioslaverc_def list_ex_iff)
  next
    case PacProxy
    then show ?thesis
      using lost read
      by (auto simp: kio_lost_def kio_mode_def config_from_kioslaverc_def pac_mode_def
          intro!: routed_filed)
  qed (use lost in \<open>simp_all add: kio_lost_def\<close>)
qed

text \<open>C11. KDE: when a slot of the manual mode is written and cannot be used, or the script of the
  PAC mode cannot, a URL the setting was for is answered by a proxy or by an error, never by a
  direct connection, unless the exceptions name its host.\<close>

theorem kde_lost_slot_is_never_direct:
  assumes "kio_lost E k (request_scheme u)" "kio_mode E now env k = Inr mode"
    and "url_scheme u \<noteq> ''ws''" "url_scheme u \<noteq> ''wss''"
    and "has_request_host u" "\<not> bypassed E mode u"
  shows "proxied_or_refused (resolve_mode E mode u)"
  using assms by (rule kioslaverc.lost_never_direct)

definition kio_example :: kio_settings where
  "kio_example = foldl (\<lambda>k (key, v). kio_insert key v k) kio_new
     [(''ProxyType'', ''1''), (''httpProxy'', []), (''httpsProxy'', []),
      (''socksProxy[$e]'', ''$HOST 1080''), (''NoProxyFor'', ''b.c'')]"

theorem kde_lost_slot_is_never_direct_witness:
  "kio_lost plain_external kio_example Https \<and>
   proxied_or_refused (resolve_mode plain_external
     (projr (kio_mode plain_external 0 Map.empty kio_example)) example_url)"
proof -
  let ?E = plain_external and ?mode = "projr (kio_mode plain_external 0 Map.empty kio_example)"
  have lost: "kio_lost ?E kio_example Https" by code_simp
  have "\<not> isl (kio_mode ?E 0 Map.empty kio_example)" by code_simp
  then have read: "kio_mode ?E 0 Map.empty kio_example = Inr ?mode" by simp
  have "\<not> bypassed ?E ?mode example_url" by code_simp
  then have "proxied_or_refused (resolve_mode ?E ?mode example_url)"
    by (intro kde_lost_slot_is_never_direct [OF _ read])
      (use lost in \<open>simp_all add: example_url_def request_scheme_def has_request_host_def request_host_def\<close>)
  with lost show ?thesis by simp
qed

section \<open>\<open>ProxyType = 4\<close>\<close>

text \<open>The SOCKS slot is the catch-all of this mode too, and its loss is filed for every scheme;
  but a variable that is set and blank is \<open>Disabled\<close>, which answers before the record does. So
  here, unlike in the manual mode, a lost catch-all can become a direct connection.\<close>

definition kio_env_example :: kio_settings where
  "kio_env_example = foldl (\<lambda>k (key, v). kio_insert key v k) kio_new
     [(''ProxyType'', ''4''), (''httpsProxy'', ''MY_PROXY''), (''socksProxy'', ''MY_SOCKS'')]"

theorem blank_variable_hides_the_lost_catch_all:
  "(case env_mode plain_external 0 kio_env_example [''MY_PROXY'' \<mapsto> [], ''MY_SOCKS'' \<mapsto> ''s:1''] of
      Inl e \<Rightarrow> False
    | Inr mode \<Rightarrow>
        (case entry_for mode AllSchemes of Some (Unusable v) \<Rightarrow> True | _ \<Rightarrow> False) \<and>
        resolve_mode plain_external mode example_url = Inr [StepDirect])"
  by code_simp

end
