(* ===== verification/Kde_File.thy ===== *)
theory Kde_File
  imports Kioslaverc
begin

text \<open>
  \<open>src/sys/linux/kde.rs\<close>: the directories \<open>kioslaverc\<close> is looked for in, the cascade of its
  files, and the scan of one file. What a directory holds is an argument, and so is the
  syntax check of the crate \<open>configparser\<close>, which gives the reason when it refuses a text.
\<close>

section \<open>Directories\<close>

definition DEFAULT_CONFIG_DIRS :: string where "DEFAULT_CONFIG_DIRS = ''/etc/xdg''"

definition non_empty :: "string option \<Rightarrow> string option" where
  "non_empty v = (case v of Some s \<Rightarrow> if s = [] then None else Some s | None \<Rightarrow> None)"

definition is_absolute :: "string \<Rightarrow> bool" where "is_absolute p \<longleftrightarrow> starts_with ''/'' p"

definition path_join :: "string \<Rightarrow> string \<Rightarrow> string" where
  "path_join dir name = (if dir = [] \<or> ends_with ''/'' dir then dir @ name else dir @ ''/'' @ name)"

text \<open>Paths are compared by their components.\<close>

definition path_components :: "string \<Rightarrow> string list" where
  "path_components p = filter (\<lambda>c. c \<noteq> [] \<and> c \<noteq> ''.'') (split_chars (\<lambda>c. c = CHR ''/'') p)"

definition same_path :: "string \<Rightarrow> string \<Rightarrow> bool" where
  "same_path p q \<longleftrightarrow> is_absolute p = is_absolute q \<and> path_components p = path_components q"

fun push_new_dirs :: "string list \<Rightarrow> string list \<Rightarrow> string list" where
  "push_new_dirs dirs [] = dirs"
| "push_new_dirs dirs (c # cs) =
     push_new_dirs (if list_ex (same_path c) dirs then dirs else dirs @ [c]) cs"

definition search_dirs :: "string option \<Rightarrow> string option \<Rightarrow> string option \<Rightarrow> string list" where
  "search_dirs xdg_config_home home xdg_config_dirs =
     (let user = List.find is_absolute
            ((case non_empty xdg_config_home of None \<Rightarrow> [] | Some p \<Rightarrow> [p])
             @ (case non_empty home of None \<Rightarrow> [] | Some h \<Rightarrow> [path_join h ''.config'']));
          system = filter is_absolute (filter (\<lambda>e. e \<noteq> [])
            (split_chars (\<lambda>c. c = CHR '':'')
               (unwrap_or DEFAULT_CONFIG_DIRS (non_empty xdg_config_dirs))));
          system' = (if system = [] then [DEFAULT_CONFIG_DIRS] else system)
      in push_new_dirs (case user of None \<Rightarrow> [] | Some d \<Rightarrow> [d]) system')"

section \<open>Escapes\<close>

text \<open>What an escape gives; \<open>None\<close> for one KConfig does not know.\<close>

definition simple_escape :: "char \<Rightarrow> string option" where
  "simple_escape c =
     (if c = CHR ''s'' then Some '' ''
      else if c = CHR ''t'' then Some [CHR 0x09]
      else if c = CHR ''n'' then Some [CHR 0x0A]
      else if c = CHR ''r'' then Some [CHR 0x0D]
      else if c = CHR 0x5C then Some [CHR 0x5C]
      else if c = CHR '';'' then Some [CHR 0x5C, CHR '';'']
      else if c = CHR '','' then Some [CHR 0x5C, CHR '','']
      else None)"

definition hex_digit_of :: "string \<Rightarrow> nat option" where
  "hex_digit_of ch = (case ch of [c] \<Rightarrow> hex_val c | _ \<Rightarrow> None)"

text \<open>The loop of \<open>printable_to_string\<close>, over characters; \<open>None\<close> gives the value back as it is
  written.\<close>

fun unescape :: "string list \<Rightarrow> string option" where
  "unescape [] = Some []"
| "unescape [ch] = Some ch"
| "unescape (ch # d # cs) =
     (if ch \<noteq> [CHR 0x5C] then map_option (\<lambda>out. ch @ out) (unescape (d # cs))
      else if d = ''x'' then
        (case cs of
           h # l # rest \<Rightarrow>
             map_option (\<lambda>out.
                 (case (hex_digit_of h, hex_digit_of l) of
                    (Some hi, Some lo) \<Rightarrow> [char_of (hi * 16 + lo)]
                  | _ \<Rightarrow> ''x'') @ out) (unescape rest)
         | _ \<Rightarrow> Some ''x'')
      else (case d of
              [c] \<Rightarrow>
                (case simple_escape c of
                   Some s \<Rightarrow> map_option (\<lambda>out. s @ out) (unescape cs)
                 | None \<Rightarrow> None)
            | _ \<Rightarrow> None))"

definition printable_to_string :: "string \<Rightarrow> string" where
  "printable_to_string raw =
     (if CHR 0x5C \<notin> set raw then raw
      else (case unescape (chars raw) of None \<Rightarrow> raw | Some out \<Rightarrow> utf8_lossy out))"

section \<open>Group headers\<close>

record group_header =
  gh_name :: string
  gh_file_immutable :: bool
  gh_group_immutable :: bool

definition header_part :: "string \<Rightarrow> string \<Rightarrow> group_header \<Rightarrow> group_header" where
  "header_part part after h =
     (if after = [] \<and> part = ''$i'' then
        (if gh_name h = [] then h\<lparr>gh_file_immutable := True\<rparr> else h\<lparr>gh_group_immutable := True\<rparr>)
      else h\<lparr>gh_name := gh_name h @ (if gh_name h = [] then [] else [CHR 0x1D])
               @ (if CHR 0x5C \<in> set part then printable_to_string (trim_ascii part) else part)\<rparr>)"

text \<open>The parts from the current one on; \<open>rest\<close> is what follows its bracket.\<close>

function header_parts :: "string \<Rightarrow> group_header \<Rightarrow> group_header option" where
  "header_parts rest h =
     (case split_once_char (\<lambda>c. c = CHR '']'') rest of
        None \<Rightarrow> None
      | Some (part, after) \<Rightarrow>
          (let h' = header_part part after h in
           case after of
             [] \<Rightarrow> Some h'
           | c # rest' \<Rightarrow> if c = CHR ''['' then header_parts rest' h' else Some h'))"
  by pat_completeness auto

termination
  by (relation "measure (\<lambda>(rest, h). length rest)") (auto simp: split_once_char_Some)

definition group_header :: "string \<Rightarrow> group_header option" where
  "group_header line =
     header_parts (drop 1 line)
       \<lparr> gh_name = [], gh_file_immutable = False, gh_group_immutable = False \<rparr>"

section \<open>One file\<close>

text \<open>\<open>str::lines\<close>.\<close>

definition strip_cr :: "string \<Rightarrow> string" where
  "strip_cr l = unwrap_or l (strip_suffix [CHR 0x0D] l)"

definition text_lines :: "string \<Rightarrow> string list" where
  "text_lines text =
     (let parts = split_chars (\<lambda>c. c = CHR 0x0A) text
      in map strip_cr (butlast parts) @ (if last parts = [] then [] else [last parts]))"

record scan =
  in_proxy_settings :: bool
  current_group_immutable :: bool
  pending_group_immutable :: bool
  scan_file_immutable :: bool
  scan_found :: bool
  scan_settings :: kio_settings

definition scan_header :: "string \<Rightarrow> scan \<Rightarrow> scan" where
  "scan_header trimmed sc =
     (case group_header trimmed of
        None \<Rightarrow>
          sc\<lparr>current_group_immutable := in_proxy_settings sc \<and> scan_file_immutable sc\<rparr>
      | Some h \<Rightarrow>
          (let file = (scan_file_immutable sc \<or> gh_file_immutable h);
               inside = (gh_name h = SECTION);
               current = (inside \<and> (file \<or> gh_group_immutable h))
           in sc\<lparr>scan_file_immutable := file, in_proxy_settings := inside,
                 current_group_immutable := current,
                 pending_group_immutable := pending_group_immutable sc \<or> current,
                 scan_found := scan_found sc \<or> inside\<rparr>))"

definition scan_row :: "bool \<Rightarrow> string \<Rightarrow> scan \<Rightarrow> scan" where
  "scan_row group_was_immutable trimmed sc =
     (if \<not> in_proxy_settings sc \<or> group_was_immutable then sc
      else
        (let (raw_key, value) =
               (case split_once_char (\<lambda>c. c = CHR ''='') trimmed of
                  Some (key, v) \<Rightarrow> (key, Some (printable_to_string (trim_ascii v)))
                | None \<Rightarrow> (trimmed, None))
         in if value \<noteq> None \<or> has_kconfig_flag raw_key (CHR ''d'')
            then sc\<lparr>scan_settings :=
                   kio_apply raw_key value (current_group_immutable sc) (scan_settings sc)\<rparr>
            else sc))"

definition scan_line :: "bool \<Rightarrow> string \<Rightarrow> scan \<Rightarrow> scan" where
  "scan_line group_was_immutable line sc =
     (let trimmed = trim_ascii line in
      if trimmed = [] \<or> starts_with ''#'' trimmed then sc
      else if starts_with ''['' trimmed then scan_header trimmed sc
      else scan_row group_was_immutable trimmed sc)"

record apply_outcome =
  found_proxy_settings :: bool
  file_immutable :: bool
  outcome_settings :: kio_settings

definition apply_proxy_settings ::
    "(string \<Rightarrow> string option) \<Rightarrow> string \<Rightarrow> string \<Rightarrow> kio_settings \<Rightarrow> proxy_error + apply_outcome" where
  "apply_proxy_settings ini_refusal text path k =
     (case ini_refusal text of
        Some reason \<Rightarrow> Inl (error_io (''parsing '' @ path) reason)
      | None \<Rightarrow>
          (let sc = foldl (\<lambda>sc line. scan_line (group_immutable k) line sc)
                 \<lparr> in_proxy_settings = False, current_group_immutable = False,
                   pending_group_immutable = False, scan_file_immutable = False,
                   scan_found = False, scan_settings = k \<rparr> (text_lines text)
           in Inr \<lparr> found_proxy_settings = scan_found sc,
                    file_immutable = scan_file_immutable sc,
                    outcome_settings =
                      (if pending_group_immutable sc then mark_group_immutable (scan_settings sc)
                       else scan_settings sc) \<rparr>))"

section \<open>The cascade\<close>

datatype file_read = FileText string | FileMissing | FileFailed string

definition FILE_NAME :: string where "FILE_NAME = ''kioslaverc''"

record kioslaverc_read =
  kr_settings :: kio_settings
  kr_paths :: "string list"
  kr_found :: bool

text \<open>The layers in the order they are applied, the least specific first.\<close>

fun read_layers ::
    "(string \<Rightarrow> string option) \<Rightarrow> (string \<Rightarrow> file_read) \<Rightarrow> string list \<Rightarrow> kioslaverc_read
       \<Rightarrow> proxy_error + kioslaverc_read" where
  "read_layers ini_refusal read_file [] st = Inr st"
| "read_layers ini_refusal read_file (dir # dirs) st =
     (let path = path_join dir FILE_NAME in
      case read_file path of
        FileMissing \<Rightarrow> read_layers ini_refusal read_file dirs st
      | FileFailed e \<Rightarrow> Inl (error_io (''reading '' @ path) e)
      | FileText text \<Rightarrow>
          (case apply_proxy_settings ini_refusal text path (kr_settings st) of
             Inl e \<Rightarrow> Inl e
           | Inr outcome \<Rightarrow>
               (let st' = \<lparr> kr_settings = outcome_settings outcome, kr_paths = kr_paths st @ [path],
                      kr_found = (kr_found st \<or> found_proxy_settings outcome) \<rparr>
                in if file_immutable outcome then Inr st'
                   else read_layers ini_refusal read_file dirs st')))"

definition read_kioslaverc ::
    "(string \<Rightarrow> string option) \<Rightarrow> (string \<Rightarrow> file_read) \<Rightarrow> string list
       \<Rightarrow> proxy_error + kioslaverc_read option" where
  "read_kioslaverc ini_refusal read_file dirs =
     (case read_layers ini_refusal read_file (rev dirs)
             \<lparr> kr_settings = kio_new, kr_paths = [], kr_found = False \<rparr> of
        Inl e \<Rightarrow> Inl e
      | Inr r \<Rightarrow> Inr (if kr_paths r = [] then None else Some r))"

end
