(* ===== verification/Kde_Facts.thy ===== *)
theory Kde_Facts
  imports Kde_File
begin

text \<open>
  The cascade of KDE's configuration files: what one layer has locked, no later layer changes, and
  the directories it is read from.
\<close>

section \<open>Layers over locked settings\<close>

text \<open>A locked key keeps its entry; a locked group keeps every entry and stays locked.\<close>

definition keeps_locked :: "kio_settings \<Rightarrow> kio_settings \<Rightarrow> bool" where
  "keeps_locked k k' \<longleftrightarrow>
     (\<forall>key e. kio_entries k key = Some e \<and> ke_immutable e \<longrightarrow> kio_entries k' key = Some e) \<and>
     (group_immutable k \<longrightarrow> group_immutable k' \<and> kio_entries k' = kio_entries k)"

lemma keeps_locked_refl: "keeps_locked k k"
  by (simp add: keeps_locked_def)

lemma keeps_locked_trans: "keeps_locked k k' \<Longrightarrow> keeps_locked k' k'' \<Longrightarrow> keeps_locked k k''"
  by (auto simp: keeps_locked_def)

text \<open>Anything that folds layers into the settings, one at a time, and may stop with an error.\<close>

fun fold_layers :: "('l \<Rightarrow> 's \<Rightarrow> 'e + 's) \<Rightarrow> 'l list \<Rightarrow> 's \<Rightarrow> 'e + 's" where
  "fold_layers layer [] s = Inr s"
| "fold_layers layer (l # ls) s =
     (case layer l s of Inl e \<Rightarrow> Inl e | Inr s' \<Rightarrow> fold_layers layer ls s')"

lemma fold_layers_append:
  "fold_layers layer (ls @ ls') s =
     (case fold_layers layer ls s of Inl e \<Rightarrow> Inl e | Inr s' \<Rightarrow> fold_layers layer ls' s')"
  by (induction ls arbitrary: s) (auto split: sum.split)

locale locked_layers =
  fixes layer :: "'l \<Rightarrow> 's \<Rightarrow> 'e + 's" and settings_of :: "'s \<Rightarrow> kio_settings"
  assumes layer_keeps: "layer l s = Inr s' \<Longrightarrow> keeps_locked (settings_of s) (settings_of s')"
begin

lemma layers_keep: "fold_layers layer ls s = Inr s' \<Longrightarrow> keeps_locked (settings_of s) (settings_of s')"
  by (induction ls arbitrary: s)
    (auto split: sum.splits intro: keeps_locked_refl keeps_locked_trans dest!: layer_keeps)

lemma locked_key_kept:
  "fold_layers layer ls s = Inr s' \<Longrightarrow> kio_entries (settings_of s) key = Some e \<Longrightarrow> ke_immutable e \<Longrightarrow>
   kio_entries (settings_of s') key = Some e"
  using layers_keep unfolding keeps_locked_def by blast

lemma locked_group_kept:
  "fold_layers layer ls s = Inr s' \<Longrightarrow> group_immutable (settings_of s) \<Longrightarrow>
   kio_entries (settings_of s') = kio_entries (settings_of s)"
  using layers_keep unfolding keeps_locked_def by blast

end

lemma kio_apply_keeps:
  "\<not> group_immutable k \<Longrightarrow> keeps_locked k (kio_apply raw_key value locked k)"
  by (auto simp: keeps_locked_def kio_apply_def Let_def split: option.splits)

lemma kio_apply_group [simp]: "group_immutable (kio_apply raw_key value locked k) = group_immutable k"
  by (auto simp: kio_apply_def Let_def)

lemma scan_line_group [simp]:
  "group_immutable (scan_settings (scan_line was line sc)) = group_immutable (scan_settings sc)"
  by (auto simp: scan_line_def scan_header_def scan_row_def Let_def split: option.splits prod.splits)

lemma scan_line_keeps:
  "group_immutable (scan_settings sc) \<longrightarrow> was \<Longrightarrow>
   keeps_locked (scan_settings sc) (scan_settings (scan_line was line sc))"
  by (auto simp: scan_line_def scan_header_def scan_row_def Let_def keeps_locked_refl
      split: option.splits prod.splits intro!: kio_apply_keeps)

lemma scan_lines_keep:
  "group_immutable (scan_settings sc) \<longrightarrow> was \<Longrightarrow>
   keeps_locked (scan_settings sc)
     (scan_settings (foldl (\<lambda>sc line. scan_line was line sc) sc ls))"
proof (induction ls arbitrary: sc)
  case (Cons l ls)
  show ?case
    using keeps_locked_trans [OF scan_line_keeps [OF Cons.prems, of l]] Cons.IH [of "scan_line was l sc"]
      Cons.prems by simp
qed (simp add: keeps_locked_refl)

lemma mark_group_keeps: "keeps_locked k k' \<Longrightarrow> keeps_locked k (mark_group_immutable k')"
  by (simp add: keeps_locked_def mark_group_immutable_def)

lemma apply_proxy_settings_keeps:
  assumes "apply_proxy_settings ini_refusal text path k = Inr out"
  shows "keeps_locked k (outcome_settings out)"
  using assms scan_lines_keep [of "\<lparr> in_proxy_settings = False, current_group_immutable = False,
      pending_group_immutable = False, scan_file_immutable = False, scan_found = False,
      scan_settings = k \<rparr>" "group_immutable k" "text_lines text"]
  by (auto simp: apply_proxy_settings_def Let_def mark_group_keeps split: option.splits)

section \<open>The cascade as layers\<close>

text \<open>One directory of \<open>read_layers\<close>; the flag is whether a file ended the cascade.\<close>

definition read_dir ::
    "(string \<Rightarrow> string option) \<Rightarrow> (string \<Rightarrow> file_read) \<Rightarrow> string \<Rightarrow> bool \<times> kioslaverc_read
       \<Rightarrow> proxy_error + bool \<times> kioslaverc_read" where
  "read_dir ini_refusal read_file dir state =
     (let (stopped, st) = state; path = path_join dir FILE_NAME in
      if stopped then Inr (True, st)
      else
        (case read_file path of
           FileMissing \<Rightarrow> Inr (False, st)
         | FileFailed e \<Rightarrow> Inl (error_io (''reading '' @ path) e)
         | FileText text \<Rightarrow>
             (case apply_proxy_settings ini_refusal text path (kr_settings st) of
                Inl e \<Rightarrow> Inl e
              | Inr outcome \<Rightarrow>
                  Inr (file_immutable outcome,
                    \<lparr> kr_settings = outcome_settings outcome, kr_paths = kr_paths st @ [path],
                      kr_found = (kr_found st \<or> found_proxy_settings outcome) \<rparr>))))"

interpretation cascade: locked_layers "read_dir ini_refusal read_file" "\<lambda>(stopped, st). kr_settings st"
proof
  fix l s s'
  assume "read_dir ini_refusal read_file l s = Inr s'"
  then show "keeps_locked ((\<lambda>(stopped, st). kr_settings st) s) ((\<lambda>(stopped, st). kr_settings st) s')"
    by (cases s)
      (auto simp: read_dir_def Let_def keeps_locked_refl dest: apply_proxy_settings_keeps
        split: if_splits file_read.splits sum.splits)
qed

lemma read_dir_stopped: "read_dir ir rf dir (True, st) = Inr (True, st)"
  by (simp add: read_dir_def)

lemma read_dir_next:
  "read_dir ir rf dir (False, st) =
     (case rf (path_join dir FILE_NAME) of
        FileMissing \<Rightarrow> Inr (False, st)
      | FileFailed e \<Rightarrow> Inl (error_io (''reading '' @ path_join dir FILE_NAME) e)
      | FileText text \<Rightarrow>
          (case apply_proxy_settings ir text (path_join dir FILE_NAME) (kr_settings st) of
             Inl e \<Rightarrow> Inl e
           | Inr outcome \<Rightarrow>
               Inr (file_immutable outcome,
                 \<lparr> kr_settings = outcome_settings outcome,
                   kr_paths = kr_paths st @ [path_join dir FILE_NAME],
                   kr_found = (kr_found st \<or> found_proxy_settings outcome) \<rparr>)))"
  by (simp add: read_dir_def Let_def)

lemma cascade_stopped: "fold_layers (read_dir ir rf) dirs (True, st) = Inr (True, st)"
  by (induction dirs) (simp_all add: read_dir_stopped)

lemma read_layers_cascade:
  "read_layers ir rf dirs st =
     (case fold_layers (read_dir ir rf) dirs (False, st) of Inl e \<Rightarrow> Inl e | Inr (stopped, st') \<Rightarrow> Inr st')"
proof (induction dirs arbitrary: st)
  case (Cons dir dirs)
  then show ?case
    by (auto simp: read_dir_next Let_def cascade_stopped split: file_read.splits sum.splits)
qed simp

lemma read_layers_append:
  assumes "read_layers ir rf dirs st = Inr st1" "read_layers ir rf (dirs @ dirs') st = Inr st2"
  obtains s1 s2 where "fold_layers (read_dir ir rf) dirs' (s1, st1) = Inr (s2, st2)"
  using assms by (auto simp: read_layers_cascade fold_layers_append split: sum.splits)

section \<open>The properties\<close>

text \<open>C15. KDE's cascade: an entry that the files read so far have locked is the entry that is
  left when the more specific files are read too, whatever they hold; and a locked group is
  left with every entry it had.\<close>

theorem locked_settings_survive_the_cascade:
  assumes "read_layers ir rf dirs st = Inr st1" "read_layers ir rf (dirs @ dirs') st = Inr st2"
  shows "(\<forall>key. case kio_entries (kr_settings st1) key of
            Some e \<Rightarrow> if ke_immutable e then kio_entries (kr_settings st2) key = Some e else True
          | None \<Rightarrow> True)
    \<and> (if group_immutable (kr_settings st1)
       then kio_entries (kr_settings st2) = kio_entries (kr_settings st1) else True)"
proof -
  obtain s1 s2 where c: "fold_layers (read_dir ir rf) dirs' (s1, st1) = Inr (s2, st2)"
    using read_layers_append [OF assms] .
  show ?thesis
    using cascade.locked_key_kept [OF c] cascade.locked_group_kept [OF c]
    by (auto split: option.split)
qed

definition cascade_file :: "string \<Rightarrow> file_read" where
  "cascade_file path =
     (if path = ''/etc/xdg/kioslaverc''
      then FileText (''[Proxy Settings]'' @ [CHR 0x0A] @ ''ProxyType[$i]=1'' @ [CHR 0x0A])
      else if path = ''/home/u/.config/kioslaverc''
      then FileText (''[Proxy Settings]'' @ [CHR 0x0A] @ ''ProxyType=0'' @ [CHR 0x0A])
      else FileMissing)"

definition cascade_start :: kioslaverc_read where
  "cascade_start = \<lparr> kr_settings = kio_new, kr_paths = [], kr_found = False \<rparr>"

theorem locked_settings_survive_the_cascade_witness:
  "kio_entries (kr_settings (projr (read_layers (\<lambda>_. None) cascade_file
      ([''/etc/xdg''] @ [''/home/u/.config'']) cascade_start))) ''ProxyType''
   = Some \<lparr> ke_value = Some ''1'', ke_immutable = True, ke_expand = False \<rparr>"
proof -
  let ?read = "\<lambda>dirs. read_layers (\<lambda>_. None) cascade_file dirs cascade_start"
  let ?one = "projr (?read [''/etc/xdg''])" and ?two = "projr (?read ([''/etc/xdg''] @ [''/home/u/.config'']))"
  have "\<not> isl (?read [''/etc/xdg''])" "\<not> isl (?read ([''/etc/xdg''] @ [''/home/u/.config'']))"
    by code_simp+
  then have "?read [''/etc/xdg''] = Inr ?one" "?read ([''/etc/xdg''] @ [''/home/u/.config'']) = Inr ?two"
    by simp_all
  note kept = locked_settings_survive_the_cascade [OF this]
  have e: "kio_entries (kr_settings ?one) ''ProxyType'' =
      Some \<lparr> ke_value = Some ''1'', ke_immutable = True, ke_expand = False \<rparr>" by code_simp
  show ?thesis
    using conjunct1 [OF kept, rule_format, of "''ProxyType''"] unfolding e option.case by simp
qed

end
