(* ===== verification/Proxy_Dict.thy ===== *)
theory Proxy_Dict
  imports Stores
begin

text \<open>
  \<open>src/sys/proxy_dict.rs\<close>: the proxies dictionary of macOS and iOS, read into a mode, and
  the two scopes of macOS merged into a snapshot. The log lines are left out.
\<close>

section \<open>The schema\<close>

definition AUTO_DISCOVERY_ENABLE :: string where
  "AUTO_DISCOVERY_ENABLE = ''ProxyAutoDiscoveryEnable''"
definition AUTO_CONFIG_ENABLE :: string where "AUTO_CONFIG_ENABLE = ''ProxyAutoConfigEnable''"
definition AUTO_CONFIG_URL :: string where "AUTO_CONFIG_URL = ''ProxyAutoConfigURLString''"
definition AUTO_CONFIG_JAVASCRIPT :: string where
  "AUTO_CONFIG_JAVASCRIPT = ''ProxyAutoConfigJavaScript''"
definition EXCEPTIONS_LIST :: string where "EXCEPTIONS_LIST = ''ExceptionsList''"
definition EXCLUDE_SIMPLE_HOSTNAMES :: string where
  "EXCLUDE_SIMPLE_HOSTNAMES = ''ExcludeSimpleHostnames''"

record scheme_keys =
  sk_scheme :: scheme
  sk_enable :: string
  sk_host :: string
  sk_port :: string
  sk_user :: string
  sk_default_port :: u16
  sk_hint :: "proxy_scheme option"

definition SCHEMES :: "scheme_keys list" where
  "SCHEMES =
     [\<lparr> sk_scheme = Http, sk_enable = ''HTTPEnable'', sk_host = ''HTTPProxy'',
        sk_port = ''HTTPPort'', sk_user = ''HTTPUser'', sk_default_port = 80, sk_hint = None \<rparr>,
      \<lparr> sk_scheme = Https, sk_enable = ''HTTPSEnable'', sk_host = ''HTTPSProxy'',
        sk_port = ''HTTPSPort'', sk_user = ''HTTPSUser'', sk_default_port = 443, sk_hint = None \<rparr>,
      \<lparr> sk_scheme = Ftp, sk_enable = ''FTPEnable'', sk_host = ''FTPProxy'',
        sk_port = ''FTPPort'', sk_user = ''FTPUser'', sk_default_port = 80, sk_hint = None \<rparr>,
      \<lparr> sk_scheme = Socks, sk_enable = ''SOCKSEnable'', sk_host = ''SOCKSProxy'',
        sk_port = ''SOCKSPort'', sk_user = ''SOCKSUser'', sk_default_port = 1080,
        sk_hint = Some PsSocks5 \<rparr>]"

record unroutable_keys =
  uk_enable :: string
  uk_host :: string

definition UNROUTABLE :: "unroutable_keys list" where
  "UNROUTABLE =
     [\<lparr> uk_enable = ''GopherEnable'', uk_host = ''GopherProxy'' \<rparr>,
      \<lparr> uk_enable = ''RTSPEnable'', uk_host = ''RTSPProxy'' \<rparr>]"

definition UNREADABLE :: string where "UNREADABLE = ''<unreadable value>''"

datatype dict_value =
    DNumber int
  | DText string
  | DList "string list" nat
  | DUnreadable

type_synonym proxy_dict = "string \<rightharpoonup> dict_value"

definition is_known_key :: "string \<Rightarrow> bool" where
  "is_known_key key \<longleftrightarrow>
     list_ex (\<lambda>k. k = key)
       [AUTO_DISCOVERY_ENABLE, AUTO_CONFIG_ENABLE, AUTO_CONFIG_URL, AUTO_CONFIG_JAVASCRIPT,
        EXCEPTIONS_LIST, EXCLUDE_SIMPLE_HOSTNAMES]
     \<or> list_ex (\<lambda>keys. list_ex (\<lambda>k. k = key)
         [sk_enable keys, sk_host keys, sk_port keys, sk_user keys]) SCHEMES
     \<or> list_ex (\<lambda>keys. list_ex (\<lambda>k. k = key) [uk_enable keys, uk_host keys]) UNROUTABLE"

text \<open>What \<open>Debug\<close> prints of a value under its key.\<close>

datatype shown_value =
    ShownScript nat u64
  | ShownText string
  | ShownTexts "string list"
  | ShownNumber int
  | ShownUnmodelled
  | ShownUnreadable
  | ShownUnreadBytes nat
  | ShownUnreadStrings nat
  | ShownUnreadNumber

definition dict_debug :: "string \<Rightarrow> dict_value \<Rightarrow> shown_value" where
  "dict_debug key value =
     (case value of
        DText t \<Rightarrow>
          if key = AUTO_CONFIG_JAVASCRIPT then ShownScript (length t) (fnv1a (map of_char t))
          else if key = AUTO_CONFIG_URL then ShownText (redact_offending_token t)
          else if \<not> is_known_key key then ShownUnreadBytes (length t)
          else ShownText (redact_offending_token t)
      | DUnreadable \<Rightarrow>
          if key = AUTO_CONFIG_JAVASCRIPT \<or> key = AUTO_CONFIG_URL then ShownUnmodelled
          else ShownUnreadable
      | DList items _ \<Rightarrow>
          if key = AUTO_CONFIG_JAVASCRIPT \<or> key = AUTO_CONFIG_URL then ShownUnmodelled
          else if \<not> is_known_key key then ShownUnreadStrings (length items)
          else ShownTexts (map redact_offending_token items)
      | DNumber n \<Rightarrow>
          if key = AUTO_CONFIG_JAVASCRIPT \<or> key = AUTO_CONFIG_URL then ShownUnmodelled
          else if \<not> is_known_key key then ShownUnreadNumber
          else ShownNumber n)"

section \<open>Reading a key\<close>

definition strings_shape :: "string list \<Rightarrow> string" where
  "strings_shape items = ''<'' @ show_nat (length items) @ '' strings>''"

definition dict_insert :: "string \<Rightarrow> dict_value \<Rightarrow> proxy_dict \<Rightarrow> proxy_dict" where
  "dict_insert key value d = d(key \<mapsto> value)"

definition dict_flag :: "proxy_dict \<Rightarrow> string \<Rightarrow> bool option" where
  "dict_flag d key =
     (case d key of
        Some (DNumber n) \<Rightarrow> Some (n \<noteq> 0)
      | Some (DText t) \<Rightarrow> map_option (\<lambda>n. n \<noteq> 0) (parse_i64 (trim_text t))
      | _ \<Rightarrow> None)"

definition flag_is_unusable :: "proxy_dict \<Rightarrow> string \<Rightarrow> string option" where
  "flag_is_unusable d key =
     (case d key of
        None \<Rightarrow> None
      | Some (DNumber _) \<Rightarrow> None
      | Some (DText t) \<Rightarrow> if dict_flag d key = None then Some (trim_text t) else None
      | Some (DList items _) \<Rightarrow> Some (strings_shape items)
      | Some DUnreadable \<Rightarrow> Some UNREADABLE)"

definition dict_text :: "proxy_dict \<Rightarrow> string \<Rightarrow> string option" where
  "dict_text d key =
     (case d key of
        Some (DText text) \<Rightarrow> non_blank text
      | _ \<Rightarrow> None)"

definition raw_text :: "proxy_dict \<Rightarrow> string \<Rightarrow> string option" where
  "raw_text d key =
     (case d key of
        Some (DText t) \<Rightarrow> if trim_text t = [] then None else Some t
      | _ \<Rightarrow> None)"

definition text_is_unusable :: "proxy_dict \<Rightarrow> string \<Rightarrow> string option" where
  "text_is_unusable d key =
     (case d key of
        None \<Rightarrow> None
      | Some (DText _) \<Rightarrow> None
      | Some (DNumber n) \<Rightarrow> Some (show_int n)
      | Some (DList items _) \<Rightarrow> Some (strings_shape items)
      | Some DUnreadable \<Rightarrow> Some UNREADABLE)"

definition dict_port :: "proxy_dict \<Rightarrow> string \<Rightarrow> u16 option" where
  "dict_port d key =
     (case (case d key of
              Some (DNumber n) \<Rightarrow> if 0 \<le> n \<and> n < 65536 then Some (of_int n) else None
            | Some (DText t) \<Rightarrow> port_from_digits (trim_text t)
            | _ \<Rightarrow> None) of
        None \<Rightarrow> None
      | Some port \<Rightarrow> if port = 0 then None else Some port)"

definition port_is_unusable :: "proxy_dict \<Rightarrow> string \<Rightarrow> string option" where
  "port_is_unusable d key =
     (case d key of
        None \<Rightarrow> None
      | Some value \<Rightarrow>
          if dict_port d key \<noteq> None then None
          else (case value of
                  DNumber n \<Rightarrow> if n \<noteq> 0 then Some (show_int n) else None
                | DText t \<Rightarrow>
                    if trim_text t = [] \<or> trim_text t = ''0'' then None else Some (trim_text t)
                | DList items _ \<Rightarrow> Some (strings_shape items)
                | DUnreadable \<Rightarrow> Some UNREADABLE))"

definition dict_list :: "proxy_dict \<Rightarrow> string \<Rightarrow> (string list \<times> nat) option" where
  "dict_list d key =
     (case d key of Some (DList items unreadable) \<Rightarrow> Some (items, unreadable) | _ \<Rightarrow> None)"

definition list_is_unusable :: "proxy_dict \<Rightarrow> string \<Rightarrow> string option" where
  "list_is_unusable d key =
     (case d key of
        None \<Rightarrow> None
      | Some (DList _ _) \<Rightarrow> None
      | Some (DText text) \<Rightarrow> non_blank text
      | Some (DNumber n) \<Rightarrow> Some (show_int n)
      | Some DUnreadable \<Rightarrow> Some UNREADABLE)"

section \<open>Recording a drop\<close>

definition dict_record ::
    "rejection_kind \<Rightarrow> string \<Rightarrow> string \<Rightarrow> scheme option \<Rightarrow> rejected_value" where
  "dict_record kind key value s =
     for_scheme s (rejected_new kind (SystemConfiguration key) value)"

definition record_unreadable_flag ::
    "proxy_dict \<Rightarrow> string \<Rightarrow> scheme option \<Rightarrow> rejected_value list \<Rightarrow> rejected_value list" where
  "record_unreadable_flag d key s rejected =
     (case flag_is_unusable d key of
        None \<Rightarrow> rejected
      | Some value \<Rightarrow> rejected @ [dict_record UnsupportedMapping key value s])"

text \<open>Whether it recorded anything, and the records.\<close>

definition record_unreadable_text ::
    "proxy_dict \<Rightarrow> string \<Rightarrow> scheme option \<Rightarrow> rejected_value list
       \<Rightarrow> bool \<times> rejected_value list" where
  "record_unreadable_text d key s rejected =
     (case text_is_unusable d key of
        None \<Rightarrow> (False, rejected)
      | Some value \<Rightarrow> (True, rejected @ [dict_record UnsupportedMapping key value s]))"

section \<open>The schemes\<close>

record dict_state =
  ds_map :: scheme_map
  ds_rejected :: "rejected_value list"
  ds_enabled :: bool

definition attributed_scheme :: "scheme_keys \<Rightarrow> scheme" where
  "attributed_scheme keys = (if sk_scheme keys = Socks then AllSchemes else sk_scheme keys)"

definition reject_scheme ::
    "scheme_keys \<Rightarrow> string \<Rightarrow> string \<Rightarrow> dict_state \<Rightarrow> dict_state" where
  "reject_scheme keys key value st =
     st\<lparr>ds_rejected := ds_rejected st
          @ [dict_record InvalidProxyEndpoint key value (Some (attributed_scheme keys))]\<rparr>"

text \<open>The endpoint of a scheme that is on, from its host on.\<close>

definition dict_endpoint ::
    "external \<Rightarrow> proxy_dict \<Rightarrow> scheme_keys \<Rightarrow> string \<Rightarrow> dict_state \<Rightarrow> dict_state" where
  "dict_endpoint E d keys host_text st =
     (case endpoint_parse E host_text (sk_default_port keys) of
        Inl _ \<Rightarrow> reject_scheme keys (sk_host keys) host_text st
      | Inr e0 \<Rightarrow>
          (case (case dict_port d (sk_port keys) of
                   Some port \<Rightarrow> Inr (e0\<lparr>ep_port := port\<rparr>)
                 | None \<Rightarrow>
                     (case port_is_unusable d (sk_port keys) of
                        Some value \<Rightarrow> Inl value
                      | None \<Rightarrow> Inr e0)) of
             Inl value \<Rightarrow> reject_scheme keys (sk_port keys) value st
           | Inr e1 \<Rightarrow>
               (let e2 = (case sk_hint keys of
                            None \<Rightarrow> e1
                          | Some hint \<Rightarrow>
                              if scheme_hint e1 = None then with_scheme_hint hint e1 else e1);
                    e3 = (case dict_text d (sk_user keys) of
                            None \<Rightarrow> e2
                          | Some user \<Rightarrow> with_auth (password_in_keychain (from_username user)) e2)
                in st\<lparr>ds_map := (ds_map st)(sk_scheme keys \<mapsto> Use e3), ds_enabled := True\<rparr>)))"

definition dict_scheme ::
    "external \<Rightarrow> proxy_dict \<Rightarrow> scheme_keys \<Rightarrow> dict_state \<Rightarrow> dict_state" where
  "dict_scheme E d keys st =
     (case dict_flag d (sk_enable keys) of
        None \<Rightarrow>
          st\<lparr>ds_rejected := record_unreadable_flag d (sk_enable keys)
               (Some (attributed_scheme keys)) (ds_rejected st)\<rparr>
      | Some enabled \<Rightarrow>
          (case (if enabled then dict_text d (sk_host keys) else None) of
             Some h \<Rightarrow> dict_endpoint E d keys h st
           | None \<Rightarrow>
               (let (recorded, rejected) =
                      (if enabled
                       then record_unreadable_text d (sk_host keys)
                              (Some (attributed_scheme keys)) (ds_rejected st)
                       else (False, ds_rejected st))
                in if recorded then st\<lparr>ds_rejected := rejected\<rparr>
                   else st\<lparr>ds_map := (ds_map st)(sk_scheme keys \<mapsto> Disabled)\<rparr>)))"

definition apply_socks_fallback :: "scheme_map \<Rightarrow> scheme_map" where
  "apply_socks_fallback m =
     (case m Socks of
        Some (Use e) \<Rightarrow>
          foldl (\<lambda>m s. case m s of Some (Use _) \<Rightarrow> m | _ \<Rightarrow> m(s \<mapsto> Use e)) m
            [Http, Https, Ftp, AllSchemes]
      | _ \<Rightarrow> m)"

definition record_unroutable ::
    "proxy_dict \<Rightarrow> unroutable_keys \<Rightarrow> rejected_value list \<Rightarrow> rejected_value list" where
  "record_unroutable d keys rejected =
     (if dict_flag d (uk_enable keys) \<noteq> Some True
      then record_unreadable_flag d (uk_enable keys) None rejected
      else (case dict_text d (uk_host keys) of
              None \<Rightarrow> snd (record_unreadable_text d (uk_host keys) None rejected)
            | Some h \<Rightarrow> rejected @ [dict_record UnknownProxyScheme (uk_host keys) h None]))"

definition record_unroutable_schemes ::
    "proxy_dict \<Rightarrow> rejected_value list \<Rightarrow> rejected_value list" where
  "record_unroutable_schemes d rejected =
     foldl (\<lambda>r keys. record_unroutable d keys r) rejected UNROUTABLE"

definition retain_enabled :: "scheme_map \<Rightarrow> scheme_map" where
  "retain_enabled m =
     (\<lambda>s. case m s of None \<Rightarrow> None | Some e \<Rightarrow> if entry_is_disabled e then None else Some e)"

section \<open>The bypass list\<close>

definition expand_abbreviated_cidr :: "string \<Rightarrow> string" where
  "expand_abbreviated_cidr entry =
     (case split_once_char (\<lambda>c. c = CHR ''/'') entry of
        None \<Rightarrow> entry
      | Some (address, bits) \<Rightarrow>
          if CHR '':'' \<in> set address \<or> bits = [] \<or> \<not> all_digits bits then entry
          else
            (let parts = split_chars (\<lambda>c. c = CHR ''.'') address in
             if 4 \<le> length parts \<or> \<not> list_all (\<lambda>p. p \<noteq> [] \<and> all_digits p) parts then entry
             else address @ concat (replicate (4 - length parts) ''.0'') @ ''/'' @ bits))"

definition dict_has_bypass_key :: "proxy_dict \<Rightarrow> bool" where
  "dict_has_bypass_key d \<longleftrightarrow>
     (case dict_list d EXCEPTIONS_LIST of
        None \<Rightarrow> False
      | Some (items, unreadable) \<Rightarrow> items \<noteq> [] \<or> 0 < unreadable)
     \<or> dict_flag d EXCLUDE_SIMPLE_HOSTNAMES = Some True"

definition add_rejected :: "rejected_value list \<Rightarrow> bypass_rules \<Rightarrow> bypass_rules" where
  "add_rejected vs r = r\<lparr>br_rejected := br_rejected r @ vs\<rparr>"

definition bypass_from_dict :: "external \<Rightarrow> proxy_dict \<Rightarrow> bypass_rules" where
  "bypass_from_dict E d =
     (let r0 = bypass_new\<lparr>strip_trailing_dot := True, ipv4_mapped_as_ipv4 := False,
                 implicit := (if dict_has_bypass_key d then CfNetwork else EmptySet)\<rparr>;
          r1 = (case list_is_unusable d EXCEPTIONS_LIST of
                  None \<Rightarrow> r0
                | Some value \<Rightarrow>
                    add_rejected [dict_record UnsupportedMapping EXCEPTIONS_LIST value None] r0);
          (entries, unreadable) = unwrap_or ([], 0) (dict_list d EXCEPTIONS_LIST);
          r2 = dedup_patterns
                 (foldl (\<lambda>r entry. push_entry_in E (expand_abbreviated_cidr entry) MacOs r) r1 entries);
          r3 = add_rejected
                 (replicate unreadable
                    (dict_record UnsupportedMapping EXCEPTIONS_LIST UNREADABLE None)) r2
      in if dict_flag d EXCLUDE_SIMPLE_HOSTNAMES = Some True
         then r3\<lparr>exclude_simple_hostnames := True\<rparr>
         else (case flag_is_unusable d EXCLUDE_SIMPLE_HOSTNAMES of
                 None \<Rightarrow> r3
               | Some value \<Rightarrow>
                   add_rejected
                     [dict_record UnsupportedMapping EXCLUDE_SIMPLE_HOSTNAMES value None] r3))"

section \<open>The mode\<close>

text \<open>The static part, with the records made before it.\<close>

definition dict_manual ::
    "external \<Rightarrow> proxy_dict \<Rightarrow> rejected_value list \<Rightarrow> proxy_mode" where
  "dict_manual E d rejected0 =
     (let st = foldl (\<lambda>st keys. dict_scheme E d keys st)
                 \<lparr> ds_map = Map.empty, ds_rejected = rejected0, ds_enabled = False \<rparr> SCHEMES;
          rejected = record_unroutable_schemes d (ds_rejected st);
          m = apply_socks_fallback (ds_map st);
          m' = (if list_ex (\<lambda>v. affected_scheme v = Some AllSchemes) rejected
                then retain_enabled m else m)
      in if \<not> ds_enabled st \<and> rejected = [] then Direct
         else with_rejected rejected (mode_manual m' (bypass_from_dict E d)))"

definition mode_from_dict :: "external \<Rightarrow> proxy_dict \<Rightarrow> proxy_error + proxy_mode" where
  "mode_from_dict E d =
     (let r1 = record_unreadable_flag d AUTO_DISCOVERY_ENABLE (Some AllSchemes) [] in
      if dict_flag d AUTO_DISCOVERY_ENABLE = Some True then Inr WpadAutoDetect
      else
        (let r2 = record_unreadable_flag d AUTO_CONFIG_ENABLE (Some AllSchemes) r1 in
         if dict_flag d AUTO_CONFIG_ENABLE = Some True then
           (case raw_text d AUTO_CONFIG_JAVASCRIPT of
              Some script \<Rightarrow> Inr (with_rejected r2 (mode_pac_inline script))
            | None \<Rightarrow>
                (case dict_text d AUTO_CONFIG_URL of
                   Some u \<Rightarrow>
                     (case url_parse E u of
                        Inl source \<Rightarrow> Inl (error_invalid_proxy_url u source)
                      | Inr parsed \<Rightarrow> Inr (with_rejected r2 (mode_pac parsed)))
                 | None \<Rightarrow>
                     (let r3 = snd (record_unreadable_text d AUTO_CONFIG_JAVASCRIPT
                                 (Some AllSchemes) r2);
                          r4 = snd (record_unreadable_text d AUTO_CONFIG_URL (Some AllSchemes) r3)
                      in Inr (dict_manual E d r4))))
         else Inr (dict_manual E d r2)))"

section \<open>The two scopes of macOS\<close>

definition merge_setup_and_state ::
    "nat \<Rightarrow> proxy_error + proxy_mode option \<Rightarrow> proxy_mode option \<Rightarrow> proxy_error + proxy_config" where
  "merge_setup_and_state now setup state =
     (case (case setup of
              Inr s \<Rightarrow> Inr (s, [])
            | Inl e \<Rightarrow> if state \<noteq> None then Inr (None, [SystemConfigurationSetup]) else Inl e) of
        Inl e \<Rightarrow> Inl e
      | Inr (s, fs) \<Rightarrow>
          Inr (with_fallbacks fs
                 (from_ordered_sources now
                    ((case state of None \<Rightarrow> [] | Some mode \<Rightarrow> [(SystemConfigurationState, mode)])
                     @ (case s of None \<Rightarrow> [] | Some mode \<Rightarrow> [(SystemConfigurationSetup, mode)])))))"

end
