(* ===== verification/Dict_Facts.thy ===== *)
theory Dict_Facts
  imports Store_Contract Proxy_Dict
begin

text \<open>
  The reader of the proxies dictionary: what a group of keys leaves in the map and in the
  record, and that a group which is on and could not be used is never answered direct. The two
  scopes of macOS: which one is effective.
\<close>

section \<open>The groups of keys\<close>

definition keys_lost :: "external \<Rightarrow> proxy_dict \<Rightarrow> scheme_keys \<Rightarrow> bool" where
  "keys_lost E d keys \<longleftrightarrow>
     (case dict_flag d (sk_enable keys) of
        None \<Rightarrow> flag_is_unusable d (sk_enable keys) \<noteq> None
      | Some enabled \<Rightarrow>
          enabled \<and>
          (case dict_text d (sk_host keys) of
             None \<Rightarrow> text_is_unusable d (sk_host keys) \<noteq> None
           | Some h \<Rightarrow>
               \<not> is_ok (endpoint_parse E h (sk_default_port keys)) \<or>
               (dict_port d (sk_port keys) = None \<and> port_is_unusable d (sk_port keys) \<noteq> None)))"

definition fold_schemes ::
    "external \<Rightarrow> proxy_dict \<Rightarrow> rejected_value list \<Rightarrow> scheme_keys list \<Rightarrow> dict_state" where
  "fold_schemes E d rejected keyss =
     foldl (\<lambda>st keys. dict_scheme E d keys st)
       \<lparr> ds_map = Map.empty, ds_rejected = rejected, ds_enabled = False \<rparr> keyss"

lemma fold_schemes_snoc:
  "fold_schemes E d rejected (keyss @ [keys]) = dict_scheme E d keys (fold_schemes E d rejected keyss)"
  by (simp add: fold_schemes_def)

lemma affected_dict_record [simp]: "affected_scheme (dict_record kind key value s) = s"
  by (simp add: dict_record_def)

lemmas dict_scheme_cases = dict_scheme_def dict_endpoint_def reject_scheme_def
  record_unreadable_flag_def record_unreadable_text_def keys_lost_def Let_def

lemma dict_scheme_keeps: "set (ds_rejected st) \<subseteq> set (ds_rejected (dict_scheme E d keys st))"
  by (auto simp: dict_scheme_cases split: option.splits sum.splits if_splits prod.splits)

lemma dict_scheme_record:
  "keys_lost E d keys \<Longrightarrow>
   \<exists>v\<in>set (ds_rejected (dict_scheme E d keys st)). affected_scheme v = Some (attributed_scheme keys)"
  by (auto simp: dict_scheme_cases split: option.splits sum.splits if_splits prod.splits)

lemma dict_scheme_map:
  "ds_map (dict_scheme E d keys st) s = Some Disabled \<Longrightarrow>
   ds_map st s = Some Disabled \<or> (sk_scheme keys = s \<and> \<not> keys_lost E d keys)"
  by (auto simp: dict_scheme_cases split: option.splits sum.splits if_splits prod.splits)

lemma fold_schemes_keeps: "set rejected \<subseteq> set (ds_rejected (fold_schemes E d rejected keyss))"
proof (induction keyss rule: rev_induct)
  case (snoc keys keyss)
  then show ?case using dict_scheme_keeps by (fastforce simp: fold_schemes_snoc)
qed (simp add: fold_schemes_def)

lemma fold_schemes_record:
  "keys \<in> set keyss \<Longrightarrow> keys_lost E d keys \<Longrightarrow>
   \<exists>v\<in>set (ds_rejected (fold_schemes E d rejected keyss)). affected_scheme v = Some (attributed_scheme keys)"
proof (induction keyss rule: rev_induct)
  case (snoc x keyss)
  then show ?case using dict_scheme_keeps dict_scheme_record by (fastforce simp: fold_schemes_snoc)
qed simp

lemma fold_schemes_map:
  "ds_map (fold_schemes E d rejected keyss) s = Some Disabled \<Longrightarrow>
   \<exists>keys\<in>set keyss. sk_scheme keys = s \<and> \<not> keys_lost E d keys"
proof (induction keyss rule: rev_induct)
  case (snoc x keyss)
  then show ?case using dict_scheme_map by (fastforce simp: fold_schemes_snoc)
qed (simp add: fold_schemes_def)

lemma apply_socks_fallback_disabled:
  "apply_socks_fallback m s = Some Disabled \<Longrightarrow> m s = Some Disabled"
  by (auto simp: apply_socks_fallback_def split: option.splits proxy_entry.splits if_splits)

lemma record_unroutable_keeps: "set rejected \<subseteq> set (record_unroutable d keys rejected)"
  by (auto simp: record_unroutable_def record_unreadable_flag_def record_unreadable_text_def
      split: option.splits)

lemma record_unroutable_schemes_keeps: "set rejected \<subseteq> set (record_unroutable_schemes d rejected)"
proof -
  have "set rejected \<subseteq> set (foldl (\<lambda>r keys. record_unroutable d keys r) rejected keyss)" for keyss
  proof (induction keyss rule: rev_induct)
    case (snoc keys keyss)
    then show ?case using record_unroutable_keeps by fastforce
  qed simp
  then show ?thesis by (simp add: record_unroutable_schemes_def)
qed

section \<open>The static mode\<close>

lemma SCHEMES_schemes:
  "keys \<in> set SCHEMES \<Longrightarrow> sk_scheme keys \<noteq> AllSchemes"
  "keys \<in> set SCHEMES \<Longrightarrow> keys' \<in> set SCHEMES \<Longrightarrow> sk_scheme keys = sk_scheme keys' \<Longrightarrow> keys = keys'"
proof -
  show "keys \<in> set SCHEMES \<Longrightarrow> sk_scheme keys \<noteq> AllSchemes" by (auto simp: SCHEMES_def)
  have "distinct (map sk_scheme SCHEMES)" by (simp add: SCHEMES_def)
  then show "keys \<in> set SCHEMES \<Longrightarrow> keys' \<in> set SCHEMES \<Longrightarrow> sk_scheme keys = sk_scheme keys' \<Longrightarrow>
      keys = keys'"
    by (auto simp: distinct_map inj_on_def)
qed

lemma dict_manual_routed:
  assumes "(\<exists>keys\<in>set SCHEMES. keys_lost E d keys \<and> attributed_scheme keys \<in> {s, AllSchemes}) \<or>
    (\<exists>v\<in>set rejected0. affected_scheme v = Some AllSchemes)"
  shows "routed (dict_manual E d rejected0) s"
proof -
  define st where "st = fold_schemes E d rejected0 SCHEMES"
  define rejected where "rejected = record_unroutable_schemes d (ds_rejected st)"
  define m where "m = apply_socks_fallback (ds_map st)"
  define every where "every \<longleftrightarrow> list_ex (\<lambda>v. affected_scheme v = Some AllSchemes) rejected"
  define m' where "m' = (if every then retain_enabled m else m)"
  have sub: "set rejected0 \<subseteq> set rejected" "set (ds_rejected st) \<subseteq> set rejected"
    using fold_schemes_keeps [of rejected0 E d SCHEMES] record_unroutable_schemes_keeps [of "ds_rejected st" d]
    by (auto simp: st_def rejected_def)
  obtain v where v: "v \<in> set rejected"
      "affected_scheme v = Some AllSchemes \<or>
       (\<exists>keys\<in>set SCHEMES. keys_lost E d keys \<and> attributed_scheme keys = s \<and> affected_scheme v = Some s)"
    using assms
  proof
    assume "\<exists>keys\<in>set SCHEMES. keys_lost E d keys \<and> attributed_scheme keys \<in> {s, AllSchemes}"
    then obtain keys where keys: "keys \<in> set SCHEMES" "keys_lost E d keys"
        "attributed_scheme keys \<in> {s, AllSchemes}" by blast
    then obtain v where "v \<in> set (ds_rejected st)" "affected_scheme v = Some (attributed_scheme keys)"
      using fold_schemes_record [of keys SCHEMES E d rejected0] by (auto simp: st_def)
    then show thesis using keys sub(2) by (intro that [of v]) auto
  next
    assume "\<exists>v\<in>set rejected0. affected_scheme v = Some AllSchemes"
    then show thesis using that sub(1) by blast
  qed
  have mode: "dict_manual E d rejected0 = with_rejected rejected (mode_manual m' (bypass_from_dict E d))"
    using v(1) by (auto simp: dict_manual_def Let_def m'_def every_def m_def rejected_def st_def
        fold_schemes_def)
  have off: "\<not> every \<and> (\<exists>keys\<in>set SCHEMES. sk_scheme keys = x \<and> \<not> keys_lost E d keys)"
    if "m' x = Some Disabled" for x
  proof -
    have "\<not> every" using that by (auto simp: m'_def retain_enabled_def split: option.splits if_splits)
    moreover have "m x = Some Disabled" using that \<open>\<not> every\<close> by (simp add: m'_def)
    ultimately show ?thesis
      using apply_socks_fallback_disabled fold_schemes_map unfolding m_def st_def by blast
  qed
  have "m' AllSchemes \<noteq> Some Disabled"
    using off [of AllSchemes] SCHEMES_schemes(1) by blast
  moreover have "m' s \<noteq> Some Disabled"
  proof
    assume d: "m' s = Some Disabled"
    then obtain x where x: "\<not> every" "x \<in> set SCHEMES" "sk_scheme x = s" "\<not> keys_lost E d x"
      using off by blast
    obtain keys where keys: "keys \<in> set SCHEMES" "keys_lost E d keys" "attributed_scheme keys = s"
      using v x(1) by (auto simp: every_def list_ex_iff)
    have "attributed_scheme keys = sk_scheme keys"
      using keys(3) x(3) SCHEMES_schemes(1) [OF x(2)] by (auto simp: attributed_scheme_def split: if_splits)
    then have "keys = x" using keys(1,3) x(2,3) SCHEMES_schemes(2) by simp
    then show False using keys(2) x(4) by simp
  qed
  moreover obtain t where "affected_scheme v = Some t" "t = s \<or> t = AllSchemes" using v(2) by blast
  ultimately show ?thesis unfolding mode using routed_filed v(1) by blast
qed

section \<open>The contract\<close>

text \<open>What was lost: a group that is on, the flag of a mode, or the script of a mode that is on.\<close>

definition mode_flag_lost :: "proxy_dict \<Rightarrow> bool" where
  "mode_flag_lost d \<longleftrightarrow>
     flag_is_unusable d AUTO_DISCOVERY_ENABLE \<noteq> None \<or> flag_is_unusable d AUTO_CONFIG_ENABLE \<noteq> None \<or>
     (dict_flag d AUTO_CONFIG_ENABLE = Some True \<and>
       (text_is_unusable d AUTO_CONFIG_JAVASCRIPT \<noteq> None \<or> text_is_unusable d AUTO_CONFIG_URL \<noteq> None))"

definition dict_lost :: "external \<Rightarrow> proxy_dict \<Rightarrow> scheme \<Rightarrow> bool" where
  "dict_lost E d s \<longleftrightarrow>
     list_ex (\<lambda>keys. keys_lost E d keys \<and> attributed_scheme keys \<in> {s, AllSchemes}) SCHEMES \<or>
     mode_flag_lost d"

lemma routed_scripts [simp]:
  "routed (Pac u r) s" "routed (PacInline script r) s" "routed WpadAutoDetect s"
  by (simp_all add: routed_def)

lemma record_unreadable_flag_spec:
  "record_unreadable_flag d key (Some t) r =
     r @ (case flag_is_unusable d key of None \<Rightarrow> [] | Some v \<Rightarrow> [dict_record UnsupportedMapping key v (Some t)])"
  by (simp add: record_unreadable_flag_def split: option.split)

lemma record_unreadable_text_spec:
  "snd (record_unreadable_text d key (Some t) r) =
     r @ (case text_is_unusable d key of None \<Rightarrow> [] | Some v \<Rightarrow> [dict_record UnsupportedMapping key v (Some t)])"
  by (simp add: record_unreadable_text_def split: option.split)

text \<open>A mode that is a script's, or the static one with what was recorded on the way to it.\<close>

lemma mode_from_dict_static:
  assumes "mode_from_dict E d = Inr mode" "\<not> routed mode s"
  obtains r where "mode = dict_manual E d r"
    "mode_flag_lost d \<Longrightarrow> \<exists>v\<in>set r. affected_scheme v = Some AllSchemes"
proof (cases "dict_flag d AUTO_CONFIG_ENABLE = Some True")
  case True
  then have "raw_text d AUTO_CONFIG_JAVASCRIPT = None" "dict_text d AUTO_CONFIG_URL = None"
    using assms
    by (auto simp: mode_from_dict_def Let_def mode_pac_def mode_pac_inline_def
        split: if_splits option.splits sum.splits)
  then show thesis
    using assms True
    by (intro that [of "snd (record_unreadable_text d AUTO_CONFIG_URL (Some AllSchemes)
          (snd (record_unreadable_text d AUTO_CONFIG_JAVASCRIPT (Some AllSchemes)
            (record_unreadable_flag d AUTO_CONFIG_ENABLE (Some AllSchemes)
              (record_unreadable_flag d AUTO_DISCOVERY_ENABLE (Some AllSchemes) [])))))"])
      (auto simp: mode_from_dict_def Let_def record_unreadable_flag_spec record_unreadable_text_spec
        mode_flag_lost_def split: if_splits option.splits)
next
  case False
  then show thesis
    using assms
    by (intro that [of "record_unreadable_flag d AUTO_CONFIG_ENABLE (Some AllSchemes)
          (record_unreadable_flag d AUTO_DISCOVERY_ENABLE (Some AllSchemes) [])"])
      (auto simp: mode_from_dict_def Let_def record_unreadable_flag_spec mode_flag_lost_def
        split: if_splits option.splits)
qed

interpretation dictionary: careful_store "mode_from_dict E" "dict_lost E"
proof
  fix d s mode
  assume lost: "dict_lost E d s" and read: "mode_from_dict E d = Inr mode"
  show "routed mode s"
  proof (rule ccontr)
    assume not: "\<not> routed mode s"
    obtain r where "mode = dict_manual E d r"
        "mode_flag_lost d \<Longrightarrow> \<exists>v\<in>set r. affected_scheme v = Some AllSchemes"
      using mode_from_dict_static [OF read not] by blast
    then show False
      using not lost dict_manual_routed [of E d s r] by (auto simp: dict_lost_def list_ex_iff)
  qed
qed

text \<open>C12. macOS and iOS: when the group of keys of a scheme is on and its host or port cannot be
  used, or a flag cannot be read, a URL the setting was for is answered by a proxy or by an
  error, never by a direct connection, unless the exceptions list its host.\<close>

theorem dict_lost_setting_is_never_direct:
  assumes "dict_lost E d (request_scheme u)" "mode_from_dict E d = Inr mode"
    and "url_scheme u \<noteq> ''ws''" "url_scheme u \<noteq> ''wss''"
    and "has_request_host u" "\<not> bypassed E mode u"
  shows "proxied_or_refused (resolve_mode E mode u)"
  using assms by (rule dictionary.lost_never_direct)

definition dict_example :: proxy_dict where
  "dict_example = [''HTTPSEnable'' \<mapsto> DNumber 0, ''SOCKSEnable'' \<mapsto> DText ''1'',
     ''SOCKSProxy'' \<mapsto> DText ''s.example'', ''SOCKSPort'' \<mapsto> DNumber 70000,
     ''ExceptionsList'' \<mapsto> DList [''*.b.c''] 0]"

theorem dict_lost_setting_is_never_direct_witness:
  "dict_lost plain_external dict_example Https \<and>
   proxied_or_refused (resolve_mode plain_external
     (projr (mode_from_dict plain_external dict_example)) example_url)"
proof -
  let ?E = plain_external and ?mode = "projr (mode_from_dict plain_external dict_example)"
  have lost: "dict_lost ?E dict_example Https" by code_simp
  have "\<not> isl (mode_from_dict ?E dict_example)" by code_simp
  then have read: "mode_from_dict ?E dict_example = Inr ?mode" by simp
  have "\<not> bypassed ?E ?mode example_url" by code_simp
  then have "proxied_or_refused (resolve_mode ?E ?mode example_url)"
    by (intro dict_lost_setting_is_never_direct [OF _ read])
      (use lost in \<open>simp_all add: example_url_def request_scheme_def has_request_host_def request_host_def\<close>)
  with lost show ?thesis by simp
qed

end
