(* ===== verification/Linux_Backend.thy ===== *)
theory Linux_Backend
  imports Gnome_Store Kde_File
begin

text \<open>
  The choice of a source on Linux: which desktop runs (\<open>src/sys/linux/desktop.rs\<close>), whether a
  sandbox hides its settings (\<open>src/sys/linux/sandbox.rs\<close>), what the portal answers in their
  place (\<open>src/sys/linux/portal.rs\<close>), and the route and the snapshot taken of them
  (\<open>src/sys/linux/backend.rs\<close>). The environment is a map from names to bytes; files, D-Bus
  and the compiled-in features are arguments.
\<close>

section \<open>The desktop\<close>

datatype store = GSettingsStore | KioslavercStore

datatype desktop = GnomeDesktop | KdeDesktop | UnknownDesktop

definition KDE_TOKENS :: "string list" where "KDE_TOKENS = [''kde'', ''plasma'']"

definition GNOME_TOKENS :: "string list" where
  "GNOME_TOKENS = [''gnome'', ''gnome-classic'', ''gnome-flashback'', ''unity'', ''x-cinnamon'',
     ''cinnamon'', ''mate'', ''pantheon'']"

definition classify :: "string option \<Rightarrow> desktop" where
  "classify value =
     (case value of
        None \<Rightarrow> UnknownDesktop
      | Some v \<Rightarrow>
          (let tokens = map (\<lambda>t. to_ascii_lowercase (trim_text t)) (split_chars (\<lambda>c. c = CHR '':'') v)
           in if list_ex (\<lambda>t. list_ex (\<lambda>k. k = t) KDE_TOKENS) tokens then KdeDesktop
              else if list_ex (\<lambda>t. list_ex (\<lambda>k. k = t) GNOME_TOKENS) tokens then GnomeDesktop
              else UnknownDesktop))"

definition classify_desktop_session :: "string \<Rightarrow> desktop" where
  "classify_desktop_session value =
     (let v = to_ascii_lowercase (trim_text value) in
      if v = ''gnome'' \<or> v = ''mate'' then GnomeDesktop
      else if v = ''kde4'' \<or> v = ''kde-plasma'' \<or> v = ''kde'' then KdeDesktop
      else UnknownDesktop)"

definition classify_with_fallback :: "string option \<Rightarrow> string option \<Rightarrow> bool \<Rightarrow> bool \<Rightarrow> desktop" where
  "classify_with_fallback xdg session gnome_present kde_present =
     (let primary = classify xdg in
      if primary \<noteq> UnknownDesktop then primary
      else if (case xdg of None \<Rightarrow> False | Some v \<Rightarrow> trim_text v \<noteq> []) then UnknownDesktop
      else
        (let from_session = classify_desktop_session (unwrap_or [] session) in
         if from_session \<noteq> UnknownDesktop then from_session
         else if gnome_present then GnomeDesktop
         else if kde_present then KdeDesktop
         else UnknownDesktop))"

fun store_order :: "desktop \<Rightarrow> store \<times> store" where
  "store_order KdeDesktop = (KioslavercStore, GSettingsStore)"
| "store_order GnomeDesktop = (GSettingsStore, KioslavercStore)"
| "store_order UnknownDesktop = (GSettingsStore, KioslavercStore)"

type_synonym os_env = "string \<Rightarrow> string option"

definition current_desktop :: "os_env \<Rightarrow> desktop" where
  "current_desktop env =
     classify_with_fallback (map_option utf8_lossy (env ''XDG_CURRENT_DESKTOP''))
       (map_option utf8_lossy (env ''DESKTOP_SESSION''))
       (env ''GNOME_DESKTOP_SESSION_ID'' \<noteq> None) (env ''KDE_FULL_SESSION'' \<noteq> None)"

section \<open>The two stores\<close>

datatype reading = Absent | Unset | Configured config_source proxy_mode

fun is_configured :: "reading \<Rightarrow> bool" where
  "is_configured (Configured s m) = True"
| "is_configured Absent = False"
| "is_configured Unset = False"

fun store_source :: "store \<Rightarrow> config_source" where
  "store_source GSettingsStore = GSettingsSource"
| "store_source KioslavercStore = KioslavercSource"

text \<open>A read, with the sources recorded as lost so far and after it.\<close>

definition read_store_fail_soft ::
    "store \<Rightarrow> reading option \<Rightarrow> proxy_error + reading \<Rightarrow> config_source list
       \<Rightarrow> proxy_error + (reading \<times> config_source list)" where
  "read_store_fail_soft st leading result lost_reads =
     (case result of
        Inr r \<Rightarrow> Inr (r, lost_reads)
      | Inl e \<Rightarrow>
          if (case leading of Some r \<Rightarrow> is_configured r | None \<Rightarrow> False)
          then Inr (Absent, lost_reads @ [store_source st]) else Inl e)"

definition read_in_order ::
    "desktop \<Rightarrow> proxy_error + reading \<Rightarrow> proxy_error + reading \<Rightarrow> config_source list
       \<Rightarrow> proxy_error + ((reading \<times> reading) \<times> config_source list)" where
  "read_in_order d gnome kde lost_reads =
     (let (leading_store, trailing_store) = store_order d;
          read = (\<lambda>st. case st of GSettingsStore \<Rightarrow> gnome | KioslavercStore \<Rightarrow> kde)
      in case read_store_fail_soft leading_store None (read leading_store) lost_reads of
           Inl e \<Rightarrow> Inl e
         | Inr (leading, fs) \<Rightarrow>
             (case read_store_fail_soft trailing_store (Some leading) (read trailing_store) fs of
                Inl e \<Rightarrow> Inl e
              | Inr (trailing, fs') \<Rightarrow>
                  Inr (if leading_store = GSettingsStore then (leading, trailing)
                       else (trailing, leading), fs')))"

definition note_compiled_out ::
    "desktop \<Rightarrow> reading \<Rightarrow> reading \<Rightarrow> (store \<Rightarrow> bool) \<Rightarrow> config_source list \<Rightarrow> config_source list" where
  "note_compiled_out d gsettings kioslaverc compiled_in lost_reads =
     (let leading = fst (store_order d) in
      if compiled_in leading then lost_reads
      else
        (let other = (if leading = GSettingsStore then kioslaverc else gsettings) in
         if other \<noteq> Absent then lost_reads @ [store_source leading] else lost_reads))"

definition assemble :: "nat \<Rightarrow> desktop \<Rightarrow> reading \<Rightarrow> reading \<Rightarrow> proxy_config option" where
  "assemble now d gsettings kioslaverc =
     (if gsettings = Absent \<and> kioslaverc = Absent then None
      else
        (let (a, b) = store_order d;
             reading_of = (\<lambda>st. if st = GSettingsStore then gsettings else kioslaverc)
         in Some (from_ordered_sources now
              (present (map (\<lambda>st. case reading_of st of
                   Configured source mode \<Rightarrow> Some (source, mode) | _ \<Rightarrow> None) [a, b])))))"

text \<open>What a store that was read says: GNOME's when its schema is installed, KDE's cascade.\<close>

definition gnome_reading :: "external \<Rightarrow> gio_schema option \<Rightarrow> proxy_error + reading" where
  "gnome_reading E installed =
     (case read_settings installed of
        None \<Rightarrow> Inr Absent
      | Some g \<Rightarrow>
          (case configured_mode E g of
             Inl e \<Rightarrow> Inl e
           | Inr None \<Rightarrow> Inr Unset
           | Inr (Some mode) \<Rightarrow> Inr (Configured GSettingsSource mode)))"

definition config_search_dirs :: "os_env \<Rightarrow> string list" where
  "config_search_dirs env = search_dirs (env ''XDG_CONFIG_HOME'') (env ''HOME'') (env ''XDG_CONFIG_DIRS'')"

definition kde_reading ::
    "external \<Rightarrow> nat \<Rightarrow> (string \<Rightarrow> string option) \<Rightarrow> (string \<Rightarrow> file_read) \<Rightarrow> os_env
       \<Rightarrow> proxy_error + reading" where
  "kde_reading E now ini_refusal read_file env =
     (case read_kioslaverc ini_refusal read_file (config_search_dirs env) of
        Inl e \<Rightarrow> Inl e
      | Inr None \<Rightarrow> Inr Absent
      | Inr (Some r) \<Rightarrow>
          if \<not> kr_found r then Inr Unset
          else (case configured_from_kioslaverc E now (kr_settings r) env of
                  Inl e \<Rightarrow> Inl e
                | Inr None \<Rightarrow> Inr Unset
                | Inr (Some c) \<Rightarrow> Inr (Configured (kde_source c) (kde_mode c))))"

section \<open>Sandboxes\<close>

datatype sandbox = NoSandbox | Flatpak bool | Snap

fun gsettings_is_trustworthy :: "sandbox \<Rightarrow> bool" where
  "gsettings_is_trustworthy NoSandbox = True"
| "gsettings_is_trustworthy (Flatpak dconf_access) = dconf_access"
| "gsettings_is_trustworthy Snap = False"

fun sandbox_name :: "sandbox \<Rightarrow> string" where
  "sandbox_name NoSandbox = ''unsandboxed''"
| "sandbox_name (Flatpak dconf_access) = ''Flatpak''"
| "sandbox_name Snap = ''Snap''"

definition snap_confinement :: "string \<Rightarrow> string option" where
  "snap_confinement yaml =
     (case present (map (strip_prefix ''confinement:'') (text_lines yaml)) of
        [] \<Rightarrow> None | l # _ \<Rightarrow> Some (trim_ascii l))"

definition snap_is_confined :: "string \<Rightarrow> bool" where
  "snap_is_confined yaml \<longleftrightarrow> snap_confinement yaml \<noteq> Some ''classic''"

definition group_name :: "string \<Rightarrow> string option" where
  "group_name after_bracket =
     (case split_once_char (\<lambda>c. c = CHR '']'') after_bracket of
        None \<Rightarrow> None
      | Some (name, rest) \<Rightarrow>
          if \<not> list_all (\<lambda>c. c = CHR '' '' \<or> c = CHR 0x09) rest then None
          else if name = [] \<or> list_ex (\<lambda>c. c = CHR ''['' \<or> byte_val c < 0x20 \<or> c = CHR 0x7F) name
          then None else Some name)"

text \<open>The lines of \<open>/.flatpak-info\<close>: whether the section is the bus policy, whether a group was
  opened, and what was granted so far.\<close>

fun dconf_lines :: "bool \<Rightarrow> bool \<Rightarrow> bool \<Rightarrow> string list \<Rightarrow> bool" where
  "dconf_lines in_section in_group granted [] = granted"
| "dconf_lines in_section in_group granted (line0 # ls) =
     (let line = dropWhile ascii_whitespace line0 in
      if line = [] \<or> starts_with ''#'' line then dconf_lines in_section in_group granted ls
      else
        (case strip_prefix ''['' line of
           Some rest \<Rightarrow>
             (case group_name rest of
                None \<Rightarrow> False
              | Some name \<Rightarrow> dconf_lines (name = ''Session Bus Policy'') True granted ls)
         | None \<Rightarrow>
             (case split_once_char (\<lambda>c. c = CHR ''='') line of
                None \<Rightarrow> False
              | Some (key0, value) \<Rightarrow>
                  if \<not> in_group then False
                  else
                    (let key = trim_end_chars ascii_whitespace key0 in
                     if key = [] then False
                     else if list_ex (\<lambda>c. c = CHR ''['' \<or> c = CHR '']'') key then False
                     else dconf_lines in_section in_group
                            (if in_section \<and> key = ''ca.desrt.dconf''
                             then dropWhile ascii_whitespace value = ''talk'' else granted) ls))))"

definition has_dconf_access :: "string \<Rightarrow> bool" where
  "has_dconf_access flatpak_info = dconf_lines False False False (text_lines flatpak_info)"

definition is_snap :: "os_env \<Rightarrow> (string \<Rightarrow> file_read) \<Rightarrow> bool" where
  "is_snap env read_file \<longleftrightarrow>
     (case env ''SNAP'' of
        None \<Rightarrow> False
      | Some dir \<Rightarrow>
          (case read_file (path_join dir ''meta/snap.yaml'') of
             FileText yaml \<Rightarrow> snap_is_confined yaml | _ \<Rightarrow> False))"

definition sandbox_from_flatpak_read :: "file_read \<Rightarrow> bool \<Rightarrow> sandbox" where
  "sandbox_from_flatpak_read read snap =
     (case read of
        FileText text \<Rightarrow> Flatpak (has_dconf_access text)
      | FileFailed _ \<Rightarrow> Flatpak False
      | FileMissing \<Rightarrow> if snap then Snap else NoSandbox)"

definition detect_sandbox :: "os_env \<Rightarrow> (string \<Rightarrow> file_read) \<Rightarrow> sandbox" where
  "detect_sandbox env read_file =
     sandbox_from_flatpak_read (read_file ''/.flatpak-info'') (is_snap env read_file)"

section \<open>The portal\<close>

definition PROBES :: "(scheme \<times> string) list" where
  "PROBES =
     [(Http, ''http://proxy-watch-probe.invalid/''),
      (Https, ''https://proxy-watch-probe.invalid/''),
      (Ftp, ''ftp://proxy-watch-probe.invalid/''),
      (Socks, ''socks://proxy-watch-probe.invalid/''),
      (AllSchemes, ''none://proxy-watch-probe.invalid/'')]"

definition as_spoken :: "string \<Rightarrow> string" where
  "as_spoken proxy =
     (case split_once_str ''://'' proxy of
        Some (scheme, rest) \<Rightarrow> if eq_ignore_ascii_case scheme ''ftp'' then rest else proxy
      | None \<Rightarrow> proxy)"

definition first_choice :: "string list \<Rightarrow> string option" where
  "first_choice answers =
     (case List.find (\<lambda>a. a \<noteq> []) (map trim_text answers) of
        None \<Rightarrow> None
      | Some a \<Rightarrow> if a = ''direct://'' then None else Some a)"

definition rebuilt_bypass :: bypass_rules where
  "rebuilt_bypass =
     bypass_new\<lparr>implicit := EmptySet, ipv4_mapped_as_ipv4 := False, strip_trailing_dot := False\<rparr>"

definition sandboxed :: "sandbox \<Rightarrow> string \<Rightarrow> string \<Rightarrow> proxy_error" where
  "sandboxed sb reason message =
     Sandboxed (sandbox_name sb)
       (reason @ '' ('' @ message @ ''); GSettings cannot be trusted here because GLib would ''
          @ ''answer from the keyfile backend with the schema default mode='' @ [CHR 0x27]
          @ ''none'' @ [CHR 0x27])"

text \<open>What the portal client is given: whether GLib loads, the error of the session bus, and the
  answers to a lookup.\<close>

record portal_io =
  glib_loads :: bool
  bus_error :: "string option"
  portal_lookup :: "string \<Rightarrow> string + string list"

fun read_probes ::
    "external \<Rightarrow> sandbox \<Rightarrow> portal_io \<Rightarrow> (scheme \<times> string) list \<Rightarrow> scheme_map
       \<Rightarrow> proxy_error + scheme_map" where
  "read_probes E sb io [] m = Inr m"
| "read_probes E sb io ((s, uri) # probes) m =
     (case portal_lookup io uri of
        Inl e \<Rightarrow> Inl (sandboxed sb (''the ProxyResolver portal call failed for '' @ uri)
                       (redact_and_sanitize_untrusted e))
      | Inr answers \<Rightarrow>
          (case first_choice answers of
             None \<Rightarrow> read_probes E sb io probes (m(s \<mapsto> Disabled))
           | Some proxy \<Rightarrow>
               (case endpoint_parse E (as_spoken proxy) 80 of
                  Inl e \<Rightarrow> Inl e
                | Inr e \<Rightarrow> read_probes E sb io probes (m(s \<mapsto> Use e)))))"

definition portal_read_mode :: "external \<Rightarrow> sandbox \<Rightarrow> portal_io \<Rightarrow> proxy_error + proxy_mode" where
  "portal_read_mode E sb io =
     (if \<not> glib_loads io
      then Inl (sandboxed sb ''GLib is not loadable''
             ''there is no D-Bus client to reach the portal with'')
      else (case bus_error io of
              Some e \<Rightarrow> Inl (sandboxed sb ''the session bus is not reachable''
                             (redact_and_sanitize_untrusted e))
            | None \<Rightarrow>
                (case read_probes E sb io PROBES Map.empty of
                   Inl e \<Rightarrow> Inl e
                 | Inr m \<Rightarrow>
                     Inr (if all_disabled m then Direct else mode_manual m rebuilt_bypass))))"

section \<open>The route\<close>

datatype route = PortalRoute | StoresRoute bool

definition linux_route :: "sandbox \<Rightarrow> desktop \<Rightarrow> route" where
  "linux_route sb d =
     (if sb = NoSandbox then StoresRoute True
      else if gsettings_is_trustworthy sb \<and> d \<noteq> KdeDesktop then StoresRoute False
      else PortalRoute)"

record linux_build =
  built_gnome :: bool
  built_kde :: bool

fun is_compiled_in :: "linux_build \<Rightarrow> store \<Rightarrow> bool" where
  "is_compiled_in b GSettingsStore = built_gnome b"
| "is_compiled_in b KioslavercStore = built_kde b"

definition desktop_config ::
    "linux_build \<Rightarrow> nat \<Rightarrow> desktop \<Rightarrow> proxy_error + reading \<Rightarrow> proxy_error + reading \<Rightarrow> bool
       \<Rightarrow> proxy_error + proxy_config" where
  "desktop_config b now d gnome kde reads_kioslaverc =
     (let gnome' = (if built_gnome b then gnome else Inr Absent);
          kde' = (if reads_kioslaverc \<and> built_kde b then kde else Inr Absent)
      in case read_in_order d gnome' kde' [] of
           Inl e \<Rightarrow> Inl e
         | Inr ((gsettings, kioslaverc), fs) \<Rightarrow>
             (let fs' = note_compiled_out d gsettings kioslaverc (is_compiled_in b) fs
              in case assemble now d gsettings kioslaverc of
                   None \<Rightarrow> Inl Unsupported
                 | Some c \<Rightarrow> Inr (with_fallbacks fs' c)))"

definition portal_mode ::
    "external \<Rightarrow> linux_build \<Rightarrow> sandbox \<Rightarrow> portal_io \<Rightarrow> proxy_error + proxy_mode" where
  "portal_mode E b sb io =
     (if built_gnome b then portal_read_mode E sb io
      else Inl (Sandboxed (sandbox_name sb)
        (''GSettings would answer from GLib'' @ [CHR 0x27] @ ''s keyfile backend with the schema ''
           @ ''default mode='' @ [CHR 0x27] @ ''none'' @ [CHR 0x27]
           @ '', and the org.freedesktop.portal.ProxyResolver ''
           @ ''fallback needs the `linux-gnome` feature'')))"

text \<open>Everything the machine gives a read.\<close>

record linux_machine =
  lm_env :: os_env
  lm_files :: "string \<Rightarrow> file_read"
  lm_ini_refusal :: "string \<Rightarrow> string option"
  lm_gnome :: "gio_schema option"
  lm_portal :: portal_io

definition read_config_in ::
    "external \<Rightarrow> linux_build \<Rightarrow> nat \<Rightarrow> linux_machine \<Rightarrow> proxy_error + proxy_config" where
  "read_config_in E b now lm =
     (let sb = detect_sandbox (lm_env lm) (lm_files lm); d = current_desktop (lm_env lm) in
      case linux_route sb d of
        StoresRoute reads_kioslaverc \<Rightarrow>
          desktop_config b now d (gnome_reading E (lm_gnome lm))
            (kde_reading E now (lm_ini_refusal lm) (lm_files lm) (lm_env lm)) reads_kioslaverc
      | PortalRoute \<Rightarrow>
          (case portal_mode E b sb (lm_portal lm) of
             Inl e \<Rightarrow> Inl e
           | Inr mode \<Rightarrow> Inr (from_source now Portal mode)))"

end
