(* ===== verification/Linux_Facts.thy ===== *)
theory Linux_Facts
  imports Store_Contract Linux_Backend
begin

text \<open>
  The choice of a source on Linux: a store that cannot be trusted is not consulted, the error of a
  store is lost only where another store decides, and the portal's answer is direct only when
  every probe is.
\<close>

section \<open>The two stores in order\<close>

definition store_result :: "proxy_error + reading \<Rightarrow> proxy_error + reading \<Rightarrow> store \<Rightarrow> proxy_error + reading" where
  "store_result gnome kde st = (case st of GSettingsStore \<Rightarrow> gnome | KioslavercStore \<Rightarrow> kde)"

lemma read_in_order_spec:
  assumes "read_in_order d gnome kde [] = Inr ((gsettings, kioslaverc), lost_reads)"
  defines "of_store \<equiv> \<lambda>st. case st of GSettingsStore \<Rightarrow> gsettings | KioslavercStore \<Rightarrow> kioslaverc"
  shows "store_result gnome kde (fst (store_order d)) = Inr (of_store (fst (store_order d)))"
    and "case store_result gnome kde (snd (store_order d)) of
        Inr r \<Rightarrow> of_store (snd (store_order d)) = r \<and> lost_reads = []
      | Inl e \<Rightarrow> of_store (snd (store_order d)) = Absent \<and>
          is_configured (of_store (fst (store_order d))) \<and>
          lost_reads = [store_source (snd (store_order d))]"
  using assms(1)
  by (cases d; auto simp: read_in_order_def read_store_fail_soft_def store_result_def of_store_def
      split: sum.splits if_splits option.splits)+

lemma is_configured_iff: "is_configured r \<longleftrightarrow> (\<exists>source mode. r = Configured source mode)"
  by (cases r) auto

text \<open>C17. Linux: when one of the two stores that are read fails and there is still a
  configuration, that store does not lead on this desktop, the other one does and decides, and
  the failed one is named among the fallbacks.\<close>

theorem lost_store_is_named:
  assumes "desktop_config b now d gnome kde reads_kde = Inr c"
    and "is_compiled_in b st" "reads_kde \<or> st = GSettingsStore"
    and "store_result gnome kde st = Inl e"
  shows "fst (store_order d) \<noteq> st \<and> fallbacks c = [store_source st] \<and>
    (\<exists>source mode. store_result gnome kde (fst (store_order d)) = Inr (Configured source mode) \<and>
       effective c = mode \<and> sources c = [(source, mode)])"
proof -
  define gnome' where "gnome' = (if built_gnome b then gnome else Inr Absent)"
  define kde' where "kde' = (if reads_kde \<and> built_kde b then kde else Inr Absent)"
  obtain gsettings kioslaverc lost_reads where
    r: "read_in_order d gnome' kde' [] = Inr ((gsettings, kioslaverc), lost_reads)"
    using assms(1) by (auto simp: desktop_config_def gnome'_def kde'_def Let_def split: sum.splits)
  have st: "store_result gnome' kde' st = Inl e"
    using assms(2-4) by (cases st) (auto simp: store_result_def gnome'_def kde'_def)
  note spec = read_in_order_spec [OF r]
  have other: "fst (store_order d) \<noteq> st" using spec(1) st by auto
  then have snd_st: "snd (store_order d) = st" by (cases d; cases st) auto
  show ?thesis
    using spec assms r st other snd_st
    by (cases d; cases st)
      (auto simp: store_result_def gnome'_def kde'_def is_configured_iff desktop_config_def Let_def
        assemble_def note_compiled_out_def from_ordered_sources_def config_new_def with_fallbacks_def
        split: if_splits option.splits sum.splits)
qed

definition gnome_first :: proxy_config where
  "gnome_first = projr (desktop_config \<lparr> built_gnome = True, built_kde = True \<rparr> 0 GnomeDesktop
     (Inr (Configured GSettingsSource WpadAutoDetect)) (Inl (error_io ''reading'' ''denied'')) True)"

theorem lost_store_is_named_witness:
  "fst (store_order GnomeDesktop) \<noteq> KioslavercStore \<and> fallbacks gnome_first = [KioslavercSource] \<and>
   effective gnome_first = WpadAutoDetect"
proof -
  have "desktop_config \<lparr> built_gnome = True, built_kde = True \<rparr> 0 GnomeDesktop
      (Inr (Configured GSettingsSource WpadAutoDetect)) (Inl (error_io ''reading'' ''denied'')) True
    = Inr gnome_first"
    by (simp add: gnome_first_def desktop_config_def read_in_order_def read_store_fail_soft_def
        assemble_def Let_def)
  from lost_store_is_named [OF this, of KioslavercStore] show ?thesis
    by (auto simp: store_result_def)
qed

section \<open>Sandboxes\<close>

text \<open>C16. In a sandbox whose GSettings are not the user's, what they hold does not change the answer,
  which is the portal's or an error; and in no sandbox does the answer depend on the files of
  KDE, as long as they show the same sandbox.\<close>

theorem untrusted_stores_are_not_consulted:
  assumes "detect_sandbox (lm_env lm) (lm_files lm) = sb" "sb \<noteq> NoSandbox"
  shows "(if gsettings_is_trustworthy sb then True
          else read_config_in E b now (lm\<lparr>lm_gnome := schema\<rparr>) = read_config_in E b now lm \<and>
            (case read_config_in E b now lm of
               Inl e \<Rightarrow> True | Inr c \<Rightarrow> map fst (sources c) = [Portal]))
    \<and> (if detect_sandbox (lm_env lm) files = sb
       then read_config_in E b now (lm\<lparr>lm_files := files\<rparr>) = read_config_in E b now lm else True)"
  using assms
  by (auto simp: read_config_in_def linux_route_def Let_def desktop_config_def from_source_def
      from_ordered_sources_def config_new_def split: sum.split)

definition flatpak_machine :: linux_machine where
  "flatpak_machine =
     \<lparr> lm_env = Map.empty,
       lm_files = (\<lambda>path. if path = ''/.flatpak-info'' then FileText ''[Application]'' else FileMissing),
       lm_ini_refusal = (\<lambda>_. None), lm_gnome = None,
       lm_portal = \<lparr> glib_loads = True, bus_error = None,
         portal_lookup = (\<lambda>uri. Inr [''http://p.example:3128'']) \<rparr> \<rparr>"

theorem untrusted_stores_are_not_consulted_witness:
  "\<forall>sc. read_config_in plain_external \<lparr> built_gnome = True, built_kde = True \<rparr> 0
     (flatpak_machine\<lparr>lm_gnome := Some sc\<rparr>)
   = read_config_in plain_external \<lparr> built_gnome = True, built_kde = True \<rparr> 0 flatpak_machine"
proof -
  have "detect_sandbox (lm_env flatpak_machine) (lm_files flatpak_machine) = Flatpak False" by code_simp
  from untrusted_stores_are_not_consulted [OF this] show ?thesis by simp
qed

section \<open>The portal\<close>

definition probe_is_direct :: "portal_io \<Rightarrow> string \<Rightarrow> bool" where
  "probe_is_direct io uri \<longleftrightarrow>
     (case portal_lookup io uri of Inl e \<Rightarrow> False | Inr answers \<Rightarrow> first_choice answers = None)"

lemma read_probes_other:
  "read_probes E sb io probes m = Inr m' \<Longrightarrow> s \<notin> fst ` set probes \<Longrightarrow> m' s = m s"
  by (induction E sb io probes m rule: read_probes.induct) (auto split: sum.splits option.splits)

lemma read_probes_entry:
  "read_probes E sb io probes m = Inr m' \<Longrightarrow> distinct (map fst probes) \<Longrightarrow> (s, uri) \<in> set probes \<Longrightarrow>
   (if probe_is_direct io uri then m' s = Some Disabled else \<exists>e. m' s = Some (Use e))"
proof (induction probes arbitrary: m)
  case (Cons p probes)
  obtain t uri' where p: "p = (t, uri')" by (cases p)
  have other: "t \<notin> fst ` set probes" using Cons.prems(2) p by auto
  obtain e where e: "read_probes E sb io probes (m(t \<mapsto> e)) = Inr m'"
    "if probe_is_direct io uri' then e = Disabled else \<exists>ep. e = Use ep"
    using Cons.prems(1) by (auto simp: p probe_is_direct_def split: sum.splits option.splits)
  show ?case
  proof (cases "(s, uri) = (t, uri')")
    case True
    then show ?thesis using e(2) read_probes_other [OF e(1) other] by (auto split: if_splits)
  next
    case False
    then show ?thesis using Cons.IH [OF e(1)] Cons.prems p by auto
  qed
qed simp

lemma read_probes_direct:
  "list_all (\<lambda>p. probe_is_direct io (snd p)) probes \<Longrightarrow> \<exists>m'. read_probes E sb io probes m = Inr m'"
  by (induction probes arbitrary: m) (auto simp: probe_is_direct_def split: sum.splits)

lemma PROBES_distinct: "distinct (map fst PROBES)"
  by (auto simp: PROBES_def)

text \<open>The portal's answer is direct exactly when it was asked and every probe was answered
  direct, one for each scheme and one for any other; a proxy in any answer, or an answer that
  does not come, is never dropped.\<close>

theorem portal_is_direct_iff_every_probe_is:
  "portal_read_mode E sb io = Inr Direct \<longleftrightarrow>
     glib_loads io \<and> bus_error io = None \<and> list_all (\<lambda>p. probe_is_direct io (snd p)) PROBES"
proof (cases "glib_loads io \<and> bus_error io = None")
  case True
  have all: "all_disabled m' \<longleftrightarrow> list_all (\<lambda>p. probe_is_direct io (snd p)) PROBES"
    if "read_probes E sb io PROBES Map.empty = Inr m'" for m'
  proof -
    have "probe_is_direct io (snd p) \<longleftrightarrow> (case m' (fst p) of None \<Rightarrow> True | Some e \<Rightarrow> entry_is_disabled e)"
      if "p \<in> set PROBES" for p
      using read_probes_entry [OF \<open>read_probes E sb io PROBES Map.empty = Inr m'\<close> PROBES_distinct,
          of "fst p" "snd p"] that
      by (auto split: if_splits)
    then have "list_all (\<lambda>p. probe_is_direct io (snd p)) PROBES \<longleftrightarrow>
        list_all (\<lambda>s. case m' s of None \<Rightarrow> True | Some e \<Rightarrow> entry_is_disabled e) (map fst PROBES)"
      by (simp add: list_all_iff)
    also have "map fst PROBES = scheme_ALL" by (simp add: PROBES_def scheme_ALL_def)
    finally show ?thesis by (simp add: all_disabled_def)
  qed
  show ?thesis
    using True all read_probes_direct [of io PROBES E sb Map.empty]
    by (auto simp: portal_read_mode_def mode_manual_def split: sum.split)
qed (auto simp: portal_read_mode_def split: option.split)

end
