(* ===== verification/Proxy_Info.thy ===== *)
theory Proxy_Info
  imports Stores Resolve
begin

text \<open>
  \<open>src/sys/proxy_info.rs\<close>: Android's \<open>ProxyInfo\<close> read into a mode, and the answer of its
  \<open>ProxySelector\<close> read into steps.
\<close>

section \<open>The mode\<close>

definition DEFAULT_EXCLUSIONS :: "string list" where
  "DEFAULT_EXCLUSIONS = [''localhost'', ''127.*'', ''[::1]'', ''0.0.0.0'', ''[::0]'']"

record proxy_info =
  pi_host :: "string option"
  pi_port :: int
  pi_exclusions :: "string list"
  pi_pac_url :: "string option"

text \<open>The field that failed and its text, or the endpoint.\<close>

definition info_endpoint :: "external \<Rightarrow> string \<Rightarrow> int \<Rightarrow> u16 \<Rightarrow> (string \<times> string) + proxy_endpoint" where
  "info_endpoint E host_text port default_port =
     (if port \<noteq> 0 \<and> (port < 0 \<or> 65536 \<le> port) then Inl (''port'', show_int port)
      else (case parse_host E host_text of
              Inl _ \<Rightarrow> Inl (''host'', host_text)
            | Inr h \<Rightarrow> Inr (endpoint_new h (if port = 0 then default_port else of_int port))))"

definition matches_no_host :: "string \<Rightarrow> bool" where
  "matches_no_host entry \<longleftrightarrow>
     (if starts_with ''<'' entry \<or> has_whitespace entry then True
      else
        (let inner = (case strip_prefix ''*'' entry of
                        Some r \<Rightarrow> r
                      | None \<Rightarrow> unwrap_or entry (strip_suffix ''*'' entry));
             bracketed = (starts_with ''['' entry \<and> ends_with '']'' entry)
         in CHR ''*'' \<in> set inner \<or> (CHR '':'' \<in> set entry \<and> \<not> bracketed)))"

definition info_entry :: "external \<Rightarrow> string \<Rightarrow> bypass_rules \<Rightarrow> bypass_rules" where
  "info_entry E entry r =
     (if matches_no_host entry then push_rejected (ProxyInfo ''exclusionList'') entry r
      else push_entry_from E entry Windows (ProxyInfo ''exclusionList'') r)"

definition info_entries :: "string list \<Rightarrow> string list" where
  "info_entries exclusions =
     concat (map (split_chars (\<lambda>c. c = CHR '','' \<or> c = CHR ''|'')) exclusions)
       @ (if intercalate_char (CHR '','') exclusions = [] then [] else DEFAULT_EXCLUSIONS)"

definition info_bypass :: "external \<Rightarrow> string list \<Rightarrow> bypass_rules" where
  "info_bypass E exclusions =
     dedup_patterns
       (foldl (\<lambda>r entry. info_entry E entry r)
          ((push_pattern SubtractImplicit bypass_new)
             \<lparr>strip_trailing_dot := False, ipv4_mapped_as_ipv4 := False\<rparr>)
          (info_entries exclusions))"

definition info_scheme ::
    "external \<Rightarrow> proxy_info \<Rightarrow> string \<Rightarrow> scheme \<times> u16 \<Rightarrow> scheme_map \<times> rejected_value list
       \<Rightarrow> scheme_map \<times> rejected_value list" where
  "info_scheme E info host_text sp st =
     (let (s, default_port) = sp; (m, rejected) = st in
      case info_endpoint E host_text (pi_port info) default_port of
        Inr e \<Rightarrow> (m(s \<mapsto> Use e), rejected)
      | Inl (field, input) \<Rightarrow>
          (m, rejected @
             [for_scheme (Some s) (rejected_new InvalidProxyEndpoint (ProxyInfo field) input)]))"

definition mode_from_proxy_info :: "external \<Rightarrow> proxy_info option \<Rightarrow> proxy_error + proxy_mode" where
  "mode_from_proxy_info E answer =
     (case answer of
        None \<Rightarrow> Inr Direct
      | Some info \<Rightarrow>
          (case (case pi_pac_url info of Some u \<Rightarrow> if u = [] then None else Some u | None \<Rightarrow> None) of
             Some u \<Rightarrow>
               (case url_parse E u of
                  Inl source \<Rightarrow> Inl (error_invalid_proxy_url u source)
                | Inr parsed \<Rightarrow> Inr (mode_pac parsed))
           | None \<Rightarrow>
               (case (case pi_host info of Some h \<Rightarrow> if h = [] then None else Some h | None \<Rightarrow> None) of
                  None \<Rightarrow> Inr Direct
                | Some h \<Rightarrow>
                    (let (m, rejected) =
                           foldl (\<lambda>st sp. info_scheme E info h sp st) (Map.empty, [])
                             [(Http, 80), (Https, 443)]
                     in Inr (with_rejected rejected
                          (mode_manual m (info_bypass E (pi_exclusions info))))))))"

section \<open>The selector\<close>

text \<open>The text of a URL as Java reads one; \<open>authority_end\<close> is where its path starts.\<close>

definition java_raw :: "char \<Rightarrow> bool" where
  "java_raw c \<longleftrightarrow> c \<in> set ''|^[]{}'' \<or> c = CHR 0x60 \<or> c = CHR 0x5C"

definition upper_hex :: "nat \<Rightarrow> char" where "upper_hex d = ''0123456789ABCDEF'' ! d"

definition starts_escape :: "string \<Rightarrow> bool" where
  "starts_escape s \<longleftrightarrow> (case s of h # l # _ \<Rightarrow> hex_val h \<noteq> None \<and> hex_val l \<noteq> None | _ \<Rightarrow> False)"

fun java_escape :: "string \<Rightarrow> string" where
  "java_escape [] = []"
| "java_escape (c # s) =
     (if java_raw c
      then [CHR ''%'', upper_hex (byte_val c div 16), upper_hex (byte_val c mod 16)]
      else if c = CHR ''%'' \<and> \<not> starts_escape s then ''%25''
      else [c]) @ java_escape s"

definition java_uri_text :: "nat \<Rightarrow> url \<Rightarrow> string" where
  "java_uri_text authority_end u =
     take authority_end (as_str u) @ java_escape (drop authority_end (as_str u))"

record selected_proxy =
  sp_kind :: string
  sp_host :: "string option"
  sp_port :: int

definition selected_endpoint :: "external \<Rightarrow> selected_proxy \<Rightarrow> proxy_error + proxy_endpoint" where
  "selected_endpoint E p =
     (case (Option.bind (sp_host p) (\<lambda>h. result_ok (parse_host E h)),
            if 0 < sp_port p \<and> sp_port p < 65536 then Some (of_int (sp_port p)) else None) of
        (Some h, Some port) \<Rightarrow> Inr (endpoint_new h port)
      | _ \<Rightarrow> Inl (error_pac_invalid_result
               (sp_kind p @ '' '' @ unwrap_or ''null'' (sp_host p) @ '':'' @ show_int (sp_port p))))"

definition selected_step :: "external \<Rightarrow> selected_proxy \<Rightarrow> proxy_error + proxy_step" where
  "selected_step E p =
     (if sp_kind p = ''DIRECT'' then Inr StepDirect
      else if sp_kind p = ''HTTP'' then map_sum id StepHttp (selected_endpoint E p)
      else if sp_kind p = ''SOCKS'' then map_sum id StepSocks5 (selected_endpoint E p)
      else Inl (error_pac_invalid_result (sp_kind p)))"

fun push_selected ::
    "external \<Rightarrow> selected_proxy list \<Rightarrow> chain \<times> proxy_error option \<Rightarrow> chain \<times> proxy_error option" where
  "push_selected E [] st = st"
| "push_selected E (p # ps) (c, first_error) =
     (case selected_step E p of
        Inl e \<Rightarrow> push_selected E ps (c, Some (unwrap_or e first_error))
      | Inr s \<Rightarrow>
          (let c' = chain_push s c in
           if chain_is_full c' then (c', first_error) else push_selected E ps (c', first_error)))"

definition steps_from_selected ::
    "external \<Rightarrow> selected_proxy list \<Rightarrow> proxy_error + proxy_step list" where
  "steps_from_selected E selected =
     (let (c, first_error) = push_selected E selected (chain_new, None)
      in ok_or (unwrap_or (error_pac_invalid_result ''ProxySelector.select returned no proxy'')
                  first_error) (chain_finish c))"

end
