(* ===== verification/Windows_Backend.thy ===== *)
theory Windows_Backend
  imports Stores
begin

text \<open>
  \<open>src/sys/win/mod.rs\<close> and the readers of \<open>src/sys/win/ffi.rs\<close>: the values of a registry key,
  what WinHTTP answers, and the snapshot made of them. The calls to Windows are arguments: what
  each query of a value reports, the structures WinHTTP fills in, and the error text of a code.
\<close>

section \<open>A value of a key\<close>

datatype query_status = QuerySuccess | QueryNotFound | QueryMoreData | QueryFailed string

text \<open>One pair of calls: the status of the sizing call, that of the data call, and the type and
  bytes the second one gave.\<close>

record value_query =
  vq_sized :: query_status
  vq_read :: query_status
  vq_kind :: nat
  vq_data :: string

definition REG_SZ :: nat where "REG_SZ = 1"
definition REG_EXPAND_SZ :: nat where "REG_EXPAND_SZ = 2"
definition REG_DWORD :: nat where "REG_DWORD = 4"

definition MAX_REQUERY_ATTEMPTS :: nat where "MAX_REQUERY_ATTEMPTS = 3"

datatype requery = RequeryDone | RequeryRetry | RequeryFail

definition classify_requery :: "query_status \<Rightarrow> nat \<Rightarrow> nat \<Rightarrow> requery" where
  "classify_requery status attempt max_attempts =
     (if status = QueryMoreData then
        (if attempt + 1 < max_attempts then RequeryRetry else RequeryFail)
      else RequeryDone)"

text \<open>The text of \<open>ERROR_MORE_DATA\<close> is the argument \<open>more_data\<close>. The loop over the attempts that
  are left; \<open>None\<close> is the end of the loop, which the code calls unreachable.\<close>

fun query_error :: "string \<Rightarrow> string \<Rightarrow> query_status \<Rightarrow> proxy_error" where
  "query_error context more_data (QueryFailed e) = error_io context e"
| "query_error context more_data QueryMoreData = error_io context more_data"
| "query_error context more_data QuerySuccess = error_io context []"
| "query_error context more_data QueryNotFound = error_io context []"

fun raw_attempts ::
    "string \<Rightarrow> string \<Rightarrow> (nat \<Rightarrow> value_query) \<Rightarrow> nat \<Rightarrow> nat
       \<Rightarrow> (proxy_error + (nat \<times> string) option) option" where
  "raw_attempts context more_data query attempt 0 = None"
| "raw_attempts context more_data query attempt (Suc left) =
     (let q = query attempt in
      case vq_sized q of
        QueryNotFound \<Rightarrow> Some (Inr None)
      | QueryFailed e \<Rightarrow> Some (Inl (query_error context more_data (QueryFailed e)))
      | QueryMoreData \<Rightarrow> Some (Inl (query_error context more_data QueryMoreData))
      | QuerySuccess \<Rightarrow>
          if classify_requery (vq_read q) attempt MAX_REQUERY_ATTEMPTS = RequeryRetry
          then raw_attempts context more_data query (attempt + 1) left
          else (case vq_read q of
                  QuerySuccess \<Rightarrow> Some (Inr (Some (vq_kind q, vq_data q)))
                | QueryNotFound \<Rightarrow> Some (Inr None)
                | status \<Rightarrow> Some (Inl (query_error context more_data status))))"

definition raw_value ::
    "string \<Rightarrow> string \<Rightarrow> (nat \<Rightarrow> value_query) \<Rightarrow> (proxy_error + (nat \<times> string) option) option" where
  "raw_value context more_data query = raw_attempts context more_data query 0 MAX_REQUERY_ATTEMPTS"

text \<open>UTF-16, with U+FFFD for a unit that pairs with none, as UTF-8 bytes.\<close>

definition utf8_of :: "nat \<Rightarrow> string" where
  "utf8_of cp =
     (if cp < 0x80 then [char_of cp]
      else if cp < 0x800 then [char_of (0xC0 + cp div 64), char_of (0x80 + cp mod 64)]
      else if cp < 0x10000
      then [char_of (0xE0 + cp div 4096), char_of (0x80 + cp div 64 mod 64), char_of (0x80 + cp mod 64)]
      else [char_of (0xF0 + cp div 262144), char_of (0x80 + cp div 4096 mod 64),
            char_of (0x80 + cp div 64 mod 64), char_of (0x80 + cp mod 64)])"

fun utf16_lossy :: "nat list \<Rightarrow> string" where
  "utf16_lossy [] = []"
| "utf16_lossy (u # us) =
     (if u < 0xD800 \<or> 0xDFFF < u then utf8_of u @ utf16_lossy us
      else
        (case us of
           [] \<Rightarrow> utf8_of 0xFFFD
         | v # vs \<Rightarrow>
             if u < 0xDC00 \<and> 0xDC00 \<le> v \<and> v \<le> 0xDFFF
             then utf8_of (0x10000 + (u - 0xD800) * 1024 + (v - 0xDC00)) @ utf16_lossy vs
             else utf8_of 0xFFFD @ utf16_lossy us))"

fun units_of :: "string \<Rightarrow> nat list" where
  "units_of (lo # hi # rest) = (byte_val lo + 256 * byte_val hi) # units_of rest"
| "units_of [] = []"
| "units_of [b] = []"

text \<open>\<open>wide\<close> over the characters of a text, each its scalar value, with the closing zero.\<close>

definition utf16_units :: "nat \<Rightarrow> nat list" where
  "utf16_units cp =
     (if cp < 0x10000 then [cp]
      else [0xD800 + (cp - 0x10000) div 1024, 0xDC00 + (cp - 0x10000) mod 1024])"

definition wide :: "nat list \<Rightarrow> nat list" where
  "wide cps = concat (map utf16_units cps) @ [0]"

text \<open>A key: the two readers of its values. A value that is absent and one of another type are
  \<open>None\<close>.\<close>

type_synonym reg_key = "string \<Rightarrow> proxy_error + (nat \<times> string) option"

definition string_value :: "reg_key \<Rightarrow> string \<Rightarrow> proxy_error + string option" where
  "string_value key name =
     map_sum id
       (\<lambda>value. case value of
          None \<Rightarrow> None
        | Some (k, data) \<Rightarrow>
            if k \<noteq> REG_SZ \<and> k \<noteq> REG_EXPAND_SZ then None
            else Some (utf16_lossy (takeWhile (\<lambda>u. u \<noteq> 0) (units_of data))))
       (key name)"

definition dword_value :: "reg_key \<Rightarrow> string \<Rightarrow> proxy_error + 32 word option" where
  "dword_value key name =
     map_sum id
       (\<lambda>value. case value of
          None \<Rightarrow> None
        | Some (k, data) \<Rightarrow>
            if k \<noteq> REG_DWORD \<or> length data < 4 then None
            else Some (of_nat (byte_val (data ! 0) + 256 * byte_val (data ! 1)
                   + 65536 * byte_val (data ! 2) + 16777216 * byte_val (data ! 3))))
       (key name)"

section \<open>From values to a mode\<close>

definition filled :: "string option \<Rightarrow> string option" where
  "filled v = Option.bind v non_blank"

definition decides_whether_to_proxy ::
    "32 word option \<Rightarrow> string option \<Rightarrow> 32 word option \<Rightarrow> bool" where
  "decides_whether_to_proxy enable auto_config_url auto_detect \<longleftrightarrow>
     (let has_pac_url = (case auto_config_url of None \<Rightarrow> False | Some u \<Rightarrow> trim_text u \<noteq> [])
      in enable \<noteq> None \<or> has_pac_url \<or> auto_detect \<noteq> None)"

definition static_server_is_enabled :: "32 word option \<Rightarrow> bool" where
  "static_server_is_enabled enable \<longleftrightarrow> enable = Some 1"

definition win_manual :: "external \<Rightarrow> string option \<Rightarrow> string option \<Rightarrow> proxy_mode" where
  "win_manual E server overrides =
     (case filled server of
        Some s \<Rightarrow> windows_manual E s (unwrap_or [] overrides)
      | None \<Rightarrow> Direct)"

definition win_resolve_mode ::
    "external \<Rightarrow> bool \<Rightarrow> string option \<Rightarrow> string option \<Rightarrow> string option \<Rightarrow> proxy_error + proxy_mode" where
  "win_resolve_mode E auto_detect auto_config_url server overrides =
     (if auto_detect then Inr WpadAutoDetect
      else
        (case filled auto_config_url of
           Some u \<Rightarrow>
             (case url_parse E u of
                Inl source \<Rightarrow> Inl (error_invalid_proxy_url u source)
              | Inr parsed \<Rightarrow> Inr (mode_pac parsed))
         | None \<Rightarrow> Inr (win_manual E server overrides)))"

definition mode_from_registry :: "external \<Rightarrow> reg_key \<Rightarrow> proxy_error + proxy_mode option" where
  "mode_from_registry E key =
     (case dword_value key ''ProxyEnable'' of Inl e \<Rightarrow> Inl e | Inr enable \<Rightarrow>
     (case string_value key ''ProxyServer'' of Inl e \<Rightarrow> Inl e | Inr server \<Rightarrow>
     (case string_value key ''ProxyOverride'' of Inl e \<Rightarrow> Inl e | Inr overrides \<Rightarrow>
     (case string_value key ''AutoConfigURL'' of Inl e \<Rightarrow> Inl e | Inr auto_config_url \<Rightarrow>
     (case dword_value key ''AutoDetect'' of Inl e \<Rightarrow> Inl e | Inr auto_detect \<Rightarrow>
        if \<not> decides_whether_to_proxy enable auto_config_url auto_detect then Inr None
        else
          map_sum id Some
            (win_resolve_mode E (auto_detect = Some 1) auto_config_url
               (if static_server_is_enabled enable then server else None) overrides))))))"

section \<open>What WinHTTP answers\<close>

record ie_proxy_config =
  ie_auto_detect :: bool
  ie_auto_config_url :: "string option"
  ie_proxy :: "string option"
  ie_bypass :: "string option"

text \<open>A failed call: whether its code is \<open>ERROR_FILE_NOT_FOUND\<close>, and its text.\<close>

record win_failure =
  wf_not_found :: bool
  wf_text :: string

definition ie_to_mode :: "external \<Rightarrow> ie_proxy_config \<Rightarrow> proxy_error + proxy_mode" where
  "ie_to_mode E c =
     win_resolve_mode E (ie_auto_detect c) (ie_auto_config_url c) (ie_proxy c) (ie_bypass c)"

text \<open>\<open>RegKey::open\<close> of a key: an error, no such key, or its values.\<close>

type_synonym opened_key = "proxy_error + reg_key option"

text \<open>The mode, and the sources recorded as lost.\<close>

definition read_user_mode ::
    "external \<Rightarrow> win_failure + ie_proxy_config \<Rightarrow> opened_key \<Rightarrow> config_source list
       \<Rightarrow> (proxy_error + proxy_mode) \<times> config_source list" where
  "read_user_mode E query opened lost_reads =
     (case query of
        Inr c \<Rightarrow> (ie_to_mode E c, lost_reads)
      | Inl failure \<Rightarrow>
          (case opened of
             Inl e \<Rightarrow> Inl e
           | Inr None \<Rightarrow> Inr Direct
           | Inr (Some key) \<Rightarrow> map_sum id (unwrap_or Direct) (mode_from_registry E key),
           if wf_not_found failure then lost_reads else lost_reads @ [Registry]))"

definition read_group_policy_mode :: "external \<Rightarrow> opened_key \<Rightarrow> proxy_error + proxy_mode option" where
  "read_group_policy_mode E opened =
     (case opened of
        Inl e \<Rightarrow> Inl e
      | Inr None \<Rightarrow> Inr None
      | Inr (Some key) \<Rightarrow> mode_from_registry E key)"

definition group_policy_source ::
    "proxy_error + proxy_mode option \<Rightarrow> config_source list
       \<Rightarrow> (config_source \<times> proxy_mode) option \<times> config_source list" where
  "group_policy_source read lost_reads =
     (case read of
        Inr (Some mode) \<Rightarrow> (Some (GroupPolicy, mode), lost_reads)
      | Inr None \<Rightarrow> (None, lost_reads)
      | Inl e \<Rightarrow> (None, lost_reads @ [GroupPolicy]))"

datatype access_type = NoProxyAccess | NamedProxyAccess | OtherAccess

definition winhttp_default_mode ::
    "external \<Rightarrow> access_type \<Rightarrow> string option \<Rightarrow> string option \<Rightarrow> proxy_mode" where
  "winhttp_default_mode E access server overrides =
     (case access of NamedProxyAccess \<Rightarrow> win_manual E server overrides | _ \<Rightarrow> Direct)"

definition winhttp_default_source ::
    "external \<Rightarrow> win_failure + (access_type \<times> string option \<times> string option) \<Rightarrow> config_source list
       \<Rightarrow> (config_source \<times> proxy_mode) option \<times> config_source list" where
  "winhttp_default_source E query lost_reads =
     (case query of
        Inr (access, server, overrides) \<Rightarrow>
          (Some (WinHttpDefault, winhttp_default_mode E access server overrides), lost_reads)
      | Inl failure \<Rightarrow>
          (None, if wf_not_found failure then lost_reads else lost_reads @ [WinHttpDefault]))"

definition in_precedence_order ::
    "(config_source \<times> proxy_mode) option \<Rightarrow> proxy_mode \<Rightarrow> (config_source \<times> proxy_mode) option
       \<Rightarrow> (config_source \<times> proxy_mode) list" where
  "in_precedence_order policy user machine = (Registry, user) # present [policy, machine]"

record win_machine =
  wm_policy_key :: opened_key
  wm_user_key :: opened_key
  wm_ie :: "win_failure + ie_proxy_config"
  wm_default :: "win_failure + (access_type \<times> string option \<times> string option)"

definition win_read_config ::
    "external \<Rightarrow> bool \<Rightarrow> nat \<Rightarrow> win_machine \<Rightarrow> proxy_error + proxy_config" where
  "win_read_config E group_policy now wm =
     (let (policy, lost1) =
            (if group_policy then group_policy_source (read_group_policy_mode E (wm_policy_key wm)) []
             else (None, []));
          (user, lost2) = read_user_mode E (wm_ie wm) (wm_user_key wm) lost1
      in case user of
           Inl e \<Rightarrow> Inl e
         | Inr mode \<Rightarrow>
             (let (machine, lost3) = winhttp_default_source E (wm_default wm) lost2
              in Inr (with_fallbacks lost3
                   (from_ordered_sources now (in_precedence_order policy mode machine)))))"

section \<open>Beneath auto-detection\<close>

definition wpad_fallback_beneath ::
    "external \<Rightarrow> string option \<Rightarrow> string option \<Rightarrow> string option \<Rightarrow> url option \<times> proxy_mode" where
  "wpad_fallback_beneath E auto_config_url server overrides =
     (Option.bind (filled auto_config_url) (\<lambda>u. result_ok (url_parse E u)), win_manual E server overrides)"

definition wpad_fallback_from_key :: "external \<Rightarrow> reg_key \<Rightarrow> proxy_error + url option \<times> proxy_mode" where
  "wpad_fallback_from_key E key =
     (case dword_value key ''ProxyEnable'' of Inl e \<Rightarrow> Inl e | Inr enable \<Rightarrow>
     (case string_value key ''ProxyServer'' of Inl e \<Rightarrow> Inl e | Inr server \<Rightarrow>
     (case string_value key ''ProxyOverride'' of Inl e \<Rightarrow> Inl e | Inr overrides \<Rightarrow>
     (case string_value key ''AutoConfigURL'' of Inl e \<Rightarrow> Inl e | Inr auto_config_url \<Rightarrow>
        Inr (wpad_fallback_beneath E auto_config_url
               (if static_server_is_enabled enable then server else None) overrides)))))"

definition wpad_fallback ::
    "external \<Rightarrow> win_failure + ie_proxy_config \<Rightarrow> opened_key \<Rightarrow> proxy_error + url option \<times> proxy_mode" where
  "wpad_fallback E query opened =
     (case query of
        Inr c \<Rightarrow> Inr (wpad_fallback_beneath E (ie_auto_config_url c) (ie_proxy c) (ie_bypass c))
      | Inl failure \<Rightarrow>
          (case opened of
             Inl e \<Rightarrow> Inl e
           | Inr None \<Rightarrow> Inr (None, Direct)
           | Inr (Some key) \<Rightarrow> wpad_fallback_from_key E key))"

end
