(* ===== verification/Windows_Facts.thy ===== *)
theory Windows_Facts
  imports Windows_Backend
begin

text \<open>
  The Windows reader: the query of a value ends, a text reads back, and the answer is the per-user
  store's whatever the policy key and the machine default hold.
\<close>

section \<open>A value\<close>

lemma raw_attempts_returns:
  "attempt + left = MAX_REQUERY_ATTEMPTS \<Longrightarrow> 0 < left \<Longrightarrow>
   raw_attempts context more_data query attempt left \<noteq> None"
proof (induction left arbitrary: attempt)
  case (Suc left)
  then show ?case
    using Suc.IH [of "attempt + 1"]
    by (cases "left = 0")
      (auto simp: Let_def classify_requery_def MAX_REQUERY_ATTEMPTS_def split: query_status.splits)
qed simp

text \<open>The query of a registry value ends with an answer or an error after at most three pairs of
  calls, and the end of its loop is never reached: the answer is that of the first pair whose
  data did not outgrow the buffer.\<close>

theorem registry_query_returns:
  "raw_value context more_data query \<noteq> None \<and>
   (if list_all (\<lambda>i. vq_sized (query i) = QuerySuccess) [0, 1, 2]
    then raw_value context more_data query =
      (case List.find (\<lambda>i. vq_read (query i) \<noteq> QueryMoreData) [0, 1, 2] of
         None \<Rightarrow> Some (Inl (error_io context more_data))
       | Some i \<Rightarrow>
           (case vq_read (query i) of
              QuerySuccess \<Rightarrow> Some (Inr (Some (vq_kind (query i), vq_data (query i))))
            | QueryNotFound \<Rightarrow> Some (Inr None)
            | status \<Rightarrow> Some (Inl (query_error context more_data status))))
    else True)"
proof (intro conjI)
  show "raw_value context more_data query \<noteq> None"
    unfolding raw_value_def by (rule raw_attempts_returns) (simp_all add: MAX_REQUERY_ATTEMPTS_def)
  have m: "MAX_REQUERY_ATTEMPTS = Suc (Suc (Suc 0))" by (simp add: MAX_REQUERY_ATTEMPTS_def)
  show "if list_all (\<lambda>i. vq_sized (query i) = QuerySuccess) [0, 1, 2]
    then raw_value context more_data query =
      (case List.find (\<lambda>i. vq_read (query i) \<noteq> QueryMoreData) [0, 1, 2] of
         None \<Rightarrow> Some (Inl (error_io context more_data))
       | Some i \<Rightarrow>
           (case vq_read (query i) of
              QuerySuccess \<Rightarrow> Some (Inr (Some (vq_kind (query i), vq_data (query i))))
            | QueryNotFound \<Rightarrow> Some (Inr None)
            | status \<Rightarrow> Some (Inl (query_error context more_data status))))
    else True"
    by (cases "vq_read (query 0)"; cases "vq_read (query 1)"; cases "vq_read (query 2)")
      (simp_all add: raw_value_def Let_def classify_requery_def m numeral_2_eq_2)
qed

text \<open>Little-endian bytes of 16-bit units.\<close>

definition unit_bytes :: "nat list \<Rightarrow> string" where
  "unit_bytes us = concat (map (\<lambda>u. [char_of (u mod 256), char_of (u div 256)]) us)"

lemma units_of_bytes:
  "list_all (\<lambda>u. u < 0x10000) us \<Longrightarrow> units_of (unit_bytes us @ junk) = us @ units_of junk"
  by (induction us) (auto simp: unit_bytes_def byte_val_def)

definition scalar :: "nat \<Rightarrow> bool" where
  "scalar cp \<longleftrightarrow> 0 < cp \<and> (cp < 0xD800 \<or> (0xDFFF < cp \<and> cp < 0x110000))"

lemma utf16_units_range: "scalar cp \<Longrightarrow> list_all (\<lambda>u. 0 < u \<and> u < 0x10000) (utf16_units cp)"
  by (auto simp: scalar_def utf16_units_def div_less_iff_less_mult)

lemma utf16_lossy_units:
  "scalar cp \<Longrightarrow> utf16_lossy (utf16_units cp @ us) = utf8_of cp @ utf16_lossy us"
proof -
  assume cp: "scalar cp"
  show ?thesis
  proof (cases "cp < 0x10000")
    case True
    then show ?thesis using cp by (auto simp: utf16_units_def scalar_def)
  next
    case False
    let ?d = "cp - 0x10000"
    have d: "?d < 0x100000" using cp False by (auto simp: scalar_def)
    then have hi: "?d div 1024 < 1024" by (simp add: div_less_iff_less_mult)
    have eq: "0x10000 + ?d div 1024 * 1024 + ?d mod 1024 = cp"
      using False div_mult_mod_eq [of ?d 1024] by simp
    have lo: "?d mod 1024 \<le> 1023" using mod_less_divisor [of 1024 ?d] by linarith
    show ?thesis using False hi lo eq by (simp add: utf16_units_def ac_simps)
  qed
qed

lemma utf16_lossy_wide:
  "list_all scalar cps \<Longrightarrow> utf16_lossy (concat (map utf16_units cps)) = concat (map utf8_of cps)"
  by (induction cps) (auto simp: utf16_lossy_units)

text \<open>A text without zero characters, stored the way \<open>wide\<close> writes it and closed by a zero, is
  read back whole, whatever bytes come after it in the value.\<close>

theorem stored_text_reads_back:
  assumes "list_all scalar cps"
    and "key name = Inr (Some (REG_SZ, unit_bytes (wide cps) @ junk))"
  shows "string_value key name = Inr (Some (concat (map utf8_of cps)))"
proof -
  let ?us = "concat (map utf16_units cps)"
  have range: "list_all (\<lambda>u. 0 < u \<and> u < 0x10000) ?us"
    using assms(1) by (induction cps) (auto dest: utf16_units_range)
  then have "list_all (\<lambda>u. u < 0x10000) (wide cps)" by (auto simp: wide_def list_all_iff)
  then have "units_of (unit_bytes (wide cps) @ junk) = ?us @ 0 # units_of junk"
    by (simp add: units_of_bytes) (simp add: wide_def)
  moreover have "takeWhile (\<lambda>u. u \<noteq> 0) (?us @ 0 # units_of junk) = ?us"
    using range by (subst takeWhile_append2) (auto simp: list_all_iff)
  ultimately show ?thesis
    using assms(2) utf16_lossy_wide [OF assms(1)] by (simp add: string_value_def)
qed

theorem stored_text_reads_back_witness:
  "string_value (\<lambda>_. Inr (Some (REG_SZ, unit_bytes (wide [0x70, 0x1F600]) @ ''x''))) ''ProxyServer''
   = Inr (Some (concat (map utf8_of [0x70, 0x1F600])))"
  by (rule stored_text_reads_back) (simp_all add: scalar_def)

section \<open>The snapshot\<close>

text \<open>Windows: the effective mode is the per-user store's, which is its first source, and it is
  the same whatever the policy key and the machine default hold, read or not; a failure is named
  among the fallbacks exactly when it was not the plain absence of settings.\<close>

theorem per_user_settings_decide:
  "(case win_read_config E group_policy now wm of
      Inl e \<Rightarrow> read_user_mode E (wm_ie wm) (wm_user_key wm) [] = (Inl e, []) \<or>
        read_user_mode E (wm_ie wm) (wm_user_key wm) [] = (Inl e, [Registry])
    | Inr c \<Rightarrow>
        fst (read_user_mode E (wm_ie wm) (wm_user_key wm) []) = Inr (effective c) \<and>
        sources c \<noteq> [] \<and> hd (sources c) = (Registry, effective c) \<and>
        fallbacks c =
          (if group_policy \<and> isl (read_group_policy_mode E (wm_policy_key wm)) then [GroupPolicy] else [])
          @ snd (read_user_mode E (wm_ie wm) (wm_user_key wm) [])
          @ (case wm_default wm of
               Inl failure \<Rightarrow> if wf_not_found failure then [] else [WinHttpDefault]
             | Inr _ \<Rightarrow> []))"
  by (auto simp: win_read_config_def Let_def read_user_mode_def group_policy_source_def
      winhttp_default_source_def in_precedence_order_def from_ordered_sources_def config_new_def
      with_fallbacks_def split: sum.splits option.splits prod.splits)

end
