(* ===== verification/Reread.thy ===== *)
theory Reread
  imports Watch_Facts
begin

text \<open>
  What the watcher threads of all platforms share. A thread waits for a wake-up, lets the
  debounce window pass, reads the configuration again and publishes the answer; when it ends,
  its guard closes the stream. The locale \<open>reread_loop\<close> is the contract of such a loop: a loop
  that has nothing left to do has published what the settings are. Each platform's loop is a
  step relation of its own and an instance of it.
\<close>

section \<open>What a thread does to the shared state\<close>

type_synonym answer = "proxy_error + proxy_config"

text \<open>The end of a round: a snapshot or a failure handed to the stream.\<close>

definition publish :: "answer \<Rightarrow> shared \<Rightarrow> shared \<times> nat option" where
  "publish r sh = (case r of Inr config \<Rightarrow> emit config sh | Inl e \<Rightarrow> fail e sh)"

text \<open>The drop of \<open>ThreadGuard\<close>, operation by operation: the consumer may run between two.\<close>

datatype guard_op = GuardNoLive | GuardFail | GuardClose

definition guard_ops :: "bool \<Rightarrow> guard_op list" where
  "guard_ops panicking = (if panicking then [GuardNoLive, GuardFail] else []) @ [GuardClose]"

fun guard_op_on :: "guard_op \<Rightarrow> shared \<Rightarrow> shared \<times> nat option" where
  "guard_op_on GuardNoLive sh = mark_no_live_notifications sh"
| "guard_op_on GuardFail sh = fail backend_panic sh"
| "guard_op_on GuardClose sh = close sh"

lemma guard_ops_are_the_guard:
  "fst (guard_drop panicking sh) = foldl (\<lambda>sh operation. fst (guard_op_on operation sh)) sh (guard_ops panicking)"
  by (simp add: guard_drop_def guard_ops_def Let_def split: prod.splits)

text \<open>\<open>shown\<close> is the text of the error that caused it.\<close>

definition fatal_watch_error :: "string \<Rightarrow> string \<Rightarrow> string \<Rightarrow> proxy_error" where
  "fatal_watch_error what why_no_fallback shown =
     error_io
       (what @ '' failed ('' @ shown @ ''), and '' @ why_no_fallback
        @ ''; set WatchOptions::poll_interval to fall back to polling and continue anyway'')
       shown"

record backend_health =
  bh_degraded :: "config_source list"
  bh_live :: bool

section \<open>Steps of the shared state\<close>

lemma publish_is_a_step: "watch_step wt (backend (publish r) wt)"
proof -
  have "publish r = (case r of Inr config \<Rightarrow> emit config | Inl e \<Rightarrow> fail e)"
    by (auto simp: publish_def split: sum.splits)
  then show ?thesis by (auto intro: watch_step.intros split: sum.splits)
qed

lemma guard_op_is_a_step: "watch_step wt (backend (guard_op_on operation) wt)"
proof -
  have "guard_op_on operation =
      (case operation of GuardNoLive \<Rightarrow> mark_no_live_notifications
       | GuardFail \<Rightarrow> fail backend_panic | GuardClose \<Rightarrow> close)"
    by (auto split: guard_op.splits)
  then show ?thesis by (auto intro: watch_step.intros split: guard_op.splits)
qed

lemma config_eq_refl [simp]: "config_eq c c"
  by (simp add: config_eq_def)

lemma current_emit: "config_eq (sh_current (fst (emit config sh))) config"
  by (simp add: emit_def watch_simps)

lemma current_others [simp]:
  "sh_current (fst (fail e sh)) = sh_current sh"
  "sh_current (fst (degrade source sh)) = sh_current sh"
  "sh_current (fst (mark_no_live_notifications sh)) = sh_current sh"
  "sh_current (fst (close sh)) = sh_current sh"
  "sh_current (set_construction_health h sh) = sh_current sh"
  by (simp_all add: fail_def degrade_def mark_no_live_notifications_def close_def
      set_construction_health_def watch_simps split: option.splits)

lemma current_guard_op [simp]: "sh_current (fst (guard_op_on operation sh)) = sh_current sh"
  by (cases operation) simp_all

lemma current_poll [simp]: "sh_current (wt_shared (fst (consumer_poll w wt))) = sh_current (wt_shared wt)"
  by (simp add: consumer_poll_def poll_next_def Let_def split: list.splits queued.splits)

lemma shared_backend [simp]: "wt_shared (backend f wt) = fst (f (wt_shared wt))"
  by (simp add: backend_def split: prod.splits)

section \<open>What the health says\<close>

text \<open>A source whose route is reported dead, and the report that none is left.\<close>

definition told :: "config_source \<Rightarrow> shared \<Rightarrow> bool" where
  "told source sh \<longleftrightarrow> source \<in> set (runtime_degraded sh)
     \<or> (case construction sh of Some h \<Rightarrow> source \<in> set (degraded h) | None \<Rightarrow> False)"

definition dark :: "shared \<Rightarrow> bool" where
  "dark sh \<longleftrightarrow> runtime_no_live sh
     \<or> (case construction sh of Some h \<Rightarrow> \<not> has_live_notifications h | None \<Rightarrow> False)"

lemma set_add_missing [simp]: "set (add_missing known others) = set known \<union> set others"
  by (induction known others rule: add_missing.induct) auto

lemma told_health: "told source sh \<Longrightarrow> source \<in> set (degraded (merged_health sh))"
  by (auto simp: told_def merged_health_def merge_runtime_health_def unwrap_or_def split: option.splits)

lemma dark_health: "dark sh \<Longrightarrow> \<not> has_live_notifications (merged_health sh)"
  by (auto simp: dark_def merged_health_def merge_runtime_health_def unwrap_or_def split: option.splits)

lemma told_degrade: "told source (fst (degrade source sh))"
  by (auto simp: told_def degrade_def watch_simps split: option.splits)

lemma dark_no_live: "dark (fst (mark_no_live_notifications sh))"
  by (auto simp: dark_def mark_no_live_notifications_def watch_simps split: option.splits)

text \<open>No operation takes a report back.\<close>

lemma reports_last:
  "told source sh \<Longrightarrow> told source (fst (emit config sh))"
  "told source sh \<Longrightarrow> told source (fst (fail e sh))"
  "told source sh \<Longrightarrow> told source (fst (degrade other sh))"
  "told source sh \<Longrightarrow> told source (fst (mark_no_live_notifications sh))"
  "told source sh \<Longrightarrow> told source (fst (close sh))"
  "told source sh \<Longrightarrow> told source (set_construction_health h sh)"
  "dark sh \<Longrightarrow> dark (fst (emit config sh))"
  "dark sh \<Longrightarrow> dark (fst (fail e sh))"
  "dark sh \<Longrightarrow> dark (fst (degrade other sh))"
  "dark sh \<Longrightarrow> dark (fst (mark_no_live_notifications sh))"
  "dark sh \<Longrightarrow> dark (fst (close sh))"
  "dark sh \<Longrightarrow> dark (set_construction_health h sh)"
  by (auto simp: told_def dark_def emit_def fail_def degrade_def mark_no_live_notifications_def
      close_def set_construction_health_def watch_simps split: option.splits)

lemma reports_last_poll:
  "told source (wt_shared wt) \<Longrightarrow> told source (wt_shared (fst (consumer_poll waker wt)))"
  "dark (wt_shared wt) \<Longrightarrow> dark (wt_shared (fst (consumer_poll waker wt)))"
  by (auto simp: told_def dark_def consumer_poll_def poll_next_def Let_def
      split: list.splits queued.splits)

lemma reports_last_publish:
  "told source sh \<Longrightarrow> told source (fst (publish r sh))" "dark sh \<Longrightarrow> dark (fst (publish r sh))"
  by (auto simp: publish_def reports_last split: sum.splits)

lemma reports_last_guard:
  "told source sh \<Longrightarrow> told source (fst (guard_op_on operation sh))"
  "dark sh \<Longrightarrow> dark (fst (guard_op_on operation sh))"
  by (cases operation; simp add: reports_last)+

section \<open>The consumer's side of a loop\<close>

text \<open>What may happen to the watcher while the thread stands still: the constructor files the
  health of the routes, the consumer polls.\<close>

inductive consumer_step :: "watcher \<Rightarrow> watcher \<Rightarrow> bool" where
  consumer_constructs:
    "construction (wt_shared wt) = None \<Longrightarrow>
       consumer_step wt (wt\<lparr>wt_shared := set_construction_health h (wt_shared wt)\<rparr>)"
| consumer_polls:
    "construction (wt_shared wt) \<noteq> None \<Longrightarrow> consumer_step wt (fst (consumer_poll waker wt))"

lemma consumer_step_is_a_step: "consumer_step wt wt' \<Longrightarrow> watch_step wt wt'"
  by (induction rule: consumer_step.induct) (auto intro: watch_step.intros)

lemma consumer_step_current: "consumer_step wt wt' \<Longrightarrow> sh_current (wt_shared wt') = sh_current (wt_shared wt)"
  by (induction rule: consumer_step.induct) simp_all

lemma consumer_step_reports:
  "consumer_step wt wt' \<Longrightarrow> told source (wt_shared wt) \<Longrightarrow> told source (wt_shared wt')"
  "consumer_step wt wt' \<Longrightarrow> dark (wt_shared wt) \<Longrightarrow> dark (wt_shared wt')"
  by (induction rule: consumer_step.induct; simp add: reports_last reports_last_poll)+

lemmas reports_stay = reports_last reports_last_publish reports_last_guard consumer_step_reports

inductive loop_run :: "('s \<Rightarrow> 's \<Rightarrow> bool) \<Rightarrow> 's \<Rightarrow> 's \<Rightarrow> bool" for stepping s0 where
  loop_start: "loop_run stepping s0 s0"
| loop_next: "loop_run stepping s0 s \<Longrightarrow> stepping s s' \<Longrightarrow> loop_run stepping s0 s'"

section \<open>The contract of a loop\<close>

text \<open>\<open>settled\<close>: the thread waits, and no wake-up is pending or on its way. A loop starts
  unsettled, or with the snapshot it was constructed with still true; it settles only by publishing
  an answer that is the one the settings give at that moment; and while it is settled neither the
  settings nor the snapshot moves.\<close>

locale reread_loop =
  fixes stepping :: "'s \<Rightarrow> 's \<Rightarrow> bool"
    and starting :: "proxy_config \<Rightarrow> 's \<Rightarrow> bool"
    and world :: "'s \<Rightarrow> answer"
    and watched :: "'s \<Rightarrow> watcher"
    and settled :: "'s \<Rightarrow> bool"
    and loop_ok :: "'s \<Rightarrow> bool"
  assumes start_ok: "starting initial s \<Longrightarrow>
      loop_ok s \<and> watched s = watcher_new initial \<and> (settled s \<longrightarrow> world s = Inr initial)"
    and step_ok: "stepping s s' \<Longrightarrow> loop_ok s \<Longrightarrow> loop_ok s'"
    and step_watched: "stepping s s' \<Longrightarrow> watched s' = watched s \<or> watch_step (watched s) (watched s')"
    and settles: "stepping s s' \<Longrightarrow> loop_ok s \<Longrightarrow> \<not> settled s \<Longrightarrow> settled s' \<Longrightarrow>
      watched s' = backend (publish (world s')) (watched s)"
    and stays: "stepping s s' \<Longrightarrow> loop_ok s \<Longrightarrow> settled s \<Longrightarrow> settled s' \<Longrightarrow>
      world s' = world s \<and> sh_current (wt_shared (watched s')) = sh_current (wt_shared (watched s))"
begin

lemma run_ok: "loop_run stepping s0 s \<Longrightarrow> starting initial s0 \<Longrightarrow> loop_ok s"
  by (induction rule: loop_run.induct) (auto dest: start_ok step_ok)

lemma run_watched: "loop_run stepping s0 s \<Longrightarrow> starting initial s0 \<Longrightarrow> watch_run initial (watched s)"
proof (induction rule: loop_run.induct)
  case loop_start
  then show ?case using start_ok run_start by metis
next
  case (loop_next s s')
  then show ?case using step_watched [OF loop_next.hyps(2)] run_step by metis
qed

lemma settled_is_current:
  "loop_run stepping s0 s \<Longrightarrow> starting initial s0 \<Longrightarrow> settled s \<Longrightarrow> world s = Inr config \<Longrightarrow>
   config_eq (sh_current (wt_shared (watched s))) config"
proof (induction rule: loop_run.induct)
  case loop_start
  from start_ok [OF loop_start(1)] loop_start show ?case by (simp add: watcher_new_def shared_new_def)
next
  case (loop_next s s')
  note ok = run_ok [OF loop_next.hyps(1) loop_next.prems(1)]
  show ?case
  proof (cases "settled s")
    case True
    from stays [OF loop_next.hyps(2) ok True loop_next.prems(2)] show ?thesis
      using loop_next.IH [OF loop_next.prems(1) True] loop_next.prems(3) by simp
  next
    case False
    from settles [OF loop_next.hyps(2) ok False loop_next.prems(2)] loop_next.prems(3)
    show ?thesis using current_emit by (simp add: publish_def)
  qed
qed

text \<open>What the consumer was last given, once it has polled the stream to \<open>Pending\<close>.\<close>

lemma settled_is_reported:
  assumes "loop_run stepping s0 s" "starting initial s0" "settled s" "world s = Inr config"
    and "snd (consumer_poll waker (watched s)) = Pending"
  shows "\<exists>st. wt_reported (watched s) = Some st \<and> config_eq (ws_config st) config"
proof -
  have "watch_run initial (watched s)" by (rule run_watched [OF assms(1,2)])
  then have "wt_reported (watched s) = Some (stamp (wt_shared (watched s)))"
    using pending_poll(1,2) [OF assms(5)] watch_run_facts by auto
  then show ?thesis
    using settled_is_current [OF assms(1-4)] by (simp add: stamp_def)
qed

end

end
