(* ===== verification/Apple_Backend.thy ===== *)
theory Apple_Backend
  imports Proxy_Dict Reread
begin

text \<open>
  \<open>src/sys/cf_dict.rs\<close>, \<open>src/sys/mac/mod.rs\<close> and the reader of \<open>src/sys/ios.rs\<close>: the Core
  Foundation dictionary converted key by key, the two scopes of the dynamic store and what their
  copy reports, the retry of the session, and the settings of iOS. What the system hands over is
  an argument.
\<close>

section \<open>Core Foundation values\<close>

text \<open>A string that cannot be reencoded as UTF-8 and a number that is no \<open>i64\<close> are \<open>None\<close>; a null
  item of an array is \<open>None\<close>.\<close>

datatype cf_value =
    CfString "string option"
  | CfNumber "int option"
  | CfBoolean bool
  | CfArray "cf_value option list"
  | CfOther

definition cf_string_to_string :: "string option \<Rightarrow> string option" where
  "cf_string_to_string content = content"

fun item_text :: "cf_value option \<Rightarrow> string option" where
  "item_text (Some (CfString content)) = cf_string_to_string content"
| "item_text _ = None"

fun strings_from :: "cf_value option list \<Rightarrow> string list \<Rightarrow> nat \<Rightarrow> string list \<times> nat" where
  "strings_from [] out unreadable = (out, unreadable)"
| "strings_from (item # items) out unreadable =
     (case item_text item of
        Some t \<Rightarrow> strings_from items (out @ [t]) unreadable
      | None \<Rightarrow> strings_from items out (unreadable + 1))"

definition strings_in :: "cf_value option list \<Rightarrow> string list \<times> nat" where
  "strings_in items = strings_from items [] 0"

fun to_dict_value :: "cf_value \<Rightarrow> dict_value option" where
  "to_dict_value (CfString content) = map_option DText (cf_string_to_string content)"
| "to_dict_value (CfNumber n) = map_option DNumber n"
| "to_dict_value (CfBoolean b) = Some (DNumber (if b then 1 else 0))"
| "to_dict_value (CfArray items) = (let (out, unreadable) = strings_in items in Some (DList out unreadable))"
| "to_dict_value CfOther = None"

text \<open>The keys and values in the order the dictionary lists them, either possibly null.\<close>

type_synonym cf_dictionary = "(cf_value option \<times> cf_value option) list"

fun dict_entry :: "cf_value option \<times> cf_value option \<Rightarrow> proxy_dict \<Rightarrow> proxy_dict" where
  "dict_entry (Some (CfString content), Some value) d =
     (case cf_string_to_string content of
        None \<Rightarrow> d
      | Some key \<Rightarrow>
          (case to_dict_value value of
             Some v \<Rightarrow> dict_insert key v d
           | None \<Rightarrow> if is_known_key key then dict_insert key DUnreadable d else d))"
| "dict_entry _ d = d"

definition to_proxy_dict :: "cf_dictionary \<Rightarrow> proxy_dict" where
  "to_proxy_dict entries = fold dict_entry entries Map.empty"

section \<open>The dynamic store of macOS\<close>

definition SC_STATUS_OK :: int where "SC_STATUS_OK = 0"
definition SC_STATUS_NO_KEY :: int where "SC_STATUS_NO_KEY = 1004"

definition STATE_PROXIES_KEY :: string where "STATE_PROXIES_KEY = ''State:/Network/Global/Proxies''"
definition SETUP_PROXIES_KEY :: string where "SETUP_PROXIES_KEY = ''Setup:/Network/Global/Proxies''"

text \<open>A copied value is a dictionary, or (\<open>None\<close>) some other property list; \<open>shown\<close> is the text of
  a status.\<close>

type_synonym cf_copied = "cf_dictionary option option \<times> int"

definition interpret_copied_value ::
    "external \<Rightarrow> (int \<Rightarrow> string) \<Rightarrow> string \<Rightarrow> cf_copied \<Rightarrow> proxy_error + proxy_mode option" where
  "interpret_copied_value E shown key copied =
     (let (v, status) = copied
      in case v of
           None \<Rightarrow>
             if status = SC_STATUS_NO_KEY then Inr None
             else if status = SC_STATUS_OK then Inr None
             else Inl (error_io ''reading a proxies key from the SCDynamicStore''
                    (''SCDynamicStoreCopyValue('' @ key @ '') failed with SCError() = '' @ shown status))
         | Some None \<Rightarrow> Inr None
         | Some (Some dictionary) \<Rightarrow> map_sum id Some (mode_from_dict E (to_proxy_dict dictionary)))"

definition read_both_scopes ::
    "nat \<Rightarrow> (string \<Rightarrow> proxy_error + proxy_mode option) \<Rightarrow> proxy_error + proxy_config" where
  "read_both_scopes now read =
     (case read STATE_PROXIES_KEY of
        Inl e \<Rightarrow> Inl e
      | Inr state \<Rightarrow> merge_setup_and_state now (read SETUP_PROXIES_KEY) state)"

definition REGISTRATION_MAX_RETRIES :: nat where "REGISTRATION_MAX_RETRIES = 5"

definition should_retry :: "nat \<Rightarrow> bool" where
  "should_retry attempt \<longleftrightarrow> attempt < REGISTRATION_MAX_RETRIES"

text \<open>\<open>build\<close> tells of each attempt whether the session came up.\<close>

function create_store :: "(nat \<Rightarrow> bool) \<Rightarrow> nat \<Rightarrow> proxy_error + nat" where
  "create_store build attempt =
     (if build attempt then Inr attempt
      else if \<not> should_retry attempt then
        Inl (error_io ''creating an SCDynamicStore session'' ''SCDynamicStoreCreateWithOptions returned NULL'')
      else create_store build (attempt + 1))"
  by pat_completeness auto
termination
  by (relation "measure (\<lambda>(build, attempt). REGISTRATION_MAX_RETRIES - attempt)")
    (auto simp: should_retry_def)

declare create_store.simps [simp del]

definition mac_read_config ::
    "external \<Rightarrow> (int \<Rightarrow> string) \<Rightarrow> nat \<Rightarrow> (nat \<Rightarrow> bool) \<Rightarrow> (string \<Rightarrow> cf_copied) \<Rightarrow> proxy_error + proxy_config" where
  "mac_read_config E shown now build get =
     (case create_store build 0 of
        Inl e \<Rightarrow> Inl e
      | Inr _ \<Rightarrow> read_both_scopes now (\<lambda>key. interpret_copied_value E shown key (get key)))"

section \<open>iOS\<close>

definition ios_read_config :: "external \<Rightarrow> nat \<Rightarrow> cf_dictionary option \<Rightarrow> proxy_error + proxy_config" where
  "ios_read_config E now settings =
     (case settings of
        None \<Rightarrow> Inr (from_source now CfNetworkSystemSettings Direct)
      | Some dictionary \<Rightarrow>
          map_sum id (from_source now CfNetworkSystemSettings) (mode_from_dict E (to_proxy_dict dictionary)))"

end
