(* ===== verification/Apple_Facts.thy ===== *)
theory Apple_Facts
  imports Apple_Backend
begin

text \<open>
  The readers of macOS and iOS: the answer hangs on the keys of the schema alone, a value of one
  that cannot be converted is kept as unreadable, and of the two scopes of macOS the one of the
  primary service decides.
\<close>

section \<open>The schema is what is read\<close>

text \<open>Two dictionaries that agree on the keys of the schema.\<close>

definition agree :: "proxy_dict \<Rightarrow> proxy_dict \<Rightarrow> bool" where
  "agree d d' \<longleftrightarrow> (\<forall>k. is_known_key k \<longrightarrow> d k = d' k)"

lemma agreeD: "agree d d' \<Longrightarrow> is_known_key k \<Longrightarrow> d k = d' k"
  by (simp add: agree_def)

lemma known_scheme_keys:
  "keys \<in> set SCHEMES \<Longrightarrow> is_known_key (sk_enable keys) \<and> is_known_key (sk_host keys)
     \<and> is_known_key (sk_port keys) \<and> is_known_key (sk_user keys)"
  by (auto simp: is_known_key_def list_ex_iff)

lemma known_unroutable_keys:
  "keys \<in> set UNROUTABLE \<Longrightarrow> is_known_key (uk_enable keys) \<and> is_known_key (uk_host keys)"
  by (auto simp: is_known_key_def list_ex_iff)

lemma known_keys [simp]:
  "is_known_key AUTO_DISCOVERY_ENABLE" "is_known_key AUTO_CONFIG_ENABLE"
  "is_known_key AUTO_CONFIG_URL" "is_known_key AUTO_CONFIG_JAVASCRIPT"
  "is_known_key EXCEPTIONS_LIST" "is_known_key EXCLUDE_SIMPLE_HOSTNAMES"
  by (simp_all add: is_known_key_def)

lemma reads_agree:
  assumes "agree d d'" "is_known_key k"
  shows "dict_flag d k = dict_flag d' k" "flag_is_unusable d k = flag_is_unusable d' k"
    "dict_text d k = dict_text d' k" "raw_text d k = raw_text d' k"
    "text_is_unusable d k = text_is_unusable d' k" "dict_port d k = dict_port d' k"
    "port_is_unusable d k = port_is_unusable d' k" "dict_list d k = dict_list d' k"
    "list_is_unusable d k = list_is_unusable d' k"
    "record_unreadable_flag d k s r = record_unreadable_flag d' k s r"
    "record_unreadable_text d k s r = record_unreadable_text d' k s r"
  unfolding record_unreadable_flag_def record_unreadable_text_def flag_is_unusable_def
    text_is_unusable_def port_is_unusable_def list_is_unusable_def dict_flag_def dict_text_def
    raw_text_def dict_port_def dict_list_def agreeD [OF assms] by (rule refl)+

lemma dict_scheme_agree:
  assumes "agree d d'" "keys \<in> set SCHEMES"
  shows "dict_scheme E d keys st = dict_scheme E d' keys st"
proof -
  note known = known_scheme_keys [OF assms(2)]
  note known1 = known [THEN conjunct1] and known2 = known [THEN conjunct2, THEN conjunct1]
    and known3 = known [THEN conjunct2, THEN conjunct2, THEN conjunct1]
    and known4 = known [THEN conjunct2, THEN conjunct2, THEN conjunct2]
  show ?thesis
    unfolding dict_scheme_def dict_endpoint_def reads_agree [OF assms(1) known1]
      reads_agree [OF assms(1) known2] reads_agree [OF assms(1) known3]
      reads_agree [OF assms(1) known4] ..
qed

lemma record_unroutable_agree:
  assumes "agree d d'" "keys \<in> set UNROUTABLE"
  shows "record_unroutable d keys r = record_unroutable d' keys r"
proof -
  note known = known_unroutable_keys [OF assms(2)]
  show ?thesis
    unfolding record_unroutable_def reads_agree [OF assms(1) known [THEN conjunct1]]
      reads_agree [OF assms(1) known [THEN conjunct2]] ..
qed

lemma bypass_from_dict_agree:
  assumes "agree d d'"
  shows "bypass_from_dict E d = bypass_from_dict E d'"
  unfolding bypass_from_dict_def dict_has_bypass_key_def reads_agree [OF assms known_keys(5)]
    reads_agree [OF assms known_keys(6)] ..

lemma dict_manual_agree:
  assumes "agree d d'"
  shows "dict_manual E d r = dict_manual E d' r"
proof -
  have "foldl (\<lambda>st keys. dict_scheme E d keys st) st SCHEMES
      = foldl (\<lambda>st keys. dict_scheme E d' keys st) st SCHEMES" for st
    by (rule foldl_cong) (simp_all add: dict_scheme_agree [OF assms])
  moreover have "record_unroutable_schemes d r = record_unroutable_schemes d' r" for r
    unfolding record_unroutable_schemes_def
    by (rule foldl_cong) (simp_all add: record_unroutable_agree [OF assms])
  ultimately show ?thesis unfolding dict_manual_def bypass_from_dict_agree [OF assms] by simp
qed

lemma mode_from_dict_agree:
  assumes "agree d d'"
  shows "mode_from_dict E d = mode_from_dict E d'"
  unfolding mode_from_dict_def dict_manual_agree [OF assms] reads_agree [OF assms known_keys(1)]
    reads_agree [OF assms known_keys(2)] reads_agree [OF assms known_keys(3)]
    reads_agree [OF assms known_keys(4)] ..

text \<open>Entries whose key is not of the schema, or is none.\<close>

fun entry_is_read :: "cf_value option \<times> cf_value option \<Rightarrow> bool" where
  "entry_is_read (Some (CfString (Some key)), Some value) = is_known_key key"
| "entry_is_read _ = False"

lemma dict_entry_agree:
  "agree d d' \<Longrightarrow> agree (dict_entry entry d) (if entry_is_read entry then dict_entry entry d' else d')"
  by (cases entry rule: entry_is_read.cases; cases "snd entry")
    (auto simp: agree_def dict_insert_def cf_string_to_string_def split: option.splits)

lemma fold_entries_agree:
  "agree d d' \<Longrightarrow> agree (fold dict_entry entries d) (fold dict_entry (filter entry_is_read entries) d')"
proof (induction entries arbitrary: d d')
  case (Cons entry entries)
  then show ?case using dict_entry_agree [of d d' entry] by (auto split: if_splits)
qed simp

text \<open>macOS and iOS: whatever else the system's dictionary holds, under other keys or under
  keys that are no text, the mode is that of the entries of the schema; no key the reader looks
  at is missing from the list of known keys, by which an unconvertible value is kept as
  unreadable.\<close>

theorem only_the_schema_is_read:
  "mode_from_dict E (to_proxy_dict entries) = mode_from_dict E (to_proxy_dict (filter entry_is_read entries))"
  unfolding to_proxy_dict_def
  by (rule mode_from_dict_agree [OF fold_entries_agree]) (simp add: agree_def)

section \<open>The session and the two scopes\<close>

lemma create_store_attempts:
  "attempt \<le> REGISTRATION_MAX_RETRIES \<Longrightarrow>
   is_ok (create_store build attempt) \<longleftrightarrow> list_ex build [attempt ..< REGISTRATION_MAX_RETRIES + 1]"
proof (induction build attempt rule: create_store.induct)
  case (1 build attempt)
  show ?case
  proof (cases "build attempt")
    case True
    moreover have "attempt \<in> set [attempt ..< REGISTRATION_MAX_RETRIES + 1]" using 1(2) by auto
    ultimately have "list_ex build [attempt ..< REGISTRATION_MAX_RETRIES + 1]"
      unfolding list_ex_iff by blast
    then show ?thesis using True by (subst create_store.simps) (simp add: is_ok_def)
  next
    case False
    show ?thesis
    proof (cases "should_retry attempt")
      case True
      moreover have "[attempt ..< REGISTRATION_MAX_RETRIES + 1]
          = attempt # [attempt + 1 ..< REGISTRATION_MAX_RETRIES + 1]"
        using 1(2) by (simp add: upt_conv_Cons)
      ultimately show ?thesis
        using 1(1) [OF False] False 1(2)
        by (subst create_store.simps) (simp add: should_retry_def)
    next
      case False
      then have "attempt = REGISTRATION_MAX_RETRIES" using 1(2) by (simp add: should_retry_def)
      then show ?thesis using False \<open>\<not> build attempt\<close>
        by (subst create_store.simps) (simp add: is_ok_def)
    qed
  qed
qed

text \<open>macOS: the session is tried six times; with one, the State scope decides. It failing
  ends the read; it being there is the effective mode and first source whatever the Setup scope
  says, whose failure is then only noted; it being absent leaves the Setup scope's mode, failure
  or absence, which is a direct connection.\<close>

theorem state_scope_decides:
  "if list_ex build [0, 1, 2, 3, 4, 5] then
     (let read = (\<lambda>key. interpret_copied_value E shown key (get key));
          result = mac_read_config E shown now build get
      in case read STATE_PROXIES_KEY of
           Inl e \<Rightarrow> result = Inl e
         | Inr (Some mode) \<Rightarrow>
             (case result of
                Inl _ \<Rightarrow> False
              | Inr c \<Rightarrow> effective c = mode \<and> hd (sources c) = (SystemConfigurationState, mode) \<and>
                  fallbacks c = (if is_ok (read SETUP_PROXIES_KEY) then [] else [SystemConfigurationSetup]))
         | Inr None \<Rightarrow>
             (case read SETUP_PROXIES_KEY of
                Inl e \<Rightarrow> result = Inl e
              | Inr setup \<Rightarrow>
                  (case result of
                     Inl _ \<Rightarrow> False
                   | Inr c \<Rightarrow> effective c = unwrap_or Direct setup \<and> fallbacks c = [])))
   else \<not> is_ok (mac_read_config E shown now build get)"
proof -
  have n: "[0 ..< REGISTRATION_MAX_RETRIES + 1] = [0, 1, 2, 3, 4, 5]"
    by (simp add: REGISTRATION_MAX_RETRIES_def upt_rec)
  have store: "is_ok (create_store build 0) \<longleftrightarrow> list_ex build [0, 1, 2, 3, 4, 5]"
    using create_store_attempts [of 0 build] unfolding n by simp
  show ?thesis
  proof (cases "create_store build 0")
    case (Inl e)
    then show ?thesis using store by (simp add: is_ok_def mac_read_config_def)
  next
    case (Inr a)
    then have "list_ex build [0, 1, 2, 3, 4, 5]" using store by (simp add: is_ok_def)
    then show ?thesis using Inr
      by (simp add: mac_read_config_def read_both_scopes_def merge_setup_and_state_def Let_def
          from_ordered_sources_def config_new_def with_fallbacks_def is_ok_def unwrap_or_def
          split: sum.splits option.splits)
  qed
qed

end
