(* ===== verification/Poll_Loop.thy ===== *)
theory Poll_Loop
  imports Reread
begin

text \<open>
  \<open>src/sys/poll.rs\<close>: the thread that re-reads the settings at an interval and on each wake-up,
  the one-place channel the wake-ups come through, and the table of senders filed for callbacks
  that carry an integer. The receive, the deadline of the window, a read and a publication are a
  step each; the settings may change at any of them, and a change is followed by its wake-up, or
  by none.
\<close>

section \<open>The table of wakers\<close>

text \<open>A sender is a number here. \<open>NEXT_ID\<close> counts in 64 bits.\<close>

record wake_slots =
  next_id :: u64
  filed :: "u64 \<rightharpoonup> nat"

definition slots_new :: wake_slots where
  "slots_new = \<lparr> next_id = 1, filed = Map.empty \<rparr>"

definition wake_slot_new :: "nat \<Rightarrow> wake_slots \<Rightarrow> wake_slots \<times> u64" where
  "wake_slot_new sender t =
     (t\<lparr>next_id := next_id t + 1, filed := (filed t)(next_id t \<mapsto> sender)\<rparr>, next_id t)"

definition wake_slot_drop :: "u64 \<Rightarrow> wake_slots \<Rightarrow> wake_slots" where
  "wake_slot_drop slot t = t\<lparr>filed := (filed t)(slot := None)\<rparr>"

definition slot_wake :: "u64 \<Rightarrow> wake_slots \<Rightarrow> nat option" where
  "slot_wake slot t = filed t slot"

section \<open>The watch\<close>

definition POLL_CEILING :: nat where "POLL_CEILING = 24 * 60 * 60 * 1000000000"

definition poll_interval_of :: "watch_options \<Rightarrow> nat option" where
  "poll_interval_of options =
     map_option (\<lambda>requested. min (effective_poll_interval requested) POLL_CEILING)
       (opt_poll_interval options)"

text \<open>\<open>poll_torn\<close> of a read: the settings changed while it ran, so it may have seen any mixture.\<close>

datatype poll_phase =
    PollReading bool
  | PollPublishing answer
  | PollWaiting
  | PollDebouncing
  | PollLeaving "guard_op list"

text \<open>\<open>pl_coming\<close>: a change was made and its wake-up not yet sent. \<open>pl_missed\<close>: a change was made
  that sends none, and no read began since.\<close>

record poll_loop =
  pl_world :: answer
  pl_coming :: bool
  pl_missed :: bool
  pl_interval :: "nat option"
  pl_wake :: bool
  pl_senders :: nat
  pl_phase :: poll_phase
  pl_watcher :: watcher

text \<open>The watch holds one sender of the channel until it is dropped.\<close>

definition poll_new :: "watch_options \<Rightarrow> proxy_config \<Rightarrow> answer \<Rightarrow> poll_loop" where
  "poll_new options initial w =
     \<lparr> pl_world = w, pl_coming = False, pl_missed = False, pl_interval = poll_interval_of options,
       pl_wake = False, pl_senders = 1, pl_phase = PollReading False,
       pl_watcher = watcher_new initial \<rparr>"

definition poll_armed :: "watch_options \<Rightarrow> proxy_error + (proxy_config \<Rightarrow> answer \<Rightarrow> poll_loop)" where
  "poll_armed options =
     (if opt_poll_interval options = None
      then Inl (fatal_watch_error ''registering for proxy change notifications''
             ''this platform delivers none to a library''
             ''watching the system proxy configuration is not supported on this platform'')
      else Inr (poll_new options))"

definition poll_health :: backend_health where
  "poll_health = \<lparr> bh_degraded = [], bh_live = False \<rparr>"

text \<open>\<open>try_send\<close> on a channel of one place: refused when full, which changes nothing.\<close>

definition try_send :: "poll_loop \<Rightarrow> poll_loop" where
  "try_send s = s\<lparr>pl_wake := True\<rparr>"

text \<open>A request of the caller makes up for the changes that sent no wake-up.\<close>

definition poll_now :: "poll_loop \<Rightarrow> poll_loop" where
  "poll_now s = (try_send s)\<lparr>pl_missed := False\<rparr>"

definition tear :: "poll_phase \<Rightarrow> poll_phase" where
  "tear p = (case p of PollReading _ \<Rightarrow> PollReading True | _ \<Rightarrow> p)"

definition poll_read :: "poll_loop \<Rightarrow> poll_loop" where
  "poll_read s = s\<lparr>pl_phase := PollReading False, pl_missed := False\<rparr>"

text \<open>\<open>recv_timeout\<close> hands over a queued unit first; it ends with \<open>Timeout\<close> or, with no sender
  left, with \<open>Disconnected\<close> only when there is none. The deadline of the window is looked at
  before each receive, so the window may end with a unit queued.\<close>

inductive poll_step :: "poll_loop \<Rightarrow> poll_loop \<Rightarrow> bool" where
  poll_change:
    "poll_step s (s\<lparr>pl_world := w, pl_coming := True, pl_phase := tear (pl_phase s)\<rparr>)"
| poll_silent_change:
    "poll_step s (s\<lparr>pl_world := w, pl_missed := True, pl_phase := tear (pl_phase s)\<rparr>)"
| poll_notify:
    "pl_coming s \<Longrightarrow> 0 < pl_senders s \<Longrightarrow> poll_step s ((try_send s)\<lparr>pl_coming := False\<rparr>)"
| poll_request: "0 < pl_senders s \<Longrightarrow> poll_step s (poll_now s)"
| poll_clone: "0 < pl_senders s \<Longrightarrow> poll_step s (s\<lparr>pl_senders := pl_senders s + 1\<rparr>)"
| poll_drop: "0 < pl_senders s \<Longrightarrow> poll_step s (s\<lparr>pl_senders := pl_senders s - 1\<rparr>)"
| poll_read_ends:
    "pl_phase s = PollReading torn \<Longrightarrow> torn \<or> r = pl_world s \<Longrightarrow>
       poll_step s (s\<lparr>pl_phase := PollPublishing r\<rparr>)"
| poll_panics:
    "pl_phase s = PollReading torn \<Longrightarrow> poll_step s (s\<lparr>pl_phase := PollLeaving (guard_ops True)\<rparr>)"
| poll_publishes:
    "pl_phase s = PollPublishing r \<Longrightarrow>
       poll_step s (s\<lparr>pl_phase := PollWaiting, pl_watcher := backend (publish r) (pl_watcher s)\<rparr>)"
| poll_times_out:
    "pl_phase s = PollWaiting \<Longrightarrow> pl_interval s \<noteq> None \<Longrightarrow> \<not> pl_wake s \<Longrightarrow> poll_step s (poll_read s)"
| poll_woken:
    "pl_phase s = PollWaiting \<Longrightarrow> pl_wake s \<Longrightarrow>
       poll_step s (s\<lparr>pl_phase := PollDebouncing, pl_wake := False\<rparr>)"
| poll_collapses: "pl_phase s = PollDebouncing \<Longrightarrow> pl_wake s \<Longrightarrow> poll_step s (s\<lparr>pl_wake := False\<rparr>)"
| poll_window_ends: "pl_phase s = PollDebouncing \<Longrightarrow> poll_step s (poll_read s)"
| poll_disconnected:
    "pl_phase s = PollWaiting \<or> pl_phase s = PollDebouncing \<Longrightarrow> \<not> pl_wake s \<Longrightarrow> pl_senders s = 0 \<Longrightarrow>
       poll_step s (s\<lparr>pl_phase := PollLeaving (guard_ops False)\<rparr>)"
| poll_leaves:
    "pl_phase s = PollLeaving (operation # rest) \<Longrightarrow>
       poll_step s (s\<lparr>pl_phase := PollLeaving rest,
                      pl_watcher := backend (guard_op_on operation) (pl_watcher s)\<rparr>)"
| poll_consumer:
    "consumer_step (pl_watcher s) wt \<Longrightarrow> poll_step s (s\<lparr>pl_watcher := wt\<rparr>)"

section \<open>Nothing is lost\<close>

definition poll_starting :: "proxy_config \<Rightarrow> poll_loop \<Rightarrow> bool" where
  "poll_starting initial s \<longleftrightarrow> (\<exists>options w. s = poll_new options initial w)"

definition poll_settled :: "poll_loop \<Rightarrow> bool" where
  "poll_settled s \<longleftrightarrow> pl_phase s = PollWaiting \<and> \<not> pl_wake s \<and> \<not> pl_coming s \<and> \<not> pl_missed s"

text \<open>An answer that is out of date, or may be, has a wake-up behind it.\<close>

definition poll_ok :: "poll_loop \<Rightarrow> bool" where
  "poll_ok s \<longleftrightarrow>
     (case pl_phase s of
        PollReading torn \<Rightarrow> torn \<longrightarrow> pl_coming s \<or> pl_wake s \<or> pl_missed s
      | PollPublishing r \<Rightarrow> r = pl_world s \<or> pl_coming s \<or> pl_wake s \<or> pl_missed s
      | _ \<Rightarrow> True)"

lemmas poll_defs = try_send_def poll_now_def tear_def poll_read_def poll_settled_def poll_ok_def

lemma poll_step_ok: "poll_step s s' \<Longrightarrow> poll_ok s \<Longrightarrow> poll_ok s'"
  by (induction rule: poll_step.induct) (auto simp: poll_defs split: poll_phase.splits)

interpretation polling: reread_loop poll_step poll_starting pl_world pl_watcher poll_settled poll_ok
proof unfold_locales
  fix s s' :: poll_loop and initial
  show "poll_starting initial s \<Longrightarrow> poll_ok s \<and> pl_watcher s = watcher_new initial \<and>
      (poll_settled s \<longrightarrow> pl_world s = Inr initial)"
    by (auto simp: poll_starting_def poll_new_def poll_ok_def poll_settled_def)
  show "poll_step s s' \<Longrightarrow> poll_ok s \<Longrightarrow> poll_ok s'" by (rule poll_step_ok)
  show "poll_step s s' \<Longrightarrow> pl_watcher s' = pl_watcher s \<or> watch_step (pl_watcher s) (pl_watcher s')"
    by (induction rule: poll_step.induct)
      (auto simp: poll_defs publish_is_a_step guard_op_is_a_step intro: consumer_step_is_a_step)
  show "poll_step s s' \<Longrightarrow> poll_ok s \<Longrightarrow> \<not> poll_settled s \<Longrightarrow> poll_settled s' \<Longrightarrow>
      pl_watcher s' = backend (publish (pl_world s')) (pl_watcher s)"
    by (induction rule: poll_step.induct) (auto simp: poll_defs split: poll_phase.splits)
  show "poll_step s s' \<Longrightarrow> poll_ok s \<Longrightarrow> poll_settled s \<Longrightarrow> poll_settled s' \<Longrightarrow>
      pl_world s' = pl_world s \<and>
      sh_current (wt_shared (pl_watcher s')) = sh_current (wt_shared (pl_watcher s))"
    by (induction rule: poll_step.induct)
      (auto simp: poll_defs consumer_step_current split: poll_phase.splits)
qed

end
