(* ===== verification/Mac_Loop.thy ===== *)
theory Mac_Loop
  imports Apple_Backend
begin

text \<open>
  \<open>src/sys/mac/notify.rs\<close>: the registration with its retries, and the thread that drives a run
  loop of two sources, the dynamic store's and the wake source. Each wait of the run loop, each
  load and each store of a flag is a step, so that the caller's \<open>poll_now\<close> and \<open>Drop\<close>, which
  store a flag and then signal, fall between any two of them.
\<close>

section \<open>The wait and the registration\<close>

definition IDLE_WAIT :: nat where "IDLE_WAIT = 60 * 60 * 1000000000"

definition idle_wait :: "nat option \<Rightarrow> nat" where
  "idle_wait interval =
     (case interval of Some i \<Rightarrow> min (effective_poll_interval i) IDLE_WAIT | None \<Rightarrow> IDLE_WAIT)"

datatype registration_failure = Retryable proxy_error | FatalRegistration proxy_error

text \<open>One attempt: whether the session came up, the keys were set and the run loop source was
  made.\<close>

record register_outcome =
  ro_session :: bool
  ro_keys :: bool
  ro_source :: bool

definition try_register_once :: "register_outcome \<Rightarrow> registration_failure + unit" where
  "try_register_once r =
     (if \<not> ro_session r then
        Inl (Retryable (error_io ''creating the watching SCDynamicStore session''
               ''SCDynamicStoreCreateWithOptions returned NULL''))
      else if \<not> ro_keys r then
        Inl (Retryable (error_io ''subscribing to Setup:/State: Network/Global/Proxies''
               ''SCDynamicStoreSetNotificationKeys failed''))
      else if \<not> ro_source r then
        Inl (FatalRegistration (error_io ''creating the SCDynamicStore run loop source''
               ''SCDynamicStoreCreateRunLoopSource returned NULL''))
      else Inr ())"

function establish_store :: "(nat \<Rightarrow> register_outcome) \<Rightarrow> nat \<Rightarrow> proxy_error + unit" where
  "establish_store outcome attempt =
     (case try_register_once (outcome attempt) of
        Inr u \<Rightarrow> Inr u
      | Inl (FatalRegistration e) \<Rightarrow> Inl e
      | Inl (Retryable e) \<Rightarrow>
          if \<not> should_retry attempt then Inl e else establish_store outcome (attempt + 1))"
  by pat_completeness auto
termination
  by (relation "measure (\<lambda>(outcome, attempt). REGISTRATION_MAX_RETRIES - attempt)")
    (auto simp: should_retry_def)

declare establish_store.simps [simp del]

text \<open>Whether the registration is degraded, or why there is none. \<open>shown\<close> prints an error.\<close>

definition mac_register ::
    "(proxy_error \<Rightarrow> string) \<Rightarrow> nat option \<Rightarrow> (nat \<Rightarrow> register_outcome) \<Rightarrow> proxy_error + bool" where
  "mac_register shown interval outcome =
     (case watch_fail_soft True interval (establish_store outcome 0) of
        Live _ \<Rightarrow> Inr False
      | Degraded _ \<Rightarrow> Inr True
      | Fatal e \<Rightarrow>
          Inl (fatal_watch_error ''registering the SCDynamicStore proxies notification''
            (''SCDynamicStore is macOS' only proxy change-notification route, with no ''
             @ ''other source this backend can fall back to'')
            (shown e)))"

definition mac_health :: "bool \<Rightarrow> backend_health" where
  "mac_health is_degraded =
     (if is_degraded
      then \<lparr> bh_degraded = [SystemConfigurationSetup, SystemConfigurationState], bh_live = False \<rparr>
      else \<lparr> bh_degraded = [], bh_live = True \<rparr>)"

section \<open>The thread\<close>

text \<open>\<open>MacTop\<close> is the condition of the loop; \<open>MacWoken\<close> the load of \<open>stop\<close> after a wait, with
  whether it timed out; \<open>MacJudging\<close> the loads of the other two flags.\<close>

datatype mac_phase =
    MacReading bool
  | MacPublishing answer
  | MacTop
  | MacWaiting
  | MacWoken bool
  | MacJudging bool
  | MacDebouncing
  | MacDebounceWoken
  | MacClearing
  | MacClearingRequest
  | MacLeaving "guard_op list"

text \<open>\<open>ml_store_pending\<close> and \<open>ml_signalled\<close>: the two sources. \<open>ml_ringing\<close>: the calls of the
  caller that have stored their flag and not yet signalled. \<open>ml_coming\<close>: a change the store has
  not yet told; \<open>ml_missed\<close>: a change it never tells, and no read or request since.\<close>

record mac_loop =
  ml_world :: answer
  ml_coming :: bool
  ml_missed :: bool
  ml_store_pending :: bool
  ml_signalled :: bool
  ml_ringing :: nat
  ml_changed :: bool
  ml_requested :: bool
  ml_stop :: bool
  ml_interval :: "nat option"
  ml_degraded :: bool
  ml_phase :: mac_phase
  ml_watcher :: watcher

definition mac_start :: "nat option \<Rightarrow> bool \<Rightarrow> proxy_config \<Rightarrow> answer \<Rightarrow> mac_loop" where
  "mac_start interval is_degraded initial w =
     \<lparr> ml_world = w, ml_coming = False, ml_missed = False, ml_store_pending = False,
       ml_signalled = False, ml_ringing = 0, ml_changed = False, ml_requested = False,
       ml_stop = False, ml_interval = interval, ml_degraded = is_degraded,
       ml_phase = MacReading False, ml_watcher = watcher_new initial \<rparr>"

definition mac_tear :: "mac_phase \<Rightarrow> mac_phase" where
  "mac_tear p = (case p of MacReading _ \<Rightarrow> MacReading True | _ \<Rightarrow> p)"

definition mac_leave :: "mac_loop \<Rightarrow> mac_loop" where
  "mac_leave s = s\<lparr>ml_phase := MacLeaving (guard_ops False)\<rparr>"

text \<open>\<open>run_in_mode\<close>, back with one source handled: \<open>on_change\<close> or the empty callback.\<close>

definition on_change :: "mac_loop \<Rightarrow> mac_loop" where
  "on_change s = s\<lparr>ml_store_pending := False, ml_changed := True\<rparr>"

definition wake_handled :: "mac_loop \<Rightarrow> mac_loop" where
  "wake_handled s = s\<lparr>ml_signalled := False\<rparr>"

definition mac_polled :: "mac_loop \<Rightarrow> bool \<Rightarrow> bool" where
  "mac_polled s timed_out \<longleftrightarrow> ml_interval s \<noteq> None \<and> timed_out"

inductive mac_step :: "mac_loop \<Rightarrow> mac_loop \<Rightarrow> bool" where
  mac_change:
    "\<not> ml_degraded s \<Longrightarrow>
       mac_step s (s\<lparr>ml_world := w, ml_coming := True, ml_phase := mac_tear (ml_phase s)\<rparr>)"
| mac_silent_change:
    "mac_step s (s\<lparr>ml_world := w, ml_missed := True, ml_phase := mac_tear (ml_phase s)\<rparr>)"
| mac_notify: "ml_coming s \<Longrightarrow> mac_step s (s\<lparr>ml_coming := False, ml_store_pending := True\<rparr>)"
| mac_poll_now:
    "mac_step s (s\<lparr>ml_requested := True, ml_missed := False, ml_ringing := ml_ringing s + 1\<rparr>)"
| mac_drop: "mac_step s (s\<lparr>ml_stop := True, ml_ringing := ml_ringing s + 1\<rparr>)"
| mac_signal:
    "0 < ml_ringing s \<Longrightarrow> mac_step s (s\<lparr>ml_ringing := ml_ringing s - 1, ml_signalled := True\<rparr>)"
| mac_read_ends:
    "ml_phase s = MacReading torn \<Longrightarrow> torn \<or> r = ml_world s \<Longrightarrow>
       mac_step s (s\<lparr>ml_phase := MacPublishing r\<rparr>)"
| mac_panics:
    "ml_phase s = MacReading torn \<Longrightarrow> mac_step s (s\<lparr>ml_phase := MacLeaving (guard_ops True)\<rparr>)"
| mac_publishes:
    "ml_phase s = MacPublishing r \<Longrightarrow>
       mac_step s (s\<lparr>ml_phase := MacTop, ml_watcher := backend (publish r) (ml_watcher s)\<rparr>)"
| mac_stops: "ml_phase s = MacTop \<Longrightarrow> ml_stop s \<Longrightarrow> mac_step s (mac_leave s)"
| mac_waits: "ml_phase s = MacTop \<Longrightarrow> \<not> ml_stop s \<Longrightarrow> mac_step s (s\<lparr>ml_phase := MacWaiting\<rparr>)"
| mac_store_source:
    "ml_phase s = MacWaiting \<Longrightarrow> ml_store_pending s \<Longrightarrow>
       mac_step s ((on_change s)\<lparr>ml_phase := MacWoken False\<rparr>)"
| mac_wake_source:
    "ml_phase s = MacWaiting \<Longrightarrow> ml_signalled s \<Longrightarrow>
       mac_step s ((wake_handled s)\<lparr>ml_phase := MacWoken False\<rparr>)"
| mac_times_out: "ml_phase s = MacWaiting \<Longrightarrow> mac_step s (s\<lparr>ml_phase := MacWoken True\<rparr>)"
| mac_woken_stops: "ml_phase s = MacWoken timed_out \<Longrightarrow> ml_stop s \<Longrightarrow> mac_step s (mac_leave s)"
| mac_woken_goes_on:
    "ml_phase s = MacWoken timed_out \<Longrightarrow> \<not> ml_stop s \<Longrightarrow>
       mac_step s (s\<lparr>ml_phase := MacJudging timed_out\<rparr>)"
| mac_spurious:
    "ml_phase s = MacJudging timed_out \<Longrightarrow>
       \<not> ml_changed s \<Longrightarrow> \<not> mac_polled s timed_out \<Longrightarrow> \<not> ml_requested s \<Longrightarrow>
       mac_step s (s\<lparr>ml_phase := MacTop\<rparr>)"
| mac_opens_window:
    "ml_phase s = MacJudging timed_out \<Longrightarrow>
       ml_changed s \<or> mac_polled s timed_out \<or> ml_requested s \<Longrightarrow>
       mac_step s (s\<lparr>ml_phase := MacDebouncing\<rparr>)"
| mac_window_store:
    "ml_phase s = MacDebouncing \<Longrightarrow> ml_store_pending s \<Longrightarrow>
       mac_step s ((on_change s)\<lparr>ml_phase := MacDebounceWoken\<rparr>)"
| mac_window_wake:
    "ml_phase s = MacDebouncing \<Longrightarrow> ml_signalled s \<Longrightarrow>
       mac_step s ((wake_handled s)\<lparr>ml_phase := MacDebounceWoken\<rparr>)"
| mac_window_times_out: "ml_phase s = MacDebouncing \<Longrightarrow> mac_step s (s\<lparr>ml_phase := MacDebounceWoken\<rparr>)"
| mac_window_stops: "ml_phase s = MacDebounceWoken \<Longrightarrow> ml_stop s \<Longrightarrow> mac_step s (mac_leave s)"
| mac_window_goes_on:
    "ml_phase s = MacDebounceWoken \<Longrightarrow> \<not> ml_stop s \<Longrightarrow> mac_step s (s\<lparr>ml_phase := MacDebouncing\<rparr>)"
| mac_deadline: "ml_phase s = MacDebouncing \<Longrightarrow> mac_step s (s\<lparr>ml_phase := MacClearing\<rparr>)"
| mac_clears:
    "ml_phase s = MacClearing \<Longrightarrow>
       mac_step s (s\<lparr>ml_phase := MacClearingRequest, ml_changed := False\<rparr>)"
| mac_clears_request:
    "ml_phase s = MacClearingRequest \<Longrightarrow>
       mac_step s (s\<lparr>ml_phase := MacReading False, ml_requested := False, ml_missed := False\<rparr>)"
| mac_leaves:
    "ml_phase s = MacLeaving (operation # rest) \<Longrightarrow>
       mac_step s (s\<lparr>ml_phase := MacLeaving rest,
                     ml_watcher := backend (guard_op_on operation) (ml_watcher s)\<rparr>)"
| mac_consumer: "consumer_step (ml_watcher s) wt \<Longrightarrow> mac_step s (s\<lparr>ml_watcher := wt\<rparr>)"

section \<open>Nothing is lost\<close>

definition mac_starting :: "proxy_config \<Rightarrow> mac_loop \<Rightarrow> bool" where
  "mac_starting initial s \<longleftrightarrow> (\<exists>interval is_degraded w. s = mac_start interval is_degraded initial w)"

text \<open>A change or a request that a read has still to answer.\<close>

definition mac_owes :: "mac_loop \<Rightarrow> bool" where
  "mac_owes s \<longleftrightarrow> ml_coming s \<or> ml_store_pending s \<or> ml_changed s \<or> ml_requested s \<or> ml_missed s"

definition mac_settled :: "mac_loop \<Rightarrow> bool" where
  "mac_settled s \<longleftrightarrow>
     (case ml_phase s of
        MacTop \<Rightarrow> True | MacWaiting \<Rightarrow> True
      | MacWoken timed_out \<Rightarrow> \<not> mac_polled s timed_out
      | MacJudging timed_out \<Rightarrow> \<not> mac_polled s timed_out
      | _ \<Rightarrow> False) \<and> \<not> mac_owes s"

definition mac_ok :: "mac_loop \<Rightarrow> bool" where
  "mac_ok s \<longleftrightarrow>
     (case ml_phase s of
        MacReading torn \<Rightarrow> torn \<longrightarrow> mac_owes s
      | MacPublishing r \<Rightarrow> r = ml_world s \<or> mac_owes s
      | _ \<Rightarrow> True)"

lemmas mac_defs = mac_tear_def mac_leave_def on_change_def wake_handled_def mac_polled_def
  mac_owes_def mac_settled_def mac_ok_def

lemma mac_step_ok: "mac_step s s' \<Longrightarrow> mac_ok s \<Longrightarrow> mac_ok s'"
  by (induction rule: mac_step.induct) (auto simp: mac_defs split: mac_phase.splits)

lemma mac_step_watched:
  "mac_step s s' \<Longrightarrow> ml_watcher s' = ml_watcher s \<or> watch_step (ml_watcher s) (ml_watcher s')"
  by (induction rule: mac_step.induct)
    (auto simp: mac_defs publish_is_a_step guard_op_is_a_step intro: consumer_step_is_a_step)

lemma mac_settles:
  "mac_step s s' \<Longrightarrow> mac_ok s \<Longrightarrow> \<not> mac_settled s \<Longrightarrow> mac_settled s' \<Longrightarrow>
   ml_watcher s' = backend (publish (ml_world s')) (ml_watcher s)"
  by (induction rule: mac_step.induct) (auto simp: mac_defs split: mac_phase.splits)

lemma mac_stays:
  "mac_step s s' \<Longrightarrow> mac_ok s \<Longrightarrow> mac_settled s \<Longrightarrow> mac_settled s' \<Longrightarrow>
   ml_world s' = ml_world s \<and>
   sh_current (wt_shared (ml_watcher s')) = sh_current (wt_shared (ml_watcher s))"
  by (induction rule: mac_step.induct)
    (auto simp: mac_defs consumer_step_current split: mac_phase.splits)

interpretation run_loop: reread_loop mac_step mac_starting ml_world ml_watcher mac_settled mac_ok
proof unfold_locales
  fix s initial
  show "mac_starting initial s \<Longrightarrow> mac_ok s \<and> ml_watcher s = watcher_new initial \<and>
      (mac_settled s \<longrightarrow> ml_world s = Inr initial)"
    by (auto simp: mac_starting_def mac_start_def mac_ok_def mac_settled_def)
qed (fact mac_step_ok mac_step_watched mac_settles mac_stays)+

section \<open>No call of the caller is stranded\<close>

text \<open>While the thread sleeps, or is about to, a request or a stop that it has not seen has its
  signal behind it.\<close>

definition mac_rings :: "mac_loop \<Rightarrow> bool" where
  "mac_rings s \<longleftrightarrow>
     (case ml_phase s of
        MacWaiting \<Rightarrow> ml_requested s \<or> ml_stop s \<longrightarrow> ml_signalled s \<or> 0 < ml_ringing s
      | MacTop \<Rightarrow> ml_requested s \<longrightarrow> ml_signalled s \<or> 0 < ml_ringing s
      | MacReading _ \<Rightarrow> ml_requested s \<longrightarrow> ml_signalled s \<or> 0 < ml_ringing s
      | MacPublishing _ \<Rightarrow> ml_requested s \<longrightarrow> ml_signalled s \<or> 0 < ml_ringing s
      | _ \<Rightarrow> True)"

lemma mac_step_rings: "mac_step s s' \<Longrightarrow> mac_rings s \<Longrightarrow> mac_rings s'"
  by (induction rule: mac_step.induct) (auto simp: mac_rings_def mac_defs split: mac_phase.splits)

lemma mac_run_rings: "loop_run mac_step s0 s \<Longrightarrow> mac_starting initial s0 \<Longrightarrow> mac_rings s"
proof (induction rule: loop_run.induct)
  case loop_start
  then show ?case by (auto simp: mac_starting_def mac_start_def mac_rings_def)
next
  case (loop_next s s')
  then show ?case using mac_step_rings by blast
qed

end
