(* ===== verification/Win_Loop.thy ===== *)
theory Win_Loop
  imports Windows_Backend Reread
begin

text \<open>
  \<open>src/sys/win/notify.rs\<close>: the keys that are watched and how each is armed, and the thread that
  waits for their events, arms a key again when it fired, and re-reads. A registration delivers
  one notification: a key that fired is not armed until the thread has armed it again.
\<close>

section \<open>The keys\<close>

text \<open>The names of a path, joined.\<close>

fun reg_path :: "string list \<Rightarrow> string" where
  "reg_path [] = []"
| "reg_path [part] = part"
| "reg_path (part # parts) = part @ CHR 0x5C # reg_path parts"

definition INTERNET_SETTINGS :: string where
  "INTERNET_SETTINGS = reg_path [''Software'', ''Microsoft'', ''Windows'', ''CurrentVersion'', ''Internet Settings'']"

definition POLICY_INTERNET_SETTINGS :: string where
  "POLICY_INTERNET_SETTINGS =
     reg_path [''Software'', ''Policies'', ''Microsoft'', ''Windows'', ''CurrentVersion'', ''Internet Settings'']"

definition OPENING_USER_KEY :: string where
  "OPENING_USER_KEY = ''opening HKCU Internet Settings key for notifications''"

lemma rposition_less: "rposition p xs = Some i \<Longrightarrow> i < length xs"
  by (drule rposition_SomeD) auto

function ancestors_of :: "string \<Rightarrow> string list" where
  "ancestors_of rest =
     (case rposition (\<lambda>c. c = CHR 0x5C) rest of
        None \<Rightarrow> []
      | Some i \<Rightarrow> take i rest # ancestors_of (take i rest))"
  by pat_completeness auto
termination by (relation "measure length") (auto dest: rposition_less)

declare ancestors_of.simps [simp del]

definition group_policy_ancestors :: "string list" where
  "group_policy_ancestors = ancestors_of POLICY_INTERNET_SETTINGS"

text \<open>What opening a key and arming it came to.\<close>

datatype key_opening = KeyAbsent | KeyFailed proxy_error | KeyOpened "proxy_error + unit"

record watched_key =
  wk_critical :: bool
  wk_source :: config_source
  wk_path :: string
  wk_armed :: bool
  wk_coming :: bool
  wk_signalled :: bool
  wk_alive :: bool

definition armed_key :: "bool \<Rightarrow> config_source \<Rightarrow> string \<Rightarrow> watched_key" where
  "armed_key critical source path =
     \<lparr> wk_critical = critical, wk_source = source, wk_path = path, wk_armed = True,
       wk_coming = False, wk_signalled = False, wk_alive = True \<rparr>"

definition push_degraded :: "config_source list \<Rightarrow> config_source \<Rightarrow> config_source list" where
  "push_degraded known source = (if source \<in> set known then known else known @ [source])"

fun arm_first_available ::
    "watched_key list \<Rightarrow> (string \<Rightarrow> key_opening) \<Rightarrow> string list \<Rightarrow> config_source \<Rightarrow> watched_key list \<times> bool" where
  "arm_first_available keys machine [] source = (keys, False)"
| "arm_first_available keys machine (path # candidates) source =
     (case machine path of
        KeyOpened (Inr _) \<Rightarrow> (keys @ [armed_key False source path], True)
      | _ \<Rightarrow> arm_first_available keys machine candidates source)"

definition arm_group_policy_key :: "(string \<Rightarrow> key_opening) \<Rightarrow> watched_key list \<Rightarrow> watched_key list \<times> bool" where
  "arm_group_policy_key machine keys =
     arm_first_available keys machine group_policy_ancestors GroupPolicy"

definition arm_machine_default_key :: "(string \<Rightarrow> key_opening) \<Rightarrow> watched_key list \<Rightarrow> watched_key list \<times> bool" where
  "arm_machine_default_key machine keys =
     arm_first_available keys machine [INTERNET_SETTINGS] WinHttpDefault"

record win_armed =
  wa_keys :: "watched_key list"
  wa_degraded :: "config_source list"
  wa_live :: nat

text \<open>The keys of the machine, whose failure is only noted.\<close>

definition arm_secondary_keys ::
    "watch_options \<Rightarrow> (string \<Rightarrow> key_opening) \<Rightarrow> watched_key list \<Rightarrow> config_source list \<Rightarrow> win_armed" where
  "arm_secondary_keys options machine keys0 lost0 =
     (let (keys1, lost1) =
            (if watch_group_policy options
             then (let (keys, ok) = arm_group_policy_key machine keys0
                   in (keys, if ok then lost0 else push_degraded lost0 GroupPolicy))
             else (keys0, lost0));
          (keys2, ok) = arm_machine_default_key machine keys1;
          lost2 = (if ok then lost1 else push_degraded lost1 WinHttpDefault)
      in \<lparr> wa_keys = keys2, wa_degraded = lost2, wa_live = length keys2 \<rparr>)"

text \<open>\<open>user\<close> is what opening the per-user key came to, \<open>machine\<close> the keys of the machine;
  \<open>not_found\<close> is the text of the error for a key that is not there.\<close>

definition armed_watch ::
    "(proxy_error \<Rightarrow> string) \<Rightarrow> string \<Rightarrow> watch_options \<Rightarrow> key_opening \<Rightarrow> (string \<Rightarrow> key_opening)
       \<Rightarrow> proxy_error + win_armed" where
  "armed_watch shown not_found options user machine =
     (let (user_key, leading) =
            (case user of
               KeyOpened r \<Rightarrow> (map_sum id (\<lambda>_. armed_key True Registry INTERNET_SETTINGS) r, True)
             | KeyAbsent \<Rightarrow> (Inl (error_io OPENING_USER_KEY not_found), False)
             | KeyFailed e \<Rightarrow> (Inl e, True))
      in case watch_fail_soft leading (opt_poll_interval options) user_key of
           Live key \<Rightarrow> Inr (arm_secondary_keys options machine [key] [])
         | Degraded _ \<Rightarrow> Inr (arm_secondary_keys options machine [] (push_degraded [] Registry))
         | Fatal e \<Rightarrow>
             Inl (fatal_watch_error ''opening or arming HKCU Internet Settings for notifications''
               (''HKCU is Windows' only mandatory proxy configuration source, with no ''
                @ ''fallback route this backend can use instead'') (shown e)))"

definition win_health :: "win_armed \<Rightarrow> backend_health" where
  "win_health w = \<lparr> bh_degraded = wa_degraded w, bh_live = 0 < wa_live w \<rparr>"

section \<open>The waits\<close>

definition INFINITE :: "32 word" where "INFINITE = 0xFFFFFFFF"

text \<open>\<open>as_millis\<close>, taken into 32 bits with the greatest value for what does not fit.\<close>

definition millis_of :: "nat \<Rightarrow> 32 word" where
  "millis_of nanos =
     (let millis = nanos div 1000000
      in min (if millis < 2 ^ 32 then of_nat millis else 0xFFFFFFFF) (0xFFFFFFFF - 1))"

definition poll_wait_millis :: "nat option \<Rightarrow> 32 word" where
  "poll_wait_millis interval =
     (case interval of
        None \<Rightarrow> INFINITE
      | Some i \<Rightarrow> millis_of (effective_poll_interval i))"

definition debounce_wait_millis :: "nat \<Rightarrow> 32 word" where
  "debounce_wait_millis remaining = millis_of remaining"

section \<open>The thread\<close>

text \<open>What a wait returned.\<close>

datatype win_wake = WakeShutdown | WakePollNow | WakeKey nat | WakeTimeout

text \<open>\<open>WinRearming\<close>: a key fired and is being armed; \<open>WinDegraded\<close>: arming it failed softly, its
  source is reported and the routes are counted; \<open>WinFailing\<close>: the error that ends the thread is
  put on the stream.\<close>

datatype win_phase =
    WinWaiting
  | WinRearming nat
  | WinDegraded nat
  | WinLastRoute
  | WinDebouncing
  | WinReading bool
  | WinPublishing answer
  | WinFailing proxy_error
  | WinLeaving "guard_op list"

record win_loop =
  wl_world :: answer
  wl_missed :: bool
  wl_keys :: "watched_key list"
  wl_poll_now :: bool
  wl_shutdown :: bool
  wl_interval :: "nat option"
  wl_fatal :: "proxy_error option"
  wl_phase :: win_phase
  wl_watcher :: watcher

definition win_start :: "nat option \<Rightarrow> watched_key list \<Rightarrow> proxy_config \<Rightarrow> win_loop" where
  "win_start interval keys initial =
     \<lparr> wl_world = Inr initial, wl_missed = False, wl_keys = keys, wl_poll_now = False,
       wl_shutdown = False, wl_interval = interval, wl_fatal = None, wl_phase = WinWaiting,
       wl_watcher = watcher_new initial \<rparr>"

definition win_tear :: "win_phase \<Rightarrow> win_phase" where
  "win_tear p = (case p of WinReading _ \<Rightarrow> WinReading True | _ \<Rightarrow> p)"

definition set_key :: "nat \<Rightarrow> (watched_key \<Rightarrow> watched_key) \<Rightarrow> win_loop \<Rightarrow> win_loop" where
  "set_key i f s = s\<lparr>wl_keys := (wl_keys s)[i := f (wl_keys s ! i)]\<rparr>"

text \<open>The first signalled handle of a wait: shutdown, then \<open>poll_now\<close>, then the keys in order.
  The events but shutdown's reset themselves.\<close>

definition signalled_handle :: "win_loop \<Rightarrow> win_wake option" where
  "signalled_handle s =
     (if wl_shutdown s then Some WakeShutdown
      else if wl_poll_now s then Some WakePollNow
      else map_option WakeKey
             (List.find (\<lambda>i. wk_signalled (wl_keys s ! i)) [0 ..< length (wl_keys s)]))"

text \<open>What the thread does with the answer of a wait, in both windows.\<close>

definition woken_by :: "win_wake \<Rightarrow> win_loop \<Rightarrow> win_loop" where
  "woken_by w s =
     (case w of
        WakeShutdown \<Rightarrow> s\<lparr>wl_phase := WinLeaving (guard_ops False)\<rparr>
      | WakePollNow \<Rightarrow> s\<lparr>wl_phase := WinDebouncing, wl_poll_now := False\<rparr>
      | WakeKey i \<Rightarrow>
          (set_key i (\<lambda>k. k\<lparr>wk_signalled := False\<rparr>) s)\<lparr>wl_phase := WinRearming i\<rparr>
      | WakeTimeout \<Rightarrow> s)"

definition begin_read :: "win_loop \<Rightarrow> win_loop" where
  "begin_read s = s\<lparr>wl_phase := WinReading False, wl_missed := False\<rparr>"

definition rearm_error :: "(proxy_error \<Rightarrow> string) \<Rightarrow> proxy_error \<Rightarrow> proxy_error" where
  "rearm_error shown e =
     fatal_watch_error ''re-arming HKCU Internet Settings for notifications''
       (''HKCU is Windows' only mandatory proxy configuration source, with no fallback ''
        @ ''route this backend can use instead'') (shown e)"

definition get_or_insert :: "'a \<Rightarrow> 'a option \<Rightarrow> 'a option" where
  "get_or_insert x v = (case v of None \<Rightarrow> Some x | Some y \<Rightarrow> Some y)"

definition mark_dead :: "nat \<Rightarrow> win_loop \<Rightarrow> win_loop" where
  "mark_dead i s = set_key i (\<lambda>k. k\<lparr>wk_alive := False\<rparr>) s"

definition all_dead :: "win_loop \<Rightarrow> bool" where
  "all_dead s \<longleftrightarrow> list_all (\<lambda>k. \<not> wk_alive k) (wl_keys s)"

text \<open>A change under a key signals it later when the key is armed, and uses the registration up;
  a key that fired and is not yet armed again signals nothing. Of an unwatched place, and of a key
  whose route died, nothing is ever told.\<close>

inductive win_step :: "(proxy_error \<Rightarrow> string) \<Rightarrow> win_loop \<Rightarrow> win_loop \<Rightarrow> bool" for shown where
  win_change:
    "i < length (wl_keys s) \<Longrightarrow> wk_alive (wl_keys s ! i) \<Longrightarrow>
       win_step shown s
         ((set_key i (\<lambda>k. if wk_armed k then k\<lparr>wk_armed := False, wk_coming := True\<rparr> else k) s)
            \<lparr>wl_world := w, wl_phase := win_tear (wl_phase s)\<rparr>)"
| win_silent_change:
    "win_step shown s (s\<lparr>wl_world := w, wl_missed := True, wl_phase := win_tear (wl_phase s)\<rparr>)"
| win_notify:
    "i < length (wl_keys s) \<Longrightarrow> wk_coming (wl_keys s ! i) \<Longrightarrow>
       win_step shown s (set_key i (\<lambda>k. k\<lparr>wk_coming := False, wk_signalled := True\<rparr>) s)"
| win_poll_now: "win_step shown s (s\<lparr>wl_poll_now := True, wl_missed := False\<rparr>)"
| win_drop: "win_step shown s (s\<lparr>wl_shutdown := True\<rparr>)"
| win_woken:
    "wl_phase s = WinWaiting \<or> wl_phase s = WinDebouncing \<Longrightarrow> signalled_handle s = Some w \<Longrightarrow>
       win_step shown s (woken_by w s)"
| win_times_out:
    "wl_phase s = WinWaiting \<Longrightarrow> wl_interval s \<noteq> None \<Longrightarrow> win_step shown s (s\<lparr>wl_phase := WinDebouncing\<rparr>)"
| win_window_ends: "wl_phase s = WinDebouncing \<Longrightarrow> win_step shown s (begin_read s)"
| win_wait_fails:
    "wl_phase s = WinWaiting \<or> wl_phase s = WinDebouncing \<Longrightarrow>
       win_step shown s (s\<lparr>wl_phase := WinFailing e\<rparr>)"
| win_rearms:
    "wl_phase s = WinRearming i \<Longrightarrow> i < length (wl_keys s) \<Longrightarrow>
       win_step shown s
         ((set_key i (\<lambda>k. k\<lparr>wk_armed := True\<rparr>) s)\<lparr>wl_phase := WinDebouncing\<rparr>)"
| win_rearm_degrades:
    "wl_phase s = WinRearming i \<Longrightarrow> i < length (wl_keys s) \<Longrightarrow>
       watch_fail_soft (wk_critical (wl_keys s ! i)) (wl_interval s) (Inl e :: proxy_error + unit) = Degraded e' \<Longrightarrow>
       win_step shown s
         (s\<lparr>wl_phase := WinDegraded i,
            wl_watcher := backend (degrade (wk_source (wl_keys s ! i))) (wl_watcher s)\<rparr>)"
| win_marks_dead:
    "wl_phase s = WinDegraded i \<Longrightarrow>
       win_step shown s
         ((mark_dead i s)\<lparr>wl_phase := (if all_dead (mark_dead i s) then WinLastRoute else WinDebouncing)\<rparr>)"
| win_last_route:
    "wl_phase s = WinLastRoute \<Longrightarrow>
       win_step shown s
         (s\<lparr>wl_phase := WinDebouncing, wl_watcher := backend mark_no_live_notifications (wl_watcher s)\<rparr>)"
| win_rearm_is_fatal:
    "wl_phase s = WinRearming i \<Longrightarrow> i < length (wl_keys s) \<Longrightarrow>
       watch_fail_soft (wk_critical (wl_keys s ! i)) (wl_interval s) (Inl e :: proxy_error + unit) = Fatal e' \<Longrightarrow>
       win_step shown s
         (s\<lparr>wl_phase := WinDebouncing, wl_fatal := get_or_insert (rearm_error shown e') (wl_fatal s)\<rparr>)"
| win_read_ends:
    "wl_phase s = WinReading torn \<Longrightarrow> torn \<or> r = wl_world s \<Longrightarrow>
       win_step shown s (s\<lparr>wl_phase := WinPublishing r\<rparr>)"
| win_panics:
    "wl_phase s = WinReading torn \<Longrightarrow> win_step shown s (s\<lparr>wl_phase := WinLeaving (guard_ops True)\<rparr>)"
| win_publishes:
    "wl_phase s = WinPublishing r \<Longrightarrow>
       win_step shown s
         (s\<lparr>wl_phase := (case wl_fatal s of None \<Rightarrow> WinWaiting | Some e \<Rightarrow> WinFailing e),
            wl_watcher := backend (publish r) (wl_watcher s)\<rparr>)"
| win_fails:
    "wl_phase s = WinFailing e \<Longrightarrow>
       win_step shown s
         (s\<lparr>wl_phase := WinLeaving (guard_ops False), wl_watcher := backend (fail e) (wl_watcher s)\<rparr>)"
| win_leaves:
    "wl_phase s = WinLeaving (operation # rest) \<Longrightarrow>
       win_step shown s
         (s\<lparr>wl_phase := WinLeaving rest, wl_watcher := backend (guard_op_on operation) (wl_watcher s)\<rparr>)"
| win_consumer: "consumer_step (wl_watcher s) wt \<Longrightarrow> win_step shown s (s\<lparr>wl_watcher := wt\<rparr>)"

section \<open>Nothing is lost\<close>

definition fresh_key :: "watched_key \<Rightarrow> bool" where
  "fresh_key k \<longleftrightarrow> wk_armed k \<and> wk_alive k \<and> \<not> wk_coming k \<and> \<not> wk_signalled k"

lemma fresh_armed_key [simp]: "fresh_key (armed_key critical source path)"
  by (simp add: fresh_key_def armed_key_def)

lemma arm_first_available_fresh:
  "list_all fresh_key keys \<Longrightarrow> list_all fresh_key (fst (arm_first_available keys machine candidates source))"
  by (induction candidates) (auto split: key_opening.splits sum.splits)

lemma arm_secondary_fresh:
  "list_all fresh_key keys \<Longrightarrow> list_all fresh_key (wa_keys (arm_secondary_keys options machine keys lost_sources))"
  unfolding arm_secondary_keys_def arm_group_policy_key_def arm_machine_default_key_def Let_def split_beta
  using arm_first_available_fresh by (simp del: arm_first_available.simps)

lemma map_sum_Inr [simp]: "map_sum f g r = Inr y \<longleftrightarrow> (\<exists>x. r = Inr x \<and> y = g x)"
  by (cases r) auto

lemma armed_watch_fresh:
  "armed_watch shown not_found options user machine = Inr w \<Longrightarrow> list_all fresh_key (wa_keys w)"
  by (auto simp: armed_watch_def watch_fail_soft_def arm_secondary_fresh
      split: key_opening.splits sum.splits if_splits)

definition win_starting :: "(proxy_error \<Rightarrow> string) \<Rightarrow> proxy_config \<Rightarrow> win_loop \<Rightarrow> bool" where
  "win_starting shown initial s \<longleftrightarrow>
     (\<exists>not_found options user machine w.
        armed_watch shown not_found options user machine = Inr w \<and>
        s = win_start (opt_poll_interval options) (wa_keys w) initial)"

text \<open>A change or a request that a read has still to answer; an error that is to end the thread
  stands for the key that could not be armed.\<close>

definition win_owes :: "win_loop \<Rightarrow> bool" where
  "win_owes s \<longleftrightarrow> wl_missed s \<or> wl_poll_now s \<or> wl_fatal s \<noteq> None
     \<or> (\<exists>i < length (wl_keys s). wk_coming (wl_keys s ! i) \<or> wk_signalled (wl_keys s ! i))"

definition win_settled :: "win_loop \<Rightarrow> bool" where
  "win_settled s \<longleftrightarrow> wl_phase s = WinWaiting \<and> \<not> win_owes s"

text \<open>A live key is armed, or on its way to be.\<close>

definition keys_ok :: "win_loop \<Rightarrow> bool" where
  "keys_ok s \<longleftrightarrow>
     (\<forall>i < length (wl_keys s).
        wk_alive (wl_keys s ! i) \<longrightarrow>
          wk_armed (wl_keys s ! i) \<or> wk_coming (wl_keys s ! i) \<or> wk_signalled (wl_keys s ! i)
          \<or> wl_phase s = WinRearming i \<or> wl_phase s = WinDegraded i \<or> wl_fatal s \<noteq> None)"

definition read_ok :: "win_loop \<Rightarrow> bool" where
  "read_ok s \<longleftrightarrow>
     (case wl_phase s of
        WinReading torn \<Rightarrow> torn \<longrightarrow> win_owes s
      | WinPublishing r \<Rightarrow> r = wl_world s \<or> win_owes s
      | _ \<Rightarrow> True)"

definition win_ok :: "win_loop \<Rightarrow> bool" where
  "win_ok s \<longleftrightarrow> keys_ok s \<and> read_ok s"

lemmas win_defs = win_tear_def set_key_def woken_by_def begin_read_def mark_dead_def

lemma nth_update: "xs[i := x] ! j = (if i = j \<and> j < length xs then x else xs ! j)"
  by (cases "i < length xs") (auto simp: not_less list_update_beyond)

lemma signalled_handle_key:
  "signalled_handle s = Some (WakeKey i) \<Longrightarrow> i < length (wl_keys s) \<and> wk_signalled (wl_keys s ! i)"
  by (auto simp: signalled_handle_def find_Some_iff split: if_splits)

lemma signalled_handle_not_timeout: "signalled_handle s \<noteq> Some WakeTimeout"
  by (auto simp: signalled_handle_def split: if_splits)

lemma win_step_keys_ok: "win_step shown s s' \<Longrightarrow> keys_ok s \<Longrightarrow> keys_ok s'"
proof (induction rule: win_step.induct)
  case (win_woken s w)
  then show ?case
    by (cases w) (auto simp: keys_ok_def win_defs nth_update signalled_handle_not_timeout
        dest: signalled_handle_key)
qed (auto simp: keys_ok_def win_defs nth_update get_or_insert_def
    split: win_phase.splits option.splits)

lemma win_step_read_ok: "win_step shown s s' \<Longrightarrow> keys_ok s \<Longrightarrow> read_ok s \<Longrightarrow> read_ok s'"
proof (induction rule: win_step.induct)
  case (win_woken s w)
  then show ?case
    by (cases w) (auto simp: read_ok_def win_defs signalled_handle_not_timeout)
next
  case (win_change i s w)
  then show ?case
    by (fastforce simp: keys_ok_def read_ok_def win_owes_def win_defs nth_update
        split: win_phase.splits)
next
  case (win_notify i s)
  then show ?case
    by (fastforce simp: read_ok_def win_owes_def win_defs nth_update split: win_phase.splits)
qed (auto simp: read_ok_def win_owes_def win_defs nth_update split: win_phase.splits option.splits)

lemma win_step_watched:
  "win_step shown s s' \<Longrightarrow> wl_watcher s' = wl_watcher s \<or> watch_step (wl_watcher s) (wl_watcher s')"
proof (induction rule: win_step.induct)
  case (win_woken s w)
  then show ?case by (cases w) (simp_all add: win_defs)
qed (auto simp: win_defs publish_is_a_step guard_op_is_a_step
    intro: consumer_step_is_a_step watch_step.intros)

lemma win_settles:
  "win_step shown s s' \<Longrightarrow> win_ok s \<Longrightarrow> \<not> win_settled s \<Longrightarrow> win_settled s' \<Longrightarrow>
   wl_watcher s' = backend (publish (wl_world s')) (wl_watcher s)"
proof (induction rule: win_step.induct)
  case (win_woken s w)
  then show ?case by (cases w) (auto simp: win_settled_def win_defs signalled_handle_not_timeout)
next
  case (win_change i s w)
  then show ?case
    by (fastforce simp: win_ok_def keys_ok_def win_settled_def win_owes_def win_defs nth_update
        split: win_phase.splits if_splits)
next
  case (win_notify i s)
  then show ?case by (fastforce simp: win_settled_def win_owes_def win_defs nth_update)
qed (auto simp: win_ok_def read_ok_def win_settled_def win_owes_def win_defs
    split: win_phase.splits option.splits if_splits)

lemma win_stays:
  "win_step shown s s' \<Longrightarrow> win_ok s \<Longrightarrow> win_settled s \<Longrightarrow> win_settled s' \<Longrightarrow>
   wl_world s' = wl_world s \<and>
   sh_current (wt_shared (wl_watcher s')) = sh_current (wt_shared (wl_watcher s))"
proof (induction rule: win_step.induct)
  case (win_woken s w)
  then show ?case by (cases w) (auto simp: win_settled_def win_defs signalled_handle_not_timeout)
next
  case (win_change i s w)
  then show ?case
    by (fastforce simp: win_ok_def keys_ok_def win_settled_def win_owes_def win_defs nth_update
        split: win_phase.splits if_splits)
qed (auto simp: win_settled_def win_owes_def win_defs consumer_step_current split: win_phase.splits)

lemma win_starting_ok: "win_starting shown initial s \<Longrightarrow> win_ok s"
  by (auto simp: win_starting_def win_start_def win_ok_def keys_ok_def read_ok_def fresh_key_def
      list_all_length dest!: armed_watch_fresh)

interpretation registry: reread_loop "win_step shown" "win_starting shown" wl_world wl_watcher
  win_settled win_ok
proof unfold_locales
  fix s initial
  assume "win_starting shown initial s"
  then show "win_ok s \<and> wl_watcher s = watcher_new initial \<and> (win_settled s \<longrightarrow> wl_world s = Inr initial)"
    using win_starting_ok by (auto simp: win_starting_def win_start_def)
next
  fix s s'
  show "win_step shown s s' \<Longrightarrow> win_ok s \<Longrightarrow> win_ok s'"
    using win_step_keys_ok win_step_read_ok by (simp add: win_ok_def)
qed (fact win_step_watched win_settles win_stays)+

section \<open>What the health says\<close>

text \<open>A key whose route died is reported, and when the last one did, that none is left.\<close>

definition win_told :: "win_loop \<Rightarrow> bool" where
  "win_told s \<longleftrightarrow>
     (\<forall>i < length (wl_keys s).
        \<not> wk_alive (wl_keys s ! i) \<or> wl_phase s = WinDegraded i \<longrightarrow>
          told (wk_source (wl_keys s ! i)) (wt_shared (wl_watcher s)))
     \<and> (wl_keys s \<noteq> [] \<and> all_dead s \<and> wl_phase s \<noteq> WinLastRoute \<longrightarrow> dark (wt_shared (wl_watcher s)))"

lemma all_dead_update:
  "wk_alive k = wk_alive (wl_keys s ! i) \<Longrightarrow> i < length (wl_keys s) \<Longrightarrow>
   list_all (\<lambda>k. \<not> wk_alive k) ((wl_keys s)[i := k]) = list_all (\<lambda>k. \<not> wk_alive k) (wl_keys s)"
  by (auto simp: list_all_length nth_update)

lemma win_step_told: "win_step shown s s' \<Longrightarrow> win_told s \<Longrightarrow> win_told s'"
proof (induction rule: win_step.induct)
  case (win_woken s w)
  then show ?case
    by (cases w) (auto simp: win_told_def all_dead_def win_defs nth_update all_dead_update
        signalled_handle_not_timeout dest: signalled_handle_key)
qed (auto simp: win_told_def all_dead_def win_defs nth_update all_dead_update told_degrade
    dark_no_live reports_stay split: win_phase.splits option.splits if_splits)

lemma win_starting_told: "win_starting shown initial s \<Longrightarrow> win_told s"
  by (auto simp: win_starting_def win_start_def win_told_def all_dead_def fresh_key_def neq_Nil_conv
      list_all_length dest!: armed_watch_fresh)

lemma win_run_told: "loop_run (win_step shown) s0 s \<Longrightarrow> win_starting shown initial s0 \<Longrightarrow> win_told s"
proof (induction rule: loop_run.induct)
  case loop_start
  then show ?case by (rule win_starting_told)
next
  case (loop_next s s')
  then show ?case using win_step_told by blast
qed

end
