(* ===== verification/Linux_Watcher.thy ===== *)
theory Linux_Watcher
  imports Linux_Backend Reread
begin

text \<open>
  \<open>src/sys/linux/watcher.rs\<close> and \<open>src/sys/linux/kde/watch.rs\<close>: which routes are set up and which
  failure ends the construction, the callback of the inotify watch and the counters it shares
  with the coordinator, and the coordinator itself. The callback's accesses to the counters and
  each access of the coordinator are steps of their own.
\<close>

section \<open>The watch of KDE's directories\<close>

text \<open>A directory is the path it is watched under, and an event names it by that text.\<close>

definition watch_targets :: "(string \<Rightarrow> bool) \<Rightarrow> string list \<Rightarrow> string list \<times> bool" where
  "watch_targets is_dir dirs =
     (let leading_dropped = (case dirs of d # _ \<Rightarrow> \<not> is_dir d | [] \<Rightarrow> False);
          kept = filter is_dir dirs
      in (kept, leading_dropped \<and> kept \<noteq> []))"

record loss_flags =
  lf_lost :: bool
  lf_live :: nat

text \<open>\<open>watch\<close>: \<open>created\<close> is what making the watcher came to, \<open>registered\<close> what watching each
  directory did.\<close>

definition kde_watch_start ::
    "(string \<Rightarrow> bool) \<Rightarrow> proxy_error + unit \<Rightarrow> (string \<Rightarrow> proxy_error + unit) \<Rightarrow> string list
       \<Rightarrow> proxy_error + (loss_flags \<times> string list) option" where
  "kde_watch_start is_dir created registered dirs =
     (let (directories, leading_dropped) = watch_targets is_dir dirs in
      if directories = [] then Inr None
      else
        (case created of
           Inl e \<Rightarrow> Inl e
         | Inr _ \<Rightarrow>
             (case List.find (\<lambda>d. \<not> is_ok (registered d)) directories of
                Some d \<Rightarrow> (case registered d of Inl e \<Rightarrow> Inl e | Inr _ \<Rightarrow> Inr None)
              | None \<Rightarrow>
                  Inr (Some (\<lparr> lf_lost = leading_dropped, lf_live = length directories \<rparr>, directories)))))"

datatype event_kind = EvCreate | EvModifyName | EvModifyOther | EvRemove | EvAny | EvAccess | EvOther

record notify_event =
  ev_kind :: event_kind
  ev_paths :: "string list"
  ev_rescan :: bool

definition drop_ended_directories :: "notify_event \<Rightarrow> string list \<Rightarrow> string list \<times> nat" where
  "drop_ended_directories ev watched =
     (if ev_kind ev \<noteq> EvRemove \<and> ev_kind ev \<noteq> EvModifyName then (watched, 0)
      else
        (let kept = filter (\<lambda>d. \<not> list_ex (\<lambda>p. p = d) (ev_paths ev)) watched
         in (kept, length watched - length kept)))"

text \<open>\<open>file_name\<close> is the last component of a path, as the standard library reads it.\<close>

definition is_interesting :: "(string \<Rightarrow> string option) \<Rightarrow> notify_event \<Rightarrow> bool" where
  "is_interesting file_name ev \<longleftrightarrow>
     ev_rescan ev
     \<or> (ev_kind ev \<in> {EvCreate, EvModifyName, EvModifyOther, EvRemove, EvAny}
        \<and> list_ex (\<lambda>p. file_name p = Some FILE_NAME) (ev_paths ev))"

section \<open>Which routes\<close>

definition is_leading_store :: "linux_build \<Rightarrow> desktop \<Rightarrow> store \<Rightarrow> bool" where
  "is_leading_store b d st =
     (let leading = fst (store_order d) in
      if is_compiled_in b leading then leading = st else leading \<noteq> st)"

definition LEADING_STORE_HAS_NO_FALLBACK :: string where
  "LEADING_STORE_HAS_NO_FALLBACK =
     ''this is the leading Linux desktop store ''
     @ ''(either the store belonging to the desktop XDG_CURRENT_DESKTOP says is actually ''
     @ ''running, or, when that desktop's store is not compiled into this build, the store ''
     @ ''that inherits the position), so there is no other source left to notice a later ''
     @ ''change with''"

datatype 'a route_watch = RouteLive 'a | RouteAbsent | RouteDegraded

definition store_watch_fail_soft ::
    "(proxy_error \<Rightarrow> string) \<Rightarrow> string \<Rightarrow> bool \<Rightarrow> nat option \<Rightarrow> proxy_error + 'a option \<Rightarrow> proxy_error + 'a route_watch" where
  "store_watch_fail_soft shown what leading interval outcome =
     (case watch_fail_soft leading interval outcome of
        Live (Some watch) \<Rightarrow> Inr (RouteLive watch)
      | Live None \<Rightarrow> Inr RouteAbsent
      | Degraded _ \<Rightarrow> Inr RouteDegraded
      | Fatal e \<Rightarrow> Inl (fatal_watch_error what LEADING_STORE_HAS_NO_FALLBACK (shown e)))"

definition kde_watch_fail_soft ::
    "(proxy_error \<Rightarrow> string) \<Rightarrow> bool \<Rightarrow> nat option \<Rightarrow> proxy_error + 'a option \<Rightarrow> proxy_error + 'a route_watch" where
  "kde_watch_fail_soft shown = store_watch_fail_soft shown ''watching kioslaverc for changes''"

definition gnome_start_fail_soft ::
    "(proxy_error \<Rightarrow> string) \<Rightarrow> bool \<Rightarrow> nat option \<Rightarrow> proxy_error + 'a option \<Rightarrow> proxy_error + 'a route_watch" where
  "gnome_start_fail_soft shown = store_watch_fail_soft shown ''starting the GSettings change subscription''"

text \<open>The routes a watcher has: \<open>None\<close> where the route does not attempt the store.\<close>

record linux_routes =
  lr_portal :: bool
  lr_gnome :: "unit route_watch option"
  lr_kde :: "(loss_flags \<times> string list) route_watch option"

text \<open>\<open>armed\<close> and the first half of \<open>spawn\<close>: the KDE watch is set up before the initial read, the
  GSettings subscription after it.\<close>

definition linux_arm ::
    "(proxy_error \<Rightarrow> string) \<Rightarrow> linux_build \<Rightarrow> sandbox \<Rightarrow> desktop \<Rightarrow> nat option
       \<Rightarrow> proxy_error + (loss_flags \<times> string list) option \<Rightarrow> proxy_error + linux_routes" where
  "linux_arm shown b sb d interval kde =
     (let route = linux_route sb d;
          portal = (route = PortalRoute)
      in if built_kde b \<and> route = StoresRoute True then
           map_sum id (\<lambda>k. \<lparr> lr_portal = portal, lr_gnome = None, lr_kde = Some k \<rparr>)
             (kde_watch_fail_soft shown (is_leading_store b d KioslavercStore) interval kde)
         else Inr \<lparr> lr_portal = portal, lr_gnome = None, lr_kde = None \<rparr>)"

definition linux_subscribe ::
    "(proxy_error \<Rightarrow> string) \<Rightarrow> linux_build \<Rightarrow> desktop \<Rightarrow> nat option \<Rightarrow> proxy_error + unit option
       \<Rightarrow> linux_routes \<Rightarrow> proxy_error + linux_routes" where
  "linux_subscribe shown b d interval gnome r =
     (if built_gnome b \<and> \<not> lr_portal r then
        map_sum id (\<lambda>g. r\<lparr>lr_gnome := Some g\<rparr>)
          (gnome_start_fail_soft shown (is_leading_store b d GSettingsStore) interval gnome)
      else Inr r)"

definition gnome_is_live :: "linux_routes \<Rightarrow> bool" where
  "gnome_is_live r \<longleftrightarrow> (case lr_gnome r of Some (RouteLive _) \<Rightarrow> True | _ \<Rightarrow> False)"

text \<open>The counters are read at the time of the call.\<close>

definition kde_is_live :: "linux_routes \<Rightarrow> loss_flags \<Rightarrow> bool" where
  "kde_is_live r flags \<longleftrightarrow> (case lr_kde r of Some (RouteLive _) \<Rightarrow> 0 < lf_live flags | _ \<Rightarrow> False)"

definition has_live_notification_source :: "linux_routes \<Rightarrow> loss_flags \<Rightarrow> bool" where
  "has_live_notification_source r flags \<longleftrightarrow>
     \<not> lr_portal r \<and> (gnome_is_live r \<or> kde_is_live r flags)"

definition linux_health :: "linux_routes \<Rightarrow> loss_flags \<Rightarrow> backend_health" where
  "linux_health r flags =
     \<lparr> bh_degraded =
         (if lr_gnome r = Some RouteDegraded then [GSettingsSource] else [])
         @ (if (case lr_kde r of
                  Some RouteDegraded \<Rightarrow> True
                | Some (RouteLive _) \<Rightarrow> lf_lost flags
                | _ \<Rightarrow> False) then [KioslavercSource] else []),
       bh_live = has_live_notification_source r flags \<rparr>"

text \<open>\<open>poll_wait\<close>.\<close>

definition linux_poll_wait :: "nat \<Rightarrow> nat" where
  "linux_poll_wait requested = min (effective_poll_interval requested) (24 * 60 * 60 * 1000000000)"

section \<open>The coordinator\<close>

text \<open>What \<open>LossReport\<close> holds: \<open>lp_watching\<close> is that its flags are still there.\<close>

record loss_report =
  lp_watching :: bool
  lp_last_live_route :: bool
  lp_degraded :: bool

text \<open>The callback: idle, having counted the directories that ended, or about to wake the
  coordinator; with whether the last directory ended.\<close>

datatype kde_callback = KdeIdle | KdeCounted bool | KdeWaking bool

datatype linux_phase =
    LinuxWaiting
  | LinuxDebouncing
  | LinuxChecking
  | LinuxDegrading
  | LinuxLiveness
  | LinuxDarkening
  | LinuxReading bool
  | LinuxPublishing answer
  | LinuxLeaving "guard_op list"

record linux_loop =
  lx_world :: answer
  lx_coming :: bool
  lx_missed :: bool
  lx_interval :: "nat option"
  lx_wake :: bool
  lx_senders :: nat
  lx_flags :: loss_flags
  lx_watched :: "string list"
  lx_callback :: kde_callback
  lx_report :: loss_report
  lx_phase :: linux_phase
  lx_watcher :: watcher

text \<open>\<open>spawn\<close>: one wake-up is sent when the GSettings subscription came up, which was after the
  initial read.\<close>

definition linux_spawn ::
    "nat option \<Rightarrow> linux_routes \<Rightarrow> answer \<Rightarrow> nat \<Rightarrow> proxy_config \<Rightarrow> linux_loop" where
  "linux_spawn interval r w senders initial =
     (let (flags, directories, watching) =
            (case lr_kde r of
               Some (RouteLive (flags, directories)) \<Rightarrow> (flags, directories, True)
             | _ \<Rightarrow> (\<lparr> lf_lost = False, lf_live = 0 \<rparr>, [], False))
      in \<lparr> lx_world = w, lx_coming = False, lx_missed = False, lx_interval = interval,
           lx_wake = gnome_is_live r, lx_senders = senders, lx_flags = flags,
           lx_watched = directories, lx_callback = KdeIdle,
           lx_report = \<lparr> lp_watching = watching, lp_last_live_route = \<not> gnome_is_live r,
                         lp_degraded = False \<rparr>,
           lx_phase = LinuxWaiting, lx_watcher = watcher_new initial \<rparr>)"

definition linux_tear :: "linux_phase \<Rightarrow> linux_phase" where
  "linux_tear p = (case p of LinuxReading _ \<Rightarrow> LinuxReading True | _ \<Rightarrow> p)"

text \<open>\<open>wake\<close>: refused when one is pending, which changes nothing.\<close>

definition linux_wake :: "linux_loop \<Rightarrow> linux_loop" where
  "linux_wake s = s\<lparr>lx_wake := True\<rparr>"

definition linux_poll_now :: "linux_loop \<Rightarrow> linux_loop" where
  "linux_poll_now s = (linux_wake s)\<lparr>lx_missed := False\<rparr>"

text \<open>The first half of the callback, for an event or a failed one.\<close>

definition loss_callback ::
    "(string \<Rightarrow> string option) \<Rightarrow> notify_event option \<Rightarrow> linux_loop \<Rightarrow> linux_loop" where
  "loss_callback file_name event s =
     (case event of
        None \<Rightarrow> s\<lparr>lx_callback := KdeWaking False\<rparr>
      | Some ev \<Rightarrow>
          (let (kept, ended) = drop_ended_directories ev (lx_watched s);
               live = lf_live (lx_flags s) - ended
           in if 0 < ended then
                s\<lparr>lx_watched := kept, lx_flags := (lx_flags s)\<lparr>lf_live := live\<rparr>,
                  lx_callback := KdeCounted (live = 0)\<rparr>
              else if is_interesting file_name ev then s\<lparr>lx_callback := KdeWaking False\<rparr>
              else s))"

definition linux_read :: "linux_loop \<Rightarrow> linux_loop" where
  "linux_read s = s\<lparr>lx_phase := LinuxReading False, lx_missed := False\<rparr>"

inductive linux_step :: "(string \<Rightarrow> string option) \<Rightarrow> linux_loop \<Rightarrow> linux_loop \<Rightarrow> bool" for file_name where
  linux_change:
    "linux_step file_name s
       (s\<lparr>lx_world := w, lx_coming := True, lx_phase := linux_tear (lx_phase s)\<rparr>)"
| linux_silent_change:
    "linux_step file_name s
       (s\<lparr>lx_world := w, lx_missed := True, lx_phase := linux_tear (lx_phase s)\<rparr>)"
| linux_notify:
    "lx_coming s \<Longrightarrow> 0 < lx_senders s \<Longrightarrow> linux_step file_name s ((linux_wake s)\<lparr>lx_coming := False\<rparr>)"
| linux_request: "0 < lx_senders s \<Longrightarrow> linux_step file_name s (linux_poll_now s)"
| linux_tick:
    "lx_interval s \<noteq> None \<Longrightarrow> 0 < lx_senders s \<Longrightarrow> linux_step file_name s (linux_poll_now s)"
| linux_drop: "0 < lx_senders s \<Longrightarrow> linux_step file_name s (s\<lparr>lx_senders := lx_senders s - 1\<rparr>)"
| linux_event:
    "lx_callback s = KdeIdle \<Longrightarrow> 0 < lx_senders s \<Longrightarrow>
       linux_step file_name s (loss_callback file_name event s)"
| linux_flags_loss:
    "lx_callback s = KdeCounted no_more \<Longrightarrow>
       linux_step file_name s
         (s\<lparr>lx_flags := (lx_flags s)\<lparr>lf_lost := True\<rparr>, lx_callback := KdeWaking no_more\<rparr>)"
| linux_callback_wakes:
    "lx_callback s = KdeWaking no_more \<Longrightarrow> no_more \<longrightarrow> \<not> lx_wake s \<Longrightarrow>
       linux_step file_name s ((linux_wake s)\<lparr>lx_callback := KdeIdle\<rparr>)"
| linux_woken:
    "lx_phase s = LinuxWaiting \<Longrightarrow> lx_wake s \<Longrightarrow>
       linux_step file_name s (s\<lparr>lx_phase := LinuxDebouncing, lx_wake := False\<rparr>)"
| linux_collapses:
    "lx_phase s = LinuxDebouncing \<Longrightarrow> lx_wake s \<Longrightarrow> linux_step file_name s (s\<lparr>lx_wake := False\<rparr>)"
| linux_window_ends:
    "lx_phase s = LinuxDebouncing \<Longrightarrow> linux_step file_name s (s\<lparr>lx_phase := LinuxChecking\<rparr>)"
| linux_disconnected:
    "lx_phase s = LinuxWaiting \<or> lx_phase s = LinuxDebouncing \<Longrightarrow> \<not> lx_wake s \<Longrightarrow> lx_senders s = 0 \<Longrightarrow>
       linux_step file_name s (s\<lparr>lx_phase := LinuxLeaving (guard_ops False)\<rparr>)"
| linux_nothing_lost:
    "lx_phase s = LinuxChecking \<Longrightarrow> \<not> lp_watching (lx_report s) \<or> \<not> lf_lost (lx_flags s) \<Longrightarrow>
       linux_step file_name s (linux_read s)"
| linux_something_lost:
    "lx_phase s = LinuxChecking \<Longrightarrow> lp_watching (lx_report s) \<Longrightarrow> lf_lost (lx_flags s) \<Longrightarrow>
       linux_step file_name s
         (s\<lparr>lx_phase := (if lp_degraded (lx_report s) then LinuxLiveness else LinuxDegrading)\<rparr>)"
| linux_degrades:
    "lx_phase s = LinuxDegrading \<Longrightarrow>
       linux_step file_name s
         (s\<lparr>lx_phase := LinuxLiveness, lx_report := (lx_report s)\<lparr>lp_degraded := True\<rparr>,
            lx_watcher := backend (degrade KioslavercSource) (lx_watcher s)\<rparr>)"
| linux_still_live:
    "lx_phase s = LinuxLiveness \<Longrightarrow> 0 < lf_live (lx_flags s) \<Longrightarrow> linux_step file_name s (linux_read s)"
| linux_all_lost:
    "lx_phase s = LinuxLiveness \<Longrightarrow> lf_live (lx_flags s) = 0 \<Longrightarrow>
       linux_step file_name s
         (if lp_last_live_route (lx_report s) then s\<lparr>lx_phase := LinuxDarkening\<rparr>
          else (linux_read s)\<lparr>lx_report := (lx_report s)\<lparr>lp_watching := False\<rparr>\<rparr>)"
| linux_darkens:
    "lx_phase s = LinuxDarkening \<Longrightarrow>
       linux_step file_name s
         ((linux_read s)\<lparr>lx_report := (lx_report s)\<lparr>lp_watching := False\<rparr>,
            lx_watcher := backend mark_no_live_notifications (lx_watcher s)\<rparr>)"
| linux_read_ends:
    "lx_phase s = LinuxReading torn \<Longrightarrow> torn \<or> r = lx_world s \<Longrightarrow>
       linux_step file_name s (s\<lparr>lx_phase := LinuxPublishing r\<rparr>)"
| linux_panics:
    "lx_phase s = LinuxReading torn \<Longrightarrow>
       linux_step file_name s (s\<lparr>lx_phase := LinuxLeaving (guard_ops True)\<rparr>)"
| linux_publishes:
    "lx_phase s = LinuxPublishing r \<Longrightarrow>
       linux_step file_name s
         (s\<lparr>lx_phase := LinuxWaiting, lx_watcher := backend (publish r) (lx_watcher s)\<rparr>)"
| linux_leaves:
    "lx_phase s = LinuxLeaving (operation # rest) \<Longrightarrow>
       linux_step file_name s
         (s\<lparr>lx_phase := LinuxLeaving rest,
            lx_watcher := backend (guard_op_on operation) (lx_watcher s)\<rparr>)"
| linux_consumer: "consumer_step (lx_watcher s) wt \<Longrightarrow> linux_step file_name s (s\<lparr>lx_watcher := wt\<rparr>)"

section \<open>Nothing is lost\<close>

text \<open>A KDE event that is on its way counts as a change to come.\<close>

definition linux_starting :: "proxy_config \<Rightarrow> linux_loop \<Rightarrow> bool" where
  "linux_starting initial s \<longleftrightarrow>
     (\<exists>interval r w senders.
        s = linux_spawn interval r w senders initial \<and> (gnome_is_live r \<or> w = Inr initial) \<and>
        (case lr_kde r of
           Some (RouteLive (flags, directories)) \<Rightarrow>
             lf_live flags = length directories \<and> directories \<noteq> []
         | _ \<Rightarrow> True))"

definition linux_owes :: "linux_loop \<Rightarrow> bool" where
  "linux_owes s \<longleftrightarrow> lx_coming s \<or> lx_wake s \<or> lx_missed s"

definition linux_settled :: "linux_loop \<Rightarrow> bool" where
  "linux_settled s \<longleftrightarrow> lx_phase s = LinuxWaiting \<and> \<not> linux_owes s"

definition linux_ok :: "linux_loop \<Rightarrow> bool" where
  "linux_ok s \<longleftrightarrow>
     (case lx_phase s of
        LinuxReading torn \<Rightarrow> torn \<longrightarrow> linux_owes s
      | LinuxPublishing r \<Rightarrow> r = lx_world s \<or> linux_owes s
      | _ \<Rightarrow> True)"

lemmas linux_defs = linux_tear_def linux_wake_def linux_poll_now_def linux_read_def
  linux_owes_def linux_settled_def linux_ok_def

lemma loss_callback_keeps [simp]:
  "lx_phase (loss_callback file_name event s) = lx_phase s"
  "lx_world (loss_callback file_name event s) = lx_world s"
  "lx_coming (loss_callback file_name event s) = lx_coming s"
  "lx_wake (loss_callback file_name event s) = lx_wake s"
  "lx_missed (loss_callback file_name event s) = lx_missed s"
  "lx_watcher (loss_callback file_name event s) = lx_watcher s"
  "lx_report (loss_callback file_name event s) = lx_report s"
  "lf_lost (lx_flags (loss_callback file_name event s)) = lf_lost (lx_flags s)"
  by (simp_all add: loss_callback_def Let_def split: option.splits prod.splits)

lemma linux_step_ok: "linux_step file_name s s' \<Longrightarrow> linux_ok s \<Longrightarrow> linux_ok s'"
  by (induction rule: linux_step.induct) (auto simp: linux_defs split: linux_phase.splits)

lemma linux_step_watched:
  "linux_step file_name s s' \<Longrightarrow>
   lx_watcher s' = lx_watcher s \<or> watch_step (lx_watcher s) (lx_watcher s')"
  by (induction rule: linux_step.induct)
    (auto simp: linux_defs publish_is_a_step guard_op_is_a_step
      intro: consumer_step_is_a_step watch_step.intros)

lemma linux_settles:
  "linux_step file_name s s' \<Longrightarrow> linux_ok s \<Longrightarrow> \<not> linux_settled s \<Longrightarrow> linux_settled s' \<Longrightarrow>
   lx_watcher s' = backend (publish (lx_world s')) (lx_watcher s)"
  by (induction rule: linux_step.induct)
    (auto simp: linux_defs split: linux_phase.splits if_splits)

lemma linux_stays:
  "linux_step file_name s s' \<Longrightarrow> linux_ok s \<Longrightarrow> linux_settled s \<Longrightarrow> linux_settled s' \<Longrightarrow>
   lx_world s' = lx_world s \<and>
   sh_current (wt_shared (lx_watcher s')) = sh_current (wt_shared (lx_watcher s))"
  by (induction rule: linux_step.induct)
    (auto simp: linux_defs consumer_step_current split: linux_phase.splits)

interpretation coordinator: reread_loop "linux_step file_name" linux_starting lx_world lx_watcher
  linux_settled linux_ok
proof unfold_locales
  fix s initial
  show "linux_starting initial s \<Longrightarrow>
      linux_ok s \<and> lx_watcher s = watcher_new initial \<and> (linux_settled s \<longrightarrow> lx_world s = Inr initial)"
    by (auto simp: linux_starting_def linux_spawn_def linux_ok_def linux_settled_def linux_owes_def
        Let_def split_beta)
qed (fact linux_step_ok linux_step_watched linux_settles linux_stays)+

section \<open>A lost directory is reported\<close>

text \<open>The counter is that of the directories left; a loss that is counted is flagged, or about
  to be.\<close>

definition count_ok :: "linux_loop \<Rightarrow> bool" where
  "count_ok s \<longleftrightarrow> lf_live (lx_flags s) = length (lx_watched s)
     \<and> (lp_watching (lx_report s) \<and> lx_watched s = [] \<longrightarrow>
          lf_lost (lx_flags s) \<or> (\<exists>b. lx_callback s = KdeCounted b))"

lemma drop_ended_count:
  "length (fst (drop_ended_directories ev dirs)) + snd (drop_ended_directories ev dirs) = length dirs"
  by (simp add: drop_ended_directories_def Let_def)

lemma loss_callback_cases:
  obtains (counted) kept ended where "0 < ended" "length kept + ended = length (lx_watched s)"
    "loss_callback file_name event s =
       s\<lparr>lx_watched := kept, lx_flags := (lx_flags s)\<lparr>lf_live := lf_live (lx_flags s) - ended\<rparr>,
         lx_callback := KdeCounted (lf_live (lx_flags s) - ended = 0)\<rparr>"
  | (waking) "loss_callback file_name event s = s\<lparr>lx_callback := KdeWaking False\<rparr>"
  | (ignored) "loss_callback file_name event s = s"
proof (cases event)
  case None
  then show ?thesis using waking by (simp add: loss_callback_def)
next
  case (Some ev)
  obtain kept ended where d: "drop_ended_directories ev (lx_watched s) = (kept, ended)" by fastforce
  then have n: "length kept + ended = length (lx_watched s)"
    using drop_ended_count [of ev "lx_watched s"] by simp
  show ?thesis
  proof (cases "0 < ended")
    case True
    then show ?thesis using counted [OF True n] Some d by (simp add: loss_callback_def Let_def)
  next
    case False
    then show ?thesis using waking ignored Some d
      by (cases "is_interesting file_name ev") (simp_all add: loss_callback_def Let_def)
  qed
qed

lemma linux_step_count: "linux_step file_name s s' \<Longrightarrow> count_ok s \<Longrightarrow> count_ok s'"
proof (induction rule: linux_step.induct)
  case (linux_event s event)
  then show ?case by - (rule loss_callback_cases [of s file_name event]; auto simp: count_ok_def)
qed (auto simp: count_ok_def linux_defs)

text \<open>What the report has made stays made; it is given up only after both halves.\<close>

definition report_ok :: "bool \<Rightarrow> linux_loop \<Rightarrow> bool" where
  "report_ok watching s \<longleftrightarrow>
     (lp_degraded (lx_report s) \<longrightarrow> told KioslavercSource (wt_shared (lx_watcher s)))
     \<and> (lx_phase s = LinuxLiveness \<longrightarrow> lp_degraded (lx_report s))
     \<and> (lx_phase s = LinuxDarkening \<longrightarrow> lp_degraded (lx_report s))
     \<and> (watching \<and> \<not> lp_watching (lx_report s) \<longrightarrow>
          lp_degraded (lx_report s)
          \<and> (lp_last_live_route (lx_report s) \<longrightarrow> dark (wt_shared (lx_watcher s))))"

lemma linux_step_report: "linux_step file_name s s' \<Longrightarrow> report_ok watching s \<Longrightarrow> report_ok watching s'"
  by (induction rule: linux_step.induct)
    (auto simp: report_ok_def linux_defs told_degrade dark_no_live reports_stay
      split: linux_phase.splits)

text \<open>Until the thread leaves, a loss that it did not find at the start is reported or a check of
  the counters is still to come; and the same of the last directory.\<close>

definition before_check :: "linux_loop \<Rightarrow> bool" where
  "before_check s \<longleftrightarrow> lx_wake s \<or> lx_callback s \<noteq> KdeIdle
     \<or> lx_phase s = LinuxDebouncing \<or> lx_phase s = LinuxChecking \<or> lx_phase s = LinuxDegrading"

fun has_left :: "linux_phase \<Rightarrow> bool" where
  "has_left (LinuxLeaving rest) = True"
| "has_left p = False"

definition loss_is_seen :: "bool \<Rightarrow> linux_loop \<Rightarrow> bool" where
  "loss_is_seen lost_at_start s \<longleftrightarrow>
     has_left (lx_phase s) \<or> before_check s \<or> lost_at_start
     \<or> lp_degraded (lx_report s) \<or> \<not> lf_lost (lx_flags s) \<or> \<not> lp_watching (lx_report s)"

definition end_is_seen :: "linux_loop \<Rightarrow> bool" where
  "end_is_seen s \<longleftrightarrow>
     has_left (lx_phase s) \<or> before_check s
     \<or> lx_phase s = LinuxLiveness \<or> lx_phase s = LinuxDarkening
     \<or> lx_watched s \<noteq> [] \<or> \<not> lp_watching (lx_report s)"

lemma linux_step_loss:
  "linux_step file_name s s' \<Longrightarrow> loss_is_seen lost_at_start s \<Longrightarrow> loss_is_seen lost_at_start s'"
proof (induction rule: linux_step.induct)
  case (linux_event s event)
  then show ?case
    by - (rule loss_callback_cases [of s file_name event]; auto simp: loss_is_seen_def before_check_def)
next
  case (linux_consumer s wt)
  then show ?case by (simp add: loss_is_seen_def before_check_def)
qed (auto simp: loss_is_seen_def before_check_def linux_wake_def linux_poll_now_def linux_read_def
    linux_tear_def split: linux_phase.splits)

lemma linux_step_end:
  "linux_step file_name s s' \<Longrightarrow> count_ok s \<Longrightarrow> end_is_seen s \<Longrightarrow> end_is_seen s'"
proof (induction rule: linux_step.induct)
  case (linux_event s event)
  then show ?case
    by - (rule loss_callback_cases [of s file_name event]; auto simp: end_is_seen_def before_check_def)
next
  case (linux_consumer s wt)
  then show ?case by (simp add: end_is_seen_def before_check_def)
qed (auto simp: end_is_seen_def before_check_def count_ok_def linux_wake_def linux_poll_now_def
    linux_read_def linux_tear_def split: linux_phase.splits)

lemma linux_run_told:
  assumes "loop_run (linux_step file_name) s0 s" "linux_starting initial s0"
  shows "count_ok s \<and> report_ok (lp_watching (lx_report s0)) s \<and> loss_is_seen (lf_lost (lx_flags s0)) s
    \<and> end_is_seen s"
  using assms
proof (induction rule: loop_run.induct)
  case loop_start
  then show ?case
    by (auto simp: linux_starting_def linux_spawn_def count_ok_def report_ok_def loss_is_seen_def
        end_is_seen_def split: option.splits route_watch.splits)
next
  case (loop_next s s')
  then show ?case using linux_step_count linux_step_report linux_step_loss linux_step_end by blast
qed

end
