(* ===== verification/Loop_Facts.thy ===== *)
theory Loop_Facts
  imports Poll_Loop Mac_Loop Win_Loop Linux_Watcher
begin

text \<open>
  What the watcher threads guarantee, with \<open>src/watch.rs\<close> behind them: a consumer that has polled
  its stream dry, over a thread that has nothing left to do, was given the settings as they are;
  no call of the caller is stranded; and the health names the routes that died. Each is an
  instance of \<open>reread_loop\<close> or of an invariant of the loop.
\<close>

section \<open>A run for the examples\<close>

definition example_published :: watcher where
  "example_published = backend (publish (Inr sample_change)) sample_ready"

definition example_reported :: watcher where
  "example_reported = fst (consumer_poll 7 example_published)"

lemma example_pending: "snd (consumer_poll 7 example_reported) = Pending"
  by code_simp

lemma example_constructs: "consumer_step (watcher_new sample_config) sample_ready"
  using consumer_constructs [of "watcher_new sample_config" sample_health]
  by (simp add: sample_ready_def watcher_new_def shared_new_def)

lemma example_polls: "consumer_step example_published example_reported"
  unfolding example_reported_def by (rule consumer_polls) code_simp

section \<open>The polling thread\<close>

text \<open>iOS, Android and targets without notifications: when the thread of \<open>poll.rs\<close> waits, no
  wake-up is queued or on its way and every change it is not told of was followed by a read or a
  request, then a consumer whose stream is dry was last given a snapshot equal to what a read
  would now answer, whatever changes, wake-ups, torn reads and polls came before.\<close>

theorem polling_loses_no_change:
  assumes "loop_run poll_step s0 s" "poll_starting initial s0" "poll_settled s"
    and "pl_world s = Inr config" "snd (consumer_poll waker (pl_watcher s)) = Pending"
  shows "\<exists>st. wt_reported (pl_watcher s) = Some st \<and> config_eq (ws_config st) config"
  by (rule polling.settled_is_reported [OF assms])

definition poll_at :: "poll_phase \<Rightarrow> bool \<Rightarrow> bool \<Rightarrow> watcher \<Rightarrow> poll_loop" where
  "poll_at phase coming woken wt =
     \<lparr> pl_world = Inr sample_change, pl_coming = coming, pl_missed = False, pl_interval = None,
       pl_wake = woken, pl_senders = 1, pl_phase = phase, pl_watcher = wt \<rparr>"

lemma poll_example_start:
  "poll_starting sample_config (poll_at (PollReading False) False False (watcher_new sample_config))"
  unfolding poll_starting_def
  by (rule exI [of _ watch_options_new], rule exI [of _ "Inr sample_change"])
    (simp add: poll_at_def poll_new_def poll_interval_of_def watch_options_new_def)

lemma poll_example_run:
  "loop_run poll_step (poll_at (PollReading False) False False (watcher_new sample_config))
     (poll_at PollWaiting False False example_reported)"
proof -
  note run = loop_start [of poll_step "poll_at (PollReading False) False False (watcher_new sample_config)"]
  have "poll_step (poll_at (PollReading False) False False (watcher_new sample_config))
      (poll_at (PollReading False) False False sample_ready)"
    using poll_consumer [of "poll_at (PollReading False) False False (watcher_new sample_config)" sample_ready]
      example_constructs by (simp add: poll_at_def)
  note run = loop_next [OF run this]
  have "poll_step (poll_at (PollReading False) False False sample_ready)
      (poll_at (PollPublishing (Inr sample_change)) False False sample_ready)"
    using poll_read_ends [of "poll_at (PollReading False) False False sample_ready" False "Inr sample_change"]
    by (simp add: poll_at_def)
  note run = loop_next [OF run this]
  have "poll_step (poll_at (PollPublishing (Inr sample_change)) False False sample_ready)
      (poll_at PollWaiting False False example_published)"
    using poll_publishes [of "poll_at (PollPublishing (Inr sample_change)) False False sample_ready" "Inr sample_change"]
    by (simp add: poll_at_def example_published_def)
  note run = loop_next [OF run this]
  have "poll_step (poll_at PollWaiting False False example_published)
      (poll_at PollWaiting False False example_reported)"
    using poll_consumer [of "poll_at PollWaiting False False example_published" example_reported]
      example_polls by (simp add: poll_at_def)
  from loop_next [OF run this] show ?thesis .
qed

theorem polling_loses_no_change_witness:
  "\<exists>st. wt_reported (pl_watcher (poll_at PollWaiting False False example_reported)) = Some st
     \<and> config_eq (ws_config st) sample_change"
  by (rule polling_loses_no_change [OF poll_example_run poll_example_start, of _ 7])
    (use example_pending in \<open>simp_all add: poll_settled_def poll_at_def\<close>)

section \<open>macOS\<close>

text \<open>C19. macOS: the same of the run loop thread, where a change is told through the dynamic
  store's source, and a request and a stop through a flag and the wake source.\<close>

theorem mac_loses_no_change:
  assumes "loop_run mac_step s0 s" "mac_starting initial s0" "mac_settled s"
    and "ml_world s = Inr config" "snd (consumer_poll waker (ml_watcher s)) = Pending"
  shows "\<exists>st. wt_reported (ml_watcher s) = Some st \<and> config_eq (ws_config st) config"
  by (rule run_loop.settled_is_reported [OF assms])

definition mac_at :: "mac_phase \<Rightarrow> watcher \<Rightarrow> mac_loop" where
  "mac_at phase wt =
     \<lparr> ml_world = Inr sample_change, ml_coming = False, ml_missed = False, ml_store_pending = False,
       ml_signalled = False, ml_ringing = 0, ml_changed = False, ml_requested = False,
       ml_stop = False, ml_interval = None, ml_degraded = False, ml_phase = phase, ml_watcher = wt \<rparr>"

lemma mac_example_start:
  "mac_starting sample_config (mac_at (MacReading False) (watcher_new sample_config))"
  by (auto simp: mac_starting_def mac_at_def mac_start_def)

lemma mac_example_run:
  "loop_run mac_step (mac_at (MacReading False) (watcher_new sample_config))
     (mac_at MacWaiting example_reported)"
proof -
  note run = loop_start [of mac_step "mac_at (MacReading False) (watcher_new sample_config)"]
  have "mac_step (mac_at (MacReading False) (watcher_new sample_config)) (mac_at (MacReading False) sample_ready)"
    using mac_consumer [of "mac_at (MacReading False) (watcher_new sample_config)" sample_ready]
      example_constructs by (simp add: mac_at_def)
  note run = loop_next [OF run this]
  have "mac_step (mac_at (MacReading False) sample_ready) (mac_at (MacPublishing (Inr sample_change)) sample_ready)"
    using mac_read_ends [of "mac_at (MacReading False) sample_ready" False "Inr sample_change"]
    by (simp add: mac_at_def)
  note run = loop_next [OF run this]
  have "mac_step (mac_at (MacPublishing (Inr sample_change)) sample_ready) (mac_at MacTop example_published)"
    using mac_publishes [of "mac_at (MacPublishing (Inr sample_change)) sample_ready" "Inr sample_change"]
    by (simp add: mac_at_def example_published_def)
  note run = loop_next [OF run this]
  have "mac_step (mac_at MacTop example_published) (mac_at MacWaiting example_published)"
    using mac_waits [of "mac_at MacTop example_published"] by (simp add: mac_at_def)
  note run = loop_next [OF run this]
  have "mac_step (mac_at MacWaiting example_published) (mac_at MacWaiting example_reported)"
    using mac_consumer [of "mac_at MacWaiting example_published" example_reported] example_polls
    by (simp add: mac_at_def)
  from loop_next [OF run this] show ?thesis .
qed

theorem mac_loses_no_change_witness:
  "\<exists>st. wt_reported (ml_watcher (mac_at MacWaiting example_reported)) = Some st
     \<and> config_eq (ws_config st) sample_change"
  by (rule mac_loses_no_change [OF mac_example_run mac_example_start, of _ 7])
    (use example_pending in \<open>simp_all add: mac_settled_def mac_owes_def mac_at_def\<close>)

text \<open>macOS: while the thread sleeps in its run loop and no call of \<open>poll_now\<close> or \<open>Drop\<close> stands
  between its store and its signal, a request that is not answered and a stop that is not obeyed
  have the wake source signalled, so the thread does not sleep its hour out over them.\<close>

theorem mac_calls_are_not_stranded:
  assumes "loop_run mac_step s0 s" "mac_starting initial s0"
    and "ml_phase s = MacWaiting" "ml_ringing s = 0" "ml_requested s \<or> ml_stop s"
  shows "ml_signalled s"
  using mac_run_rings [OF assms(1,2)] assms(3-5) by (auto simp: mac_rings_def)

lemma mac_example_drop:
  "loop_run mac_step (mac_at (MacReading False) (watcher_new sample_config))
     ((mac_at MacWaiting example_reported)\<lparr>ml_stop := True, ml_signalled := True\<rparr>)"
proof -
  let ?s = "mac_at MacWaiting example_reported"
  have "mac_step ?s (?s\<lparr>ml_stop := True, ml_ringing := 1\<rparr>)"
    using mac_drop [of ?s] by (simp add: mac_at_def)
  note run = loop_next [OF mac_example_run this]
  have "mac_step (?s\<lparr>ml_stop := True, ml_ringing := 1\<rparr>) (?s\<lparr>ml_stop := True, ml_signalled := True\<rparr>)"
    using mac_signal [of "?s\<lparr>ml_stop := True, ml_ringing := 1\<rparr>"] by (simp add: mac_at_def)
  from loop_next [OF run this] show ?thesis .
qed

theorem mac_calls_are_not_stranded_witness:
  "ml_signalled ((mac_at MacWaiting example_reported)\<lparr>ml_stop := True, ml_signalled := True\<rparr>)"
  by (rule mac_calls_are_not_stranded [OF mac_example_drop mac_example_start]) (simp_all add: mac_at_def)
section \<open>Windows\<close>

text \<open>Windows: the same of the registry thread, where a change uses up the registration of its
  key and the key is armed again before the read; the errors that end the thread do so only after
  the read their notification announced.\<close>

theorem windows_loses_no_change:
  assumes "loop_run (win_step shown) s0 s" "win_starting shown initial s0" "win_settled s"
    and "wl_world s = Inr config" "snd (consumer_poll waker (wl_watcher s)) = Pending"
  shows "\<exists>st. wt_reported (wl_watcher s) = Some st \<and> config_eq (ws_config st) config"
  by (rule registry.settled_is_reported [OF assms])

text \<open>One key, the per-user one, fires and is armed again.\<close>

definition win_at :: "win_phase \<Rightarrow> answer \<Rightarrow> bool \<Rightarrow> bool \<Rightarrow> bool \<Rightarrow> watcher \<Rightarrow> win_loop" where
  "win_at phase w is_armed coming signalled wt =
     \<lparr> wl_world = w, wl_missed = False,
       wl_keys = [(armed_key True Registry INTERNET_SETTINGS)
         \<lparr>wk_armed := is_armed, wk_coming := coming, wk_signalled := signalled\<rparr>],
       wl_poll_now = False, wl_shutdown = False, wl_interval = None, wl_fatal = None,
       wl_phase = phase, wl_watcher = wt \<rparr>"

lemma win_example_start:
  "win_starting shown sample_config
     (win_at WinWaiting (Inr sample_config) True False False (watcher_new sample_config))"
  unfolding win_starting_def
proof (intro exI conjI)
  show "armed_watch shown [] (watch_options_new\<lparr>watch_group_policy := False\<rparr>) (KeyOpened (Inr ())) (\<lambda>_. KeyAbsent)
      = Inr \<lparr> wa_keys = [armed_key True Registry INTERNET_SETTINGS], wa_degraded = [WinHttpDefault], wa_live = 1 \<rparr>"
    by (simp add: armed_watch_def watch_fail_soft_def arm_secondary_keys_def arm_machine_default_key_def
        push_degraded_def watch_options_new_def)
  show "win_at WinWaiting (Inr sample_config) True False False (watcher_new sample_config)
      = win_start (opt_poll_interval (watch_options_new\<lparr>watch_group_policy := False\<rparr>))
          (wa_keys \<lparr> wa_keys = [armed_key True Registry INTERNET_SETTINGS], wa_degraded = [WinHttpDefault], wa_live = 1 \<rparr>)
          sample_config"
    by (simp add: win_at_def win_start_def armed_key_def watch_options_new_def)
qed

lemmas win_at_defs = win_at_def set_key_def armed_key_def woken_by_def begin_read_def win_tear_def
  signalled_handle_def

lemma win_example_run:
  "loop_run (win_step shown)
     (win_at WinWaiting (Inr sample_config) True False False (watcher_new sample_config))
     (win_at WinWaiting (Inr sample_change) True False False example_reported)"
proof -
  let ?new = "Inr sample_change :: answer" and ?v = "sample_ready"
  note run = loop_start [of "win_step shown"
      "win_at WinWaiting (Inr sample_config) True False False (watcher_new sample_config)"]
  have "win_step shown (win_at WinWaiting (Inr sample_config) True False False (watcher_new sample_config))
      (win_at WinWaiting (Inr sample_config) True False False ?v)"
    using win_consumer [of "win_at WinWaiting (Inr sample_config) True False False (watcher_new sample_config)" ?v]
      example_constructs by (simp add: win_at_def)
  note run = loop_next [OF run this]
  have "win_step shown (win_at WinWaiting (Inr sample_config) True False False ?v)
      (win_at WinWaiting ?new False True False ?v)"
    using win_change [of 0 "win_at WinWaiting (Inr sample_config) True False False ?v" shown ?new]
    by (simp add: win_at_defs)
  note run = loop_next [OF run this]
  have "win_step shown (win_at WinWaiting ?new False True False ?v) (win_at WinWaiting ?new False False True ?v)"
    using win_notify [of 0 "win_at WinWaiting ?new False True False ?v"] by (simp add: win_at_defs)
  note run = loop_next [OF run this]
  have "win_step shown (win_at WinWaiting ?new False False True ?v) (win_at (WinRearming 0) ?new False False False ?v)"
    using win_woken [of "win_at WinWaiting ?new False False True ?v" "WakeKey 0"] by (simp add: win_at_defs)
  note run = loop_next [OF run this]
  have "win_step shown (win_at (WinRearming 0) ?new False False False ?v) (win_at WinDebouncing ?new True False False ?v)"
    using win_rearms [of "win_at (WinRearming 0) ?new False False False ?v" 0] by (simp add: win_at_defs)
  note run = loop_next [OF run this]
  have "win_step shown (win_at WinDebouncing ?new True False False ?v) (win_at (WinReading False) ?new True False False ?v)"
    using win_window_ends [of "win_at WinDebouncing ?new True False False ?v"] by (simp add: win_at_defs)
  note run = loop_next [OF run this]
  have "win_step shown (win_at (WinReading False) ?new True False False ?v) (win_at (WinPublishing ?new) ?new True False False ?v)"
    using win_read_ends [of "win_at (WinReading False) ?new True False False ?v" False ?new] by (simp add: win_at_defs)
  note run = loop_next [OF run this]
  have "win_step shown (win_at (WinPublishing ?new) ?new True False False ?v)
      (win_at WinWaiting ?new True False False example_published)"
    using win_publishes [of "win_at (WinPublishing ?new) ?new True False False ?v" ?new]
    by (simp add: win_at_defs example_published_def)
  note run = loop_next [OF run this]
  have "win_step shown (win_at WinWaiting ?new True False False example_published)
      (win_at WinWaiting ?new True False False example_reported)"
    using win_consumer [of "win_at WinWaiting ?new True False False example_published" example_reported]
      example_polls by (simp add: win_at_def)
  from loop_next [OF run this] show ?thesis .
qed

theorem windows_loses_no_change_witness:
  "\<exists>st. wt_reported (wl_watcher (win_at WinWaiting (Inr sample_change) True False False example_reported)) = Some st
     \<and> config_eq (ws_config st) sample_change"
  by (rule windows_loses_no_change [OF win_example_run win_example_start, of _ 7])
    (use example_pending in \<open>simp_all add: win_settled_def win_owes_def win_at_defs\<close>)

text \<open>Windows: a watched key that could not be armed again is named in the health of the watcher
  from the moment its route is given up, and once the last of the routes is gone and the thread
  goes on to its read, the health says that no notification is live.\<close>

theorem windows_names_dead_routes:
  assumes "loop_run (win_step shown) s0 s" "win_starting shown initial s0"
    and "i < length (wl_keys s)" "\<not> wk_alive (wl_keys s ! i)"
  shows "wk_source (wl_keys s ! i) \<in> set (degraded (merged_health (wt_shared (wl_watcher s))))
    \<and> (if all_dead s \<and> wl_phase s \<noteq> WinLastRoute
       then \<not> has_live_notifications (merged_health (wt_shared (wl_watcher s))) else True)"
proof -
  have told: "win_told s" by (rule win_run_told [OF assms(1,2)])
  then have "told (wk_source (wl_keys s ! i)) (wt_shared (wl_watcher s))"
    using assms(3,4) by (simp add: win_told_def)
  moreover have "all_dead s \<and> wl_phase s \<noteq> WinLastRoute \<Longrightarrow> dark (wt_shared (wl_watcher s))"
    using told assms(3) by (auto simp: win_told_def)
  ultimately show ?thesis by (auto intro: told_health dest: dark_health)
qed

text \<open>The per-user key fires and cannot be armed again, while the watcher polls.\<close>

definition polled_at :: "win_phase \<Rightarrow> bool \<Rightarrow> bool \<Rightarrow> bool \<Rightarrow> bool \<Rightarrow> watcher \<Rightarrow> win_loop" where
  "polled_at phase is_armed coming signalled is_alive wt =
     (win_at phase (Inr sample_config) is_armed coming signalled wt)
       \<lparr>wl_interval := Some 0,
        wl_keys := [(armed_key True Registry INTERNET_SETTINGS)
          \<lparr>wk_armed := is_armed, wk_coming := coming, wk_signalled := signalled, wk_alive := is_alive\<rparr>]\<rparr>"

lemma polled_example_start:
  "win_starting shown sample_config (polled_at WinWaiting True False False True (watcher_new sample_config))"
  unfolding win_starting_def
proof (intro exI conjI)
  let ?options = "watch_options_new\<lparr>watch_group_policy := False, opt_poll_interval := Some 0\<rparr>"
  show "armed_watch shown [] ?options (KeyOpened (Inr ())) (\<lambda>_. KeyAbsent)
      = Inr \<lparr> wa_keys = [armed_key True Registry INTERNET_SETTINGS], wa_degraded = [WinHttpDefault], wa_live = 1 \<rparr>"
    by (simp add: armed_watch_def watch_fail_soft_def arm_secondary_keys_def arm_machine_default_key_def
        push_degraded_def watch_options_new_def)
  show "polled_at WinWaiting True False False True (watcher_new sample_config)
      = win_start (opt_poll_interval ?options)
          (wa_keys \<lparr> wa_keys = [armed_key True Registry INTERNET_SETTINGS], wa_degraded = [WinHttpDefault], wa_live = 1 \<rparr>)
          sample_config"
    by (simp add: polled_at_def win_at_def win_start_def armed_key_def watch_options_new_def)
qed

definition dead_example :: watcher where
  "dead_example = backend mark_no_live_notifications (backend (degrade Registry) (watcher_new sample_config))"

lemma dead_example_run:
  "loop_run (win_step shown) (polled_at WinWaiting True False False True (watcher_new sample_config))
     (polled_at WinDebouncing False False False False dead_example)"
proof -
  let ?v = "watcher_new sample_config" and ?d = "backend (degrade Registry) (watcher_new sample_config)"
  note defs = polled_at_def win_at_defs
  note run = loop_start [of "win_step shown" "polled_at WinWaiting True False False True ?v"]
  have "win_step shown (polled_at WinWaiting True False False True ?v) (polled_at WinWaiting False True False True ?v)"
    using win_change [of 0 "polled_at WinWaiting True False False True ?v" shown "Inr sample_config"]
    by (simp add: defs)
  note run = loop_next [OF run this]
  have "win_step shown (polled_at WinWaiting False True False True ?v) (polled_at WinWaiting False False True True ?v)"
    using win_notify [of 0 "polled_at WinWaiting False True False True ?v"] by (simp add: defs)
  note run = loop_next [OF run this]
  have "win_step shown (polled_at WinWaiting False False True True ?v) (polled_at (WinRearming 0) False False False True ?v)"
    using win_woken [of "polled_at WinWaiting False False True True ?v" "WakeKey 0"] by (simp add: defs)
  note run = loop_next [OF run this]
  have "win_step shown (polled_at (WinRearming 0) False False False True ?v) (polled_at (WinDegraded 0) False False False True ?d)"
    using win_rearm_degrades [of "polled_at (WinRearming 0) False False False True ?v" 0 Unsupported Unsupported]
    by (simp add: defs watch_fail_soft_def)
  note run = loop_next [OF run this]
  have "win_step shown (polled_at (WinDegraded 0) False False False True ?d) (polled_at WinLastRoute False False False False ?d)"
    using win_marks_dead [of "polled_at (WinDegraded 0) False False False True ?d" 0]
    by (simp add: defs mark_dead_def all_dead_def)
  note run = loop_next [OF run this]
  have "win_step shown (polled_at WinLastRoute False False False False ?d) (polled_at WinDebouncing False False False False dead_example)"
    using win_last_route [of "polled_at WinLastRoute False False False False ?d"]
    by (simp add: defs dead_example_def)
  from loop_next [OF run this] show ?thesis .
qed

theorem windows_names_dead_routes_witness:
  "Registry \<in> set (degraded (merged_health (wt_shared dead_example)))
   \<and> \<not> has_live_notifications (merged_health (wt_shared dead_example))"
proof -
  let ?s = "polled_at WinDebouncing False False False False dead_example"
  have i: "0 < length (wl_keys ?s)" "\<not> wk_alive (wl_keys ?s ! 0)" by (simp_all add: polled_at_def win_at_defs)
  have d: "all_dead ?s \<and> wl_phase ?s \<noteq> WinLastRoute" by (simp add: all_dead_def polled_at_def win_at_defs)
  have s: "wk_source (wl_keys ?s ! 0) = Registry" "wl_watcher ?s = dead_example"
    by (simp_all add: polled_at_def win_at_defs)
  show ?thesis
    using windows_names_dead_routes [OF dead_example_run polled_example_start i] d unfolding s by simp
qed

section \<open>Linux\<close>

text \<open>C18. Linux: the same of the coordinator, whose one-place channel the GSettings signals, the
  directory watch, the poll timer and the caller share, and which starts with a wake-up queued when
  a subscription came up after the initial read.\<close>

theorem linux_loses_no_change:
  assumes "loop_run (linux_step file_name) s0 s" "linux_starting initial s0" "linux_settled s"
    and "lx_world s = Inr config" "snd (consumer_poll waker (lx_watcher s)) = Pending"
  shows "\<exists>st. wt_reported (lx_watcher s) = Some st \<and> config_eq (ws_config st) config"
  by (rule coordinator.settled_is_reported [OF assms])

text \<open>A watcher with GSettings live, over a change made between the initial read and the
  subscription.\<close>

definition linux_at ::
    "linux_phase \<Rightarrow> answer \<Rightarrow> bool \<Rightarrow> loss_flags \<Rightarrow> string list \<Rightarrow> kde_callback \<Rightarrow> loss_report \<Rightarrow> watcher \<Rightarrow> linux_loop" where
  "linux_at phase w woken flags dirs callback report wt =
     \<lparr> lx_world = w, lx_coming = False, lx_missed = False, lx_interval = None, lx_wake = woken,
       lx_senders = 1, lx_flags = flags, lx_watched = dirs, lx_callback = callback,
       lx_report = report, lx_phase = phase, lx_watcher = wt \<rparr>"

definition gnome_at :: "linux_phase \<Rightarrow> bool \<Rightarrow> watcher \<Rightarrow> linux_loop" where
  "gnome_at phase woken wt =
     linux_at phase (Inr sample_change) woken \<lparr> lf_lost = False, lf_live = 0 \<rparr> [] KdeIdle
       \<lparr> lp_watching = False, lp_last_live_route = False, lp_degraded = False \<rparr> wt"

lemmas linux_at_defs = gnome_at_def linux_at_def linux_read_def linux_wake_def

lemma gnome_example_start:
  "linux_starting sample_config (gnome_at LinuxWaiting True (watcher_new sample_config))"
  unfolding linux_starting_def
  by (rule exI [of _ None], rule exI [of _ "\<lparr> lr_portal = False, lr_gnome = Some (RouteLive ()), lr_kde = None \<rparr>"],
      rule exI [of _ "Inr sample_change"], rule exI [of _ 1])
    (simp add: linux_at_defs linux_spawn_def gnome_is_live_def)

lemma gnome_example_run:
  "loop_run (linux_step file_name) (gnome_at LinuxWaiting True (watcher_new sample_config))
     (gnome_at LinuxWaiting False example_reported)"
proof -
  let ?v = sample_ready and ?step = "linux_step file_name" and ?new = "Inr sample_change"
  note run = loop_start [of ?step "gnome_at LinuxWaiting True (watcher_new sample_config)"]
  have "?step (gnome_at LinuxWaiting True (watcher_new sample_config)) (gnome_at LinuxWaiting True ?v)"
    using linux_consumer [of "gnome_at LinuxWaiting True (watcher_new sample_config)" ?v]
      example_constructs by (simp add: linux_at_defs)
  note run = loop_next [OF run this]
  have "?step (gnome_at LinuxWaiting True ?v) (gnome_at LinuxDebouncing False ?v)"
    using linux_woken [of "gnome_at LinuxWaiting True ?v"] by (simp add: linux_at_defs)
  note run = loop_next [OF run this]
  have "?step (gnome_at LinuxDebouncing False ?v) (gnome_at LinuxChecking False ?v)"
    using linux_window_ends [of "gnome_at LinuxDebouncing False ?v"] by (simp add: linux_at_defs)
  note run = loop_next [OF run this]
  have "?step (gnome_at LinuxChecking False ?v) (gnome_at (LinuxReading False) False ?v)"
    using linux_nothing_lost [of "gnome_at LinuxChecking False ?v"] by (simp add: linux_at_defs)
  note run = loop_next [OF run this]
  have "?step (gnome_at (LinuxReading False) False ?v) (gnome_at (LinuxPublishing ?new) False ?v)"
    using linux_read_ends [of "gnome_at (LinuxReading False) False ?v" False ?new] by (simp add: linux_at_defs)
  note run = loop_next [OF run this]
  have "?step (gnome_at (LinuxPublishing ?new) False ?v) (gnome_at LinuxWaiting False example_published)"
    using linux_publishes [of "gnome_at (LinuxPublishing ?new) False ?v" ?new]
    by (simp add: linux_at_defs example_published_def)
  note run = loop_next [OF run this]
  have "?step (gnome_at LinuxWaiting False example_published) (gnome_at LinuxWaiting False example_reported)"
    using linux_consumer [of "gnome_at LinuxWaiting False example_published" example_reported]
      example_polls by (simp add: linux_at_defs)
  from loop_next [OF run this] show ?thesis .
qed

theorem linux_loses_no_change_witness:
  "\<exists>st. wt_reported (lx_watcher (gnome_at LinuxWaiting False example_reported)) = Some st
     \<and> config_eq (ws_config st) sample_change"
  by (rule linux_loses_no_change [OF gnome_example_run gnome_example_start, of _ 7])
    (use example_pending in \<open>simp_all add: linux_settled_def linux_owes_def linux_at_defs\<close>)

text \<open>Linux: with a KDE watch that started whole, once a directory of it was lost and no wake-up,
  callback or check is in progress, the health names the KDE source; and once all were lost and
  GSettings is not live, it says that no notification is live. No loss goes unreported because its
  wake-up met a full channel.\<close>

theorem linux_reports_lost_directories:
  assumes "loop_run (linux_step file_name) s0 s" "linux_starting initial s0"
    and "lp_watching (lx_report s0)" "\<not> lf_lost (lx_flags s0)"
    and "lx_phase s = LinuxWaiting" "\<not> lx_wake s" "lx_callback s = KdeIdle"
  shows "let health = merged_health (wt_shared (lx_watcher s)) in
     (if lf_lost (lx_flags s) then KioslavercSource \<in> set (degraded health) else True)
     \<and> (if lx_watched s = [] \<and> lp_last_live_route (lx_report s) then \<not> has_live_notifications health
        else True)"
proof -
  note inv = linux_run_told [OF assms(1,2)]
  have quiet: "\<not> before_check s" "\<not> has_left (lx_phase s)" using assms(5-7) by (simp_all add: before_check_def)
  have 1: "lf_lost (lx_flags s) \<Longrightarrow> told KioslavercSource (wt_shared (lx_watcher s))"
    using inv quiet assms(3,4) by (auto simp: loss_is_seen_def report_ok_def)
  have 2: "lx_watched s = [] \<Longrightarrow> lp_last_live_route (lx_report s) \<Longrightarrow> dark (wt_shared (lx_watcher s))"
    using inv quiet assms(3,5) by (auto simp: end_is_seen_def report_ok_def)
  show ?thesis using 1 2 by (auto simp: Let_def intro: told_health dest: dark_health)
qed

text \<open>The only directory of a KDE watch is removed.\<close>

definition kde_at :: "linux_phase \<Rightarrow> bool \<Rightarrow> bool \<Rightarrow> string list \<Rightarrow> kde_callback \<Rightarrow> bool \<Rightarrow> bool \<Rightarrow> watcher \<Rightarrow> linux_loop" where
  "kde_at phase woken is_lost dirs callback watching reported wt =
     linux_at phase (Inr sample_config) woken \<lparr> lf_lost = is_lost, lf_live = length dirs \<rparr> dirs callback
       \<lparr> lp_watching = watching, lp_last_live_route = True, lp_degraded = reported \<rparr> wt"

definition user_dir :: string where "user_dir = ''/home/u/.config''"

definition removal :: notify_event where
  "removal = \<lparr> ev_kind = EvRemove, ev_paths = [user_dir], ev_rescan = False \<rparr>"

lemma kde_example_start:
  "linux_starting sample_config
     (kde_at LinuxWaiting False False [user_dir] KdeIdle True False (watcher_new sample_config))"
  unfolding linux_starting_def
  by (rule exI [of _ None], rule exI [of _ "\<lparr> lr_portal = False, lr_gnome = None,
        lr_kde = Some (RouteLive (\<lparr> lf_lost = False, lf_live = 1 \<rparr>, [user_dir])) \<rparr>"],
      rule exI [of _ "Inr sample_config"], rule exI [of _ 1])
    (simp add: kde_at_def linux_at_defs linux_spawn_def gnome_is_live_def)

lemma kde_example_run:
  "loop_run (linux_step file_name)
     (kde_at LinuxWaiting False False [user_dir] KdeIdle True False (watcher_new sample_config))
     (kde_at LinuxWaiting False True [] KdeIdle False True (backend (publish (Inr sample_config))
       (backend mark_no_live_notifications (backend (degrade KioslavercSource) (watcher_new sample_config)))))"
proof -
  let ?v = "watcher_new sample_config" and ?dirs = "[user_dir]" and ?step = "linux_step file_name"
  let ?d = "backend (degrade KioslavercSource) ?v"
  let ?e = "backend mark_no_live_notifications ?d"
  note defs = kde_at_def linux_at_defs
  note run = loop_start [of ?step "kde_at LinuxWaiting False False ?dirs KdeIdle True False ?v"]
  have "?step (kde_at LinuxWaiting False False ?dirs KdeIdle True False ?v)
      (kde_at LinuxWaiting False False [] (KdeCounted True) True False ?v)"
    using linux_event [of "kde_at LinuxWaiting False False ?dirs KdeIdle True False ?v" file_name "Some removal"]
    by (simp add: defs loss_callback_def drop_ended_directories_def removal_def)
  note run = loop_next [OF run this]
  have "?step (kde_at LinuxWaiting False False [] (KdeCounted True) True False ?v)
      (kde_at LinuxWaiting False True [] (KdeWaking True) True False ?v)"
    using linux_flags_loss [of "kde_at LinuxWaiting False False [] (KdeCounted True) True False ?v" True]
    by (simp add: defs)
  note run = loop_next [OF run this]
  have "?step (kde_at LinuxWaiting False True [] (KdeWaking True) True False ?v)
      (kde_at LinuxWaiting True True [] KdeIdle True False ?v)"
    using linux_callback_wakes [of "kde_at LinuxWaiting False True [] (KdeWaking True) True False ?v" True]
    by (simp add: defs)
  note run = loop_next [OF run this]
  have "?step (kde_at LinuxWaiting True True [] KdeIdle True False ?v)
      (kde_at LinuxDebouncing False True [] KdeIdle True False ?v)"
    using linux_woken [of "kde_at LinuxWaiting True True [] KdeIdle True False ?v"] by (simp add: defs)
  note run = loop_next [OF run this]
  have "?step (kde_at LinuxDebouncing False True [] KdeIdle True False ?v)
      (kde_at LinuxChecking False True [] KdeIdle True False ?v)"
    using linux_window_ends [of "kde_at LinuxDebouncing False True [] KdeIdle True False ?v"] by (simp add: defs)
  note run = loop_next [OF run this]
  have "?step (kde_at LinuxChecking False True [] KdeIdle True False ?v)
      (kde_at LinuxDegrading False True [] KdeIdle True False ?v)"
    using linux_something_lost [of "kde_at LinuxChecking False True [] KdeIdle True False ?v"] by (simp add: defs)
  note run = loop_next [OF run this]
  have "?step (kde_at LinuxDegrading False True [] KdeIdle True False ?v)
      (kde_at LinuxLiveness False True [] KdeIdle True True ?d)"
    using linux_degrades [of "kde_at LinuxDegrading False True [] KdeIdle True False ?v"] by (simp add: defs)
  note run = loop_next [OF run this]
  have "?step (kde_at LinuxLiveness False True [] KdeIdle True True ?d)
      (kde_at LinuxDarkening False True [] KdeIdle True True ?d)"
    using linux_all_lost [of "kde_at LinuxLiveness False True [] KdeIdle True True ?d"] by (simp add: defs)
  note run = loop_next [OF run this]
  have "?step (kde_at LinuxDarkening False True [] KdeIdle True True ?d)
      (kde_at (LinuxReading False) False True [] KdeIdle False True ?e)"
    using linux_darkens [of "kde_at LinuxDarkening False True [] KdeIdle True True ?d"] by (simp add: defs)
  note run = loop_next [OF run this]
  have "?step (kde_at (LinuxReading False) False True [] KdeIdle False True ?e)
      (kde_at (LinuxPublishing (Inr sample_config)) False True [] KdeIdle False True ?e)"
    using linux_read_ends [of "kde_at (LinuxReading False) False True [] KdeIdle False True ?e" False "Inr sample_config"]
    by (simp add: defs)
  note run = loop_next [OF run this]
  have "?step (kde_at (LinuxPublishing (Inr sample_config)) False True [] KdeIdle False True ?e)
      (kde_at LinuxWaiting False True [] KdeIdle False True (backend (publish (Inr sample_config)) ?e))"
    using linux_publishes [of "kde_at (LinuxPublishing (Inr sample_config)) False True [] KdeIdle False True ?e"
        "Inr sample_config"]
    by (simp add: defs)
  from loop_next [OF run this] show ?thesis .
qed

theorem linux_reports_lost_directories_witness:
  "let health = merged_health (wt_shared (backend (publish (Inr sample_config))
       (backend mark_no_live_notifications (backend (degrade KioslavercSource) (watcher_new sample_config)))))
   in KioslavercSource \<in> set (degraded health) \<and> \<not> has_live_notifications health"
  using linux_reports_lost_directories [OF kde_example_run kde_example_start]
  by (simp add: Let_def kde_at_def linux_at_def)

end
