(* ===== verification/Error_Text.thy ===== *)
theory Error_Text
  imports Diagnostic
begin

text \<open>
  What an error says: \<open>Display\<close> and the hand-written \<open>Debug\<close> of \<open>src/error.rs\<close>, the words of
  every reason the parsers give (\<open>src/bypass.rs\<close>, \<open>src/endpoint.rs\<close>, \<open>src/util.rs\<close>), and the
  \<open>Debug\<close> the language derives for the values an error holds. The errors of the OS and of the
  \<open>url\<close> crate are known by their \<open>Display\<close>; their \<open>Debug\<close>, that of a host, and how a character outside ASCII is
  escaped, which follows tables of the Unicode standard, are arguments.
\<close>

section \<open>Debug of the language\<close>

record foreign_debug =
  wide_char :: "string \<Rightarrow> string"
  io_error_debug :: "string \<Rightarrow> string"
  url_error_debug :: "string \<Rightarrow> string"
  host_debug :: "host \<Rightarrow> string"

definition hex_digits :: "nat \<Rightarrow> string" where
  "hex_digits n = (if n < 16 then [hex_char n] else [hex_char (n div 16), hex_char (n mod 16)])"

definition debug_char :: "foreign_debug \<Rightarrow> string \<Rightarrow> string" where
  "debug_char F ch =
     (case ch of
        [c] \<Rightarrow>
          if c = CHR 0x00 then [CHR 0x5C, CHR ''0'']
          else if c = CHR 0x09 then [CHR 0x5C, CHR ''t'']
          else if c = CHR 0x0A then [CHR 0x5C, CHR ''n'']
          else if c = CHR 0x0D then [CHR 0x5C, CHR ''r'']
          else if c = CHR 0x5C \<or> c = CHR 0x22 then [CHR 0x5C, c]
          else if of_char c < (0x20 :: nat) \<or> c = CHR 0x7F
          then [CHR 0x5C] @ ''u{'' @ hex_digits (of_char c) @ ''}''
          else [c]
      | _ \<Rightarrow> wide_char F ch)"

definition debug_text :: "foreign_debug \<Rightarrow> string \<Rightarrow> string" where
  "debug_text F s = [CHR 0x22] @ concat (map (debug_char F) (chars s)) @ [CHR 0x22]"

fun joined :: "string \<Rightarrow> string list \<Rightarrow> string" where
  "joined sep [] = []"
| "joined sep [x] = x"
| "joined sep (x # xs) = x @ sep @ joined sep xs"

definition debug_struct :: "string \<Rightarrow> (string \<times> string) list \<Rightarrow> string" where
  "debug_struct name fs =
     name @ '' { '' @ joined '', '' (map (\<lambda>(f, v). f @ '': '' @ v) fs) @ '' }''"

text \<open>A duration in nanoseconds: the largest unit it reaches, with the digits of the rest.\<close>

definition fraction_digits :: "nat \<Rightarrow> nat \<Rightarrow> string" where
  "fraction_digits width n =
     (let ds = map (\<lambda>k. char_of (48 + n div 10 ^ k mod 10)) (rev [0..<width])
      in rev (dropWhile (\<lambda>d. d = CHR ''0'') (rev ds)))"

definition decimal :: "nat \<Rightarrow> nat \<Rightarrow> nat \<Rightarrow> string" where
  "decimal whole width rest =
     show_nat whole @ (if rest = 0 then [] else ''.'' @ fraction_digits width rest)"

definition debug_duration :: "nat \<Rightarrow> string" where
  "debug_duration ns =
     (if 1000000000 \<le> ns then decimal (ns div 1000000000) 9 (ns mod 1000000000) @ ''s''
      else if 1000000 \<le> ns then decimal (ns div 1000000) 6 (ns mod 1000000) @ ''ms''
      else if 1000 \<le> ns then decimal (ns div 1000) 3 (ns mod 1000) @ [CHR 0xC2, CHR 0xB5] @ ''s''
      else decimal ns 0 0 @ ''ns'')"

definition debug_option :: "('a \<Rightarrow> string) \<Rightarrow> 'a option \<Rightarrow> string" where
  "debug_option f x = (case x of None \<Rightarrow> ''None'' | Some y \<Rightarrow> ''Some('' @ f y @ '')'')"

fun scheme_debug :: "scheme \<Rightarrow> string" where
  "scheme_debug Http = ''Http''"
| "scheme_debug Https = ''Https''"
| "scheme_debug Ftp = ''Ftp''"
| "scheme_debug Socks = ''Socks''"
| "scheme_debug AllSchemes = ''All''"

fun rejection_kind_debug :: "rejection_kind \<Rightarrow> string" where
  "rejection_kind_debug InvalidProxyEndpoint = ''InvalidProxyEndpoint''"
| "rejection_kind_debug InvalidBypassEntry = ''InvalidBypassEntry''"
| "rejection_kind_debug UnknownProxyScheme = ''UnknownProxyScheme''"
| "rejection_kind_debug UnsupportedMapping = ''UnsupportedMapping''"

definition debug_tuple :: "foreign_debug \<Rightarrow> string \<Rightarrow> string \<Rightarrow> string" where
  "debug_tuple F name s = name @ ''('' @ debug_text F s @ '')''"

fun rejection_source_debug :: "foreign_debug \<Rightarrow> rejection_source \<Rightarrow> string" where
  "rejection_source_debug F ProxyServer = ''ProxyServer''"
| "rejection_source_debug F BypassList = ''BypassList''"
| "rejection_source_debug F (EnvironmentVariable s) = debug_tuple F ''EnvironmentVariable'' s"
| "rejection_source_debug F (Kioslaverc s) = debug_tuple F ''Kioslaverc'' s"
| "rejection_source_debug F (GSettings s) = debug_tuple F ''GSettings'' s"
| "rejection_source_debug F (SystemConfiguration s) = debug_tuple F ''SystemConfiguration'' s"
| "rejection_source_debug F (ProxyInfo s) = debug_tuple F ''ProxyInfo'' s"

definition rejected_value_debug :: "foreign_debug \<Rightarrow> rejected_value \<Rightarrow> string" where
  "rejected_value_debug F r =
     debug_struct ''RejectedValue''
       [(''kind'', rejection_kind_debug (rv_kind r)),
        (''source'', rejection_source_debug F (rv_source r)),
        (''redacted_input'', debug_text F (redacted_input r)),
        (''scheme'', case affected_scheme r of
           None \<Rightarrow> ''None'' | Some s \<Rightarrow> ''Some('' @ scheme_debug s @ '')'')]"

section \<open>The words of a reason\<close>

definition tick :: "string \<Rightarrow> string" where
  "tick s = [CHR 0x27] @ s @ [CHR 0x27]"

definition plural :: "nat \<Rightarrow> string" where
  "plural n = (if n = 1 then [] else ''s'')"

definition shown_quoted :: "foreign_debug \<Rightarrow> quoted \<Rightarrow> string" where
  "shown_quoted F q = (case q of Quoted s \<Rightarrow> debug_text F s | Withheld s \<Rightarrow> s)"

text \<open>A character's own \<open>Debug\<close> escapes a single quote in place of a double one.\<close>

definition debug_one_char :: "foreign_debug \<Rightarrow> string \<Rightarrow> string" where
  "debug_one_char F ch =
     tick (if ch = [CHR 0x27] then [CHR 0x5C, CHR 0x27]
           else if ch = [CHR 0x22] then ch else debug_char F ch)"

definition bracket_text :: "reason \<Rightarrow> string option" where
  "bracket_text r =
     (case r of
        UnbalancedBracket \<Rightarrow>
          Some (''unbalanced '' @ tick ''['' @ '' in IPv6 literal'')
      | TextAfterLiteral \<Rightarrow>
          Some (''unexpected trailing text after IPv6 literal'')
      | _ \<Rightarrow> None)"

definition endpoint_text :: "reason \<Rightarrow> string option" where
  "endpoint_text r =
     (case r of
        EmptyAddress \<Rightarrow>
          Some (''empty address'')
      | AtAfterPath \<Rightarrow>
          Some (''an '' @ tick ''@'' @ '' follows a '' @ tick ''/'' @ '', '' @ tick ''?'' @ '' or ''
            @ tick ''#'' @ '', so the host before it is the start of a user name or password ''
            @ ''rather than the proxy (percent-encode the character in the ''
            @ ''credentials: %2F, %3F, %23)'')
      | NotValidText \<Rightarrow>
          Some (''value is not valid text'')
      | MissingHost \<Rightarrow>
          Some (''missing host'')
      | EmptyPort \<Rightarrow>
          Some (''empty port after '' @ tick '':'')
      | _ \<Rightarrow> None)"

definition bypass_text :: "reason \<Rightarrow> string option" where
  "bypass_text r =
     (case r of
        ContainsWhitespace \<Rightarrow>
          Some (''entry contains whitespace, so it is not a single host[:port] or CIDR ''
            @ ''(separate entries with '' @ tick '','' @ '', or on Windows with '' @ tick '';''
            @ '' or a space)'')
      | NamesScheme \<Rightarrow>
          Some (''entry names a scheme, and a bypass pattern here applies to every ''
            @ ''scheme, so the restriction cannot be honoured (write the host on its ''
            @ ''own, for example example.com)'')
      | SlashInWindowsList \<Rightarrow>
          Some (''entry contains a '' @ tick ''/''
            @ '', which Windows does not read as a CIDR block: it invalidates the ''
            @ ''whole bypass list (write the range with wildcards, for example 10.* ''
            @ ''rather than 10.0.0.0/8)'')
      | LeadingDotInWindowsList \<Rightarrow>
          Some (''entry starts with a '' @ tick ''.''
            @ '', which Windows does not read as a subdomain rule; WinINet refuses ''
            @ ''the whole bypass list over one (write the subdomains as *.example.com ''
            @ ''rather than .example.com)'')
      | NonDecimalCidr \<Rightarrow>
          Some (''entry is a CIDR block whose IPv4 address is written other than as ''
            @ ''four decimal octets, which the system reads as decimal and Chromium ''
            @ ''as a URL host (write the four decimal octets, for example 10.1.2.0/24)'')
      | NotCidr \<Rightarrow>
          Some (''entry contains a '' @ tick ''/''
            @ '', so it can only be a CIDR block, but it is not a valid one (an '' @ ''address, a ''
            @ tick ''/'' @ '', and a prefix length, for example 10.0.0.0/8 or fe80::/10)'')
      | TrailingDotAsWritten \<Rightarrow>
          Some (''entry ends in a '' @ tick ''.''
            @ '', which this store compares as written, so it matches only a ''
            @ ''destination spelled with the same trailing dot (write the name '' @ ''without it)'')
      | PortInMacosList \<Rightarrow>
          Some (''entry carries a port, which macOS does not read as a restriction: it ''
            @ ''compares the whole entry to the destination'' @ [CHR 0x27]
            @ ''s host name, so no destination could ever match it (write the host on '' @ ''its own)'')
      | BracketedNotAddress \<Rightarrow>
          Some (''entry is bracketed, so it can only be an address literal, but it is ''
            @ ''not a valid one (for example [::1] or [2001:db8::1])'')
      | GlobInUnicodeLabel \<Rightarrow>
          Some (''entry mixes a '' @ tick ''*''
            @ '' glob with non-ASCII text in one label, which has no punycode ''
            @ ''spelling; write the label as punycode (xn--'' @ [CHR 0xE2, CHR 0x80, CHR 0xA6]
            @ '') instead'')
      | NotIdna \<Rightarrow>
          Some (''entry contains non-ASCII text that is not a valid internationalised '' @ ''domain name'')
      | EmptyLabel \<Rightarrow>
          Some (''entry has an empty label (two dots in a row), so no destination could ''
            @ ''ever match it (write example.com, .example.com or *.example.com)'')
      | SubdomainOfAddress \<Rightarrow>
          Some (''entry names a subdomain of an address literal, which has none, so no ''
            @ ''destination could ever match it (write the address on its own, or a ''
            @ ''CIDR range such as 10.0.0.0/8)'')
      | UnreachableName \<Rightarrow>
          Some (''entry is not a name any destination could carry, so no destination ''
            @ ''could ever match it (a last label that reads as a number, as in ''
            @ ''example.123, is taken for an address and refused as one; so is an ''
            @ ''unbracketed IPv6 that is not a valid address, as in 2001:db8:1)'')
      | GnomeLiteralStar \<Rightarrow>
          Some (''entry contains a '' @ tick ''*''
            @ '' that GNOME does not read as a wildcard (only a leading '' @ tick ''*.''
            @ '' is one there), so no destination could ever match it (write ''
            @ ''*.example.com for a domain, or the host on its own)'')
      | MacosLiteralStar \<Rightarrow>
          Some (''entry contains a '' @ tick ''*''
            @ '' this crate does not follow on macOS (only a leading '' @ tick ''*.''
            @ '' or a trailing '' @ tick ''.*''
            @ '' is read as a wildcard), so the entry is dropped and its destinations ''
            @ ''go to the proxy (macOS itself matches a whole-label '' @ tick ''*''
            @ '' such as www.*.test, and nothing for a '' @ tick ''*''
            @ '' inside a label; write *.example.com for a domain, or the host on its '' @ ''own)'')
      | NonDecimalIpv4 \<Rightarrow>
          Some (''entry is an IPv4 address written other than as four decimal octets, ''
            @ ''which this list'' @ [CHR 0x27]
            @ ''s reader does not read as the address a URL parser does: Windows, ''
            @ ''macOS and Android compare it as text, KIO reads each part as decimal ''
            @ ''(write the four decimal octets, for example 10.1.2.3)'')
      | _ \<Rightarrow> None)"

definition reason_text :: "foreign_debug \<Rightarrow> reason \<Rightarrow> string" where
  "reason_text F r =
     (case r of
        PortOutOfRange len \<Rightarrow>
          ''invalid port: '' @ show_nat len @ ''-digit number is out of the 0-65535 range''
      | PortNotDigits len digits \<Rightarrow>
          ''invalid port: '' @ show_nat len @ '' character'' @ plural len @ '' ('' @ show_nat digits
            @ '' ASCII digit'' @ plural digits @ '', '' @ show_nat (len - digits)
            @ '' other), expected only ASCII digits 0-9''
      | InvalidIpv6Literal q \<Rightarrow> ''invalid IPv6 literal '' @ shown_quoted F q
      | InvalidHost q e \<Rightarrow> ''invalid host '' @ shown_quoted F q @ '': '' @ e
      | LooksLikeProxyUrl shown \<Rightarrow>
          ''entry looks like a proxy URL with credentials ('' @ shown
            @ ''), not a bare host[:port] or CIDR; bypass/no-proxy lists cannot carry a ''
            @ ''username or password''
      | ForbiddenCharacter bad \<Rightarrow>
          ''entry contains '' @ debug_one_char F bad
            @ '', which cannot appear in a host name, so no destination could ever match it''
      | _ \<Rightarrow> unwrap_or [] (or_else (bracket_text r) (or_else (endpoint_text r) (bypass_text r))))"

section \<open>Display\<close>

definition error_display :: "foreign_debug \<Rightarrow> proxy_error \<Rightarrow> string" where
  "error_display F e =
     (case e of
        InvalidProxyServer input r \<Rightarrow>
          ''invalid proxy server specification '' @ debug_text F input @ '': '' @ reason_text F r
      | InvalidBypassPattern input r \<Rightarrow>
          ''invalid bypass pattern '' @ debug_text F input @ '': '' @ reason_text F r
      | InvalidProxyUrl input source \<Rightarrow>
          ''invalid proxy URL '' @ debug_text F input @ '': '' @ source
      | UnsupportedProxyScheme s \<Rightarrow> ''unsupported proxy scheme '' @ debug_text F s
      | CgiHttpProxy variable \<Rightarrow> ''refusing to use '' @ variable @ '' value in CGI environment''
      | Io ctxt source \<Rightarrow> ctxt
      | Sandboxed sandbox why \<Rightarrow> ''running inside a '' @ sandbox @ '' sandbox: '' @ why
      | Unsupported \<Rightarrow>
          ''watching the system proxy configuration is not supported on this platform''
      | PacNotSupported mode \<Rightarrow>
          ''resolving this URL requires evaluating a proxy auto-config script ('' @ mode @ '')''
      | ProxyEntryUnusable s r \<Rightarrow>
          ''the configured '' @ scheme_as_str s
            @ '' proxy could not be used and nothing else covers this request''
      | PacFetchRequired u \<Rightarrow>
          ''the PAC script at '' @ redact_userinfo (as_str u)
            @ '' must be fetched by the caller before it can be evaluated''
      | PacEvaluation why \<Rightarrow> ''PAC evaluation failed: '' @ why
      | PacTimeout t \<Rightarrow> ''PAC evaluation exceeded its '' @ debug_duration t @ '' budget''
      | PacSaturated t limit \<Rightarrow>
          ''no PAC evaluation slot came free within '' @ debug_duration t @ '' ('' @ show_nat limit
            @ '' still running)''
      | PacInvalidResult result \<Rightarrow>
          ''PAC script returned no usable proxy candidate: '' @ debug_text F result
      | PacEngineUnavailable \<Rightarrow>
          ''no PAC JavaScript engine is enabled; build with '' @ [CHR 0x60] @ ''pac-quickjs''
            @ [CHR 0x60] @ '' (not on Android or iOS), or attach a native resolver through ''
            @ [CHR 0x60] @ ''pac::PacResolver'' @ [CHR 0x60])"

section \<open>Debug\<close>

definition error_debug :: "foreign_debug \<Rightarrow> proxy_error \<Rightarrow> string" where
  "error_debug F e =
     (case e of
        InvalidProxyServer input r \<Rightarrow>
          debug_struct ''InvalidProxyServer''
            [(''input'', debug_text F input), (''reason'', debug_text F (reason_text F r))]
      | InvalidBypassPattern input r \<Rightarrow>
          debug_struct ''InvalidBypassPattern''
            [(''input'', debug_text F input), (''reason'', debug_text F (reason_text F r))]
      | InvalidProxyUrl input source \<Rightarrow>
          debug_struct ''InvalidProxyUrl''
            [(''input'', debug_text F input), (''source'', url_error_debug F source)]
      | UnsupportedProxyScheme s \<Rightarrow> debug_tuple F ''UnsupportedProxyScheme'' s
      | CgiHttpProxy variable \<Rightarrow> debug_struct ''CgiHttpProxy'' [(''variable'', debug_text F variable)]
      | Io ctxt source \<Rightarrow>
          debug_struct ''Io'' [(''context'', debug_text F ctxt), (''source'', io_error_debug F source)]
      | Sandboxed sandbox why \<Rightarrow>
          debug_struct ''Sandboxed''
            [(''sandbox'', debug_text F sandbox), (''reason'', debug_text F why)]
      | Unsupported \<Rightarrow> ''Unsupported''
      | PacNotSupported mode \<Rightarrow> debug_struct ''PacNotSupported'' [(''mode'', debug_text F mode)]
      | ProxyEntryUnusable s r \<Rightarrow>
          debug_struct ''ProxyEntryUnusable''
            [(''scheme'', scheme_debug s), (''rejected'', rejected_value_debug F r)]
      | PacFetchRequired u \<Rightarrow>
          debug_struct ''PacFetchRequired'' [(''url'', redact_userinfo (as_str u))]
      | PacEvaluation why \<Rightarrow> debug_struct ''PacEvaluation'' [(''reason'', debug_text F why)]
      | PacTimeout t \<Rightarrow> debug_struct ''PacTimeout'' [(''timeout'', debug_duration t)]
      | PacSaturated t limit \<Rightarrow>
          debug_struct ''PacSaturated''
            [(''timeout'', debug_duration t), (''limit'', show_nat limit)]
      | PacInvalidResult result \<Rightarrow>
          debug_struct ''PacInvalidResult'' [(''result'', debug_text F result)]
      | PacEngineUnavailable \<Rightarrow> ''PacEngineUnavailable'')"

end
