(* ===== verification/Pac_Worker.thy ===== *)
theory Pac_Worker
  imports Stores Pac_Dispatch Pac_Host Pac_Budget Error_Text
begin

text \<open>
  \<open>src/pac/subprocess.rs\<close>: a PAC evaluation in a worker process. The frames both sides
  write and read, the parent's half of the conversation as a function of all the worker says,
  the worker's half as a function of all the parent says, and what an evaluation makes of how
  they end. A pipe is the bytes that went through it; its writer learns of a reader that went
  away by the error of a write. An engine is what it does to the outside: it asks for names,
  then returns the raw answer or fails.
\<close>

section \<open>Constants\<close>

definition MAGIC :: string where "MAGIC = ''PWPAC'' @ [CHR 0x00]"
definition VERSION :: u16 where "VERSION = 2"

definition EVALUATE :: u8 where "EVALUATE = 1"
definition ANSWER :: u8 where "ANSWER = 2"
definition LOOKUP :: u8 where "LOOKUP = 3"
definition DONE :: u8 where "DONE = 4"
definition FAILED :: u8 where "FAILED = 5"
definition SANDBOX :: u8 where "SANDBOX = 6"

definition SECCOMP :: string where "SECCOMP = ''seccomp''"

definition MAX_WORKER_FRAME :: nat where "MAX_WORKER_FRAME = 1024 * 1024"
definition USIZE_MAX :: nat where "USIZE_MAX = 2 ^ 64 - 1"
definition WORKER_COMMIT_LIMIT :: nat where "WORKER_COMMIT_LIMIT = 512 * 1024 * 1024"
definition WORKER_ADDRESS_SPACE_LIMIT :: nat where
  "WORKER_ADDRESS_SPACE_LIMIT = 1024 * 1024 * 1024"

lemmas worker_tags = EVALUATE_def ANSWER_def LOOKUP_def DONE_def FAILED_def SANDBOX_def

section \<open>Bytes\<close>

text \<open>\<open>to_le_bytes\<close> and \<open>from_le_bytes\<close> of an integer of so many bytes.\<close>

fun le_bytes :: "nat \<Rightarrow> nat \<Rightarrow> string" where
  "le_bytes 0 v = []"
| "le_bytes (Suc n) v = char_of (v mod 256) # le_bytes n (v div 256)"

fun le_value :: "string \<Rightarrow> nat" where
  "le_value [] = 0"
| "le_value (c # s) = byte_val c + 256 * le_value s"

definition from_utf8 :: "string \<Rightarrow> string option" where
  "from_utf8 s = (if valid_utf8 s then Some s else None)"

text \<open>\<open>Read::read_exact\<close>: the bytes and what is left, or the error of a stream that ends.\<close>

definition read_exact :: "nat \<Rightarrow> string \<Rightarrow> string + string \<times> string" where
  "read_exact n s =
     (if length s < n then Inl ''failed to fill whole buffer'' else Inr (take n s, drop n s))"

text \<open>A pipe gives the error the next write meets once these bytes went through. A write
  gives its error and the bytes that went through in the end.\<close>

type_synonym pipe = "string \<Rightarrow> string option"

definition open_pipe :: pipe where "open_pipe sent = None"

definition write_all :: "pipe \<Rightarrow> string \<Rightarrow> string \<Rightarrow> string option \<times> string" where
  "write_all P bytes sent = (case P sent of Some e \<Rightarrow> (Some e, sent) | None \<Rightarrow> (None, sent @ bytes))"

definition also_write ::
    "(string \<Rightarrow> string option \<times> string) \<Rightarrow> string option \<times> string \<Rightarrow> string option \<times> string" where
  "also_write f w = (case w of (Some e, sent) \<Rightarrow> (Some e, sent) | (None, sent) \<Rightarrow> f sent)"

section \<open>Frames\<close>

definition write_header :: "pipe \<Rightarrow> string \<Rightarrow> string option \<times> string" where
  "write_header P sent =
     also_write (write_all P (le_bytes 2 (unat VERSION))) (write_all P MAGIC sent)"

definition read_header :: "string \<Rightarrow> string + string" where
  "read_header s =
     (case read_exact 8 s of
        Inl e \<Rightarrow> Inl e
      | Inr (header, rest) \<Rightarrow>
          if take 6 header \<noteq> MAGIC then Inl ''not a PAC worker''
          else
            (let version = le_value (drop 6 header) in
             if version \<noteq> unat VERSION
             then Inl (''protocol version '' @ show_nat version @ '', expected ''
                    @ show_nat (unat VERSION) @ ''; the worker is from another release'')
             else Inr rest))"

definition length_bytes :: "nat \<Rightarrow> string + string" where
  "length_bytes len =
     (if len < 2 ^ 32 then Inr (le_bytes 4 len) else Inl ''a frame too large to send'')"

fun frame_fields :: "string list \<Rightarrow> string + string" where
  "frame_fields [] = Inr []"
| "frame_fields (part # parts) =
     (case length_bytes (length part) of
        Inl e \<Rightarrow> Inl e
      | Inr len \<Rightarrow>
          (case frame_fields parts of
             Inl e \<Rightarrow> Inl e
           | Inr rest \<Rightarrow> Inr (len @ part @ rest)))"

definition write_frame ::
    "pipe \<Rightarrow> u8 \<Rightarrow> string list \<Rightarrow> string \<Rightarrow> string option \<times> string" where
  "write_frame P tag parts sent =
     (case frame_fields parts of
        Inl e \<Rightarrow> (Some e, sent)
      | Inr rest \<Rightarrow>
          (let body = char_of (unat tag) # rest in
           case length_bytes (length body) of
             Inl e \<Rightarrow> (Some e, sent)
           | Inr len \<Rightarrow> also_write (write_all P body) (write_all P len sent)))"

function read_fields :: "string \<Rightarrow> string + string list" where
  "read_fields rest =
     (if rest = [] then Inr []
      else if length rest < 4 then Inl ''a truncated field length''
      else
        (let size = le_value (take 4 rest); tail = drop 4 rest in
         if length tail < size then Inl ''a field longer than its frame''
         else (case from_utf8 (take size tail) of
                 None \<Rightarrow> Inl ''a field that is not UTF-8''
               | Some part \<Rightarrow>
                   (case read_fields (drop size tail) of
                      Inl e \<Rightarrow> Inl e
                    | Inr parts \<Rightarrow> Inr (part # parts)))))"
  by pat_completeness auto
termination
  by (relation "measure length") auto

declare read_fields.simps [simp del]

definition read_frame :: "nat \<Rightarrow> string \<Rightarrow> string + (u8 \<times> string list) \<times> string" where
  "read_frame limit s =
     (case read_exact 4 s of
        Inl e \<Rightarrow> Inl e
      | Inr (prefix_bytes, s1) \<Rightarrow>
          (let len = le_value prefix_bytes in
           if len = 0 \<or> limit < len then Inl (''a frame of '' @ show_nat len @ '' bytes'')
           else (case read_exact len s1 of
                   Inl e \<Rightarrow> Inl e
                 | Inr (body, rest) \<Rightarrow>
                     (case read_fields (tl body) of
                        Inl e \<Rightarrow> Inl e
                      | Inr parts \<Rightarrow> Inr ((of_nat (byte_val (hd body)), parts), rest)))))"

section \<open>The request\<close>

definition evaluate_request ::
    "string \<Rightarrow> string \<Rightarrow> string \<Rightarrow> pac_policy \<Rightarrow> string list" where
  "evaluate_request script u host_text p =
     [script, u, host_text, show_ip (policy_my_ip_address p), show_int (local_utc_offset p),
      (case pinned_now p of None \<Rightarrow> [] | Some now \<Rightarrow> show_int now)]"

text \<open>\<open>str::parse::<i32>\<close> and \<open>str::parse::<u128>\<close>.\<close>

definition parse_i32 :: "string \<Rightarrow> int option" where
  "parse_i32 s =
     (let (neg, ds) = (case s of
            c # r \<Rightarrow> if c = CHR ''-'' then (True, r) else if c = CHR ''+'' then (False, r)
                     else (False, s)
          | [] \<Rightarrow> (False, []))
      in if ds = [] \<or> \<not> all_digits ds then None
         else (let v = (if neg then - int (digits_value 0 ds) else int (digits_value 0 ds)) in
               if - 2147483648 \<le> v \<and> v \<le> 2147483647 then Some v else None))"

definition parse_u128 :: "string \<Rightarrow> nat option" where
  "parse_u128 s =
     (let ds = unwrap_or s (strip_prefix ''+'' s) in
      if ds = [] \<or> \<not> all_digits ds then None
      else (let n = digits_value 0 ds in if n < 2 ^ 128 then Some n else None))"

text \<open>A \<open>SystemTime\<close> of Unix: its whole seconds fit an \<open>i64\<close>.\<close>

definition checked_time :: "int \<Rightarrow> int option" where
  "checked_time t = (if fits_i64 (t div 1000000000) then Some t else None)"

definition unreadable :: "string \<Rightarrow> string" where
  "unreadable what = ''an unreadable '' @ what"

definition worker_clock :: "string \<Rightarrow> string + int option" where
  "worker_clock clock =
     (if clock = [] then Inr None
      else
        (let (negative, digits) = (case strip_prefix ''-'' clock of
               Some digits \<Rightarrow> (True, digits) | None \<Rightarrow> (False, clock))
         in case parse_u128 digits of
              None \<Rightarrow> Inl (unreadable ''clock'')
            | Some nanos \<Rightarrow>
                if 2 ^ 64 \<le> nanos div 1000000000 then Inl (unreadable ''clock'')
                else map_err (\<lambda>_. unreadable ''clock'')
                       (ok_or () (map_option Some
                         (checked_time (if negative then - int nanos else int nanos))))))"

definition worker_policy :: "string list \<Rightarrow> string + pac_policy" where
  "worker_policy parts =
     (case parse_ip (parts ! 3) of
        None \<Rightarrow> Inl (unreadable ''myIpAddress'')
      | Some own \<Rightarrow>
          (case parse_i32 (parts ! 4) of
             None \<Rightarrow> Inl (unreadable ''UTC offset'')
           | Some offset \<Rightarrow>
               (let p = with_local_utc_offset offset
                          (with_my_ip_address own (with_timeout None policy_new))
                in case worker_clock (parts ! 5) of
                     Inl e \<Rightarrow> Inl e
                   | Inr None \<Rightarrow> Inr p
                   | Inr (Some now) \<Rightarrow> Inr (with_now now p))))"

section \<open>The parent's half\<close>

definition broken :: "string \<Rightarrow> proxy_error" where
  "broken e = error_pac_evaluation (''the PAC worker broke the protocol: '' @ e)"

definition unexpected :: "u8 \<Rightarrow> string list \<Rightarrow> proxy_error" where
  "unexpected tag parts =
     broken (''unexpected frame '' @ show_nat (unat tag) @ '' with '' @ show_nat (length parts)
       @ '' fields'')"

text \<open>What refuses the worker's report on its confinement, if anything does.\<close>

definition not_sandboxed :: "string \<Rightarrow> proxy_error" where
  "not_sandboxed report =
     error_io ''starting the PAC worker''
       (''the worker is not sandboxed ('' @ report @ ''), and the evaluator does not allow that'')"

definition sandbox_refusal :: "bool \<Rightarrow> u8 \<Rightarrow> string list \<Rightarrow> proxy_error option" where
  "sandbox_refusal allow_unsandboxed tag parts =
     (if tag = SANDBOX \<and> length parts = 1
      then (if hd parts \<noteq> SECCOMP \<and> \<not> allow_unsandboxed
            then Some (not_sandboxed (hd parts)) else None)
      else Some (unexpected tag parts))"

text \<open>Outside a worker no parent answers in the resolver's place.\<close>

definition parent_dns :: "(string \<Rightarrow> ip_addr list option) \<Rightarrow> dns" where
  "parent_dns lookup = \<lparr> ask_parent = (\<lambda>_. None), lookup_host = lookup \<rparr>"

definition lookup_answer ::
    "(string \<Rightarrow> ip_addr list option) \<Rightarrow> pac_policy \<Rightarrow> string \<Rightarrow> string" where
  "lookup_answer lookup p host_text =
     (case resolve_ipv4 (parent_dns lookup) p host_text of None \<Rightarrow> [] | Some a \<Rightarrow> show_ipv4 a)"

lemma read_frame_shrinks: "read_frame limit s = Inr (frame, rest) \<Longrightarrow> length rest < length s"
  by (auto simp: read_frame_def read_exact_def Let_def split: sum.splits if_splits) arith

text \<open>The loop of \<open>converse\<close> on what the worker says from here on; the second component is all
  it was sent.\<close>

function converse_loop ::
    "pipe \<Rightarrow> (string \<Rightarrow> ip_addr list option) \<Rightarrow> pac_policy \<Rightarrow> string \<Rightarrow> string
       \<Rightarrow> (proxy_error + string) \<times> string" where
  "converse_loop P lookup p sent said =
     (case read_frame MAX_WORKER_FRAME said of
        Inl e \<Rightarrow> (Inl (broken e), sent)
      | Inr ((tag, parts), rest) \<Rightarrow>
          if tag = LOOKUP \<and> length parts = 1 then
            (case write_frame P ANSWER [lookup_answer lookup p (hd parts)] sent of
               (Some e, sent') \<Rightarrow> (Inl (broken e), sent')
             | (None, sent') \<Rightarrow> converse_loop P lookup p sent' rest)
          else if tag = DONE \<and> length parts = 1 then (Inr (hd parts), sent)
          else if tag = FAILED \<and> length parts = 1
          then (Inl (error_pac_evaluation (hd parts)), sent)
          else (Inl (unexpected tag parts), sent))"
  by pat_completeness auto
termination
  by (relation "measure (\<lambda>(P, lookup, p, sent, said). length said)")
    (auto dest: read_frame_shrinks)

declare converse_loop.simps [simp del]

definition converse ::
    "pipe \<Rightarrow> (string \<Rightarrow> ip_addr list option) \<Rightarrow> pac_policy \<Rightarrow> bool \<Rightarrow> string list \<Rightarrow> string
       \<Rightarrow> (proxy_error + string) \<times> string" where
  "converse P lookup p allow_unsandboxed request said =
     (case write_header P [] of
        (Some e, sent) \<Rightarrow> (Inl (broken e), sent)
      | (None, sent) \<Rightarrow>
          (case read_header said of
             Inl e \<Rightarrow> (Inl (broken e), sent)
           | Inr said1 \<Rightarrow>
               (case read_frame MAX_WORKER_FRAME said1 of
                  Inl e \<Rightarrow> (Inl (broken e), sent)
                | Inr ((tag, parts), said2) \<Rightarrow>
                    (case sandbox_refusal allow_unsandboxed tag parts of
                       Some e \<Rightarrow> (Inl e, sent)
                     | None \<Rightarrow>
                         (case write_frame P EVALUATE request sent of
                            (Some e, sent') \<Rightarrow> (Inl (broken e), sent')
                          | (None, sent') \<Rightarrow> converse_loop P lookup p sent' said2)))))"

section \<open>Starting a worker\<close>

text \<open>The operating system a parent runs on, as far as starting a worker differs.\<close>

datatype worker_os = OnLinux | OnWindows | OnOther

record worker_command =
  wc_program :: string
  wc_env :: "(string \<times> string) list"
  wc_directory :: "string option"
  wc_address_space :: "nat option"

definition limit_address_space :: "worker_command \<Rightarrow> worker_command" where
  "limit_address_space c = c\<lparr>wc_address_space := Some WORKER_ADDRESS_SPACE_LIMIT\<rparr>"

text \<open>A job of Windows: the commit limit of its process, and whether closing it kills.\<close>

record worker_job =
  process_memory_limit :: nat
  kill_on_close :: bool

definition job_limits :: worker_job where
  "job_limits = \<lparr> process_memory_limit = WORKER_COMMIT_LIMIT, kill_on_close = True \<rparr>"

text \<open>\<open>create\<close>, \<open>limit\<close> and \<open>assign\<close> are the answers of the system calls: an error each.\<close>

definition job_confine ::
    "string option \<Rightarrow> string option \<Rightarrow> string option \<Rightarrow> string + worker_job" where
  "job_confine create limit assign =
     (case or_else create (or_else limit assign) of Some e \<Rightarrow> Inl e | None \<Rightarrow> Inr job_limits)"

text \<open>What the system gives a start: the directory of a path, \<open>SystemRoot\<close>, the new process or
  the error, and the job. \<open>killed\<close> tells whether the process was killed at once.\<close>

record 'c starting =
  is_absolute :: "string \<Rightarrow> bool"
  parent_of :: "string \<Rightarrow> string option"
  system_root :: "string option"
  spawn_child :: "worker_command \<Rightarrow> string + 'c"
  confine_child :: "'c \<Rightarrow> string + worker_job"

definition worker_command_of :: "worker_os \<Rightarrow> 'c starting \<Rightarrow> string \<Rightarrow> worker_command" where
  "worker_command_of os S path =
     (let c = \<lparr> wc_program = path,
                wc_env = (case (os, system_root S) of
                            (OnWindows, Some v) \<Rightarrow> [(''SystemRoot'', v)] | _ \<Rightarrow> []),
                wc_directory = (case parent_of S path of
                                  Some d \<Rightarrow> if d = [] then None else Some d | None \<Rightarrow> None),
                wc_address_space = None \<rparr>
      in if os = OnLinux then limit_address_space c else c)"

definition worker_start ::
    "worker_os \<Rightarrow> 'c starting \<Rightarrow> string \<Rightarrow> proxy_error + 'c \<times> worker_job option" where
  "worker_start os S path =
     (if \<not> is_absolute S path
      then Inl (error_io ''starting the PAC worker'' ''the worker path is not absolute'')
      else (case spawn_child S (worker_command_of os S path) of
              Inl e \<Rightarrow> Inl (error_io ''starting the PAC worker'' e)
            | Inr child \<Rightarrow>
                if os = OnWindows then
                  (case confine_child S child of
                     Inl e \<Rightarrow> Inl (error_io (''limiting the PAC worker'' @ [CHR 0x27] @ ''s memory'') e)
                   | Inr job \<Rightarrow> Inr (child, Some job))
                else Inr (child, None)))"

section \<open>An evaluation\<close>

record subprocess_evaluator =
  se_worker :: string
  se_policy :: pac_policy
  se_allow_unsandboxed :: bool

definition subprocess_new :: "string \<Rightarrow> pac_policy \<Rightarrow> subprocess_evaluator" where
  "subprocess_new path p = \<lparr> se_worker = path, se_policy = p, se_allow_unsandboxed = False \<rparr>"

definition subprocess_allow_unsandboxed :: "subprocess_evaluator \<Rightarrow> subprocess_evaluator" where
  "subprocess_allow_unsandboxed ev = ev\<lparr>se_allow_unsandboxed := True\<rparr>"

definition killed_by_filter :: string where
  "killed_by_filter =
     ''the PAC worker'' @ [CHR 0x27] @ ''s seccomp filter killed it: the script led it to a ''
       @ ''system call outside what an evaluation needs''"

text \<open>\<open>killed_by_seccomp\<close> is what waiting for the process shows, asked of on Linux only.\<close>

definition evaluation_outcome ::
    "external \<Rightarrow> worker_os \<Rightarrow> nat option \<Rightarrow> bool \<Rightarrow> (proxy_error + string) reply
       \<Rightarrow> proxy_error + proxy_step list" where
  "evaluation_outcome E os timeout killed_by_seccomp received =
     (case received of
        Answered (Inr raw) \<Rightarrow> parse_find_proxy_result E raw
      | Answered (Inl e) \<Rightarrow>
          if os = OnLinux \<and> killed_by_seccomp then Inl (error_pac_evaluation killed_by_filter)
          else Inl e
      | TimedOut \<Rightarrow> Inl (PacTimeout (unwrap_or 0 timeout))
      | Disconnected \<Rightarrow>
          Inl (error_pac_evaluation ''the PAC worker thread ended without producing a result''))"

text \<open>\<open>received\<close> is what the conversation of a child gives within the budget.\<close>

definition subprocess_evaluate ::
    "external \<Rightarrow> url_ops \<Rightarrow> worker_os \<Rightarrow> 'c starting \<Rightarrow> nat \<Rightarrow> bool \<Rightarrow> string option \<Rightarrow> bool
       \<Rightarrow> ('c \<Rightarrow> string list \<Rightarrow> bool \<Rightarrow> (proxy_error + string) reply)
       \<Rightarrow> subprocess_evaluator \<Rightarrow> string \<Rightarrow> url \<Rightarrow> string \<Rightarrow> proxy_error + proxy_step list" where
  "subprocess_evaluate E U os S limit acquired thread_error killed_by_seccomp received ev
     script u host_text =
     (let shown = sanitize_url U u; timeout = pp_timeout (se_policy ev) in
      if timeout = Some 0 then Inl (PacTimeout 0)
      else if \<not> acquired then Inl (PacSaturated (unwrap_or 0 timeout) limit)
      else (case worker_start os S (se_worker ev) of
              Inl e \<Rightarrow> Inl e
            | Inr (child, job) \<Rightarrow>
                (let request = evaluate_request script (as_str shown) host_text (se_policy ev) in
                 case thread_error of
                   Some e \<Rightarrow> Inl (error_io ''spawning the PAC worker thread'' e)
                 | None \<Rightarrow>
                     evaluation_outcome E os timeout killed_by_seccomp
                       (received child request (se_allow_unsandboxed ev)))))"

section \<open>The worker's half\<close>

text \<open>What the engine does in the worker: each name it asks for, then its end.\<close>

datatype script_run =
    RawAnswer string
  | RawFailure proxy_error
  | AskFor string "ipv4_bits option \<Rightarrow> script_run"

type_synonym raw_engine = "string \<Rightarrow> string \<Rightarrow> string \<Rightarrow> pac_policy \<Rightarrow> script_run"

text \<open>\<open>PacEvaluation\<close> is sent as its reason, any other error as its text.\<close>

definition failure_reason :: "foreign_debug \<Rightarrow> proxy_error \<Rightarrow> string" where
  "failure_reason F e = (case e of PacEvaluation reason \<Rightarrow> reason | _ \<Rightarrow> error_display F e)"

definition read_answer :: "string \<Rightarrow> string + ipv4_bits option \<times> string" where
  "read_answer heard =
     (case read_frame USIZE_MAX heard of
        Inl e \<Rightarrow> Inl e
      | Inr ((tag, parts), rest) \<Rightarrow>
          if tag = ANSWER \<and> length parts = 1 then
            (if hd parts = [] then Inr (None, rest)
             else (case parse_ipv4 (hd parts) of
                     None \<Rightarrow> Inl ''an unreadable address''
                   | Some a \<Rightarrow> Inr (Some a, rest)))
          else Inl ''a reply that is not an answer'')"

primrec serve_run ::
    "foreign_debug \<Rightarrow> pipe \<Rightarrow> script_run \<Rightarrow> string \<Rightarrow> string \<Rightarrow> bool \<times> string" where
  "serve_run F P (RawAnswer raw) heard said =
     (case write_frame P DONE [raw] said of (e, said') \<Rightarrow> (e = None, said'))"
| "serve_run F P (RawFailure e) heard said =
     (case write_frame P FAILED [failure_reason F e] said of (e, said') \<Rightarrow> (e = None, said'))"
| "serve_run F P (AskFor host_text k) heard said =
     (case write_frame P LOOKUP [host_text] said of
        (Some e, said') \<Rightarrow> (False, said')
      | (None, said') \<Rightarrow>
          (case read_answer heard of
             Inl e \<Rightarrow> (False, said')
           | Inr (answer, rest) \<Rightarrow> serve_run F P (k answer) rest said'))"

definition confine_report :: "bool \<Rightarrow> string option \<Rightarrow> string" where
  "confine_report has_filter refused =
     (if has_filter then
        (case refused of
           None \<Rightarrow> SECCOMP
         | Some e \<Rightarrow> ''the kernel refused the seccomp filter: '' @ e)
      else ''the worker has no sandbox on this platform'')"

text \<open>\<open>False\<close> is the exit with failure; the second component is all the worker said.\<close>

definition serve_worker ::
    "foreign_debug \<Rightarrow> raw_engine \<Rightarrow> pipe \<Rightarrow> string \<Rightarrow> string \<Rightarrow> bool \<times> string" where
  "serve_worker F engine P sandbox heard =
     (case also_write (write_frame P SANDBOX [sandbox]) (write_header P []) of
        (Some e, said) \<Rightarrow> (False, said)
      | (None, said) \<Rightarrow>
          (case read_header heard of
             Inl e \<Rightarrow> (False, said)
           | Inr heard1 \<Rightarrow>
               (case read_frame USIZE_MAX heard1 of
                  Inl e \<Rightarrow> (False, said)
                | Inr ((tag, parts), heard2) \<Rightarrow>
                    if tag = EVALUATE \<and> length parts = 6 then
                      (case worker_policy parts of
                         Inl e \<Rightarrow> (False, said)
                       | Inr p \<Rightarrow>
                           serve_run F P
                             (engine (parts ! 0) (parts ! 1) (parts ! 2) p) heard2 said)
                    else (False, said))))"

end
