(* ===== verification/Pac_Worker_Facts.thy ===== *)
theory Pac_Worker_Facts
  imports Pac_Worker Endpoint_Facts Net_Addr_Facts
begin

text \<open>
  The worker's protocol: a frame is read as it was written, a request as the policy it was made
  from, and what the two halves say to each other adds up to the evaluation the parent would
  have made itself. What a worker of any kind can make the parent say, and when it is sent
  the script at all.
\<close>

section \<open>Bytes\<close>

lemma byte_val_char_of [simp]: "byte_val (char_of n) = n mod 256"
  by (simp add: byte_val_def)

lemma u8_of_byte_val [simp]: "(of_nat (byte_val (char_of (unat t))) :: u8) = t"
proof -
  have "unat t < 2 ^ LENGTH(8)" by (rule unsigned_less)
  then have "byte_val (char_of (unat t)) = unat t" by simp
  then show ?thesis by simp
qed

lemma length_le_bytes [simp]: "length (le_bytes n v) = n"
  by (induction n arbitrary: v) auto

lemma le_value_le_bytes [simp]: "v < 256 ^ n \<Longrightarrow> le_value (le_bytes n v) = v"
proof (induction n arbitrary: v)
  case 0
  then show ?case by simp
next
  case (Suc n)
  then have "v div 256 < 256 ^ n" by (simp add: less_mult_imp_div_less mult.commute)
  with Suc.IH [OF this] show ?case by simp
qed

section \<open>Text\<close>

lemma from_utf8_valid [simp]: "valid_utf8 s \<Longrightarrow> from_utf8 s = Some s"
  by (simp add: from_utf8_def)

lemma ascii_byte: "ascii_char c \<Longrightarrow> byte_val c < 128"
  by (cases c) (auto simp: ascii_char_def byte_val_def of_char_def horner_sum_simps)

lemma utf8_ascii: "is_ascii s \<Longrightarrow> valid_utf8 s"
  by (induction s) (auto simp: is_ascii_def ascii_byte Let_def)

section \<open>Frames\<close>

definition body_size :: "string list \<Rightarrow> nat" where
  "body_size parts = 1 + sum_list (map (\<lambda>p. 4 + length p) parts)"

definition part_bytes :: "string list \<Rightarrow> string" where
  "part_bytes parts = concat (map (\<lambda>p. le_bytes 4 (length p) @ p) parts)"

definition frame :: "u8 \<Rightarrow> string list \<Rightarrow> string" where
  "frame tag parts = le_bytes 4 (body_size parts) @ char_of (unat tag) # part_bytes parts"

lemma part_bytes_simps [simp]:
  "part_bytes [] = []"
  "part_bytes (p # parts) = le_bytes 4 (length p) @ p @ part_bytes parts"
  by (simp_all add: part_bytes_def)

lemma length_part_bytes: "length (part_bytes parts) + 1 = body_size parts"
  by (induction parts) (simp_all add: body_size_def)

lemma body_size_Cons [simp]: "body_size (p # parts) = 4 + length p + body_size parts"
  by (simp add: body_size_def)

lemma body_size_Nil [simp]: "body_size [] = 1"
  by (simp add: body_size_def)

lemma frame_fields_fits:
  "body_size parts < 2 ^ 32 \<Longrightarrow> frame_fields parts = Inr (part_bytes parts)"
  by (induction parts) (auto simp: length_bytes_def)

lemma write_frame_open:
  assumes "body_size parts < 2 ^ 32"
  shows "write_frame open_pipe tag parts sent = (None, sent @ frame tag parts)"
  using assms length_part_bytes [of parts]
  by (simp add: write_frame_def frame_fields_fits length_bytes_def also_write_def write_all_def
      open_pipe_def frame_def)

lemma read_fields_Cons:
  assumes "length p < 2 ^ 32" "valid_utf8 p"
  shows "read_fields (le_bytes 4 (length p) @ p @ rest) =
    (case read_fields rest of Inl e \<Rightarrow> Inl e | Inr parts \<Rightarrow> Inr (p # parts))"
proof -
  have "le_value (le_bytes 4 (length p)) = length p" using assms by simp
  moreover have "le_bytes 4 (length p) \<noteq> []" using length_le_bytes [of 4 "length p"] by fastforce
  ultimately show ?thesis
    using assms by (subst read_fields.simps) (auto simp: Let_def)
qed

lemma read_fields_part_bytes:
  "list_all valid_utf8 parts \<Longrightarrow> body_size parts < 2 ^ 32 \<Longrightarrow> read_fields (part_bytes parts) = Inr parts"
proof (induction parts)
  case Nil
  then show ?case by (simp add: read_fields.simps)
next
  case (Cons p parts)
  then have "length p < 2 ^ 32" "valid_utf8 p" "read_fields (part_bytes parts) = Inr parts" by auto
  then show ?case by (simp add: read_fields_Cons)
qed

lemma read_frame_frame:
  assumes "list_all valid_utf8 parts" "body_size parts < 2 ^ 32" "body_size parts \<le> limit"
  shows "read_frame limit (frame tag parts @ rest) = Inr ((tag, parts), rest)"
proof -
  define body where "body = char_of (unat tag) # part_bytes parts"
  have len: "length body = body_size parts"
    using length_part_bytes [of parts] by (simp add: body_def)
  have "le_value (le_bytes 4 (length body)) = length body" using assms len by simp
  moreover have "0 < length body" by (simp add: body_def)
  moreover have "(of_nat (byte_val (hd body)) :: u8) = tag" "tl body = part_bytes parts"
    by (simp_all add: body_def del: byte_val_char_of)
  ultimately show ?thesis
    using assms read_fields_part_bytes [OF assms(1,2)]
    by (simp add: read_frame_def read_exact_def frame_def flip: len body_def)
qed

definition header :: string where
  "header = MAGIC @ le_bytes 2 (unat VERSION)"

lemma write_header_open: "write_header open_pipe sent = (None, sent @ header)"
  by (simp add: write_header_def also_write_def write_all_def open_pipe_def header_def)

lemma read_header_header: "read_header (header @ rest) = Inr rest"
proof -
  have "length header = 8" by (simp add: header_def MAGIC_def)
  moreover have "take 6 header = MAGIC" "le_value (drop 6 header) = unat VERSION"
    by (simp_all add: header_def MAGIC_def VERSION_def)
  ultimately show ?thesis by (simp add: read_header_def read_exact_def)
qed

section \<open>What goes out\<close>

lemma also_write_cases:
  "also_write f w = (case w of (Some e, sent) \<Rightarrow> (Some e, sent) | (None, sent) \<Rightarrow> f sent)"
  by (simp add: also_write_def)

lemma write_frame_sent:
  "prefix sent (snd (write_frame P tag parts sent)) \<and>
   prefix (snd (write_frame P tag parts sent)) (sent @ frame tag parts) \<and>
   (fst (write_frame P tag parts sent) = None \<longrightarrow>
      snd (write_frame P tag parts sent) = sent @ frame tag parts)"
proof (cases "frame_fields parts")
  case (Inl e)
  then show ?thesis by (simp add: write_frame_def)
next
  case (Inr rest)
  then have rest: "rest = part_bytes parts"
    by (induction parts arbitrary: rest) (auto simp: length_bytes_def split: sum.splits if_splits)
  have "Suc (length (part_bytes parts)) = body_size parts" using length_part_bytes [of parts] by simp
  with rest Inr show ?thesis
    by (auto simp: write_frame_def length_bytes_def Let_def also_write_cases write_all_def frame_def
        split: option.splits prod.splits)
qed

lemma write_header_sent:
  "prefix (snd (write_header P [])) header \<and>
   (fst (write_header P []) = None \<longrightarrow> snd (write_header P []) = header)"
  by (auto simp: write_header_def also_write_cases write_all_def header_def split: option.splits)

definition answer_frames ::
    "(string \<Rightarrow> ip_addr list option) \<Rightarrow> pac_policy \<Rightarrow> string list \<Rightarrow> string" where
  "answer_frames lookup p hosts = concat (map (\<lambda>h. frame ANSWER [lookup_answer lookup p h]) hosts)"

lemma converse_loop_sent:
  "\<exists>hosts. prefix (snd (converse_loop P lookup p sent said)) (sent @ answer_frames lookup p hosts)"
proof (induction P lookup p sent said rule: converse_loop.induct)
  case (1 P lookup p sent said)
  have none: "\<exists>hosts. prefix sent (sent @ answer_frames lookup p hosts)" by simp
  show ?case
  proof (cases "read_frame MAX_WORKER_FRAME said")
    case (Inl e)
    with none show ?thesis by (simp add: converse_loop.simps)
  next
    case (Inr r)
    obtain tag parts rest where r: "r = ((tag, parts), rest)" by (metis surj_pair)
    show ?thesis
    proof (cases "tag = LOOKUP \<and> length parts = 1")
      case False
      with Inr r none show ?thesis
        by (subst converse_loop.simps) (auto split: if_splits)
    next
      case True
      let ?w = "write_frame P ANSWER [lookup_answer lookup p (hd parts)] sent"
      obtain e sent' where w: "?w = (e, sent')" by fastforce
      show ?thesis
      proof (cases e)
        case None
        then have sent': "sent' = sent @ frame ANSWER [lookup_answer lookup p (hd parts)]"
          using write_frame_sent [of sent P ANSWER "[lookup_answer lookup p (hd parts)]"] w by simp
        from 1 [OF Inr r [symmetric] refl True w [symmetric] None] obtain hosts where
          "prefix (snd (converse_loop P lookup p sent' rest)) (sent' @ answer_frames lookup p hosts)"
          by blast
        with sent' have "prefix (snd (converse_loop P lookup p sent' rest))
            (sent @ answer_frames lookup p (hd parts # hosts))"
          by (simp add: answer_frames_def)
        with None w True Inr r show ?thesis by (subst converse_loop.simps) auto
      next
        case (Some err)
        have "prefix sent' (sent @ answer_frames lookup p [hd parts])"
          using write_frame_sent [of sent P ANSWER "[lookup_answer lookup p (hd parts)]"] w
          by (simp add: answer_frames_def)
        with Some w True Inr r show ?thesis by (subst converse_loop.simps) auto
      qed
    qed
  qed
qed

text \<open>The report on its confinement the worker opens with.\<close>

definition sandbox_report :: "string \<Rightarrow> string option" where
  "sandbox_report said =
     (case read_header said of
        Inl _ \<Rightarrow> None
      | Inr s1 \<Rightarrow>
          (case read_frame MAX_WORKER_FRAME s1 of
             Inl _ \<Rightarrow> None
           | Inr ((tag, parts), _) \<Rightarrow>
               if tag = SANDBOX \<and> length parts = 1 then Some (hd parts) else None))"

definition admits :: "bool \<Rightarrow> string \<Rightarrow> bool" where
  "admits allow_unsandboxed said \<longleftrightarrow>
     (case sandbox_report said of
        None \<Rightarrow> False | Some report \<Rightarrow> report = SECCOMP \<or> allow_unsandboxed)"

lemma converse_refuses:
  "\<not> admits allow said \<Longrightarrow>
     prefix (snd (converse P lookup p allow request said)) header \<and>
     \<not> is_ok (fst (converse P lookup p allow request said))"
  using write_header_sent [of P]
  by (auto simp: converse_def admits_def sandbox_report_def sandbox_refusal_def
      split: prod.splits option.splits sum.splits if_splits)

lemma converse_admitted:
  "\<exists>hosts. prefix (snd (converse P lookup p allow request said))
     (header @ frame EVALUATE request @ answer_frames lookup p hosts)"
proof (cases "snd (converse P lookup p allow request said) = snd (write_header P [])")
  case True
  then show ?thesis using write_header_sent [of P] by (metis prefix_prefix)
next
  case False
  then obtain said2 where
    "converse P lookup p allow request said =
       (case write_frame P EVALUATE request header of
          (Some e, sent') \<Rightarrow> (Inl (broken e), sent')
        | (None, sent') \<Rightarrow> converse_loop P lookup p sent' said2)"
    using write_header_sent [of P]
    by (auto simp: converse_def split: prod.splits option.splits sum.splits if_splits)
  moreover obtain e sent' where w: "write_frame P EVALUATE request header = (e, sent')"
    by fastforce
  moreover have "prefix sent' (header @ frame EVALUATE request @ answer_frames lookup p [])"
    using write_frame_sent [of header P EVALUATE request] w by (simp add: answer_frames_def)
  ultimately show ?thesis
    using write_frame_sent [of header P EVALUATE request]
      converse_loop_sent [of P lookup p sent' said2]
    by (cases e) auto
qed

section \<open>The two halves together\<close>

text \<open>The evaluation with its lookups answered where it runs, the frames a worker says for it and
  those it hears, and whether the parent takes them all.\<close>

primrec run_here ::
    "(string \<Rightarrow> ip_addr list option) \<Rightarrow> pac_policy \<Rightarrow> script_run \<Rightarrow> proxy_error + string" where
  "run_here lookup p (RawAnswer raw) = Inr raw"
| "run_here lookup p (RawFailure e) = Inl e"
| "run_here lookup p (AskFor h k) = run_here lookup p (k (resolve_ipv4 (parent_dns lookup) p h))"

primrec says ::
    "foreign_debug \<Rightarrow> (string \<Rightarrow> ip_addr list option) \<Rightarrow> pac_policy \<Rightarrow> script_run
       \<Rightarrow> string" where
  "says F lookup p (RawAnswer raw) = frame DONE [raw]"
| "says F lookup p (RawFailure e) = frame FAILED [failure_reason F e]"
| "says F lookup p (AskFor h k) =
     frame LOOKUP [h] @ says F lookup p (k (resolve_ipv4 (parent_dns lookup) p h))"

primrec hears ::
    "(string \<Rightarrow> ip_addr list option) \<Rightarrow> pac_policy \<Rightarrow> script_run \<Rightarrow> string" where
  "hears lookup p (RawAnswer raw) = []"
| "hears lookup p (RawFailure e) = []"
| "hears lookup p (AskFor h k) =
     frame ANSWER [lookup_answer lookup p h]
       @ hears lookup p (k (resolve_ipv4 (parent_dns lookup) p h))"

definition part_ok :: "string \<Rightarrow> bool" where
  "part_ok s \<longleftrightarrow> valid_utf8 s \<and> length s + 5 \<le> MAX_WORKER_FRAME"

primrec run_fits ::
    "foreign_debug \<Rightarrow> (string \<Rightarrow> ip_addr list option) \<Rightarrow> pac_policy \<Rightarrow> script_run
       \<Rightarrow> bool" where
  "run_fits F lookup p (RawAnswer raw) \<longleftrightarrow> part_ok raw"
| "run_fits F lookup p (RawFailure e) \<longleftrightarrow> part_ok (failure_reason F e)"
| "run_fits F lookup p (AskFor h k) \<longleftrightarrow>
     part_ok h \<and> run_fits F lookup p (k (resolve_ipv4 (parent_dns lookup) p h))"

lemma read_part_frame:
  "part_ok s \<Longrightarrow> read_frame MAX_WORKER_FRAME (frame tag [s] @ rest) = Inr ((tag, [s]), rest)"
  "part_ok s \<Longrightarrow> read_frame MAX_WORKER_FRAME (frame tag [s]) = Inr ((tag, [s]), [])"
  using read_frame_frame [of "[s]" MAX_WORKER_FRAME tag rest]
    read_frame_frame [of "[s]" MAX_WORKER_FRAME tag "[]"]
  by (simp_all add: part_ok_def MAX_WORKER_FRAME_def)

lemma write_part_frame:
  "part_ok s \<Longrightarrow> write_frame open_pipe tag [s] sent = (None, sent @ frame tag [s])"
  by (rule write_frame_open) (simp add: part_ok_def MAX_WORKER_FRAME_def)

lemma length_show_ipv4: "length (show_ipv4 a) \<le> 15"
  using parse_show_ipv4 [of a] by (simp add: parse_ipv4_def split: if_splits)

lemma is_ascii_show_ipv4: "is_ascii (show_ipv4 a)"
  using octet_dots [of _ a]
  by (auto simp: is_ascii_def list_all_iff ascii_char_def dest!: octet_dots is_digit_ascii)

lemma answer_length: "length (lookup_answer lookup p h) \<le> 15"
  using length_show_ipv4 by (auto simp: lookup_answer_def split: option.splits)

lemma answer_utf8: "valid_utf8 (lookup_answer lookup p h)"
  using utf8_ascii [OF is_ascii_show_ipv4] by (auto simp: lookup_answer_def split: option.splits)

lemma answer_ok: "part_ok (lookup_answer lookup p h)"
  using answer_length [of lookup p h] by (simp add: part_ok_def answer_utf8 MAX_WORKER_FRAME_def)

lemma read_answer_frame:
  "read_answer (frame ANSWER [lookup_answer lookup p h] @ rest) =
     Inr (resolve_ipv4 (parent_dns lookup) p h, rest)"
proof -
  have "read_frame USIZE_MAX (frame ANSWER [lookup_answer lookup p h] @ rest)
      = Inr ((ANSWER, [lookup_answer lookup p h]), rest)"
    by (rule read_frame_frame)
      (use answer_ok [of lookup p h] in \<open>auto simp: part_ok_def USIZE_MAX_def MAX_WORKER_FRAME_def\<close>)
  then show ?thesis
    by (auto simp: read_answer_def lookup_answer_def parse_show_ipv4 split: option.splits)
qed

lemma converse_loop_says:
  "run_fits F lookup p run \<Longrightarrow>
     converse_loop open_pipe lookup p sent (says F lookup p run) =
       (map_err (\<lambda>e. error_pac_evaluation (failure_reason F e)) (run_here lookup p run),
        sent @ hears lookup p run)"
proof (induction run arbitrary: sent)
  case (RawAnswer raw)
  then show ?case
    by (subst converse_loop.simps) (simp add: read_part_frame worker_tags)
next
  case (RawFailure e)
  then show ?case
    by (subst converse_loop.simps) (simp add: read_part_frame worker_tags)
next
  case (AskFor h k)
  then show ?case
    by (subst converse_loop.simps)
      (simp add: read_part_frame write_part_frame answer_ok)
qed

lemma serve_run_hears:
  "run_fits F lookup p run \<Longrightarrow>
     serve_run F open_pipe run (hears lookup p run) said =
       (True, said @ says F lookup p run)"
  by (induction run arbitrary: said) (simp_all add: write_part_frame read_answer_frame)

section \<open>The request\<close>

lemma show_nat_signless:
  "strip_prefix ''-'' (show_nat n) = None" "strip_prefix ''+'' (show_nat n) = None"
proof -
  obtain c cs where c: "show_nat n = c # cs" by (cases "show_nat n") auto
  then have "is_digit c" using show_nat_digits [of c n] by simp
  with c show "strip_prefix ''-'' (show_nat n) = None" "strip_prefix ''+'' (show_nat n) = None"
    by (auto simp: is_digit_def)
qed

lemma parse_i32_show_int:
  assumes "- 2147483648 \<le> n" "n \<le> 2147483647"
  shows "parse_i32 (show_int n) = Some n"
proof (cases "n < 0")
  case True
  with assms show ?thesis by (simp add: parse_i32_def show_int_def)
next
  case False
  obtain c cs where c: "show_nat (nat n) = c # cs" by (cases "show_nat (nat n)") auto
  then have "is_digit c" using show_nat_digits [of c "nat n"] by simp
  then have "c \<noteq> CHR ''-''" "c \<noteq> CHR ''+''" by (auto simp: is_digit_def)
  moreover have "all_digits (c # cs)" "digits_value 0 (c # cs) = nat n"
    using all_digits_show_nat [of "nat n"] digits_value_show_nat [of "nat n"] unfolding c by auto
  ultimately show ?thesis
    using False assms by (simp add: parse_i32_def show_int_def c del: digits_value.simps)
qed

lemma parse_u128_show_nat: "n < 2 ^ 128 \<Longrightarrow> parse_u128 (show_nat n) = Some n"
  by (simp add: parse_u128_def show_nat_signless)

lemma nanos_bound:
  assumes "fits_i64 (t div 1000000000)"
  shows "nat \<bar>t\<bar> < 2 ^ 128" "nat \<bar>t\<bar> div 1000000000 < 2 ^ 64"
  using assms by (auto simp: fits_i64_def I64_MIN_def I64_MAX_def nat_less_iff less_mult_imp_div_less)

lemma worker_clock_show:
  assumes "fits_i64 (now div 1000000000)"
  shows "worker_clock (show_int now) = Inr (Some now)"
proof (cases "now < 0")
  case True
  then have "parse_u128 (show_nat (nat (- now))) = Some (nat (- now))"
    "nat (- now) div 1000000000 < 2 ^ 64" "int (nat (- now)) = - now"
    using nanos_bound [OF assms] by (simp_all add: parse_u128_show_nat)
  then show ?thesis
    using True assms by (simp add: worker_clock_def show_int_def checked_time_def)
next
  case False
  then have "parse_u128 (show_nat (nat now)) = Some (nat now)"
    "nat now div 1000000000 < 2 ^ 64" "int (nat now) = now"
    using nanos_bound [OF assms] by (simp_all add: parse_u128_show_nat)
  then show ?thesis
    using False assms by (simp add: worker_clock_def show_int_def checked_time_def show_nat_signless)
qed

text \<open>What a value of \<open>PacPolicy\<close> is by its type: an \<open>i32\<close> and a \<open>SystemTime\<close>.\<close>

definition policy_values :: "pac_policy \<Rightarrow> bool" where
  "policy_values p \<longleftrightarrow>
     - 2147483648 \<le> local_utc_offset p \<and> local_utc_offset p \<le> 2147483647
     \<and> (case pinned_now p of None \<Rightarrow> True | Some now \<Rightarrow> fits_i64 (now div 1000000000))"

text \<open>The policy of the worker: no lookups of its own, no deadline.\<close>

definition worker_view :: "pac_policy \<Rightarrow> pac_policy" where
  "worker_view p =
     p\<lparr>resolve_dns := False, allow_internal_addresses := False,
       own_address := Some (policy_my_ip_address p), pp_timeout := None\<rparr>"

lemma request_parts:
  "length (evaluate_request script u h p) = 6"
  "evaluate_request script u h p ! 0 = script"
  "evaluate_request script u h p ! 1 = u"
  "evaluate_request script u h p ! 2 = h"
  "evaluate_request script u h p ! 3 = show_ip (policy_my_ip_address p)"
  "evaluate_request script u h p ! 4 = show_int (local_utc_offset p)"
  "evaluate_request script u h p ! 5 = (case pinned_now p of None \<Rightarrow> [] | Some now \<Rightarrow> show_int now)"
  by (simp_all add: evaluate_request_def)

lemma worker_policy_request:
  assumes "policy_values p"
  shows "worker_policy (evaluate_request script u h p) = Inr (worker_view p)"
proof -
  have "parse_i32 (show_int (local_utc_offset p)) = Some (local_utc_offset p)"
    using assms by (intro parse_i32_show_int) (simp_all add: policy_values_def)
  moreover have "worker_clock (case pinned_now p of None \<Rightarrow> [] | Some now \<Rightarrow> show_int now)
      = Inr (pinned_now p)"
    using assms worker_clock_show
    by (cases "pinned_now p") (simp_all add: policy_values_def worker_clock_def)
  ultimately show ?thesis
    by (cases p; cases "pinned_now p")
      (simp_all add: worker_policy_def request_parts parse_show_ip worker_view_def policy_new_def
        with_timeout_def with_my_ip_address_def with_local_utc_offset_def with_now_def)
qed

section \<open>Properties\<close>

text \<open>A frame is read back as it was written, with what follows it untouched, when its
  parts are UTF-8 and it is no longer than the reader takes.\<close>

theorem a_frame_is_read_as_written:
  assumes "list_all valid_utf8 parts" "body_size parts < 2 ^ 32" "body_size parts \<le> limit"
  shows "read_frame limit (snd (write_frame open_pipe tag parts []) @ rest)
    = Inr ((tag, parts), rest)"
  using read_frame_frame [OF assms] write_frame_open [OF assms(2), of tag "[]"] by simp

theorem a_frame_is_read_as_written_witness:
  "read_frame 20 (snd (write_frame open_pipe LOOKUP [''example.org''] []) @ ''next'')
    = Inr ((LOOKUP, [''example.org'']), ''next'')"
  by (rule a_frame_is_read_as_written) code_simp+

text \<open>C20. Whatever a worker says, one that does not report the seccomp filter is sent nothing but
  the protocol's header, so not the script, unless the evaluator allows it; and the evaluation
  fails.\<close>

theorem an_unconfined_worker_is_sent_no_script:
  "if admits allow said then True
   else prefix (snd (converse P lookup p allow request said)) header
     \<and> \<not> is_ok (fst (converse P lookup p allow request said))"
  using converse_refuses by auto

lemma no_lookup_no_answer: "\<not> resolve_dns p \<Longrightarrow> lookup_answer lookup p h = []"
  by (simp add: lookup_answer_def resolve_ipv4_def parent_dns_def)

lemma answer_not_internal:
  "\<not> allow_internal_addresses p \<Longrightarrow> resolve_ipv4 (parent_dns lookup) p h = Some a \<Longrightarrow>
     \<not> is_internal (IpV4 a)"
  by (auto simp: resolve_ipv4_def parent_dns_def find_Some_iff split: if_splits option.splits)

text \<open>Whatever a worker says, all it is sent is the header, the request, and one answer for
  each of its lookups in their order, each the parent's own under the policy: empty when the
  policy allows no lookup, and never an internal address unless the policy allows one.\<close>

theorem a_worker_hears_only_answers_under_the_policy:
  "\<exists>hosts. prefix (snd (converse P lookup p allow request said))
       (header @ frame EVALUATE request @ answer_frames lookup p hosts)
     \<and> list_all (\<lambda>h. if resolve_dns p then
           (case resolve_ipv4 (parent_dns lookup) p h of
              None \<Rightarrow> True
            | Some a \<Rightarrow> if allow_internal_addresses p then True else \<not> is_internal (IpV4 a))
         else lookup_answer lookup p h = []) hosts"
proof -
  obtain hosts where "prefix (snd (converse P lookup p allow request said))
       (header @ frame EVALUATE request @ answer_frames lookup p hosts)"
    using converse_admitted by blast
  moreover have "list_all (\<lambda>h. if resolve_dns p then
           (case resolve_ipv4 (parent_dns lookup) p h of
              None \<Rightarrow> True
            | Some a \<Rightarrow> if allow_internal_addresses p then True else \<not> is_internal (IpV4 a))
         else lookup_answer lookup p h = []) hosts"
    using no_lookup_no_answer answer_not_internal
    by (auto simp: list_all_iff split: option.splits)
  ultimately show ?thesis by blast
qed

definition whole_said ::
    "foreign_debug \<Rightarrow> (string \<Rightarrow> ip_addr list option) \<Rightarrow> pac_policy \<Rightarrow> script_run
       \<Rightarrow> string" where
  "whole_said F lookup p run =
     header @ frame SANDBOX [SECCOMP] @ says F lookup p run"

lemma seccomp_ok: "part_ok SECCOMP"
  by code_simp

lemma converse_whole:
  assumes "body_size request < 2 ^ 32" "run_fits F lookup p run"
  shows "converse open_pipe lookup p allow request (whole_said F lookup p run) =
    (map_err (\<lambda>e. error_pac_evaluation (failure_reason F e)) (run_here lookup p run),
     header @ frame EVALUATE request @ hears lookup p run)"
  using assms
  by (simp add: converse_def whole_said_def write_header_open read_header_header
      read_part_frame seccomp_ok sandbox_refusal_def write_frame_open converse_loop_says)

lemma serve_whole:
  assumes "policy_values p" "list_all valid_utf8 (evaluate_request script u h p)"
    "body_size (evaluate_request script u h p) < 2 ^ 32"
    "run = engine script u h (worker_view p)" "run_fits F lookup p run"
  shows "serve_worker F engine open_pipe SECCOMP
      (header @ frame EVALUATE (evaluate_request script u h p) @ hears lookup p run)
    = (True, whole_said F lookup p run)"
proof -
  have "read_frame USIZE_MAX (frame EVALUATE (evaluate_request script u h p) @ hears lookup p run)
      = Inr ((EVALUATE, evaluate_request script u h p), hears lookup p run)"
    using assms(2,3) by (intro read_frame_frame) (simp_all add: USIZE_MAX_def)
  then show ?thesis
    using assms(5) request_parts [of script u h p] worker_policy_request [OF assms(1), of script u h]
    by (simp add: serve_worker_def write_header_open also_write_def write_part_frame seccomp_ok
        read_header_header serve_run_hears whole_said_def flip: assms(4))
qed

text \<open>C21. A parent and a worker of this release, each given what the other says, for a run whose texts
  fit the protocol: the request below 4 GiB, and each host that is looked up, the answer and the
  reason of a failure at most 1 MiB, where the engine in the parent would pass any length. Then the
  worker ends well, and the parent gets the answer or the failure the engine ends with when it runs
  under the policy of the worker (the parent's, without lookups of its own and without a deadline,
  which the parent keeps) and its lookups are resolved under the parent's.\<close>

theorem the_worker_evaluates_for_the_parent:
  assumes "policy_values p" "list_all valid_utf8 (evaluate_request script u h p)"
    "body_size (evaluate_request script u h p) < 2 ^ 32"
    "run_fits F lookup p (engine script u h (worker_view p))"
  shows "let run = engine script u h (worker_view p);
      said = whole_said F lookup p run;
      (result, heard) = converse open_pipe lookup p allow (evaluate_request script u h p) said
    in serve_worker F engine open_pipe SECCOMP heard = (True, said)
      \<and> result = map_err (\<lambda>e. error_pac_evaluation (failure_reason F e))
          (run_here lookup p run)"
  using converse_whole [OF assms(3,4)]
    serve_whole [where engine = engine, OF assms(1-3) refl assms(4)] by simp

definition asking_engine :: raw_engine where
  "asking_engine script u h p =
     AskFor h (\<lambda>a. RawAnswer (case a of None \<Rightarrow> ''DIRECT'' | Some v4 \<Rightarrow> ''PROXY '' @ show_ipv4 v4))"

definition open_policy :: pac_policy where
  "open_policy = with_internal_addresses True (with_dns_resolution True (with_now (- 1) policy_new))"

definition plain_debug :: foreign_debug where
  "plain_debug =
     \<lparr> wide_char = (\<lambda>c. c), io_error_debug = (\<lambda>e. e), url_error_debug = (\<lambda>e. e),
       host_debug = (\<lambda>h. []) \<rparr>"

theorem the_worker_evaluates_for_the_parent_witness:
  "fst (converse open_pipe (\<lambda>h. Some [IpV4 0x0A000001]) open_policy False
      (evaluate_request ''s'' ''http://a/'' ''a'' open_policy)
      (whole_said plain_debug (\<lambda>h. Some [IpV4 0x0A000001]) open_policy
        (asking_engine ''s'' ''http://a/'' ''a'' (worker_view open_policy))))
    = Inr ''PROXY 10.0.0.1''"
proof -
  have "policy_values open_policy"
    "list_all valid_utf8 (evaluate_request ''s'' ''http://a/'' ''a'' open_policy)"
    "body_size (evaluate_request ''s'' ''http://a/'' ''a'' open_policy) < 2 ^ 32"
    by code_simp+
  moreover have "run_fits plain_debug (\<lambda>h. Some [IpV4 0x0A000001]) open_policy
      (asking_engine ''s'' ''http://a/'' ''a'' (worker_view open_policy))" by code_simp
  ultimately have "fst (converse open_pipe (\<lambda>h. Some [IpV4 0x0A000001]) open_policy False
      (evaluate_request ''s'' ''http://a/'' ''a'' open_policy)
      (whole_said plain_debug (\<lambda>h. Some [IpV4 0x0A000001]) open_policy
        (asking_engine ''s'' ''http://a/'' ''a'' (worker_view open_policy))))
    = map_err (\<lambda>e. error_pac_evaluation (failure_reason plain_debug e))
        (run_here (\<lambda>h. Some [IpV4 0x0A000001]) open_policy
          (asking_engine ''s'' ''http://a/'' ''a'' (worker_view open_policy)))"
    using the_worker_evaluates_for_the_parent [of open_policy "''s''" "''http://a/''" "''a''"
        plain_debug "\<lambda>h. Some [IpV4 0x0A000001]" asking_engine False]
    by (auto simp: Let_def split: prod.splits)
  also have "\<dots> = Inr ''PROXY 10.0.0.1''" by code_simp
  finally show ?thesis .
qed

end
