(* ===== verification/Seccomp.thy ===== *)
theory Seccomp
  imports Pac_Worker
begin

unbundle bit_operations_syntax

text \<open>
  The module \<open>seccomp\<close> of \<open>src/pac/subprocess.rs\<close>: the filter a worker puts itself under, built
  as a program of the kernel's packet filter. The numbers of the crate \<open>libc\<close> and the machine
  that runs a program are arguments. \<open>None\<close> is a panic of an \<open>expect\<close>.
\<close>

section \<open>What the system gives\<close>

datatype arch = X86_64 | Aarch64

datatype syscall =
    Sys_exit_group | Sys_exit | Sys_brk | Sys_munmap | Sys_mremap | Sys_madvise | Sys_mprotect
  | Sys_futex | Sys_rt_sigreturn | Sys_rt_sigprocmask | Sys_rt_sigaction | Sys_sigaltstack
  | Sys_clock_gettime | Sys_gettimeofday | Sys_time | Sys_getrandom
  | Sys_read | Sys_write | Sys_writev | Sys_mmap

type_synonym u32 = "32 word"

record libc =
  sys_number :: "syscall \<Rightarrow> int"
  BPF_LD :: u32
  BPF_W :: u32
  BPF_ABS :: u32
  BPF_JMP :: u32
  BPF_JEQ :: u32
  BPF_JGE :: u32
  BPF_K :: u32
  BPF_RET :: u32
  SECCOMP_RET_ALLOW :: u32
  SECCOMP_RET_KILL_PROCESS :: u32

record sock_filter =
  sf_code :: u16
  sf_jt :: u8
  sf_jf :: u8
  sf_k :: u32

section \<open>The filter\<close>

fun ARCH :: "arch \<Rightarrow> u32" where
  "ARCH X86_64 = 0xC000003E"
| "ARCH Aarch64 = 0xC00000B7"

definition NR :: u32 where "NR = 0"
definition ARCH_AT :: u32 where "ARCH_AT = 4"

definition argument :: "u32 \<Rightarrow> u32" where
  "argument index = 16 + 8 * index"

definition ALLOWED :: "arch \<Rightarrow> syscall list" where
  "ALLOWED a =
     [Sys_exit_group, Sys_exit, Sys_brk, Sys_munmap, Sys_mremap, Sys_madvise, Sys_mprotect,
      Sys_futex, Sys_rt_sigreturn, Sys_rt_sigprocmask, Sys_rt_sigaction, Sys_sigaltstack,
      Sys_clock_gettime, Sys_gettimeofday] @ (if a = X86_64 then [Sys_time] else [])
     @ [Sys_getrandom]"

definition WITH_ARGUMENT :: "(syscall \<times> u32 \<times> u32 list) list" where
  "WITH_ARGUMENT =
     [(Sys_read, 0, [0]), (Sys_write, 0, [1, 2]), (Sys_writev, 0, [1, 2]),
      (Sys_mmap, 4, [0xFFFFFFFF])]"

definition jump :: "u32 \<Rightarrow> u32 \<Rightarrow> nat \<Rightarrow> nat \<Rightarrow> sock_filter option" where
  "jump code k jt jf =
     (if unat code < 65536 \<and> jt < 256 \<and> jf < 256
      then Some \<lparr> sf_code = ucast code, sf_jt = of_nat jt, sf_jf = of_nat jf, sf_k = k \<rparr>
      else None)"

definition statement :: "u32 \<Rightarrow> u32 \<Rightarrow> sock_filter option" where
  "statement code k = jump code k 0 0"

definition load_at :: "libc \<Rightarrow> u32 \<Rightarrow> sock_filter option" where
  "load_at L offset = statement (BPF_LD L OR BPF_W L OR BPF_ABS L) offset"

definition equal_to :: "libc \<Rightarrow> u32 \<Rightarrow> nat \<Rightarrow> nat \<Rightarrow> sock_filter option" where
  "equal_to L k jt jf = jump (BPF_JMP L OR BPF_JEQ L OR BPF_K L) k jt jf"

definition return_value :: "libc \<Rightarrow> u32 \<Rightarrow> sock_filter option" where
  "return_value L k = statement (BPF_RET L OR BPF_K L) k"

definition call_number :: "libc \<Rightarrow> syscall \<Rightarrow> u32" where
  "call_number L call = of_int (sys_number L call)"

definition allow_call :: "libc \<Rightarrow> syscall \<Rightarrow> sock_filter option list" where
  "allow_call L call =
     [equal_to L (call_number L call) 0 1, return_value L (SECCOMP_RET_ALLOW L)]"

fun allow_values :: "libc \<Rightarrow> u32 list \<Rightarrow> sock_filter option list" where
  "allow_values L [] = []"
| "allow_values L (v # vs) = equal_to L v (length (v # vs)) 0 # allow_values L vs"

fun allow_with_argument :: "libc \<Rightarrow> syscall \<times> u32 \<times> u32 list \<Rightarrow> sock_filter option list" where
  "allow_with_argument L (call, index, values) =
     [equal_to L (call_number L call) 0 (length values + 3), load_at L (argument index)]
       @ allow_values L values
       @ [return_value L (SECCOMP_RET_KILL_PROCESS L), return_value L (SECCOMP_RET_ALLOW L)]"

definition seccomp_filter :: "arch \<Rightarrow> libc \<Rightarrow> sock_filter list option" where
  "seccomp_filter a L =
     (let kill = return_value L (SECCOMP_RET_KILL_PROCESS L) in
      all_some
        ([load_at L ARCH_AT, equal_to L (ARCH a) 1 0, kill, load_at L NR]
          @ (if a = X86_64
             then [jump (BPF_JMP L OR BPF_JGE L OR BPF_K L) 0x40000000 0 1, kill] else [])
          @ concat (map (allow_call L) (ALLOWED a))
          @ concat (map (allow_with_argument L) WITH_ARGUMENT)
          @ [kill]))"

text \<open>The system calls of \<open>install\<close>: \<open>prctl\<close>'s error, then what \<open>seccomp\<close> returns.\<close>

definition install :: "string option \<Rightarrow> int \<Rightarrow> string \<Rightarrow> string + unit" where
  "install prctl_error result os_error =
     (case prctl_error of
        Some e \<Rightarrow> Inl e
      | None \<Rightarrow>
          if result = 0 then Inr ()
          else if result = - 1 then Inl os_error
          else Inl (''thread '' @ show_int result @ '' could not take the filter''))"

section \<open>The machine\<close>

text \<open>What runs a program on the words of a call's data and an accumulator; the documented
  meaning of the instructions the filter has. Every jump is forward, so the rest of the program
  is all the machine needs.\<close>

type_synonym bpf_machine = "sock_filter list \<Rightarrow> (u32 \<Rightarrow> u32) \<Rightarrow> u32 \<Rightarrow> u32 option"

definition op_load :: "libc \<Rightarrow> u16" where "op_load L = ucast (BPF_LD L OR BPF_W L OR BPF_ABS L)"
definition op_equal :: "libc \<Rightarrow> u16" where "op_equal L = ucast (BPF_JMP L OR BPF_JEQ L OR BPF_K L)"
definition op_at_least :: "libc \<Rightarrow> u16" where
  "op_at_least L = ucast (BPF_JMP L OR BPF_JGE L OR BPF_K L)"
definition op_return :: "libc \<Rightarrow> u16" where "op_return L = ucast (BPF_RET L OR BPF_K L)"

definition bpf_laws :: "libc \<Rightarrow> bpf_machine \<Rightarrow> bool" where
  "bpf_laws L M \<longleftrightarrow>
     (\<forall>x rest d a.
        (sf_code x = op_load L \<longrightarrow> M (x # rest) d a = M rest d (d (sf_k x)))
        \<and> (sf_code x = op_equal L \<longrightarrow>
             M (x # rest) d a =
               M (drop (unat (if a = sf_k x then sf_jt x else sf_jf x)) rest) d a)
        \<and> (sf_code x = op_at_least L \<longrightarrow>
             M (x # rest) d a =
               M (drop (unat (if sf_k x \<le> a then sf_jt x else sf_jf x)) rest) d a)
        \<and> (sf_code x = op_return L \<longrightarrow> M (x # rest) d a = Some (sf_k x)))"

definition opcodes_fit :: "libc \<Rightarrow> bool" where
  "opcodes_fit L \<longleftrightarrow>
     unat (BPF_LD L OR BPF_W L OR BPF_ABS L) < 65536
     \<and> unat (BPF_JMP L OR BPF_JEQ L OR BPF_K L) < 65536
     \<and> unat (BPF_JMP L OR BPF_JGE L OR BPF_K L) < 65536
     \<and> unat (BPF_RET L OR BPF_K L) < 65536"

text \<open>Linux on x86-64 as an instance.\<close>

fun linux_number :: "syscall \<Rightarrow> int" where
  "linux_number Sys_read = 0"
| "linux_number Sys_write = 1"
| "linux_number Sys_mmap = 9"
| "linux_number Sys_mprotect = 10"
| "linux_number Sys_munmap = 11"
| "linux_number Sys_brk = 12"
| "linux_number Sys_rt_sigaction = 13"
| "linux_number Sys_rt_sigprocmask = 14"
| "linux_number Sys_rt_sigreturn = 15"
| "linux_number Sys_writev = 20"
| "linux_number Sys_mremap = 25"
| "linux_number Sys_madvise = 28"
| "linux_number Sys_exit = 60"
| "linux_number Sys_gettimeofday = 96"
| "linux_number Sys_sigaltstack = 131"
| "linux_number Sys_time = 201"
| "linux_number Sys_futex = 202"
| "linux_number Sys_clock_gettime = 228"
| "linux_number Sys_exit_group = 231"
| "linux_number Sys_getrandom = 318"

definition linux_libc :: libc where
  "linux_libc =
     \<lparr> sys_number = linux_number, BPF_LD = 0, BPF_W = 0, BPF_ABS = 0x20, BPF_JMP = 5,
       BPF_JEQ = 0x10, BPF_JGE = 0x30, BPF_K = 0, BPF_RET = 6,
       SECCOMP_RET_ALLOW = 0x7FFF0000, SECCOMP_RET_KILL_PROCESS = 0x80000000 \<rparr>"

function linux_bpf :: bpf_machine where
  "linux_bpf [] d a = None"
| "linux_bpf (x # rest) d a =
     (if sf_code x = 0x20 then linux_bpf rest d (d (sf_k x))
      else if sf_code x = 0x15
      then linux_bpf (drop (unat (if a = sf_k x then sf_jt x else sf_jf x)) rest) d a
      else if sf_code x = 0x35
      then linux_bpf (drop (unat (if sf_k x \<le> a then sf_jt x else sf_jf x)) rest) d a
      else if sf_code x = 6 then Some (sf_k x) else None)"
  by pat_completeness auto
termination
  by (relation "measure (\<lambda>(xs, d, a). length xs)") auto

declare linux_bpf.simps [simp del]

lemma linux_opcodes:
  "op_load linux_libc = 0x20" "op_equal linux_libc = 0x15" "op_at_least linux_libc = 0x35"
  "op_return linux_libc = 6"
  by (code_simp)+

lemma linux_bpf_laws: "bpf_laws linux_libc linux_bpf"
  unfolding bpf_laws_def linux_opcodes by (simp add: linux_bpf.simps)

lemma linux_opcodes_fit: "opcodes_fit linux_libc"
  by code_simp

section \<open>What the filter lets through\<close>

definition permits :: "arch \<Rightarrow> libc \<Rightarrow> (u32 \<Rightarrow> u32) \<Rightarrow> bool" where
  "permits a L d \<longleftrightarrow>
     d ARCH_AT = ARCH a
     \<and> (a = Aarch64 \<or> d NR < 0x40000000)
     \<and> (d NR \<in> set (map (call_number L) (ALLOWED a))
        \<or> (case List.find (\<lambda>(call, index, values). call_number L call = d NR) WITH_ARGUMENT of
             None \<Rightarrow> False
           | Some (call, index, values) \<Rightarrow> d (argument index) \<in> set values))"

text \<open>A program of instructions that all exist.\<close>

definition runs :: "bpf_machine \<Rightarrow> sock_filter option list \<Rightarrow> (u32 \<Rightarrow> u32) \<Rightarrow> u32 \<Rightarrow> u32 option" where
  "runs M xs d a = (case all_some xs of None \<Rightarrow> None | Some program \<Rightarrow> M program d a)"

lemma all_some_drop: "all_some xs = Some us \<Longrightarrow> all_some (drop n xs) = Some (drop n us)"
proof (induction xs arbitrary: us n rule: all_some.induct)
  case 1
  then show ?case by simp
next
  case (2 xs)
  then show ?case by simp
next
  case (3 x xs)
  then show ?case by (cases n) auto
qed

lemma all_some_iff: "all_some xs \<noteq> None \<longleftrightarrow> None \<notin> set xs"
  by (induction xs rule: all_some.induct) auto

locale bpf =
  fixes L :: libc and M :: bpf_machine
  assumes laws: "bpf_laws L M" and fit: "opcodes_fit L"
begin

lemma load_exists [simp]: "None \<noteq> load_at L k"
  using fit by (simp add: load_at_def statement_def jump_def opcodes_fit_def)

lemma return_exists [simp]: "None \<noteq> return_value L k"
  using fit by (simp add: return_value_def statement_def jump_def opcodes_fit_def)

lemma equal_exists [simp]: "jt < 256 \<Longrightarrow> jf < 256 \<Longrightarrow> None \<noteq> equal_to L k jt jf"
  using fit by (simp add: equal_to_def jump_def opcodes_fit_def)

lemma run_load:
  "None \<notin> set rest \<Longrightarrow> runs M (load_at L k # rest) d a = runs M rest d (d k)"
  using laws fit
  by (auto simp: runs_def load_at_def statement_def jump_def opcodes_fit_def bpf_laws_def op_load_def
      split: option.splits)

lemma run_return: "None \<notin> set rest \<Longrightarrow> runs M (return_value L k # rest) d a = Some k"
  using laws fit all_some_iff [of rest]
  by (auto simp: runs_def return_value_def statement_def jump_def opcodes_fit_def bpf_laws_def
      op_return_def split: option.splits)

lemma run_equal:
  assumes "None \<notin> set rest" "jt < 256" "jf < 256"
  shows "runs M (equal_to L k jt jf # rest) d a = runs M (drop (if a = k then jt else jf) rest) d a"
proof -
  obtain us where us: "all_some rest = Some us" using assms(1) all_some_iff by blast
  have "unat (of_nat n :: u8) = n" if "n < 256" for n
    using that by (simp add: unsigned_of_nat take_bit_nat_eq_self)
  with assms laws fit us all_some_drop [OF us] show ?thesis
    by (simp add: runs_def equal_to_def jump_def opcodes_fit_def bpf_laws_def op_equal_def)
qed

lemma run_at_least:
  assumes "None \<notin> set rest"
  shows "runs M (jump (BPF_JMP L OR BPF_JGE L OR BPF_K L) k 0 1 # rest) d a =
    runs M (drop (if k \<le> a then 0 else 1) rest) d a"
proof -
  obtain us where us: "all_some rest = Some us" using assms(1) all_some_iff by blast
  with laws fit all_some_drop [OF us] show ?thesis
    by (simp add: runs_def jump_def opcodes_fit_def bpf_laws_def op_at_least_def)
qed

lemma run_allow_call:
  "None \<notin> set rest \<Longrightarrow> runs M (allow_call L c @ rest) d a =
     (if a = call_number L c then Some (SECCOMP_RET_ALLOW L) else runs M rest d a)"
  by (simp add: allow_call_def run_equal run_return)

lemma allow_calls_exist: "None \<notin> set (concat (map (allow_call L) cs))"
  by (auto simp: allow_call_def)

lemma run_allow_calls:
  "None \<notin> set rest \<Longrightarrow> runs M (concat (map (allow_call L) cs) @ rest) d a =
     (if a \<in> set (map (call_number L) cs) then Some (SECCOMP_RET_ALLOW L) else runs M rest d a)"
  using allow_calls_exist by (induction cs) (simp_all add: run_allow_call)

lemma allow_values_exist: "length vs < 256 \<Longrightarrow> None \<notin> set (allow_values L vs)"
  by (induction vs) auto

lemma run_allow_values:
  "None \<notin> set rest \<Longrightarrow> length vs < 256 \<Longrightarrow>
     runs M (allow_values L vs @ return_value L (SECCOMP_RET_KILL_PROCESS L)
       # return_value L (SECCOMP_RET_ALLOW L) # rest) d a =
     Some (if a \<in> set vs then SECCOMP_RET_ALLOW L else SECCOMP_RET_KILL_PROCESS L)"
proof (induction vs)
  case Nil
  then show ?case by (simp add: run_return)
next
  case (Cons v vs)
  have len: "length (allow_values L vs) = length vs" by (induction vs) auto
  show ?case
    using Cons allow_values_exist [of vs] len
    by (auto simp: run_equal run_return)
qed

lemma with_argument_exists: "length vs < 253 \<Longrightarrow> None \<notin> set (allow_with_argument L (c, i, vs))"
  using allow_values_exist [of vs] by auto

lemma run_with_argument:
  assumes "None \<notin> set rest" "length vs < 253"
  shows "runs M (allow_with_argument L (c, i, vs) @ rest) d a =
    (if a = call_number L c
     then Some (if d (argument i) \<in> set vs then SECCOMP_RET_ALLOW L else SECCOMP_RET_KILL_PROCESS L)
     else runs M rest d a)"
proof -
  have "length (allow_values L vs) = length vs" by (induction vs) auto
  with assms show ?thesis
    using allow_values_exist [of vs]
    by (auto simp: run_equal run_load run_allow_values numeral_3_eq_3)
qed

lemma run_with_arguments:
  "None \<notin> set rest \<Longrightarrow> list_all (\<lambda>(c, i, vs). length vs < 253) ws \<Longrightarrow>
     runs M (concat (map (allow_with_argument L) ws) @ rest) d a =
     (case List.find (\<lambda>(call, index, values). call_number L call = a) ws of
        None \<Rightarrow> runs M rest d a
      | Some (call, index, values) \<Rightarrow>
          Some (if d (argument index) \<in> set values then SECCOMP_RET_ALLOW L
                else SECCOMP_RET_KILL_PROCESS L))"
proof (induction ws)
  case Nil
  then show ?case by simp
next
  case (Cons w ws)
  obtain c i vs where w: "w = (c, i, vs)" by (cases w)
  have "None \<notin> set (concat (map (allow_with_argument L) ws) @ rest)"
    using Cons.prems with_argument_exists by (fastforce simp: list_all_iff)
  then show ?case using Cons w by (auto simp: run_with_argument simp del: allow_with_argument.simps)
qed

lemma run_x32:
  assumes "None \<notin> set rest"
  shows "runs M ((if ar = X86_64
       then [jump (BPF_JMP L OR BPF_JGE L OR BPF_K L) 0x40000000 0 1,
             return_value L (SECCOMP_RET_KILL_PROCESS L)] else []) @ rest) d a =
    (if ar = Aarch64 \<or> a < 0x40000000 then runs M rest d a
     else Some (SECCOMP_RET_KILL_PROCESS L))"
  using assms run_at_least [of "return_value L (SECCOMP_RET_KILL_PROCESS L) # rest" "0x40000000" d a]
  by (cases ar) (auto simp: run_return not_le)

lemma filter_decides:
  "(case seccomp_filter ar L of
      None \<Rightarrow> None | Some program \<Rightarrow> M program d a) =
   Some (if permits ar L d then SECCOMP_RET_ALLOW L else SECCOMP_RET_KILL_PROCESS L)"
proof -
  let ?kill = "return_value L (SECCOMP_RET_KILL_PROCESS L)"
  let ?calls = "concat (map (allow_call L) (ALLOWED ar))"
  let ?args = "concat (map (allow_with_argument L) WITH_ARGUMENT)"
  let ?x32 = "if ar = X86_64
    then [jump (BPF_JMP L OR BPF_JGE L OR BPF_K L) 0x40000000 0 1, ?kill] else []"
  have short: "list_all (\<lambda>(c, i, vs). length vs < 253) WITH_ARGUMENT"
    by (simp add: WITH_ARGUMENT_def)
  then have args: "None \<notin> set (?args @ [?kill])"
    using with_argument_exists by (fastforce simp: list_all_iff)
  then have calls: "None \<notin> set (?calls @ ?args @ [?kill])" using allow_calls_exist by simp
  have x32: "None \<notin> set (?x32 @ ?calls @ ?args @ [?kill])"
    using calls fit by (auto simp: jump_def opcodes_fit_def)
  have number: "runs M (?calls @ ?args @ [?kill]) d (d NR) =
      Some (if d NR \<in> set (map (call_number L) (ALLOWED ar))
          \<or> (case List.find (\<lambda>(call, index, values). call_number L call = d NR) WITH_ARGUMENT of
               None \<Rightarrow> False | Some (call, index, values) \<Rightarrow> d (argument index) \<in> set values)
        then SECCOMP_RET_ALLOW L else SECCOMP_RET_KILL_PROCESS L)"
    using args short
    by (simp add: run_allow_calls run_with_arguments run_return split: option.splits prod.splits)
  have upto32: "runs M (?x32 @ ?calls @ ?args @ [?kill]) d (d NR) =
      (if ar = Aarch64 \<or> d NR < 0x40000000 then runs M (?calls @ ?args @ [?kill]) d (d NR)
       else Some (SECCOMP_RET_KILL_PROCESS L))"
    using calls by (rule run_x32)
  have "runs M (load_at L ARCH_AT # equal_to L (ARCH ar) 1 0 # ?kill # load_at L NR
        # ?x32 @ ?calls @ ?args @ [?kill]) d a =
      (if d ARCH_AT = ARCH ar then runs M (?x32 @ ?calls @ ?args @ [?kill]) d (d NR)
       else Some (SECCOMP_RET_KILL_PROCESS L))"
    using x32 by (simp add: run_load run_equal run_return)
  then show ?thesis
    unfolding upto32 number
    by (simp add: seccomp_filter_def Let_def runs_def permits_def split: option.splits)
qed

end

interpretation linux: bpf linux_libc linux_bpf
  by unfold_locales (rule linux_bpf_laws, rule linux_opcodes_fit)

text \<open>C22. The filter of a worker, run on any call, lets it through exactly when it is made under
  the filter's architecture, below the numbers of x32, and is one of the listed calls, or one of
  those listed with an argument that has one of the listed values there; it kills the process on
  every other. Building it never panics.\<close>

theorem the_filter_permits_the_listed_calls_only:
  assumes "bpf_laws L M" "opcodes_fit L"
  shows "(case seccomp_filter ar L of None \<Rightarrow> None | Some program \<Rightarrow> M program d a) =
    Some (if permits ar L d then SECCOMP_RET_ALLOW L else SECCOMP_RET_KILL_PROCESS L)"
  by (rule bpf.filter_decides [OF bpf.intro [OF assms]])

text \<open>The data of a call to \<open>openat\<close>, and of \<open>write\<close> to the standard output.\<close>

definition call_data :: "u32 \<Rightarrow> u32 \<Rightarrow> u32 \<Rightarrow> u32" where
  "call_data nr first offset =
     (if offset = 0 then nr else if offset = 4 then 0xC000003E
      else if offset = 16 then first else 0)"

theorem the_filter_permits_the_listed_calls_only_witness:
  "(case seccomp_filter X86_64 linux_libc of
      None \<Rightarrow> None | Some program \<Rightarrow> linux_bpf program (call_data 257 1) 0) = Some 0x80000000
   \<and> (case seccomp_filter X86_64 linux_libc of
      None \<Rightarrow> None | Some program \<Rightarrow> linux_bpf program (call_data 1 1) 0) = Some 0x7FFF0000"
proof -
  have "\<not> permits X86_64 linux_libc (call_data 257 1)" "permits X86_64 linux_libc (call_data 1 1)"
    by code_simp+
  then show ?thesis
    using the_filter_permits_the_listed_calls_only [OF linux_bpf_laws linux_opcodes_fit, where ar = X86_64]
    by (simp add: linux_libc_def)
qed

end
