(* ===== verification/Pac_WinHttp.thy ===== *)
theory Pac_WinHttp
  imports Windows_Backend Pac_Dispatch
begin

unbundle bit_operations_syntax

text \<open>
  \<open>src/pac/winhttp.rs\<close>: PAC and WPAD through WinHTTP. What the calls of Windows answer is the
  record \<open>winhttp\<close>, an argument: a status, the notifications that arrive before the wait ends,
  how the wait ends, the entries of the result. Statuses and flags are 32-bit words with the
  values Windows documents; a duration is in nanoseconds.
\<close>

type_synonym u32 = "32 word"

section \<open>Where the script is\<close>

definition ERROR_SUCCESS :: u32 where "ERROR_SUCCESS = 0"
definition ERROR_IO_PENDING :: u32 where "ERROR_IO_PENDING = 997"
definition ERROR_WINHTTP_INTERNAL_ERROR :: u32 where "ERROR_WINHTTP_INTERNAL_ERROR = 12004"
definition ERROR_WINHTTP_BAD_AUTO_PROXY_SCRIPT :: u32 where
  "ERROR_WINHTTP_BAD_AUTO_PROXY_SCRIPT = 12166"
definition ERROR_WINHTTP_AUTODETECTION_FAILED :: u32 where
  "ERROR_WINHTTP_AUTODETECTION_FAILED = 12180"
definition WINHTTP_AUTOPROXY_AUTO_DETECT :: u32 where "WINHTTP_AUTOPROXY_AUTO_DETECT = 1"
definition WINHTTP_AUTOPROXY_CONFIG_URL :: u32 where "WINHTTP_AUTOPROXY_CONFIG_URL = 2"
definition WINHTTP_AUTO_DETECT_TYPE_DHCP :: u32 where "WINHTTP_AUTO_DETECT_TYPE_DHCP = 1"
definition WINHTTP_AUTO_DETECT_TYPE_DNS_A :: u32 where "WINHTTP_AUTO_DETECT_TYPE_DNS_A = 2"
definition CALLBACK_REQUEST_ERROR :: u32 where "CALLBACK_REQUEST_ERROR = 0x200000"
definition CALLBACK_GETPROXYFORURL_COMPLETE :: u32 where
  "CALLBACK_GETPROXYFORURL_COMPLETE = 0x1000000"

lemmas winhttp_values =
  ERROR_SUCCESS_def ERROR_IO_PENDING_def ERROR_WINHTTP_INTERNAL_ERROR_def
  ERROR_WINHTTP_BAD_AUTO_PROXY_SCRIPT_def ERROR_WINHTTP_AUTODETECTION_FAILED_def
  WINHTTP_AUTOPROXY_AUTO_DETECT_def WINHTTP_AUTOPROXY_CONFIG_URL_def
  WINHTTP_AUTO_DETECT_TYPE_DHCP_def WINHTTP_AUTO_DETECT_TYPE_DNS_A_def
  CALLBACK_REQUEST_ERROR_def CALLBACK_GETPROXYFORURL_COMPLETE_def

definition DEFAULT_WINHTTP_PAC_TIMEOUT :: nat where
  "DEFAULT_WINHTTP_PAC_TIMEOUT = 5 * 1000000000"

datatype winhttp_source = AutoDetect | ScriptAt url | AutoDetectThenUrl url

definition winhttp_source_debug :: "winhttp_source \<Rightarrow> string" where
  "winhttp_source_debug s =
     (case s of
        AutoDetect \<Rightarrow> ''AutoDetect''
      | ScriptAt u \<Rightarrow> ''Url('' @ redact_userinfo (as_str u) @ '')''
      | AutoDetectThenUrl u \<Rightarrow> ''AutoDetectThenUrl('' @ redact_userinfo (as_str u) @ '')'')"

fun winhttp_from_mode :: "proxy_mode \<Rightarrow> winhttp_source option" where
  "winhttp_from_mode (Pac u r) = Some (ScriptAt u)"
| "winhttp_from_mode WpadAutoDetect = Some AutoDetect"
| "winhttp_from_mode Direct = None"
| "winhttp_from_mode (Manual m b r) = None"
| "winhttp_from_mode (PacInline s r) = None"

fun winhttp_flags :: "winhttp_source \<Rightarrow> u32" where
  "winhttp_flags AutoDetect = WINHTTP_AUTOPROXY_AUTO_DETECT"
| "winhttp_flags (ScriptAt u) = WINHTTP_AUTOPROXY_CONFIG_URL"
| "winhttp_flags (AutoDetectThenUrl u) =
     WINHTTP_AUTOPROXY_AUTO_DETECT OR WINHTTP_AUTOPROXY_CONFIG_URL"

fun winhttp_source_url :: "winhttp_source \<Rightarrow> url option" where
  "winhttp_source_url AutoDetect = None"
| "winhttp_source_url (ScriptAt u) = Some u"
| "winhttp_source_url (AutoDetectThenUrl u) = Some u"

definition asks_for_wpad :: "u32 \<Rightarrow> bool" where
  "asks_for_wpad flags \<longleftrightarrow> flags AND WINHTTP_AUTOPROXY_AUTO_DETECT \<noteq> 0"

definition winhttp_wpad_miss :: "u32 \<Rightarrow> u32 \<Rightarrow> bool" where
  "winhttp_wpad_miss flags status \<longleftrightarrow>
     status = ERROR_WINHTTP_AUTODETECTION_FAILED \<and> asks_for_wpad flags"

section \<open>Budgets\<close>

definition U32_MAX :: nat where "U32_MAX = 4294967295"
definition I32_MAX :: nat where "I32_MAX = 2147483647"

definition wait_millis :: "nat \<Rightarrow> nat" where
  "wait_millis timeout =
     (let ms = timeout div 1000000 in min (if ms \<le> U32_MAX then ms else U32_MAX) (U32_MAX - 1))"

definition session_timeout_millis :: "nat \<Rightarrow> nat" where
  "session_timeout_millis timeout =
     (let ms = timeout div 1000000 in max (if ms \<le> I32_MAX then ms else I32_MAX) 1)"

definition RESET_SPACING :: nat where "RESET_SPACING = 30 * 1000000000"

definition reset_wait :: "nat option \<Rightarrow> nat \<Rightarrow> nat option" where
  "reset_wait accepted now =
     (case accepted of
        None \<Rightarrow> None
      | Some before \<Rightarrow>
          (let elapsed = now - before in
           if RESET_SPACING < elapsed then None
           else (let wait = RESET_SPACING - elapsed in if wait = 0 then None else Some wait)))"

section \<open>Errors\<close>

definition hex_status :: "u32 \<Rightarrow> string" where
  "hex_status code =
     ''0x'' @ map (\<lambda>k. hex_char (unat code div 16 ^ k mod 16)) [7, 6, 5, 4, 3, 2, 1, 0]"

text \<open>\<open>os_error\<close> is the text of a code.\<close>

definition winhttp_error :: "(u32 \<Rightarrow> string) \<Rightarrow> string \<Rightarrow> u32 \<Rightarrow> proxy_error" where
  "winhttp_error os_error context code =
     (if code = ERROR_WINHTTP_BAD_AUTO_PROXY_SCRIPT
      then error_pac_evaluation (context @ '': the PAC script could not be executed by WinHTTP'')
      else error_io (context @ '' (WinHTTP status '' @ hex_status code @ '')'') (os_error code))"

section \<open>The call in flight\<close>

text \<open>What the caller and the callback share; \<open>pd_refs\<close> is the strong count of the \<open>Arc\<close>.\<close>

record pending =
  pd_done :: bool
  pd_status :: u32
  pd_refs :: nat

definition pending_new :: pending where
  "pending_new = \<lparr> pd_done = False, pd_status = ERROR_SUCCESS, pd_refs = 2 \<rparr>"

definition pending_finish :: "u32 \<Rightarrow> pending \<Rightarrow> pending" where
  "pending_finish code pd = pd\<lparr>pd_status := code, pd_done := True\<rparr>"

definition pending_drop :: "pending \<Rightarrow> pending" where
  "pending_drop pd = pd\<lparr>pd_refs := pd_refs pd - 1\<rparr>"

text \<open>A notification: its status, whether it carries the context, and the error its information
  points at, if it points at one.\<close>

record notification =
  nt_status :: u32
  nt_context :: bool
  nt_error :: "u32 option"

definition notification_code :: "notification \<Rightarrow> u32 option" where
  "notification_code n =
     (if nt_status n = CALLBACK_GETPROXYFORURL_COMPLETE then Some ERROR_SUCCESS
      else if nt_status n = CALLBACK_REQUEST_ERROR
      then Some (unwrap_or ERROR_WINHTTP_INTERNAL_ERROR (nt_error n))
      else None)"

definition status_callback :: "notification \<Rightarrow> pending \<Rightarrow> pending" where
  "status_callback n pd =
     (case notification_code n of
        None \<Rightarrow> pd
      | Some code \<Rightarrow> if \<not> nt_context n then pd else pending_drop (pending_finish code pd))"

section \<open>The answer\<close>

record winhttp_entry =
  we_proxy :: bool
  we_scheme :: nat
  we_host :: "nat list option"
  we_port :: u16

definition wide_ptr_to_string :: "nat list option \<Rightarrow> string option" where
  "wide_ptr_to_string p = map_option (\<lambda>units. utf16_lossy (takeWhile (\<lambda>u. u \<noteq> 0) units)) p"

definition parse_proxy_host :: "external \<Rightarrow> string \<Rightarrow> host option" where
  "parse_proxy_host E text =
     (if text = [] then None
      else (case parse_ipv6 text of
              Some a \<Rightarrow> Some (Ipv6 a)
            | None \<Rightarrow> result_ok (host_parse E text)))"

definition entry_scheme :: "nat \<Rightarrow> proxy_scheme option" where
  "entry_scheme s =
     (if s = 1 then Some PsHttp else if s = 2 then Some PsHttps
      else if s = 4 then Some PsSocks4 else None)"

definition entry_to_step :: "external \<Rightarrow> winhttp_entry \<Rightarrow> proxy_step option" where
  "entry_to_step E e =
     (if \<not> we_proxy e then Some StepDirect
      else (case entry_scheme (we_scheme e) of
              None \<Rightarrow> None
            | Some sch \<Rightarrow>
                (case wide_ptr_to_string (we_host e) of
                   None \<Rightarrow> None
                 | Some host_text \<Rightarrow>
                     (case parse_proxy_host E (trim_text host_text) of
                        None \<Rightarrow> None
                      | Some h \<Rightarrow>
                          (let port = (if we_port e = 0 then proxy_scheme_default_port sch
                                       else we_port e)
                           in Some (step_from_endpoint
                                 (with_scheme_hint sch (endpoint_new h port))))))))"

fun push_entries :: "external \<Rightarrow> winhttp_entry list \<Rightarrow> chain \<Rightarrow> chain" where
  "push_entries E [] c = c"
| "push_entries E (e # es) c =
     (case entry_to_step E e of
        None \<Rightarrow> push_entries E es c
      | Some s \<Rightarrow>
          (let c' = chain_push s c in if chain_is_full c' then c' else push_entries E es c'))"

text \<open>The number of entries the structure states, and the entries, \<open>None\<close> a null pointer.\<close>

type_synonym proxy_result = "nat \<times> winhttp_entry list option"

definition winhttp_to_steps :: "external \<Rightarrow> proxy_result \<Rightarrow> proxy_error + proxy_step list" where
  "winhttp_to_steps E result =
     (let (count, entries) = result;
          es = (if count = 0 then [] else (case entries of None \<Rightarrow> [] | Some xs \<Rightarrow> take count xs))
      in ok_or (error_pac_invalid_result
                  (''WinHTTP returned '' @ show_nat count @ '' proxy entries, none of them usable''))
           (chain_finish (push_entries E es chain_new)))"

section \<open>Resolving\<close>

definition query_url :: "url_ops \<Rightarrow> url \<Rightarrow> string" where
  "query_url U u =
     (let sanitized = as_str (sanitize_url U u) in
      if url_scheme u = ''ws'' \<or> url_scheme u = ''wss'' then ''http'' @ drop 2 sanitized
      else sanitized)"

record autoproxy_options =
  ao_flags :: u32
  ao_auto_detect_flags :: u32
  ao_config_url :: "string option"
  ao_auto_logon :: bool

definition options_for :: "winhttp_source \<Rightarrow> autoproxy_options" where
  "options_for source =
     \<lparr> ao_flags = winhttp_flags source,
       ao_auto_detect_flags =
         (if \<not> asks_for_wpad (winhttp_flags source) then 0
          else WINHTTP_AUTO_DETECT_TYPE_DHCP OR WINHTTP_AUTO_DETECT_TYPE_DNS_A),
       ao_config_url = map_option as_str (winhttp_source_url source),
       ao_auto_logon = False \<rparr>"

datatype waited = WaitObject | WaitTimeout | WaitFailed string

record winhttp =
  wa_create :: u32
  wa_event :: "string option"
  wa_call :: "autoproxy_options \<Rightarrow> string \<Rightarrow> u32"
  wa_notes :: "autoproxy_options \<Rightarrow> string \<Rightarrow> notification list"
  wa_wait :: "autoproxy_options \<Rightarrow> string \<Rightarrow> nat \<Rightarrow> waited"
  wa_result :: "autoproxy_options \<Rightarrow> string \<Rightarrow> u32 \<times> proxy_result"
  wa_os_error :: "u32 \<Rightarrow> string"

datatype wpad_outcome = Resolved "proxy_step list" | AutoDetectionFailed

record winhttp_resolver =
  wr_timeout :: nat
  wr_wpad :: bool

text \<open>The state the notifications leave what is shared in, up to the end of the wait.\<close>

definition pending_after :: "winhttp \<Rightarrow> autoproxy_options \<Rightarrow> string \<Rightarrow> pending" where
  "pending_after A options query = fold status_callback (wa_notes A options query) pending_new"

definition read_result ::
    "external \<Rightarrow> winhttp \<Rightarrow> autoproxy_options \<Rightarrow> string \<Rightarrow> proxy_error + wpad_outcome" where
  "read_result E A options query =
     (let (status, result) = wa_result A options query in
      if status \<noteq> ERROR_SUCCESS
      then Inl (winhttp_error (wa_os_error A) ''WinHttpGetProxyResult'' status)
      else map_sum id Resolved (winhttp_to_steps E result))"

definition finished ::
    "external \<Rightarrow> winhttp \<Rightarrow> autoproxy_options \<Rightarrow> string \<Rightarrow> string \<Rightarrow> u32
       \<Rightarrow> proxy_error + wpad_outcome" where
  "finished E A options query context code =
     (if winhttp_wpad_miss (ao_flags options) code then Inr AutoDetectionFailed
      else if code \<noteq> ERROR_SUCCESS then Inl (winhttp_error (wa_os_error A) context code)
      else read_result E A options query)"

definition resolve_raw ::
    "external \<Rightarrow> url_ops \<Rightarrow> winhttp \<Rightarrow> winhttp_resolver \<Rightarrow> url \<Rightarrow> winhttp_source
       \<Rightarrow> proxy_error + wpad_outcome" where
  "resolve_raw E U A r u source =
     (if \<not> wr_wpad r \<and> asks_for_wpad (winhttp_flags source) then Inl (PacNotSupported ''wpad'')
      else if wa_create A \<noteq> ERROR_SUCCESS
      then Inl (winhttp_error (wa_os_error A) ''WinHttpCreateProxyResolver'' (wa_create A))
      else
        (let query = query_url U u; options = options_for source in
         case wa_event A of
           Some e \<Rightarrow> Inl (error_io ''creating the PAC resolution completion event'' e)
         | None \<Rightarrow>
             (let status = wa_call A options query in
              if status \<noteq> ERROR_IO_PENDING
              then finished E A options query ''WinHttpGetProxyForUrlEx'' status
              else
                (case wa_wait A options query (wait_millis (wr_timeout r)) of
                   WaitObject \<Rightarrow>
                     finished E A options query ''resolving the proxy for a URL''
                       (pd_status (pending_after A options query))
                 | WaitTimeout \<Rightarrow> Inl (PacTimeout (wr_timeout r))
                 | WaitFailed e \<Rightarrow>
                     Inl (error_io (''waiting for WinHTTP'' @ [CHR 0x27] @ ''s proxy answer'') e)))))"

definition winhttp_resolve ::
    "external \<Rightarrow> url_ops \<Rightarrow> winhttp \<Rightarrow> winhttp_resolver \<Rightarrow> url \<Rightarrow> winhttp_source
       \<Rightarrow> proxy_error + proxy_step list" where
  "winhttp_resolve E U A r u source =
     (case resolve_raw E U A r u source of
        Inl e \<Rightarrow> Inl e
      | Inr (Resolved ss) \<Rightarrow> Inr ss
      | Inr AutoDetectionFailed \<Rightarrow> Inr [StepDirect])"

text \<open>\<open>registry\<close> is what re-reading the per-user store gives, asked of only when that store is
  the source of the snapshot's mode.\<close>

definition resolve_wpad_with_fallback ::
    "external \<Rightarrow> url_ops \<Rightarrow> winhttp \<Rightarrow> nat \<Rightarrow> proxy_error + url option \<times> proxy_mode
       \<Rightarrow> winhttp_resolver \<Rightarrow> proxy_config \<Rightarrow> url \<Rightarrow> proxy_error + proxy_step list" where
  "resolve_wpad_with_fallback E U A now registry r c u =
     (case (if config_source_mode Registry c = Some (effective c) then registry
            else Inr (None, Direct)) of
        Inl e \<Rightarrow> Inl e
      | Inr (pac_url, beneath) \<Rightarrow>
          (let source = (case pac_url of Some p \<Rightarrow> AutoDetectThenUrl p | None \<Rightarrow> AutoDetect) in
           case resolve_raw E U A r u source of
             Inl e \<Rightarrow> Inl e
           | Inr (Resolved ss) \<Rightarrow> Inr ss
           | Inr AutoDetectionFailed \<Rightarrow>
               (case beneath of
                  Manual m b rej \<Rightarrow> resolve E (from_source now Registry beneath) u
                | _ \<Rightarrow> Inr [StepDirect])))"

definition winhttp_resolve_config ::
    "external \<Rightarrow> url_ops \<Rightarrow> winhttp \<Rightarrow> nat \<Rightarrow> proxy_error + url option \<times> proxy_mode
       \<Rightarrow> winhttp_resolver \<Rightarrow> proxy_config \<Rightarrow> url \<Rightarrow> proxy_error + proxy_step list" where
  "winhttp_resolve_config E U A now registry r c u =
     (let mode = effective c; has_host = has_request_host u in
      case mode of
        Direct \<Rightarrow> resolve E c u
      | Manual m b rej \<Rightarrow> resolve E c u
      | PacInline s rej \<Rightarrow> Inl (PacNotSupported ''pac-inline'')
      | WpadAutoDetect \<Rightarrow>
          if \<not> has_host then Inr [StepDirect]
          else if \<not> wr_wpad r then Inl (PacNotSupported ''wpad'')
          else resolve_wpad_with_fallback E U A now registry r c u
      | Pac p rej \<Rightarrow>
          (case winhttp_from_mode mode of
             Some source \<Rightarrow> if has_host then winhttp_resolve E U A r u source else Inr [StepDirect]
           | None \<Rightarrow> Inl (PacNotSupported ''unknown'')))"

section \<open>The session\<close>

text \<open>What opening a session meets: the errors of \<open>WinHttpOpen\<close> and \<open>WinHttpSetTimeouts\<close>, and
  that of \<open>WinHttpSetStatusCallback\<close> when it answers the invalid callback.\<close>

definition session_open ::
    "string option \<Rightarrow> (nat \<Rightarrow> proxy_error option) \<Rightarrow> string option \<Rightarrow> nat \<Rightarrow> proxy_error + unit" where
  "session_open open_error set_timeouts callback_error timeout =
     (case open_error of
        Some e \<Rightarrow> Inl (error_io ''WinHttpOpen'' e)
      | None \<Rightarrow>
          (case set_timeouts (session_timeout_millis timeout) of
             Some e \<Rightarrow> Inl e
           | None \<Rightarrow>
               (case callback_error of
                  Some e \<Rightarrow> Inl (error_io ''WinHttpSetStatusCallback'' e)
                | None \<Rightarrow> Inr ())))"

definition winhttp_with_timeout ::
    "string option \<Rightarrow> (nat \<Rightarrow> proxy_error option) \<Rightarrow> string option \<Rightarrow> nat
       \<Rightarrow> proxy_error + winhttp_resolver" where
  "winhttp_with_timeout open_error set_timeouts callback_error timeout =
     (if timeout = 0 then Inl (PacTimeout timeout)
      else (case session_open open_error set_timeouts callback_error timeout of
              Inl e \<Rightarrow> Inl e
            | Inr _ \<Rightarrow> Inr \<lparr> wr_timeout = timeout, wr_wpad = False \<rparr>))"

definition winhttp_with_wpad :: "bool \<Rightarrow> winhttp_resolver \<Rightarrow> winhttp_resolver" where
  "winhttp_with_wpad on r = r\<lparr>wr_wpad := on\<rparr>"

datatype auto_proxy_reset = ResetRequested | TooSoon nat

text \<open>The process-wide time of the last reset goes in and comes out.\<close>

definition reset_auto_proxy ::
    "(u32 \<Rightarrow> string) \<Rightarrow> u32 \<Rightarrow> nat \<Rightarrow> nat option
       \<Rightarrow> (proxy_error + auto_proxy_reset) \<times> nat option" where
  "reset_auto_proxy os_error status now accepted =
     (case reset_wait accepted now of
        Some retry_after \<Rightarrow> (Inr (TooSoon retry_after), accepted)
      | None \<Rightarrow>
          if status \<noteq> ERROR_SUCCESS
          then (Inl (winhttp_error os_error ''WinHttpResetAutoProxy'' status), accepted)
          else (Inr ResetRequested, Some now))"

end
