(* ===== verification/Pac_CfNetwork.thy ===== *)
theory Pac_CfNetwork
  imports Apple_Backend Pac_Dispatch Error_Text
begin

text \<open>
  \<open>src/pac/cfnetwork.rs\<close>: PAC through CFNetwork. A call of CFNetwork is an argument: the proxy
  array or the error its callback delivers, or that it gave no source, or that the budget was
  over first. A text that cannot be read is \<open>None\<close>, and so is a null array.
\<close>

section \<open>Entries\<close>

datatype entry_kind = KindNone | KindHttp | KindHttps | KindSocks | KindAutoConfigUrl | KindOther

record cf_entry =
  ce_kind :: entry_kind
  ce_host :: "string option"
  ce_port :: "int option"
  ce_pac_url :: "string option"

definition kind_name :: "entry_kind \<Rightarrow> string" where
  "kind_name k =
     (case k of KindNone \<Rightarrow> ''None'' | KindHttp \<Rightarrow> ''Http'' | KindHttps \<Rightarrow> ''Https''
      | KindSocks \<Rightarrow> ''Socks'' | KindAutoConfigUrl \<Rightarrow> ''AutoConfigUrl'' | KindOther \<Rightarrow> ''Other'')"

definition entry_keyword :: "entry_kind \<Rightarrow> string option" where
  "entry_keyword k =
     (if k = KindHttp \<or> k = KindHttps then Some ''PROXY''
      else if k = KindSocks then Some ''SOCKS'' else None)"

definition splits_candidate :: "string \<Rightarrow> bool" where
  "splits_candidate host_text \<longleftrightarrow>
     list_ex (\<lambda>c. c = CHR '';'' \<or> c = CHR ''['' \<or> c = CHR '']'') host_text
     \<or> has_whitespace host_text"

text \<open>The candidate an entry is written back as, if it is.\<close>

definition entry_candidate :: "cf_entry \<Rightarrow> string option" where
  "entry_candidate e =
     (if ce_kind e = KindNone then Some ''DIRECT''
      else (case entry_keyword (ce_kind e) of
              None \<Rightarrow> None
            | Some keyword \<Rightarrow>
                (case map_option trim_text (ce_host e) of
                   None \<Rightarrow> None
                 | Some host_text \<Rightarrow>
                     if host_text = [] \<or> splits_candidate host_text then None
                     else
                       (let h = (if CHR '':'' \<in> set host_text then ''['' @ host_text @ '']''
                                 else host_text);
                            bare = keyword @ '' '' @ h
                        in Some (case ce_port e of
                                   Some port \<Rightarrow>
                                     if 1 \<le> port \<and> port \<le> 65535
                                     then bare @ '':'' @ show_int port else bare
                                 | None \<Rightarrow> bare)))))"

definition join_candidates :: "string list \<Rightarrow> string" where
  "join_candidates cs =
     (case cs of [] \<Rightarrow> [] | c # rest \<Rightarrow> c @ concat (map (\<lambda>d. ''; '' @ d) rest))"

text \<open>How the entries are listed in the error.\<close>

definition seen_entries :: "foreign_debug \<Rightarrow> cf_entry list \<Rightarrow> string" where
  "seen_entries F entries =
     joined '', '' (map (\<lambda>e. kind_name (ce_kind e) @ '' '' @ debug_option (debug_text F) (ce_host e)
       @ '':'' @ debug_option show_int (ce_port e)) entries)"

definition entries_to_steps ::
    "external \<Rightarrow> foreign_debug \<Rightarrow> cf_entry list \<Rightarrow> proxy_error + proxy_step list" where
  "entries_to_steps E F entries =
     (let candidates = present (map entry_candidate entries) in
      if candidates = []
      then Inl (error_pac_invalid_result
             (''CFNetwork returned '' @ show_nat (length entries)
               @ '' proxy entries, none of them usable: ['' @ seen_entries F entries @ '']''))
      else parse_find_proxy_result E (join_candidates candidates))"

text \<open>\<open>run\<close> answers \<open>None\<close> for a WPAD miss. The loop on the entries from here on.\<close>

fun walk_entries ::
    "external \<Rightarrow> foreign_debug \<Rightarrow> (string \<Rightarrow> proxy_error + proxy_step list option)
       \<Rightarrow> cf_entry list \<Rightarrow> proxy_error + proxy_step list" where
  "walk_entries E F run [] = Inr [StepDirect]"
| "walk_entries E F run (e # es) =
     (case (ce_kind e, ce_pac_url e) of
        (KindAutoConfigUrl, Some pac_url) \<Rightarrow>
          (case run pac_url of
             Inl err \<Rightarrow> Inl err
           | Inr (Some ss) \<Rightarrow> Inr ss
           | Inr None \<Rightarrow> walk_entries E F run es)
      | _ \<Rightarrow> entries_to_steps E F (e # es))"

definition walk_system_entries ::
    "external \<Rightarrow> foreign_debug \<Rightarrow> (string \<Rightarrow> proxy_error + proxy_step list option)
       \<Rightarrow> cf_entry list \<Rightarrow> proxy_error + proxy_step list" where
  "walk_system_entries E F run entries =
     (if entries = [] then entries_to_steps E F entries else walk_entries E F run entries)"

definition cf_wpad_miss :: "external \<Rightarrow> url_ops \<Rightarrow> string \<Rightarrow> string \<Rightarrow> int \<Rightarrow> bool" where
  "cf_wpad_miss E U pac_url domain code \<longleftrightarrow>
     domain = ''NSURLErrorDomain'' \<and> code = - 1003
     \<and> (case url_parse E pac_url of Inl _ \<Rightarrow> False | Inr u \<Rightarrow> host_str U u = Some ''wpad'')"

section \<open>The array of an answer\<close>

text \<open>A value of an entry's dictionary: a string, a number, a URL by its absolute text, or none
  of them.\<close>

datatype cf_item = ItemText "string option" | ItemNumber "int option" | ItemUrl "string option" | ItemOther

record cf_keys =
  kCFProxyTypeNone :: string
  kCFProxyTypeHTTP :: string
  kCFProxyTypeHTTPS :: string
  kCFProxyTypeSOCKS :: string
  kCFProxyTypeAutoConfigurationURL :: string

record cf_proxy_dict =
  cd_type :: "cf_item option"
  cd_host :: "cf_item option"
  cd_port :: "cf_item option"
  cd_pac :: "cf_item option"

definition entry_kind_of :: "cf_keys \<Rightarrow> string option \<Rightarrow> entry_kind" where
  "entry_kind_of K kind =
     (if kind = Some (kCFProxyTypeNone K) then KindNone
      else if kind = Some (kCFProxyTypeHTTP K) then KindHttp
      else if kind = Some (kCFProxyTypeHTTPS K) then KindHttps
      else if kind = Some (kCFProxyTypeSOCKS K) then KindSocks
      else if kind = Some (kCFProxyTypeAutoConfigurationURL K) then KindAutoConfigUrl
      else KindOther)"

definition read_entry :: "cf_keys \<Rightarrow> cf_proxy_dict option \<Rightarrow> cf_entry option" where
  "read_entry K item =
     (case item of
        None \<Rightarrow> None
      | Some d \<Rightarrow>
          (case cd_type d of
             Some (ItemText kind) \<Rightarrow>
               Some \<lparr> ce_kind = entry_kind_of K kind,
                      ce_host = (case cd_host d of Some (ItemText t) \<Rightarrow> t | _ \<Rightarrow> None),
                      ce_port = (case cd_port d of Some (ItemNumber n) \<Rightarrow> n | _ \<Rightarrow> None),
                      ce_pac_url = (case cd_pac d of Some (ItemUrl t) \<Rightarrow> t | _ \<Rightarrow> None) \<rparr>
           | _ \<Rightarrow> None))"

definition read_entries :: "cf_keys \<Rightarrow> cf_proxy_dict option list option \<Rightarrow> cf_entry list" where
  "read_entries K a =
     (case a of None \<Rightarrow> [] | Some items \<Rightarrow> present (map (read_entry K) items))"

definition array_to_steps ::
    "external \<Rightarrow> foreign_debug \<Rightarrow> cf_keys \<Rightarrow> cf_proxy_dict option list option
       \<Rightarrow> proxy_error + proxy_step list" where
  "array_to_steps E F K a = entries_to_steps E F (read_entries K a)"

section \<open>An execution\<close>

record cf_error =
  cfe_domain :: "string option"
  cfe_code :: int
  cfe_description :: "string option"

type_synonym cf_answer = "cf_error + cf_proxy_dict option list option"

text \<open>How a start ends: no run loop source, the answer of the callback, or the budget.\<close>

datatype execution = NoSource | Delivered cf_answer | RunOut

definition pump :: "nat \<Rightarrow> execution \<Rightarrow> proxy_error + cf_answer" where
  "pump timeout ex =
     (case ex of
        NoSource \<Rightarrow>
          Inl (error_io ''starting a CFNetwork PAC call'' ''CFNetwork returned no run loop source'')
      | Delivered answer \<Rightarrow> Inr answer
      | RunOut \<Rightarrow> Inl (PacTimeout timeout))"

text \<open>The loop of \<open>pump\<close>: each turn of the run loop takes some time and may deliver the answer.
  The time from the start, and the turns still to come.\<close>

fun pump_turns :: "nat option \<Rightarrow> nat \<Rightarrow> (nat \<times> cf_answer option) list \<Rightarrow> execution option" where
  "pump_turns budget now [] = (if budget \<noteq> None \<and> the budget \<le> now then Some RunOut else None)"
| "pump_turns budget now ((spent, delivered) # turns) =
     (if budget \<noteq> None \<and> the budget \<le> now then Some RunOut
      else (case delivered of
              Some a \<Rightarrow> Some (Delivered a)
            | None \<Rightarrow> pump_turns budget (now + spent) turns))"

definition on_result ::
    "cf_error option \<Rightarrow> cf_proxy_dict option list option \<Rightarrow> cf_answer" where
  "on_result e proxies = (case e of None \<Rightarrow> Inr proxies | Some err \<Rightarrow> Inl err)"

definition url_error :: "cf_error \<Rightarrow> proxy_error" where
  "url_error e =
     error_io ''CFNetwork resolving a PAC URL''
       (unwrap_or ''<unreadable domain>'' (cfe_domain e) @ '' error '' @ show_int (cfe_code e))"

definition script_error :: "cf_error \<Rightarrow> proxy_error" where
  "script_error e =
     error_pac_evaluation
       (''CFNetwork: '' @ unwrap_or ''<unreadable description>'' (cfe_description e) @ '' (error ''
         @ unwrap_or ''<unreadable domain>'' (cfe_domain e) @ '' '' @ show_int (cfe_code e) @ '')'')"

text \<open>CFNetwork: the building of its URLs, the executions of a script and of a script's URL for a
  target, the system's settings, and its answer for them.\<close>

record cfnetwork =
  cf_builds_url :: "string \<Rightarrow> bool"
  execute_script :: "string \<Rightarrow> string \<Rightarrow> execution"
  execute_url :: "string \<Rightarrow> string \<Rightarrow> execution"
  system_settings :: "(string \<Rightarrow> cf_item option) option"
  proxies_for_url :: "string \<Rightarrow> (string \<Rightarrow> cf_item option) \<Rightarrow> cf_proxy_dict option list option"
  cf_keys_of :: cf_keys
  cf_foreign :: foreign_debug

definition cf_url :: "cfnetwork \<Rightarrow> string \<Rightarrow> proxy_error + string" where
  "cf_url N t =
     (if I64_MAX < int (length t) then Inl (error_io ''building a CFURL'' ''URL too long'')
      else if \<not> cf_builds_url N t
      then Inl (error_io ''building a CFURL'' ''CFURLCreateWithBytes returned NULL'')
      else Inr t)"

definition check_timeout :: "nat \<Rightarrow> proxy_error + unit" where
  "check_timeout timeout = (if timeout = 0 then Inl (PacTimeout timeout) else Inr ())"

definition evaluate_script ::
    "external \<Rightarrow> url_ops \<Rightarrow> cfnetwork \<Rightarrow> string \<Rightarrow> url \<Rightarrow> nat \<Rightarrow> proxy_error + proxy_step list" where
  "evaluate_script E U N script u timeout =
     (case cf_url N (as_str (sanitize_url U u)) of
        Inl e \<Rightarrow> Inl e
      | Inr target \<Rightarrow>
          (case pump timeout (execute_script N script target) of
             Inl e \<Rightarrow> Inl e
           | Inr (Inl e) \<Rightarrow> Inl (script_error e)
           | Inr (Inr a) \<Rightarrow> array_to_steps E (cf_foreign N) (cf_keys_of N) a))"

record cf_resolver =
  cr_timeout :: nat
  cr_wpad :: bool

definition DEFAULT_CFNETWORK_PAC_TIMEOUT :: nat where
  "DEFAULT_CFNETWORK_PAC_TIMEOUT = 5 * 1000000000"

definition cf_resolver_new :: cf_resolver where
  "cf_resolver_new = \<lparr> cr_timeout = DEFAULT_CFNETWORK_PAC_TIMEOUT, cr_wpad = False \<rparr>"

definition cf_resolver_with_timeout :: "nat \<Rightarrow> proxy_error + cf_resolver" where
  "cf_resolver_with_timeout timeout =
     (case check_timeout timeout of
        Inl e \<Rightarrow> Inl e
      | Inr _ \<Rightarrow> Inr \<lparr> cr_timeout = timeout, cr_wpad = False \<rparr>)"

definition cf_evaluator_with_timeout :: "nat \<Rightarrow> proxy_error + nat" where
  "cf_evaluator_with_timeout timeout =
     (case check_timeout timeout of Inl e \<Rightarrow> Inl e | Inr _ \<Rightarrow> Inr timeout)"

definition cf_with_wpad :: "bool \<Rightarrow> cf_resolver \<Rightarrow> cf_resolver" where
  "cf_with_wpad on r = r\<lparr>cr_wpad := on\<rparr>"

definition cf_resolve ::
    "external \<Rightarrow> url_ops \<Rightarrow> cfnetwork \<Rightarrow> cf_resolver \<Rightarrow> url \<Rightarrow> url \<Rightarrow> proxy_error + proxy_step list" where
  "cf_resolve E U N r u pac_url =
     (case cf_url N (as_str pac_url) of
        Inl e \<Rightarrow> Inl e
      | Inr pac \<Rightarrow>
          (case cf_url N (as_str (sanitize_url U u)) of
             Inl e \<Rightarrow> Inl e
           | Inr target \<Rightarrow>
               (case pump (cr_timeout r) (execute_url N pac target) of
                  Inl e \<Rightarrow> Inl e
                | Inr (Inr a) \<Rightarrow> array_to_steps E (cf_foreign N) (cf_keys_of N) a
                | Inr (Inl e) \<Rightarrow> Inl (url_error e))))"

definition runs_a_script :: "(string \<Rightarrow> cf_item option) \<Rightarrow> bool" where
  "runs_a_script settings \<longleftrightarrow>
     list_ex (\<lambda>key. case settings key of Some (ItemNumber n) \<Rightarrow> n = Some 1 | _ \<Rightarrow> False)
       [''ProxyAutoConfigEnable'', ''ProxyAutoDiscoveryEnable'']"

definition run_pac_entry ::
    "external \<Rightarrow> url_ops \<Rightarrow> cfnetwork \<Rightarrow> cf_resolver \<Rightarrow> string \<Rightarrow> string
       \<Rightarrow> proxy_error + proxy_step list option" where
  "run_pac_entry E U N r target pac_url =
     (case cf_url N pac_url of
        Inl e \<Rightarrow> Inl e
      | Inr pac \<Rightarrow>
          (case pump (cr_timeout r) (execute_url N pac target) of
             Inl e \<Rightarrow> Inl e
           | Inr (Inr a) \<Rightarrow> map_sum id Some (array_to_steps E (cf_foreign N) (cf_keys_of N) a)
           | Inr (Inl e) \<Rightarrow>
               if cf_wpad_miss E U pac_url (unwrap_or [] (cfe_domain e)) (cfe_code e) then Inr None
               else Inl (url_error e)))"

definition resolve_with_settings ::
    "external \<Rightarrow> url_ops \<Rightarrow> cfnetwork \<Rightarrow> cf_resolver \<Rightarrow> string \<Rightarrow> (string \<Rightarrow> cf_item option)
       \<Rightarrow> proxy_error + proxy_step list" where
  "resolve_with_settings E U N r target settings =
     (if \<not> runs_a_script settings
      then Inl (error_io ''CFNetwork resolving WPAD''
             ''the system proxy settings no longer name a PAC script'')
      else walk_system_entries E (cf_foreign N) (run_pac_entry E U N r target)
             (read_entries (cf_keys_of N) (proxies_for_url N target settings)))"

definition cf_resolve_wpad ::
    "external \<Rightarrow> url_ops \<Rightarrow> cfnetwork \<Rightarrow> cf_resolver \<Rightarrow> url \<Rightarrow> proxy_error + proxy_step list" where
  "cf_resolve_wpad E U N r u =
     (case cf_url N (as_str (sanitize_url U u)) of
        Inl e \<Rightarrow> Inl e
      | Inr target \<Rightarrow>
          (case system_settings N of
             None \<Rightarrow> Inl (error_io ''CFNetwork resolving WPAD''
                        ''CFNetworkCopySystemProxySettings returned NULL'')
           | Some settings \<Rightarrow> resolve_with_settings E U N r target settings))"

text \<open>\<open>system_source\<close> is the scope of the live settings: the state scope on macOS, its own source
  on iOS.\<close>

definition cf_resolve_config ::
    "external \<Rightarrow> url_ops \<Rightarrow> cfnetwork \<Rightarrow> config_source \<Rightarrow> cf_resolver \<Rightarrow> proxy_config \<Rightarrow> url
       \<Rightarrow> proxy_error + proxy_step list" where
  "cf_resolve_config E U N system_source r c u =
     (let mode = effective c; has_host = has_request_host u in
      case mode of
        Direct \<Rightarrow> resolve E c u
      | Manual m b rej \<Rightarrow> resolve E c u
      | WpadAutoDetect \<Rightarrow>
          if \<not> has_host then Inr [StepDirect]
          else if cr_wpad r \<and> config_source_mode system_source c = Some mode
          then cf_resolve_wpad E U N r u
          else Inl (PacNotSupported ''wpad'')
      | Pac pac_url rej \<Rightarrow>
          if \<not> has_host then Inr [StepDirect] else cf_resolve E U N r u pac_url
      | PacInline script rej \<Rightarrow>
          if \<not> has_host then Inr [StepDirect]
          else evaluate_script E U N script u (cr_timeout r))"

end
