(* ===== verification/Pac_Native_Facts.thy ===== *)
theory Pac_Native_Facts
  imports Pac_WinHttp Pac_CfNetwork Resolve_Facts
begin

text \<open>
  The native PAC engines: discovery only where it was allowed, a failed script never read as no
  proxy, the budgets inside what the systems take for endless, resets as far apart as Windows
  asks, and CFNetwork's entries written back without becoming more than they were.
\<close>

section \<open>WinHTTP and discovery\<close>

text \<open>\<open>A\<close> with the answers of \<open>X\<close> to every call that asks for discovery.\<close>

definition with_discovery_from :: "winhttp \<Rightarrow> winhttp \<Rightarrow> winhttp" where
  "with_discovery_from X A =
     A\<lparr>wa_call := (\<lambda>o' q. (if asks_for_wpad (ao_flags o') then wa_call X else wa_call A) o' q),
       wa_notes := (\<lambda>o' q. (if asks_for_wpad (ao_flags o') then wa_notes X else wa_notes A) o' q),
       wa_wait := (\<lambda>o' q. (if asks_for_wpad (ao_flags o') then wa_wait X else wa_wait A) o' q),
       wa_result := (\<lambda>o' q. (if asks_for_wpad (ao_flags o') then wa_result X else wa_result A) o' q)\<rparr>"

lemma script_asks_nothing [simp]: "\<not> asks_for_wpad WINHTTP_AUTOPROXY_CONFIG_URL"
  by (simp add: asks_for_wpad_def winhttp_values)

lemma discovery_asks [simp]:
  "asks_for_wpad (winhttp_flags AutoDetect)" "asks_for_wpad (winhttp_flags (AutoDetectThenUrl u))"
  by (simp_all add: asks_for_wpad_def winhttp_values)

lemma options_flags [simp]: "ao_flags (options_for source) = winhttp_flags source"
  by (simp add: options_for_def)

lemma resolve_raw_blind:
  assumes "\<not> wr_wpad r"
  shows "resolve_raw E U (with_discovery_from X A) r u source = resolve_raw E U A r u source"
proof (cases "asks_for_wpad (winhttp_flags source)")
  case True
  with assms show ?thesis by (simp add: resolve_raw_def)
next
  case False
  let ?B = "with_discovery_from X A"
  have same: "wa_create ?B = wa_create A" "wa_event ?B = wa_event A" "wa_os_error ?B = wa_os_error A"
    "wa_call ?B (options_for source) = wa_call A (options_for source)"
    "wa_notes ?B (options_for source) = wa_notes A (options_for source)"
    "wa_wait ?B (options_for source) = wa_wait A (options_for source)"
    "wa_result ?B (options_for source) = wa_result A (options_for source)"
    using False by (simp_all add: with_discovery_from_def fun_eq_iff)
  show ?thesis
    unfolding resolve_raw_def finished_def read_result_def pending_after_def Let_def same
    by (rule refl)
qed

text \<open>Without discovery allowed, neither what WinHTTP would answer to a call that asks for it
  nor what the registry holds beneath it changes any resolution.\<close>

theorem no_discovery_unless_allowed:
  "if wr_wpad r then True
   else winhttp_resolve_config E U (with_discovery_from X A) now registry r c u
     = winhttp_resolve_config E U A now other_registry r c u"
  by (auto simp: winhttp_resolve_config_def winhttp_resolve_def resolve_raw_blind Let_def
      split: proxy_mode.split)

section \<open>The end of a call of WinHTTP\<close>

text \<open>The status a call ends with, when it does within the budget.\<close>

definition winhttp_code :: "winhttp \<Rightarrow> winhttp_resolver \<Rightarrow> winhttp_source \<Rightarrow> string \<Rightarrow> u32 option" where
  "winhttp_code A r source query =
     (if wa_create A \<noteq> ERROR_SUCCESS \<or> wa_event A \<noteq> None then None
      else if wa_call A (options_for source) query \<noteq> ERROR_IO_PENDING
      then Some (wa_call A (options_for source) query)
      else if wa_wait A (options_for source) query (wait_millis (wr_timeout r)) = WaitObject
      then Some (pd_status (pending_after A (options_for source) query)) else None)"

text \<open>The call succeeded and so did the reading of its result, whose steps are these.\<close>

definition winhttp_gave ::
    "external \<Rightarrow> winhttp \<Rightarrow> winhttp_resolver \<Rightarrow> winhttp_source \<Rightarrow> string \<Rightarrow> proxy_step list \<Rightarrow> bool" where
  "winhttp_gave E A r source query ss \<longleftrightarrow>
     winhttp_code A r source query = Some ERROR_SUCCESS
     \<and> fst (wa_result A (options_for source) query) = ERROR_SUCCESS
     \<and> winhttp_to_steps E (snd (wa_result A (options_for source) query)) = Inr ss"

text \<open>Discovery found no script.\<close>

definition winhttp_missed :: "winhttp \<Rightarrow> winhttp_resolver \<Rightarrow> winhttp_source \<Rightarrow> string \<Rightarrow> bool" where
  "winhttp_missed A r source query \<longleftrightarrow>
     asks_for_wpad (winhttp_flags source)
     \<and> winhttp_code A r source query = Some ERROR_WINHTTP_AUTODETECTION_FAILED"

lemma finished_Inr:
  "finished E A options q ctx code = Inr x \<longleftrightarrow>
     (if winhttp_wpad_miss (ao_flags options) code then x = AutoDetectionFailed
      else code = ERROR_SUCCESS \<and> fst (wa_result A options q) = ERROR_SUCCESS
        \<and> (\<exists>ss. x = Resolved ss \<and> winhttp_to_steps E (snd (wa_result A options q)) = Inr ss))"
  by (cases "wa_result A options q"; cases "winhttp_to_steps E (snd (wa_result A options q))")
    (auto simp: finished_def read_result_def)

lemma resolve_raw_Inr:
  assumes "resolve_raw E U A r u source = Inr x"
  shows "case x of
      AutoDetectionFailed \<Rightarrow> winhttp_missed A r source (query_url U u)
    | Resolved ss \<Rightarrow> winhttp_gave E A r source (query_url U u) ss"
  using assms
  by (auto simp: resolve_raw_def Let_def winhttp_missed_def winhttp_gave_def winhttp_code_def
      winhttp_wpad_miss_def finished_Inr split: if_splits option.splits waited.splits)

lemma winhttp_resolve_gave:
  "winhttp_resolve E U A r u (ScriptAt p) = Inr ss \<Longrightarrow> winhttp_gave E A r (ScriptAt p) (query_url U u) ss"
  by (auto simp: winhttp_resolve_def winhttp_missed_def split: sum.splits wpad_outcome.splits
      dest: resolve_raw_Inr)

lemma winhttp_wpad_answer:
  assumes "resolve_wpad_with_fallback E U A now registry r c u = Inr ss"
  shows "\<exists>pac_url beneath.
      (if config_source_mode Registry c = Some (effective c) then registry else Inr (None, Direct))
        = Inr (pac_url, beneath)
      \<and> (let source = (case pac_url of Some p \<Rightarrow> AutoDetectThenUrl p | None \<Rightarrow> AutoDetect)
         in winhttp_gave E A r source (query_url U u) ss
           \<or> winhttp_missed A r source (query_url U u)
             \<and> (case beneath of
                  Manual m b rej \<Rightarrow> resolve E (from_source now Registry beneath) u = Inr ss
                | _ \<Rightarrow> ss = [StepDirect]))"
proof -
  let ?stored = "if config_source_mode Registry c = Some (effective c) then registry else Inr (None, Direct)"
  obtain pac_url beneath where stored: "?stored = Inr (pac_url, beneath)"
    using assms by (cases ?stored) (auto simp: resolve_wpad_with_fallback_def)
  let ?source = "case pac_url of Some p \<Rightarrow> AutoDetectThenUrl p | None \<Rightarrow> AutoDetect"
  obtain x where x: "resolve_raw E U A r u ?source = Inr x"
    using assms by (cases "resolve_raw E U A r u ?source")
      (auto simp: resolve_wpad_with_fallback_def stored)
  from assms resolve_raw_Inr [OF x]
  have "winhttp_gave E A r ?source (query_url U u) ss
    \<or> winhttp_missed A r ?source (query_url U u)
      \<and> (case beneath of
           Manual m b rej \<Rightarrow> resolve E (from_source now Registry beneath) u = Inr ss
         | _ \<Rightarrow> ss = [StepDirect])"
    by (cases x; cases beneath) (auto simp: resolve_wpad_with_fallback_def stored x)
  with stored show ?thesis unfolding Let_def by blast
qed

section \<open>Budgets\<close>

text \<open>A wait is never the endless one, a session's timeout never the endless 0 and never
  negative, and either is the budget in milliseconds when that fits.\<close>

theorem budgets_stay_finite:
  "wait_millis t < U32_MAX \<and> 1 \<le> session_timeout_millis t \<and> session_timeout_millis t \<le> I32_MAX
   \<and> wait_millis t = min (t div 1000000) (U32_MAX - 1)
   \<and> session_timeout_millis t = max 1 (min (t div 1000000) I32_MAX)"
  by (auto simp: wait_millis_def session_timeout_millis_def U32_MAX_def I32_MAX_def Let_def)

text \<open>The times of the resets that were handed on, of a run of calls at times with statuses.\<close>

fun resets_made :: "(u32 \<Rightarrow> string) \<Rightarrow> (nat \<times> u32) list \<Rightarrow> nat option \<Rightarrow> nat list" where
  "resets_made os_error [] accepted = []"
| "resets_made os_error ((now, status) # calls) accepted =
     (let (result, accepted') = reset_auto_proxy os_error status now accepted
      in (if result = Inr ResetRequested then [now] else [])
           @ resets_made os_error calls accepted')"

lemma reset_wait_None: "reset_wait (Some a) now = None \<longleftrightarrow> a + RESET_SPACING \<le> now"
  by (auto simp: reset_wait_def RESET_SPACING_def Let_def)

lemma resets_made_spaced:
  "successively (\<lambda>a b. a + RESET_SPACING \<le> b) (resets_made os_error calls accepted)
   \<and> (case (accepted, resets_made os_error calls accepted) of
        (Some a, b # _) \<Rightarrow> a + RESET_SPACING \<le> b | _ \<Rightarrow> True)"
proof (induction calls arbitrary: accepted)
  case Nil
  then show ?case by (simp split: option.splits)
next
  case (Cons call calls)
  obtain now status where call: "call = (now, status)" by (cases call)
  from Cons [of accepted] Cons [of "Some now"] show ?case
    by (auto simp: call reset_auto_proxy_def reset_wait_None successively_Cons
        split: option.splits list.splits)
qed

text \<open>Two resets the service is handed are at least 30 seconds apart, in whatever order and
  at whatever times they are asked for.\<close>

theorem resets_are_spaced:
  "successively (\<lambda>a b. a + 30 * 1000000000 \<le> b) (resets_made os_error calls accepted)"
  using resets_made_spaced [of os_error calls accepted] by (simp add: RESET_SPACING_def)

section \<open>The call in flight\<close>

lemma callback_ignores: "notification_code n = None \<Longrightarrow> status_callback n pd = pd"
  by (simp add: status_callback_def)

lemma callbacks_once:
  assumes "filter (\<lambda>n. notification_code n \<noteq> None) notes = [n]" "nt_context n"
  shows "fold status_callback notes pending_new =
    \<lparr> pd_done = True, pd_status = the (notification_code n), pd_refs = 1 \<rparr>"
proof -
  have skip: "fold status_callback ns pd = fold status_callback (filter (\<lambda>n. notification_code n \<noteq> None) ns) pd"
    for ns pd
    by (induction ns arbitrary: pd) (auto simp: callback_ignores)
  show ?thesis
    using assms(2) assms(1) by (subst skip)
      (auto simp: status_callback_def pending_new_def pending_drop_def pending_finish_def
        filter_eq_Cons_iff split: option.splits)
qed

section \<open>CFNetwork's entries\<close>

lemma no_line_break:
  "\<not> has_whitespace s \<Longrightarrow> CHR 0x0A \<notin> set s \<and> CHR 0x0D \<notin> set s"
  by (induction s) (auto simp: ws_len_def ascii_char_def ascii_trim_chars_def split: if_splits)

lemma show_int_clean: "c \<in> set (show_int n) \<Longrightarrow> is_digit c \<or> c = CHR ''-''"
  by (auto simp: show_int_def dest: show_nat_digits split: if_splits)

lemma candidate_one_piece:
  assumes "entry_candidate e = Some cand"
  shows "\<forall>c\<in>set cand. \<not> candidate_separator c"
proof -
  have digits: "\<not> candidate_separator c" if "c \<in> set (show_int n)" for c n
    using show_int_clean [OF that] by (auto simp: candidate_separator_def is_digit_def)
  have host: "\<not> candidate_separator c"
    if "\<not> splits_candidate h" "c \<in> set h" for c h
    using that no_line_break [of h]
    by (auto simp: splits_candidate_def candidate_separator_def list_ex_iff)
  have word: "\<not> candidate_separator c" if "entry_keyword k = Some w" "c \<in> set w" for k w c
    using that by (auto simp: entry_keyword_def candidate_separator_def split: if_splits)
  have mark: "\<not> candidate_separator (CHR '':'')" "\<not> candidate_separator (CHR ''['')"
    "\<not> candidate_separator (CHR '']'')" "\<not> candidate_separator (CHR '' '')"
    "\<forall>c\<in>set ''DIRECT''. \<not> candidate_separator c"
    by (simp_all add: candidate_separator_def)
  show ?thesis
    using assms digits host word mark
    by (auto simp: entry_candidate_def Let_def split: if_splits option.splits)
qed

fun tail_text :: "string list \<Rightarrow> string" where
  "tail_text [] = []"
| "tail_text (d # ds) = CHR '';'' # CHR '' '' # d @ tail_text ds"

lemma tail_text_concat: "concat (map (\<lambda>d. ''; '' @ d) ds) = tail_text ds"
  by (induction ds) auto

lemma split_piece:
  assumes "\<forall>c\<in>set d. \<not> candidate_separator c"
    "split_chars candidate_separator (tail_text ds) = [] # pieces"
  shows "split_chars candidate_separator (d @ tail_text ds) = d # pieces"
proof (cases ds)
  case Nil
  with assms show ?thesis using split_chars_none [OF assms(1)] by simp
next
  case (Cons d' ds')
  have sep: "candidate_separator (CHR '';'')" by (simp add: candidate_separator_def)
  with Cons assms(2) split_chars_append [OF assms(1) sep, of "CHR '' '' # d' @ tail_text ds'"]
  show ?thesis by simp
qed

lemma split_tail:
  assumes "\<forall>cand\<in>set cs. \<forall>c\<in>set cand. \<not> candidate_separator c"
  shows "split_chars candidate_separator (tail_text cs) = [] # map (\<lambda>d. CHR '' '' # d) cs"
  using assms
proof (induction cs)
  case Nil
  then show ?case by simp
next
  case (Cons d cs)
  have sep: "candidate_separator (CHR '';'')" "\<not> candidate_separator (CHR '' '')"
    by (simp_all add: candidate_separator_def)
  have "split_chars candidate_separator ((CHR '' '' # d) @ tail_text cs)
      = (CHR '' '' # d) # map (\<lambda>d. CHR '' '' # d) cs"
    by (rule split_piece) (use Cons sep in auto)
  then show ?case using sep(1) by simp
qed

lemma split_join:
  assumes "\<forall>cand\<in>set cs. \<forall>c\<in>set cand. \<not> candidate_separator c" "cs \<noteq> []"
  shows "split_chars candidate_separator (join_candidates cs) = hd cs # map (\<lambda>d. CHR '' '' # d) (tl cs)"
proof -
  obtain d ds where cs: "cs = d # ds" using assms(2) by (cases cs) auto
  have "split_chars candidate_separator (d @ tail_text ds) = d # map (\<lambda>d. CHR '' '' # d) ds"
    by (rule split_piece) (use assms cs split_tail in auto)
  then show ?thesis by (simp add: join_candidates_def cs tail_text_concat)
qed

lemma parse_candidate_space: "parse_candidate E (CHR '' '' # d) = parse_candidate E d"
proof -
  have "split_ascii_whitespace (CHR '' '' # d) = split_ascii_whitespace d"
    by (simp add: ascii_whitespace_def)
  then show ?thesis by (simp add: parse_candidate_def)
qed

text \<open>The step an entry is, when it is one.\<close>

definition entry_step :: "external \<Rightarrow> cf_entry \<Rightarrow> proxy_step option" where
  "entry_step E e = Option.bind (entry_candidate e) (parse_candidate E)"

lemma present_bind:
  "present (map f (present (map g xs))) = present (map (\<lambda>x. Option.bind (g x) f) xs)"
proof (induction xs)
  case Nil
  then show ?case by simp
next
  case (Cons x xs)
  then show ?case by (cases "g x"; cases "Option.bind (g x) f") auto
qed

lemma set_present_iff: "y \<in> set (present xs) \<longleftrightarrow> Some y \<in> set xs"
  by (induction xs rule: present.induct) auto

lemma written_back:
  assumes "present (map entry_candidate es) \<noteq> []"
  shows "present (map (parse_candidate E)
      (split_chars candidate_separator (join_candidates (present (map entry_candidate es)))))
    = present (map (entry_step E) es)"
proof -
  let ?cs = "present (map entry_candidate es)"
  have clean: "\<forall>cand\<in>set ?cs. \<forall>c\<in>set cand. \<not> candidate_separator c"
    by (auto simp: set_present_iff dest!: candidate_one_piece [OF sym])
  have "map (parse_candidate E) (hd ?cs # map (\<lambda>d. CHR '' '' # d) (tl ?cs)) = map (parse_candidate E) ?cs"
    using assms by (cases ?cs) (auto simp: parse_candidate_space)
  then show ?thesis
    unfolding split_join [OF clean assms] entry_step_def [abs_def] by (simp only: present_bind)
qed

text \<open>CFNetwork's entries become at most one step each, in their order, repeats collapsed and
  the chain cut at its limit: no host of an entry splits into a second candidate when the whole
  is written back and parsed.\<close>

theorem an_entry_is_one_step_at_most:
  "case entries_to_steps E F es of
     Inl _ \<Rightarrow> True
   | Inr ss \<Rightarrow> ss = take MAX_CHAIN (first_of_each {} (present (map (entry_step E) es)))"
  using written_back [of es E]
  by (auto simp: entries_to_steps_def Let_def parse_find_proxy_result_spec split: if_splits)

section \<open>The system's answer\<close>

definition is_pac_entry :: "cf_entry \<Rightarrow> bool" where
  "is_pac_entry e \<longleftrightarrow> ce_kind e = KindAutoConfigUrl \<and> ce_pac_url e \<noteq> None"

definition is_miss :: "(string \<Rightarrow> proxy_error + proxy_step list option) \<Rightarrow> cf_entry \<Rightarrow> bool" where
  "is_miss run e \<longleftrightarrow> is_pac_entry e \<and> run (the (ce_pac_url e)) = Inr None"

text \<open>The walk over the system's answer skips the scripts that discovery missed and stops at
  the first entry that is no such miss: its script's steps or error, or, when it names no
  script, that entry and the ones after it. It is direct when every entry is a miss, and an
  error when there is none.\<close>

lemma walk_by_misses:
  "walk_system_entries E F run es =
     (if es = [] then entries_to_steps E F []
      else (case dropWhile (is_miss run) es of
              [] \<Rightarrow> Inr [StepDirect]
            | e # rest \<Rightarrow>
                if is_pac_entry e then map_sum id the (run (the (ce_pac_url e)))
                else entries_to_steps E F (e # rest)))"
proof -
  have "walk_entries E F run es = (case dropWhile (is_miss run) es of
              [] \<Rightarrow> Inr [StepDirect]
            | e # rest \<Rightarrow>
                if is_pac_entry e then map_sum id the (run (the (ce_pac_url e)))
                else entries_to_steps E F (e # rest))" for es
  proof (induction es)
    case Nil
    then show ?case by simp
  next
    case (Cons e es)
    then show ?case
      by (cases "ce_kind e"; cases "ce_pac_url e"; cases "run (the (ce_pac_url e))")
        (auto simp: is_miss_def is_pac_entry_def split: option.splits)
  qed
  then show ?thesis by (simp add: walk_system_entries_def)
qed

section \<open>A script that fails\<close>

text \<open>A delivered array is what the steps are made of.\<close>

definition cf_gave ::
    "external \<Rightarrow> cfnetwork \<Rightarrow> execution \<Rightarrow> proxy_step list \<Rightarrow> bool" where
  "cf_gave E N ex ss \<longleftrightarrow>
     (case ex of
        Delivered (Inr a) \<Rightarrow> array_to_steps E (cf_foreign N) (cf_keys_of N) a = Inr ss
      | _ \<Rightarrow> False)"

text \<open>An entry of a script that discovery missed: the host \<open>wpad\<close> has no address.\<close>

definition cf_missed :: "external \<Rightarrow> url_ops \<Rightarrow> cfnetwork \<Rightarrow> string \<Rightarrow> cf_entry \<Rightarrow> bool" where
  "cf_missed E U N target e \<longleftrightarrow>
     ce_kind e = KindAutoConfigUrl
     \<and> (case ce_pac_url e of
          None \<Rightarrow> False
        | Some pac \<Rightarrow>
            cf_url N pac = Inr pac
            \<and> (case execute_url N pac target of
                 Delivered (Inl err) \<Rightarrow>
                   cfe_domain err = Some ''NSURLErrorDomain'' \<and> cfe_code err = - 1003
                   \<and> (case url_parse E pac of
                        Inl _ \<Rightarrow> False | Inr v \<Rightarrow> host_str U v = Some ''wpad'')
               | _ \<Rightarrow> False))"

lemma cf_url_same: "cf_url N t = Inr t' \<Longrightarrow> t' = t"
  by (auto simp: cf_url_def split: if_splits)

lemma mapped_Inr:
  "map_sum id Some x = Inr (Some ss) \<longleftrightarrow> x = Inr ss" "map_sum id Some x \<noteq> Inr None"
  by (cases x; simp)+

lemma run_pac_entry_Inr:
  "run_pac_entry E U N r target pac = Inr (Some ss) \<Longrightarrow> cf_gave E N (execute_url N pac target) ss"
proof (cases "cf_url N pac")
  case (Inr t)
  assume run: "run_pac_entry E U N r target pac = Inr (Some ss)"
  note [simp] = cf_url_same [OF Inr]
  show ?thesis using run Inr
    by (auto simp: run_pac_entry_def cf_gave_def pump_def mapped_Inr
        split: sum.splits execution.splits if_splits)
qed (simp add: run_pac_entry_def)

lemma unwrap_or_named: "unwrap_or [] d = c # cs \<longleftrightarrow> d = Some (c # cs)"
  by (cases d) simp_all

lemma is_miss_cf_missed: "is_miss (run_pac_entry E U N r target) e = cf_missed E U N target e"
proof (cases "is_pac_entry e")
  case False
  then show ?thesis by (auto simp: is_miss_def is_pac_entry_def cf_missed_def)
next
  case True
  then obtain pac where pac: "ce_pac_url e = Some pac" "ce_kind e = KindAutoConfigUrl"
    by (auto simp: is_pac_entry_def)
  have "run_pac_entry E U N r target pac = Inr None \<longleftrightarrow>
      cf_url N pac = Inr pac
      \<and> (case execute_url N pac target of
           Delivered (Inl err) \<Rightarrow> cf_wpad_miss E U pac (unwrap_or [] (cfe_domain err)) (cfe_code err)
         | _ \<Rightarrow> False)"
  proof (cases "cf_url N pac")
    case (Inr t)
    note [simp] = cf_url_same [OF Inr]
    show ?thesis using Inr
      by (auto simp: run_pac_entry_def pump_def mapped_Inr split: sum.splits execution.splits)
  qed (simp add: run_pac_entry_def)
  then show ?thesis
    using True pac
    by (auto simp: is_miss_def cf_missed_def cf_wpad_miss_def unwrap_or_named
        split: execution.splits sum.splits)
qed

lemma cf_resolve_gave:
  "cf_resolve E U N r u p = Inr ss \<Longrightarrow>
     cf_gave E N (execute_url N (as_str p) (as_str (sanitize_url U u))) ss"
  by (auto simp: cf_resolve_def cf_gave_def pump_def dest!: cf_url_same
      split: sum.splits execution.splits)

lemma evaluate_script_gave:
  "evaluate_script E U N s u timeout = Inr ss \<Longrightarrow>
     cf_gave E N (execute_script N s (as_str (sanitize_url U u))) ss"
  by (auto simp: evaluate_script_def cf_gave_def pump_def dest!: cf_url_same
      split: sum.splits execution.splits)

lemma cf_wpad_answer:
  assumes "cf_resolve_wpad E U N r u = Inr ss"
  shows "\<exists>settings. system_settings N = Some settings \<and> runs_a_script settings
    \<and> (let target = as_str (sanitize_url U u);
            es = read_entries (cf_keys_of N) (proxies_for_url N target settings)
       in case dropWhile (cf_missed E U N target) es of
            [] \<Rightarrow> es \<noteq> [] \<and> ss = [StepDirect]
          | e # rest \<Rightarrow>
              (case (ce_kind e, ce_pac_url e) of
                 (KindAutoConfigUrl, Some pac) \<Rightarrow> cf_gave E N (execute_url N pac target) ss
               | _ \<Rightarrow> entries_to_steps E (cf_foreign N) (e # rest) = Inr ss))"
proof -
  let ?target = "as_str (sanitize_url U u)"
  obtain settings where s: "system_settings N = Some settings" "runs_a_script settings"
    and walk: "walk_system_entries E (cf_foreign N) (run_pac_entry E U N r ?target)
      (read_entries (cf_keys_of N) (proxies_for_url N ?target settings)) = Inr ss"
    using assms by (auto simp: cf_resolve_wpad_def resolve_with_settings_def
        dest!: cf_url_same split: sum.splits option.splits if_splits)
  let ?es = "read_entries (cf_keys_of N) (proxies_for_url N ?target settings)"
  have miss: "is_miss (run_pac_entry E U N r ?target) = cf_missed E U N ?target"
    by (simp add: fun_eq_iff is_miss_cf_missed)
  have some: "?es \<noteq> []" using walk by (auto simp: walk_system_entries_def entries_to_steps_def)
  note steps = walk [unfolded walk_by_misses, simplified some miss if_False]
  have "case dropWhile (cf_missed E U N ?target) ?es of
      [] \<Rightarrow> ?es \<noteq> [] \<and> ss = [StepDirect]
    | e # rest \<Rightarrow>
        (case (ce_kind e, ce_pac_url e) of
           (KindAutoConfigUrl, Some pac) \<Rightarrow> cf_gave E N (execute_url N pac ?target) ss
         | _ \<Rightarrow> entries_to_steps E (cf_foreign N) (e # rest) = Inr ss)"
  proof (cases "dropWhile (cf_missed E U N ?target) ?es")
    case Nil
    show ?thesis using steps some unfolding Nil by simp
  next
    case (Cons e rest)
    then have hit: "\<not> is_miss (run_pac_entry E U N r ?target) e"
      using hd_dropWhile [of "cf_missed E U N ?target" ?es] by (simp add: miss)
    show ?thesis
    proof (cases "is_pac_entry e")
      case False
      then show ?thesis using steps Cons
        by (auto simp: is_pac_entry_def split: entry_kind.splits option.splits)
    next
      case True
      then obtain pac where pac: "ce_pac_url e = Some pac" "ce_kind e = KindAutoConfigUrl"
        by (auto simp: is_pac_entry_def)
      obtain ss' where run: "run_pac_entry E U N r ?target pac = Inr ss'" "ss = the ss'"
        using steps Cons True pac by (cases "run_pac_entry E U N r ?target pac") auto
      moreover have "ss' \<noteq> None" using hit True pac run(1) by (auto simp: is_miss_def)
      ultimately show ?thesis using Cons pac run_pac_entry_Inr by fastforce
    qed
  qed
  with s show ?thesis by (auto simp: Let_def)
qed

text \<open>C23. The steps a native engine gives for a script are those of an answer its system delivered with
  success: a download or a script that fails is an error, whatever its status, and never a direct
  connection. WinHTTP runs no inline script. Only where discovery is allowed and missed is there
  another outcome: with WinHTTP the proxies stored beneath it, or no proxy; with CFNetwork the next
  entry of the system's answer, or no proxy when each of them is such a miss.\<close>

theorem a_failed_script_is_never_direct:
  "(case winhttp_resolve_config E U A now registry r c u of
      Inl _ \<Rightarrow> True
    | Inr ss \<Rightarrow>
        (case effective c of
           Pac p rej \<Rightarrow>
             if has_request_host u then winhttp_gave E A r (ScriptAt p) (query_url U u) ss
             else ss = [StepDirect]
         | PacInline s rej \<Rightarrow> False
         | WpadAutoDetect \<Rightarrow>
             if has_request_host u
             then wr_wpad r
               \<and> (\<exists>pac_url beneath.
                    (if config_source_mode Registry c = Some (effective c) then registry
                     else Inr (None, Direct)) = Inr (pac_url, beneath)
                    \<and> (let source = (case pac_url of Some p \<Rightarrow> AutoDetectThenUrl p | None \<Rightarrow> AutoDetect)
                       in winhttp_gave E A r source (query_url U u) ss
                         \<or> winhttp_missed A r source (query_url U u)
                           \<and> (case beneath of
                                Manual m b rej \<Rightarrow> resolve E (from_source now Registry beneath) u = Inr ss
                              | _ \<Rightarrow> ss = [StepDirect])))
             else ss = [StepDirect]
         | _ \<Rightarrow> resolve E c u = Inr ss))
   \<and> (case cf_resolve_config E U N system_source cr c u of
        Inl _ \<Rightarrow> True
      | Inr ss \<Rightarrow>
          (let target = as_str (sanitize_url U u)
           in case effective c of
             Pac p rej \<Rightarrow>
               if has_request_host u then cf_gave E N (execute_url N (as_str p) target) ss
               else ss = [StepDirect]
           | PacInline s rej \<Rightarrow>
               if has_request_host u then cf_gave E N (execute_script N s target) ss
               else ss = [StepDirect]
           | WpadAutoDetect \<Rightarrow>
               if has_request_host u
               then cr_wpad cr
                 \<and> (\<exists>settings. system_settings N = Some settings \<and> runs_a_script settings
                      \<and> (let es = read_entries (cf_keys_of N) (proxies_for_url N target settings)
                         in case dropWhile (cf_missed E U N target) es of
                              [] \<Rightarrow> es \<noteq> [] \<and> ss = [StepDirect]
                            | e # rest \<Rightarrow>
                                (case (ce_kind e, ce_pac_url e) of
                                   (KindAutoConfigUrl, Some pac) \<Rightarrow> cf_gave E N (execute_url N pac target) ss
                                 | _ \<Rightarrow> entries_to_steps E (cf_foreign N) (e # rest) = Inr ss)))
               else ss = [StepDirect]
           | _ \<Rightarrow> resolve E c u = Inr ss))"
  (is "?winhttp \<and> ?cfnetwork")
proof
  show ?winhttp
  proof (cases "effective c")
    case WpadAutoDetect
    then show ?thesis using winhttp_wpad_answer [of E U A now registry r c u]
      by (cases "winhttp_resolve_config E U A now registry r c u")
        (auto simp: winhttp_resolve_config_def Let_def split: if_splits)
  qed (auto simp: winhttp_resolve_config_def Let_def split: sum.splits if_splits
      dest: winhttp_resolve_gave)
  show ?cfnetwork
  proof (cases "effective c")
    case WpadAutoDetect
    then show ?thesis using cf_wpad_answer [of E U N cr u]
      by (cases "cf_resolve_config E U N system_source cr c u")
        (auto simp: cf_resolve_config_def Let_def split: if_splits)
  qed (auto simp: cf_resolve_config_def Let_def split: sum.splits if_splits
      dest: cf_resolve_gave evaluate_script_gave)
qed

end
