(* ===== verification/Pac_Engines.thy ===== *)
theory Pac_Engines
  imports Proxy_Info Pac_Worker
begin

text \<open>
  \<open>src/pac/quickjs.rs\<close> and \<open>src/pac/android.rs\<close>: the evaluator on QuickJS around the engine,
  which is an argument, with the host functions a script finds; and the resolver that asks the
  selector of Android, whose answer is an argument.
\<close>

section \<open>QuickJS\<close>

definition MEMORY_LIMIT :: nat where "MEMORY_LIMIT = 64 * 1024 * 1024"
definition STACK_LIMIT :: nat where "STACK_LIMIT = 256 * 1024"
definition MAX_RANGE_ARGS :: nat where "MAX_RANGE_ARGS = 7"

text \<open>What was thrown: an exception with its message, a value with its text if it has one, or an
  error of the engine.\<close>

datatype thrown = Exception "string option" | ThrownValue "string option" | EngineError string

definition failure :: "string \<Rightarrow> thrown \<Rightarrow> proxy_error" where
  "failure what t =
     error_pac_evaluation
       (what @ '': ''
         @ (case t of
              Exception message \<Rightarrow> unwrap_or [] message
            | ThrownValue text \<Rightarrow> unwrap_or ''a value that is not a string'' text
            | EngineError e \<Rightarrow> e))"

text \<open>The engine: the errors of its start and of the host functions' installation, the loading of
  a script, what a name on the global object is (a function or not), a call of it, and the
  result as a string. A call's lookups go to the resolver it is given.\<close>

record 'v quickjs =
  qj_start :: "string option"
  qj_install :: "string option"
  qj_load :: "string \<Rightarrow> thrown option"
  qj_global :: "string \<Rightarrow> string \<Rightarrow> thrown + bool"
  qj_call :: "pac_policy \<Rightarrow> string \<Rightarrow> string \<Rightarrow> string \<Rightarrow> string \<Rightarrow> thrown + 'v"
  qj_text :: "'v \<Rightarrow> thrown + string"

definition ENTRY_POINTS :: "string list" where
  "ENTRY_POINTS = [''FindProxyForURL'', ''FindProxyForURLEx'']"

fun entry_point :: "'v quickjs \<Rightarrow> string \<Rightarrow> string list \<Rightarrow> thrown + string option" where
  "entry_point Q script [] = Inr None"
| "entry_point Q script (name # names) =
     (case qj_global Q script name of
        Inl t \<Rightarrow> Inl t
      | Inr True \<Rightarrow> Inr (Some name)
      | Inr False \<Rightarrow> entry_point Q script names)"

definition run_raw ::
    "'v quickjs \<Rightarrow> string \<Rightarrow> string \<Rightarrow> string \<Rightarrow> pac_policy \<Rightarrow> proxy_error + string" where
  "run_raw Q script u host_text p =
     (case qj_start Q of
        Some e \<Rightarrow> Inl (error_pac_evaluation (''could not start the QuickJS runtime: '' @ e))
      | None \<Rightarrow>
     (case qj_install Q of
        Some e \<Rightarrow> Inl (error_pac_evaluation (''could not install the PAC host functions: '' @ e))
      | None \<Rightarrow>
     (case qj_load Q script of
        Some t \<Rightarrow> Inl (failure ''the PAC script failed to load'' t)
      | None \<Rightarrow>
     (case entry_point Q script ENTRY_POINTS of
        Inl t \<Rightarrow> Inl (failure ''reading the PAC entry point failed'' t)
      | Inr None \<Rightarrow>
          Inl (error_pac_evaluation
            (''the PAC script defines no FindProxyForURL function on its global object ''
              @ ''(a '' @ [CHR 0x60] @ ''let'' @ [CHR 0x60] @ '' or '' @ [CHR 0x60] @ ''const''
              @ [CHR 0x60] @ '' declaration does not put one there)''))
      | Inr (Some name) \<Rightarrow>
     (case qj_call Q p script name u host_text of
        Inl t \<Rightarrow> Inl (failure ''FindProxyForURL failed'' t)
      | Inr v \<Rightarrow>
     (case qj_text Q v of
        Inl t \<Rightarrow> Inl (failure ''FindProxyForURL returned a value that is not a string'' t)
      | Inr text \<Rightarrow> Inr text))))))"

definition quickjs_run ::
    "external \<Rightarrow> 'v quickjs \<Rightarrow> string \<Rightarrow> string \<Rightarrow> string \<Rightarrow> pac_policy
       \<Rightarrow> proxy_error + proxy_step list" where
  "quickjs_run E Q script u host_text p =
     (case run_raw Q script u host_text p of
        Inl e \<Rightarrow> Inl e
      | Inr raw \<Rightarrow> parse_find_proxy_result E raw)"

text \<open>A failure at or past the deadline is the timeout; \<open>past\<close> tells whether it was.\<close>

definition interrupted :: "nat \<Rightarrow> bool \<Rightarrow> proxy_error + 's \<Rightarrow> proxy_error + 's" where
  "interrupted timeout past result = map_err (\<lambda>e. if past then PacTimeout timeout else e) result"

text \<open>\<open>received\<close> is what of the thread's reply arrives within the budget.\<close>

definition quickjs_evaluate ::
    "external \<Rightarrow> url_ops \<Rightarrow> 'v quickjs \<Rightarrow> nat \<Rightarrow> bool \<Rightarrow> string option \<Rightarrow> bool
       \<Rightarrow> (proxy_error + proxy_step list \<Rightarrow> (proxy_error + proxy_step list) reply)
       \<Rightarrow> pac_policy \<Rightarrow> string \<Rightarrow> url \<Rightarrow> string \<Rightarrow> proxy_error + proxy_step list" where
  "quickjs_evaluate E U Q limit acquired thread_error past received p script u host_text =
     (let shown = as_str (sanitize_url U u) in
      case pp_timeout p of
        Some timeout \<Rightarrow>
          run_with_timeout timeout limit acquired thread_error
            (received (interrupted timeout past (quickjs_run E Q script shown host_text p)))
      | None \<Rightarrow> quickjs_run E Q script shown host_text p)"

section \<open>The host functions\<close>

datatype js_result = JsThrows | JsBool bool | JsText string | JsNumber int | JsNull | JsUndefined

text \<open>An argument is its text, or \<open>None\<close> when reading it as a string throws. A missing one reads
  as the empty text.\<close>

definition text_arg :: "string option list \<Rightarrow> nat \<Rightarrow> string option" where
  "text_arg args i = unwrap_or (Some []) (get_opt args i)"

fun with_texts :: "string option list \<Rightarrow> (string list \<Rightarrow> js_result) \<Rightarrow> js_result" where
  "with_texts args f = (case all_some args of None \<Rightarrow> JsThrows | Some ts \<Rightarrow> f ts)"

definition on_one :: "string option list \<Rightarrow> (string \<Rightarrow> js_result) \<Rightarrow> js_result" where
  "on_one args f = (case text_arg args 0 of None \<Rightarrow> JsThrows | Some a \<Rightarrow> f a)"

definition on_two :: "string option list \<Rightarrow> (string \<Rightarrow> string \<Rightarrow> js_result) \<Rightarrow> js_result" where
  "on_two args f =
     (case (text_arg args 0, text_arg args 1) of (Some a, Some b) \<Rightarrow> f a b | _ \<Rightarrow> JsThrows)"

definition range_texts :: "string option list \<Rightarrow> (string list \<Rightarrow> bool) \<Rightarrow> js_result" where
  "range_texts args f =
     (if MAX_RANGE_ARGS < length args then JsBool False
      else with_texts args (\<lambda>ts. JsBool (f ts)))"

text \<open>The table of \<open>register_host_functions\<close>; \<open>None\<close>: no such function. \<open>alert\<close> has no effect on
  the answer.\<close>

definition host_function ::
    "external \<Rightarrow> dns \<Rightarrow> int \<Rightarrow> pac_policy \<Rightarrow> string \<Rightarrow> string option list \<Rightarrow> js_result option" where
  "host_function E D clock p name args =
     (if name = ''isPlainHostName'' then Some (on_one args (\<lambda>h. JsBool (is_plain_host_name h)))
      else if name = ''dnsDomainIs'' then Some (on_two args (\<lambda>h d. JsBool (dns_domain_is h d)))
      else if name = ''localHostOrDomainIs''
      then Some (on_two args (\<lambda>h d. JsBool (local_host_or_domain_is h d)))
      else if name = ''isResolvable'' then Some (on_one args (\<lambda>h. JsBool (is_resolvable E D p h)))
      else if name = ''isInNet''
      then Some (on_two args (\<lambda>h pattern.
             case text_arg args 2 of
               None \<Rightarrow> JsThrows | Some m \<Rightarrow> JsBool (is_in_net E D p h pattern m)))
      else if name = ''dnsResolve''
      then Some (on_one args (\<lambda>h.
             case dns_resolve E D p h of Some a \<Rightarrow> JsText (show_ipv4 a) | None \<Rightarrow> JsNull))
      else if name = ''myIpAddress'' then Some (JsText (show_ip (policy_my_ip_address p)))
      else if name = ''dnsDomainLevels''
      then Some (on_one args (\<lambda>h. JsNumber (int (dns_domain_levels h))))
      else if name = ''shExpMatch'' then Some (on_two args (\<lambda>t pattern. JsBool (sh_exp_match t pattern)))
      else if name = ''weekdayRange'' then Some (range_texts args (weekday_range clock p))
      else if name = ''dateRange'' then Some (range_texts args (date_range clock p))
      else if name = ''timeRange'' then Some (range_texts args (time_range clock p))
      else if name = ''alert'' then Some (on_one args (\<lambda>m. JsUndefined))
      else if name = ''convert_addr'' then Some (on_one args (\<lambda>a. JsNumber (convert_addr a)))
      else None)"

section \<open>The selector of Android\<close>

text \<open>\<open>select\<close> gives the PAC URL the settings name now and what the selector chose, \<open>None\<close> when
  it is not the system's; or the error of reaching the framework.\<close>

definition android_resolve ::
    "external \<Rightarrow> url_ops \<Rightarrow> (url \<Rightarrow> nat)
       \<Rightarrow> (string \<Rightarrow> proxy_error + string option \<times> selected_proxy list option)
       \<Rightarrow> url \<Rightarrow> url \<Rightarrow> proxy_error + proxy_step list" where
  "android_resolve E U authority_end select u pac_url =
     (let target = sanitize_url U u in
      case select (java_uri_text (authority_end target) target) of
        Inl e \<Rightarrow> Inl e
      | Inr (live, selected) \<Rightarrow>
          if Option.bind live (\<lambda>l. result_ok (url_parse E l)) \<noteq> Some pac_url
          then Inl (error_io ''resolving PAC through ProxySelector''
                 ''the system proxy settings no longer name this PAC script'')
          else (case selected of
                  None \<Rightarrow>
                    Inl (error_io ''resolving PAC through ProxySelector''
                      (''the default ProxySelector is not the system'' @ [CHR 0x27]
                        @ ''s PacProxySelector: the process ''
                        @ ''has not installed it yet, or the app replaced it''))
                | Some ps \<Rightarrow> steps_from_selected E ps))"

definition android_resolve_config ::
    "external \<Rightarrow> url_ops \<Rightarrow> (url \<Rightarrow> nat)
       \<Rightarrow> (string \<Rightarrow> proxy_error + string option \<times> selected_proxy list option)
       \<Rightarrow> proxy_config \<Rightarrow> url \<Rightarrow> proxy_error + proxy_step list" where
  "android_resolve_config E U authority_end select c u =
     (let mode = effective c;
          pac = (case mode of Pac _ _ \<Rightarrow> True | PacInline _ _ \<Rightarrow> True | WpadAutoDetect \<Rightarrow> True
                 | _ \<Rightarrow> False)
      in if pac \<and> \<not> has_request_host u then Inr [StepDirect]
         else (case mode of
                 Pac pac_url rej \<Rightarrow>
                   if config_source_mode ConnectivityManager c = Some mode
                   then android_resolve E U authority_end select u pac_url
                   else resolve E c u
               | _ \<Rightarrow> resolve E c u))"

section \<open>Facts\<close>

text \<open>A call of a range function with more arguments than any range takes is answered without one
  of them being read.\<close>

lemma long_range_call:
  "7 < length args \<Longrightarrow> name \<in> {''weekdayRange'', ''dateRange'', ''timeRange''} \<Longrightarrow>
     host_function E D clock p name args = Some (JsBool False)"
  by (auto simp: host_function_def range_texts_def MAX_RANGE_ARGS_def)

text \<open>Without lookups allowed and outside a worker, no host function depends on the network.\<close>

lemma resolve_ipv4_off: "\<not> resolve_dns p \<Longrightarrow> resolve_ipv4 (parent_dns lookup) p h = None"
  by (simp add: resolve_ipv4_def parent_dns_def)

lemma host_functions_offline:
  assumes "\<not> resolve_dns p"
  shows "host_function E (parent_dns lookup) clock p name args
    = host_function E (parent_dns other) clock p name args"
proof -
  have lookups: "resolve_ipv4 (parent_dns lookup) p = resolve_ipv4 (parent_dns other) p"
    using assms by (simp add: fun_eq_iff resolve_ipv4_off)
  have resolved: "dns_resolve E (parent_dns lookup) p = dns_resolve E (parent_dns other) p"
    "is_resolvable E (parent_dns lookup) p = is_resolvable E (parent_dns other) p"
    unfolding dns_resolve_def [abs_def] is_resolvable_def [abs_def] lookups by (rule refl)+
  have net: "is_in_net E (parent_dns lookup) p = is_in_net E (parent_dns other) p"
    unfolding is_in_net_def [abs_def] resolved by (rule refl)
  show ?thesis unfolding host_function_def resolved net by (rule refl)
qed

text \<open>A script of the in-process engine learns nothing of the network unless the policy
  allows lookups: every host function answers the same whatever the resolver would.\<close>

theorem a_script_is_offline_unless_allowed:
  "if resolve_dns p then True
   else host_function E (parent_dns lookup) clock p name args
     = host_function E (parent_dns other) clock p name args"
  using host_functions_offline by auto

end
