(* ===== verification/Log_Render.thy ===== *)
theory Log_Render
  imports Error_Text Env_Config Util_Facts
begin

text \<open>
  What a log line may say: the renderers of \<open>src/trace.rs\<close> and the fields of the lines they
  write. The parts of a URL, which the \<open>url\<close> crate reads, come as a record; no renderer sees the
  URL in any other way.
\<close>

section \<open>The parts of a URL\<close>

record url_view =
  uv_scheme :: string
  uv_username :: string
  uv_password :: "string option"
  uv_host :: "string option"
  uv_port :: "u16 option"
  uv_path :: string
  uv_query :: "string option"
  uv_fragment :: "string option"
  uv_authority :: bool
  uv_text :: string

definition has_no_host :: "url_view \<Rightarrow> bool" where
  "has_no_host v \<longleftrightarrow> (case uv_host v of None \<Rightarrow> True | Some h \<Rightarrow> h = [])"

text \<open>How much of the text stands in front of the path.\<close>

definition head_length :: "url_view \<Rightarrow> nat" where
  "head_length v =
     (if uv_authority v
      then length (uv_text v)
        - (length (uv_path v)
           + (case uv_query v of None \<Rightarrow> 0 | Some q \<Rightarrow> length q + 1)
           + (case uv_fragment v of None \<Rightarrow> 0 | Some f \<Rightarrow> length f + 1))
      else length (uv_text v))"

definition masked_url :: "url_view \<Rightarrow> string" where
  "masked_url v =
     (if has_no_host v \<or> uv_password v = None
      then redact_userinfo (take (head_length v) (uv_text v)) @ drop (head_length v) (uv_text v)
      else
        (let name = (case userinfo_delimiter_end (uv_username v) of
                       Some n \<Rightarrow> take n (uv_username v) | None \<Rightarrow> uv_username v)
         in uv_scheme v @ ''://'' @ name @ '':'' @ MASK @ ''@''
              @ unwrap_or [] (uv_host v)
              @ (case uv_port v of None \<Rightarrow> [] | Some p \<Rightarrow> '':'' @ show_nat (unat p))
              @ uv_path v
              @ (case uv_query v of None \<Rightarrow> [] | Some q \<Rightarrow> ''?'' @ q)
              @ (case uv_fragment v of None \<Rightarrow> [] | Some f \<Rightarrow> ''#'' @ f)))"

section \<open>Summaries\<close>

definition entry_summary :: "external \<Rightarrow> scheme \<Rightarrow> proxy_entry \<Rightarrow> string" where
  "entry_summary E s entry =
     scheme_as_str s @
     (case entry of
        Use e \<Rightarrow> ''='' @ endpoint_show E e @ (if ep_auth e \<noteq> None then ''+auth'' else [])
      | Disabled \<Rightarrow> ''=disabled''
      | Unusable r \<Rightarrow> ''=unusable'') @ '' ''"

definition hex16 :: "u64 \<Rightarrow> string" where
  "hex16 w = map (\<lambda>k. hex_char (unat w div 16 ^ k mod 16)) (rev [0..<16])"

definition mode_summary :: "external \<Rightarrow> (url \<Rightarrow> url_view) \<Rightarrow> proxy_mode \<Rightarrow> string" where
  "mode_summary E view mode =
     (case mode of
        Direct \<Rightarrow> ''direct''
      | Manual m b r \<Rightarrow>
          ''manual(''
            @ concat (map (\<lambda>s. case m s of None \<Rightarrow> [] | Some entry \<Rightarrow> entry_summary E s entry)
                        scheme_ALL)
            @ ''bypass='' @ show_nat (length (patterns b)) @ '')''
      | Pac u r \<Rightarrow> ''pac('' @ masked_url (view u) @ '')''
      | PacInline script r \<Rightarrow>
          ''pac-inline(len='' @ show_nat (length script) @ '' fnv1a=''
            @ hex16 (fnv1a (map of_char script)) @ '')''
      | WpadAutoDetect \<Rightarrow> ''wpad'')"

fun source_label :: "config_source \<Rightarrow> string" where
  "source_label Registry = ''Registry''"
| "source_label GroupPolicy = ''GroupPolicy''"
| "source_label WinHttpDefault = ''WinHttpDefault''"
| "source_label SystemConfigurationSetup = ''SystemConfigurationSetup''"
| "source_label SystemConfigurationState = ''SystemConfigurationState''"
| "source_label GSettingsSource = ''GSettings''"
| "source_label KioslavercSource = ''Kioslaverc''"
| "source_label KioslavercEnv = ''KioslavercEnv''"
| "source_label Portal = ''Portal''"
| "source_label Env = ''Env''"
| "source_label ConnectivityManager = ''ConnectivityManager''"
| "source_label CfNetworkSystemSettings = ''CfNetworkSystemSettings''"

definition source_summary ::
    "external \<Rightarrow> (url \<Rightarrow> url_view) \<Rightarrow> (config_source \<times> proxy_mode) list \<Rightarrow> string" where
  "source_summary E view srcs =
     ''['' @ joined '' '' (map (\<lambda>(s, mode). source_label s @ ''='' @ mode_summary E view mode) srcs)
       @ '']''"

definition config_summary :: "external \<Rightarrow> (url \<Rightarrow> url_view) \<Rightarrow> proxy_config \<Rightarrow> string" where
  "config_summary E view c =
     mode_summary E view (effective c) @ '' sources='' @ source_summary E view (sources c)"

section \<open>Errors\<close>

definition sanitized :: "string \<Rightarrow> string" where
  "sanitized s =
     concat (map sanitized_char (take MAX_UNTRUSTED (chars s)))
       @ (if MAX_UNTRUSTED < length (chars s) then ellipsis else [])"

definition safe_error :: "foreign_debug \<Rightarrow> (url \<Rightarrow> url_view) \<Rightarrow> proxy_error \<Rightarrow> string" where
  "safe_error F view e =
     (case e of
        InvalidProxyServer input r \<Rightarrow>
          ''invalid proxy server specification: '' @ sanitized (reason_text F r)
      | InvalidBypassPattern input r \<Rightarrow>
          ''invalid bypass pattern: '' @ sanitized (reason_text F r)
      | InvalidProxyUrl input source \<Rightarrow> ''invalid proxy URL: '' @ source
      | UnsupportedProxyScheme s \<Rightarrow>
          ''unsupported proxy scheme '' @ [CHR 0x22] @ sanitized s @ [CHR 0x22]
      | CgiHttpProxy variable \<Rightarrow> ''refusing to use '' @ variable @ '' in a CGI environment''
      | Io ctxt source \<Rightarrow> sanitized ctxt @ '': '' @ sanitized source
      | Sandboxed sandbox why \<Rightarrow> ''running inside a '' @ sandbox @ '' sandbox: '' @ why
      | Unsupported \<Rightarrow> ''unsupported platform''
      | PacNotSupported mode \<Rightarrow> ''routing needs a PAC script ('' @ mode @ '')''
      | ProxyEntryUnusable s r \<Rightarrow>
          ''the configured '' @ scheme_as_str s @ '' proxy could not be used (''
            @ sanitized (redacted_input r) @ '')''
      | PacFetchRequired u \<Rightarrow>
          ''the PAC script at '' @ masked_url (view u) @ '' must be fetched''
      | PacEvaluation why \<Rightarrow> ''PAC evaluation failed: '' @ sanitized why
      | PacTimeout t \<Rightarrow> ''PAC evaluation exceeded its '' @ debug_duration t @ '' budget''
      | PacSaturated t limit \<Rightarrow>
          ''no PAC evaluation slot came free within '' @ debug_duration t @ '' ('' @ show_nat limit
            @ '' still running)''
      | PacInvalidResult result \<Rightarrow> ''PAC returned no usable candidate: '' @ sanitized result
      | PacEngineUnavailable \<Rightarrow> ''no PAC JavaScript engine is enabled'')"

section \<open>The lines\<close>

text \<open>A line is its message and its fields.\<close>

type_synonym log_line = "string \<times> (string \<times> string) list"

definition log_changed ::
    "external \<Rightarrow> (url \<Rightarrow> url_view) \<Rightarrow> proxy_config \<Rightarrow> proxy_config \<Rightarrow> log_line" where
  "log_changed E view previous current =
     (''the system proxy configuration changed'',
      [(''previous'', mode_summary E view (effective previous)),
       (''current'', mode_summary E view (effective current)),
       (''sources'', source_summary E view (sources current))])"

definition log_initial :: "external \<Rightarrow> (url \<Rightarrow> url_view) \<Rightarrow> proxy_config \<Rightarrow> log_line" where
  "log_initial E view c =
     (''watching the system proxy configuration'',
      [(''current'', mode_summary E view (effective c)),
       (''sources'', source_summary E view (sources c))])"

definition log_fallback ::
    "foreign_debug \<Rightarrow> (url \<Rightarrow> url_view) \<Rightarrow> string \<Rightarrow> proxy_error \<Rightarrow> log_line" where
  "log_fallback F view what e = (what, [(''error'', safe_error F view e)])"

definition log_pac_alert :: "string \<Rightarrow> log_line" where
  "log_pac_alert message = (''PAC script called alert()'', [(''alert'', sanitized message)])"

section \<open>Two configurations that differ in their credentials\<close>

definition entry_with_auth :: "(proxy_auth \<Rightarrow> proxy_auth) \<Rightarrow> proxy_entry \<Rightarrow> proxy_entry" where
  "entry_with_auth g entry =
     (case entry of Use e \<Rightarrow> Use (e\<lparr>ep_auth := map_option g (ep_auth e)\<rparr>) | _ \<Rightarrow> entry)"

definition mode_with_auth :: "(proxy_auth \<Rightarrow> proxy_auth) \<Rightarrow> (url \<Rightarrow> url) \<Rightarrow> proxy_mode \<Rightarrow> proxy_mode" where
  "mode_with_auth g h mode =
     (case mode of
        Manual m b r \<Rightarrow> Manual (map_option (entry_with_auth g) \<circ> m) b r
      | Pac u r \<Rightarrow> Pac (h u) r
      | _ \<Rightarrow> mode)"

definition config_with_auth ::
    "(proxy_auth \<Rightarrow> proxy_auth) \<Rightarrow> (url \<Rightarrow> url) \<Rightarrow> proxy_config \<Rightarrow> proxy_config" where
  "config_with_auth g h c =
     c\<lparr>effective := mode_with_auth g h (effective c),
       sources := map (\<lambda>(s, mode). (s, mode_with_auth g h mode)) (sources c)\<rparr>"

text \<open>Two URLs that name the same host and differ in the password, or in what the user name has
  behind an encoded delimiter, and in their text.\<close>

definition same_but_secret :: "url_view \<Rightarrow> url_view \<Rightarrow> bool" where
  "same_but_secret v v' \<longleftrightarrow>
     \<not> has_no_host v \<and> uv_password v \<noteq> None \<and> uv_password v' \<noteq> None
     \<and> uv_scheme v' = uv_scheme v \<and> uv_host v' = uv_host v \<and> uv_port v' = uv_port v
     \<and> uv_path v' = uv_path v \<and> uv_query v' = uv_query v \<and> uv_fragment v' = uv_fragment v
     \<and> (uv_username v' = uv_username v
        \<or> (\<exists>user hidden hidden'. plain_name user \<and> uv_username v = user @ ''%3A'' @ hidden
             \<and> uv_username v' = user @ ''%3A'' @ hidden'))"

lemma endpoint_show_auth: "endpoint_show E (e\<lparr>ep_auth := a\<rparr>) = endpoint_show E e"
  by (simp add: endpoint_show_def authority_def cong: host.case_cong)

lemma entry_summary_auth: "entry_summary E s (entry_with_auth g entry) = entry_summary E s entry"
  by (cases entry) (simp_all add: entry_summary_def entry_with_auth_def endpoint_show_auth)

lemma mode_summary_auth:
  assumes "\<And>u. masked_url (view (h u)) = masked_url (view u)"
  shows "mode_summary E view (mode_with_auth g h mode) = mode_summary E view mode"
proof (cases mode)
  case (Manual m b r)
  have "(case (map_option (entry_with_auth g) \<circ> m) s of
           None \<Rightarrow> [] | Some entry \<Rightarrow> entry_summary E s entry)
      = (case m s of None \<Rightarrow> [] | Some entry \<Rightarrow> entry_summary E s entry)" for s
    by (simp add: entry_summary_auth split: option.split)
  with Manual show ?thesis by (simp add: mode_summary_def mode_with_auth_def)
qed (simp_all add: mode_with_auth_def mode_summary_def assms)

lemma source_summary_auth:
  assumes "\<And>u. masked_url (view (h u)) = masked_url (view u)"
  shows "source_summary E view (map (\<lambda>(s, mode). (s, mode_with_auth g h mode)) srcs)
     = source_summary E view srcs"
proof -
  have "map (\<lambda>(s, mode). source_label s @ ''='' @ mode_summary E view mode)
          (map (\<lambda>(s, mode). (s, mode_with_auth g h mode)) srcs)
      = map (\<lambda>(s, mode). source_label s @ ''='' @ mode_summary E view mode) srcs"
    by (simp add: mode_summary_auth [where view = view and h = h, OF assms] comp_def split_beta)
  then show ?thesis by (simp only: source_summary_def)
qed

section \<open>Payloads from outside\<close>

lemma sanitized_is_sanitize_untrusted: "sanitized s = sanitize_untrusted s"
  by (simp add: sanitized_def sanitize_untrusted_def)

lemma printable_ellipsis: "list_all printable_byte ellipsis"
  by code_simp

lemma printable_sanitized_text:
  assumes "valid_utf8 s"
  shows "list_all printable_byte (sanitized s)"
proof -
  have "printable_byte c" if "ch \<in> set (take n (chars s))" "c \<in> set (sanitized_char ch)" for n ch c
    using printable_sanitized [OF assms in_set_takeD [OF that(1)] that(2)] .
  then show ?thesis
    using printable_ellipsis by (auto simp: sanitized_def list_all_iff)
qed

lemma sanitized_length: "length (chars (sanitized s)) \<le> 257"
  using sanitize_untrusted_bounded [of s]
  by (simp add: sanitized_is_sanitize_untrusted MAX_UNTRUSTED_def)

lemma printable_scheme: "list_all printable_byte (scheme_as_str s)"
  by (cases s) (simp_all, code_simp+)

lemma find_upt:
  assumes "i < n" "P i" "\<And>j. j < i \<Longrightarrow> \<not> P j"
  shows "List.find P [0..<n] = Some i"
proof -
  have "[0..<n] ! j = j" if "j \<le> i" for j using that assms(1) by (simp del: upt_Suc)
  with assms show ?thesis unfolding find_Some_iff by (intro exI [of _ i]) (simp del: upt_Suc)
qed

lemma earlier_end_encoded:
  "(\<And>l. x = Some l \<Longrightarrow> e < l) \<Longrightarrow> earlier_end x (Some e) = Some (e + 3)"
  by (cases x) (auto simp: earlier_end_def)

text \<open>A user name with a delimiter spelled \<open>%3A\<close>.\<close>

lemma encoded_delimiter:
  assumes "plain_name user"
  shows "userinfo_delimiter_end (user @ ''%3A'' @ rest) = Some (length user + 3)"
proof -
  let ?s = "user @ ''%3A'' @ rest"
  note u = plain_nameD [OF assms]
  have here: "encoded_colon_here ?s (length user)"
    by (simp add: encoded_colon_here_def get_opt_eq nth_append)
  have before: "\<not> encoded_colon_here ?s e" if lt: "e < length user" for e
  proof
    assume h: "encoded_colon_here ?s e"
    have "e + 2 < length user"
    proof (rule ccontr)
      assume "\<not> e + 2 < length user"
      with lt have "e + 1 = length user \<or> e + 2 = length user" by linarith
      with h show False by (auto simp: encoded_colon_here_def get_opt_eq nth_append split: if_splits)
    qed
    with h have "encoded_colon_here user e"
      by (auto simp: encoded_colon_here_def get_opt_eq nth_append split: if_splits)
    with u(2) show False by (simp add: encoded_colon_at_None)
  qed
  have "encoded_colon_at ?s = Some (length user)"
    unfolding encoded_colon_at_def using here before
    by (rule find_upt [where i = "length user", rotated 1]) simp_all
  moreover have "length user < l" if "find_char (\<lambda>c. c = CHR '':'') ?s = Some l" for l
  proof (rule ccontr)
    assume "\<not> length user < l"
    with that have "?s ! l = CHR '':''" "l \<le> length user" by (simp_all add: find_char_Some)
    then show False using u(1) by (auto simp: nth_append split: if_splits dest: nth_mem)
  qed
  ultimately show ?thesis
    unfolding userinfo_delimiter_end_def by (simp only:) (rule earlier_end_encoded)
qed

section \<open>Properties\<close>

lemma masked_same_but_secret:
  assumes "same_but_secret v v'"
  shows "masked_url v' = masked_url v"
proof -
  have same: "uv_scheme v' = uv_scheme v" "uv_host v' = uv_host v" "uv_port v' = uv_port v"
    "uv_path v' = uv_path v" "uv_query v' = uv_query v" "uv_fragment v' = uv_fragment v"
    using assms by (simp_all add: same_but_secret_def)
  obtain p p' where some: "uv_password v = Some p" "uv_password v' = Some p'" "\<not> has_no_host v"
    using assms by (auto simp: same_but_secret_def)
  have host: "\<not> has_no_host v'" using same(2) some(3) by (simp add: has_no_host_def)
  let ?name = "\<lambda>u. case userinfo_delimiter_end u of Some n \<Rightarrow> take n u | None \<Rightarrow> u"
  have "?name (uv_username v') = ?name (uv_username v)"
  proof (cases "uv_username v' = uv_username v")
    case True
    show ?thesis unfolding True ..
  next
    case False
    then obtain user hidden hidden' where user: "plain_name user" "uv_username v = user @ ''%3A'' @ hidden"
      "uv_username v' = user @ ''%3A'' @ hidden'"
      using assms by (auto simp: same_but_secret_def)
    then show ?thesis
      using encoded_delimiter [OF user(1), of hidden] encoded_delimiter [OF user(1), of hidden'] by simp
  qed
  then show ?thesis by (simp add: masked_url_def same some host)
qed


text \<open>Two URLs of a script, which differ in the password and in the user name's hidden part.\<close>

definition script_url :: "string \<Rightarrow> url" where
  "script_url t =
     \<lparr> as_str = t, url_scheme = ''http'', url_host = Some (Domain ''h''), url_port = None,
       port_or_known_default = Some 80 \<rparr>"

definition script_view :: "url \<Rightarrow> url_view" where
  "script_view u =
     \<lparr> uv_scheme = ''http'', uv_username = ''al'' @ ''%3A'' @ (if as_str u = ''a'' then ''x'' else ''y''),
       uv_password = Some (as_str u), uv_host = Some ''h'', uv_port = None, uv_path = ''/p'',
       uv_query = None, uv_fragment = None, uv_authority = True, uv_text = as_str u \<rparr>"

definition script_config :: "string \<Rightarrow> proxy_config" where
  "script_config t = config_new 0 (Pac (script_url t) []) []"


text \<open>A URL in a log line shows neither its password nor a secret the user name hides behind
  an encoded delimiter: for a URL that names a host, the line is made of the other parts alone.\<close>

theorem logged_url_hides_its_secrets:
  assumes "plain_name user" "\<not> has_no_host v"
  shows "masked_url (v\<lparr>uv_username := user @ ''%3A'' @ hidden, uv_password := Some pw, uv_text := t\<rparr>)
     = uv_scheme v @ ''://'' @ user @ ''%3A:***@'' @ unwrap_or [] (uv_host v)
         @ (case uv_port v of None \<Rightarrow> [] | Some p \<Rightarrow> '':'' @ show_nat (unat p))
         @ uv_path v
         @ (case uv_query v of None \<Rightarrow> [] | Some q \<Rightarrow> ''?'' @ q)
         @ (case uv_fragment v of None \<Rightarrow> [] | Some f \<Rightarrow> ''#'' @ f)"
  using assms(2) encoded_delimiter [OF assms(1), of hidden]
  by (simp add: masked_url_def has_no_host_def MASK_def)

theorem logged_url_hides_its_secrets_witness:
  "masked_url \<lparr> uv_scheme = ''http'', uv_username = ''al'' @ ''%3A'' @ ''pw'', uv_password = Some ''qw'',
       uv_host = Some ''h'', uv_port = Some 80, uv_path = ''/p'', uv_query = None,
       uv_fragment = Some ''f'', uv_authority = True, uv_text = ''t'' \<rparr>
     = ''http://al%3A:***@h:80/p#f''"
proof -
  let ?v = "\<lparr> uv_scheme = ''http'', uv_username = [], uv_password = None,
       uv_host = Some ''h'', uv_port = Some 80, uv_path = ''/p'', uv_query = None,
       uv_fragment = Some ''f'', uv_authority = True, uv_text = [] \<rparr>"
  have "plain_name ''al''" "\<not> has_no_host ?v" by code_simp+
  from logged_url_hides_its_secrets [OF this, of "''pw''" "''qw''" "''t''"]
  show ?thesis by simp code_simp
qed

text \<open>The payloads of an error that come from outside.\<close>

fun outside_payloads :: "foreign_debug \<Rightarrow> proxy_error \<Rightarrow> string list" where
  "outside_payloads F (InvalidProxyServer input r) = [reason_text F r]"
| "outside_payloads F (InvalidBypassPattern input r) = [reason_text F r]"
| "outside_payloads F (UnsupportedProxyScheme s) = [s]"
| "outside_payloads F (Io ctxt source) = [ctxt, source]"
| "outside_payloads F (ProxyEntryUnusable s r) = [redacted_input r]"
| "outside_payloads F (PacEvaluation why) = [why]"
| "outside_payloads F (PacInvalidResult result) = [result]"
| "outside_payloads F e = []"

text \<open>What a script, a server or a setting wrote cannot forge a log line: every error whose
  payload comes from outside is rendered without an ASCII control character, and the payload at
  most 257 characters long.\<close>

theorem outside_payloads_stay_on_one_line:
  assumes "list_all valid_utf8 (outside_payloads F e)" "outside_payloads F e \<noteq> []"
  shows "list_all printable_byte (safe_error F view e)
     \<and> list_all (\<lambda>p. length (chars (sanitized p)) \<le> 257) (outside_payloads F e)"
proof
  have "list_all printable_byte (safe_error F view e)"
    using assms printable_sanitized_text printable_scheme
    by (cases e) (auto simp: safe_error_def printable_byte_def byte_val_def)
  then show "list_all printable_byte (safe_error F view e)" .
  show "list_all (\<lambda>p. length (chars (sanitized p)) \<le> 257) (outside_payloads F e)"
    using sanitized_length by (simp add: list_all_iff)
qed

theorem outside_payloads_stay_on_one_line_witness:
  "list_all printable_byte
     (safe_error \<lparr> wide_char = \<lambda>c. c, io_error_debug = \<lambda>e. e, url_error_debug = \<lambda>e. e,
         host_debug = \<lambda>h. [] \<rparr>
        (\<lambda>u. undefined) (PacEvaluation [CHR ''a'', CHR 0x0A, CHR ''b'']))"
  by (rule conjunct1 [OF outside_payloads_stay_on_one_line]) code_simp+

end
