(* ===== verification/Binding_Route.thy ===== *)
theory Binding_Route
  imports Pac_Dispatch Error_Text Env_Config
begin

text \<open>
  The route for one URL under one snapshot, as \<open>bindings/shared/src/lib.rs\<close> gives it to the
  Node, Python and C bindings: the options a caller may ask for, which engine runs a script, what
  is left to the caller, and the code of every failure.
\<close>

section \<open>Failures\<close>

record binding_failure =
  bf_code :: string
  bf_message :: string

definition failure_new :: "string \<Rightarrow> string \<Rightarrow> binding_failure" where
  "failure_new code message = \<lparr> bf_code = code, bf_message = message \<rparr>"

text \<open>One code per variant.\<close>

definition error_code :: "proxy_error \<Rightarrow> string" where
  "error_code e =
     (case e of
        InvalidProxyServer _ _ \<Rightarrow> ''ERR_INVALID_PROXY_SERVER''
      | InvalidBypassPattern _ _ \<Rightarrow> ''ERR_INVALID_BYPASS_PATTERN''
      | InvalidProxyUrl _ _ \<Rightarrow> ''ERR_INVALID_PROXY_URL''
      | UnsupportedProxyScheme _ \<Rightarrow> ''ERR_UNSUPPORTED_PROXY_SCHEME''
      | CgiHttpProxy _ \<Rightarrow> ''ERR_CGI_HTTP_PROXY''
      | Io _ _ \<Rightarrow> ''ERR_IO''
      | Sandboxed _ _ \<Rightarrow> ''ERR_SANDBOXED''
      | Unsupported \<Rightarrow> ''ERR_UNSUPPORTED''
      | PacNotSupported _ \<Rightarrow> ''ERR_PAC_NOT_SUPPORTED''
      | ProxyEntryUnusable _ _ \<Rightarrow> ''ERR_PROXY_ENTRY_UNUSABLE''
      | PacFetchRequired _ \<Rightarrow> ''ERR_PAC_FETCH_REQUIRED''
      | PacEvaluation _ \<Rightarrow> ''ERR_PAC_EVALUATION''
      | PacTimeout _ \<Rightarrow> ''ERR_PAC_TIMEOUT''
      | PacSaturated _ _ \<Rightarrow> ''ERR_PAC_SATURATED''
      | PacInvalidResult _ \<Rightarrow> ''ERR_PAC_INVALID_RESULT''
      | PacEngineUnavailable \<Rightarrow> ''ERR_PAC_ENGINE_UNAVAILABLE'')"

definition failure_of :: "foreign_debug \<Rightarrow> proxy_error \<Rightarrow> binding_failure" where
  "failure_of F e = failure_new (error_code e) (error_display F e)"

definition invalid_arg :: "string \<Rightarrow> binding_failure" where
  "invalid_arg message = failure_new ''ERR_INVALID_ARG_VALUE'' message"

section \<open>What a caller may ask for\<close>

datatype pac_choice = ChooseNone | ChooseNative | ChooseQuickJs | ChooseAuto

definition pac_of_name :: "foreign_debug \<Rightarrow> string option \<Rightarrow> binding_failure + pac_choice" where
  "pac_of_name F name =
     (case name of
        None \<Rightarrow> Inr ChooseNone
      | Some s \<Rightarrow>
          if s = ''none'' then Inr ChooseNone
          else if s = ''native'' then Inr ChooseNative
          else if s = ''quickjs'' then Inr ChooseQuickJs
          else if s = ''auto'' then Inr ChooseAuto
          else Inl (invalid_arg (''unknown pac '' @ debug_text F s)))"

definition MAX_SCRIPT_LEN :: nat where "MAX_SCRIPT_LEN = 2 ^ 20"

definition MAX_TIMEOUT :: nat where "MAX_TIMEOUT = 60 * 1000000000"

record policy_options =
  po_my_ip_address :: "string option"
  po_resolve_dns :: "bool option"
  po_allow_internal :: "bool option"
  po_utc_offset :: "int option"
  po_timeout_ms :: "nat option"

definition show_offset :: "int \<Rightarrow> string" where
  "show_offset n = (if n < 0 then ''-'' @ show_nat (nat (- n)) else show_nat (nat n))"

text \<open>The options are read in order, the first bad one ends it; milliseconds are 64 bits wide, so
  the duration is exact.\<close>

definition policy_address ::
    "foreign_debug \<Rightarrow> policy_options \<Rightarrow> pac_policy \<Rightarrow> binding_failure + pac_policy" where
  "policy_address F po p =
     (case po_my_ip_address po of
        None \<Rightarrow> Inr p
      | Some address \<Rightarrow>
          (case parse_ip address of
             None \<Rightarrow>
               Inl (invalid_arg (''my IP address '' @ debug_text F address @ '' is not an IP address''))
           | Some ip \<Rightarrow> Inr (with_my_ip_address ip p)))"

definition policy_offset :: "policy_options \<Rightarrow> pac_policy \<Rightarrow> binding_failure + pac_policy" where
  "policy_offset po p =
     (case po_utc_offset po of
        None \<Rightarrow> Inr p
      | Some seconds \<Rightarrow>
          if 86400 \<le> \<bar>seconds\<bar>
          then Inl (invalid_arg (''a UTC offset of '' @ show_offset seconds @ '' s is not within a day''))
          else Inr (with_local_utc_offset seconds p))"

definition policy_timeout :: "policy_options \<Rightarrow> pac_policy \<Rightarrow> binding_failure + pac_policy" where
  "policy_timeout po p =
     (case po_timeout_ms po of
        None \<Rightarrow> Inr p
      | Some ms \<Rightarrow>
          (let timeout = ms * 1000000 in
           if timeout = 0 \<or> MAX_TIMEOUT < timeout
           then Inl (invalid_arg (''a timeout of '' @ show_nat ms @ '' ms is not between 1 ms and ''
                  @ show_nat (MAX_TIMEOUT div 1000000) @ '' ms''))
           else Inr (with_timeout (Some timeout) p)))"

definition policy_flags :: "policy_options \<Rightarrow> pac_policy \<Rightarrow> pac_policy" where
  "policy_flags po p =
     (let p1 = (case po_resolve_dns po of None \<Rightarrow> p | Some on \<Rightarrow> with_dns_resolution on p)
      in case po_allow_internal po of None \<Rightarrow> p1 | Some on \<Rightarrow> with_internal_addresses on p1)"

definition binding_policy :: "foreign_debug \<Rightarrow> policy_options \<Rightarrow> binding_failure + pac_policy" where
  "binding_policy F po =
     (case policy_address F po policy_new of
        Inl f \<Rightarrow> Inl f
      | Inr p \<Rightarrow>
          (case policy_offset po (policy_flags po p) of
             Inl f \<Rightarrow> Inl f
           | Inr p' \<Rightarrow> policy_timeout po p'))"

record route_options =
  ro_pac :: pac_choice
  ro_script :: "string option"
  ro_wpad :: bool
  ro_policy :: pac_policy

definition route_options_default :: route_options where
  "route_options_default =
     \<lparr> ro_pac = ChooseNone, ro_script = None, ro_wpad = False, ro_policy = policy_new \<rparr>"

definition route_options_new ::
    "pac_choice \<Rightarrow> string option \<Rightarrow> bool \<Rightarrow> pac_policy \<Rightarrow> binding_failure + route_options" where
  "route_options_new pac script wpad p =
     (if pac = ChooseNone \<and> script \<noteq> None
      then Inl (invalid_arg ''script needs a pac engine to run it'')
      else if (pac = ChooseNone \<or> pac = ChooseQuickJs) \<and> wpad
      then Inl (invalid_arg (''wpad is discovery by the OS, which needs pac ''
             @ [CHR 0x22] @ ''native'' @ [CHR 0x22] @ '' or '' @ [CHR 0x22] @ ''auto'' @ [CHR 0x22]))
      else if (case script of None \<Rightarrow> False | Some s \<Rightarrow> MAX_SCRIPT_LEN < length s)
      then Inl (invalid_arg ''script is longer than 1 MiB'')
      else Inr \<lparr> ro_pac = pac, ro_script = script, ro_wpad = wpad, ro_policy = p \<rparr>)"

definition route_options_none :: route_options where
  "route_options_none = route_options_default"

definition route_options_native :: route_options where
  "route_options_native = route_options_default\<lparr>ro_pac := ChooseNative\<rparr>"

section \<open>The engines of a target\<close>

datatype target_os = TargetWindows | TargetMacOs | TargetIos | TargetAndroid | TargetElsewhere

definition NATIVE_RUNS_URL :: "target_os \<Rightarrow> bool" where
  "NATIVE_RUNS_URL os \<longleftrightarrow>
     os = TargetWindows \<or> os = TargetMacOs \<or> os = TargetIos \<or> os = TargetAndroid"

definition NATIVE_RUNS_BODY :: "target_os \<Rightarrow> bool" where
  "NATIVE_RUNS_BODY os \<longleftrightarrow> os = TargetMacOs \<or> os = TargetIos"

definition NATIVE_RUNS_WPAD :: "target_os \<Rightarrow> bool" where
  "NATIVE_RUNS_WPAD os \<longleftrightarrow> os = TargetWindows \<or> os = TargetMacOs \<or> os = TargetIos"

datatype route_engine = NoEngine | NativeEngine | QuickJsEngine

definition engine_name :: "route_engine \<Rightarrow> string" where
  "engine_name e =
     (case e of NoEngine \<Rightarrow> ''none'' | NativeEngine \<Rightarrow> ''native'' | QuickJsEngine \<Rightarrow> ''quickjs'')"

text \<open>\<open>quickjs\<close>: the build carries it.\<close>

definition body_engine :: "target_os \<Rightarrow> bool \<Rightarrow> pac_choice \<Rightarrow> route_engine option" where
  "body_engine os quickjs pac =
     (let native = (if NATIVE_RUNS_BODY os then Some NativeEngine else None);
          js = (if quickjs then Some QuickJsEngine else None)
      in case pac of
           ChooseNone \<Rightarrow> None
         | ChooseNative \<Rightarrow> native
         | ChooseQuickJs \<Rightarrow> js
         | ChooseAuto \<Rightarrow> or_else native js)"

text \<open>What the process has of engines: QuickJS when the build carries it; the OS's, opened at the
  first use of a \<open>wpad\<close> setting and kept, or the error of opening it; and the one that evaluates a
  body. \<open>nv_open\<close> says which settings have been opened.\<close>

type_synonym native_run = "proxy_config \<Rightarrow> url \<Rightarrow> proxy_error + proxy_step list"

record engines =
  eg_quickjs :: "(pac_policy \<Rightarrow> engine) option"
  eg_open_native :: "bool \<Rightarrow> proxy_error + native_run"
  eg_body :: engine

type_synonym native_slots = "bool \<Rightarrow> native_run option"

definition native_slot ::
    "engines \<Rightarrow> bool \<Rightarrow> native_slots \<Rightarrow> (proxy_error + native_run) \<times> native_slots" where
  "native_slot G wpad slots =
     (case slots wpad of
        Some resolver \<Rightarrow> (Inr resolver, slots)
      | None \<Rightarrow>
          (case eg_open_native G wpad of
             Inl e \<Rightarrow> (Inl e, slots)
           | Inr built \<Rightarrow> (Inr built, slots(wpad \<mapsto> built))))"

definition run_natively ::
    "target_os \<Rightarrow> engines \<Rightarrow> proxy_config \<Rightarrow> url \<Rightarrow> bool \<Rightarrow> native_slots
       \<Rightarrow> (proxy_error + proxy_step list) \<times> native_slots" where
  "run_natively os G c u wpad slots =
     (if os = TargetElsewhere then (Inl PacEngineUnavailable, slots)
      else (case native_slot G wpad slots of
              (Inl e, slots') \<Rightarrow> (Inl e, slots')
            | (Inr resolver, slots') \<Rightarrow> (resolver c u, slots')))"

definition run_body_natively ::
    "external \<Rightarrow> url_ops \<Rightarrow> target_os \<Rightarrow> engines \<Rightarrow> proxy_config \<Rightarrow> url \<Rightarrow> string option
       \<Rightarrow> proxy_error + proxy_step list" where
  "run_body_natively E U os G c u script =
     (if os = TargetMacOs \<or> os = TargetIos
      then resolve_config E U (eg_quickjs G)
             (with_evaluator (eg_body G) (resolver_new policy_new)) c u script
      else Inl PacEngineUnavailable)"

section \<open>The route\<close>

datatype route_kind = RouteSteps "proxy_step list" | RoutePac string | RoutePacInline string | RouteWpad

record route_answer =
  an_route :: route_kind
  an_engine :: route_engine

definition answer_none :: "route_kind \<Rightarrow> route_answer" where
  "answer_none r = \<lparr> an_route = r, an_engine = NoEngine \<rparr>"

definition answered ::
    "foreign_debug \<Rightarrow> route_engine \<Rightarrow> proxy_error + proxy_step list \<Rightarrow> binding_failure + route_answer" where
  "answered F engine result =
     (case result of
        Inl e \<Rightarrow> Inl (failure_of F e)
      | Inr chain \<Rightarrow> Inr \<lparr> an_route = RouteSteps chain, an_engine = engine \<rparr>)"

text \<open>The route of a script that is handed over or comes with the configuration.\<close>

definition route_body ::
    "external \<Rightarrow> url_ops \<Rightarrow> foreign_debug \<Rightarrow> target_os \<Rightarrow> engines \<Rightarrow> proxy_config \<Rightarrow> url
       \<Rightarrow> route_options \<Rightarrow> route_kind \<Rightarrow> binding_failure + route_answer" where
  "route_body E U F os G c u ro caller =
     (case body_engine os (eg_quickjs G \<noteq> None) (ro_pac ro) of
        Some QuickJsEngine \<Rightarrow>
          answered F QuickJsEngine
            (resolve_with_pac_using E c u (ro_script ro)
               (\<lambda>s. evaluate U (eg_quickjs G) s u (ro_policy ro)))
      | Some _ \<Rightarrow> answered F NativeEngine (run_body_natively E U os G c u (ro_script ro))
      | None \<Rightarrow>
          if ro_script ro \<noteq> None \<or> ro_pac ro = ChooseQuickJs
          then Inl (failure_of F PacEngineUnavailable)
          else Inr (answer_none caller))"

text \<open>The route of a script the OS would fetch.\<close>

definition not_taken :: "proxy_error + proxy_step list \<Rightarrow> bool" where
  "not_taken result \<longleftrightarrow>
     (case result of
        Inl (PacFetchRequired _) \<Rightarrow> True | Inl (PacNotSupported _) \<Rightarrow> True | _ \<Rightarrow> False)"

definition os_runs :: "target_os \<Rightarrow> route_options \<Rightarrow> proxy_mode \<Rightarrow> bool" where
  "os_runs os ro mode \<longleftrightarrow>
     (if mode = WpadAutoDetect then ro_wpad ro \<and> NATIVE_RUNS_WPAD os else NATIVE_RUNS_URL os)
     \<and> (ro_pac ro = ChooseNative \<or> ro_pac ro = ChooseAuto)"

definition route_fetched ::
    "foreign_debug \<Rightarrow> target_os \<Rightarrow> engines \<Rightarrow> proxy_config \<Rightarrow> url \<Rightarrow> route_options \<Rightarrow> route_kind
       \<Rightarrow> native_slots \<Rightarrow> (binding_failure + route_answer) \<times> native_slots" where
  "route_fetched F os G c u ro caller slots =
     (if \<not> os_runs os ro (effective c) then (Inr (answer_none caller), slots)
      else (case run_natively os G c u (ro_wpad ro) slots of
              (result, slots') \<Rightarrow>
                (if not_taken result then Inr (answer_none caller)
                 else answered F NativeEngine result, slots')))"

definition caller_route :: "proxy_mode \<Rightarrow> route_kind option" where
  "caller_route mode =
     (case mode of
        Pac u _ \<Rightarrow> Some (RoutePac (as_str u))
      | PacInline script _ \<Rightarrow> Some (RoutePacInline script)
      | WpadAutoDetect \<Rightarrow> Some RouteWpad
      | _ \<Rightarrow> None)"

definition is_inline :: "proxy_mode \<Rightarrow> bool" where
  "is_inline mode \<longleftrightarrow> (case mode of PacInline _ _ \<Rightarrow> True | _ \<Rightarrow> False)"

definition route ::
    "external \<Rightarrow> url_ops \<Rightarrow> foreign_debug \<Rightarrow> target_os \<Rightarrow> engines \<Rightarrow> proxy_config \<Rightarrow> string
       \<Rightarrow> route_options \<Rightarrow> native_slots \<Rightarrow> (binding_failure + route_answer) \<times> native_slots" where
  "route E U F os G c text ro slots =
     (case url_parse E text of
        Inl e \<Rightarrow> (Inl (failure_new ''ERR_INVALID_URL'' e), slots)
      | Inr u \<Rightarrow>
          (case caller_route (effective c) of
             None \<Rightarrow> (answered F NoEngine (resolve E c u), slots)
           | Some caller \<Rightarrow>
               if \<not> has_request_host u then (Inr (answer_none (RouteSteps [StepDirect])), slots)
               else if ro_script ro \<noteq> None \<or> is_inline (effective c)
               then (route_body E U F os G c u ro caller, slots)
               else route_fetched F os G c u ro caller slots))"

section \<open>An answer as the bindings show it\<close>

definition auth_shown :: "foreign_debug \<Rightarrow> proxy_auth \<Rightarrow> string" where
  "auth_shown F a =
     (let (user, pw) = auth_debug a in
      debug_struct ''ProxyAuth''
        [(''username'', debug_text F user),
         (''password'', case pw of None \<Rightarrow> ''None''
            | Some m \<Rightarrow> ''Some('' @ debug_text F m @ '')'')])"

definition proxy_scheme_debug :: "proxy_scheme \<Rightarrow> string" where
  "proxy_scheme_debug s =
     (case s of PsHttp \<Rightarrow> ''Http'' | PsHttps \<Rightarrow> ''Https'' | PsSocks4 \<Rightarrow> ''Socks4''
      | PsSocks4a \<Rightarrow> ''Socks4a'' | PsSocks5 \<Rightarrow> ''Socks5'' | PsSocks5h \<Rightarrow> ''Socks5h'')"

definition endpoint_debug :: "foreign_debug \<Rightarrow> proxy_endpoint \<Rightarrow> string" where
  "endpoint_debug F e =
     debug_struct ''ProxyEndpoint''
       [(''scheme_hint'', case scheme_hint e of None \<Rightarrow> ''None''
           | Some s \<Rightarrow> ''Some('' @ proxy_scheme_debug s @ '')''),
        (''host'', host_debug F (ep_host e)),
        (''port'', show_nat (unat (ep_port e))),
        (''auth'', case ep_auth e of None \<Rightarrow> ''None''
           | Some a \<Rightarrow> ''Some('' @ auth_shown F a @ '')'')]"

definition step_debug :: "foreign_debug \<Rightarrow> proxy_step \<Rightarrow> string" where
  "step_debug F s =
     (case s of
        StepDirect \<Rightarrow> ''Direct''
      | StepHttp e \<Rightarrow> ''Http('' @ endpoint_debug F e @ '')''
      | StepHttps e \<Rightarrow> ''Https('' @ endpoint_debug F e @ '')''
      | StepSocks4 e \<Rightarrow> ''Socks4('' @ endpoint_debug F e @ '')''
      | StepSocks5 e \<Rightarrow> ''Socks5('' @ endpoint_debug F e @ '')'')"

definition step_url :: "external \<Rightarrow> foreign_debug \<Rightarrow> proxy_step \<Rightarrow> binding_failure + string" where
  "step_url E F s =
     (if s = StepDirect then Inr ''direct''
      else ok_or (failure_new ''ERR_PROXY_WATCH'' (step_debug F s @ '' has no URL form''))
             (map_option as_str (step_to_url E s)))"

record answer_fields =
  af_kind :: string
  af_steps :: "string list option"
  af_pac_url :: "string option"
  af_script :: "string option"
  af_engine :: string

fun step_urls ::
    "external \<Rightarrow> foreign_debug \<Rightarrow> proxy_step list \<Rightarrow> binding_failure + string list" where
  "step_urls E F [] = Inr []"
| "step_urls E F (s # ss) =
     (case step_url E F s of
        Inl f \<Rightarrow> Inl f
      | Inr t \<Rightarrow> map_sum id (\<lambda>ts. t # ts) (step_urls E F ss))"

definition answer_fields_of ::
    "external \<Rightarrow> foreign_debug \<Rightarrow> route_answer \<Rightarrow> binding_failure + answer_fields" where
  "answer_fields_of E F a =
     (let name = engine_name (an_engine a) in
      case an_route a of
        RouteSteps ss \<Rightarrow>
          map_sum id (\<lambda>ts. \<lparr> af_kind = ''steps'', af_steps = Some ts, af_pac_url = None,
                         af_script = None, af_engine = name \<rparr>) (step_urls E F ss)
      | RoutePac u \<Rightarrow>
          Inr \<lparr> af_kind = ''pac'', af_steps = None, af_pac_url = Some u, af_script = None,
                af_engine = name \<rparr>
      | RoutePacInline script \<Rightarrow>
          Inr \<lparr> af_kind = ''pac-inline'', af_steps = None, af_pac_url = None,
                af_script = Some script, af_engine = name \<rparr>
      | RouteWpad \<Rightarrow>
          Inr \<lparr> af_kind = ''wpad'', af_steps = None, af_pac_url = None, af_script = None,
                af_engine = name \<rparr>)"

section \<open>Reading and layering\<close>

text \<open>\<open>read\<close> is what the core read; a system with nothing to read is direct, and says so.\<close>

definition read_os ::
    "foreign_debug \<Rightarrow> nat \<Rightarrow> proxy_error + proxy_config \<Rightarrow> binding_failure + proxy_config \<times> bool" where
  "read_os F now read =
     (case read of
        Inr c \<Rightarrow> Inr (c, True)
      | Inl Unsupported \<Rightarrow> Inr (config_direct now, False)
      | Inl e \<Rightarrow> Inl (failure_of F e))"

definition precedence_of_name ::
    "foreign_debug \<Rightarrow> string option \<Rightarrow> binding_failure + env_precedence option" where
  "precedence_of_name F name =
     (case name of
        None \<Rightarrow> Inr (Some BeforeSystem)
      | Some s \<Rightarrow>
          if s = ''before-system'' then Inr (Some BeforeSystem)
          else if s = ''after-system'' then Inr (Some AfterSystem)
          else if s = ''ignore'' then Inr None
          else Inl (invalid_arg (''unknown precedence '' @ debug_text F s)))"

type_synonym layering = "(proxy_env \<times> env_precedence) option"

text \<open>\<open>process\<close> is what the process environment holds; \<open>win\<close> compares names as Windows does.\<close>

definition layering_new ::
    "external \<Rightarrow> foreign_debug \<Rightarrow> bool \<Rightarrow> nat \<Rightarrow> (string \<times> string) list
       \<Rightarrow> (string \<times> string) list option \<Rightarrow> env_precedence option \<Rightarrow> binding_failure + layering" where
  "layering_new E F win now process vars precedence =
     (case precedence of
        None \<Rightarrow> Inr None
      | Some rank \<Rightarrow>
          (case env_from_vars E win now (unwrap_or process vars) of
             Inl e \<Rightarrow> Inl (failure_of F e)
           | Inr env \<Rightarrow> Inr (Some (env, rank))))"

definition layering_apply :: "layering \<Rightarrow> proxy_config \<Rightarrow> proxy_config" where
  "layering_apply l c = (case l of None \<Rightarrow> c | Some (env, rank) \<Rightarrow> with_env env rank c)"

end
