(* ===== verification/Binding_Route_Facts.thy ===== *)
theory Binding_Route_Facts
  imports Binding_Route Pac_WinHttp Pac_CfNetwork Pac_Engines
begin

text \<open>
  What the route of the bindings keeps to: the options it accepts, that steps for a scripted
  configuration only ever come from an engine that ran, and that engines agree wherever no script
  has to run. The last rests on a contract (\<open>native_engine\<close>) which each of the three native
  resolvers is shown to keep.
\<close>

section \<open>Options\<close>

lemma policy_flags_simps [simp]:
  "pp_timeout (policy_flags po p) = pp_timeout p"
  "local_utc_offset (policy_flags po p) = local_utc_offset p"
  "own_address (policy_flags po p) = own_address p"
  "resolve_dns (policy_flags po p) = unwrap_or (resolve_dns p) (po_resolve_dns po)"
  "allow_internal_addresses (policy_flags po p)
     = unwrap_or (allow_internal_addresses p) (po_allow_internal po)"
  by (auto simp: policy_flags_def Let_def with_dns_resolution_def with_internal_addresses_def
      split: option.split)

lemma policy_address_Inr:
  "policy_address F po policy_new = Inr p \<Longrightarrow>
     p = policy_new\<lparr>own_address := Option.bind (po_my_ip_address po) parse_ip\<rparr>"
  by (auto simp: policy_address_def with_my_ip_address_def policy_new_def split: option.splits)

lemma policy_errors:
  "policy_address F po p = Inl f \<Longrightarrow> bf_code f = ''ERR_INVALID_ARG_VALUE''"
  "policy_offset po p = Inl f \<Longrightarrow> bf_code f = ''ERR_INVALID_ARG_VALUE''"
  "policy_timeout po p = Inl f \<Longrightarrow> bf_code f = ''ERR_INVALID_ARG_VALUE''"
  by (auto simp: policy_address_def policy_offset_def policy_timeout_def Let_def invalid_arg_def
      failure_new_def split: option.splits if_splits)

lemma policy_timeout_Inr:
  assumes "policy_timeout po p = Inr q" "pp_timeout p = Some d" "0 < d" "d \<le> MAX_TIMEOUT"
  shows "\<exists>t. pp_timeout q = Some t \<and> 0 < t \<and> t \<le> MAX_TIMEOUT"
    "local_utc_offset q = local_utc_offset p" "resolve_dns q = resolve_dns p"
    "allow_internal_addresses q = allow_internal_addresses p" "own_address q = own_address p"
  using assms
  by (auto simp: policy_timeout_def with_timeout_def Let_def split: option.splits if_splits)

lemma policy_offset_Inr:
  assumes "policy_offset po p = Inr q" "\<bar>local_utc_offset p\<bar> < 86400"
  shows "\<bar>local_utc_offset q\<bar> < 86400" "pp_timeout q = pp_timeout p"
    "resolve_dns q = resolve_dns p" "allow_internal_addresses q = allow_internal_addresses p"
    "own_address q = own_address p"
  using assms
  by (auto simp: policy_offset_def with_local_utc_offset_def split: option.splits if_splits)

text \<open>Every policy the bindings hand to QuickJS has a budget between one millisecond and a
  minute and an offset within a day, and gives a script neither DNS, nor internal addresses, nor
  an address of its own, unless the caller asked for it; every refusal is an invalid argument.\<close>

theorem binding_policies_are_bounded:
  "case binding_policy F po of
     Inl f \<Rightarrow> bf_code f = ''ERR_INVALID_ARG_VALUE''
   | Inr p \<Rightarrow>
       (case pp_timeout p of None \<Rightarrow> False | Some t \<Rightarrow> 0 < t \<and> t \<le> MAX_TIMEOUT)
       \<and> \<bar>local_utc_offset p\<bar> < 86400
       \<and> resolve_dns p = unwrap_or False (po_resolve_dns po)
       \<and> allow_internal_addresses p = unwrap_or False (po_allow_internal po)
       \<and> own_address p = Option.bind (po_my_ip_address po) parse_ip"
proof (cases "policy_address F po policy_new")
  case (Inl f)
  then show ?thesis by (simp add: binding_policy_def policy_errors(1))
next
  case (Inr p)
  note p = policy_address_Inr [OF Inr]
  show ?thesis
  proof (cases "policy_offset po (policy_flags po p)")
    case (Inl f)
    with Inr show ?thesis by (simp add: binding_policy_def policy_errors(2))
  next
    case p': (Inr p')
    have "\<bar>local_utc_offset (policy_flags po p)\<bar> < 86400" by (simp add: p policy_new_def)
    note off = policy_offset_Inr [OF p' this]
    show ?thesis
    proof (cases "policy_timeout po p'")
      case (Inl f)
      with Inr p' show ?thesis by (simp add: binding_policy_def policy_errors(3))
    next
      case q: (Inr q)
      have "pp_timeout p' = Some DEFAULT_PAC_TIMEOUT" by (simp add: off p policy_new_def)
      from policy_timeout_Inr [OF q this] off Inr p' q show ?thesis
        by (auto simp: binding_policy_def p policy_new_def DEFAULT_PAC_TIMEOUT_def MAX_TIMEOUT_def)
    qed
  qed
qed

section \<open>Steps of a scripted configuration\<close>

lemma answered_Inr:
  "answered F engine r = Inr a \<longleftrightarrow>
     (\<exists>ss. r = Inr ss \<and> a = \<lparr> an_route = RouteSteps ss, an_engine = engine \<rparr>)"
  by (cases r) (auto simp: answered_def)

definition body_steps ::
    "external \<Rightarrow> url_ops \<Rightarrow> target_os \<Rightarrow> engines \<Rightarrow> proxy_config \<Rightarrow> url \<Rightarrow> route_options
       \<Rightarrow> route_engine \<Rightarrow> proxy_error + proxy_step list" where
  "body_steps E U os G c u ro engine =
     (if engine = QuickJsEngine
      then resolve_with_pac_using E c u (ro_script ro)
             (\<lambda>s. evaluate U (eg_quickjs G) s u (ro_policy ro))
      else run_body_natively E U os G c u (ro_script ro))"

text \<open>Which engine may run for a scripted configuration: the system's fetches a script wherever the
  system has one, discovers only when asked to and not on Android, and runs a body on macOS and iOS
  only; QuickJS is there if it was built in, runs a body only, and is a second choice to the system's.\<close>

definition has_body :: "proxy_config \<Rightarrow> route_options \<Rightarrow> bool" where
  "has_body c ro \<longleftrightarrow> ro_script ro \<noteq> None \<or> is_inline (effective c)"

definition may_run ::
    "target_os \<Rightarrow> bool \<Rightarrow> proxy_config \<Rightarrow> route_options \<Rightarrow> route_engine \<Rightarrow> bool" where
  "may_run os quickjs c ro engine \<longleftrightarrow>
     (case engine of
        NoEngine \<Rightarrow> False
      | NativeEngine \<Rightarrow>
          (ro_pac ro = ChooseNative \<or> ro_pac ro = ChooseAuto)
          \<and> (if has_body c ro then os = TargetMacOs \<or> os = TargetIos
             else if effective c = WpadAutoDetect then ro_wpad ro \<and> os \<noteq> TargetAndroid \<and> os \<noteq> TargetElsewhere
             else os \<noteq> TargetElsewhere)
      | QuickJsEngine \<Rightarrow>
          quickjs \<and> has_body c ro
          \<and> (ro_pac ro = ChooseQuickJs \<or> ro_pac ro = ChooseAuto \<and> os \<noteq> TargetMacOs \<and> os \<noteq> TargetIos))"

definition engine_says ::
    "external \<Rightarrow> url_ops \<Rightarrow> target_os \<Rightarrow> engines \<Rightarrow> proxy_config \<Rightarrow> url \<Rightarrow> route_options
       \<Rightarrow> native_slots \<Rightarrow> route_engine \<Rightarrow> proxy_error + proxy_step list" where
  "engine_says E U os G c u ro slots engine =
     (if has_body c ro then body_steps E U os G c u ro engine
      else fst (run_natively os G c u (ro_wpad ro) slots))"

lemma body_engine_may_run:
  assumes "has_body c ro"
  shows "body_engine os quickjs (ro_pac ro) =
    (if may_run os quickjs c ro NativeEngine then Some NativeEngine
     else if may_run os quickjs c ro QuickJsEngine then Some QuickJsEngine else None)"
  using assms
  by (cases "ro_pac ro"; cases os)
    (auto simp: body_engine_def may_run_def NATIVE_RUNS_BODY_def)

lemma os_runs_may_run:
  "\<not> has_body c ro \<Longrightarrow> os_runs os ro (effective c) = may_run os quickjs c ro NativeEngine"
  by (cases os)
    (auto simp: os_runs_def may_run_def NATIVE_RUNS_WPAD_def NATIVE_RUNS_URL_def)

text \<open>C27. For a configuration that is a script, and a URL with a host, the bindings never invent a
  route. Steps are the ones the named engine answered with, and an engine's error is the failure that
  is told: neither another engine's answer nor a direct connection covers it up, and the engine is one
  the caller's choice allows on this system. The configuration is left to the caller, with no engine
  named, only where none may run, or where the system's does not take the script; and a script or
  QuickJS that was asked for without an engine for it is a failure.\<close>

theorem scripted_steps_come_from_an_engine:
  assumes "url_parse E text = Inr u" "has_request_host u" "caller_route (effective c) = Some caller"
  shows "case fst (route E U F os G c text ro slots) of
      Inr a \<Rightarrow>
        a = answer_none caller
        \<and> (if has_body c ro
           then \<not> may_run os (eg_quickjs G \<noteq> None) c ro NativeEngine
             \<and> \<not> may_run os (eg_quickjs G \<noteq> None) c ro QuickJsEngine
             \<and> ro_script ro = None \<and> ro_pac ro \<noteq> ChooseQuickJs
           else may_run os (eg_quickjs G \<noteq> None) c ro NativeEngine \<longrightarrow>
             not_taken (engine_says E U os G c u ro slots NativeEngine))
        \<or> (\<exists>ss engine. a = \<lparr> an_route = RouteSteps ss, an_engine = engine \<rparr>
             \<and> may_run os (eg_quickjs G \<noteq> None) c ro engine
             \<and> engine_says E U os G c u ro slots engine = Inr ss)
    | Inl f \<Rightarrow>
        (\<exists>engine e. may_run os (eg_quickjs G \<noteq> None) c ro engine
           \<and> engine_says E U os G c u ro slots engine = Inl e \<and> f = failure_of F e)
        \<or> f = failure_of F PacEngineUnavailable
          \<and> \<not> may_run os (eg_quickjs G \<noteq> None) c ro NativeEngine
          \<and> \<not> may_run os (eg_quickjs G \<noteq> None) c ro QuickJsEngine
          \<and> (ro_script ro \<noteq> None \<or> ro_pac ro = ChooseQuickJs)"
proof (cases "has_body c ro")
  case True
  let ?may = "may_run os (eg_quickjs G \<noteq> None) c ro"
  have body: "fst (route E U F os G c text ro slots) = route_body E U F os G c u ro caller"
    using assms True by (simp add: route_def has_body_def)
  have ran: "route_body E U F os G c u ro caller = answered F engine (body_steps E U os G c u ro engine)"
    if "body_engine os (eg_quickjs G \<noteq> None) (ro_pac ro) = Some engine" "?may engine" for engine
    using that by (cases engine) (auto simp: route_body_def body_steps_def may_run_def)
  show ?thesis
  proof (cases "?may NativeEngine \<or> ?may QuickJsEngine")
    case True
    then obtain engine where engine: "?may engine"
      "body_engine os (eg_quickjs G \<noteq> None) (ro_pac ro) = Some engine"
      using body_engine_may_run [OF \<open>has_body c ro\<close>, of os "eg_quickjs G \<noteq> None"] by (auto split: if_splits)
    show ?thesis
      unfolding body ran [OF engine(2,1)]
      using engine(1) \<open>has_body c ro\<close>
      by (cases "body_steps E U os G c u ro engine") (auto simp: answered_def engine_says_def)
  next
    case False
    then have "body_engine os (eg_quickjs G \<noteq> None) (ro_pac ro) = None"
      using body_engine_may_run [OF \<open>has_body c ro\<close>, of os "eg_quickjs G \<noteq> None"] by simp
    then show ?thesis unfolding body using False \<open>has_body c ro\<close> by (simp add: route_body_def)
  qed
next
  case False
  let ?may = "may_run os (eg_quickjs G \<noteq> None) c ro NativeEngine"
  let ?says = "fst (run_natively os G c u (ro_wpad ro) slots)"
  have "fst (route E U F os G c text ro slots) =
      (if \<not> ?may \<or> not_taken ?says then Inr (answer_none caller) else answered F NativeEngine ?says)"
    using assms False os_runs_may_run [OF False, of os "eg_quickjs G \<noteq> None"]
    by (simp add: route_def has_body_def route_fetched_def split: prod.split)
  then show ?thesis
    using False
    by (cases ?says) (auto simp: answered_def engine_says_def)
qed

text \<open>Without an engine asked for, none runs: the answer is the same on every system and
  whatever engines it has, and no native engine is opened.\<close>

theorem no_engine_runs_unasked:
  "route E U F os G c text route_options_none slots
     = (fst (route E U F os' G' c text route_options_none Map.empty), slots)"
proof -
  have "route_body E U F os G c u route_options_none caller = Inr (answer_none caller)" for os G u caller
    by (simp add: route_body_def body_engine_def route_options_none_def route_options_default_def)
  moreover have "route_fetched F os G c u route_options_none caller s = (Inr (answer_none caller), s)"
    for os G u caller s
    by (simp add: route_fetched_def os_runs_def route_options_none_def route_options_default_def)
  ultimately show ?thesis by (simp add: route_def split: sum.split option.split)
qed

text \<open>A URL, a script the configuration carries, and a build with QuickJS.\<close>

definition sample_target :: url where
  "sample_target =
     \<lparr> as_str = ''http://h/'', url_scheme = ''http'', url_host = Some (Domain ''h''), url_port = None,
       port_or_known_default = Some 80 \<rparr>"

definition sample_crate :: external where
  "sample_crate = plain_external\<lparr>url_parse := \<lambda>t. Inr sample_target\<rparr>"

definition sample_setters :: url_ops where
  "sample_setters =
     \<lparr> clear_username = Some, clear_password = Some, set_host_x = Some, set_host_empty = Some,
       has_authority = (\<lambda>u. True), clear_fragment = (\<lambda>u. u), root_path = (\<lambda>u. u),
       clear_query = (\<lambda>u. u), host_str = (\<lambda>u. Some ''h'') \<rparr>"

definition sample_engines :: engines where
  "sample_engines =
     \<lparr> eg_quickjs = Some (\<lambda>p s u h. Inr [StepDirect]),
       eg_open_native = (\<lambda>wpad. Inl PacEngineUnavailable),
       eg_body = (\<lambda>s u h. Inl PacEngineUnavailable) \<rparr>"

definition sample_debug :: foreign_debug where
  "sample_debug =
     \<lparr> wide_char = (\<lambda>c. c), io_error_debug = (\<lambda>e. e), url_error_debug = (\<lambda>e. e),
       host_debug = (\<lambda>h. []) \<rparr>"

definition sample_inline :: proxy_config where
  "sample_inline = config_new 0 (PacInline ''s'' []) []"

definition sample_route :: "binding_failure + route_answer" where
  "sample_route =
     fst (route sample_crate sample_setters sample_debug TargetElsewhere sample_engines sample_inline
            ''http://h/'' (route_options_default\<lparr>ro_pac := ChooseQuickJs\<rparr>) Map.empty)"

text \<open>The same on macOS with any engine: the system's fails, and QuickJS is not asked.\<close>

definition sample_failing :: "binding_failure + route_answer" where
  "sample_failing =
     fst (route sample_crate sample_setters sample_debug TargetMacOs sample_engines sample_inline
            ''http://h/'' (route_options_default\<lparr>ro_pac := ChooseAuto\<rparr>) Map.empty)"

theorem scripted_steps_come_from_an_engine_witness:
  "(\<exists>a. sample_route = Inr a \<and> an_engine a = QuickJsEngine)
   \<and> sample_failing = Inl (failure_of sample_debug PacEngineUnavailable)"
proof -
  have hyps: "url_parse sample_crate ''http://h/'' = Inr sample_target"
    "has_request_host sample_target"
    "caller_route (effective sample_inline) = Some (RoutePacInline ''s'')"
    by (simp_all add: sample_crate_def has_request_host_def request_host_def sample_target_def
        caller_route_def sample_inline_def config_new_def)
  have runs: "may_run TargetElsewhere (eg_quickjs sample_engines \<noteq> None) sample_inline
      (route_options_default\<lparr>ro_pac := ChooseQuickJs\<rparr>) QuickJsEngine"
    "may_run TargetMacOs (eg_quickjs sample_engines \<noteq> None) sample_inline
      (route_options_default\<lparr>ro_pac := ChooseAuto\<rparr>) NativeEngine"
    by code_simp+
  have kinds: "case sample_route of Inl _ \<Rightarrow> False | Inr a \<Rightarrow> an_engine a = QuickJsEngine"
    "case sample_failing of Inl f \<Rightarrow> True | Inr _ \<Rightarrow> False"
    "engine_says sample_crate sample_setters TargetMacOs sample_engines sample_inline sample_target
       (route_options_default\<lparr>ro_pac := ChooseAuto\<rparr>) Map.empty NativeEngine = Inl PacEngineUnavailable"
    by code_simp+
  have one: "may_run TargetMacOs (eg_quickjs sample_engines \<noteq> None) sample_inline
      (route_options_default\<lparr>ro_pac := ChooseAuto\<rparr>) engine \<Longrightarrow> engine = NativeEngine" for engine
    by (cases engine) (simp_all add: may_run_def route_options_default_def)
  obtain f where f: "sample_failing = Inl f" using kinds(2) by (auto split: sum.splits)
  from scripted_steps_come_from_an_engine [OF hyps, where U = sample_setters and F = sample_debug
      and os = TargetMacOs and G = sample_engines and slots = Map.empty
      and ro = "route_options_default\<lparr>ro_pac := ChooseAuto\<rparr>", folded sample_failing_def,
      unfolded f sum.case]
  have "f = failure_of sample_debug PacEngineUnavailable"
    using one runs(2) kinds(3) by (metis sum.inject(1))
  then have "sample_failing = Inl (failure_of sample_debug PacEngineUnavailable)" using f by simp
  moreover have "\<exists>a. sample_route = Inr a \<and> an_engine a = QuickJsEngine"
    using kinds(1) by (auto split: sum.splits)
  ultimately show ?thesis by blast
qed

section \<open>Where no script has to run\<close>

text \<open>\<open>script_free\<close>: the mode is settled by itself, or the URL names no host to look up.\<close>

definition script_free :: "proxy_config \<Rightarrow> url \<Rightarrow> bool" where
  "script_free c u \<longleftrightarrow>
     (case effective c of
        Direct \<Rightarrow> True
      | Manual _ _ _ \<Rightarrow> True
      | PacInline _ _ \<Rightarrow> False
      | _ \<Rightarrow> \<not> has_request_host u)"

text \<open>What a native resolver owes the rest of the crate.\<close>

locale native_engine =
  fixes ext :: external and run :: native_run
  assumes settled: "caller_route (effective c) = None \<Longrightarrow> run c u = resolve ext c u"
    and hostless: "mode_is_fetched (effective c) \<Longrightarrow> \<not> has_request_host u \<Longrightarrow> run c u = Inr [StepDirect]"
begin

lemma agrees: "script_free c u \<Longrightarrow> run c u = resolve_with_pac_using ext c u script eval"
  using settled [of c u] hostless [of c u]
  by (cases "effective c")
    (simp_all add: script_free_def caller_route_def mode_is_fetched_def resolve_with_pac_using_def
      resolve_def)

lemma attached:
  "script_free c u \<Longrightarrow>
     resolve_config ext U builtin (with_native run (resolver_new p)) c u script
       = resolve_with_pac_using ext c u script eval"
  using agrees [of c u]
  by (cases "effective c"; cases script)
    (simp_all add: resolve_config_def with_native_def resolver_new_def mode_is_fetched_def
      script_free_def resolve_with_pac_using_def)

end

lemma winhttp_contract: "native_engine E (winhttp_resolve_config E U A now registry r)"
proof
  fix c :: proxy_config and u :: url
  show "caller_route (effective c) = None \<Longrightarrow>
      winhttp_resolve_config E U A now registry r c u = resolve E c u"
    by (cases "effective c") (simp_all add: caller_route_def winhttp_resolve_config_def)
  show "mode_is_fetched (effective c) \<Longrightarrow> \<not> has_request_host u \<Longrightarrow>
      winhttp_resolve_config E U A now registry r c u = Inr [StepDirect]"
    by (cases "effective c") (simp_all add: mode_is_fetched_def winhttp_resolve_config_def)
qed

lemma cf_contract: "native_engine E (cf_resolve_config E U N src r)"
proof
  fix c :: proxy_config and u :: url
  show "caller_route (effective c) = None \<Longrightarrow> cf_resolve_config E U N src r c u = resolve E c u"
    by (cases "effective c") (simp_all add: caller_route_def cf_resolve_config_def)
  show "mode_is_fetched (effective c) \<Longrightarrow> \<not> has_request_host u \<Longrightarrow>
      cf_resolve_config E U N src r c u = Inr [StepDirect]"
    by (cases "effective c") (simp_all add: mode_is_fetched_def cf_resolve_config_def)
qed

lemma android_contract: "native_engine E (android_resolve_config E U aend select)"
proof
  fix c :: proxy_config and u :: url
  show "caller_route (effective c) = None \<Longrightarrow> android_resolve_config E U aend select c u = resolve E c u"
    by (cases "effective c") (simp_all add: caller_route_def android_resolve_config_def)
  show "mode_is_fetched (effective c) \<Longrightarrow> \<not> has_request_host u \<Longrightarrow>
      android_resolve_config E U aend select c u = Inr [StepDirect]"
    by (cases "effective c") (simp_all add: mode_is_fetched_def android_resolve_config_def)
qed

interpretation winhttp: native_engine E "winhttp_resolve_config E U A now registry r"
  for E U A now registry r
  by (rule winhttp_contract)

interpretation cfnetwork: native_engine E "cf_resolve_config E U N src r" for E U N src r
  by (rule cf_contract)

interpretation android: native_engine E "android_resolve_config E U aend select" for E U aend select
  by (rule android_contract)

text \<open>Engines cannot disagree where no script has to run: for a mode that settles itself, or a
  URL without a host, WinHTTP, CFNetwork and Android's service answer as \<open>resolve_with_pac\<close> does,
  and the bindings' route is that answer whatever was asked for.\<close>

theorem engines_agree_without_a_script:
  "if script_free c u \<and> url_parse E text = Inr u
   then winhttp_resolve_config E U A now registry wr c u = resolve_with_pac_using E c u script eval
      \<and> cf_resolve_config E U N src cr c u = resolve_with_pac_using E c u script eval
      \<and> android_resolve_config E U aend select c u = resolve_with_pac_using E c u script eval
      \<and> route E U F os G c text ro slots
          = (answered F NoEngine (resolve_with_pac_using E c u script eval), slots)
   else True"
proof -
  have "route E U F os G c text ro slots
      = (answered F NoEngine (resolve_with_pac_using E c u script eval), slots)"
    if "script_free c u" "url_parse E text = Inr u"
    using that
    by (cases "effective c")
      (simp_all add: route_def caller_route_def script_free_def resolve_with_pac_using_def
        resolve_def answered_def answer_none_def)
  then show ?thesis
    using winhttp.agrees [of c u] cfnetwork.agrees [of c u] android.agrees [of c u] by simp
qed

end
