(* ===== verification/Binding_Describe.thy ===== *)
theory Binding_Describe
  imports Binding_Route Log_Render Mode_Facts
begin

text \<open>
  A snapshot as data for the bindings (\<open>rejected\<close> and \<open>describe\<close> of
  \<open>bindings/shared/src/lib.rs\<close>): the values that were dropped, each once, and the tree each
  binding turns into its own dictionary. The arms for variants a later version of the core may
  add have nothing to match here.
\<close>

section \<open>What was dropped\<close>

fun keep_first :: "'a list \<Rightarrow> 'a list \<Rightarrow> 'a list" where
  "keep_first found [] = found"
| "keep_first found (v # vs) = keep_first (if v \<in> set found then found else found @ [v]) vs"

definition mode_drops :: "proxy_mode \<Rightarrow> rejected_value list" where
  "mode_drops mode =
     unwrap_or [] (mode_rejected mode) @ unwrap_or [] (map_option br_rejected (mode_bypass mode))"

definition rejected_values :: "proxy_config \<Rightarrow> rejected_value list" where
  "rejected_values c = keep_first [] (concat (map mode_drops (effective c # map snd (sources c))))"

definition rejected_text :: "foreign_debug \<Rightarrow> rejected_value \<Rightarrow> string" where
  "rejected_text F r =
     rejection_kind_debug (rv_kind r) @ '' from '' @ rejection_source_debug F (rv_source r) @ '': ''
       @ redacted_input r"

definition rejected_texts :: "foreign_debug \<Rightarrow> proxy_config \<Rightarrow> string list" where
  "rejected_texts F c = map (rejected_text F) (rejected_values c)"

section \<open>The tree\<close>

datatype bvalue =
    VNull
  | VBool bool
  | VInt int
  | VStr string
  | VList "bvalue list"
  | VMap "(string \<times> bvalue) list"

definition opt_value :: "('a \<Rightarrow> bvalue) \<Rightarrow> 'a option \<Rightarrow> bvalue" where
  "opt_value f x = (case x of None \<Rightarrow> VNull | Some y \<Rightarrow> f y)"

definition value_list :: "('a \<Rightarrow> bvalue) \<Rightarrow> 'a list \<Rightarrow> bvalue" where
  "value_list f xs = VList (map f xs)"

definition describe_rejected :: "foreign_debug \<Rightarrow> rejected_value \<Rightarrow> bvalue" where
  "describe_rejected F r = VStr (rejected_text F r)"

definition password_state_debug :: "password_state \<Rightarrow> string" where
  "password_state_debug s =
     (case s of StatePresent \<Rightarrow> ''Present'' | StateAbsent \<Rightarrow> ''Absent''
      | StateNotRead \<Rightarrow> ''NotRead'' | StateInKeychain \<Rightarrow> ''InKeychain'')"

definition describe_entry :: "external \<Rightarrow> foreign_debug \<Rightarrow> proxy_entry \<Rightarrow> bvalue" where
  "describe_entry E F entry =
     (case entry of
        Use e \<Rightarrow>
          VMap [(''kind'', VStr ''use''),
                (''scheme'', opt_value (\<lambda>s. VStr (proxy_scheme_as_str s)) (scheme_hint e)),
                (''host'', VStr (host_show E (ep_host e))),
                (''port'', VInt (uint (ep_port e))),
                (''username'', opt_value (\<lambda>a. VStr (username a)) (ep_auth e)),
                (''password'', opt_value VStr (Option.bind (ep_auth e) password_of)),
                (''password_state'',
                   opt_value (\<lambda>a. VStr (password_state_debug (password_state_of a))) (ep_auth e))]
      | Disabled \<Rightarrow> VMap [(''kind'', VStr ''disabled'')]
      | Unusable r \<Rightarrow> VMap [(''kind'', VStr ''unusable''), (''rejected'', describe_rejected F r)])"

definition implicit_debug :: "implicit_bypass \<Rightarrow> string" where
  "implicit_debug i =
     (case i of Broad \<Rightarrow> ''Broad'' | WinInet \<Rightarrow> ''WinInet'' | CfNetwork \<Rightarrow> ''CfNetwork''
      | EmptySet \<Rightarrow> ''Empty'')"

definition describe_bypass :: "external \<Rightarrow> foreign_debug \<Rightarrow> bypass_rules \<Rightarrow> bvalue" where
  "describe_bypass E F b =
     VMap [(''patterns'', value_list (\<lambda>p. VStr (pattern_show E p)) (patterns b)),
           (''implicit'', VStr (implicit_debug (implicit b))),
           (''exclude_simple_hostnames'', VBool (exclude_simple_hostnames b)),
           (''reversed_exceptions'', VBool (reversed_exceptions b)),
           (''require_explicit_port'', VBool (require_explicit_port b)),
           (''ipv4_mapped_as_ipv4'', VBool (ipv4_mapped_as_ipv4 b)),
           (''strip_trailing_dot'', VBool (strip_trailing_dot b)),
           (''rejected'', value_list (describe_rejected F) (br_rejected b))]"

definition describe_proxies :: "external \<Rightarrow> foreign_debug \<Rightarrow> scheme_map \<Rightarrow> bvalue" where
  "describe_proxies E F m =
     VMap (present (map (\<lambda>s. map_option (\<lambda>entry. (scheme_as_str s, describe_entry E F entry)) (m s))
                      scheme_ALL))"

definition describe_mode :: "external \<Rightarrow> foreign_debug \<Rightarrow> proxy_mode \<Rightarrow> bvalue" where
  "describe_mode E F mode =
     (case mode of
        Direct \<Rightarrow> VMap [(''kind'', VStr ''direct'')]
      | Manual m b r \<Rightarrow>
          VMap [(''kind'', VStr ''manual''), (''proxies'', describe_proxies E F m),
                (''bypass'', describe_bypass E F b),
                (''rejected'', value_list (describe_rejected F) r)]
      | Pac u r \<Rightarrow>
          VMap [(''kind'', VStr ''pac''), (''url'', VStr (as_str u)),
                (''rejected'', value_list (describe_rejected F) r)]
      | PacInline script r \<Rightarrow>
          VMap [(''kind'', VStr ''pac-inline''), (''script'', VStr script),
                (''rejected'', value_list (describe_rejected F) r)]
      | WpadAutoDetect \<Rightarrow> VMap [(''kind'', VStr ''wpad'')])"

definition describe :: "external \<Rightarrow> foreign_debug \<Rightarrow> proxy_config \<Rightarrow> bool \<Rightarrow> bvalue" where
  "describe E F c os_readable =
     VMap [(''mode'', describe_mode E F (effective c)),
           (''sources'', value_list (\<lambda>(s, mode).
               VMap [(''source'', VStr (source_label s)), (''mode'', describe_mode E F mode)])
               (sources c)),
           (''fallbacks'', value_list (\<lambda>s. VStr (source_label s)) (fallbacks c)),
           (''rejected'', value_list VStr (rejected_texts F c)),
           (''os_readable'', VBool os_readable)]"

section \<open>Facts\<close>

lemma set_keep_first: "set (keep_first found vs) = set found \<union> set vs"
  by (induction found vs rule: keep_first.induct) auto

lemma distinct_keep_first: "distinct found \<Longrightarrow> distinct (keep_first found vs)"
  by (induction found vs rule: keep_first.induct) auto

lemma keep_first_prefix: "\<exists>more. keep_first found vs = found @ more \<and> set more \<subseteq> set vs"
proof (induction found vs rule: keep_first.induct)
  case (2 found v vs)
  then show ?case by (cases "v \<in> set found") force+
qed simp

text \<open>The first place of every value stays in order: dropping later copies is all that happens.\<close>

lemma keep_first_in_order:
  "distinct vs \<Longrightarrow> set found \<inter> set vs = {} \<Longrightarrow> keep_first found vs = found @ vs"
  by (induction found vs rule: keep_first.induct) auto

text \<open>Every value a source held and the configuration dropped is reported, from the effective
  mode and from every source, in the record of the mode and in its bypass list, and none is
  reported twice.\<close>

theorem every_drop_is_reported_once:
  "set (rejected_values c) =
     (\<Union>mode \<in> insert (effective c) (snd ` set (sources c)).
        set (unwrap_or [] (mode_rejected mode))
          \<union> set (case mode_bypass mode of None \<Rightarrow> [] | Some b \<Rightarrow> br_rejected b))
   \<and> distinct (rejected_values c)
   \<and> rejected_texts F c = map (rejected_text F) (rejected_values c)"
proof -
  have "set (mode_drops mode) = set (unwrap_or [] (mode_rejected mode))
      \<union> set (case mode_bypass mode of None \<Rightarrow> [] | Some b \<Rightarrow> br_rejected b)" for mode
    by (cases "mode_bypass mode") (simp_all add: mode_drops_def)
  then show ?thesis
    by (simp add: rejected_values_def rejected_texts_def set_keep_first distinct_keep_first)
qed

text \<open>A value read at a name, and the entry of a scheme, in the tree.\<close>

fun field_of :: "string \<Rightarrow> bvalue \<Rightarrow> bvalue option" where
  "field_of name (VMap fs) = map_of fs name"
| "field_of name _ = None"

lemma present_map_of:
  assumes "\<And>k'. f k' = f k \<Longrightarrow> k' = k"
  shows "map_of (present (map (\<lambda>s. map_option (\<lambda>e. (f s, g e)) (m s)) ks)) (f k)
     = (if k \<in> set ks then map_option g (m k) else None)"
proof (induction ks)
  case (Cons s ks)
  show ?case
  proof (cases "m s")
    case None
    with Cons show ?thesis by (cases "k = s") auto
  next
    case (Some e)
    with Cons assms [of s] show ?thesis by (cases "k = s") auto
  qed
qed simp

lemma scheme_names_differ: "scheme_as_str s = scheme_as_str t \<Longrightarrow> s = t"
  by (cases s; cases t) simp_all

text \<open>The tree holds the entry of every scheme under its name, and nothing for a scheme without
  one.\<close>

theorem described_entries:
  "field_of (scheme_as_str s) (describe_proxies E F m) = map_option (describe_entry E F) (m s)"
proof -
  have "s \<in> set scheme_ALL" by simp
  then show ?thesis
    unfolding describe_proxies_def field_of.simps
    by (subst present_map_of) (auto dest: scheme_names_differ)
qed

end
