(* ===== verification/Stream_Client.thy ===== *)
theory Stream_Client
  imports Watch_Facts
begin

text \<open>
  What a program that drains the stream of a watcher relies on, whatever it does with the events:
  the backend's calls beside it, and how its own record of the configuration keeps up. Shared by
  the pump of the bindings and the task of \<open>src/bridge.rs\<close>.
\<close>

section \<open>The backend beside a client\<close>

inductive backend_call :: "(shared \<Rightarrow> shared \<times> nat option) \<Rightarrow> bool" where
  "backend_call (emit config)"
| "backend_call (fail e)"
| "backend_call (degrade source)"
| "backend_call mark_no_live_notifications"
| "backend_call close"

definition woken_by_backend :: "watcher \<Rightarrow> watcher \<Rightarrow> bool" where
  "woken_by_backend wt wt' \<longleftrightarrow> wt_parked wt \<noteq> None \<and> wt_parked wt' = None"

section \<open>What is still to be polled\<close>

text \<open>A snapshot is still to be polled.\<close>

definition news :: "shared \<Rightarrow> bool" where
  "news sh \<longleftrightarrow> QSnapshot \<in> set (sh_queue sh) \<or> sh_dirty sh"

lemma config_eq_trans: "config_eq a b \<Longrightarrow> config_eq b c \<Longrightarrow> config_eq a c"
  by (simp add: config_eq_def)

lemma config_eq_sym: "config_eq a b \<Longrightarrow> config_eq b a"
  by (simp add: config_eq_def)

lemma config_eq_same: "config_eq a a"
  by (simp add: config_eq_def)

context backend_operation
begin

lemma news_kept:
  assumes "watcher_ok wt" "\<not> news (fst (f (wt_shared wt)))"
  shows "\<not> news (wt_shared wt) \<and> sh_current (fst (f (wt_shared wt))) = sh_current (wt_shared wt)"
proof -
  have q: "queue_ok (sh_queue (wt_shared wt))" using assms(1) by (simp add: watcher_ok_def Let_def)
  have "stamp (fst (f (wt_shared wt))) = stamp (wt_shared wt) \<and> \<not> sh_dirty (wt_shared wt)"
    using nothing_new [OF q] assms(2) by (simp add: news_def)
  moreover have "QSnapshot \<notin> set (sh_queue (wt_shared wt))"
    using snapshot_kept [OF q] assms(2) by (auto simp: news_def)
  ultimately show ?thesis by (simp add: news_def stamp_def)
qed

end

lemma backend_call_ok:
  assumes "backend_call f" "watcher_ok wt"
  shows "watcher_ok (backend f wt)"
    "construction (fst (f (wt_shared wt))) = construction (wt_shared wt)"
    "news (fst (f (wt_shared wt)))
      \<or> (\<not> news (wt_shared wt) \<and> sh_current (fst (f (wt_shared wt))) = sh_current (wt_shared wt))"
  using assms
  by (auto elim!: backend_call.cases
      simp: emit.backend_keeps_ok fail.backend_keeps_ok degrade.backend_keeps_ok
        no_live.backend_keeps_ok close.backend_keeps_ok
        emit.construction_kept fail.construction_kept degrade.construction_kept
        no_live.construction_kept close.construction_kept
      dest: emit.news_kept fail.news_kept degrade.news_kept no_live.news_kept close.news_kept)

lemma wt_shared_backend: "wt_shared (backend f wt) = fst (f (wt_shared wt))"
  by (simp add: backend_def split: prod.splits)

lemma poll_latest:
  assumes "consumer_poll w wt = (wt', r)"
  shows "construction (wt_shared wt') = construction (wt_shared wt)"
    "r = Ready (SnapshotEvent st) \<Longrightarrow> config_eq (ws_config st) (sh_current (wt_shared wt'))"
    "(\<forall>st. r \<noteq> Ready (SnapshotEvent st)) \<Longrightarrow>
       (news (wt_shared wt') \<longleftrightarrow> news (wt_shared wt)) \<and>
       sh_current (wt_shared wt') = sh_current (wt_shared wt)"
  using assms
  by (auto simp: consumer_poll_def poll_next_def Let_def news_def stamp_def config_eq_same
      split: list.splits queued.splits if_splits)

lemma pending_parks: "consumer_poll w wt = (wt', Pending) \<Longrightarrow> wt_parked wt' = Some w"
  by (auto simp: consumer_poll_def split: prod.splits)

end
