(* ===== verification/Binding_Watch.thy ===== *)
theory Binding_Watch
  imports Stream_Client
begin

text \<open>
  \<open>Watch\<close> of \<open>bindings/shared/src/lib.rs\<close>: a watcher drained by a pump thread into the
  caller's \<open>deliver\<close>. The handle, its clones and the pump share one state; the backend of the
  watcher, the pump, and any number of calls of \<open>close\<close> and \<open>close_in_background\<close> take turns,
  what is done under one lock being one step. What \<open>deliver\<close> answers, and whether it closes the
  watch itself, is open.
\<close>

section \<open>The state\<close>

text \<open>What \<open>deliver\<close> is handed.\<close>

datatype delivery = Changed proxy_config | Failed proxy_error | StoppedOnItsOwn

text \<open>Where the pump is: at its test of \<open>closed\<close>, about to poll, about to park, with an event in
  hand, about to report the stop, about to drop the watcher, or ended.\<close>

datatype pump_phase =
    PumpChecking | PumpPolling | PumpParking | PumpHandling watch_event | PumpReporting
  | PumpLeaving | PumpGone

text \<open>\<open>bw_token\<close> is the thread's unpark token; \<open>bw_closing\<close> are the calls of \<open>close\<close> that have set
  \<open>closed\<close> and wait for the lock on the pump's handle, \<open>bw_joining\<close> the one that holds it, which
  has unparked the pump and waits for its end, \<open>bw_background\<close> the calls of \<open>close_in_background\<close> in between; \<open>bw_returned\<close>: a \<open>close\<close> from another thread
  has returned.\<close>

record binding_watch =
  bw_closed :: bool
  bw_watcher :: "watcher option"
  bw_pump :: "pump_phase option"
  bw_token :: bool
  bw_latest :: proxy_config
  bw_out :: "delivery list"
  bw_closing :: nat
  bw_joining :: nat
  bw_background :: nat
  bw_returned :: bool
  bw_os_readable :: bool

text \<open>\<open>start\<close>: the queued reading of the constructor is polled away, then the configuration is
  read, between which the backend may act; without anything to watch there is no thread.\<close>

definition watch_start :: "watcher \<Rightarrow> binding_watch" where
  "watch_start wt =
     \<lparr> bw_closed = False, bw_watcher = Some wt, bw_pump = Some PumpChecking, bw_token = False,
       bw_latest = sh_current (wt_shared wt), bw_out = [], bw_closing = 0, bw_joining = 0,
       bw_background = 0, bw_returned = False, bw_os_readable = True \<rparr>"

definition watch_start_unsupported :: "proxy_config \<Rightarrow> binding_watch" where
  "watch_start_unsupported default_config =
     \<lparr> bw_closed = False, bw_watcher = None, bw_pump = None, bw_token = False,
       bw_latest = default_config, bw_out = [], bw_closing = 0, bw_joining = 0,
       bw_background = 0, bw_returned = False, bw_os_readable = False \<rparr>"

section \<open>Reading\<close>

datatype current_failure = WatcherClosed | WatchStopped

text \<open>\<open>closed_since\<close>: whether the watch was closed between the first test and the lock.\<close>

definition watch_current :: "proxy_config \<Rightarrow> bool \<Rightarrow> binding_watch \<Rightarrow> current_failure + proxy_config" where
  "watch_current default_config closed_since s =
     (if bw_closed s then Inl WatcherClosed
      else (case bw_watcher s of
              Some wt \<Rightarrow> Inr (sh_current (wt_shared wt))
            | None \<Rightarrow>
                if \<not> bw_os_readable s then Inr default_config
                else if closed_since then Inl WatcherClosed else Inl WatchStopped))"

section \<open>The steps\<close>

definition deliver :: "delivery \<Rightarrow> bool \<Rightarrow> pump_phase \<Rightarrow> binding_watch \<Rightarrow> binding_watch" where
  "deliver d closes after s =
     s\<lparr>bw_out := bw_out s @ [d], bw_closed := bw_closed s \<or> closes, bw_pump := Some after\<rparr>"

definition at_phase :: "pump_phase \<Rightarrow> binding_watch \<Rightarrow> binding_watch" where
  "at_phase p s = s\<lparr>bw_pump := Some p\<rparr>"

definition poll_phase_of :: "poll \<Rightarrow> pump_phase" where
  "poll_phase_of r =
     (case r of Pending \<Rightarrow> PumpParking | Ended \<Rightarrow> PumpLeaving | Ready ev \<Rightarrow> PumpHandling ev)"

definition pump_poll :: "binding_watch \<Rightarrow> binding_watch" where
  "pump_poll s =
     (case bw_watcher s of
        None \<Rightarrow> at_phase PumpGone s
      | Some wt \<Rightarrow>
          (let (wt', r) = consumer_poll 0 wt
           in (at_phase (poll_phase_of r) s)\<lparr>bw_watcher := Some wt'\<rparr>))"

text \<open>\<open>keep\<close> is what \<open>deliver\<close> answers.\<close>

definition pump_handle :: "watch_event \<Rightarrow> bool \<Rightarrow> bool \<Rightarrow> binding_watch \<Rightarrow> binding_watch" where
  "pump_handle ev keep closes s =
     (case ev of
        SnapshotEvent st \<Rightarrow>
          (let after = (if stopped (ws_health st) then PumpReporting else PumpChecking) in
           if config_eq (ws_config st) (bw_latest s) then at_phase after s
           else deliver (Changed (ws_config st)) closes (if keep then after else PumpLeaving)
                  (s\<lparr>bw_latest := ws_config st\<rparr>))
      | ErrorEvent e st \<Rightarrow>
          deliver (Failed e) closes (if keep then PumpChecking else PumpLeaving) s)"

definition pump_report :: "bool \<Rightarrow> binding_watch \<Rightarrow> binding_watch" where
  "pump_report closes s =
     (if bw_closed s then at_phase PumpLeaving s
      else deliver StoppedOnItsOwn closes PumpLeaving s)"

text \<open>The pump's handle is there until a \<open>close\<close> takes it, which then holds the lock across the
  join (\<open>bw_joining\<close>). A \<open>deliver\<close> may close the watch as it is called, or until it returns, which the
  pump's next step follows (\<open>bw_deliver_closes\<close>).\<close>

definition handle_left :: "binding_watch \<Rightarrow> bool" where
  "handle_left s \<longleftrightarrow> bw_pump s \<noteq> None \<and> \<not> bw_returned s"

inductive pump_step :: "binding_watch \<Rightarrow> binding_watch \<Rightarrow> bool" where
  bw_backend:
    "bw_watcher s = Some wt \<Longrightarrow> backend_call f \<Longrightarrow>
       pump_step s (s\<lparr>bw_watcher := Some (backend f wt),
                      bw_token := bw_token s \<or> woken_by_backend wt (backend f wt)\<rparr>)"
| bw_check:
    "bw_pump s = Some PumpChecking \<Longrightarrow>
       pump_step s (at_phase (if bw_closed s then PumpLeaving else PumpPolling) s)"
| bw_poll: "bw_pump s = Some PumpPolling \<Longrightarrow> pump_step s (pump_poll s)"
| bw_unparked:
    "bw_pump s = Some PumpParking \<Longrightarrow> bw_token s \<Longrightarrow>
       pump_step s ((at_phase PumpChecking s)\<lparr>bw_token := False\<rparr>)"
| bw_spurious: "bw_pump s = Some PumpParking \<Longrightarrow> pump_step s (at_phase PumpChecking s)"
| bw_handle: "bw_pump s = Some (PumpHandling ev) \<Longrightarrow> pump_step s (pump_handle ev keep closes s)"
| bw_report: "bw_pump s = Some PumpReporting \<Longrightarrow> pump_step s (pump_report closes s)"
| bw_deliver_closes:
    "bw_pump s = Some PumpChecking \<or> bw_pump s = Some PumpReporting \<or> bw_pump s = Some PumpLeaving \<Longrightarrow>
       pump_step s (s\<lparr>bw_closed := True\<rparr>)"
| bw_leave:
    "bw_pump s = Some PumpLeaving \<Longrightarrow> pump_step s ((at_phase PumpGone s)\<lparr>bw_watcher := None\<rparr>)"
| bw_close: "pump_step s (s\<lparr>bw_closed := True, bw_closing := bw_closing s + 1\<rparr>)"
| bw_close_unparks:
    "0 < bw_closing s \<Longrightarrow> bw_joining s = 0 \<Longrightarrow>
       pump_step s (s\<lparr>bw_closing := bw_closing s - 1, bw_joining := 1,
                      bw_token := bw_token s \<or> handle_left s\<rparr>)"
| bw_close_returns:
    "0 < bw_joining s \<Longrightarrow> bw_pump s = None \<or> bw_pump s = Some PumpGone \<Longrightarrow>
       pump_step s (s\<lparr>bw_joining := 0, bw_watcher := None, bw_returned := True\<rparr>)"
| bw_background:
    "\<not> bw_closed s \<Longrightarrow>
       pump_step s (s\<lparr>bw_closed := True, bw_background := bw_background s + 1\<rparr>)"
| bw_background_unparks:
    "0 < bw_background s \<Longrightarrow> bw_joining s = 0 \<Longrightarrow>
       pump_step s (if handle_left s
                    then s\<lparr>bw_background := bw_background s - 1, bw_token := True\<rparr>
                    else s\<lparr>bw_background := bw_background s - 1, bw_watcher := None\<rparr>)"
| bw_background_busy:
    "0 < bw_background s \<Longrightarrow> 0 < bw_joining s \<Longrightarrow>
       pump_step s (s\<lparr>bw_background := bw_background s - 1\<rparr>)"

text \<open>A watch is started on a watcher of any run whose first reading was taken, or without one.\<close>

inductive pump_run :: "binding_watch \<Rightarrow> binding_watch \<Rightarrow> bool" for start where
  pump_start:
    "watch_run initial wt \<Longrightarrow> construction (wt_shared wt) \<noteq> None \<Longrightarrow> wt_parked wt = None \<Longrightarrow>
       start = watch_start wt \<Longrightarrow> pump_run start start"
| pump_start_unsupported:
    "start = watch_start_unsupported default_config \<Longrightarrow> pump_run start start"
| pump_more: "pump_run start s \<Longrightarrow> pump_step s s' \<Longrightarrow> pump_run start s'"

section \<open>Invariants\<close>

lemmas bw_defs =
  at_phase_def deliver_def pump_handle_def pump_report_def pump_poll_def poll_phase_of_def Let_def

text \<open>Once a \<open>close\<close> has returned the pump has ended and the watcher is gone.\<close>

definition returned_ok :: "binding_watch \<Rightarrow> bool" where
  "returned_ok s \<longleftrightarrow>
     (bw_returned s \<longrightarrow> (bw_pump s = None \<or> bw_pump s = Some PumpGone) \<and> bw_watcher s = None)"

lemma step_returned_ok: "pump_step s s' \<Longrightarrow> returned_ok s \<Longrightarrow> returned_ok s'"
  by (induction rule: pump_step.induct)
    (auto simp: returned_ok_def bw_defs split: option.splits prod.splits watch_event.splits if_splits)

text \<open>A close that was begun is unparked for, as long as the pump may park.\<close>

definition may_park :: "binding_watch \<Rightarrow> bool" where
  "may_park s \<longleftrightarrow> bw_pump s = Some PumpPolling \<or> bw_pump s = Some PumpParking"

definition close_ok :: "binding_watch \<Rightarrow> bool" where
  "close_ok s \<longleftrightarrow>
     (0 < bw_closing s \<or> 0 < bw_joining s \<or> 0 < bw_background s \<longrightarrow> bw_closed s)
     \<and> (0 < bw_joining s \<and> may_park s \<longrightarrow> bw_token s)
     \<and> (bw_closed s \<and> may_park s \<longrightarrow> bw_token s \<or> 0 < bw_closing s \<or> 0 < bw_background s)"

lemma step_close_ok: "pump_step s s' \<Longrightarrow> close_ok s \<and> returned_ok s \<Longrightarrow> close_ok s'"
  by (induction rule: pump_step.induct)
    (auto simp: close_ok_def may_park_def returned_ok_def handle_left_def bw_defs
      split: option.splits prod.splits watch_event.splits if_splits poll.splits)

text \<open>A sleeping pump has its waker with the watcher.\<close>

definition park_ok :: "binding_watch \<Rightarrow> bool" where
  "park_ok s \<longleftrightarrow>
     (case bw_watcher s of
        None \<Rightarrow> True
      | Some wt \<Rightarrow> bw_pump s = Some PumpParking \<and> \<not> bw_token s \<longrightarrow> wt_parked wt \<noteq> None)"

lemma step_park_ok: "pump_step s s' \<Longrightarrow> park_ok s \<Longrightarrow> park_ok s'"
  by (induction rule: pump_step.induct)
    (auto simp: park_ok_def woken_by_backend_def bw_defs dest: pending_parks
      split: option.splits prod.splits watch_event.splits if_splits poll.splits)

text \<open>The configuration the pump has in hand.\<close>

fun hand_of :: "pump_phase option \<Rightarrow> proxy_config \<Rightarrow> proxy_config" where
  "hand_of (Some (PumpHandling (SnapshotEvent st))) _ = ws_config st"
| "hand_of _ latest = latest"

definition in_hand :: "binding_watch \<Rightarrow> proxy_config" where
  "in_hand s = hand_of (bw_pump s) (bw_latest s)"

definition latest_ok :: "binding_watch \<Rightarrow> bool" where
  "latest_ok s \<longleftrightarrow>
     (case bw_watcher s of
        None \<Rightarrow> True
      | Some wt \<Rightarrow>
          watcher_ok wt \<and> construction (wt_shared wt) \<noteq> None
          \<and> (news (wt_shared wt) \<or> config_eq (in_hand s) (sh_current (wt_shared wt))))"

lemma in_hand_polled:
  "in_hand (at_phase (poll_phase_of r) s) =
     (case r of Ready (SnapshotEvent st) \<Rightarrow> ws_config st | _ \<Rightarrow> bw_latest s)"
  by (auto simp: in_hand_def at_phase_def poll_phase_of_def split: poll.splits watch_event.splits)

lemma poll_latest_ok:
  assumes "latest_ok s" "bw_pump s = Some PumpPolling"
  shows "latest_ok (pump_poll s)"
proof (cases "bw_watcher s")
  case None
  then show ?thesis by (simp add: latest_ok_def pump_poll_def at_phase_def)
next
  case (Some wt)
  obtain wt' r where r: "consumer_poll 0 wt = (wt', r)" by fastforce
  from assms Some have ok: "watcher_ok wt" "construction (wt_shared wt) \<noteq> None"
    and quiet: "news (wt_shared wt) \<or> config_eq (bw_latest s) (sh_current (wt_shared wt))"
    by (simp_all add: latest_ok_def in_hand_def)
  have ok': "watcher_ok wt'" using consumer_poll_ok [OF ok, of 0] r by simp
  have "news (wt_shared wt')
      \<or> config_eq (in_hand (at_phase (poll_phase_of r) s)) (sh_current (wt_shared wt'))"
  proof (cases "\<exists>st. r = Ready (SnapshotEvent st)")
    case True
    then show ?thesis using poll_latest(2) [OF r] by (auto simp: in_hand_polled)
  next
    case False
    then have "in_hand (at_phase (poll_phase_of r) s) = bw_latest s"
      by (auto simp: in_hand_polled split: poll.splits watch_event.splits)
    with False quiet poll_latest(3) [OF r] show ?thesis by auto
  qed
  moreover have "pump_poll s = (at_phase (poll_phase_of r) s)\<lparr>bw_watcher := Some wt'\<rparr>"
    by (simp add: pump_poll_def Some r)
  moreover have "in_hand ((at_phase p s)\<lparr>bw_watcher := x\<rparr>) = in_hand (at_phase p s)" for p x
    by (simp add: in_hand_def at_phase_def)
  ultimately show ?thesis using ok' ok(2) poll_latest(1) [OF r] by (simp add: latest_ok_def)
qed

lemma handle_latest_ok:
  assumes "latest_ok s" "bw_pump s = Some (PumpHandling ev)"
  shows "latest_ok (pump_handle ev keep closes s)"
proof (cases "bw_watcher s")
  case None
  then show ?thesis
    by (auto simp: latest_ok_def bw_defs split: watch_event.splits if_splits)
next
  case (Some wt)
  with assms show ?thesis
    by (auto simp: latest_ok_def in_hand_def bw_defs config_eq_same
        intro: config_eq_trans config_eq_sym split: watch_event.splits)
qed

lemma step_latest_ok: "pump_step s s' \<Longrightarrow> latest_ok s \<Longrightarrow> latest_ok s'"
proof (induction rule: pump_step.induct)
  case (bw_backend s wt f)
  from bw_backend have ok: "watcher_ok wt" by (simp add: latest_ok_def)
  have "in_hand (s\<lparr>bw_watcher := x, bw_token := t\<rparr>) = in_hand s" for x t
    by (simp add: in_hand_def)
  with bw_backend backend_call_ok [OF bw_backend(2) ok] show ?case
    by (auto simp: latest_ok_def wt_shared_backend)
next
  case (bw_poll s)
  then show ?case by (simp add: poll_latest_ok)
next
  case (bw_handle s ev keep closes)
  then show ?case by (simp add: handle_latest_ok)
qed (auto simp: latest_ok_def in_hand_def bw_defs split: option.splits)

section \<open>What is delivered\<close>

definition configs :: "delivery list \<Rightarrow> proxy_config list" where
  "configs out = present (map (\<lambda>d. case d of Changed c \<Rightarrow> Some c | _ \<Rightarrow> None) out)"

definition deliveries_ok :: "proxy_config \<Rightarrow> binding_watch \<Rightarrow> bool" where
  "deliveries_ok first s \<longleftrightarrow>
     bw_latest s = last (first # configs (bw_out s))
     \<and> successively (\<lambda>a b. \<not> config_eq b a) (first # configs (bw_out s))"

lemma present_app: "present (xs @ ys) = present xs @ present ys"
  by (induction xs rule: present.induct) auto

lemma configs_snoc [simp]:
  "configs (out @ [d]) = configs out @ (case d of Changed c \<Rightarrow> [c] | _ \<Rightarrow> [])"
  by (simp add: configs_def present_app split: delivery.splits)

lemma successively_snoc:
  "successively P (x # xs @ [y]) \<longleftrightarrow> successively P (x # xs) \<and> P (last (x # xs)) y"
  using successively_append_iff [of P "x # xs" "[y]"] by simp

lemma step_deliveries_ok: "pump_step s s' \<Longrightarrow> deliveries_ok first s \<Longrightarrow> deliveries_ok first s'"
  by (induction rule: pump_step.induct)
    (auto simp: deliveries_ok_def bw_defs successively_snoc
      split: option.splits prod.splits watch_event.splits if_splits)

text \<open>The stop is told once, last, by a pump on its way out.\<close>

definition stop_ok :: "binding_watch \<Rightarrow> bool" where
  "stop_ok s \<longleftrightarrow>
     (StoppedOnItsOwn \<in> set (bw_out s) \<longrightarrow>
        (bw_pump s = Some PumpLeaving \<or> bw_pump s = Some PumpGone)
        \<and> last (bw_out s) = StoppedOnItsOwn \<and> StoppedOnItsOwn \<notin> set (butlast (bw_out s)))"

lemma step_stop_ok: "pump_step s s' \<Longrightarrow> stop_ok s \<Longrightarrow> stop_ok s'"
  by (induction rule: pump_step.induct)
    (auto simp: stop_ok_def bw_defs split: option.splits prod.splits watch_event.splits if_splits)

lemma pump_run_invariants:
  "pump_run start s \<Longrightarrow>
     returned_ok s \<and> close_ok s \<and> park_ok s \<and> latest_ok s \<and> deliveries_ok (bw_latest start) s
     \<and> stop_ok s"
proof (induction rule: pump_run.induct)
  case (pump_start initial wt)
  then show ?case
    using watch_run_ok [of initial wt]
    by (auto simp: watch_start_def returned_ok_def close_ok_def may_park_def park_ok_def latest_ok_def
        deliveries_ok_def stop_ok_def in_hand_def configs_def config_eq_same)
next
  case (pump_start_unsupported default_config)
  then show ?case
    by (auto simp: watch_start_unsupported_def returned_ok_def close_ok_def may_park_def park_ok_def
        latest_ok_def deliveries_ok_def stop_ok_def in_hand_def configs_def)
next
  case (pump_more s s')
  then show ?case
    using step_returned_ok step_close_ok step_park_ok step_latest_ok step_deliveries_ok step_stop_ok
    by blast
qed

section \<open>Every run\<close>

text \<open>A closed pump between two deliveries: it has called \<open>deliver\<close> and looks at \<open>closed\<close> before it
  would again.\<close>

definition closed_between :: "binding_watch \<Rightarrow> bool" where
  "closed_between s \<longleftrightarrow>
     bw_pump s = None \<or> bw_pump s = Some PumpGone \<or> bw_pump s = Some PumpLeaving
     \<or> bw_closed s \<and> (bw_pump s = Some PumpChecking \<or> bw_pump s = Some PumpReporting)"

lemma between_delivers_nothing:
  "pump_step s s' \<Longrightarrow> closed_between s \<Longrightarrow> bw_out s' = bw_out s \<and> closed_between s'"
  by (induction rule: pump_step.induct) (auto simp: closed_between_def bw_defs)

lemma handled_and_closed:
  "bw_out (pump_handle ev keep True s) \<noteq> bw_out s \<Longrightarrow> closed_between (pump_handle ev keep True s)"
  by (cases ev) (simp_all add: closed_between_def bw_defs split: if_splits)

lemma step_returned: "pump_step s s' \<Longrightarrow> bw_returned s \<Longrightarrow> bw_returned s'"
  by (induction rule: pump_step.induct)
    (auto simp: bw_defs split: option.splits prod.splits watch_event.splits)

text \<open>C25. Once a \<open>close\<close> from another thread has returned (\<open>t = s\<close>), and once \<open>deliver\<close> itself has closed
  the watch, as it was handed a change or an error or after that (the pump then being between two
  deliveries), nothing more is delivered, the report of the stop included, however the run goes on.\<close>

theorem nothing_is_delivered_after_close_returns:
  assumes "pump_run start s"
    "bw_returned s \<and> t = s
     \<or> (\<exists>ev keep. bw_pump s = Some (PumpHandling ev) \<and> t = pump_handle ev keep True s
          \<and> bw_out t \<noteq> bw_out s)
     \<or> (bw_pump s = Some PumpChecking \<or> bw_pump s = Some PumpReporting \<or> bw_pump s = Some PumpLeaving)
       \<and> t = s\<lparr>bw_closed := True\<rparr>"
    "pump_step\<^sup>*\<^sup>* t s'"
  shows "bw_out s' = bw_out t"
proof -
  have "closed_between s" if "bw_returned s"
    using that pump_run_invariants [OF assms(1)] by (auto simp: closed_between_def returned_ok_def)
  moreover have "closed_between (s\<lparr>bw_closed := True\<rparr>)"
    if "bw_pump s = Some PumpChecking \<or> bw_pump s = Some PumpReporting \<or> bw_pump s = Some PumpLeaving"
    using that by (auto simp: closed_between_def)
  ultimately have "closed_between t" using assms(2) handled_and_closed by blast
  with assms(3) have "bw_out s' = bw_out t \<and> closed_between s'"
    by (induction rule: rtranclp_induct) (auto dest: between_delivers_nothing)
  then show ?thesis by blast
qed

text \<open>C24. While the pump sleeps, the caller holds the configuration the watcher has: the last one
  delivered, or the first reading, is equal to it; no delivery repeats the one before, and the
  report that the watch has stopped comes once and last.\<close>

theorem a_sleeping_pump_has_told_everything:
  assumes "pump_run start s"
  shows "(case (bw_pump s, bw_watcher s) of
       (Some PumpParking, Some wt) \<Rightarrow>
         if bw_token s then True
         else config_eq (last (bw_latest start # configs (bw_out s))) (sh_current (wt_shared wt))
     | _ \<Rightarrow> True)
   \<and> successively (\<lambda>a b. \<not> config_eq b a) (bw_latest start # configs (bw_out s))
   \<and> StoppedOnItsOwn \<notin> set (butlast (bw_out s))"
proof -
  note inv = pump_run_invariants [OF assms]
  have "config_eq (last (bw_latest start # configs (bw_out s))) (sh_current (wt_shared wt))"
    if "bw_pump s = Some PumpParking" "bw_watcher s = Some wt" "\<not> bw_token s" for wt
  proof -
    have "wt_parked wt \<noteq> None" "watcher_ok wt"
      and told: "news (wt_shared wt) \<or> config_eq (bw_latest s) (sh_current (wt_shared wt))"
      using inv that by (simp_all add: park_ok_def latest_ok_def in_hand_def)
    then have "\<not> news (wt_shared wt)" by (auto simp: watcher_ok_def Let_def news_def)
    with told inv show ?thesis by (simp add: deliveries_ok_def)
  qed
  moreover have "StoppedOnItsOwn \<notin> set (butlast (bw_out s))"
    using inv in_set_butlastD by (fastforce simp: stop_ok_def)
  ultimately show ?thesis
    using inv by (auto simp: deliveries_ok_def split: option.splits pump_phase.splits)
qed

text \<open>The pump's next step by itself; \<open>keep\<close> and \<open>closes\<close> are what \<open>deliver\<close> does. A pump
  without a token stays parked.\<close>

fun pump_turn :: "bool \<times> bool \<Rightarrow> binding_watch \<Rightarrow> binding_watch" where
  "pump_turn (keep, closes) s =
     (case bw_pump s of
        Some PumpChecking \<Rightarrow> at_phase (if bw_closed s then PumpLeaving else PumpPolling) s
      | Some PumpPolling \<Rightarrow> pump_poll s
      | Some PumpParking \<Rightarrow>
          if bw_token s then (at_phase PumpChecking s)\<lparr>bw_token := False\<rparr> else s
      | Some (PumpHandling ev) \<Rightarrow> pump_handle ev keep closes s
      | Some PumpReporting \<Rightarrow> pump_report closes s
      | Some PumpLeaving \<Rightarrow> (at_phase PumpGone s)\<lparr>bw_watcher := None\<rparr>
      | _ \<Rightarrow> s)"

lemma pump_turn_is_step: "pump_turn a s = s \<or> pump_step s (pump_turn a s)"
  using bw_check [of s]
  by (cases a)
    (auto split: option.splits pump_phase.splits if_splits
      intro: bw_poll bw_unparked bw_handle bw_report bw_leave)

lemma turns_are_steps: "pump_step\<^sup>*\<^sup>* s (fold pump_turn answers s)"
proof (induction answers arbitrary: s)
  case (Cons a answers)
  from pump_turn_is_step [of a s] have "pump_step\<^sup>*\<^sup>* s (pump_turn a s)" by auto
  with Cons [of "pump_turn a s"] show ?case by (simp del: pump_turn.simps)
qed simp

lemma steps_run: "pump_step\<^sup>*\<^sup>* s s' \<Longrightarrow> pump_run start s \<Longrightarrow> pump_run start s'"
  by (induction rule: rtranclp_induct) (auto intro: pump_more)

lemmas turns_run = steps_run [OF turns_are_steps]

text \<open>How far a pump that finds the watch closed is from its end.\<close>

fun pump_distance :: "pump_phase \<Rightarrow> nat" where
  "pump_distance PumpGone = 0"
| "pump_distance PumpLeaving = 1"
| "pump_distance PumpReporting = 2"
| "pump_distance PumpChecking = 2"
| "pump_distance (PumpHandling ev) = 3"
| "pump_distance PumpParking = 3"
| "pump_distance PumpPolling = 4"

definition ending :: "nat \<Rightarrow> binding_watch \<Rightarrow> bool" where
  "ending n s \<longleftrightarrow>
     bw_closed s \<and> (may_park s \<longrightarrow> bw_token s)
     \<and> (case bw_pump s of None \<Rightarrow> False | Some ph \<Rightarrow> pump_distance ph \<le> n)"

lemma ending_turn: "ending (Suc n) s \<Longrightarrow> ending n (pump_turn a s)"
  by (cases a)
    (auto simp: ending_def may_park_def bw_defs
      split: option.splits pump_phase.splits prod.splits poll.splits watch_event.splits if_splits)

lemma ending_gone: "ending 0 s \<Longrightarrow> bw_pump s = Some PumpGone"
  by (auto simp: ending_def split: option.splits elim: pump_distance.elims)

lemma ending_turns: "ending (length answers) s \<Longrightarrow> bw_pump (fold pump_turn answers s) = Some PumpGone"
  by (induction answers arbitrary: s) (simp_all add: ending_gone ending_turn)

text \<open>C26. No \<open>close\<close> hangs: in every run, while a \<open>close\<close> waits for the pump, or once the watch is
  closed and no call that closed it is still on its way to unpark, the pump reaches its end in at
  most four steps of its own, whatever it was doing and whatever \<open>deliver\<close> answers.\<close>

theorem a_closed_pump_ends:
  assumes "pump_run start s" "bw_pump s \<noteq> None" "length answers = 4"
    "0 < bw_joining s \<or> bw_closed s \<and> bw_closing s = 0 \<and> bw_background s = 0"
  shows "bw_pump (fold pump_turn answers s) = Some PumpGone
    \<and> pump_step\<^sup>*\<^sup>* s (fold pump_turn answers s)"
proof
  obtain ph where ph: "bw_pump s = Some ph" using assms(2) by auto
  have "pump_distance ph \<le> 4" by (cases ph) auto
  with ph assms(4) pump_run_invariants [OF assms(1)] have "ending 4 s"
    by (auto simp: ending_def close_ok_def)
  with assms(3) show "bw_pump (fold pump_turn answers s) = Some PumpGone"
    by (simp add: ending_turns)
  show "pump_step\<^sup>*\<^sup>* s (fold pump_turn answers s)" by (rule turns_are_steps)
qed

section \<open>One run\<close>

text \<open>A change is told, the watch is closed while the pump sleeps, and the \<open>close\<close> returns.\<close>

definition sample_start :: binding_watch where
  "sample_start = watch_start sample_reported"

definition sample_asleep :: binding_watch where
  "sample_asleep = fold pump_turn (replicate 2 (True, False)) sample_start"

definition sample_changed :: binding_watch where
  "sample_changed =
     (case bw_watcher sample_asleep of
        None \<Rightarrow> sample_asleep
      | Some wt \<Rightarrow> sample_asleep\<lparr>bw_watcher := Some (backend (emit sample_change) wt),
          bw_token := bw_token sample_asleep
            \<or> woken_by_backend wt (backend (emit sample_change) wt)\<rparr>)"

definition sample_told :: binding_watch where
  "sample_told = fold pump_turn (replicate 6 (True, False)) sample_changed"

definition sample_joining :: binding_watch where
  "sample_joining = sample_told\<lparr>bw_closed := True, bw_closing := 0, bw_joining := 1, bw_token := True\<rparr>"

definition sample_ended :: binding_watch where
  "sample_ended = fold pump_turn (replicate 4 (False, True)) sample_joining"

definition sample_returned :: binding_watch where
  "sample_returned = sample_ended\<lparr>bw_joining := 0, bw_watcher := None, bw_returned := True\<rparr>"

lemma sample_phases:
  "bw_watcher sample_asleep \<noteq> None" "bw_pump sample_told = Some PumpParking"
  "\<not> bw_token sample_told" "bw_closing sample_told = 0" "bw_joining sample_told = 0"
  "\<not> bw_returned sample_told" "wt_parked sample_reported = None"
  "construction (wt_shared sample_reported) \<noteq> None"
  "bw_pump sample_ended = Some PumpGone" "bw_joining sample_ended = 1"
  by code_simp+

lemma sample_run_changed: "pump_run sample_start sample_changed"
proof -
  have "pump_run sample_start sample_start"
    by (rule pump_start [OF sample_run_reported sample_phases(8,7) sample_start_def])
  then have "pump_run sample_start sample_asleep" unfolding sample_asleep_def by (rule turns_run)
  moreover have "pump_step sample_asleep sample_changed"
    using sample_phases(1) bw_backend [OF _ backend_call.intros(1)]
    by (auto simp: sample_changed_def)
  ultimately show ?thesis by (rule pump_more)
qed

lemma sample_run_told: "pump_run sample_start sample_told"
  unfolding sample_told_def by (rule turns_run [OF sample_run_changed])

lemma sample_run_joining: "pump_run sample_start sample_joining"
proof -
  let ?closing = "sample_told\<lparr>bw_closed := True, bw_closing := 1\<rparr>"
  have "pump_step sample_told ?closing"
    using bw_close [of sample_told] sample_phases(4) by simp
  moreover have "pump_step ?closing sample_joining"
    using bw_close_unparks [of ?closing] sample_phases(2-6)
    by (simp add: handle_left_def sample_joining_def)
  ultimately show ?thesis by (blast intro: pump_more sample_run_told)
qed

lemma sample_run_returned: "pump_run sample_start sample_returned"
proof -
  have "pump_run sample_start sample_ended"
    unfolding sample_ended_def by (rule turns_run [OF sample_run_joining])
  moreover have "pump_step sample_ended sample_returned"
    using bw_close_returns [of sample_ended] sample_phases(9,10) by (simp add: sample_returned_def)
  ultimately show ?thesis by (rule pump_more)
qed

text \<open>The pump has the change in hand, and \<open>deliver\<close> closes the watch as it is told.\<close>

definition sample_in_hand :: binding_watch where
  "sample_in_hand = fold pump_turn (replicate 3 (True, False)) sample_changed"

definition sample_closed_inside :: binding_watch where
  "sample_closed_inside = pump_turn (True, True) sample_in_hand"

lemma sample_run_in_hand: "pump_run sample_start sample_in_hand"
  unfolding sample_in_hand_def by (rule turns_run [OF sample_run_changed])

theorem nothing_is_delivered_after_close_returns_witness:
  "bw_out (sample_returned\<lparr>bw_closed := True, bw_closing := 1\<rparr>) = [Changed sample_change]
   \<and> bw_out (fold pump_turn (replicate 4 (True, False)) sample_closed_inside) = [Changed sample_change]"
proof
  have now: "bw_closing sample_returned = 0" "bw_returned sample_returned"
    "bw_out sample_returned = [Changed sample_change]" by code_simp+
  have "pump_step sample_returned (sample_returned\<lparr>bw_closed := True, bw_closing := 1\<rparr>)"
    using bw_close [of sample_returned] by (simp only: now add_0)
  then have "pump_step\<^sup>*\<^sup>* sample_returned
      (sample_returned\<lparr>bw_closed := True, bw_closing := 1\<rparr>)" by (rule r_into_rtranclp)
  from nothing_is_delivered_after_close_returns [OF sample_run_returned _ this] now(2,3)
  show "bw_out (sample_returned\<lparr>bw_closed := True, bw_closing := 1\<rparr>) = [Changed sample_change]" by simp
  have hand: "bw_out sample_in_hand = []" "bw_out sample_closed_inside = [Changed sample_change]"
    "(case bw_pump sample_in_hand of Some (PumpHandling _) \<Rightarrow> True | _ \<Rightarrow> False)"
    by code_simp+
  then obtain ev where ev: "bw_pump sample_in_hand = Some (PumpHandling ev)"
    by (auto split: option.splits pump_phase.splits)
  then have "sample_closed_inside = pump_handle ev True True sample_in_hand"
    by (simp add: sample_closed_inside_def)
  with nothing_is_delivered_after_close_returns
      [OF sample_run_in_hand, of sample_closed_inside "fold pump_turn (replicate 4 (True, False)) sample_closed_inside"]
    ev hand turns_are_steps [of sample_closed_inside "replicate 4 (True, False)"]
  show "bw_out (fold pump_turn (replicate 4 (True, False)) sample_closed_inside) = [Changed sample_change]"
    by (metis not_Cons_self2)
qed

theorem a_sleeping_pump_has_told_everything_witness:
  "config_eq (last (sample_config # configs (bw_out sample_told))) sample_change"
proof -
  have "bw_latest sample_start = sample_config"
    "map_option (\<lambda>wt. sh_current (wt_shared wt)) (bw_watcher sample_told) = Some sample_change"
    by code_simp+
  then show ?thesis
    using a_sleeping_pump_has_told_everything [OF sample_run_told] sample_phases(2,3) by auto
qed

theorem a_closed_pump_ends_witness: "bw_pump sample_ended = Some PumpGone"
proof -
  have "0 < bw_joining sample_joining" "bw_pump sample_joining \<noteq> None" by code_simp+
  then show ?thesis
    using a_closed_pump_ends [OF sample_run_joining, of "replicate 4 (False, True)"]
    by (simp only: sample_ended_def length_replicate simp_thms)
qed

end
