(* ===== verification/Proxy_Watcher.thy ===== *)
theory Proxy_Watcher
  imports Log_Render Loop_Facts
begin

text \<open>
  \<open>src/watch.rs\<close> (\<open>read\<close>, \<open>ProxyWatcher\<close> and its construction) and \<open>src/sys/mod.rs\<close>: the
  contract every backend keeps, as a record of functions over a machine whose state is handed from
  call to call, and the one constructor over it. \<open>Platforms\<close> holds the backends in that shape.
\<close>

section \<open>Options and environment\<close>

definition with_debounce :: "nat \<Rightarrow> watch_options \<Rightarrow> watch_options" where
  "with_debounce d options = options\<lparr>debounce := d\<rparr>"

definition with_group_policy :: "bool \<Rightarrow> watch_options \<Rightarrow> watch_options" where
  "with_group_policy on options = options\<lparr>watch_group_policy := on\<rparr>"

definition with_poll_interval :: "nat option \<Rightarrow> watch_options \<Rightarrow> watch_options" where
  "with_poll_interval i options = options\<lparr>opt_poll_interval := i\<rparr>"

text \<open>\<open>Env::capture\<close> of Linux: of a name given twice the first value stays.\<close>

definition or_insert :: "string \<times> string \<Rightarrow> os_env \<Rightarrow> os_env" where
  "or_insert kv env = (if env (fst kv) = None then env(fst kv \<mapsto> snd kv) else env)"

definition env_capture :: "(string \<times> string) list \<Rightarrow> os_env" where
  "env_capture vars = fold or_insert vars Map.empty"

definition env_var_os :: "os_env \<Rightarrow> string \<Rightarrow> string option" where
  "env_var_os env name = env name"

text \<open>The copy elsewhere is empty.\<close>

definition no_env :: "(string \<times> string) list \<Rightarrow> os_env" where
  "no_env vars = Map.empty"

section \<open>The contract of a backend\<close>

text \<open>Each call is given the machine as it finds it and leaves it for the next. \<open>'w\<close> is a watch
  that is armed, \<open>'v\<close> one whose thread was started over a first reading.\<close>

record ('m, 'w, 'v) sys_backend =
  sb_capture :: "(string \<times> string) list \<Rightarrow> os_env"
  sb_read :: "watch_options \<Rightarrow> os_env \<Rightarrow> 'm \<Rightarrow> (proxy_error + proxy_config) \<times> 'm"
  sb_armed :: "watch_options \<Rightarrow> os_env \<Rightarrow> 'm \<Rightarrow> (proxy_error + 'w) \<times> 'm"
  sb_spawn :: "watch_options \<Rightarrow> 'w \<Rightarrow> proxy_config \<Rightarrow> 'm \<Rightarrow> (proxy_error + 'v) \<times> 'm"
  sb_health :: "'v \<Rightarrow> backend_health"
  sb_poll_now :: "'v \<Rightarrow> 'v"

section \<open>Log lines\<close>

definition shown_bool :: "bool \<Rightarrow> string" where
  "shown_bool b = (if b then ''true'' else ''false'')"

definition log_reading :: "watch_options \<Rightarrow> log_line" where
  "log_reading options =
     (''reading the system proxy configuration once'',
      [(''group_policy'', shown_bool (watch_group_policy options))])"

definition log_read :: "external \<Rightarrow> (url \<Rightarrow> url_view) \<Rightarrow> proxy_config \<Rightarrow> log_line" where
  "log_read E view c =
     (''read the system proxy configuration'', [(''config'', config_summary E view c)])"

definition log_starting :: "watch_options \<Rightarrow> log_line" where
  "log_starting options =
     (''starting a proxy watcher'',
      [(''debounce'', debug_duration (debounce options)),
       (''group_policy'', shown_bool (watch_group_policy options)),
       (''poll_interval'', debug_option debug_duration (opt_poll_interval options))])"

text \<open>\<open>report_discarded\<close>, of what \<open>trim_to_capacity\<close> answered.\<close>

definition discarded_by_trim :: "shared \<Rightarrow> nat option" where
  "discarded_by_trim sh =
     (if length (sh_queue sh) \<le> MAX_QUEUED_CHANGES then None
      else Some (sh_dropped (trim_to_capacity sh)))"

definition report_discarded :: "nat option \<Rightarrow> log_line list" where
  "report_discarded discarded =
     (case discarded of
        None \<Rightarrow> []
      | Some n \<Rightarrow>
          if n = 1 then
            [(''the change queue is full, so the oldest undelivered failure was discarded; ''
               @ ''the subscriber is not draining the stream. `ProxyWatcher::current` stays ''
               @ ''accurate; what is being lost is the record of individual read failures'',
              [(''capacity'', show_nat MAX_QUEUED_CHANGES)])]
          else
            [(''the change queue is still full; discarding the oldest undelivered failure'',
              [(''discarded'', show_nat n), (''capacity'', show_nat MAX_QUEUED_CHANGES)])])"

section \<open>One read\<close>

definition read_logged ::
    "external \<Rightarrow> (url \<Rightarrow> url_view) \<Rightarrow> ('m, 'w, 'v) sys_backend \<Rightarrow> watch_options \<Rightarrow> os_env \<Rightarrow> 'm
       \<Rightarrow> log_line list \<times> (proxy_error + proxy_config) \<times> 'm" where
  "read_logged E view B options env m =
     (let (r, m1) = sb_read B options env m
      in (log_reading options # (case r of Inl _ \<Rightarrow> [] | Inr c \<Rightarrow> [log_read E view c]), r, m1))"

definition read_with_options ::
    "external \<Rightarrow> (url \<Rightarrow> url_view) \<Rightarrow> ('m, 'w, 'v) sys_backend \<Rightarrow> watch_options
       \<Rightarrow> (string \<times> string) list \<Rightarrow> 'm \<Rightarrow> log_line list \<times> (proxy_error + proxy_config) \<times> 'm" where
  "read_with_options E view B options vars m = read_logged E view B options (sb_capture B vars) m"

definition read ::
    "external \<Rightarrow> (url \<Rightarrow> url_view) \<Rightarrow> ('m, 'w, 'v) sys_backend \<Rightarrow> (string \<times> string) list \<Rightarrow> 'm
       \<Rightarrow> log_line list \<times> (proxy_error + proxy_config) \<times> 'm" where
  "read E view B vars m = read_with_options E view B watch_options_new vars m"

definition read_in ::
    "external \<Rightarrow> (url \<Rightarrow> url_view) \<Rightarrow> ('m, 'w, 'v) sys_backend \<Rightarrow> os_env \<Rightarrow> 'm
       \<Rightarrow> log_line list \<times> (proxy_error + proxy_config) \<times> 'm" where
  "read_in E view B env m = read_logged E view B watch_options_new env m"

section \<open>A watcher\<close>

text \<open>What the thread may do to the shared state before the constructor has filed the health of
  the routes.\<close>

datatype shared_op =
  OpEmit proxy_config | OpFail proxy_error | OpDegrade config_source | OpNoLive | OpClose

fun shared_op_on :: "shared_op \<Rightarrow> shared \<Rightarrow> shared \<times> nat option" where
  "shared_op_on (OpEmit c) = emit c"
| "shared_op_on (OpFail e) = fail e"
| "shared_op_on (OpDegrade source) = degrade source"
| "shared_op_on OpNoLive = mark_no_live_notifications"
| "shared_op_on OpClose = close"

definition construction_health :: "watch_options \<Rightarrow> backend_health \<Rightarrow> watch_health" where
  "construction_health options bh =
     \<lparr> degraded = bh_degraded bh, has_live_notifications = bh_live bh,
       poll_interval = opt_poll_interval options, stopped = False \<rparr>"

text \<open>\<open>start\<close>. \<open>acts\<close> are the calls the thread makes between \<open>spawn\<close> and the filing of the health,
  \<open>moved\<close> what it does to the watch by the time the health is asked for.\<close>

definition watcher_start ::
    "external \<Rightarrow> (url \<Rightarrow> url_view) \<Rightarrow> ('m, 'w, 'v) sys_backend \<Rightarrow> shared_op list \<Rightarrow> ('v \<Rightarrow> 'v)
       \<Rightarrow> watch_options \<Rightarrow> os_env \<Rightarrow> 'm
       \<Rightarrow> log_line list \<times> (proxy_error + 'v \<times> watcher) \<times> 'm" where
  "watcher_start E view B acts moved options env m =
     (case sb_armed B options env m of
        (Inl e, m1) \<Rightarrow> ([log_starting options], Inl e, m1)
      | (Inr w, m1) \<Rightarrow>
     (case sb_read B options env m1 of
        (Inl e, m2) \<Rightarrow> ([log_starting options], Inl e, m2)
      | (Inr initial, m2) \<Rightarrow>
     (case sb_spawn B options w initial m2 of
        (Inl e, m3) \<Rightarrow> ([log_starting options, log_initial E view initial], Inl e, m3)
      | (Inr v, m3) \<Rightarrow>
          (let wt = fold (\<lambda>a. backend (shared_op_on a)) acts (watcher_new initial);
               h = construction_health options (sb_health B (moved v))
           in ([log_starting options, log_initial E view initial],
               Inr (moved v, wt\<lparr>wt_shared := set_construction_health h (wt_shared wt)\<rparr>), m3)))))"

definition watcher_with_options ::
    "external \<Rightarrow> (url \<Rightarrow> url_view) \<Rightarrow> ('m, 'w, 'v) sys_backend \<Rightarrow> shared_op list \<Rightarrow> ('v \<Rightarrow> 'v)
       \<Rightarrow> watch_options \<Rightarrow> (string \<times> string) list \<Rightarrow> 'm
       \<Rightarrow> log_line list \<times> (proxy_error + 'v \<times> watcher) \<times> 'm" where
  "watcher_with_options E view B acts moved options vars m =
     watcher_start E view B acts moved options (sb_capture B vars) m"

definition proxy_watcher_new ::
    "external \<Rightarrow> (url \<Rightarrow> url_view) \<Rightarrow> ('m, 'w, 'v) sys_backend \<Rightarrow> shared_op list \<Rightarrow> ('v \<Rightarrow> 'v)
       \<Rightarrow> (string \<times> string) list \<Rightarrow> 'm \<Rightarrow> log_line list \<times> (proxy_error + 'v \<times> watcher) \<times> 'm" where
  "proxy_watcher_new E view B acts moved vars m =
     watcher_with_options E view B acts moved watch_options_new vars m"

definition watcher_current :: "watcher \<Rightarrow> proxy_config" where
  "watcher_current wt = sh_current (wt_shared wt)"

definition watcher_health :: "watcher \<Rightarrow> watch_health" where
  "watcher_health wt = merged_health (wt_shared wt)"

definition watcher_state :: "watcher \<Rightarrow> watch_state" where
  "watcher_state wt = stamp (wt_shared wt)"

definition watcher_poll_now :: "('m, 'w, 'v) sys_backend \<Rightarrow> 'v \<times> watcher \<Rightarrow> 'v \<times> watcher" where
  "watcher_poll_now B started = (sb_poll_now B (fst started), snd started)"

section \<open>Facts\<close>

lemma env_capture_keeps: "fold or_insert vars env k = (case env k of None \<Rightarrow> map_of vars k | v \<Rightarrow> v)"
  by (induction vars arbitrary: env) (auto simp: or_insert_def split: option.splits)

lemma env_capture_is_map_of: "env_capture = map_of"
  by (auto simp: env_capture_def fun_eq_iff env_capture_keeps)

lemma shared_op_is_a_step: "watch_step wt (backend (shared_op_on a) wt)"
  by (cases a) (auto intro: watch_step.intros)

lemma shared_ops_run:
  "watch_run initial wt \<Longrightarrow> watch_run initial (fold (\<lambda>a. backend (shared_op_on a)) acts wt)"
  by (induction acts arbitrary: wt) (auto intro: run_step shared_op_is_a_step)

lemma construction_untouched [simp]:
  "construction (fst (shared_op_on a sh)) = construction sh"
  by (cases a) (simp_all add: emit_def fail_def degrade_def mark_no_live_notifications_def close_def
      take_waker_def trim_to_capacity_def Let_def split: option.splits)

lemma construction_after [simp]:
  "construction (wt_shared (fold (\<lambda>a. backend (shared_op_on a)) acts wt)) = construction (wt_shared wt)"
  by (induction acts arbitrary: wt) simp_all

lemma watcher_start_Inr:
  assumes "watcher_start E view B acts moved options env m = (ls, Inr (v, wt), m')"
  obtains w m1 initial m2 v0 where
    "sb_armed B options env m = (Inr w, m1)" "sb_read B options env m1 = (Inr initial, m2)"
    "sb_spawn B options w initial m2 = (Inr v0, m')" "v = moved v0"
    "watch_run initial wt"
    "construction (wt_shared wt) = Some (construction_health options (sb_health B v))"
    "ls = [log_starting options, log_initial E view initial]"
proof -
  let ?wt = "\<lambda>initial. fold (\<lambda>a. backend (shared_op_on a)) acts (watcher_new initial)"
  obtain w m1 initial m2 v0 where parts:
    "sb_armed B options env m = (Inr w, m1)" "sb_read B options env m1 = (Inr initial, m2)"
    "sb_spawn B options w initial m2 = (Inr v0, m')" "v = moved v0"
    "wt = (?wt initial)\<lparr>wt_shared := set_construction_health
        (construction_health options (sb_health B (moved v0))) (wt_shared (?wt initial))\<rparr>"
    "ls = [log_starting options, log_initial E view initial]"
    using assms by (auto simp: watcher_start_def Let_def split: prod.splits sum.splits)
  have none: "construction (wt_shared (?wt initial)) = None"
    by (simp add: watcher_new_def shared_new_def)
  then have "watch_step (?wt initial) wt" unfolding parts(5) by (rule step_construct)
  then have "watch_run initial wt" using shared_ops_run [OF run_start] by (rule run_step [rotated])
  with parts none show thesis by (intro that) (simp_all add: set_construction_health_def)
qed

end
