(* ===== verification/Platforms.thy ===== *)
theory Platforms
  imports Proxy_Watcher
begin

text \<open>
  The backends of \<open>src/sys/\<close> in the shape of the contract: the one that supports nothing
  (\<open>stub.rs\<close>), Windows, macOS, Linux and iOS. A machine is a history, the state each call finds in
  turn; what a backend asks of the operating system is a field of that state. Each \<open>spawn\<close> ends in
  the start of the thread its loop describes, so what is proved of the loop holds of every watcher
  the constructor hands out.
\<close>

section \<open>The machine, call by call\<close>

type_synonym 'x history = "nat \<times> (nat \<Rightarrow> 'x)"

definition look :: "('x \<Rightarrow> 'a) \<Rightarrow> 'x history \<Rightarrow> 'a \<times> 'x history" where
  "look f h = (f (snd h (fst h)), Suc (fst h), snd h)"

text \<open>A thread is started unless the operating system refuses it.\<close>

definition thread_start :: "string \<Rightarrow> string option \<Rightarrow> 'a \<Rightarrow> proxy_error + 'a" where
  "thread_start what refusal started =
     (case refusal of None \<Rightarrow> Inr started | Some source \<Rightarrow> Inl (error_io what source))"

section \<open>Nothing is supported\<close>

definition stub_read_config :: "watch_options \<Rightarrow> proxy_error + proxy_config" where
  "stub_read_config options = Inl Unsupported"

definition stub_armed :: "watch_options \<Rightarrow> proxy_error + unit" where
  "stub_armed options = Inl Unsupported"

definition stub_spawn :: "watch_options \<Rightarrow> proxy_error + unit" where
  "stub_spawn options = Inl Unsupported"

definition stub_health :: "unit \<Rightarrow> backend_health" where
  "stub_health w = \<lparr> bh_degraded = [], bh_live = False \<rparr>"

definition stub_poll_now :: "unit \<Rightarrow> unit" where
  "stub_poll_now w = w"

definition stub_backend :: "(unit history, unit, unit) sys_backend" where
  "stub_backend =
     \<lparr> sb_capture = no_env,
       sb_read = (\<lambda>options _. look (\<lambda>_. stub_read_config options)),
       sb_armed = (\<lambda>options _. look (\<lambda>_. stub_armed options)),
       sb_spawn = (\<lambda>options _ _. look (\<lambda>_. stub_spawn options)),
       sb_health = stub_health, sb_poll_now = stub_poll_now \<rparr>"

section \<open>Windows\<close>

record win_world =
  ww_shutdown_event :: "proxy_error option"
  ww_poll_now_event :: "proxy_error option"
  ww_user_key :: key_opening
  ww_machine_keys :: "string \<Rightarrow> key_opening"
  ww_settings :: win_machine
  ww_time :: nat
  ww_thread :: "string option"

definition win_armed_in ::
    "(proxy_error \<Rightarrow> string) \<Rightarrow> string \<Rightarrow> watch_options \<Rightarrow> win_world \<Rightarrow> proxy_error + win_armed" where
  "win_armed_in shown not_found options x =
     (case ww_shutdown_event x of Some e \<Rightarrow> Inl e | None \<Rightarrow>
     (case ww_poll_now_event x of Some e \<Rightarrow> Inl e | None \<Rightarrow>
        armed_watch shown not_found options (ww_user_key x) (ww_machine_keys x)))"

definition win_spawn ::
    "watch_options \<Rightarrow> win_armed \<Rightarrow> proxy_config \<Rightarrow> win_world \<Rightarrow> proxy_error + win_armed \<times> win_loop" where
  "win_spawn options w initial x =
     thread_start ''spawning the proxy-watch registry thread'' (ww_thread x)
       (w, win_start (opt_poll_interval options) (wa_keys w) initial)"

definition win_request :: "win_loop \<Rightarrow> win_loop" where
  "win_request s = s\<lparr>wl_poll_now := True, wl_missed := False\<rparr>"

definition win_stop :: "win_loop \<Rightarrow> win_loop" where
  "win_stop s = s\<lparr>wl_shutdown := True\<rparr>"

definition win_backend ::
    "external \<Rightarrow> (proxy_error \<Rightarrow> string) \<Rightarrow> string
       \<Rightarrow> (win_world history, win_armed, win_armed \<times> win_loop) sys_backend" where
  "win_backend E shown not_found =
     \<lparr> sb_capture = no_env,
       sb_read = (\<lambda>options _. look (\<lambda>x.
         win_read_config E (watch_group_policy options) (ww_time x) (ww_settings x))),
       sb_armed = (\<lambda>options _. look (win_armed_in shown not_found options)),
       sb_spawn = (\<lambda>options w initial. look (win_spawn options w initial)),
       sb_health = (\<lambda>(w, _). win_health w),
       sb_poll_now = map_prod id win_request \<rparr>"

section \<open>macOS\<close>

text \<open>\<open>mw_ready\<close>: the thread reports whether it could register, and does not when it panics first.\<close>

record mac_world =
  mw_wake_source :: bool
  mw_session :: "nat \<Rightarrow> bool"
  mw_store :: "string \<Rightarrow> cf_copied"
  mw_time :: nat
  mw_thread :: "string option"
  mw_ready :: bool
  mw_register :: "nat \<Rightarrow> register_outcome"

definition wake_source_new :: "mac_world \<Rightarrow> proxy_error + unit" where
  "wake_source_new x =
     (if mw_wake_source x then Inr ()
      else Inl (error_io ''creating the proxy-watch wake-up run loop source''
             ''CFRunLoopSourceCreate returned NULL''))"

definition mac_read_now :: "external \<Rightarrow> (int \<Rightarrow> string) \<Rightarrow> mac_world \<Rightarrow> answer" where
  "mac_read_now E status_text x = mac_read_config E status_text (mw_time x) (mw_session x) (mw_store x)"

definition mac_spawn ::
    "external \<Rightarrow> (int \<Rightarrow> string) \<Rightarrow> (proxy_error \<Rightarrow> string) \<Rightarrow> watch_options \<Rightarrow> proxy_config \<Rightarrow> mac_world
       \<Rightarrow> proxy_error + bool \<times> mac_loop" where
  "mac_spawn E status_text shown options initial x =
     (case thread_start ''spawning the proxy-watch SCDynamicStore thread'' (mw_thread x) () of
        Inl e \<Rightarrow> Inl e
      | Inr _ \<Rightarrow>
          if \<not> mw_ready x then
            Inl (error_io ''starting the proxy-watch SCDynamicStore thread''
              ''the watcher thread exited before it became ready'')
          else
            (case mac_register shown (opt_poll_interval options) (mw_register x) of
               Inl e \<Rightarrow> Inl e
             | Inr is_degraded \<Rightarrow>
                 Inr (is_degraded,
                   mac_start (opt_poll_interval options) is_degraded initial
                     (mac_read_now E status_text x))))"

text \<open>\<open>poll_now\<close>: the flag is stored, then the source signalled and the run loop woken. \<open>Drop\<close> does
  the same with the other flag.\<close>

definition mac_signal_wake :: "mac_loop \<Rightarrow> mac_loop" where
  "mac_signal_wake s = s\<lparr>ml_ringing := ml_ringing s - 1, ml_signalled := True\<rparr>"

definition mac_poll_now :: "mac_loop \<Rightarrow> mac_loop" where
  "mac_poll_now s =
     mac_signal_wake (s\<lparr>ml_requested := True, ml_missed := False, ml_ringing := ml_ringing s + 1\<rparr>)"

definition mac_stop :: "mac_loop \<Rightarrow> mac_loop" where
  "mac_stop s = mac_signal_wake (s\<lparr>ml_stop := True, ml_ringing := ml_ringing s + 1\<rparr>)"

definition mac_backend ::
    "external \<Rightarrow> (int \<Rightarrow> string) \<Rightarrow> (proxy_error \<Rightarrow> string)
       \<Rightarrow> (mac_world history, unit, bool \<times> mac_loop) sys_backend" where
  "mac_backend E status_text shown =
     \<lparr> sb_capture = no_env,
       sb_read = (\<lambda>options _. look (mac_read_now E status_text)),
       sb_armed = (\<lambda>options _. look wake_source_new),
       sb_spawn = (\<lambda>options _ initial. look (mac_spawn E status_text shown options initial)),
       sb_health = (\<lambda>(is_degraded, _). mac_health is_degraded),
       sb_poll_now = map_prod id mac_poll_now \<rparr>"

section \<open>Linux\<close>

text \<open>What is asked of the operating system besides the environment, which was copied before.\<close>

record linux_world =
  lw_files :: "string \<Rightarrow> file_read"
  lw_ini_refusal :: "string \<Rightarrow> string option"
  lw_gnome :: "gio_schema option"
  lw_portal :: portal_io
  lw_time :: nat
  lw_is_dir :: "string \<Rightarrow> bool"
  lw_inotify :: "proxy_error + unit"
  lw_directory :: "string \<Rightarrow> proxy_error + unit"
  lw_subscription :: "proxy_error + unit option"
  lw_poll_thread :: "string option"
  lw_thread :: "string option"

definition linux_read_now :: "external \<Rightarrow> linux_build \<Rightarrow> os_env \<Rightarrow> linux_world \<Rightarrow> answer" where
  "linux_read_now E b env x =
     read_config_in E b (lw_time x)
       \<lparr> lm_env = env, lm_files = lw_files x, lm_ini_refusal = lw_ini_refusal x,
         lm_gnome = lw_gnome x, lm_portal = lw_portal x \<rparr>"

record linux_armed =
  la_routes :: linux_routes
  la_desktop :: desktop
  la_env :: os_env

definition linux_armed_in ::
    "(proxy_error \<Rightarrow> string) \<Rightarrow> linux_build \<Rightarrow> watch_options \<Rightarrow> os_env \<Rightarrow> linux_world
       \<Rightarrow> proxy_error + linux_armed" where
  "linux_armed_in shown b options env x =
     (let d = current_desktop env; sb = detect_sandbox env (lw_files x) in
      map_sum id (\<lambda>r. \<lparr> la_routes = r, la_desktop = d, la_env = env \<rparr>)
        (linux_arm shown b sb d (opt_poll_interval options)
          (kde_watch_start (lw_is_dir x) (lw_inotify x) (lw_directory x) (config_search_dirs env))))"

text \<open>\<open>Poll::start\<close>.\<close>

definition poll_start :: "watch_options \<Rightarrow> linux_world \<Rightarrow> proxy_error + nat option" where
  "poll_start options x =
     (case opt_poll_interval options of
        None \<Rightarrow> Inr None
      | Some requested \<Rightarrow>
          thread_start ''spawning the proxy-watch polling thread'' (lw_poll_thread x)
            (Some (linux_poll_wait requested)))"

text \<open>The clones of the trigger: the watch's own, and one in each source that is up.\<close>

definition trigger_clones :: "linux_routes \<Rightarrow> nat option \<Rightarrow> nat" where
  "trigger_clones r poll =
     1 + (if gnome_is_live r then 1 else 0)
       + (case lr_kde r of Some (RouteLive _) \<Rightarrow> 1 | _ \<Rightarrow> 0)
       + (if poll \<noteq> None then 1 else 0)"

text \<open>Where no subscription came up, what happened since the KDE watch was armed is queued there,
  which the loop counts as changes to come: its thread starts from the settings that were read.\<close>

definition linux_spawn_in ::
    "external \<Rightarrow> (proxy_error \<Rightarrow> string) \<Rightarrow> linux_build \<Rightarrow> watch_options \<Rightarrow> linux_armed \<Rightarrow> proxy_config
       \<Rightarrow> linux_world \<Rightarrow> proxy_error + linux_routes \<times> linux_loop" where
  "linux_spawn_in E shown b options w initial x =
     (case linux_subscribe shown b (la_desktop w) (opt_poll_interval options) (lw_subscription x)
             (la_routes w) of
        Inl e \<Rightarrow> Inl e
      | Inr r \<Rightarrow>
     (case poll_start options x of
        Inl e \<Rightarrow> Inl e
      | Inr poll \<Rightarrow>
          thread_start ''spawning the proxy-watch Linux thread'' (lw_thread x)
            (r, linux_spawn poll r
                  (if gnome_is_live r then linux_read_now E b (la_env w) x else Inr initial)
                  (trigger_clones r poll) initial)))"

definition linux_backend ::
    "external \<Rightarrow> (proxy_error \<Rightarrow> string) \<Rightarrow> linux_build
       \<Rightarrow> (linux_world history, linux_armed, linux_routes \<times> linux_loop) sys_backend" where
  "linux_backend E shown b =
     \<lparr> sb_capture = env_capture,
       sb_read = (\<lambda>_ env. look (linux_read_now E b env)),
       sb_armed = (\<lambda>options env. look (linux_armed_in shown b options env)),
       sb_spawn = (\<lambda>options w initial. look (linux_spawn_in E shown b options w initial)),
       sb_health = (\<lambda>(r, s). linux_health r (lx_flags s)),
       sb_poll_now = map_prod id linux_poll_now \<rparr>"

text \<open>\<open>Drop\<close>: the sources, then the trigger; each gives its clone back.\<close>

definition drop_clone :: "linux_loop \<Rightarrow> linux_loop" where
  "drop_clone s = s\<lparr>lx_senders := lx_senders s - 1\<rparr>"

definition linux_stop :: "linux_routes \<Rightarrow> linux_loop \<Rightarrow> linux_loop" where
  "linux_stop r s = (drop_clone ^^ trigger_clones r (lx_interval s)) s"

text \<open>\<open>LossReport::check\<close> in one go: what the coordinator does to its report and the watcher before
  a read.\<close>

definition loss_check :: "loss_flags \<Rightarrow> loss_report \<times> watcher \<Rightarrow> loss_report \<times> watcher" where
  "loss_check flags = (\<lambda>(lp, wt).
     if \<not> lp_watching lp \<or> \<not> lf_lost flags then (lp, wt)
     else
       (let (lp1, wt1) =
              (if lp_degraded lp then (lp, wt)
               else (lp\<lparr>lp_degraded := True\<rparr>, backend (degrade KioslavercSource) wt))
        in if 0 < lf_live flags then (lp1, wt1)
           else (lp1\<lparr>lp_watching := False\<rparr>,
                 if lp_last_live_route lp1 then backend mark_no_live_notifications wt1 else wt1)))"

section \<open>iOS\<close>

record ios_world =
  iw_settings :: "cf_dictionary option"
  iw_time :: nat
  iw_thread :: "string option"

definition ios_read_now :: "external \<Rightarrow> ios_world \<Rightarrow> answer" where
  "ios_read_now E x = ios_read_config E (iw_time x) (iw_settings x)"

definition poll_spawn ::
    "(proxy_config \<Rightarrow> answer \<Rightarrow> poll_loop) \<Rightarrow> proxy_config \<Rightarrow> answer \<Rightarrow> string option
       \<Rightarrow> proxy_error + poll_loop" where
  "poll_spawn starts initial now refusal =
     thread_start ''spawning the proxy-watch polling thread'' refusal (starts initial now)"

text \<open>The watch's sender is dropped; the hints have given theirs back before.\<close>

definition poll_stop :: "poll_loop \<Rightarrow> poll_loop" where
  "poll_stop s = s\<lparr>pl_senders := pl_senders s - 1\<rparr>"

definition ios_backend ::
    "external \<Rightarrow> (ios_world history, proxy_config \<Rightarrow> answer \<Rightarrow> poll_loop, poll_loop) sys_backend" where
  "ios_backend E =
     \<lparr> sb_capture = no_env,
       sb_read = (\<lambda>_ _. look (ios_read_now E)),
       sb_armed = (\<lambda>options _. look (\<lambda>_. poll_armed options)),
       sb_spawn = (\<lambda>_ starts initial. look (\<lambda>x. poll_spawn starts initial (ios_read_now E x) (iw_thread x))),
       sb_health = (\<lambda>_. poll_health),
       sb_poll_now = poll_now \<rparr>"

section \<open>What is started is what the loops start from\<close>

lemma thread_start_Inr: "thread_start what refusal x = Inr y \<longleftrightarrow> refusal = None \<and> y = x"
  by (auto simp: thread_start_def split: option.splits)

lemma look_eq: "look f m = (y, m') \<longleftrightarrow> y = f (snd m (fst m)) \<and> m' = (Suc (fst m), snd m)"
  by (auto simp: look_def)

lemma win_startingI:
  "armed_watch shown not_found options user machine = Inr w \<Longrightarrow>
     win_starting shown initial (win_start (opt_poll_interval options) (wa_keys w) initial)"
  unfolding win_starting_def by blast

lemma linux_startingI:
  "gnome_is_live r \<or> w = Inr initial \<Longrightarrow>
     (case lr_kde r of
        Some (RouteLive (flags, kept)) \<Rightarrow> lf_live flags = length kept \<and> kept \<noteq> [] | _ \<Rightarrow> True) \<Longrightarrow>
     linux_starting initial (linux_spawn interval r w senders initial)"
  unfolding linux_starting_def by blast

lemma win_spawn_starts:
  assumes "win_armed_in shown not_found options x = Inr w" "win_spawn options w initial x' = Inr (w', s)"
  shows "win_starting shown initial s"
  using assms by (auto simp: win_armed_in_def win_spawn_def thread_start_Inr win_startingI
      split: option.splits)

lemma mac_spawn_starts:
  "mac_spawn E status_text shown options initial x = Inr (d, s) \<Longrightarrow> mac_starting initial s"
  by (auto simp: mac_spawn_def mac_starting_def split: sum.splits if_splits)

lemma kde_watch_start_whole:
  "kde_watch_start is_dir created registered dirs = Inr (Some (flags, kept)) \<Longrightarrow>
     lf_live flags = length kept \<and> kept \<noteq> []"
  by (auto simp: kde_watch_start_def Let_def split: prod.splits sum.splits option.splits if_splits)

lemma store_watch_RouteLive:
  "store_watch_fail_soft shown what leading interval outcome = Inr (RouteLive v) \<longleftrightarrow> outcome = Inr (Some v)"
  by (auto simp: store_watch_fail_soft_def watch_fail_soft_def split: sum.splits option.splits if_splits)

lemma linux_armed_whole:
  assumes "linux_armed_in shown b options env x = Inr w"
  shows "case lr_kde (la_routes w) of
      Some (RouteLive (flags, kept)) \<Rightarrow> lf_live flags = length kept \<and> kept \<noteq> [] | _ \<Rightarrow> True"
  using assms
  by (auto simp: linux_armed_in_def linux_arm_def kde_watch_fail_soft_def Let_def store_watch_RouteLive
      split: option.splits route_watch.splits if_splits sum.splits dest: kde_watch_start_whole)

lemma linux_subscribe_kde:
  "linux_subscribe shown b d interval gnome r = Inr r' \<Longrightarrow> lr_kde r' = lr_kde r"
  by (auto simp: linux_subscribe_def split: if_splits)

lemma linux_spawn_starts:
  assumes "linux_armed_in shown b options env x = Inr w"
    "linux_spawn_in E shown b options w initial x' = Inr (r, s)"
  shows "linux_starting initial s"
  using linux_armed_whole [OF assms(1)] assms(2)
  by (auto simp: linux_spawn_in_def thread_start_Inr linux_subscribe_kde intro!: linux_startingI
      split: sum.splits if_splits)

lemma poll_spawn_starts:
  assumes "poll_armed options = Inr starts" "poll_spawn starts initial now refusal = Inr s"
  shows "poll_starting initial s"
  using assms by (auto simp: poll_armed_def poll_spawn_def thread_start_Inr poll_starting_def
      split: if_splits)

end
