(* ===== verification/Android_Backend.thy ===== *)
theory Android_Backend
  imports Platforms Proxy_Info Pac_Engines
begin

text \<open>
  \<open>src/sys/android.rs\<close> and \<open>src/sys/android/receiver.rs\<close>: the calls into Java, the process's \<open>JavaVM\<close>
  and \<open>Context\<close>, the settings read through them, the system's selector asked for a URL, the receiver
  of the change broadcast, and the backend over the polling thread. The Java side and the crate
  \<open>jni\<close> are a parameter \<open>J\<close>: a record of operations over a state \<open>'j\<close>, each of which may fail with a
  text. A reference is a number, 0 is \<open>null\<close>. \<open>E\<close> is the crates of the grammars.
\<close>

section \<open>The Java native interface\<close>

type_synonym jref = nat

datatype jvalue = JObject jref | JInt int | JLong int | JVoid

type_synonym ('j, 'a) jcall = "'j \<Rightarrow> (string + 'a) \<times> 'j"

text \<open>A class is found by its name or held as an object. \<open>jn_vm\<close>: why a \<open>JavaVM*\<close> is refused;
  \<open>jn_wrong_value\<close>, \<open>jn_null\<close>: the texts of the crate's errors for a value of another type and for
  a null pointer; \<open>jn_now\<close>: the clock.\<close>

record 'j jni =
  jn_vm :: "nat \<Rightarrow> string option"
  jn_wrong_value :: "string \<Rightarrow> jvalue \<Rightarrow> string"
  jn_null :: "string \<Rightarrow> string"
  jn_now :: "'j \<Rightarrow> nat"
  jn_attach :: "nat \<Rightarrow> ('j, unit) jcall"
  jn_detach :: "'j \<Rightarrow> 'j"
  jn_push_frame :: "nat \<Rightarrow> ('j, unit) jcall"
  jn_pop_frame :: "('j, unit) jcall"
  jn_static_field :: "string \<Rightarrow> string \<Rightarrow> string \<Rightarrow> ('j, jvalue) jcall"
  jn_call :: "jref \<Rightarrow> string \<Rightarrow> string \<Rightarrow> jvalue list \<Rightarrow> ('j, jvalue) jcall"
  jn_call_static :: "string \<Rightarrow> string \<Rightarrow> string \<Rightarrow> jvalue list \<Rightarrow> ('j, jvalue) jcall"
  jn_new_object :: "string + jref \<Rightarrow> string \<Rightarrow> jvalue list \<Rightarrow> ('j, jref) jcall"
  jn_new_string :: "string \<Rightarrow> ('j, jref) jcall"
  jn_new_bytes :: "string \<Rightarrow> ('j, jref) jcall"
  jn_get_string :: "jref \<Rightarrow> ('j, string) jcall"
  jn_array_length :: "jref \<Rightarrow> ('j, int) jcall"
  jn_array_element :: "jref \<Rightarrow> int \<Rightarrow> ('j, jref) jcall"
  jn_register_natives :: "jref \<Rightarrow> (string \<times> string) list \<Rightarrow> ('j, unit) jcall"
  jn_new_global :: "jref \<Rightarrow> ('j, jref) jcall"
  jn_delete_local :: "jref \<Rightarrow> ('j, unit) jcall"
  jn_exception_check :: "('j, bool) jcall"
  jn_exception_occurred :: "('j, jref) jcall"
  jn_exception_clear :: "('j, unit) jcall"

text \<open>A value, and \<open>?\<close>.\<close>

definition j_return :: "'a \<Rightarrow> ('j, 'a) jcall" where
  "j_return x j = (Inr x, j)"

definition j_lift :: "string + 'a \<Rightarrow> ('j, 'a) jcall" where
  "j_lift r j = (r, j)"

definition j_then :: "('j, 'a) jcall \<Rightarrow> ('a \<Rightarrow> ('j, 'b) jcall) \<Rightarrow> ('j, 'b) jcall" where
  "j_then c f j = (case c j of (Inl e, j') \<Rightarrow> (Inl e, j') | (Inr x, j') \<Rightarrow> f x j')"

text \<open>\<open>with_local_frame\<close> of the crate.\<close>

definition with_local_frame :: "'j jni \<Rightarrow> nat \<Rightarrow> ('j, 'a) jcall \<Rightarrow> ('j, 'a) jcall" where
  "with_local_frame J capacity body =
     j_then (jn_push_frame J capacity) (\<lambda>_ j.
       case body j of (r, j') \<Rightarrow> j_then (jn_pop_frame J) (\<lambda>_. j_lift r) j')"

text \<open>\<open>l\<close> and \<open>i\<close> of a value.\<close>

definition object_of :: "'j jni \<Rightarrow> jvalue \<Rightarrow> string + jref" where
  "object_of J v = (case v of JObject r \<Rightarrow> Inr r | _ \<Rightarrow> Inl (jn_wrong_value J ''object'' v))"

definition int_of_value :: "'j jni \<Rightarrow> jvalue \<Rightarrow> string + int" where
  "int_of_value J v = (case v of JInt i \<Rightarrow> Inr i | _ \<Rightarrow> Inl (jn_wrong_value J ''int'' v))"

definition call_object :: "'j jni \<Rightarrow> jref \<Rightarrow> string \<Rightarrow> string \<Rightarrow> jvalue list \<Rightarrow> ('j, jref) jcall" where
  "call_object J object name sig args = j_then (jn_call J object name sig args) (j_lift \<circ> object_of J)"

definition call_static_object ::
    "'j jni \<Rightarrow> string \<Rightarrow> string \<Rightarrow> string \<Rightarrow> jvalue list \<Rightarrow> ('j, jref) jcall" where
  "call_static_object J cls name sig args =
     j_then (jn_call_static J cls name sig args) (j_lift \<circ> object_of J)"

definition call_int :: "'j jni \<Rightarrow> jref \<Rightarrow> string \<Rightarrow> ('j, int) jcall" where
  "call_int J object name = j_then (jn_call J object name ''()I'' []) (j_lift \<circ> int_of_value J)"

section \<open>Calls and their exceptions\<close>

definition jni_error :: "string \<Rightarrow> string \<Rightarrow> proxy_error" where
  "jni_error what source = error_io what source"

definition string_of :: "'j jni \<Rightarrow> jref \<Rightarrow> string \<Rightarrow> ('j, string option) jcall" where
  "string_of J object getter =
     j_then (call_object J object getter ''()Ljava/lang/String;'' []) (\<lambda>s.
       if s = 0 then j_return None else j_then (jn_get_string J s) (j_return \<circ> Some))"

definition take_exception :: "'j jni \<Rightarrow> 'j \<Rightarrow> string option \<times> 'j" where
  "take_exception J j =
     (case jn_exception_check J j of (check, j1) \<Rightarrow>
      if \<not> unwrap_or False (result_ok check) then (None, j1)
      else
        (case jn_exception_occurred J j1 of (thrown, j2) \<Rightarrow>
         case jn_exception_clear J j2 of (_, j3) \<Rightarrow>
         case thrown of
           Inl _ \<Rightarrow> (None, j3)
         | Inr t \<Rightarrow>
             (case with_local_frame J 4 (string_of J t ''toString'') j3 of (text, j4) \<Rightarrow>
              case jn_exception_check J j4 of (again, j5) \<Rightarrow>
              let j6 = (if unwrap_or False (result_ok again) then snd (jn_exception_clear J j5) else j5);
                  j7 = snd (jn_delete_local J t j6)
              in (Option.bind (result_ok text) id, j7))))"

definition call_in ::
    "'j jni \<Rightarrow> string \<Rightarrow> nat \<Rightarrow> ('j, 'a) jcall \<Rightarrow> 'j \<Rightarrow> (proxy_error + 'a) \<times> 'j" where
  "call_in J what vm body j =
     (case jn_attach J vm j of
        (Inl e, j1) \<Rightarrow> (Inl (jni_error what e), j1)
      | (Inr _, j1) \<Rightarrow>
          (case with_local_frame J 16 body j1 of
             (Inr x, j2) \<Rightarrow> (Inr x, jn_detach J j2)
           | (Inl e, j2) \<Rightarrow>
               (case take_exception J j2 of (thrown, j3) \<Rightarrow>
                  (Inl (jni_error what (case thrown of Some t \<Rightarrow> e @ '': '' @ t | None \<Rightarrow> e)),
                   jn_detach J j3))))"

section \<open>The host\<close>

record android_host =
  ah_vm :: nat
  ah_app :: jref

text \<open>The process: \<open>ap_host\<close> is \<open>HOST\<close>, \<open>ap_ndk\<close> what \<open>ndk-context\<close> holds, \<open>ap_slots\<close> the wakers of
  \<open>src/sys/poll.rs\<close>, \<open>ap_refusal\<close> why the operating system would refuse a thread.\<close>

record 'j android =
  ap_java :: 'j
  ap_host :: "android_host option"
  ap_ndk :: "(nat \<times> jref) option"
  ap_slots :: wake_slots
  ap_refusal :: "string option"

definition INITIALIZING :: string where "INITIALIZING = ''proxy_watch::android::init''"

definition same_vm :: "android_host \<Rightarrow> nat \<Rightarrow> proxy_error + unit" where
  "same_vm host raw =
     (if ah_vm host = raw then Inr ()
      else Inl (jni_error INITIALIZING ''called again with a different JavaVM than the first call''))"

definition application_context :: "'j jni \<Rightarrow> jref \<Rightarrow> ('j, jref) jcall" where
  "application_context J given =
     call_object J given ''getApplicationContext'' ''()Landroid/content/Context;'' []"

definition init_body :: "'j jni \<Rightarrow> jref \<Rightarrow> ('j, jref) jcall" where
  "init_body J given =
     j_then (application_context J given) (\<lambda>app.
       if app = 0 then j_lift (Inl (jn_null J ''getApplicationContext() result''))
       else jn_new_global J app)"

text \<open>\<open>raced\<close>: what another thread's call put into \<open>HOST\<close> in the meantime.\<close>

definition android_init ::
    "'j jni \<Rightarrow> android_host option \<Rightarrow> nat \<Rightarrow> jref \<Rightarrow> 'j android \<Rightarrow> (proxy_error + unit) \<times> 'j android" where
  "android_init J raced raw given s =
     (case ap_host s of
        Some host \<Rightarrow> (same_vm host raw, s)
      | None \<Rightarrow>
          (case jn_vm J raw of
             Some e \<Rightarrow> (Inl (jni_error INITIALIZING e), s\<lparr>ap_host := raced\<rparr>)
           | None \<Rightarrow>
               (case call_in J INITIALIZING raw (init_body J given) (ap_java s) of
                  (Inl e, j) \<Rightarrow> (Inl e, s\<lparr>ap_java := j, ap_host := raced\<rparr>)
                | (Inr app, j) \<Rightarrow>
                    (case raced of
                       None \<Rightarrow> (Inr (), s\<lparr>ap_java := j, ap_host := Some \<lparr> ah_vm = raw, ah_app = app \<rparr>\<rparr>)
                     | Some host \<Rightarrow> (same_vm host raw, s\<lparr>ap_java := j, ap_host := raced\<rparr>)))))"

definition with_framework ::
    "'j jni \<Rightarrow> string \<Rightarrow> (jref \<Rightarrow> ('j, 'a) jcall) \<Rightarrow> 'j android \<Rightarrow> (proxy_error + 'a) \<times> 'j android" where
  "with_framework J what body s =
     (case ap_host s of
        Some host \<Rightarrow>
          (case call_in J what (ah_vm host) (body (ah_app host)) (ap_java s) of
             (r, j) \<Rightarrow> (r, s\<lparr>ap_java := j\<rparr>))
      | None \<Rightarrow>
          (case ap_ndk s of
             None \<Rightarrow>
               (Inl (jni_error what
                  (''the host app has neither called proxy_watch::android::init nor registered its ''
                   @ ''JavaVM and Context with ndk_context::initialize_android_context'')), s)
           | Some (vm, registered) \<Rightarrow>
               (case jn_vm J vm of
                  Some e \<Rightarrow> (Inl (jni_error what e), s)
                | None \<Rightarrow>
                    (case call_in J what vm
                         (j_then (application_context J registered)
                            (\<lambda>app. body (if app = 0 then registered else app))) (ap_java s) of
                       (r, j) \<Rightarrow> (r, s\<lparr>ap_java := j\<rparr>)))))"

section \<open>Reading\<close>

definition READING :: string where
  "READING = ''reading ConnectivityManager.getDefaultProxy() through JNI''"

text \<open>The loop over an array, from \<open>index\<close> for \<open>n\<close> entries.\<close>

primrec array_texts :: "'j jni \<Rightarrow> jref \<Rightarrow> int \<Rightarrow> nat \<Rightarrow> ('j, string list) jcall" where
  "array_texts J list index 0 = j_return []"
| "array_texts J list index (Suc n) =
     j_then (jn_array_element J list index) (\<lambda>entry.
     j_then (if entry = 0 then j_return [] else j_then (jn_get_string J entry) (\<lambda>s. j_return [s])) (\<lambda>text.
     j_then (jn_delete_local J entry) (\<lambda>_.
     j_then (array_texts J list (index + 1) n) (\<lambda>texts. j_return (text @ texts)))))"

definition exclusions_of :: "'j jni \<Rightarrow> jref \<Rightarrow> ('j, string list) jcall" where
  "exclusions_of J list =
     (if list = 0 then j_return []
      else j_then (jn_array_length J list) (\<lambda>n. array_texts J list 0 (nat n)))"

definition read_info_in :: "'j jni \<Rightarrow> jref \<Rightarrow> ('j, proxy_info option) jcall" where
  "read_info_in J app =
     j_then (jn_static_field J ''android/content/Context'' ''CONNECTIVITY_SERVICE'' ''Ljava/lang/String;'')
       (\<lambda>field.
     j_then (j_lift (object_of J field)) (\<lambda>service.
     j_then (call_object J app ''getSystemService'' ''(Ljava/lang/String;)Ljava/lang/Object;''
         [JObject service]) (\<lambda>manager.
     j_then (call_object J manager ''getDefaultProxy'' ''()Landroid/net/ProxyInfo;'' []) (\<lambda>info.
       if info = 0 then j_return None
       else
         j_then (string_of J info ''getHost'') (\<lambda>h.
         j_then (call_int J info ''getPort'') (\<lambda>port.
         j_then (call_object J info ''getExclusionList'' ''()[Ljava/lang/String;'' []) (\<lambda>list.
         j_then (exclusions_of J list) (\<lambda>exclusions.
         j_then (call_object J info ''getPacFileUrl'' ''()Landroid/net/Uri;'' []) (\<lambda>uri.
         j_then (if uri = 0 then j_return None else string_of J uri ''toString'') (\<lambda>pac_url.
           j_return (Some \<lparr> pi_host = h, pi_port = port, pi_exclusions = exclusions,
                            pi_pac_url = pac_url \<rparr>)))))))))))"

definition read_proxy_info :: "'j jni \<Rightarrow> 'j android \<Rightarrow> (proxy_error + proxy_info option) \<times> 'j android" where
  "read_proxy_info J = with_framework J READING (read_info_in J)"

definition android_read_config ::
    "external \<Rightarrow> 'j jni \<Rightarrow> 'j android \<Rightarrow> (proxy_error + proxy_config) \<times> 'j android" where
  "android_read_config E J s =
     (case read_proxy_info J s of
        (Inl e, s') \<Rightarrow> (Inl e, s')
      | (Inr info, s') \<Rightarrow>
          (map_sum id (from_source (jn_now J (ap_java s')) ConnectivityManager)
             (mode_from_proxy_info E info), s'))"

section \<open>The selector\<close>

definition PAC_SELECTOR :: string where "PAC_SELECTOR = ''android.net.PacProxySelector''"

definition selected_entry :: "'j jni \<Rightarrow> jref \<Rightarrow> int \<Rightarrow> ('j, selected_proxy) jcall" where
  "selected_entry J list index =
     with_local_frame J 8
       (j_then (call_object J list ''get'' ''(I)Ljava/lang/Object;'' [JInt index]) (\<lambda>proxy.
        j_then (call_object J proxy ''type'' ''()Ljava/net/Proxy$Type;'' []) (\<lambda>kind.
        j_then (string_of J kind ''name'') (\<lambda>name.
        j_then (call_object J proxy ''address'' ''()Ljava/net/SocketAddress;'' []) (\<lambda>address.
        j_then (if address = 0 then j_return (None, 0)
                else j_then (string_of J address ''getHostString'') (\<lambda>h.
                     j_then (call_int J address ''getPort'') (\<lambda>port. j_return (h, port))))
          (\<lambda>(h, port).
          j_return \<lparr> sp_kind = unwrap_or [] name, sp_host = h, sp_port = port \<rparr>))))))"

primrec selected_entries :: "'j jni \<Rightarrow> jref \<Rightarrow> int \<Rightarrow> nat \<Rightarrow> ('j, selected_proxy list) jcall" where
  "selected_entries J list index 0 = j_return []"
| "selected_entries J list index (Suc n) =
     j_then (selected_entry J list index) (\<lambda>p.
     j_then (selected_entries J list (index + 1) n) (\<lambda>ps. j_return (p # ps)))"

definition select_in :: "'j jni \<Rightarrow> string \<Rightarrow> ('j, selected_proxy list option) jcall" where
  "select_in J uri =
     j_then (call_static_object J ''java/net/ProxySelector'' ''getDefault''
         ''()Ljava/net/ProxySelector;'' []) (\<lambda>selector.
       if selector = 0 then j_return None
       else
         j_then (call_object J selector ''getClass'' ''()Ljava/lang/Class;'' []) (\<lambda>cls.
         j_then (string_of J cls ''getName'') (\<lambda>name.
           if name \<noteq> Some PAC_SELECTOR then j_return None
           else
             j_then (jn_new_string J uri) (\<lambda>text.
             j_then (call_static_object J ''java/net/URI'' ''create''
                 ''(Ljava/lang/String;)Ljava/net/URI;'' [JObject text]) (\<lambda>target.
             j_then (call_object J selector ''select'' ''(Ljava/net/URI;)Ljava/util/List;''
                 [JObject target]) (\<lambda>list.
             j_then (call_int J list ''size'') (\<lambda>n.
             j_then (selected_entries J list 0 (nat n)) (j_return \<circ> Some))))))))"

definition android_select ::
    "'j jni \<Rightarrow> string \<Rightarrow> 'j android
       \<Rightarrow> (proxy_error + string option \<times> selected_proxy list option) \<times> 'j android" where
  "android_select J uri =
     with_framework J READING (\<lambda>app.
       j_then (read_info_in J app) (\<lambda>info.
       j_then (select_in J uri) (\<lambda>selected. j_return (Option.bind info pi_pac_url, selected))))"

section \<open>The receiver\<close>

definition CLASS :: string where "CLASS = ''proxywatch.ProxyChangeReceiver''"
definition PROXY_CHANGE_ACTION :: string where
  "PROXY_CHANGE_ACTION = ''android.intent.action.PROXY_CHANGE''"
definition MIN_SDK :: int where "MIN_SDK = 26"
definition FLAGS_SDK :: int where "FLAGS_SDK = 33"
definition RECEIVER_NOT_EXPORTED :: int where "RECEIVER_NOT_EXPORTED = 4"
definition REGISTERING :: string where
  "REGISTERING = ''registering the PROXY_CHANGE_ACTION receiver through JNI''"

text \<open>The class out of the bytes of \<open>receiver.dex\<close>.\<close>

definition load_receiver :: "'j jni \<Rightarrow> string \<Rightarrow> jref \<Rightarrow> ('j, jref) jcall" where
  "load_receiver J dex app =
     j_then (jn_new_bytes J dex) (\<lambda>bytes.
     j_then (call_static_object J ''java/nio/ByteBuffer'' ''wrap'' ''([B)Ljava/nio/ByteBuffer;''
         [JObject bytes]) (\<lambda>buffer.
     j_then (call_object J app ''getClassLoader'' ''()Ljava/lang/ClassLoader;'' []) (\<lambda>parent.
     j_then (jn_new_object J (Inl ''dalvik/system/InMemoryDexClassLoader'')
         ''(Ljava/nio/ByteBuffer;Ljava/lang/ClassLoader;)V'' [JObject buffer, JObject parent]) (\<lambda>loader.
     j_then (jn_new_string J CLASS) (\<lambda>name.
       call_object J loader ''loadClass'' ''(Ljava/lang/String;)Ljava/lang/Class;'' [JObject name])))))"

definition register_call :: "'j jni \<Rightarrow> int \<Rightarrow> jref \<Rightarrow> jref \<Rightarrow> jref \<Rightarrow> ('j, jvalue) jcall" where
  "register_call J sdk app receiver intents =
     (if FLAGS_SDK \<le> sdk then
        jn_call J app ''registerReceiver''
          (''(Landroid/content/BroadcastReceiver;Landroid/content/IntentFilter;I)''
           @ ''Landroid/content/Intent;'')
          [JObject receiver, JObject intents, JInt RECEIVER_NOT_EXPORTED]
      else
        jn_call J app ''registerReceiver''
          (''(Landroid/content/BroadcastReceiver;Landroid/content/IntentFilter;)''
           @ ''Landroid/content/Intent;'')
          [JObject receiver, JObject intents])"

definition register_receiver :: "'j jni \<Rightarrow> string \<Rightarrow> u64 \<Rightarrow> jref \<Rightarrow> ('j, jref option) jcall" where
  "register_receiver J dex slot app =
     j_then (jn_static_field J ''android/os/Build$VERSION'' ''SDK_INT'' ''I'') (\<lambda>field.
     j_then (j_lift (int_of_value J field)) (\<lambda>sdk.
       if sdk < MIN_SDK then j_return None
       else
         j_then (load_receiver J dex app) (\<lambda>cls.
         j_then (jn_register_natives J cls [(''changed'', ''(J)V'')]) (\<lambda>_.
         j_then (jn_new_object J (Inr cls) ''(J)V'' [JLong (sint slot)]) (\<lambda>made.
         j_then (jn_new_global J made) (\<lambda>receiver.
         j_then (jn_new_string J PROXY_CHANGE_ACTION) (\<lambda>action.
         j_then (jn_new_object J (Inl ''android/content/IntentFilter'') ''(Ljava/lang/String;)V''
             [JObject action]) (\<lambda>intents.
         j_then (register_call J sdk app receiver intents) (\<lambda>_.
           j_return (Some receiver))))))))))"

record registration =
  rg_receiver :: jref
  rg_slot :: u64

definition slots_of_process :: "(wake_slots \<Rightarrow> wake_slots) \<Rightarrow> 'j android \<Rightarrow> 'j android" where
  "slots_of_process f s = s\<lparr>ap_slots := f (ap_slots s)\<rparr>"

definition registration_new ::
    "'j jni \<Rightarrow> string \<Rightarrow> nat \<Rightarrow> 'j android \<Rightarrow> (proxy_error + registration) \<times> 'j android" where
  "registration_new J dex sender s =
     (let (slots, slot) = wake_slot_new sender (ap_slots s)
      in case with_framework J REGISTERING (register_receiver J dex slot) (s\<lparr>ap_slots := slots\<rparr>) of
           (Inl e, s') \<Rightarrow> (Inl e, slots_of_process (wake_slot_drop slot) s')
         | (Inr None, s') \<Rightarrow> (Inl Unsupported, slots_of_process (wake_slot_drop slot) s')
         | (Inr (Some receiver), s') \<Rightarrow> (Inr \<lparr> rg_receiver = receiver, rg_slot = slot \<rparr>, s'))"

definition unregister_call :: "'j jni \<Rightarrow> jref \<Rightarrow> jref \<Rightarrow> ('j, jvalue) jcall" where
  "unregister_call J receiver app =
     jn_call J app ''unregisterReceiver'' ''(Landroid/content/BroadcastReceiver;)V'' [JObject receiver]"

definition registration_drop :: "'j jni \<Rightarrow> registration \<Rightarrow> 'j android \<Rightarrow> 'j android" where
  "registration_drop J r s =
     slots_of_process (wake_slot_drop (rg_slot r))
       (snd (with_framework J REGISTERING (unregister_call J (rg_receiver r)) s))"

text \<open>\<open>changed\<close>, which Java calls with the number the receiver was made with.\<close>

definition receiver_changed :: "int \<Rightarrow> 'j android \<Rightarrow> nat option" where
  "receiver_changed carried s = slot_wake (of_int carried) (ap_slots s)"

section \<open>The backend\<close>

text \<open>The watch before its thread: how it starts, and the registration. A registration holds a
  sender of its own.\<close>

record android_watch =
  aw_registration :: "registration option"
  aw_poll :: "proxy_config \<Rightarrow> answer \<Rightarrow> poll_loop"

definition android_armed ::
    "'j jni \<Rightarrow> string \<Rightarrow> (proxy_error \<Rightarrow> string) \<Rightarrow> nat \<Rightarrow> watch_options \<Rightarrow> 'j android
       \<Rightarrow> (proxy_error + android_watch) \<times> 'j android" where
  "android_armed J dex shown sender options s =
     (case with_framework J REGISTERING (\<lambda>_. j_return ()) s of (reachable, s1) \<Rightarrow>
      case (if is_ok reachable then registration_new J dex sender s1 else (Inl Unsupported, s1)) of
        (established, s2) \<Rightarrow>
          ((case watch_fail_soft_reachable reachable True (opt_poll_interval options) (\<lambda>_. established) of
              Inl e \<Rightarrow> Inl e
            | Inr (Live r) \<Rightarrow>
                Inr \<lparr> aw_registration = Some r,
                      aw_poll = (\<lambda>initial w. (poll_new options initial w)\<lparr>pl_senders := 2\<rparr>) \<rparr>
            | Inr (Degraded e) \<Rightarrow> Inr \<lparr> aw_registration = None, aw_poll = poll_new options \<rparr>
            | Inr (Fatal e) \<Rightarrow>
                Inl (fatal_watch_error ''registering the PROXY_CHANGE_ACTION receiver''
                       ''the broadcast is the only proxy change notification Android sends''
                       (shown e))), s2))"

definition android_spawn ::
    "external \<Rightarrow> 'j jni \<Rightarrow> android_watch \<Rightarrow> proxy_config \<Rightarrow> 'j android
       \<Rightarrow> (proxy_error + registration option \<times> poll_loop) \<times> 'j android" where
  "android_spawn E J w initial s =
     (map_sum id (\<lambda>loop. (aw_registration w, loop))
        (poll_spawn (aw_poll w) initial (fst (android_read_config E J s)) (ap_refusal s)), s)"

definition android_health :: "registration option \<Rightarrow> backend_health" where
  "android_health r =
     \<lparr> bh_degraded = (if r = None then [ConnectivityManager] else []), bh_live = r \<noteq> None \<rparr>"

definition android_backend ::
    "external \<Rightarrow> 'j jni \<Rightarrow> string \<Rightarrow> (proxy_error \<Rightarrow> string) \<Rightarrow> nat
       \<Rightarrow> ('j android, android_watch, registration option \<times> poll_loop) sys_backend" where
  "android_backend E J dex shown sender =
     \<lparr> sb_capture = no_env,
       sb_read = (\<lambda>_ _. android_read_config E J),
       sb_armed = (\<lambda>options _. android_armed J dex shown sender options),
       sb_spawn = (\<lambda>_. android_spawn E J),
       sb_health = (\<lambda>(r, _). android_health r),
       sb_poll_now = map_prod id poll_now \<rparr>"

text \<open>A watch is dropped field by field, the registration first; the polling watch gives its sender
  back and joins its thread, which blocks until the thread is through its loop and its guard. With
  the receiver goes the sender its slot holds. Beside the drop the thread runs on, and Java does.\<close>

datatype drop_op = DropReceiver registration | DropSender | JoinThread

definition poll_drop :: "drop_op list" where
  "poll_drop = [DropSender, JoinThread]"

definition android_stop :: "registration option \<Rightarrow> drop_op list" where
  "android_stop r = (case r of None \<Rightarrow> [] | Some r \<Rightarrow> [DropReceiver r]) @ poll_drop"

record 'j android_drop =
  ad_todo :: "drop_op list"
  ad_loop :: poll_loop
  ad_process :: "'j android"

definition drop_ready :: "drop_op \<Rightarrow> 'j android_drop \<Rightarrow> bool" where
  "drop_ready operation d \<longleftrightarrow>
     (case operation of JoinThread \<Rightarrow> pl_phase (ad_loop d) = PollLeaving [] | _ \<Rightarrow> True)"

definition drop_op_on :: "'j jni \<Rightarrow> drop_op \<Rightarrow> 'j android_drop \<Rightarrow> 'j android_drop" where
  "drop_op_on J operation d =
     (case operation of
        DropReceiver r \<Rightarrow>
          d\<lparr>ad_loop := (ad_loop d)\<lparr>pl_senders := pl_senders (ad_loop d) - 1\<rparr>,
            ad_process := registration_drop J r (ad_process d)\<rparr>
      | DropSender \<Rightarrow> d\<lparr>ad_loop := poll_stop (ad_loop d)\<rparr>
      | JoinThread \<Rightarrow> d)"

inductive android_drop_step :: "'j jni \<Rightarrow> 'j android_drop \<Rightarrow> 'j android_drop \<Rightarrow> bool" for J where
  ad_dropping:
    "ad_todo d = operation # rest \<Longrightarrow> drop_ready operation d \<Longrightarrow>
       android_drop_step J d ((drop_op_on J operation d)\<lparr>ad_todo := rest\<rparr>)"
| ad_thread:
    "poll_step (ad_loop d) l \<Longrightarrow> pl_senders l = pl_senders (ad_loop d) \<Longrightarrow>
       android_drop_step J d (d\<lparr>ad_loop := l\<rparr>)"
| ad_java: "android_drop_step J d (d\<lparr>ad_process := s\<rparr>)"

end
