(* ===== verification/Stop_Facts.thy ===== *)
theory Stop_Facts
  imports Android_Backend
begin

text \<open>
  The end of a watcher: \<open>Drop\<close> of each \<open>Watch\<close> asks its thread to stop and joins it. Once the
  request is made, whatever happens around it, the thread is through in a number of moves of its own
  that is known, none of them the end of a wait; so no join waits for ever. The locale is the
  argument, each backend's loop an instance of it. At the end, what a constructed watcher is.
\<close>

section \<open>Threads that come to an end\<close>

text \<open>\<open>turn\<close> is the thread's next move; a thread that waits for something stays as it is.\<close>

locale stopping_thread =
  fixes stepping :: "'s \<Rightarrow> 's \<Rightarrow> bool"
    and asked :: "'s \<Rightarrow> bool"
    and turn :: "'s \<Rightarrow> 's"
    and left :: "'s \<Rightarrow> nat"
  assumes turn_steps: "asked s \<Longrightarrow> 0 < left s \<Longrightarrow> stepping s (turn s)"
    and step_asked: "stepping s s' \<Longrightarrow> asked s \<Longrightarrow> asked s'"
    and turn_nearer: "asked s \<Longrightarrow> left (turn s) \<le> left s - 1"
    and turn_idle: "asked s \<Longrightarrow> left s = 0 \<Longrightarrow> turn s = s"
begin

lemma turn_asked: "asked s \<Longrightarrow> asked (turn s)"
  using turn_idle turn_steps step_asked by (cases "left s = 0") fastforce+

lemma run_asked: "loop_run stepping s s' \<Longrightarrow> asked s \<Longrightarrow> asked s'"
  by (induction rule: loop_run.induct) (auto intro: step_asked)

lemma turns_end: "asked s \<Longrightarrow> left s \<le> n \<Longrightarrow> left ((turn ^^ n) s) = 0"
proof (induction n arbitrary: s)
  case (Suc n)
  from turn_nearer [OF Suc.prems(1)] Suc.prems(2) have "left (turn s) \<le> n" by simp
  with Suc.IH [OF turn_asked [OF Suc.prems(1)]] show ?case by (simp add: funpow_swap1)
qed simp

lemma run_join: "loop_run stepping s1 s2 \<Longrightarrow> loop_run stepping s0 s1 \<Longrightarrow> loop_run stepping s0 s2"
  by (induction rule: loop_run.induct) (auto intro: loop_next)

lemma turns_run: "asked s \<Longrightarrow> loop_run stepping s ((turn ^^ n) s)"
proof (induction n arbitrary: s)
  case (Suc n)
  have "loop_run stepping s (turn s)"
    using turn_steps [OF Suc.prems] turn_idle [OF Suc.prems] loop_next loop_start
    by (cases "left s = 0") fastforce+
  with run_join [OF Suc.IH [OF turn_asked [OF Suc.prems]]] show ?case by (simp add: funpow_swap1)
qed (simp add: loop_start)

lemma thread_ends:
  "asked s \<Longrightarrow> loop_run stepping s s' \<Longrightarrow>
     left ((turn ^^ left s') s') = 0 \<and> loop_run stepping s' ((turn ^^ left s') s')"
  using turns_end turns_run run_asked by blast

end

text \<open>What the properties say of a thread in state \<open>s\<close>: wherever it goes from there, its own moves take
  it to its end.\<close>

definition comes_to_end ::
    "('s \<Rightarrow> 's \<Rightarrow> bool) \<Rightarrow> ('s \<Rightarrow> 's) \<Rightarrow> ('s \<Rightarrow> nat) \<Rightarrow> ('s \<Rightarrow> bool) \<Rightarrow> 's \<Rightarrow> bool" where
  "comes_to_end stepping turn left gone s \<longleftrightarrow>
     (\<forall>s'. loop_run stepping s s' \<longrightarrow>
        gone ((turn ^^ left s') s') \<and> loop_run stepping s' ((turn ^^ left s') s'))"

section \<open>The polling thread\<close>

definition poll_turn :: "poll_loop \<Rightarrow> poll_loop" where
  "poll_turn s =
     (case pl_phase s of
        PollReading torn \<Rightarrow> s\<lparr>pl_phase := PollPublishing (pl_world s)\<rparr>
      | PollPublishing r \<Rightarrow>
          s\<lparr>pl_phase := PollWaiting, pl_watcher := backend (publish r) (pl_watcher s)\<rparr>
      | PollWaiting \<Rightarrow>
          if pl_wake s then s\<lparr>pl_phase := PollDebouncing, pl_wake := False\<rparr>
          else if pl_senders s = 0 then s\<lparr>pl_phase := PollLeaving (guard_ops False)\<rparr> else s
      | PollDebouncing \<Rightarrow>
          if pl_wake s then s\<lparr>pl_wake := False\<rparr>
          else if pl_senders s = 0 then s\<lparr>pl_phase := PollLeaving (guard_ops False)\<rparr> else s
      | PollLeaving [] \<Rightarrow> s
      | PollLeaving (operation # rest) \<Rightarrow>
          s\<lparr>pl_phase := PollLeaving rest,
            pl_watcher := backend (guard_op_on operation) (pl_watcher s)\<rparr>)"

definition poll_left :: "poll_loop \<Rightarrow> nat" where
  "poll_left s =
     (case pl_phase s of
        PollReading torn \<Rightarrow> 5
      | PollPublishing r \<Rightarrow> 4
      | PollLeaving operations \<Rightarrow> length operations
      | _ \<Rightarrow> if pl_wake s then 3 else 2)"

lemma poll_step_no_sender: "poll_step s s' \<Longrightarrow> pl_senders s = 0 \<Longrightarrow> pl_senders s' = 0"
  by (induction rule: poll_step.induct) (auto simp: poll_defs)

lemma poll_turn_steps: "pl_senders s = 0 \<Longrightarrow> 0 < poll_left s \<Longrightarrow> poll_step s (poll_turn s)"
  by (auto simp: poll_turn_def poll_left_def intro: poll_step.intros
      split: poll_phase.splits list.splits)

lemma poll_turn_nearer: "pl_senders s = 0 \<Longrightarrow> poll_left (poll_turn s) \<le> poll_left s - 1"
  by (auto simp: poll_turn_def poll_left_def guard_ops_def split: poll_phase.splits list.splits)

lemma poll_turn_idle: "poll_left s = 0 \<Longrightarrow> poll_turn s = s"
  by (auto simp: poll_turn_def poll_left_def split: poll_phase.splits list.splits if_splits)

lemma poll_turn_senders [simp]: "pl_senders (poll_turn s) = pl_senders s"
  by (auto simp: poll_turn_def split: poll_phase.splits list.splits)

interpretation poll_stops: stopping_thread poll_step "\<lambda>s. pl_senders s = 0" poll_turn poll_left
  by unfold_locales (use poll_turn_steps poll_step_no_sender poll_turn_nearer poll_turn_idle in blast)+

section \<open>The registry thread\<close>

text \<open>A key that is to be armed again is armed.\<close>

definition win_turn :: "win_loop \<Rightarrow> win_loop" where
  "win_turn s =
     (case wl_phase s of
        WinRearming i \<Rightarrow> (set_key i (\<lambda>k. k\<lparr>wk_armed := True\<rparr>) s)\<lparr>wl_phase := WinDebouncing\<rparr>
      | WinDegraded i \<Rightarrow>
          (mark_dead i s)\<lparr>wl_phase := (if all_dead (mark_dead i s) then WinLastRoute else WinDebouncing)\<rparr>
      | WinLastRoute \<Rightarrow>
          s\<lparr>wl_phase := WinDebouncing, wl_watcher := backend mark_no_live_notifications (wl_watcher s)\<rparr>
      | WinReading torn \<Rightarrow> s\<lparr>wl_phase := WinPublishing (wl_world s)\<rparr>
      | WinPublishing r \<Rightarrow>
          s\<lparr>wl_phase := (case wl_fatal s of None \<Rightarrow> WinWaiting | Some e \<Rightarrow> WinFailing e),
            wl_watcher := backend (publish r) (wl_watcher s)\<rparr>
      | WinFailing e \<Rightarrow>
          s\<lparr>wl_phase := WinLeaving (guard_ops False), wl_watcher := backend (fail e) (wl_watcher s)\<rparr>
      | WinLeaving [] \<Rightarrow> s
      | WinLeaving (operation # rest) \<Rightarrow>
          s\<lparr>wl_phase := WinLeaving rest, wl_watcher := backend (guard_op_on operation) (wl_watcher s)\<rparr>
      | _ \<Rightarrow> (case signalled_handle s of Some w \<Rightarrow> woken_by w s | None \<Rightarrow> s))"

definition win_left :: "win_loop \<Rightarrow> nat" where
  "win_left s =
     (case wl_phase s of
        WinRearming i \<Rightarrow> 3 | WinDegraded i \<Rightarrow> 4 | WinLastRoute \<Rightarrow> 3
      | WinReading torn \<Rightarrow> 4 | WinPublishing r \<Rightarrow> 3
      | WinLeaving operations \<Rightarrow> length operations
      | _ \<Rightarrow> 2)"

lemma shutdown_first: "wl_shutdown s \<Longrightarrow> signalled_handle s = Some WakeShutdown"
  by (simp add: signalled_handle_def)

lemma win_marks_dead_either:
  "wl_phase s = WinDegraded i \<Longrightarrow> all_dead (mark_dead i s) \<Longrightarrow>
     win_step shown s ((mark_dead i s)\<lparr>wl_phase := WinLastRoute\<rparr>)"
  "wl_phase s = WinDegraded i \<Longrightarrow> \<not> all_dead (mark_dead i s) \<Longrightarrow>
     win_step shown s ((mark_dead i s)\<lparr>wl_phase := WinDebouncing\<rparr>)"
  using win_marks_dead [of s i shown] by simp_all

definition win_keyed :: "win_loop \<Rightarrow> bool" where
  "win_keyed s \<longleftrightarrow> (case wl_phase s of WinRearming i \<Rightarrow> i < length (wl_keys s) | _ \<Rightarrow> True)"

lemma win_step_keyed: "win_step shown s s' \<Longrightarrow> win_keyed s \<Longrightarrow> win_keyed s'"
proof (induction rule: win_step.induct)
  case (win_woken s w)
  then show ?case
    by (cases w) (auto simp: win_keyed_def woken_by_def set_key_def dest: signalled_handle_key)
qed (auto simp: win_keyed_def win_defs split: win_phase.splits option.splits)

lemma win_step_shutdown: "win_step shown s s' \<Longrightarrow> wl_shutdown s \<Longrightarrow> wl_shutdown s'"
proof (induction rule: win_step.induct)
  case (win_woken s w)
  then show ?case by (cases w) (auto simp: woken_by_def set_key_def)
qed (auto simp: win_defs)

lemma win_run_keyed: "loop_run (win_step shown) s0 s \<Longrightarrow> win_starting shown initial s0 \<Longrightarrow> win_keyed s"
proof (induction rule: loop_run.induct)
  case loop_start
  then show ?case by (auto simp: win_starting_def win_start_def win_keyed_def)
next
  case (loop_next s s')
  then show ?case using win_step_keyed by blast
qed

interpretation win_stops:
  stopping_thread "win_step shown" "\<lambda>s. wl_shutdown s \<and> win_keyed s" win_turn win_left
proof unfold_locales
  fix s s' :: win_loop
  show "wl_shutdown s \<and> win_keyed s \<Longrightarrow> 0 < win_left s \<Longrightarrow> win_step shown s (win_turn s)"
    by (auto simp: win_turn_def win_left_def win_keyed_def shutdown_first
        intro: win_step.intros win_marks_dead_either
        split: win_phase.splits list.splits)
  show "wl_shutdown s \<and> win_keyed s \<Longrightarrow> win_left (win_turn s) \<le> win_left s - 1"
    by (auto simp: win_turn_def win_left_def guard_ops_def woken_by_def shutdown_first
        split: win_phase.splits list.splits option.splits)
  show "win_step shown s s' \<Longrightarrow> wl_shutdown s \<and> win_keyed s \<Longrightarrow> wl_shutdown s' \<and> win_keyed s'"
    using win_step_keyed win_step_shutdown by blast
qed (auto simp: win_turn_def win_left_def split: win_phase.splits list.splits if_splits)

section \<open>The run loop thread\<close>

definition mac_turn :: "mac_loop \<Rightarrow> mac_loop" where
  "mac_turn s =
     (case ml_phase s of
        MacReading torn \<Rightarrow> s\<lparr>ml_phase := MacPublishing (ml_world s)\<rparr>
      | MacPublishing r \<Rightarrow> s\<lparr>ml_phase := MacTop, ml_watcher := backend (publish r) (ml_watcher s)\<rparr>
      | MacWaiting \<Rightarrow>
          if ml_signalled s then (wake_handled s)\<lparr>ml_phase := MacWoken False\<rparr> else s
      | MacJudging timed_out \<Rightarrow>
          if ml_changed s \<or> mac_polled s timed_out \<or> ml_requested s then s\<lparr>ml_phase := MacDebouncing\<rparr>
          else s\<lparr>ml_phase := MacTop\<rparr>
      | MacDebouncing \<Rightarrow>
          if ml_signalled s then (wake_handled s)\<lparr>ml_phase := MacDebounceWoken\<rparr> else s
      | MacClearing \<Rightarrow> s\<lparr>ml_phase := MacClearingRequest, ml_changed := False\<rparr>
      | MacClearingRequest \<Rightarrow>
          s\<lparr>ml_phase := MacReading False, ml_requested := False, ml_missed := False\<rparr>
      | MacLeaving [] \<Rightarrow> s
      | MacLeaving (operation # rest) \<Rightarrow>
          s\<lparr>ml_phase := MacLeaving rest,
            ml_watcher := backend (guard_op_on operation) (ml_watcher s)\<rparr>
      | _ \<Rightarrow> mac_leave s)"

definition mac_left :: "mac_loop \<Rightarrow> nat" where
  "mac_left s =
     (case ml_phase s of
        MacReading torn \<Rightarrow> 4 | MacPublishing r \<Rightarrow> 3 | MacWaiting \<Rightarrow> 3 | MacJudging timed_out \<Rightarrow> 4
      | MacDebouncing \<Rightarrow> 3 | MacClearing \<Rightarrow> 6 | MacClearingRequest \<Rightarrow> 5
      | MacLeaving operations \<Rightarrow> length operations
      | _ \<Rightarrow> 2)"

text \<open>The request is on its way to a thread that waits, or has yet to: it was signalled.\<close>

definition mac_asked :: "mac_loop \<Rightarrow> bool" where
  "mac_asked s \<longleftrightarrow> ml_stop s
     \<and> (case ml_phase s of
          MacWaiting \<Rightarrow> ml_signalled s | MacJudging _ \<Rightarrow> ml_signalled s
        | MacDebouncing \<Rightarrow> ml_signalled s | _ \<Rightarrow> True)"

lemma mac_step_asked: "mac_step s s' \<Longrightarrow> mac_asked s \<Longrightarrow> mac_asked s'"
  by (induction rule: mac_step.induct) (auto simp: mac_asked_def mac_defs split: mac_phase.splits)

interpretation mac_stops: stopping_thread mac_step mac_asked mac_turn mac_left
proof unfold_locales
  fix s s' :: mac_loop
  show "mac_asked s \<Longrightarrow> 0 < mac_left s \<Longrightarrow> mac_step s (mac_turn s)"
    by (auto simp: mac_turn_def mac_left_def mac_asked_def intro: mac_step.intros
        split: mac_phase.splits list.splits)
  show "mac_asked s \<Longrightarrow> mac_left (mac_turn s) \<le> mac_left s - 1"
    by (auto simp: mac_turn_def mac_left_def mac_asked_def guard_ops_def mac_leave_def wake_handled_def
        split: mac_phase.splits list.splits)
  show "mac_step s s' \<Longrightarrow> mac_asked s \<Longrightarrow> mac_asked s'" by (rule mac_step_asked)
qed (auto simp: mac_turn_def mac_left_def split: mac_phase.splits list.splits if_splits)

section \<open>The coordinator\<close>

definition linux_turn :: "linux_loop \<Rightarrow> linux_loop" where
  "linux_turn s =
     (case lx_phase s of
        LinuxWaiting \<Rightarrow>
          if lx_wake s then s\<lparr>lx_phase := LinuxDebouncing, lx_wake := False\<rparr>
          else if lx_senders s = 0 then s\<lparr>lx_phase := LinuxLeaving (guard_ops False)\<rparr> else s
      | LinuxDebouncing \<Rightarrow>
          if lx_wake s then s\<lparr>lx_wake := False\<rparr>
          else if lx_senders s = 0 then s\<lparr>lx_phase := LinuxLeaving (guard_ops False)\<rparr> else s
      | LinuxChecking \<Rightarrow>
          if lp_watching (lx_report s) \<and> lf_lost (lx_flags s)
          then s\<lparr>lx_phase := (if lp_degraded (lx_report s) then LinuxLiveness else LinuxDegrading)\<rparr>
          else linux_read s
      | LinuxDegrading \<Rightarrow>
          s\<lparr>lx_phase := LinuxLiveness, lx_report := (lx_report s)\<lparr>lp_degraded := True\<rparr>,
            lx_watcher := backend (degrade KioslavercSource) (lx_watcher s)\<rparr>
      | LinuxLiveness \<Rightarrow>
          if 0 < lf_live (lx_flags s) then linux_read s
          else if lp_last_live_route (lx_report s) then s\<lparr>lx_phase := LinuxDarkening\<rparr>
          else (linux_read s)\<lparr>lx_report := (lx_report s)\<lparr>lp_watching := False\<rparr>\<rparr>
      | LinuxDarkening \<Rightarrow>
          (linux_read s)\<lparr>lx_report := (lx_report s)\<lparr>lp_watching := False\<rparr>,
            lx_watcher := backend mark_no_live_notifications (lx_watcher s)\<rparr>
      | LinuxReading torn \<Rightarrow> s\<lparr>lx_phase := LinuxPublishing (lx_world s)\<rparr>
      | LinuxPublishing r \<Rightarrow>
          s\<lparr>lx_phase := LinuxWaiting, lx_watcher := backend (publish r) (lx_watcher s)\<rparr>
      | LinuxLeaving [] \<Rightarrow> s
      | LinuxLeaving (operation # rest) \<Rightarrow>
          s\<lparr>lx_phase := LinuxLeaving rest,
            lx_watcher := backend (guard_op_on operation) (lx_watcher s)\<rparr>)"

definition linux_left :: "linux_loop \<Rightarrow> nat" where
  "linux_left s =
     (case lx_phase s of
        LinuxChecking \<Rightarrow> 9 | LinuxDegrading \<Rightarrow> 8 | LinuxLiveness \<Rightarrow> 7 | LinuxDarkening \<Rightarrow> 6
      | LinuxReading torn \<Rightarrow> 5 | LinuxPublishing r \<Rightarrow> 4
      | LinuxLeaving operations \<Rightarrow> length operations
      | _ \<Rightarrow> if lx_wake s then 3 else 2)"

lemma linux_all_lost_either:
  "lx_phase s = LinuxLiveness \<Longrightarrow> lf_live (lx_flags s) = 0 \<Longrightarrow> lp_last_live_route (lx_report s) \<Longrightarrow>
     linux_step file_name s (s\<lparr>lx_phase := LinuxDarkening\<rparr>)"
  "lx_phase s = LinuxLiveness \<Longrightarrow> lf_live (lx_flags s) = 0 \<Longrightarrow> \<not> lp_last_live_route (lx_report s) \<Longrightarrow>
     linux_step file_name s ((linux_read s)\<lparr>lx_report := (lx_report s)\<lparr>lp_watching := False\<rparr>\<rparr>)"
  "lx_phase s = LinuxChecking \<Longrightarrow> lp_watching (lx_report s) \<Longrightarrow> lf_lost (lx_flags s) \<Longrightarrow>
     lp_degraded (lx_report s) \<Longrightarrow> linux_step file_name s (s\<lparr>lx_phase := LinuxLiveness\<rparr>)"
  "lx_phase s = LinuxChecking \<Longrightarrow> lp_watching (lx_report s) \<Longrightarrow> lf_lost (lx_flags s) \<Longrightarrow>
     \<not> lp_degraded (lx_report s) \<Longrightarrow> linux_step file_name s (s\<lparr>lx_phase := LinuxDegrading\<rparr>)"
  using linux_all_lost [of s file_name] linux_something_lost [of s file_name] by simp_all

lemma linux_step_no_sender: "linux_step file_name s s' \<Longrightarrow> lx_senders s = 0 \<Longrightarrow> lx_senders s' = 0"
  by (induction rule: linux_step.induct)
    (auto simp: linux_read_def linux_wake_def linux_poll_now_def loss_callback_def
      split: option.splits)

interpretation linux_stops: stopping_thread "linux_step file_name" "\<lambda>s. lx_senders s = 0" linux_turn linux_left
proof unfold_locales
  fix s s' :: linux_loop
  show "linux_step file_name s s' \<Longrightarrow> lx_senders s = 0 \<Longrightarrow> lx_senders s' = 0"
    by (rule linux_step_no_sender)
  show "lx_senders s = 0 \<Longrightarrow> 0 < linux_left s \<Longrightarrow> linux_step file_name s (linux_turn s)"
    by (auto simp: linux_turn_def linux_left_def intro: linux_step.intros linux_all_lost_either
        split: linux_phase.splits list.splits)
  show "lx_senders s = 0 \<Longrightarrow> linux_left (linux_turn s) \<le> linux_left s - 1"
    by (auto simp: linux_turn_def linux_left_def guard_ops_def linux_read_def
        split: linux_phase.splits list.splits)
  show "lx_senders s = 0 \<Longrightarrow> linux_left s = 0 \<Longrightarrow> linux_turn s = s"
    by (cases "lx_phase s") (simp_all add: linux_turn_def linux_left_def split: if_splits)
qed

text \<open>Checked access by access or in one go, the report of losses comes to the same, if the counters
  stand still.\<close>

lemma loss_check_by_turns:
  assumes "lx_phase s = LinuxChecking"
  shows "\<exists>n \<le> 4. (linux_turn ^^ n) s =
     (linux_read s)\<lparr>lx_report := fst (loss_check (lx_flags s) (lx_report s, lx_watcher s)),
                    lx_watcher := snd (loss_check (lx_flags s) (lx_report s, lx_watcher s))\<rparr>"
proof (cases "lp_watching (lx_report s) \<and> lf_lost (lx_flags s)")
  case False
  with assms show ?thesis
    by (intro exI [of _ 1]) (auto simp: linux_turn_def linux_read_def loss_check_def)
next
  case True
  have "linux_turn s = s\<lparr>lx_phase := (if lp_degraded (lx_report s) then LinuxLiveness else LinuxDegrading)\<rparr>"
    using True assms by (simp add: linux_turn_def)
  then have "(if lp_degraded (lx_report s) then linux_turn s else linux_turn (linux_turn s))
      = s\<lparr>lx_phase := LinuxLiveness,
          lx_report := (if lp_degraded (lx_report s) then lx_report s
            else (lx_report s)\<lparr>lp_degraded := True\<rparr>),
          lx_watcher := (if lp_degraded (lx_report s) then lx_watcher s
            else backend (degrade KioslavercSource) (lx_watcher s))\<rparr>" (is "_ = ?live")
    by (simp add: linux_turn_def)
  then have "\<exists>n \<le> 2. (linux_turn ^^ n) s = ?live"
    by (cases "lp_degraded (lx_report s)")
      (auto intro: exI [of _ "1 :: nat"] exI [of _ "2 :: nat"] simp: numeral_2_eq_2)
  moreover have "\<exists>n \<le> 2. (linux_turn ^^ n) ?live = (linux_read s)
      \<lparr>lx_report := fst (loss_check (lx_flags s) (lx_report s, lx_watcher s)),
       lx_watcher := snd (loss_check (lx_flags s) (lx_report s, lx_watcher s))\<rparr>"
  proof (cases "0 < lf_live (lx_flags s) \<or> \<not> lp_last_live_route (lx_report s)")
    case alive: True
    with True have "linux_turn ?live = (linux_read s)
        \<lparr>lx_report := fst (loss_check (lx_flags s) (lx_report s, lx_watcher s)),
         lx_watcher := snd (loss_check (lx_flags s) (lx_report s, lx_watcher s))\<rparr>"
      by (cases "lp_degraded (lx_report s)") (auto simp: linux_turn_def linux_read_def loss_check_def)
    then show ?thesis by (intro exI [of _ 1]) simp
  next
    case dead: False
    then have "linux_turn ?live = ?live\<lparr>lx_phase := LinuxDarkening\<rparr>"
      by (auto simp: linux_turn_def)
    moreover have "linux_turn (?live\<lparr>lx_phase := LinuxDarkening\<rparr>) = (linux_read s)
        \<lparr>lx_report := fst (loss_check (lx_flags s) (lx_report s, lx_watcher s)),
         lx_watcher := snd (loss_check (lx_flags s) (lx_report s, lx_watcher s))\<rparr>"
      using True dead
      by (cases "lp_degraded (lx_report s)") (auto simp: linux_turn_def linux_read_def loss_check_def)
    ultimately show ?thesis by (intro exI [of _ 2]) (simp add: numeral_2_eq_2)
  qed
  ultimately obtain n m where "n \<le> 2" "m \<le> 2" "(linux_turn ^^ m) ((linux_turn ^^ n) s) = (linux_read s)
      \<lparr>lx_report := fst (loss_check (lx_flags s) (lx_report s, lx_watcher s)),
       lx_watcher := snd (loss_check (lx_flags s) (lx_report s, lx_watcher s))\<rparr>"
    by metis
  then show ?thesis by (intro exI [of _ "m + n"]) (simp add: funpow_add)
qed

section \<open>The drop on Android\<close>

text \<open>The move of the thread that drops or, while it waits in the join, of the polling thread.\<close>

definition drop_turn :: "'j jni \<Rightarrow> 'j android_drop \<Rightarrow> 'j android_drop" where
  "drop_turn J d =
     (case ad_todo d of
        [] \<Rightarrow> d
      | operation # rest \<Rightarrow>
          if drop_ready operation d then (drop_op_on J operation d)\<lparr>ad_todo := rest\<rparr>
          else d\<lparr>ad_loop := poll_turn (ad_loop d)\<rparr>)"

definition drop_left :: "'j android_drop \<Rightarrow> nat" where
  "drop_left d = (if ad_todo d = [] then 0 else length (ad_todo d) + poll_left (ad_loop d))"

text \<open>All senders are given back before the thread is joined.\<close>

fun gives_back :: "drop_op list \<Rightarrow> nat \<Rightarrow> bool" where
  "gives_back [] n = (n = 0)"
| "gives_back (JoinThread # rest) n = (n = 0 \<and> gives_back rest 0)"
| "gives_back (_ # rest) n = (0 < n \<and> gives_back rest (n - 1))"

lemma poll_left_gone: "poll_left s = 0 \<longleftrightarrow> pl_phase s = PollLeaving []"
  by (simp add: poll_left_def split: poll_phase.splits)

lemma poll_left_senders [simp]: "poll_left (s\<lparr>pl_senders := n\<rparr>) = poll_left s"
  by (simp add: poll_left_def split: poll_phase.splits)

interpretation android_stops:
  stopping_thread "android_drop_step J" "\<lambda>d. gives_back (ad_todo d) (pl_senders (ad_loop d))"
    "drop_turn J" drop_left
proof unfold_locales
  fix d d' :: "'a android_drop"
  assume due: "gives_back (ad_todo d) (pl_senders (ad_loop d))"
  have waiting: "pl_senders (ad_loop d) = 0 \<and> 0 < poll_left (ad_loop d)"
    if "ad_todo d = operation # rest" "\<not> drop_ready operation d" for operation rest
    using that due by (cases operation) (auto simp: drop_ready_def poll_left_gone [symmetric])
  show "android_drop_step J d (drop_turn J d)" if "0 < drop_left d"
    using that waiting
    by (auto simp: drop_turn_def drop_left_def poll_turn_steps intro: android_drop_step.intros
        split: list.splits if_splits)
  show "drop_left (drop_turn J d) \<le> drop_left d - 1"
  proof (cases "ad_todo d")
    case (Cons operation rest)
    then show ?thesis
      using waiting [OF Cons] poll_turn_nearer [of "ad_loop d"]
      by (cases operation) (auto simp: drop_turn_def drop_left_def drop_op_on_def poll_stop_def)
  qed (simp add: drop_turn_def drop_left_def)
  show "drop_turn J d = d" if "drop_left d = 0"
    using that by (auto simp: drop_turn_def drop_left_def split: list.splits if_splits)
  show "gives_back (ad_todo d') (pl_senders (ad_loop d'))" if "android_drop_step J d d'"
    using that due
  proof (induction rule: android_drop_step.induct)
    case (ad_dropping d operation rest)
    then show ?case by (cases operation) (auto simp: drop_op_on_def poll_stop_def)
  qed simp_all
qed

lemma android_stop_gives_back:
  "pl_senders q = (if r = None then 1 else 2) \<Longrightarrow> gives_back (android_stop r) (pl_senders q)"
  by (auto simp: android_stop_def poll_drop_def)

section \<open>Drop\<close>

lemma drop_clones: "(drop_clone ^^ n) s = s\<lparr>lx_senders := lx_senders s - n\<rparr>"
  by (induction n arbitrary: s) (simp_all add: drop_clone_def funpow_swap1)

text \<open>The clones a watch gives back are all there are, when it was started with those.\<close>

lemma linux_stop_leaves_none:
  "lx_senders s = trigger_clones r (lx_interval s) \<Longrightarrow> lx_senders (linux_stop r s) = 0"
  by (simp add: linux_stop_def drop_clones)

lemma linux_spawn_clones:
  "linux_spawn_in E shown b options w initial x = Inr (r, s) \<Longrightarrow>
     lx_senders s = trigger_clones r (lx_interval s)"
  by (auto simp: linux_spawn_in_def thread_start_Inr linux_spawn_def Let_def
      split: sum.splits prod.splits)

lemma mac_stop_asks: "mac_asked (mac_stop s)"
  by (simp add: mac_asked_def mac_stop_def mac_signal_wake_def split: mac_phase.splits)

lemma win_left_gone: "win_left s = 0 \<longleftrightarrow> wl_phase s = WinLeaving []"
  by (simp add: win_left_def split: win_phase.splits)

lemma mac_left_gone: "mac_left s = 0 \<longleftrightarrow> ml_phase s = MacLeaving []"
  by (simp add: mac_left_def split: mac_phase.splits)

lemma linux_left_gone: "linux_left s = 0 \<longleftrightarrow> lx_phase s = LinuxLeaving []"
  by (simp add: linux_left_def split: linux_phase.splits)

lemmas gone = win_left_gone mac_left_gone linux_left_gone poll_left_gone

lemma drop_left_gone: "drop_left d = 0 \<longleftrightarrow> ad_todo d = []"
  by (simp add: drop_left_def)

section \<open>What is constructed\<close>

lemma win_started:
  assumes "watcher_start E view (win_backend E shown not_found) acts id options env (n, h)
    = (ls, Inr ((armed, s), wt), m')"
  shows "\<exists>initial. win_armed_in shown not_found options (h n) = Inr armed
      \<and> win_read_config E (watch_group_policy options) (ww_time (h (Suc n))) (ww_settings (h (Suc n))) = Inr initial
      \<and> win_spawn options armed initial (h (Suc (Suc n))) = Inr (armed, s)
      \<and> win_starting shown initial s \<and> watch_run initial wt
      \<and> construction (wt_shared wt) = Some (construction_health options (win_health armed))"
  using assms
proof (rule watcher_start_Inr)
  fix w m1 initial m2 v0
  assume parts: "sb_armed (win_backend E shown not_found) options env (n, h) = (Inr w, m1)"
    "sb_read (win_backend E shown not_found) options env m1 = (Inr initial, m2)"
    "sb_spawn (win_backend E shown not_found) options w initial m2 = (Inr v0, m')"
    "(armed, s) = id v0" "watch_run initial wt"
    "construction (wt_shared wt)
      = Some (construction_health options (sb_health (win_backend E shown not_found) (armed, s)))"
  then have "win_armed_in shown not_found options (h n) = Inr w"
    "win_read_config E (watch_group_policy options) (ww_time (h (Suc n))) (ww_settings (h (Suc n))) = Inr initial"
    "win_spawn options w initial (h (Suc (Suc n))) = Inr (armed, s)"
    by (auto simp: win_backend_def look_eq)
  moreover from this(3) have "armed = w" by (simp add: win_spawn_def thread_start_Inr)
  ultimately show ?thesis using parts(5,6) win_spawn_starts [of shown not_found options "h n"]
    by (auto simp: win_backend_def)
qed

lemma mac_started:
  assumes "watcher_start E view (mac_backend E status_text shown) acts id options env (n, h)
    = (ls, Inr ((lost, s), wt), m')"
  shows "\<exists>initial. wake_source_new (h n) = Inr () \<and> mac_read_now E status_text (h (Suc n)) = Inr initial
      \<and> mac_spawn E status_text shown options initial (h (Suc (Suc n))) = Inr (lost, s)
      \<and> mac_starting initial s \<and> watch_run initial wt
      \<and> construction (wt_shared wt) = Some (construction_health options (mac_health lost))"
  using assms
  by (rule watcher_start_Inr) (auto simp: mac_backend_def look_eq, metis mac_spawn_starts)

lemma linux_started:
  assumes "watcher_start E view (linux_backend E shown b) acts id options env (n, h)
    = (ls, Inr ((r, s), wt), m')"
  shows "\<exists>initial armed. linux_armed_in shown b options env (h n) = Inr armed
      \<and> linux_read_now E b env (h (Suc n)) = Inr initial
      \<and> linux_spawn_in E shown b options armed initial (h (Suc (Suc n))) = Inr (r, s)
      \<and> linux_starting initial s \<and> watch_run initial wt
      \<and> lx_senders s = trigger_clones r (lx_interval s)
      \<and> construction (wt_shared wt) = Some (construction_health options (linux_health r (lx_flags s)))"
  using assms
  by (rule watcher_start_Inr)
    (auto simp: linux_backend_def look_eq, metis linux_spawn_starts linux_spawn_clones)

lemma poll_armed_interval: "poll_armed options = Inr starts \<Longrightarrow> opt_poll_interval options \<noteq> None"
  by (auto simp: poll_armed_def split: if_splits)

lemma polled_not_frozen:
  "opt_poll_interval options \<noteq> None \<or> bh_live bh \<Longrightarrow> \<not> is_frozen (construction_health options bh)"
  by (auto simp: is_frozen_def construction_health_def)

lemma ios_started:
  assumes "watcher_start E view (ios_backend E) acts id options env (n, h) = (ls, Inr (s, wt), m')"
  shows "\<exists>initial starts. poll_armed options = Inr starts \<and> ios_read_now E (h (Suc n)) = Inr initial
      \<and> poll_spawn starts initial (ios_read_now E (h (Suc (Suc n)))) (iw_thread (h (Suc (Suc n)))) = Inr s
      \<and> poll_starting initial s \<and> watch_run initial wt
      \<and> construction (wt_shared wt) = Some (construction_health options poll_health)
      \<and> \<not> is_frozen (construction_health options poll_health)"
  using assms
  by (rule watcher_start_Inr)
    (simp del: not_None_eq add: ios_backend_def look_eq,
      metis poll_spawn_starts poll_armed_interval polled_not_frozen)

lemma poll_cloned: "loop_run poll_step (poll_new options initial w) ((poll_new options initial w)\<lparr>pl_senders := 2\<rparr>)"
proof -
  let ?s = "poll_new options initial w"
  have "poll_step ?s (?s\<lparr>pl_senders := pl_senders ?s + 1\<rparr>)" by (rule poll_clone) (simp add: poll_new_def)
  then have "poll_step ?s (?s\<lparr>pl_senders := 2\<rparr>)" by (simp add: poll_new_def numeral_2_eq_2)
  from loop_next [of poll_step ?s ?s, OF loop_start this] show ?thesis .
qed

lemma android_armed_Inr:
  assumes "android_armed J dex shown sender options s = (Inr w, s')"
  shows "aw_registration w \<noteq> None \<or> opt_poll_interval options \<noteq> None"
    "loop_run poll_step (poll_new options initial now) (aw_poll w initial now)"
    "pl_senders (aw_poll w initial now) = (if aw_registration w = None then 1 else 2)"
  using assms poll_cloned [of options initial now]
  by (auto simp: android_armed_def watch_fail_soft_reachable_def watch_fail_soft_def poll_new_def loop_start
      split: prod.splits sum.splits fail_soft.splits if_splits)

lemma android_started:
  assumes "watcher_start E view (android_backend E J dex shown sender) acts id options env s
    = (ls, Inr ((g, loop), wt), s')"
  shows "\<exists>initial w s1 s2. android_armed J dex shown sender options s = (Inr w, s1)
      \<and> android_read_config E J s1 = (Inr initial, s2)
      \<and> android_spawn E J w initial s2 = (Inr (g, loop), s')
      \<and> (\<exists>start. poll_starting initial start \<and> loop_run poll_step start loop) \<and> watch_run initial wt
      \<and> pl_senders loop = (if g = None then 1 else 2)
      \<and> construction (wt_shared wt) = Some (construction_health options (android_health g))
      \<and> \<not> is_frozen (construction_health options (android_health g))"
proof -
  obtain w m1 initial m2 v0 where parts:
    "android_armed J dex shown sender options s = (Inr w, m1)"
    "android_read_config E J m1 = (Inr initial, m2)"
    "android_spawn E J w initial m2 = (Inr v0, s')" "(g, loop) = id v0" "watch_run initial wt"
    "construction (wt_shared wt) = Some (construction_health options (android_health g))"
    using assms by (rule watcher_start_Inr) (auto simp: android_backend_def)
  from parts(3,4) have g: "g = aw_registration w"
    "loop = aw_poll w initial (fst (android_read_config E J m2))"
    by (auto simp: android_spawn_def poll_spawn_def thread_start_def map_sum_def split: sum.splits option.splits)
  note armed = android_armed_Inr [OF parts(1)]
  have "poll_starting initial (poll_new options initial (fst (android_read_config E J m2)))"
    unfolding poll_starting_def by blast
  moreover have "\<not> is_frozen (construction_health options (android_health g))"
    using armed(1) by (intro polled_not_frozen) (auto simp: g(1) android_health_def)
  ultimately show ?thesis using armed(2,3) parts(1-3,5,6) parts(4) [symmetric] unfolding g by fastforce
qed


end
