(* ===== verification/Bridge.thy ===== *)
theory Bridge
  imports Stream_Client
begin

text \<open>
  \<open>src/bridge.rs\<close>: the task that feeds one watcher's configurations to any number of receivers of
  a \<open>tokio::sync::watch\<close> channel. The channel is tokio's: its operations are a record here, and
  what its documentation says of them the laws the task is proved from.
\<close>

section \<open>The channel\<close>

text \<open>\<open>send_if_modified\<close> runs its closure on the value, and tells the receivers when that says it
  has modified it; \<open>version\<close> counts the times they were told.\<close>

record 'c watch_channel_ops =
  tw_channel :: "proxy_config \<Rightarrow> 'c"
  tw_send_if_modified :: "(proxy_config \<Rightarrow> bool \<times> proxy_config) \<Rightarrow> 'c \<Rightarrow> 'c"
  tw_clone_receiver :: "'c \<Rightarrow> 'c"
  tw_drop_receiver :: "'c \<Rightarrow> 'c"
  tw_is_closed :: "'c \<Rightarrow> bool"
  tw_value :: "'c \<Rightarrow> proxy_config"
  tw_version :: "'c \<Rightarrow> nat"

definition channel_laws :: "'c watch_channel_ops \<Rightarrow> bool" where
  "channel_laws T \<longleftrightarrow>
     (\<forall>c. tw_value T (tw_channel T c) = c \<and> \<not> tw_is_closed T (tw_channel T c)
        \<and> tw_version T (tw_channel T c) = 0)
     \<and> (\<forall>f ch. tw_value T (tw_send_if_modified T f ch) = snd (f (tw_value T ch))
        \<and> tw_version T (tw_send_if_modified T f ch)
            = (if fst (f (tw_value T ch)) then tw_version T ch + 1 else tw_version T ch)
        \<and> tw_is_closed T (tw_send_if_modified T f ch) = tw_is_closed T ch)
     \<and> (\<forall>ch. tw_value T (tw_clone_receiver T ch) = tw_value T ch
        \<and> tw_version T (tw_clone_receiver T ch) = tw_version T ch
        \<and> tw_is_closed T (tw_clone_receiver T ch) = tw_is_closed T ch
        \<and> tw_value T (tw_drop_receiver T ch) = tw_value T ch
        \<and> tw_version T (tw_drop_receiver T ch) = tw_version T ch)"

section \<open>The task\<close>

datatype bridge_task = BridgeRunning | BridgeParked | BridgeGone

text \<open>\<open>br_published\<close> are the configurations the receivers were told of, the first one in front.\<close>

record 'c bridge_state =
  br_watcher :: "watcher option"
  br_channel :: 'c
  br_task :: bridge_task
  br_published :: "proxy_config list"

definition bridge_start :: "'c watch_channel_ops \<Rightarrow> watcher \<Rightarrow> 'c bridge_state" where
  "bridge_start T wt =
     \<lparr> br_watcher = Some wt, br_channel = tw_channel T (sh_current (wt_shared wt)),
       br_task = BridgeRunning, br_published = [sh_current (wt_shared wt)] \<rparr>"

text \<open>The closure handed to \<open>send_if_modified\<close>.\<close>

definition take_if_new :: "proxy_config \<Rightarrow> proxy_config \<Rightarrow> bool \<times> proxy_config" where
  "take_if_new config current = (if config_eq current config then (False, current) else (True, config))"

definition bridge_item :: "'c watch_channel_ops \<Rightarrow> watch_event \<Rightarrow> 'c bridge_state \<Rightarrow> 'c bridge_state" where
  "bridge_item T item s =
     (case item of
        SnapshotEvent st \<Rightarrow>
          s\<lparr>br_channel := tw_send_if_modified T (take_if_new (ws_config st)) (br_channel s),
            br_published := br_published s
              @ (if fst (take_if_new (ws_config st) (tw_value T (br_channel s)))
                 then [ws_config st] else [])\<rparr>
      | ErrorEvent e st \<Rightarrow> s)"

text \<open>One turn of the loop: \<open>closed\<close> is asked before the stream, and whoever ends drops both the
  sender and the watcher.\<close>

definition bridge_end :: "'c bridge_state \<Rightarrow> 'c bridge_state" where
  "bridge_end s = s\<lparr>br_task := BridgeGone, br_watcher := None\<rparr>"

definition bridge_turn :: "'c watch_channel_ops \<Rightarrow> 'c bridge_state \<Rightarrow> 'c bridge_state" where
  "bridge_turn T s =
     (if tw_is_closed T (br_channel s) then bridge_end s
      else (case br_watcher s of
              None \<Rightarrow> bridge_end s
            | Some wt \<Rightarrow>
                (let (wt', r) = consumer_poll 0 wt; s' = s\<lparr>br_watcher := Some wt'\<rparr>
                 in case r of
                      Ready item \<Rightarrow> bridge_item T item s'
                    | Ended \<Rightarrow> bridge_end s'
                    | Pending \<Rightarrow> s'\<lparr>br_task := BridgeParked\<rparr>)))"

text \<open>A task that is parked is woken by the watcher's waker and by the last receiver that goes; an
  executor may poll it besides.\<close>

definition bridge_woken :: "bool \<Rightarrow> 'c bridge_state \<Rightarrow> 'c bridge_state" where
  "bridge_woken w s = (if w \<and> br_task s = BridgeParked then s\<lparr>br_task := BridgeRunning\<rparr> else s)"

inductive bridge_step :: "'c watch_channel_ops \<Rightarrow> 'c bridge_state \<Rightarrow> 'c bridge_state \<Rightarrow> bool" for T where
  br_backend:
    "br_watcher s = Some wt \<Longrightarrow> backend_call f \<Longrightarrow>
       bridge_step T s
         (bridge_woken (woken_by_backend wt (backend f wt)) (s\<lparr>br_watcher := Some (backend f wt)\<rparr>))"
| br_turn: "br_task s = BridgeRunning \<Longrightarrow> bridge_step T s (bridge_turn T s)"
| br_spurious: "br_task s = BridgeParked \<Longrightarrow> bridge_step T s (bridge_woken True s)"
| br_clone:
    "\<not> tw_is_closed T (br_channel s) \<Longrightarrow>
       bridge_step T s (s\<lparr>br_channel := tw_clone_receiver T (br_channel s)\<rparr>)"
| br_drop:
    "\<not> tw_is_closed T (br_channel s) \<Longrightarrow>
       bridge_step T s
         (bridge_woken (tw_is_closed T (tw_drop_receiver T (br_channel s)))
            (s\<lparr>br_channel := tw_drop_receiver T (br_channel s)\<rparr>))"

text \<open>\<open>watch_channel\<close> takes any watcher the constructor handed out.\<close>

inductive bridge_run :: "'c watch_channel_ops \<Rightarrow> 'c bridge_state \<Rightarrow> 'c bridge_state \<Rightarrow> bool" for T start where
  br_start:
    "watch_run initial wt \<Longrightarrow> construction (wt_shared wt) \<noteq> None \<Longrightarrow> start = bridge_start T wt \<Longrightarrow>
       bridge_run T start start"
| br_more: "bridge_run T start s \<Longrightarrow> bridge_step T s s' \<Longrightarrow> bridge_run T start s'"

section \<open>Invariants\<close>

definition bridge_ok :: "'c watch_channel_ops \<Rightarrow> 'c bridge_state \<Rightarrow> bool" where
  "bridge_ok T s \<longleftrightarrow>
     (case br_watcher s of
        None \<Rightarrow> br_task s = BridgeGone
      | Some wt \<Rightarrow>
          watcher_ok wt \<and> construction (wt_shared wt) \<noteq> None
          \<and> (news (wt_shared wt) \<or> config_eq (tw_value T (br_channel s)) (sh_current (wt_shared wt)))
          \<and> (if br_task s = BridgeParked
             then wt_parked wt \<noteq> None \<and> \<not> tw_is_closed T (br_channel s) else True))"

definition published_ok :: "'c watch_channel_ops \<Rightarrow> 'c bridge_state \<Rightarrow> bool" where
  "published_ok T s \<longleftrightarrow>
     br_published s \<noteq> [] \<and> last (br_published s) = tw_value T (br_channel s)
     \<and> length (br_published s) = Suc (tw_version T (br_channel s))
     \<and> successively (\<lambda>a b. \<not> config_eq a b) (br_published s)"

lemma successively_last:
  "xs \<noteq> [] \<Longrightarrow> successively P (xs @ [y]) \<longleftrightarrow> successively P xs \<and> P (last xs) y"
  using successively_append_iff [of P xs "[y]"] by simp

lemmas bridge_defs = Let_def bridge_turn_def bridge_item_def bridge_end_def bridge_woken_def take_if_new_def

lemma channel_facts:
  assumes "channel_laws T"
  shows "tw_value T (tw_channel T c) = c" "\<not> tw_is_closed T (tw_channel T c)"
    "tw_version T (tw_channel T c) = 0"
    "tw_value T (tw_send_if_modified T f ch) = snd (f (tw_value T ch))"
    "tw_version T (tw_send_if_modified T f ch)
       = (if fst (f (tw_value T ch)) then tw_version T ch + 1 else tw_version T ch)"
    "tw_is_closed T (tw_send_if_modified T f ch) = tw_is_closed T ch"
    "tw_value T (tw_clone_receiver T ch) = tw_value T ch"
    "tw_version T (tw_clone_receiver T ch) = tw_version T ch"
    "tw_is_closed T (tw_clone_receiver T ch) = tw_is_closed T ch"
    "tw_value T (tw_drop_receiver T ch) = tw_value T ch"
    "tw_version T (tw_drop_receiver T ch) = tw_version T ch"
  using assms by (simp_all add: channel_laws_def)

lemma turn_ok:
  assumes "channel_laws T" "bridge_ok T s" "br_task s = BridgeRunning"
  shows "bridge_ok T (bridge_turn T s)"
proof (cases "br_watcher s")
  case None
  with assms show ?thesis by (auto simp: bridge_ok_def)
next
  case (Some wt)
  obtain wt' r where r: "consumer_poll 0 wt = (wt', r)" by fastforce
  from assms Some have ok: "watcher_ok wt" "construction (wt_shared wt) \<noteq> None"
    and told: "news (wt_shared wt) \<or> config_eq (tw_value T (br_channel s)) (sh_current (wt_shared wt))"
    by (simp_all add: bridge_ok_def)
  have ok': "watcher_ok wt'" "construction (wt_shared wt') \<noteq> None"
    using consumer_poll_ok [OF ok, of 0] r poll_latest(1) [OF r] ok by simp_all
  show ?thesis
  proof (cases "\<exists>st. r = Ready (SnapshotEvent st)")
    case True
    then obtain st where st: "r = Ready (SnapshotEvent st)" ..
    have "config_eq (ws_config st) (sh_current (wt_shared wt'))" by (rule poll_latest(2) [OF r st])
    then show ?thesis
      using Some r st ok' assms(3)
      by (auto simp: bridge_ok_def bridge_defs channel_facts [OF assms(1)]
          intro: config_eq_trans split: option.splits)
  next
    case False
    with poll_latest(3) [OF r] told have
      "news (wt_shared wt') \<or> config_eq (tw_value T (br_channel s)) (sh_current (wt_shared wt'))"
      by auto
    with False show ?thesis
      using Some r ok' assms(3) pending_parks [of 0 wt wt']
      by (cases r) (auto simp: bridge_ok_def bridge_defs split: watch_event.splits)
  qed
qed

lemma step_bridge_ok:
  assumes "channel_laws T"
  shows "bridge_step T s s' \<Longrightarrow> bridge_ok T s \<Longrightarrow> bridge_ok T s'"
proof (induction rule: bridge_step.induct)
  case (br_backend s wt f)
  then have ok: "watcher_ok wt" by (simp add: bridge_ok_def)
  with br_backend backend_call_ok [OF br_backend(2) ok] show ?case
    by (auto simp: bridge_ok_def bridge_woken_def woken_by_backend_def wt_shared_backend)
next
  case (br_turn s)
  then show ?case by (intro turn_ok assms)
qed (auto simp: bridge_ok_def bridge_woken_def channel_facts [OF assms] split: option.splits)

lemma step_published_ok:
  assumes "channel_laws T"
  shows "bridge_step T s s' \<Longrightarrow> published_ok T s \<Longrightarrow> published_ok T s'"
  by (induction rule: bridge_step.induct)
    (auto simp: published_ok_def bridge_defs Let_def channel_facts [OF assms] successively_last
      split: option.splits prod.splits poll.splits watch_event.splits)

lemma run_bridge_ok:
  assumes "channel_laws T"
  shows "bridge_run T start s \<Longrightarrow> bridge_ok T s \<and> published_ok T s"
proof (induction rule: bridge_run.induct)
  case (br_start initial wt)
  then show ?case
    using watch_run_ok [of initial wt]
    by (simp add: bridge_start_def bridge_ok_def published_ok_def channel_facts [OF assms]
        config_eq_same)
next
  case (br_more s s')
  then show ?case using step_bridge_ok [OF assms] step_published_ok [OF assms] by blast
qed

lemma gone_lets_go: "bridge_run T start s \<Longrightarrow> br_task s = BridgeGone \<Longrightarrow> br_watcher s = None"
proof (induction rule: bridge_run.induct)
  case (br_more s s')
  from br_more.hyps(2) br_more.prems br_more.IH show ?case
    by (induction rule: bridge_step.induct)
      (auto simp: bridge_defs Let_def split: option.splits prod.splits poll.splits watch_event.splits
        if_splits)
qed (simp add: bridge_start_def)

section \<open>Properties\<close>

text \<open>C29. Over a channel that keeps tokio's word: a parked task has told the receivers the
  configuration the watcher has, and some receiver is left to be told; every configuration the
  receivers were told of differs from the one before; and with the last receiver gone the task is
  not asleep, and its next turn ends it and lets go of the watcher.\<close>

theorem the_bridge_keeps_receivers_up_to_date:
  assumes "channel_laws T" "bridge_run T start s"
  shows "(case br_watcher s of
       None \<Rightarrow> br_task s = BridgeGone
     | Some wt \<Rightarrow>
         if br_task s = BridgeParked
         then config_eq (tw_value T (br_channel s)) (sh_current (wt_shared wt))
         else br_task s = BridgeRunning)
   \<and> successively (\<lambda>a b. \<not> config_eq a b) (br_published s)
   \<and> length (br_published s) = Suc (tw_version T (br_channel s))
   \<and> (if tw_is_closed T (br_channel s)
      then br_task s \<noteq> BridgeParked \<and> br_watcher (bridge_turn T s) = None
        \<and> br_task (bridge_turn T s) = BridgeGone
      else True)"
proof -
  note ok = run_bridge_ok [OF assms]
  have task: "br_watcher s \<noteq> None \<Longrightarrow> br_task s \<noteq> BridgeGone" using gone_lets_go [OF assms(2)] by auto
  have "config_eq (tw_value T (br_channel s)) (sh_current (wt_shared wt))"
    if "br_watcher s = Some wt" "br_task s = BridgeParked" for wt
  proof -
    have "watcher_ok wt" "wt_parked wt \<noteq> None"
      and told: "news (wt_shared wt)
        \<or> config_eq (tw_value T (br_channel s)) (sh_current (wt_shared wt))"
      using ok that by (simp_all add: bridge_ok_def)
    then have "\<not> news (wt_shared wt)" by (auto simp: watcher_ok_def Let_def news_def)
    with told show ?thesis by blast
  qed
  moreover have "br_task s \<noteq> BridgeParked" if "tw_is_closed T (br_channel s)"
    using ok that by (auto simp: bridge_ok_def split: option.splits)
  ultimately show ?thesis
    using ok task
    by (cases "br_task s") (auto simp: bridge_ok_def published_ok_def bridge_turn_def bridge_end_def
        split: option.splits)
qed

section \<open>One run\<close>

text \<open>A channel that keeps the laws: its value, its version and its receivers.\<close>

definition counted_channel :: "(proxy_config \<times> nat \<times> nat) watch_channel_ops" where
  "counted_channel =
     \<lparr> tw_channel = (\<lambda>c. (c, 0, 1)),
       tw_send_if_modified = (\<lambda>f (c, v, n). (snd (f c), if fst (f c) then v + 1 else v, n)),
       tw_clone_receiver = (\<lambda>(c, v, n). (c, v, if n = 0 then 0 else n + 1)),
       tw_drop_receiver = (\<lambda>(c, v, n). (c, v, n - 1)),
       tw_is_closed = (\<lambda>(c, v, n). n = 0), tw_value = (\<lambda>(c, v, n). c),
       tw_version = (\<lambda>(c, v, n). v) \<rparr>"

lemma counted_channel_laws: "channel_laws counted_channel"
  by (auto simp: channel_laws_def counted_channel_def)

text \<open>A change while the task runs, and two turns.\<close>

definition sample_bridge :: "(proxy_config \<times> nat \<times> nat) bridge_state" where
  "sample_bridge = bridge_start counted_channel sample_reported"

definition sample_bridge_changed :: "(proxy_config \<times> nat \<times> nat) bridge_state" where
  "sample_bridge_changed =
     bridge_woken (woken_by_backend sample_reported (backend (emit sample_change) sample_reported))
       (sample_bridge\<lparr>br_watcher := Some (backend (emit sample_change) sample_reported)\<rparr>)"

definition sample_bridge_parked :: "(proxy_config \<times> nat \<times> nat) bridge_state" where
  "sample_bridge_parked = bridge_turn counted_channel (bridge_turn counted_channel sample_bridge_changed)"

lemma sample_bridge_run: "bridge_run counted_channel sample_bridge sample_bridge_parked"
proof -
  have run: "bridge_run counted_channel sample_bridge sample_bridge"
    by (rule br_start [OF sample_run_reported sample_construction(2) sample_bridge_def])
  have "br_watcher sample_bridge = Some sample_reported"
    by (simp add: sample_bridge_def bridge_start_def)
  from br_more [OF run br_backend [OF this]]
  have "bridge_run counted_channel sample_bridge sample_bridge_changed"
    unfolding sample_bridge_changed_def by (blast intro: backend_call.intros)
  moreover have "br_task sample_bridge_changed = BridgeRunning"
    "br_task (bridge_turn counted_channel sample_bridge_changed) = BridgeRunning" by code_simp+
  ultimately show ?thesis
    unfolding sample_bridge_parked_def by (blast intro: br_more br_turn)
qed

theorem the_bridge_keeps_receivers_up_to_date_witness:
  "config_eq (tw_value counted_channel (br_channel sample_bridge_parked)) sample_change
     \<and> successively (\<lambda>a b. \<not> config_eq a b) (br_published sample_bridge_parked)"
proof -
  have "map_option (\<lambda>wt. sh_current (wt_shared wt)) (br_watcher sample_bridge_parked) = Some sample_change"
    "br_task sample_bridge_parked = BridgeParked" by code_simp+
  then show ?thesis
    using the_bridge_keeps_receivers_up_to_date [OF counted_channel_laws sample_bridge_run]
    by (auto split: option.splits)
qed

end
