(* ===== verification/Ios_Hints.thy ===== *)
theory Ios_Hints
  imports Platforms
begin

text \<open>
  The two early wake-ups of \<open>src/sys/ios.rs\<close>: an observer of UIKit's notification and a path
  monitor of Network.framework, which carry the number of a slot of \<open>src/sys/poll.rs\<close> in place of
  a pointer. What the two frameworks hold is the state here; either may call back after its
  registration was taken away.
\<close>

section \<open>What the frameworks hold\<close>

text \<open>Observers by their key, monitors that run by the number their block carries.\<close>

record ios_frameworks =
  if_slots :: wake_slots
  if_observers :: "u64 list"
  if_monitors :: "u64 list"

definition frameworks_new :: ios_frameworks where
  "frameworks_new = \<lparr> if_slots = slots_new, if_observers = [], if_monitors = [] \<rparr>"

text \<open>\<open>hi_monitor\<close>: \<open>nw_path_monitor_create\<close> returned a monitor.\<close>

record hints =
  hi_slot :: u64
  hi_monitor :: bool

definition observer_key :: "u64 \<Rightarrow> u64" where
  "observer_key i = i"

definition hints_new :: "bool \<Rightarrow> nat \<Rightarrow> ios_frameworks \<Rightarrow> ios_frameworks \<times> hints" where
  "hints_new created sender fw =
     (let (slots, i) = wake_slot_new sender (if_slots fw)
      in (fw\<lparr>if_slots := slots, if_observers := observer_key i # if_observers fw,
             if_monitors := (if created then i # if_monitors fw else if_monitors fw)\<rparr>,
          \<lparr> hi_slot = i, hi_monitor = created \<rparr>))"

text \<open>The registrations go, and the slot with them.\<close>

definition hints_drop :: "hints \<Rightarrow> ios_frameworks \<Rightarrow> ios_frameworks" where
  "hints_drop h fw =
     fw\<lparr>if_observers := filter (\<lambda>k. k \<noteq> observer_key (hi_slot h)) (if_observers fw),
        if_monitors := (if hi_monitor h then remove1 (hi_slot h) (if_monitors fw) else if_monitors fw),
        if_slots := wake_slot_drop (hi_slot h) (if_slots fw)\<rparr>"

text \<open>The callbacks, which wake the sender that is filed.\<close>

definition became_active :: "u64 \<Rightarrow> ios_frameworks \<Rightarrow> nat option" where
  "became_active observer fw = slot_wake observer (if_slots fw)"

definition path_updated :: "u64 \<Rightarrow> ios_frameworks \<Rightarrow> nat option" where
  "path_updated captured fw = slot_wake captured (if_slots fw)"

text \<open>\<open>Watch::armed\<close>: the hints are made once the polling watch has agreed.\<close>

definition ios_armed ::
    "watch_options \<Rightarrow> bool \<Rightarrow> nat \<Rightarrow> ios_frameworks
       \<Rightarrow> (proxy_error + (proxy_config \<Rightarrow> answer \<Rightarrow> poll_loop) \<times> hints) \<times> ios_frameworks" where
  "ios_armed options created sender fw =
     (case poll_armed options of
        Inl e \<Rightarrow> (Inl e, fw)
      | Inr poll \<Rightarrow> (let (fw', h) = hints_new created sender fw in (Inr (poll, h), fw')))"

section \<open>Any use of the hints\<close>

text \<open>\<open>live\<close> are the hints that are held, with their senders.\<close>

inductive hints_run :: "(hints \<times> nat) list \<Rightarrow> ios_frameworks \<Rightarrow> bool" where
  no_hints: "hints_run [] frameworks_new"
| new_hints:
    "hints_run live fw \<Longrightarrow> unat (next_id (if_slots fw)) + 1 < 2 ^ 64 \<Longrightarrow>
       hints_run ((snd (hints_new created sender fw), sender) # live) (fst (hints_new created sender fw))"
| dropped_hints:
    "hints_run live fw \<Longrightarrow> (h, sender) \<in> set live \<Longrightarrow>
       hints_run (filter (\<lambda>l. hi_slot (fst l) \<noteq> hi_slot h) live) (hints_drop h fw)"

definition slots_of :: "(hints \<times> nat) list \<Rightarrow> u64 list" where
  "slots_of live = map (hi_slot \<circ> fst) live"

definition hints_ok :: "(hints \<times> nat) list \<Rightarrow> ios_frameworks \<Rightarrow> bool" where
  "hints_ok live fw \<longleftrightarrow>
     filed (if_slots fw) = map_of (map (\<lambda>(h, sender). (hi_slot h, sender)) live)
     \<and> list_all (\<lambda>i. i < next_id (if_slots fw)) (slots_of live)
     \<and> distinct (slots_of live)
     \<and> set (if_observers fw) = set (slots_of live)
     \<and> set (if_monitors fw) = set (slots_of (filter (hi_monitor \<circ> fst) live))
     \<and> distinct (if_monitors fw)"

lemmas hints_defs = hints_new_def hints_drop_def wake_slot_new_def wake_slot_drop_def observer_key_def

lemma next_is_more:
  fixes n :: u64
  assumes "unat n + 1 < 2 ^ 64"
  shows "i < n \<Longrightarrow> i < n + 1" "n < n + 1"
proof -
  have "unat (n + 1) = unat n + 1" using assms by (simp add: unat_word_ariths)
  then show "n < n + 1" "i < n \<Longrightarrow> i < n + 1" by (simp_all add: word_less_nat_alt)
qed

lemma map_of_filter_key:
  "map_of (map (\<lambda>(h, v). (k h, v)) (filter (\<lambda>l. k (fst l) \<noteq> i) xs))
     = (map_of (map (\<lambda>(h, v). (k h, v)) xs))(i := None)"
  by (induction xs) (auto simp: fun_eq_iff)

lemma hints_run_ok: "hints_run live fw \<Longrightarrow> hints_ok live fw"
proof (induction rule: hints_run.induct)
  case no_hints
  then show ?case by (simp add: hints_ok_def frameworks_new_def slots_new_def slots_of_def)
next
  case (new_hints live fw created sender)
  note more = next_is_more [OF new_hints.hyps(2)]
  from new_hints.IH have "next_id (if_slots fw) \<notin> set (slots_of live)"
    by (auto simp: hints_ok_def list_all_iff)
  with new_hints.IH more show ?case
    by (auto simp: hints_ok_def hints_defs slots_of_def list_all_iff)
next
  case (dropped_hints live fw h sender)
  have slots: "slots_of (filter (\<lambda>l. hi_slot (fst l) \<noteq> hi_slot h) xs)
      = filter (\<lambda>i. i \<noteq> hi_slot h) (slots_of xs)" for xs
    by (simp add: slots_of_def filter_map comp_def)
  have same: "l = (h, sender)" if "l \<in> set live" "hi_slot (fst l) = hi_slot h" for l
    using dropped_hints that by (auto simp: hints_ok_def slots_of_def distinct_map inj_on_def)
  have "hi_slot h \<notin> set (if_monitors fw)" if "\<not> hi_monitor h"
    using dropped_hints.IH that same by (fastforce simp: hints_ok_def slots_of_def)
  moreover have "slots_of (filter (hi_monitor \<circ> fst) (filter (\<lambda>l. hi_slot (fst l) \<noteq> hi_slot h) live))
      = filter (\<lambda>i. i \<noteq> hi_slot h) (slots_of (filter (hi_monitor \<circ> fst) live))"
    by (simp add: slots [symmetric] conj_commute)
  ultimately show ?case
    using dropped_hints.IH
    by (auto simp: hints_ok_def hints_defs map_of_filter_key list_all_iff slots)
qed

section \<open>Properties\<close>

text \<open>As long as the ids have not been used up: a hint that is held wakes its own watch, whichever
  framework calls and however many hints there are; once it is dropped, neither framework holds a
  registration of it, a callback that comes late wakes nothing, and every other hint is untouched.\<close>

theorem hints_wake_their_own_watch:
  assumes "hints_run live fw" "(h, sender) \<in> set live"
  shows "became_active (observer_key (hi_slot h)) fw = Some sender
    \<and> path_updated (hi_slot h) fw = Some sender
    \<and> observer_key (hi_slot h) \<in> set (if_observers fw)
    \<and> became_active (observer_key (hi_slot h)) (hints_drop h fw) = None
    \<and> path_updated (hi_slot h) (hints_drop h fw) = None
    \<and> observer_key (hi_slot h) \<notin> set (if_observers (hints_drop h fw))
    \<and> hi_slot h \<notin> set (if_monitors (hints_drop h fw))
    \<and> list_all (\<lambda>(h', sender'). if hi_slot h' = hi_slot h then h' = h
         else path_updated (hi_slot h') (hints_drop h fw) = Some sender') live"
proof -
  note ok = hints_run_ok [OF assms(1)]
  have dist: "distinct (map fst (map (\<lambda>(h, sender). (hi_slot h, sender)) live))"
    using ok by (simp add: hints_ok_def slots_of_def comp_def case_prod_unfold)
  have wakes: "filed (if_slots fw) (hi_slot h') = Some sender'" if "(h', sender') \<in> set live" for h' sender'
    using ok that dist by (auto simp: hints_ok_def intro!: map_of_is_SomeI)
  have same: "h' = h" if "(h', sender') \<in> set live" "hi_slot h' = hi_slot h" for h' sender'
  proof -
    have "distinct (map (hi_slot \<circ> fst) live)" using ok by (simp add: hints_ok_def slots_of_def)
    then have "inj_on (hi_slot \<circ> fst) (set live)" by (simp add: distinct_map)
    from inj_onD [OF this, of "(h', sender')" "(h, sender)"] that assms(2) show ?thesis by simp
  qed
  have "hi_slot h \<in> set (if_observers fw)"
    using ok assms(2) by (force simp: hints_ok_def slots_of_def)
  moreover have "hi_slot h \<notin> set (if_monitors (hints_drop h fw))"
    using hints_run_ok [OF dropped_hints [OF assms]] by (auto simp: hints_ok_def slots_of_def)
  ultimately show ?thesis
    using wakes same assms(2)
    by (auto simp: became_active_def path_updated_def slot_wake_def hints_drop_def wake_slot_drop_def
        observer_key_def list_all_iff)
qed

text \<open>Two watches, one without a monitor.\<close>

definition two_watches :: "ios_frameworks" where
  "two_watches = fst (hints_new False 8 (fst (hints_new True 7 frameworks_new)))"

definition two_hints :: "(hints \<times> nat) list" where
  "two_hints = [(\<lparr> hi_slot = 2, hi_monitor = False \<rparr>, 8), (\<lparr> hi_slot = 1, hi_monitor = True \<rparr>, 7)]"

lemma two_watches_run: "hints_run two_hints two_watches"
proof -
  let ?one = "fst (hints_new True 7 frameworks_new)"
  have one: "snd (hints_new True 7 frameworks_new) = \<lparr> hi_slot = 1, hi_monitor = True \<rparr>"
    by (simp add: hints_new_def wake_slot_new_def frameworks_new_def slots_new_def)
  have two: "snd (hints_new False 8 ?one) = \<lparr> hi_slot = 2, hi_monitor = False \<rparr>"
    by (simp add: hints_new_def wake_slot_new_def frameworks_new_def slots_new_def)
  have "hints_run [(\<lparr> hi_slot = 1, hi_monitor = True \<rparr>, 7)] ?one"
    unfolding one [symmetric]
    by (rule new_hints [OF no_hints]) (simp add: frameworks_new_def slots_new_def)
  then have "hints_run ((snd (hints_new False 8 ?one), 8) # [(\<lparr> hi_slot = 1, hi_monitor = True \<rparr>, 7)])
      (fst (hints_new False 8 ?one))"
    by (rule new_hints) (simp add: hints_new_def wake_slot_new_def frameworks_new_def slots_new_def)
  then show ?thesis by (simp only: two two_hints_def two_watches_def)
qed

theorem hints_wake_their_own_watch_witness:
  "path_updated 1 two_watches = Some 7
     \<and> path_updated 1 (hints_drop \<lparr> hi_slot = 1, hi_monitor = True \<rparr> two_watches) = None"
  using hints_wake_their_own_watch [OF two_watches_run, of "\<lparr> hi_slot = 1, hi_monitor = True \<rparr>" 7]
  by (simp add: two_hints_def)

end
