(* ===== verification/Binding_C.thy ===== *)
theory Binding_C
  imports Binding_Describe Binding_Watch Binding_Route_Facts
begin

text \<open>
  \<open>bindings/c/src/lib.rs\<close>: the C interface. A handle is an address of the library's heap, \<open>None\<close>
  is \<open>NULL\<close>; a C text is its bytes before the NUL. Each exported function is a definition: it gives
  its status and what it wrote to \<open>*out\<close>, if anything, with the library's state after it. \<open>t\<close> is the
  calling thread; \<open>out\<close> says whether the caller passed a place for the result. What a caller
  promises (a live handle, a readable struct) is a hypothesis of the lemmas, not a check of the
  model.
\<close>

section \<open>Status codes\<close>

definition PW_OK :: int where "PW_OK = 0"
definition PW_ERR_PROXY_WATCH :: int where "PW_ERR_PROXY_WATCH = 1"
definition PW_ERR_UNSUPPORTED_PROXY_SCHEME :: int where "PW_ERR_UNSUPPORTED_PROXY_SCHEME = 2"
definition PW_ERR_INVALID_URL :: int where "PW_ERR_INVALID_URL = 3"
definition PW_ERR_INVALID_PROXY_SERVER :: int where "PW_ERR_INVALID_PROXY_SERVER = 4"
definition PW_ERR_INVALID_BYPASS_PATTERN :: int where "PW_ERR_INVALID_BYPASS_PATTERN = 5"
definition PW_ERR_INVALID_PROXY_URL :: int where "PW_ERR_INVALID_PROXY_URL = 6"
definition PW_ERR_CGI_HTTP_PROXY :: int where "PW_ERR_CGI_HTTP_PROXY = 7"
definition PW_ERR_IO :: int where "PW_ERR_IO = 8"
definition PW_ERR_SANDBOXED :: int where "PW_ERR_SANDBOXED = 9"
definition PW_ERR_UNSUPPORTED :: int where "PW_ERR_UNSUPPORTED = 10"
definition PW_ERR_PAC_NOT_SUPPORTED :: int where "PW_ERR_PAC_NOT_SUPPORTED = 11"
definition PW_ERR_PROXY_ENTRY_UNUSABLE :: int where "PW_ERR_PROXY_ENTRY_UNUSABLE = 12"
definition PW_ERR_PAC_FETCH_REQUIRED :: int where "PW_ERR_PAC_FETCH_REQUIRED = 13"
definition PW_ERR_PAC_EVALUATION :: int where "PW_ERR_PAC_EVALUATION = 14"
definition PW_ERR_PAC_TIMEOUT :: int where "PW_ERR_PAC_TIMEOUT = 15"
definition PW_ERR_PAC_SATURATED :: int where "PW_ERR_PAC_SATURATED = 16"
definition PW_ERR_PAC_INVALID_RESULT :: int where "PW_ERR_PAC_INVALID_RESULT = 17"
definition PW_ERR_PAC_ENGINE_UNAVAILABLE :: int where "PW_ERR_PAC_ENGINE_UNAVAILABLE = 18"
definition PW_ERR_NULL_ARGUMENT :: int where "PW_ERR_NULL_ARGUMENT = 50"
definition PW_ERR_INVALID_UTF8 :: int where "PW_ERR_INVALID_UTF8 = 51"
definition PW_ERR_INVALID_ARGUMENT :: int where "PW_ERR_INVALID_ARGUMENT = 52"
definition PW_ERR_EMBEDDED_NUL :: int where "PW_ERR_EMBEDDED_NUL = 53"
definition PW_ERR_PANIC :: int where "PW_ERR_PANIC = 54"

lemmas pw_status_defs = PW_OK_def PW_ERR_PROXY_WATCH_def PW_ERR_UNSUPPORTED_PROXY_SCHEME_def
  PW_ERR_INVALID_URL_def PW_ERR_INVALID_PROXY_SERVER_def PW_ERR_INVALID_BYPASS_PATTERN_def
  PW_ERR_INVALID_PROXY_URL_def PW_ERR_CGI_HTTP_PROXY_def PW_ERR_IO_def PW_ERR_SANDBOXED_def
  PW_ERR_UNSUPPORTED_def PW_ERR_PAC_NOT_SUPPORTED_def PW_ERR_PROXY_ENTRY_UNUSABLE_def
  PW_ERR_PAC_FETCH_REQUIRED_def PW_ERR_PAC_EVALUATION_def PW_ERR_PAC_TIMEOUT_def
  PW_ERR_PAC_SATURATED_def PW_ERR_PAC_INVALID_RESULT_def PW_ERR_PAC_ENGINE_UNAVAILABLE_def
  PW_ERR_NULL_ARGUMENT_def PW_ERR_INVALID_UTF8_def PW_ERR_INVALID_ARGUMENT_def
  PW_ERR_EMBEDDED_NUL_def PW_ERR_PANIC_def

definition PW_PRECEDENCE_BEFORE_SYSTEM :: int where "PW_PRECEDENCE_BEFORE_SYSTEM = 0"
definition PW_PRECEDENCE_AFTER_SYSTEM :: int where "PW_PRECEDENCE_AFTER_SYSTEM = 1"
definition PW_PRECEDENCE_IGNORE :: int where "PW_PRECEDENCE_IGNORE = 2"
definition PW_ROUTE_STEPS :: int where "PW_ROUTE_STEPS = 0"
definition PW_ROUTE_PAC :: int where "PW_ROUTE_PAC = 1"
definition PW_ROUTE_PAC_INLINE :: int where "PW_ROUTE_PAC_INLINE = 2"
definition PW_ROUTE_WPAD :: int where "PW_ROUTE_WPAD = 3"
definition PW_STEP_DIRECT :: int where "PW_STEP_DIRECT = 0"
definition PW_STEP_HTTP :: int where "PW_STEP_HTTP = 1"
definition PW_STEP_HTTPS :: int where "PW_STEP_HTTPS = 2"
definition PW_STEP_SOCKS4 :: int where "PW_STEP_SOCKS4 = 3"
definition PW_STEP_SOCKS5 :: int where "PW_STEP_SOCKS5 = 4"
definition PW_PAC_NONE :: int where "PW_PAC_NONE = 0"
definition PW_PAC_NATIVE :: int where "PW_PAC_NATIVE = 1"
definition PW_PAC_QUICKJS :: int where "PW_PAC_QUICKJS = 2"
definition PW_PAC_AUTO :: int where "PW_PAC_AUTO = 3"
definition PW_ENGINE_NONE :: int where "PW_ENGINE_NONE = 0"
definition PW_ENGINE_NATIVE :: int where "PW_ENGINE_NATIVE = 1"
definition PW_ENGINE_QUICKJS :: int where "PW_ENGINE_QUICKJS = 2"

section \<open>Failures\<close>

datatype c_fail = CFail (fail_status: int) (fail_message: string)

definition status_of_code :: "string \<Rightarrow> int" where
  "status_of_code code =
     (if code = ''ERR_UNSUPPORTED_PROXY_SCHEME'' then PW_ERR_UNSUPPORTED_PROXY_SCHEME
      else if code = ''ERR_INVALID_URL'' then PW_ERR_INVALID_URL
      else if code = ''ERR_INVALID_PROXY_SERVER'' then PW_ERR_INVALID_PROXY_SERVER
      else if code = ''ERR_INVALID_BYPASS_PATTERN'' then PW_ERR_INVALID_BYPASS_PATTERN
      else if code = ''ERR_INVALID_PROXY_URL'' then PW_ERR_INVALID_PROXY_URL
      else if code = ''ERR_CGI_HTTP_PROXY'' then PW_ERR_CGI_HTTP_PROXY
      else if code = ''ERR_IO'' then PW_ERR_IO
      else if code = ''ERR_SANDBOXED'' then PW_ERR_SANDBOXED
      else if code = ''ERR_UNSUPPORTED'' then PW_ERR_UNSUPPORTED
      else if code = ''ERR_PAC_NOT_SUPPORTED'' then PW_ERR_PAC_NOT_SUPPORTED
      else if code = ''ERR_PROXY_ENTRY_UNUSABLE'' then PW_ERR_PROXY_ENTRY_UNUSABLE
      else if code = ''ERR_PAC_FETCH_REQUIRED'' then PW_ERR_PAC_FETCH_REQUIRED
      else if code = ''ERR_PAC_EVALUATION'' then PW_ERR_PAC_EVALUATION
      else if code = ''ERR_PAC_TIMEOUT'' then PW_ERR_PAC_TIMEOUT
      else if code = ''ERR_PAC_SATURATED'' then PW_ERR_PAC_SATURATED
      else if code = ''ERR_PAC_INVALID_RESULT'' then PW_ERR_PAC_INVALID_RESULT
      else if code = ''ERR_PAC_ENGINE_UNAVAILABLE'' then PW_ERR_PAC_ENGINE_UNAVAILABLE
      else if code = ''ERR_INVALID_ARG_VALUE'' then PW_ERR_INVALID_ARGUMENT
      else PW_ERR_PROXY_WATCH)"

definition fail_from :: "binding_failure \<Rightarrow> c_fail" where
  "fail_from f = CFail (status_of_code (bf_code f)) (bf_message f)"

definition null_argument :: "string \<Rightarrow> c_fail" where
  "null_argument name = CFail PW_ERR_NULL_ARGUMENT (name @ '' is NULL'')"

definition c_string :: "string \<Rightarrow> c_fail + string" where
  "c_string value =
     (if CHR 0x00 \<in> set value then Inl (CFail PW_ERR_EMBEDDED_NUL ''a value holds a NUL byte'')
      else Inr value)"

definition c_text :: "string option \<Rightarrow> string \<Rightarrow> c_fail + string" where
  "c_text p name =
     (case p of
        None \<Rightarrow> Inl (null_argument name)
      | Some bytes \<Rightarrow>
          if valid_utf8 bytes then Inr bytes
          else Inl (CFail PW_ERR_INVALID_UTF8 (name @ '' is not UTF-8'')))"

text \<open>\<open>collect\<close> into a result: the first failure ends it.\<close>

fun c_collect :: "('a \<Rightarrow> c_fail + 'b) \<Rightarrow> 'a list \<Rightarrow> c_fail + 'b list" where
  "c_collect f [] = Inr []"
| "c_collect f (x # xs) =
     (case f x of Inl e \<Rightarrow> Inl e | Inr y \<Rightarrow> map_sum id (\<lambda>ys. y # ys) (c_collect f xs))"

text \<open>\<open>transpose\<close> of an optional result.\<close>

definition c_optional :: "('a \<Rightarrow> c_fail + 'b) \<Rightarrow> 'a option \<Rightarrow> c_fail + 'b option" where
  "c_optional f x = (case x of None \<Rightarrow> Inr None | Some y \<Rightarrow> map_sum id Some (f y))"

section \<open>Handles\<close>

record c_context =
  cx_config :: proxy_config
  cx_os_readable :: bool
  cx_describe :: string
  cx_rejected :: "string list"

record c_step =
  ct_kind :: int
  ct_scheme :: "string option"
  ct_uri :: string
  ct_uri_with_auth :: string
  ct_username :: "string option"
  ct_password :: "string option"

record c_route =
  cr_kind :: int
  cr_engine :: int
  cr_pac :: "string option"
  cr_steps :: "c_step list"

record c_watch =
  cw_watch :: binding_watch
  cw_layering :: layering

datatype c_object = ContextObject c_context | RouteObject c_route | WatchObject c_watch

text \<open>What the library is built with: the crates it calls, its target, and the size of
  \<open>struct pw_route_options\<close>.\<close>

record c_library =
  cl_external :: external
  cl_url_ops :: url_ops
  cl_debug :: foreign_debug
  cl_os :: target_os
  cl_engines :: engines
  cl_windows_names :: bool
  cl_config_debug :: "proxy_config \<Rightarrow> string"
  cl_options_size :: nat

text \<open>What the machine gives one call: the clock, the process environment, and the reading of the OS
  settings.\<close>

record c_machine =
  cm_now :: nat
  cm_process :: "(string \<times> string) list"
  cm_read :: "proxy_error + proxy_config"

text \<open>The heap, the address the allocator gives next, which is its own choice, the native resolvers that
  were opened, and the message of each thread's last failure, \<open>None\<close> once the thread's storage is
  gone.\<close>

record c_state =
  cs_heap :: "nat \<rightharpoonup> c_object"
  cs_next :: nat
  cs_native :: native_slots
  cs_messages :: "nat \<Rightarrow> string option"

definition c_start :: c_state where
  "c_start = \<lparr> cs_heap = Map.empty, cs_next = 0, cs_native = Map.empty, cs_messages = (\<lambda>_. Some []) \<rparr>"

section \<open>The guard\<close>

definition no_nul :: "string \<Rightarrow> string" where
  "no_nul s = map (\<lambda>c. if c = CHR 0x00 then CHR '' '' else c) s"

text \<open>\<open>t\<close> is the calling thread.\<close>

definition record_fail :: "nat \<Rightarrow> c_fail \<Rightarrow> c_state \<Rightarrow> int \<times> c_state" where
  "record_fail t f s =
     (fail_status f,
      if cs_messages s t = None then s
      else s\<lparr>cs_messages := (cs_messages s)(t := Some (no_nul (fail_message f)))\<rparr>)"

datatype 'a c_outcome = Panicked | Returned "c_fail + 'a"

definition guard_call :: "nat \<Rightarrow> unit c_outcome \<Rightarrow> c_state \<Rightarrow> int \<times> c_state" where
  "guard_call t body s =
     (case body of
        Returned (Inr _) \<Rightarrow> (PW_OK, s)
      | Returned (Inl f) \<Rightarrow> record_fail t f s
      | Panicked \<Rightarrow> record_fail t (CFail PW_ERR_PANIC ''proxy-watch panicked'') s)"

text \<open>\<open>Box::into_raw\<close> of what a body made, written to \<open>*out\<close>; a body that failed writes nothing.\<close>

definition alloc :: "c_object \<Rightarrow> c_state \<Rightarrow> nat \<times> c_state" where
  "alloc x s = (cs_next s, s\<lparr>cs_heap := (cs_heap s)(cs_next s \<mapsto> x)\<rparr>)"

definition give_out :: "nat \<Rightarrow> c_fail + c_object \<Rightarrow> c_state \<Rightarrow> int \<times> nat option \<times> c_state" where
  "give_out t body s =
     (case body of
        Inl f \<Rightarrow> (let (status, s') = guard_call t (Returned (Inl f)) s in (status, None, s'))
      | Inr x \<Rightarrow>
          (let (p, s') = alloc x s; (status, s'') = guard_call t (Returned (Inr ())) s'
           in (status, Some p, s'')))"

section \<open>Contexts\<close>

definition context_new :: "c_library \<Rightarrow> proxy_config \<Rightarrow> bool \<Rightarrow> c_fail + c_context" where
  "context_new L config os_readable =
     (case c_collect c_string (rejected_texts (cl_debug L) config) of
        Inl f \<Rightarrow> Inl f
      | Inr rejected \<Rightarrow>
          map_sum id (\<lambda>text. \<lparr> cx_config = config, cx_os_readable = os_readable,
                        cx_describe = text, cx_rejected = rejected \<rparr>)
            (c_string (cl_config_debug L config)))"

definition c_precedence :: "int \<Rightarrow> c_fail + env_precedence option" where
  "c_precedence value =
     (if value = PW_PRECEDENCE_BEFORE_SYSTEM then Inr (Some BeforeSystem)
      else if value = PW_PRECEDENCE_AFTER_SYSTEM then Inr (Some AfterSystem)
      else if value = PW_PRECEDENCE_IGNORE then Inr None
      else Inl (CFail PW_ERR_INVALID_ARGUMENT (''unknown precedence '' @ show_offset value)))"

text \<open>\<open>Layering::new(vars, precedence(value)?)?\<close>.\<close>

definition c_layering ::
    "c_library \<Rightarrow> c_machine \<Rightarrow> (string \<times> string) list option \<Rightarrow> int \<Rightarrow> c_fail + layering" where
  "c_layering L m vars value =
     (case c_precedence value of
        Inl f \<Rightarrow> Inl f
      | Inr rank \<Rightarrow>
          map_sum fail_from id
            (layering_new (cl_external L) (cl_debug L) (cl_windows_names L) (cm_now m) (cm_process m)
               vars rank))"

definition open_context ::
    "c_library \<Rightarrow> c_machine \<Rightarrow> int \<Rightarrow> (string \<times> string) list option \<Rightarrow> bool \<Rightarrow> c_fail + c_object" where
  "open_context L m value vars out =
     (if \<not> out then Inl (null_argument ''out'')
      else (case c_layering L m vars value of Inl f \<Rightarrow> Inl f | Inr l \<Rightarrow>
           (case read_os (cl_debug L) (cm_now m) (cm_read m) of
              Inl f \<Rightarrow> Inl (fail_from f)
            | Inr (config, os_readable) \<Rightarrow>
                map_sum id ContextObject (context_new L (layering_apply l config) os_readable))))"

definition pw_context_open ::
    "c_library \<Rightarrow> c_machine \<Rightarrow> nat \<Rightarrow> int \<Rightarrow> bool \<Rightarrow> c_state \<Rightarrow> int \<times> nat option \<times> c_state" where
  "pw_context_open L m t value out s = give_out t (open_context L m value None out) s"

text \<open>The entries of \<open>envp\<close>, up to the \<open>NULL\<close>: \<open>found\<close> are the names so far, with their values.\<close>

fun c_vars :: "(string \<times> string) list \<Rightarrow> string list \<Rightarrow> c_fail + (string \<times> string) list" where
  "c_vars found [] = Inr found"
| "c_vars found (entry # rest) =
     (case split_once_char (\<lambda>c. c = CHR ''='') entry of
        None \<Rightarrow> Inl (CFail PW_ERR_INVALID_ARGUMENT (''an envp entry has no '' @ [CHR 0x27] @ ''='' @ [CHR 0x27]))
      | Some (name, value) \<Rightarrow>
          if \<not> valid_utf8 name then c_vars found rest
          else if map_of found name \<noteq> None then c_vars found rest
          else c_vars (found @ [(name, utf8_lossy value)]) rest)"

definition pw_context_open_with_env ::
    "c_library \<Rightarrow> c_machine \<Rightarrow> nat \<Rightarrow> int \<Rightarrow> string list option \<Rightarrow> bool \<Rightarrow> c_state \<Rightarrow> int \<times> nat option \<times> c_state" where
  "pw_context_open_with_env L m t value envp out s =
     give_out t
       (case envp of
          None \<Rightarrow> Inl (null_argument ''envp'')
        | Some entries \<Rightarrow>
            (case c_vars [] entries of
               Inl f \<Rightarrow> Inl f
             | Inr vars \<Rightarrow> open_context L m value (Some vars) out)) s"

text \<open>A pointer that is not \<open>NULL\<close> is to a live handle of its kind: the caller promises it.\<close>

definition context_at :: "c_state \<Rightarrow> nat option \<Rightarrow> c_context option" where
  "context_at s p =
     Option.bind p (\<lambda>a. case cs_heap s a of Some (ContextObject cx) \<Rightarrow> Some cx | _ \<Rightarrow> None)"

definition route_at :: "c_state \<Rightarrow> nat option \<Rightarrow> c_route option" where
  "route_at s p =
     Option.bind p (\<lambda>a. case cs_heap s a of Some (RouteObject r) \<Rightarrow> Some r | _ \<Rightarrow> None)"

definition watch_at :: "c_state \<Rightarrow> nat option \<Rightarrow> c_watch option" where
  "watch_at s p =
     Option.bind p (\<lambda>a. case cs_heap s a of Some (WatchObject w) \<Rightarrow> Some w | _ \<Rightarrow> None)"

definition drop_box :: "nat option \<Rightarrow> c_state \<Rightarrow> c_state" where
  "drop_box p s = (case p of None \<Rightarrow> s | Some a \<Rightarrow> s\<lparr>cs_heap := (cs_heap s)(a := None)\<rparr>)"

definition pw_context_free :: "nat option \<Rightarrow> c_state \<Rightarrow> c_state" where
  "pw_context_free p s = drop_box p s"

definition pw_context_os_readable :: "c_state \<Rightarrow> nat option \<Rightarrow> int" where
  "pw_context_os_readable s p =
     (case context_at s p of None \<Rightarrow> -1 | Some cx \<Rightarrow> if cx_os_readable cx then 1 else 0)"

definition pw_describe :: "c_state \<Rightarrow> nat option \<Rightarrow> string option" where
  "pw_describe s p = map_option cx_describe (context_at s p)"

definition pw_rejected_len :: "c_state \<Rightarrow> nat option \<Rightarrow> nat" where
  "pw_rejected_len s p = (case context_at s p of None \<Rightarrow> 0 | Some cx \<Rightarrow> length (cx_rejected cx))"

definition c_nth :: "'a list \<Rightarrow> nat \<Rightarrow> 'a option" where
  "c_nth xs i = (if i < length xs then Some (xs ! i) else None)"

definition pw_rejected_text :: "c_state \<Rightarrow> nat option \<Rightarrow> nat \<Rightarrow> string option" where
  "pw_rejected_text s p i = Option.bind (context_at s p) (\<lambda>cx. c_nth (cx_rejected cx) i)"

text \<open>\<open>init\<close> of \<open>src/android.rs\<close> is what \<open>started\<close> gives.\<close>

definition pw_android_init ::
    "c_library \<Rightarrow> nat \<Rightarrow> bool \<Rightarrow> bool \<Rightarrow> proxy_error + unit \<Rightarrow> c_state \<Rightarrow> int \<times> c_state" where
  "pw_android_init L t vm_null context_null started s =
     guard_call t
       (Returned
          (if cl_os L \<noteq> TargetAndroid
           then Inl (CFail PW_ERR_UNSUPPORTED ''pw_android_init is for Android'')
           else if vm_null then Inl (null_argument ''vm'')
           else if context_null then Inl (null_argument ''context'')
           else map_sum (\<lambda>e. fail_from (failure_of (cl_debug L) e)) id started)) s"

section \<open>Routes\<close>

text \<open>\<open>step\<close>.\<close>

definition step_kind :: "proxy_step \<Rightarrow> int" where
  "step_kind st =
     (case st of
        StepDirect \<Rightarrow> PW_STEP_DIRECT
      | StepHttp _ \<Rightarrow> PW_STEP_HTTP
      | StepHttps _ \<Rightarrow> PW_STEP_HTTPS
      | StepSocks4 _ \<Rightarrow> PW_STEP_SOCKS4
      | StepSocks5 _ \<Rightarrow> PW_STEP_SOCKS5)"

text \<open>A setter that fails leaves the URL as it was.\<close>

definition without_credentials :: "c_library \<Rightarrow> url \<Rightarrow> url" where
  "without_credentials L u =
     (let u' = unwrap_or u (clear_username (cl_url_ops L) u)
      in unwrap_or u' (clear_password (cl_url_ops L) u'))"

definition c_step_of :: "c_library \<Rightarrow> proxy_step \<Rightarrow> c_fail + c_step" where
  "c_step_of L st =
     (case step_url (cl_external L) (cl_debug L) st of
        Inl f \<Rightarrow> Inl (fail_from f)
      | Inr shown \<Rightarrow>
     (case step_to_url (cl_external L) st of
        None \<Rightarrow>
          (case c_string shown of Inl f \<Rightarrow> Inl f | Inr uri \<Rightarrow>
             Inr \<lparr> ct_kind = step_kind st, ct_scheme = None, ct_uri = uri, ct_uri_with_auth = uri,
                   ct_username = None, ct_password = None \<rparr>)
      | Some u \<Rightarrow>
          (let auth = Option.bind (step_endpoint st) ep_auth in
           case c_string (url_scheme u) of Inl f \<Rightarrow> Inl f | Inr s \<Rightarrow>
           (case c_optional (\<lambda>a. c_string (username a)) auth of Inl f \<Rightarrow> Inl f | Inr user \<Rightarrow>
           (case c_optional c_string (Option.bind auth password_of) of Inl f \<Rightarrow> Inl f | Inr pw \<Rightarrow>
           (case c_string (as_str (without_credentials L u)) of Inl f \<Rightarrow> Inl f | Inr uri \<Rightarrow>
           (case c_string shown of Inl f \<Rightarrow> Inl f | Inr full \<Rightarrow>
              Inr \<lparr> ct_kind = step_kind st, ct_scheme = Some s, ct_uri = uri,
                    ct_uri_with_auth = full, ct_username = user, ct_password = pw \<rparr>)))))))"

text \<open>\<open>struct pw_route_options\<close>, and \<open>route_options\<close>, which reads no field but the first of a struct
  that is too small.\<close>

record c_options =
  co_size :: nat
  co_pac :: int
  co_script :: "string option"
  co_wpad :: int
  co_my_ip_address :: "string option"
  co_resolve_dns :: int
  co_allow_internal :: int
  co_utc_offset :: int
  co_timeout_ms :: nat

definition c_options_default :: c_options where
  "c_options_default =
     \<lparr> co_size = 0, co_pac = PW_PAC_NONE, co_script = None, co_wpad = 0, co_my_ip_address = None,
       co_resolve_dns = 0, co_allow_internal = 0, co_utc_offset = 0, co_timeout_ms = 0 \<rparr>"

definition c_pac :: "int \<Rightarrow> c_fail + pac_choice" where
  "c_pac value =
     (if value = PW_PAC_NONE then Inr ChooseNone
      else if value = PW_PAC_NATIVE then Inr ChooseNative
      else if value = PW_PAC_QUICKJS then Inr ChooseQuickJs
      else if value = PW_PAC_AUTO then Inr ChooseAuto
      else Inl (CFail PW_ERR_INVALID_ARGUMENT (''unknown pac '' @ show_offset value)))"

definition c_policy_options :: "c_options \<Rightarrow> string option \<Rightarrow> policy_options" where
  "c_policy_options o' address =
     \<lparr> po_my_ip_address = address, po_resolve_dns = Some (co_resolve_dns o' \<noteq> 0),
       po_allow_internal = Some (co_allow_internal o' \<noteq> 0), po_utc_offset = Some (co_utc_offset o'),
       po_timeout_ms = (if co_timeout_ms o' \<noteq> 0 then Some (co_timeout_ms o') else None) \<rparr>"

definition c_route_options :: "c_library \<Rightarrow> c_options \<Rightarrow> c_fail + route_options" where
  "c_route_options L o' =
     (if co_size o' < cl_options_size L then
        Inl (CFail PW_ERR_INVALID_ARGUMENT
               (''options->size '' @ show_nat (co_size o')
                @ '' is under sizeof(struct pw_route_options), '' @ show_nat (cl_options_size L)))
      else
        (case c_pac (co_pac o') of Inl f \<Rightarrow> Inl f | Inr pac \<Rightarrow>
        (case c_optional (\<lambda>p. c_text (Some p) ''options->script'') (co_script o') of
           Inl f \<Rightarrow> Inl f | Inr script \<Rightarrow>
        (case c_optional (\<lambda>p. c_text (Some p) ''options->my_ip_address'') (co_my_ip_address o') of
           Inl f \<Rightarrow> Inl f | Inr address \<Rightarrow>
        (case binding_policy (cl_debug L) (c_policy_options o' address) of
           Inl f \<Rightarrow> Inl (fail_from f) | Inr policy \<Rightarrow>
             map_sum fail_from id (route_options_new pac script (co_wpad o' \<noteq> 0) policy))))))"

definition engine_number :: "route_engine \<Rightarrow> int" where
  "engine_number e =
     (case e of NoEngine \<Rightarrow> PW_ENGINE_NONE | NativeEngine \<Rightarrow> PW_ENGINE_NATIVE
      | QuickJsEngine \<Rightarrow> PW_ENGINE_QUICKJS)"

definition c_route_of :: "c_library \<Rightarrow> route_answer \<Rightarrow> c_fail + c_route" where
  "c_route_of L a =
     (let handle = (\<lambda>kind pac steps. \<lparr> cr_kind = kind, cr_engine = engine_number (an_engine a),
                                       cr_pac = pac, cr_steps = steps \<rparr>)
      in case an_route a of
           RouteSteps chain \<Rightarrow> map_sum id (handle PW_ROUTE_STEPS None) (c_collect (c_step_of L) chain)
         | RoutePac u \<Rightarrow> map_sum id (\<lambda>p. handle PW_ROUTE_PAC (Some p) []) (c_string u)
         | RoutePacInline script \<Rightarrow>
             map_sum id (\<lambda>p. handle PW_ROUTE_PAC_INLINE (Some p) []) (c_string script)
         | RouteWpad \<Rightarrow> Inr (handle PW_ROUTE_WPAD None []))"

text \<open>The body of \<open>pw_resolve_ex\<close>, with the native resolvers it may open.\<close>

definition resolve_body ::
    "c_library \<Rightarrow> nat option \<Rightarrow> string option \<Rightarrow> c_options option \<Rightarrow> bool \<Rightarrow> c_state
       \<Rightarrow> (c_fail + c_object) \<times> c_state" where
  "resolve_body L p url_text options out s =
     (case (case options of None \<Rightarrow> Inr route_options_none | Some o' \<Rightarrow> c_route_options L o') of
        Inl f \<Rightarrow> (Inl f, s)
      | Inr ro \<Rightarrow>
     (case context_at s p of
        None \<Rightarrow> (Inl (null_argument ''context''), s)
      | Some cx \<Rightarrow>
     (case c_text url_text ''url'' of
        Inl f \<Rightarrow> (Inl f, s)
      | Inr text \<Rightarrow>
          if \<not> out then (Inl (null_argument ''out''), s)
          else
            (let (answer, slots) =
                   route (cl_external L) (cl_url_ops L) (cl_debug L) (cl_os L) (cl_engines L)
                     (cx_config cx) text ro (cs_native s)
             in (case answer of
                   Inl f \<Rightarrow> Inl (fail_from f)
                 | Inr a \<Rightarrow> map_sum id RouteObject (c_route_of L a), s\<lparr>cs_native := slots\<rparr>)))))"

definition pw_resolve_ex ::
    "c_library \<Rightarrow> nat \<Rightarrow> nat option \<Rightarrow> string option \<Rightarrow> c_options option \<Rightarrow> bool \<Rightarrow> c_state
       \<Rightarrow> int \<times> nat option \<times> c_state" where
  "pw_resolve_ex L t p url_text options out s =
     (let (body, s') = resolve_body L p url_text options out s in give_out t body s')"

definition pw_resolve_with_pac ::
    "c_library \<Rightarrow> nat \<Rightarrow> nat option \<Rightarrow> string option \<Rightarrow> int \<Rightarrow> bool \<Rightarrow> c_state \<Rightarrow> int \<times> nat option \<times> c_state" where
  "pw_resolve_with_pac L t p url_text pac out s =
     pw_resolve_ex L t p url_text
       (Some (c_options_default\<lparr>co_size := cl_options_size L, co_pac := pac\<rparr>)) out s"

definition pw_resolve ::
    "c_library \<Rightarrow> nat \<Rightarrow> nat option \<Rightarrow> string option \<Rightarrow> bool \<Rightarrow> c_state \<Rightarrow> int \<times> nat option \<times> c_state" where
  "pw_resolve L t p url_text out s = pw_resolve_with_pac L t p url_text PW_PAC_NONE out s"

definition pw_route_free :: "nat option \<Rightarrow> c_state \<Rightarrow> c_state" where
  "pw_route_free p s = drop_box p s"

definition pw_route_kind :: "c_state \<Rightarrow> nat option \<Rightarrow> int" where
  "pw_route_kind s p = (case route_at s p of None \<Rightarrow> -1 | Some r \<Rightarrow> cr_kind r)"

definition pw_route_engine :: "c_state \<Rightarrow> nat option \<Rightarrow> int" where
  "pw_route_engine s p = (case route_at s p of None \<Rightarrow> -1 | Some r \<Rightarrow> cr_engine r)"

definition pw_route_pac :: "c_state \<Rightarrow> nat option \<Rightarrow> string option" where
  "pw_route_pac s p = Option.bind (route_at s p) cr_pac"

definition pw_route_len :: "c_state \<Rightarrow> nat option \<Rightarrow> nat" where
  "pw_route_len s p = (case route_at s p of None \<Rightarrow> 0 | Some r \<Rightarrow> length (cr_steps r))"

definition step_at :: "c_state \<Rightarrow> nat option \<Rightarrow> nat \<Rightarrow> c_step option" where
  "step_at s p i = Option.bind (route_at s p) (\<lambda>r. c_nth (cr_steps r) i)"

definition pw_route_step_kind :: "c_state \<Rightarrow> nat option \<Rightarrow> nat \<Rightarrow> int" where
  "pw_route_step_kind s p i = (case step_at s p i of None \<Rightarrow> -1 | Some st \<Rightarrow> ct_kind st)"

definition pw_route_scheme :: "c_state \<Rightarrow> nat option \<Rightarrow> nat \<Rightarrow> string option" where
  "pw_route_scheme s p i = Option.bind (step_at s p i) ct_scheme"

definition pw_route_uri :: "c_state \<Rightarrow> nat option \<Rightarrow> nat \<Rightarrow> string option" where
  "pw_route_uri s p i = map_option ct_uri (step_at s p i)"

definition pw_route_uri_with_auth :: "c_state \<Rightarrow> nat option \<Rightarrow> nat \<Rightarrow> string option" where
  "pw_route_uri_with_auth s p i = map_option ct_uri_with_auth (step_at s p i)"

definition pw_route_username :: "c_state \<Rightarrow> nat option \<Rightarrow> nat \<Rightarrow> string option" where
  "pw_route_username s p i = Option.bind (step_at s p i) ct_username"

definition pw_route_password :: "c_state \<Rightarrow> nat option \<Rightarrow> nat \<Rightarrow> string option" where
  "pw_route_password s p i = Option.bind (step_at s p i) ct_password"

definition pw_last_error :: "nat \<Rightarrow> c_state \<Rightarrow> string" where
  "pw_last_error t s = unwrap_or [] (cs_messages s t)"

section \<open>Watches\<close>

text \<open>\<open>Watch::start\<close> of the shared part: \<open>started\<close> is what the constructor of the watcher gave,
  \<open>refusal\<close> whether the pump's thread was refused. The queued reading is polled away.\<close>

definition shared_watch_start ::
    "foreign_debug \<Rightarrow> proxy_config \<Rightarrow> proxy_error + watcher \<Rightarrow> string option
       \<Rightarrow> binding_failure + binding_watch" where
  "shared_watch_start F default_config started refusal =
     (case started of
        Inr wt \<Rightarrow>
          (case refusal of
             None \<Rightarrow> Inr (watch_start (fst (consumer_poll 0 wt)))
           | Some e \<Rightarrow> Inl (failure_new ''ERR_PROXY_WATCH'' e))
      | Inl Unsupported \<Rightarrow> Inr (watch_start_unsupported default_config)
      | Inl e \<Rightarrow> Inl (failure_of F e))"

definition stopped_on_its_own :: binding_failure where
  "stopped_on_its_own = failure_new ''ERR_PROXY_WATCH'' ''the watch has stopped; open a new one''"

definition current_failure_of :: "current_failure \<Rightarrow> binding_failure" where
  "current_failure_of f =
     (case f of
        WatcherClosed \<Rightarrow> failure_new ''ERR_WATCHER_CLOSED'' ''the watcher is closed''
      | WatchStopped \<Rightarrow> stopped_on_its_own)"

definition delivered_value :: "foreign_debug \<Rightarrow> delivery \<Rightarrow> binding_failure + proxy_config" where
  "delivered_value F d =
     (case d of
        Changed c \<Rightarrow> Inr c
      | Failed e \<Rightarrow> Inl (failure_of F e)
      | StoppedOnItsOwn \<Rightarrow> Inl stopped_on_its_own)"

definition open_watch ::
    "c_library \<Rightarrow> c_machine \<Rightarrow> int \<Rightarrow> string list option \<Rightarrow> proxy_error + watcher \<Rightarrow> string option \<Rightarrow> bool
       \<Rightarrow> c_fail + c_object" where
  "open_watch L m value envp started refusal out =
     (if \<not> out then Inl (null_argument ''out'')
      else (case c_optional (c_vars []) envp of Inl f \<Rightarrow> Inl f | Inr vars \<Rightarrow>
           (case c_layering L m vars value of Inl f \<Rightarrow> Inl f | Inr l \<Rightarrow>
              map_sum fail_from (\<lambda>w. WatchObject \<lparr> cw_watch = w, cw_layering = l \<rparr>)
                (shared_watch_start (cl_debug L) (config_direct (cm_now m)) started refusal))))"

text \<open>\<open>poll_interval_ms\<close> of 0 is none.\<close>

definition c_poll_interval :: "nat \<Rightarrow> nat option" where
  "c_poll_interval ms = (if 0 < ms then Some (ms * 1000000) else None)"

definition pw_watch_open ::
    "c_library \<Rightarrow> c_machine \<Rightarrow> nat \<Rightarrow> int \<Rightarrow> string list option \<Rightarrow> nat
       \<Rightarrow> (nat option \<Rightarrow> proxy_error + watcher) \<Rightarrow> string option \<Rightarrow> bool \<Rightarrow> c_state
       \<Rightarrow> int \<times> nat option \<times> c_state" where
  "pw_watch_open L m t value envp ms started refusal out s =
     give_out t (open_watch L m value envp (started (c_poll_interval ms)) refusal out) s"

text \<open>The closure handed to the pump, on the pump's thread: the status the callback is given, when
  there is one, and whether to go on.\<close>

definition on_change_value ::
    "bool \<Rightarrow> nat \<Rightarrow> binding_failure + proxy_config \<Rightarrow> c_state \<Rightarrow> int option \<times> bool \<times> c_state" where
  "on_change_value callback t value s =
     (if \<not> callback then (None, True, s)
      else (case value of
              Inr _ \<Rightarrow> (Some PW_OK, True, s)
            | Inl f \<Rightarrow> (let (status, s') = record_fail t (fail_from f) s in (Some status, True, s'))))"

definition current_context ::
    "c_library \<Rightarrow> c_machine \<Rightarrow> bool \<Rightarrow> nat option \<Rightarrow> bool \<Rightarrow> c_state \<Rightarrow> c_fail + c_object" where
  "current_context L m closed_since p out s =
     (case watch_at s p of
        None \<Rightarrow> Inl (null_argument ''watch'')
      | Some w \<Rightarrow>
          if \<not> out then Inl (null_argument ''out'')
          else (case watch_current (config_direct (cm_now m)) closed_since (cw_watch w) of
                  Inl f \<Rightarrow> Inl (fail_from (current_failure_of f))
                | Inr config \<Rightarrow>
                    map_sum id ContextObject
                      (context_new L (layering_apply (cw_layering w) config)
                         (bw_os_readable (cw_watch w)))))"

definition pw_watch_current ::
    "c_library \<Rightarrow> c_machine \<Rightarrow> nat \<Rightarrow> bool \<Rightarrow> nat option \<Rightarrow> bool \<Rightarrow> c_state \<Rightarrow> int \<times> nat option \<times> c_state" where
  "pw_watch_current L m t closed_since p out s =
     give_out t (current_context L m closed_since p out s) s"

text \<open>The box goes once \<open>close\<close> has returned, which \<open>Binding_Watch\<close> steps through.\<close>

definition pw_watch_close :: "nat option \<Rightarrow> c_state \<Rightarrow> c_state" where
  "pw_watch_close p s = drop_box p s"

end
