(* ===== verification/Binding_C_Facts.thy ===== *)
theory Binding_C_Facts
  imports Binding_C
begin

text \<open>
  What a C program may count on: every error has its own number; a call that answers \<open>PW_OK\<close> has
  written a fresh handle and every other says why on its thread; a context or a route reads the
  same until it is freed, whatever else is called and whatever a watch does meanwhile; and the URI
  that is for logs is the same whatever the proxy's credentials are.
\<close>

section \<open>Numbers\<close>

lemma status_of_error_code:
  "status_of_code (error_code e) =
     (case e of
        UnsupportedProxyScheme _ \<Rightarrow> 2 | InvalidProxyServer _ _ \<Rightarrow> 4 | InvalidBypassPattern _ _ \<Rightarrow> 5
      | InvalidProxyUrl _ _ \<Rightarrow> 6 | CgiHttpProxy _ \<Rightarrow> 7 | Io _ _ \<Rightarrow> 8 | Sandboxed _ _ \<Rightarrow> 9
      | Unsupported \<Rightarrow> 10 | PacNotSupported _ \<Rightarrow> 11 | ProxyEntryUnusable _ _ \<Rightarrow> 12
      | PacFetchRequired _ \<Rightarrow> 13 | PacEvaluation _ \<Rightarrow> 14 | PacTimeout _ \<Rightarrow> 15 | PacSaturated _ _ \<Rightarrow> 16
      | PacInvalidResult _ \<Rightarrow> 17 | PacEngineUnavailable \<Rightarrow> 18)"
  by (cases e) (simp_all add: error_code_def status_of_code_def pw_status_defs)

lemma status_of_code_not_ok: "status_of_code code \<noteq> 0"
  by (simp add: status_of_code_def pw_status_defs)

lemma fail_from_not_ok [simp]: "fail_status (fail_from f) \<noteq> 0"
  by (simp add: fail_from_def status_of_code_not_ok)

section \<open>Failures are never \<open>PW_OK\<close>\<close>

definition fails_named :: "(c_fail + 'a) \<Rightarrow> bool" where
  "fails_named r \<longleftrightarrow> (case r of Inl f \<Rightarrow> fail_status f \<noteq> 0 | Inr _ \<Rightarrow> True)"

text \<open>\<open>refused\<close>: of each function, that a failure it gives is not \<open>PW_OK\<close>.\<close>

named_theorems refused

lemma fails_named_simps [simp]:
  "fails_named (Inl f) \<longleftrightarrow> fail_status f \<noteq> 0"
  "fails_named (Inr x)"
  "fails_named (map_sum id g r) \<longleftrightarrow> fails_named r"
  "fails_named (map_sum fail_from h q)"
  by (cases r; cases q; simp add: fails_named_def)+

lemma named_Inl: "fails_named r \<Longrightarrow> r = Inl f \<Longrightarrow> fail_status f \<noteq> 0"
  by simp

lemma namedI: "(\<And>f. r = Inl f \<Longrightarrow> fail_status f \<noteq> 0) \<Longrightarrow> fails_named r"
  by (cases r) simp_all

lemma null_argument_named [simp]: "fail_status (null_argument name) \<noteq> 0"
  by (simp add: null_argument_def pw_status_defs)

lemma c_string_named: "fails_named (c_string v)"
  by (simp add: c_string_def pw_status_defs)

lemma c_text_named: "fails_named (c_text p name)"
  by (simp add: c_text_def pw_status_defs split: option.split)

lemmas [refused] = c_string_named [THEN named_Inl] c_text_named [THEN named_Inl]

lemma c_collect_named: "(\<And>x. fails_named (f x)) \<Longrightarrow> fails_named (c_collect f xs)"
  by (induction xs) (auto split: sum.split dest: named_Inl)

lemma c_optional_named: "(\<And>x. fails_named (f x)) \<Longrightarrow> fails_named (c_optional f x)"
  by (simp add: c_optional_def split: option.split)

lemmas [refused] =
  c_collect_named [of c_string, OF c_string_named, THEN named_Inl]
  c_optional_named [of c_string, OF c_string_named, THEN named_Inl]
  c_optional_named [of "\<lambda>a. c_string (username a)", OF c_string_named, THEN named_Inl]
  c_optional_named [of "\<lambda>p. c_text (Some p) name" for name, OF c_text_named, THEN named_Inl]

lemma context_new_named: "fails_named (context_new L config os_readable)"
  by (auto simp: context_new_def c_string_named split: sum.split dest: refused)

lemma c_precedence_named: "fails_named (c_precedence value)"
  by (simp add: c_precedence_def pw_status_defs)

lemmas [refused] = context_new_named [THEN named_Inl] c_precedence_named [THEN named_Inl]

lemma c_layering_named: "fails_named (c_layering L m vars value)"
  by (auto simp: c_layering_def split: sum.split dest: refused)

lemma c_vars_named: "fails_named (c_vars found entries)"
  by (induction found entries rule: c_vars.induct)
    (auto simp: pw_status_defs split: option.split)

lemmas [refused] = c_layering_named [THEN named_Inl] c_vars_named [THEN named_Inl]
  c_optional_named [of "c_vars []", OF c_vars_named, THEN named_Inl]

lemma open_context_named: "fails_named (open_context L m value vars out)"
  by (auto simp: open_context_def context_new_named split: sum.split dest: refused)

lemma c_step_of_named: "fails_named (c_step_of L st)"
  by (auto simp: c_step_of_def Let_def split: sum.split option.split dest: refused)

lemma c_route_of_named: "fails_named (c_route_of L a)"
  by (auto simp: c_route_of_def Let_def c_string_named c_collect_named c_step_of_named
      split: route_kind.split)

lemma c_pac_named: "fails_named (c_pac value)"
  by (simp add: c_pac_def pw_status_defs)

lemmas [refused] = c_pac_named [THEN named_Inl] c_route_of_named [THEN named_Inl]

lemma c_route_options_named: "fails_named (c_route_options L o')"
  by (auto simp: c_route_options_def pw_status_defs split: sum.split dest: refused)

lemmas [refused] = c_route_options_named [THEN named_Inl]

lemma resolve_body_named: "fails_named (fst (resolve_body L p url_text options out s))"
  by (auto simp: resolve_body_def Let_def c_route_of_named
      split: sum.split option.split prod.split dest: refused)

lemma open_watch_named: "fails_named (open_watch L m value envp started refusal out)"
  by (auto simp: open_watch_def split: sum.split dest: refused)

lemma current_context_named: "fails_named (current_context L m closed_since p out s)"
  by (auto simp: current_context_def context_new_named split: option.split sum.split)

section \<open>What a call leaves\<close>

text \<open>The calls that give a handle, as a program makes them.\<close>

datatype c_request =
    AskContext int bool
  | AskContextWithEnv int "string list option" bool
  | AskRoute "nat option" "string option" "c_options option" bool
  | AskWatch int "string list option" nat "nat option \<Rightarrow> proxy_error + watcher" "string option" bool
  | AskCurrent bool "nat option" bool

fun c_answer :: "c_library \<Rightarrow> c_machine \<Rightarrow> nat \<Rightarrow> c_request \<Rightarrow> c_state \<Rightarrow> int \<times> nat option \<times> c_state" where
  "c_answer L m t (AskContext value out) s = pw_context_open L m t value out s"
| "c_answer L m t (AskContextWithEnv value envp out) s =
     pw_context_open_with_env L m t value envp out s"
| "c_answer L m t (AskRoute p text options out) s = pw_resolve_ex L t p text options out s"
| "c_answer L m t (AskWatch value envp ms started refusal out) s =
     pw_watch_open L m t value envp ms started refusal out s"
| "c_answer L m t (AskCurrent closed_since p out) s = pw_watch_current L m t closed_since p out s"

text \<open>Each is a body whose failures are named, run under the guard: a handle is fresh and comes
  with \<open>PW_OK\<close>, a failure is recorded for its thread alone.\<close>

definition guarded :: "nat \<Rightarrow> c_state \<Rightarrow> int \<times> nat option \<times> c_state \<Rightarrow> bool" where
  "guarded t s r \<longleftrightarrow>
     (case r of (status, out, s') \<Rightarrow>
        case out of
          Some p \<Rightarrow> status = PW_OK \<and> p = cs_next s \<and> cs_next s' = cs_next s
            \<and> cs_heap s' = (cs_heap s)(p := cs_heap s' p) \<and> cs_heap s' p \<noteq> None
            \<and> cs_messages s' = cs_messages s
        | None \<Rightarrow> status \<noteq> PW_OK \<and> cs_next s' = cs_next s \<and> cs_heap s' = cs_heap s
            \<and> (if cs_messages s t = None then cs_messages s' = cs_messages s
               else \<exists>message. CHR 0x00 \<notin> set message
                   \<and> cs_messages s' = (cs_messages s)(t \<mapsto> message)))"

lemma no_nul_free: "CHR 0x00 \<notin> set (no_nul text)"
  by (auto simp: no_nul_def)

lemma record_fail_guarded:
  "fail_status f \<noteq> 0 \<Longrightarrow> record_fail t f s = (status, s') \<Longrightarrow> guarded t s (status, None, s')"
  using no_nul_free [of "fail_message f"]
  by (auto simp: guarded_def record_fail_def PW_OK_def split: if_splits)

lemma give_out_guarded: "fails_named body \<Longrightarrow> guarded t s (give_out t body s)"
  by (auto simp: give_out_def guard_call_def alloc_def guarded_def [of t s "(PW_OK, Some p, s')" for p s']
      split: sum.split prod.split intro!: record_fail_guarded)

lemma resolve_body_keeps:
  "resolve_body L p url_text options out s = (body, s') \<Longrightarrow>
     cs_heap s' = cs_heap s \<and> cs_next s' = cs_next s \<and> cs_messages s' = cs_messages s"
  by (auto simp: resolve_body_def split: sum.splits option.splits prod.splits if_splits)

lemma guarded_cong:
  "guarded t s' r \<Longrightarrow> cs_heap s' = cs_heap s \<Longrightarrow> cs_next s' = cs_next s
     \<Longrightarrow> cs_messages s' = cs_messages s \<Longrightarrow> guarded t s r"
  by (auto simp: guarded_def split: prod.splits option.splits)

lemma c_answer_guarded: "guarded t s (c_answer L m t req s)"
proof (cases req)
  case (AskRoute p url_text options out)
  obtain body s' where b: "resolve_body L p url_text options out s = (body, s')" by fastforce
  with resolve_body_named [of L p url_text options out s] have "guarded t s' (give_out t body s')"
    by (simp add: give_out_guarded)
  with resolve_body_keeps [OF b] have "guarded t s (give_out t body s')"
    by (blast intro: guarded_cong)
  then show ?thesis by (simp add: AskRoute pw_resolve_ex_def b)
qed (auto simp: pw_context_open_def pw_context_open_with_env_def pw_watch_open_def
    pw_watch_current_def open_context_named open_watch_named current_context_named
    intro!: give_out_guarded split: option.split sum.split dest: refused)

section \<open>A program's run\<close>

text \<open>What a process does with the library from one state to a later one: calls, whose handles are noted
  in \<open>given\<close>, frees, each of a live handle of its kind and noted in \<open>freed\<close>, the steps of a live
  watch's pump, the failures it tells, and the ends of threads. Between calls the allocator chooses
  the next address among those not in use, freed ones included.\<close>

inductive c_run :: "c_library \<Rightarrow> c_state \<Rightarrow> nat set \<Rightarrow> nat set \<Rightarrow> c_state \<Rightarrow> bool" for L s where
  c_nothing: "c_run L s {} {} s"
| c_allocator:
    "c_run L s freed given s' \<Longrightarrow> cs_heap s' p = None \<Longrightarrow> c_run L s freed given (s'\<lparr>cs_next := p\<rparr>)"
| c_call:
    "c_run L s freed given s' \<Longrightarrow> cs_heap s' (cs_next s') = None \<Longrightarrow>
       c_answer L m t req s' = (status, out, s'') \<Longrightarrow> c_run L s freed (set_option out \<union> given) s''"
| c_free_context:
    "c_run L s freed given s' \<Longrightarrow> context_at s' (Some a) \<noteq> None \<Longrightarrow>
       c_run L s (insert a freed) given (pw_context_free (Some a) s')"
| c_free_route:
    "c_run L s freed given s' \<Longrightarrow> route_at s' (Some a) \<noteq> None \<Longrightarrow>
       c_run L s (insert a freed) given (pw_route_free (Some a) s')"
| c_close_watch:
    "c_run L s freed given s' \<Longrightarrow> watch_at s' (Some a) \<noteq> None \<Longrightarrow>
       c_run L s (insert a freed) given (pw_watch_close (Some a) s')"
| c_pump:
    "c_run L s freed given s' \<Longrightarrow> watch_at s' (Some a) = Some w \<Longrightarrow> pump_step (cw_watch w) b \<Longrightarrow>
       c_run L s freed given (s'\<lparr>cs_heap := (cs_heap s')(a \<mapsto> WatchObject (w\<lparr>cw_watch := b\<rparr>))\<rparr>)"
| c_tell:
    "c_run L s freed given s' \<Longrightarrow> on_change_value callback t value s' = (status, keep, s'') \<Longrightarrow>
       c_run L s freed given s''"
| c_android:
    "c_run L s freed given s' \<Longrightarrow> pw_android_init L t vm_null context_null started s' = (status, s'') \<Longrightarrow>
       c_run L s freed given s''"
| c_thread_ends:
    "c_run L s freed given s' \<Longrightarrow> c_run L s freed given (s'\<lparr>cs_messages := (cs_messages s')(t := None)\<rparr>)"

text \<open>What a program can read at an address.\<close>

definition c_view :: "c_state \<Rightarrow> nat \<Rightarrow> c_context option \<times> c_route option \<times> layering option" where
  "c_view s a =
     (context_at s (Some a), route_at s (Some a), map_option cw_layering (watch_at s (Some a)))"

abbreviation no_view :: "c_context option \<times> c_route option \<times> layering option" where
  "no_view \<equiv> (None, None, None)"

lemma c_view_cong: "cs_heap s' a = cs_heap s a \<Longrightarrow> c_view s' a = c_view s a"
  by (simp add: c_view_def context_at_def route_at_def watch_at_def)

lemma c_view_free: "c_view (drop_box (Some b) s) a = (if a = b then no_view else c_view s a)"
  by (simp add: c_view_def context_at_def route_at_def watch_at_def drop_box_def)

lemma c_view_pump:
  "watch_at s (Some b) = Some w \<Longrightarrow>
     c_view (s\<lparr>cs_heap := (cs_heap s)(b \<mapsto> WatchObject (w\<lparr>cw_watch := v\<rparr>))\<rparr>) a = c_view s a"
  by (auto simp: c_view_def context_at_def route_at_def watch_at_def
      split: option.splits c_object.splits)

lemma at_live:
  "context_at s (Some a) \<noteq> None \<Longrightarrow> cs_heap s a \<noteq> None"
  "route_at s (Some a) \<noteq> None \<Longrightarrow> cs_heap s a \<noteq> None"
  "watch_at s (Some a) \<noteq> None \<Longrightarrow> cs_heap s a \<noteq> None"
  by (auto simp: context_at_def route_at_def watch_at_def split: option.splits)

lemma tells_keep:
  "on_change_value callback t value s = (status, keep, s') \<Longrightarrow> \<exists>ms. s' = s\<lparr>cs_messages := ms\<rparr>"
  "pw_android_init L t vm_null context_null started s = (code, s') \<Longrightarrow> \<exists>ms. s' = s\<lparr>cs_messages := ms\<rparr>"
proof -
  have id: "\<exists>ms. s = s\<lparr>cs_messages := ms\<rparr>" by (rule exI [of _ "cs_messages s"]) simp
  show "on_change_value callback t value s = (status, keep, s') \<Longrightarrow> \<exists>ms. s' = s\<lparr>cs_messages := ms\<rparr>"
    "pw_android_init L t vm_null context_null started s = (code, s') \<Longrightarrow> \<exists>ms. s' = s\<lparr>cs_messages := ms\<rparr>"
    using id
    by (auto simp: on_change_value_def pw_android_init_def guard_call_def record_fail_def Let_def
        split: sum.splits if_splits)
qed

lemma c_view_messages [simp]: "c_view (s\<lparr>cs_messages := ms\<rparr>) = c_view s"
  by (rule ext) (rule c_view_cong, simp)

text \<open>A handle is what it was unless it was given or freed since, and an address is given only when it
  is not in use.\<close>

definition kept :: "c_state \<Rightarrow> nat set \<Rightarrow> nat set \<Rightarrow> c_state \<Rightarrow> bool" where
  "kept s freed given s' \<longleftrightarrow>
     (\<forall>a. a \<notin> given \<longrightarrow> c_view s' a = (if a \<in> freed then no_view else c_view s a)
        \<and> (cs_heap s' a = None) = (a \<in> freed \<or> cs_heap s a = None))
     \<and> (\<forall>a\<in>given. a \<in> freed \<or> cs_heap s a = None)"

lemma kept_messages [simp]: "kept s freed given (s'\<lparr>cs_messages := ms\<rparr>) \<longleftrightarrow> kept s freed given s'"
  by (simp add: kept_def)

lemma kept_next [simp]: "kept s freed given (s'\<lparr>cs_next := p\<rparr>) \<longleftrightarrow> kept s freed given s'"
  by (simp add: kept_def c_view_def context_at_def route_at_def watch_at_def)

lemma kept_free:
  assumes "kept s freed given s'" "cs_heap s' a \<noteq> None"
  shows "kept s (insert a freed) given (drop_box (Some a) s')"
  using assms by (auto simp: kept_def c_view_free) (simp_all add: drop_box_def)

lemma kept_answer:
  assumes "kept s freed given s'" "cs_heap s' (cs_next s') = None"
    "c_answer L m t req s' = (status, out, s'')"
  shows "kept s freed (set_option out \<union> given) s''"
proof -
  have g: "guarded t s' (status, out, s'')" using c_answer_guarded [of t s' L m req] assms(3) by simp
  show ?thesis
  proof (cases out)
    case None
    with g have "cs_heap s'' = cs_heap s'" by (simp add: guarded_def)
    with assms(1) None show ?thesis by (simp add: kept_def) (metis c_view_cong)
  next
    case (Some p)
    from g Some have p: "p = cs_next s'" by (simp add: guarded_def)
    from g Some have upd: "cs_heap s'' = (cs_heap s')(p := cs_heap s'' p)" by (auto simp only: guarded_def prod.case option.case)
    have other: "cs_heap s'' a = cs_heap s' a" if "a \<noteq> p" for a using that by (subst upd) simp
    with assms(1) have "\<forall>a. a \<notin> insert p given \<longrightarrow>
        c_view s'' a = (if a \<in> freed then no_view else c_view s a)
        \<and> (cs_heap s'' a = None) = (a \<in> freed \<or> cs_heap s a = None)"
      unfolding kept_def by (metis c_view_cong insertCI)
    with assms(1,2) p Some show ?thesis unfolding kept_def by auto
  qed
qed

lemma kept_pump:
  assumes "kept s freed given s'" "watch_at s' (Some a) = Some w"
  shows "kept s freed given (s'\<lparr>cs_heap := (cs_heap s')(a \<mapsto> WatchObject (w\<lparr>cw_watch := v\<rparr>))\<rparr>)"
proof -
  have "cs_heap s' a \<noteq> None" using assms(2) by (intro at_live(3)) simp
  with assms show ?thesis by (auto simp: kept_def c_view_pump)
qed

lemma c_run_kept: "c_run L s freed given s' \<Longrightarrow> kept s freed given s'"
proof (induction rule: c_run.induct)
  case c_nothing
  then show ?case by (simp add: kept_def)
next
  case (c_tell freed given s' callback t "value" status keep s'')
  then show ?case by (auto dest!: tells_keep(1))
next
  case (c_android freed given s' t vm_null context_null started status s'')
  then show ?case by (auto dest!: tells_keep(2))
qed (auto simp: pw_context_free_def pw_route_free_def pw_watch_close_def
    intro: kept_answer kept_pump intro!: kept_free dest: at_live [OF not_None_eq [THEN iffD2], OF exI])

section \<open>Credentials\<close>

text \<open>What the crate \<open>url\<close> says of the setters: they change the credentials, which clearing
  them forgets, and not the scheme.\<close>

definition credential_setters :: "c_library \<Rightarrow> bool" where
  "credential_setters L \<longleftrightarrow>
     (\<forall>set \<in> {set_username (cl_external L), set_password (cl_external L)}.
        \<forall>text u u'. set text u = Some u' \<longrightarrow>
          url_scheme u' = url_scheme u \<and> without_credentials L u' = without_credentials L u)"

text \<open>The URL of a step with its endpoint's credentials left out.\<close>

definition anonymous_url :: "external \<Rightarrow> proxy_step \<Rightarrow> proxy_endpoint \<Rightarrow> url option" where
  "anonymous_url E st e =
     (if \<not> is_ok (parse_host E (host_show E (ep_host e))) then None
      else (case url_parse E (step_url_scheme st e @ ''://'' @ authority E e) of
              Inl _ \<Rightarrow> None | Inr u \<Rightarrow> Some u))"

lemma step_to_url_anonymous:
  assumes "credential_setters L" "step_to_url (cl_external L) st = Some u" "step_endpoint st = Some e"
  shows "\<exists>v. anonymous_url (cl_external L) st e = Some v \<and> url_scheme u = url_scheme v
    \<and> without_credentials L u = without_credentials L v"
  using assms
  by (auto simp: step_to_url_def anonymous_url_def credential_setters_def
      split: option.splits sum.splits if_splits; metis)

fun step_with :: "proxy_auth option \<Rightarrow> proxy_step \<Rightarrow> proxy_step" where
  "step_with a StepDirect = StepDirect"
| "step_with a (StepHttp e) = StepHttp (e\<lparr>ep_auth := a\<rparr>)"
| "step_with a (StepHttps e) = StepHttps (e\<lparr>ep_auth := a\<rparr>)"
| "step_with a (StepSocks4 e) = StepSocks4 (e\<lparr>ep_auth := a\<rparr>)"
| "step_with a (StepSocks5 e) = StepSocks5 (e\<lparr>ep_auth := a\<rparr>)"

lemma step_with_simps [simp]:
  "step_endpoint (step_with a st) = map_option (\<lambda>e. e\<lparr>ep_auth := a\<rparr>) (step_endpoint st)"
  "step_kind (step_with a st) = step_kind st"
  "step_with a st = StepDirect \<longleftrightarrow> st = StepDirect"
  by (cases st; simp add: step_kind_def)+

lemma authority_auth: "authority E (e\<lparr>ep_auth := a\<rparr>) = authority E e"
  by (simp add: authority_def cong: host.case_cong)

lemma scheme_auth:
  "step_url_scheme (step_with a st) (e\<lparr>ep_auth := a\<rparr>) = step_url_scheme st e"
  by (cases st) (simp_all add: step_url_scheme_def split: option.split proxy_scheme.split)

lemma anonymous_url_auth [simp]:
  "anonymous_url E (step_with a st) (e\<lparr>ep_auth := a\<rparr>) = anonymous_url E st e"
  by (simp add: anonymous_url_def authority_auth scheme_auth)

lemma c_string_Inr [simp]: "c_string v = Inr w \<longleftrightarrow> w = v \<and> CHR 0x00 \<notin> set v"
  by (auto simp: c_string_def)

lemma c_step_public:
  assumes "credential_setters L" "c_step_of L (step_with a st) = Inr x" "step_endpoint st = Some e"
  shows "\<exists>v. anonymous_url (cl_external L) st e = Some v \<and> ct_kind x = step_kind st
    \<and> ct_scheme x = Some (url_scheme v) \<and> ct_uri x = as_str (without_credentials L v)"
proof -
  have "st \<noteq> StepDirect" using assms(3) by auto
  then obtain u where u: "step_to_url (cl_external L) (step_with a st) = Some u"
    using assms(2) by (auto simp: c_step_of_def step_url_def ok_or_def split: sum.splits option.splits)
  have x: "ct_kind x = step_kind st" "ct_scheme x = Some (url_scheme u)"
      "ct_uri x = as_str (without_credentials L u)"
    using assms(2) u by (auto simp: c_step_of_def Let_def split: sum.splits)
  show ?thesis using step_to_url_anonymous [OF assms(1) u] assms(3) x by auto
qed

lemma c_step_public_direct:
  "c_step_of L (step_with a StepDirect) = Inr x \<Longrightarrow>
     ct_kind x = PW_STEP_DIRECT \<and> ct_scheme x = None \<and> ct_uri x = ''direct''"
  by (auto simp: c_step_of_def step_url_def step_to_url_def step_kind_def split: sum.splits)

section \<open>Properties\<close>

text \<open>Two errors of the same variant, whatever they carry.\<close>

definition same_variant :: "proxy_error \<Rightarrow> proxy_error \<Rightarrow> bool" where
  "same_variant e e' \<longleftrightarrow>
     (case e of
        UnsupportedProxyScheme _ \<Rightarrow> (case e' of UnsupportedProxyScheme _ \<Rightarrow> True | _ \<Rightarrow> False)
      | InvalidProxyServer _ _ \<Rightarrow> (case e' of InvalidProxyServer _ _ \<Rightarrow> True | _ \<Rightarrow> False)
      | InvalidBypassPattern _ _ \<Rightarrow> (case e' of InvalidBypassPattern _ _ \<Rightarrow> True | _ \<Rightarrow> False)
      | InvalidProxyUrl _ _ \<Rightarrow> (case e' of InvalidProxyUrl _ _ \<Rightarrow> True | _ \<Rightarrow> False)
      | CgiHttpProxy _ \<Rightarrow> (case e' of CgiHttpProxy _ \<Rightarrow> True | _ \<Rightarrow> False)
      | Io _ _ \<Rightarrow> (case e' of Io _ _ \<Rightarrow> True | _ \<Rightarrow> False)
      | Sandboxed _ _ \<Rightarrow> (case e' of Sandboxed _ _ \<Rightarrow> True | _ \<Rightarrow> False)
      | Unsupported \<Rightarrow> (case e' of Unsupported \<Rightarrow> True | _ \<Rightarrow> False)
      | PacNotSupported _ \<Rightarrow> (case e' of PacNotSupported _ \<Rightarrow> True | _ \<Rightarrow> False)
      | ProxyEntryUnusable _ _ \<Rightarrow> (case e' of ProxyEntryUnusable _ _ \<Rightarrow> True | _ \<Rightarrow> False)
      | PacFetchRequired _ \<Rightarrow> (case e' of PacFetchRequired _ \<Rightarrow> True | _ \<Rightarrow> False)
      | PacEvaluation _ \<Rightarrow> (case e' of PacEvaluation _ \<Rightarrow> True | _ \<Rightarrow> False)
      | PacTimeout _ \<Rightarrow> (case e' of PacTimeout _ \<Rightarrow> True | _ \<Rightarrow> False)
      | PacSaturated _ _ \<Rightarrow> (case e' of PacSaturated _ _ \<Rightarrow> True | _ \<Rightarrow> False)
      | PacInvalidResult _ \<Rightarrow> (case e' of PacInvalidResult _ \<Rightarrow> True | _ \<Rightarrow> False)
      | PacEngineUnavailable \<Rightarrow> (case e' of PacEngineUnavailable \<Rightarrow> True | _ \<Rightarrow> False))"

text \<open>C32. Two errors of the core reach a C program as the same number exactly if they are the same
  variant; the number is between 2 and 18 and never that of a URL the caller got wrong, nor that of
  an argument it got wrong.\<close>

theorem every_error_keeps_its_number:
  "(let number = (\<lambda>e. fail_status (fail_from (failure_of F e)))
    in 2 \<le> number e \<and> number e \<le> 18 \<and> number e \<noteq> PW_ERR_INVALID_URL
       \<and> (number e = number e') = same_variant e e')
   \<and> fail_status (fail_from (invalid_arg message)) = PW_ERR_INVALID_ARGUMENT
   \<and> fail_status (fail_from (failure_of F e)) \<noteq> PW_ERR_INVALID_ARGUMENT"
proof -
  have "status_of_code (error_code e) = status_of_code (error_code e') \<longleftrightarrow> same_variant e e'"
    by (cases e; cases e') (simp_all add: status_of_error_code same_variant_def)
  moreover have "2 \<le> status_of_code (error_code e)" "status_of_code (error_code e) \<le> 18"
    "status_of_code (error_code e) \<noteq> PW_ERR_INVALID_URL"
    "status_of_code (error_code e) \<noteq> PW_ERR_INVALID_ARGUMENT"
    by (simp_all add: status_of_error_code PW_ERR_INVALID_URL_def PW_ERR_INVALID_ARGUMENT_def
        split: proxy_error.split)
  ultimately show ?thesis
    by (simp add: fail_from_def failure_of_def invalid_arg_def failure_new_def status_of_code_def
        Let_def)
qed

text \<open>C33. Every call that gives a handle either answers \<open>PW_OK\<close> and has written the address it was given, with
  the rest of the heap and every thread's message as they were, or answers another status, has
  written nothing and changed no handle, and has left its message, without a NUL, with its own
  thread, if that thread's storage is still there.\<close>

theorem a_call_gives_a_handle_or_says_why:
  "case c_answer L m t req s of (status, out, s') \<Rightarrow>
     case out of
       Some p \<Rightarrow> status = PW_OK \<and> p = cs_next s \<and> cs_heap s' p \<noteq> None
         \<and> cs_heap s' = (cs_heap s)(p := cs_heap s' p) \<and> cs_messages s' = cs_messages s
     | None \<Rightarrow> status \<noteq> PW_OK \<and> cs_heap s' = cs_heap s
         \<and> (if cs_messages s t = None then cs_messages s' = cs_messages s
            else CHR 0x00 \<notin> set (pw_last_error t s')
              \<and> cs_messages s' = (cs_messages s)(t \<mapsto> pw_last_error t s'))"
  using c_answer_guarded [of t s L m req]
  by (auto simp: guarded_def pw_last_error_def split: prod.splits option.splits if_splits)

text \<open>C34. In every run of calls, frees, watch threads and ends of threads: a context or a route is read as it
  was, and a watch layers what it was opened with, unless it was freed; an address that was freed is
  not in use until a call gives it again, and a call gives no address that is in use.\<close>

theorem handles_read_the_same_until_freed:
  assumes "c_run L s freed given s'"
  shows "(if a \<in> given then a \<in> freed \<or> cs_heap s a = None
     else if a \<in> freed then cs_heap s' a = None
     else context_at s' (Some a) = context_at s (Some a) \<and> route_at s' (Some a) = route_at s (Some a)
       \<and> map_option cw_layering (watch_at s' (Some a)) = map_option cw_layering (watch_at s (Some a))
       \<and> (cs_heap s' a = None) = (cs_heap s a = None))"
  using c_run_kept [OF assms] by (auto simp: kept_def c_view_def)

text \<open>Two contexts, the first of them freed.\<close>

definition sample_library :: c_library where
  "sample_library =
     \<lparr> cl_external = sample_crate, cl_url_ops = sample_setters, cl_debug = sample_debug,
       cl_os = TargetElsewhere, cl_engines = sample_engines, cl_windows_names = False,
       cl_config_debug = (\<lambda>_. ''config''), cl_options_size = 56 \<rparr>"

definition sample_machine :: c_machine where
  "sample_machine = \<lparr> cm_now = 0, cm_process = [], cm_read = Inr (config_direct 0) \<rparr>"

definition sample_open :: "c_state \<Rightarrow> int \<times> nat option \<times> c_state" where
  "sample_open s = pw_context_open sample_library sample_machine 0 PW_PRECEDENCE_IGNORE True s"

definition two_contexts :: c_state where
  "two_contexts =
     snd (snd (sample_open ((snd (snd (sample_open c_start)))\<lparr>cs_next := 1\<rparr>)))"

text \<open>The first is freed, and its address given again.\<close>

definition reopened :: c_state where
  "reopened = snd (snd (sample_open ((pw_context_free (Some 0) two_contexts)\<lparr>cs_next := 0\<rparr>)))"

lemma sample_open_eq:
  "sample_open s = (PW_OK, Some (cs_next s),
     s\<lparr>cs_heap := (cs_heap s)(cs_next s \<mapsto> ContextObject
         \<lparr> cx_config = config_direct 0, cx_os_readable = True, cx_describe = ''config'',
           cx_rejected = [] \<rparr>)\<rparr>)"
proof -
  have "open_context sample_library sample_machine PW_PRECEDENCE_IGNORE None True =
      Inr (ContextObject \<lparr> cx_config = config_direct 0, cx_os_readable = True,
        cx_describe = ''config'', cx_rejected = [] \<rparr>)"
    by code_simp
  then show ?thesis by (simp add: sample_open_def pw_context_open_def give_out_def guard_call_def alloc_def)
qed

lemma sample_open_runs:
  assumes "c_run sample_library s freed given s'" "cs_heap s' p = None"
  shows "c_run sample_library s freed (insert p given) (snd (snd (sample_open (s'\<lparr>cs_next := p\<rparr>))))"
proof -
  let ?s = "s'\<lparr>cs_next := p\<rparr>"
  have "c_answer sample_library sample_machine 0 (AskContext PW_PRECEDENCE_IGNORE True) ?s
      = (PW_OK, Some p, snd (snd (sample_open ?s)))"
    using sample_open_eq [of ?s] by (simp add: sample_open_def)
  from c_call [OF c_allocator [OF assms] _ this] assms(2) show ?thesis by simp
qed

theorem handles_read_the_same_until_freed_witness:
  "(let s = pw_context_free (Some 0) two_contexts in
      cs_heap s 0 = None \<and> context_at s (Some 1) = context_at two_contexts (Some 1))
   \<and> context_at reopened (Some 1) = context_at two_contexts (Some 1) \<and> cs_heap reopened 0 \<noteq> None"
proof -
  let ?s = "pw_context_free (Some 0) two_contexts"
  have "context_at two_contexts (Some 0) \<noteq> None"
    by (simp add: two_contexts_def sample_open_eq context_at_def c_start_def)
  then have freed: "c_run sample_library two_contexts {0} {} ?s"
    using c_free_context [OF c_nothing, of two_contexts 0] by simp
  note first = handles_read_the_same_until_freed [OF freed]
  from first [of 0] have "cs_heap ?s 0 = None" by simp
  from sample_open_runs [OF freed this] have again: "c_run sample_library two_contexts {0} {0} reopened"
    by (simp add: reopened_def)
  have "cs_heap reopened 0 \<noteq> None" by (simp add: reopened_def sample_open_eq)
  with first [of 0] first [of 1] handles_read_the_same_until_freed [OF again, of 1] show ?thesis
    by (simp add: Let_def)
qed

text \<open>C35. The kind, the scheme and the URI that is for logs of a route's step are the same whatever the
  proxy's user name and password are, or whether it has any.\<close>

theorem the_uri_for_logs_hides_credentials:
  assumes "credential_setters L"
    "c_step_of L (step_with a st) = Inr x" "c_step_of L (step_with b st) = Inr y"
  shows "ct_kind x = ct_kind y \<and> ct_scheme x = ct_scheme y \<and> ct_uri x = ct_uri y"
proof (cases "step_endpoint st")
  case None
  then have "st = StepDirect" by (cases st) simp_all
  then show ?thesis using assms(2,3) by (auto dest!: c_step_public_direct simp del: step_with.simps)
next
  case (Some e)
  from c_step_public [OF assms(1,2) Some] c_step_public [OF assms(1,3) Some] show ?thesis by auto
qed

text \<open>A crate that keeps the credentials before an \<open>@\<close>.\<close>

definition url_rest :: "url \<Rightarrow> string" where
  "url_rest u = rev (takeWhile (\<lambda>c. c \<noteq> CHR ''@'') (rev (drop (length (url_scheme u) + 3) (as_str u))))"

definition url_with :: "string \<Rightarrow> url \<Rightarrow> url" where
  "url_with front u = u\<lparr>as_str := url_scheme u @ ''://'' @ front @ url_rest u\<rparr>"

definition put_username :: "string \<Rightarrow> url \<Rightarrow> url option" where
  "put_username name u = Some (url_with (name @ ''@'') u)"

definition put_password :: "string \<Rightarrow> url \<Rightarrow> url option" where
  "put_password pw u =
     (let shown = drop (length (url_scheme u) + 3) (as_str u)
      in Some (url_with (takeWhile (\<lambda>c. c \<noteq> CHR ''@'') shown @ '':'' @ pw @ ''@'') u))"

definition credential_crate :: external where
  "credential_crate = plain_external
     \<lparr>url_parse := (\<lambda>text. Inr \<lparr> as_str = text, url_scheme = takeWhile (\<lambda>c. c \<noteq> CHR '':'') text,
        url_host = None, url_port = None, port_or_known_default = None \<rparr>),
      set_username := put_username, set_password := put_password\<rparr>"

definition credential_library :: c_library where
  "credential_library = sample_library
     \<lparr>cl_external := credential_crate,
      cl_url_ops := sample_setters\<lparr>clear_username := put_username [],
                                    clear_password := Some \<circ> url_with []\<rparr>\<rparr>"

lemma url_rest_with:
  "front = [] \<or> last front = CHR ''@'' \<Longrightarrow> url_rest (url_with front u) = url_rest u"
proof -
  assume p: "front = [] \<or> last front = CHR ''@''"
  let ?r = "rev (url_rest u)"
  have r: "takeWhile (\<lambda>c. c \<noteq> CHR ''@'') ?r = ?r" by (auto simp: url_rest_def takeWhile_eq_all_conv dest: set_takeWhileD)
  then have "takeWhile (\<lambda>c. c \<noteq> CHR ''@'') (?r @ rev front) = ?r"
    using p by (cases front rule: rev_cases) (auto simp: takeWhile_append takeWhile_eq_all_conv)
  then show ?thesis by (simp add: url_rest_def [of "url_with front u"]) (simp add: url_with_def)
qed

lemma credential_library_setters: "credential_setters credential_library"
proof -
  have rest: "url_rest (url_with (name @ ''@'') u) = url_rest u"
    "url_rest (url_with (name @ CHR '':'' # pw @ ''@'') u) = url_rest u" for name pw u
    using url_rest_with [of "name @ ''@''" u] url_rest_with [of "name @ '':'' @ pw @ ''@''" u]
    by simp_all
  have clear: "without_credentials credential_library u
      = u\<lparr>as_str := url_scheme u @ ''://'' @ url_rest u\<rparr>" for u
    using rest(1) [of "[]" u]
    by (simp add: without_credentials_def credential_library_def put_username_def)
      (simp add: url_with_def)
  have crate: "set_username (cl_external credential_library) = put_username"
    "set_password (cl_external credential_library) = put_password"
    by (simp_all add: credential_library_def credential_crate_def)
  show ?thesis
    unfolding credential_setters_def
    by (simp add: clear crate put_username_def put_password_def Let_def rest) (simp add: url_with_def)
qed

text \<open>A proxy with a user name and a password, and without.\<close>

definition sample_step :: proxy_step where
  "sample_step = StepHttp (endpoint_new (Domain ''h'') 80)"

definition sample_named :: c_step where
  "sample_named =
     \<lparr> ct_kind = 1, ct_scheme = Some ''http'', ct_uri = ''http://h:80'',
       ct_uri_with_auth = ''http://u:p@h:80'', ct_username = Some ''u'', ct_password = Some ''p'' \<rparr>"

definition sample_bare :: c_step where
  "sample_bare =
     \<lparr> ct_kind = 1, ct_scheme = Some ''http'', ct_uri = ''http://h:80'',
       ct_uri_with_auth = ''http://h:80'', ct_username = None, ct_password = None \<rparr>"

theorem the_uri_for_logs_hides_credentials_witness:
  "ct_uri sample_named = ct_uri sample_bare \<and> ct_uri_with_auth sample_named \<noteq> ct_uri_with_auth sample_bare"
proof -
  have "c_step_of credential_library (step_with (Some (auth_new ''u'' (Some ''p''))) sample_step) = Inr sample_named"
    "c_step_of credential_library (step_with None sample_step) = Inr sample_bare"
    by code_simp+
  from the_uri_for_logs_hides_credentials [OF credential_library_setters this] show ?thesis
    by (simp add: sample_named_def sample_bare_def)
qed

end
