(* ===== verification/Binding_Node.thy ===== *)
theory Binding_Node
  imports Binding_C
begin

text \<open>
  \<open>bindings/node/src/lib.rs\<close>: the Node interface around the shared part. A JavaScript value is
  opaque; what Node-API says of one is a parameter. The watch is a transition system of the
  JavaScript thread beside the pump of \<open>Binding_Watch\<close>: the queue of the threadsafe function, the
  gate in front of the caller's \<open>onChange\<close>, and the cleanup hook's box.
\<close>

section \<open>Numbers\<close>

text \<open>A binary64 value: a magnitude \<open>p / q\<close> with its sign, an infinity, or no number.\<close>

datatype f64 = F64 bool nat nat | Infinite bool | NotANumber

text \<open>The nearest binary64 to \<open>p / q\<close> as a significand and an exponent, ties to even.\<close>

definition binary64_round :: "nat \<Rightarrow> nat \<Rightarrow> nat \<times> int" where
  "binary64_round p q =
     (if p = 0 then (0, 0)
      else
        (let k = max (floor_log2 p q - 52) (- 1074)
         in (if 0 \<le> k then round_half_even p (q * 2 ^ nat k) else round_half_even (p * 2 ^ nat (- k)) q,
             k)))"

text \<open>\<open>Duration::try_from_secs_f64\<close> of a value that is not negative, in nanoseconds: the nearest,
  ties to even, unless the seconds do not fit 64 bits.\<close>

definition duration_of_secs :: "nat \<times> int \<Rightarrow> nat option" where
  "duration_of_secs v =
     (case v of (m, k) \<Rightarrow>
        let ns = (if 0 \<le> k then m * 2 ^ nat k * 10 ^ 9
                  else round_half_even (m * 10 ^ 9) (2 ^ nat (- k)))
        in if ns < 2 ^ 64 * 10 ^ 9 then Some ns else None)"

text \<open>\<open>pollIntervalMs\<close>: a negative zero is not negative.\<close>

definition interval_of_ms :: "f64 \<Rightarrow> nat option" where
  "interval_of_ms ms =
     (case ms of
        F64 negative p q \<Rightarrow>
          if negative \<and> p \<noteq> 0 then None else duration_of_secs (binary64_round p (q * 1000))
      | _ \<Rightarrow> None)"

section \<open>Failures and the environment\<close>

text \<open>A napi error as the caller sees it.\<close>

datatype js_error = JsError (js_code: string) (js_reason: string)

definition into_napi :: "binding_failure \<Rightarrow> js_error" where
  "into_napi f = JsError (bf_code f) (bf_message f)"

datatype js_type = JsObject | JsOther

text \<open>What Node-API answers of a value \<open>'v\<close>; \<open>None\<close> is a status other than \<open>napi_ok\<close>. \<open>np_map\<close> is
  the conversion of an object into a map, with the status and the reason when it fails.\<close>

record 'v napi =
  np_global :: "'v option"
  np_property :: "'v \<Rightarrow> string \<Rightarrow> 'v option"
  np_call :: "'v \<Rightarrow> 'v \<Rightarrow> 'v option"
  np_string :: "'v \<Rightarrow> string option"
  np_typeof :: "'v \<Rightarrow> js_type option"
  np_is_array :: "'v \<Rightarrow> bool option"
  np_map :: "'v \<Rightarrow> (bool \<times> string) + (string \<times> string) list"

definition to_string_tag :: "'v napi \<Rightarrow> 'v \<Rightarrow> string option" where
  "to_string_tag N v =
     Option.bind (np_global N) (\<lambda>global.
     Option.bind (np_property N global ''Object'') (\<lambda>object.
     Option.bind (np_property N object ''prototype'') (\<lambda>prototype.
     Option.bind (np_property N prototype ''toString'') (\<lambda>to_string.
     Option.bind (np_call N v to_string) (np_string N)))))"

text \<open>The status is \<open>ObjectExpected\<close> or not.\<close>

definition env_vars_from :: "'v napi \<Rightarrow> 'v \<Rightarrow> (bool \<times> string) + (string \<times> string) list" where
  "env_vars_from N v =
     (if np_typeof N v \<noteq> Some JsObject \<or> np_is_array N v \<noteq> Some False
         \<or> to_string_tag N v \<noteq> Some ''[object Object]''
      then Inl (True, ''env must be an object of variable names to values'')
      else np_map N v)"

definition process_env :: "'v napi \<Rightarrow> js_error + (string \<times> string) list" where
  "process_env N =
     (case Option.bind (np_global N) (\<lambda>global.
             Option.bind (np_property N global ''process'') (\<lambda>process. np_property N process ''env'')) of
        None \<Rightarrow> Inl (JsError ''ERR_PROXY_WATCH'' ''process.env could not be read'')
      | Some v \<Rightarrow>
          (case env_vars_from N v of
             Inr vars \<Rightarrow> Inr vars
           | Inl (object_expected, reason) \<Rightarrow>
               Inl (JsError ''ERR_PROXY_WATCH''
                 (if object_expected then ''process.env is not an object of variable names to values''
                  else ''process.env: '' @ reason))))"

text \<open>The library as the binding is built, the clock, and the environment of the call.\<close>

definition node_layering ::
    "c_library \<Rightarrow> nat \<Rightarrow> 'v napi \<Rightarrow> (string \<times> string) list option \<Rightarrow> string option \<Rightarrow> js_error + layering" where
  "node_layering L now N vars precedence =
     (case (case vars of Some vs \<Rightarrow> Inr vs | None \<Rightarrow> process_env N) of
        Inl e \<Rightarrow> Inl e
      | Inr vs \<Rightarrow>
          map_sum into_napi id
            (case precedence_of_name (cl_debug L) precedence of
               Inl f \<Rightarrow> Inl f
             | Inr rank \<Rightarrow>
                 layering_new (cl_external L) (cl_debug L) (cl_windows_names L) now [] (Some vs) rank))"

section \<open>Routes\<close>

record node_route_options =
  no_pac :: "string option"
  no_script :: "string option"
  no_wpad :: "bool option"
  no_policy :: "policy_options option"

definition policy_options_default :: policy_options where
  "policy_options_default =
     \<lparr> po_my_ip_address = None, po_resolve_dns = None, po_allow_internal = None, po_utc_offset = None,
       po_timeout_ms = None \<rparr>"

definition node_route_options_of ::
    "foreign_debug \<Rightarrow> node_route_options option \<Rightarrow> binding_failure + route_options" where
  "node_route_options_of F options =
     (case options of
        None \<Rightarrow> Inr route_options_none
      | Some o' \<Rightarrow>
          (case pac_of_name F (no_pac o') of
             Inl f \<Rightarrow> Inl f
           | Inr pac \<Rightarrow>
               (case binding_policy F (unwrap_or policy_options_default (no_policy o')) of
                  Inl f \<Rightarrow> Inl f
                | Inr policy \<Rightarrow>
                    route_options_new pac (no_script o') (unwrap_or False (no_wpad o')) policy)))"

record snapshot =
  sn_config :: proxy_config
  sn_os_readable :: bool

text \<open>\<open>shared::route\<close> of a snapshot, and the fields of its answer.\<close>

definition snapshot_route ::
    "c_library \<Rightarrow> snapshot \<Rightarrow> string \<Rightarrow> binding_failure + route_options \<Rightarrow> native_slots
       \<Rightarrow> (binding_failure + answer_fields) \<times> native_slots" where
  "snapshot_route L sn url_text options slots =
     (case options of
        Inl f \<Rightarrow> (Inl f, slots)
      | Inr ro \<Rightarrow>
          (case route (cl_external L) (cl_url_ops L) (cl_debug L) (cl_os L) (cl_engines L)
                  (sn_config sn) url_text ro slots of
             (Inl f, slots') \<Rightarrow> (Inl f, slots')
           | (Inr a, slots') \<Rightarrow> (answer_fields_of (cl_external L) (cl_debug L) a, slots')))"

definition node_route ::
    "c_library \<Rightarrow> snapshot \<Rightarrow> string \<Rightarrow> node_route_options option \<Rightarrow> native_slots
       \<Rightarrow> (js_error + answer_fields) \<times> native_slots" where
  "node_route L sn url_text options slots =
     map_prod (map_sum into_napi id) id
       (snapshot_route L sn url_text (node_route_options_of (cl_debug L) options) slots)"

text \<open>\<open>routeAsync\<close>: the options are looked at by the call, the rest by the task.\<close>

definition node_route_async ::
    "c_library \<Rightarrow> snapshot \<Rightarrow> string \<Rightarrow> node_route_options option
       \<Rightarrow> js_error + (native_slots \<Rightarrow> (js_error + answer_fields) \<times> native_slots)" where
  "node_route_async L sn url_text options =
     (case node_route_options_of (cl_debug L) options of
        Inl f \<Rightarrow> Inl (into_napi f)
      | Inr ro \<Rightarrow>
          Inr (\<lambda>slots. map_prod (map_sum into_napi id) id (snapshot_route L sn url_text (Inr ro) slots)))"

definition node_route_native ::
    "c_library \<Rightarrow> snapshot \<Rightarrow> string \<Rightarrow> native_slots \<Rightarrow> (js_error + answer_fields) \<times> native_slots" where
  "node_route_native L sn url_text slots =
     map_prod (map_sum into_napi id) id
       (snapshot_route L sn url_text (Inr route_options_native) slots)"

section \<open>Snapshots\<close>

definition shown_flag :: "bool \<Rightarrow> string" where
  "shown_flag b = (if b then ''true'' else ''false'')"

definition node_describe :: "c_library \<Rightarrow> snapshot \<Rightarrow> string" where
  "node_describe L sn =
     ''Snapshot { osReadable: '' @ shown_flag (sn_os_readable sn) @ '', config: ''
       @ cl_config_debug L (sn_config sn) @ '' }''"

record diagnostics =
  dg_os_readable :: bool
  dg_sources :: "string list"
  dg_fallbacks :: "string list"
  dg_rejected :: "string list"

definition diagnostics_of :: "foreign_debug \<Rightarrow> snapshot \<Rightarrow> diagnostics" where
  "diagnostics_of F sn =
     \<lparr> dg_os_readable = sn_os_readable sn,
       dg_sources = map (source_label \<circ> fst) (sources (sn_config sn)),
       dg_fallbacks = map source_label (fallbacks (sn_config sn)),
       dg_rejected = rejected_texts F (sn_config sn) \<rparr>"

text \<open>The rest of a key after its first part.\<close>

fun capitalised :: "string \<Rightarrow> string" where
  "capitalised [] = []"
| "capitalised (c # s) = upper_char c # s"

definition camel_case :: "string \<Rightarrow> string" where
  "camel_case key =
     (case split_chars (\<lambda>c. c = CHR ''_'') key of
        [] \<Rightarrow> []
      | first # parts \<Rightarrow> first @ concat (map capitalised parts))"

text \<open>A property set twice keeps its place and its last value.\<close>

fun object_set :: "string \<Rightarrow> bvalue \<Rightarrow> (string \<times> bvalue) list \<Rightarrow> (string \<times> bvalue) list" where
  "object_set key v [] = [(key, v)]"
| "object_set key v (e # es) = (if fst e = key then (key, v) # es else e # object_set key v es)"

fun js_json :: "bvalue \<Rightarrow> bvalue" where
  "js_json (VList items) = VList (map js_json items)"
| "js_json (VMap entries) =
     VMap (fold (\<lambda>(key, v). object_set (camel_case key) v) (map (\<lambda>(key, v). (key, js_json v)) entries) [])"
| "js_json v = v"

definition snapshot_json :: "c_library \<Rightarrow> snapshot \<Rightarrow> bvalue" where
  "snapshot_json L sn =
     js_json (describe (cl_external L) (cl_debug L) (sn_config sn) (sn_os_readable sn))"

text \<open>\<open>read\<close>: the options and the environment on the JavaScript thread, the rest on a worker, which
  reads with what was captured. \<open>readSync\<close> is both at once.\<close>

record read_options =
  rd_env :: "(string \<times> string) list option"
  rd_precedence :: "string option"

definition read_options_default :: read_options where
  "read_options_default = \<lparr> rd_env = None, rd_precedence = None \<rparr>"

definition node_read_options ::
    "c_library \<Rightarrow> nat \<Rightarrow> 'v napi \<Rightarrow> read_options option \<Rightarrow> js_error + layering" where
  "node_read_options L now N options =
     (let o' = unwrap_or read_options_default options
      in node_layering L now N (rd_env o') (rd_precedence o'))"

definition read_snapshot ::
    "c_library \<Rightarrow> nat \<Rightarrow> layering \<Rightarrow> proxy_error + proxy_config \<Rightarrow> binding_failure + snapshot" where
  "read_snapshot L now l answer =
     map_sum id (\<lambda>(config, os_readable).
         \<lparr> sn_config = layering_apply l config, sn_os_readable = os_readable \<rparr>)
       (read_os (cl_debug L) now answer)"

definition node_read ::
    "c_library \<Rightarrow> nat \<Rightarrow> 'v napi \<Rightarrow> read_options option
       \<Rightarrow> js_error + (nat \<Rightarrow> proxy_error + proxy_config \<Rightarrow> js_error + snapshot)" where
  "node_read L now N options =
     map_sum id (\<lambda>l later answer. map_sum into_napi id (read_snapshot L later l answer))
       (node_read_options L now N options)"

definition node_read_sync ::
    "c_library \<Rightarrow> nat \<Rightarrow> 'v napi \<Rightarrow> read_options option \<Rightarrow> proxy_error + proxy_config
       \<Rightarrow> js_error + snapshot" where
  "node_read_sync L now N options answer =
     (case node_read_options L now N options of
        Inl e \<Rightarrow> Inl e
      | Inr l \<Rightarrow> map_sum into_napi id (read_snapshot L now l answer))"

section \<open>Starting a watch\<close>

record node_watch_options =
  nw_env :: "(string \<times> string) list option"
  nw_precedence :: "string option"
  nw_poll_interval_ms :: "f64 option"

definition node_watch_options_default :: node_watch_options where
  "node_watch_options_default =
     \<lparr> nw_env = None, nw_precedence = None, nw_poll_interval_ms = None \<rparr>"

text \<open>\<open>shown\<close> is the \<open>Debug\<close> of a number.\<close>

definition node_watch_options_of ::
    "c_library \<Rightarrow> nat \<Rightarrow> 'v napi \<Rightarrow> (f64 \<Rightarrow> string) \<Rightarrow> node_watch_options option
       \<Rightarrow> js_error + layering \<times> nat option" where
  "node_watch_options_of L now N shown options =
     (let o' = unwrap_or node_watch_options_default options in
      case node_layering L now N (nw_env o') (nw_precedence o') of
        Inl e \<Rightarrow> Inl e
      | Inr l \<Rightarrow>
          (case nw_poll_interval_ms o' of
             None \<Rightarrow> Inr (l, None)
           | Some ms \<Rightarrow>
               (case interval_of_ms ms of
                  None \<Rightarrow> Inl (JsError ''ERR_INVALID_ARG_VALUE'' (''pollIntervalMs: '' @ shown ms))
                | Some d \<Rightarrow> Inr (l, Some d))))"

text \<open>\<open>gated\<close>: why \<open>onChange\<close> is no function, and why its gate could not be made.\<close>

definition node_gated :: "string option \<Rightarrow> string option \<Rightarrow> js_error + unit" where
  "node_gated no_function no_gate =
     (case no_function of
        Some reason \<Rightarrow> Inl (JsError ''ERR_INVALID_ARG_TYPE'' reason)
      | None \<Rightarrow>
          (case no_gate of
             Some reason \<Rightarrow> Inl (JsError ''ERR_PROXY_WATCH'' reason)
           | None \<Rightarrow> Inr ()))"

text \<open>What the pump hands to \<open>onChange\<close>.\<close>

definition node_value ::
    "foreign_debug \<Rightarrow> layering \<Rightarrow> delivery \<Rightarrow> js_error + snapshot" where
  "node_value F l d =
     map_sum into_napi (\<lambda>c. \<lparr> sn_config = layering_apply l c, sn_os_readable = True \<rparr>)
       (delivered_value F d)"

section \<open>A watch and its JavaScript thread\<close>

datatype js_phase = JsIdle | JsClosing | JsTearing | JsEnded

text \<open>\<open>nd_queue\<close>: the calls of the threadsafe function that wait for the JavaScript thread, refused once
  it is finalized; \<open>nd_called\<close>: what the caller's \<open>onChange\<close> was given. \<open>nd_hook\<close>: the \<open>Watcher\<close> holds
  the hook's box; \<open>nd_registered\<close>: Node runs the hook at teardown; \<open>nd_freed\<close>: how often the box was
  freed.\<close>

record node_watcher =
  nd_watch :: binding_watch
  nd_layering :: layering
  nd_open :: bool
  nd_queue :: "(js_error + snapshot) list"
  nd_called :: "(js_error + snapshot) list"
  nd_finalized :: bool
  nd_hook :: bool
  nd_registered :: bool
  nd_freed :: nat
  nd_js :: js_phase

text \<open>\<open>watcher\<close>: a hook that Node does not take stops the watch in the background.\<close>

definition background_close :: "binding_watch \<Rightarrow> binding_watch" where
  "background_close w =
     (if bw_closed w then w else w\<lparr>bw_closed := True, bw_background := bw_background w + 1\<rparr>)"

definition node_watcher_new ::
    "int \<Rightarrow> binding_watch \<Rightarrow> layering \<Rightarrow> (binding_failure + node_watcher) \<times> binding_watch" where
  "node_watcher_new status w l =
     (if status \<noteq> 0 then
        (Inl (failure_new ''ERR_PROXY_WATCH''
           (''registering the watch'' @ [CHR 0x27] @ ''s cleanup hook failed with napi status ''
            @ show_offset status)), background_close w)
      else
        (Inr \<lparr> nd_watch = w, nd_layering = l, nd_open = True, nd_queue = [], nd_called = [],
               nd_finalized = False, nd_hook = True, nd_registered = True, nd_freed = 0,
               nd_js = JsIdle \<rparr>, w))"

text \<open>\<open>start\<close>, then \<open>watcher\<close>: \<open>watchSync\<close> and, on two threads, \<open>watch\<close>. A \<open>compute\<close> that has no
  function left to give was run before.\<close>

definition node_start ::
    "c_library \<Rightarrow> nat \<Rightarrow> (nat option \<Rightarrow> proxy_error + watcher) \<Rightarrow> string option \<Rightarrow> nat option
       \<Rightarrow> binding_failure + binding_watch" where
  "node_start L now started refusal interval =
     shared_watch_start (cl_debug L) (config_direct now) (started interval) refusal"

definition start_compute ::
    "bool \<Rightarrow> binding_failure + binding_watch \<Rightarrow> binding_failure + binding_watch" where
  "start_compute gone start =
     (if gone then Inl (failure_new ''ERR_PROXY_WATCH'' ''the watch already started'') else start)"

definition node_watch_sync ::
    "c_library \<Rightarrow> nat \<Rightarrow> 'v napi \<Rightarrow> (f64 \<Rightarrow> string) \<Rightarrow> string option \<Rightarrow> string option
       \<Rightarrow> (nat option \<Rightarrow> proxy_error + watcher) \<Rightarrow> string option \<Rightarrow> int \<Rightarrow> node_watch_options option
       \<Rightarrow> js_error + node_watcher" where
  "node_watch_sync L now N shown no_function no_gate started refusal status options =
     (case node_watch_options_of L now N shown options of
        Inl e \<Rightarrow> Inl e
      | Inr (l, interval) \<Rightarrow>
          (case node_gated no_function no_gate of
             Inl e \<Rightarrow> Inl e
           | Inr _ \<Rightarrow>
               map_sum into_napi id
                 (case node_start L now started refusal interval of
                    Inl f \<Rightarrow> Inl f
                  | Inr w \<Rightarrow> fst (node_watcher_new status w l))))"

text \<open>A started watch that no \<open>Watcher\<close> took.\<close>

definition started_drop :: "binding_watch option \<Rightarrow> binding_watch option" where
  "started_drop w = map_option background_close w"

definition node_current ::
    "c_library \<Rightarrow> nat \<Rightarrow> bool \<Rightarrow> node_watcher \<Rightarrow> js_error + snapshot" where
  "node_current L now closed_since s =
     map_sum (into_napi \<circ> current_failure_of)
       (\<lambda>c. \<lparr> sn_config = layering_apply (nd_layering s) c,
              sn_os_readable = bw_os_readable (nd_watch s) \<rparr>)
       (watch_current (config_direct now) closed_since (nd_watch s))"

definition node_watcher_describe :: "node_watcher \<Rightarrow> string" where
  "node_watcher_describe s =
     ''Watcher { open: '' @ shown_flag (nd_open s \<and> \<not> bw_closed (nd_watch s)) @ '' }''"

text \<open>The gate.\<close>

definition gate_call :: "js_error + snapshot \<Rightarrow> node_watcher \<Rightarrow> node_watcher" where
  "gate_call v s = (if nd_open s then s\<lparr>nd_called := nd_called s @ [v]\<rparr> else s)"

text \<open>\<open>deliver\<close>: what the pump told since, into the queue.\<close>

definition node_deliver :: "foreign_debug \<Rightarrow> binding_watch \<Rightarrow> node_watcher \<Rightarrow> node_watcher" where
  "node_deliver F b s =
     s\<lparr>nd_watch := b,
       nd_queue := nd_queue s
         @ (if nd_finalized s then []
            else map (node_value F (nd_layering s)) (drop (length (bw_out (nd_watch s))) (bw_out b)))\<rparr>"

definition begin_close :: "binding_watch \<Rightarrow> binding_watch" where
  "begin_close w = w\<lparr>bw_closed := True, bw_closing := bw_closing w + 1\<rparr>"

text \<open>The hook's box once \<open>close\<close> has returned: \<open>removed\<close> is whether Node gave the hook up.\<close>

definition node_unhook :: "bool \<Rightarrow> node_watcher \<Rightarrow> node_watcher" where
  "node_unhook removed s =
     (if \<not> nd_hook s then s
      else (let s' = s\<lparr>nd_hook := False\<rparr> in
            if removed then s'\<lparr>nd_registered := False, nd_freed := nd_freed s + 1\<rparr> else s'))"

text \<open>The pump, and every close in between, steps at any time. The JavaScript thread runs a queued call,
  a \<open>close\<close> to its end, or the teardown of its environment, which frees the box after closing.\<close>

inductive node_step :: "foreign_debug \<Rightarrow> node_watcher \<Rightarrow> node_watcher \<Rightarrow> bool" for F where
  nd_pump: "pump_step (nd_watch s) b \<Longrightarrow> node_step F s (node_deliver F b s)"
| nd_call:
    "nd_js s = JsIdle \<Longrightarrow> nd_queue s = v # vs \<Longrightarrow> node_step F s (gate_call v (s\<lparr>nd_queue := vs\<rparr>))"
| nd_close:
    "nd_js s = JsIdle \<Longrightarrow>
       node_step F s (s\<lparr>nd_open := False, nd_watch := begin_close (nd_watch s), nd_js := JsClosing\<rparr>)"
| nd_closed:
    "nd_js s = JsClosing \<Longrightarrow> bw_returned (nd_watch s) \<Longrightarrow>
       node_step F s ((node_unhook removed s)\<lparr>nd_js := JsIdle\<rparr>)"
| nd_teardown:
    "nd_js s = JsIdle \<Longrightarrow> nd_registered s \<Longrightarrow>
       node_step F s (s\<lparr>nd_watch := begin_close (nd_watch s), nd_registered := False, nd_hook := False,
                        nd_js := JsTearing\<rparr>)"
| nd_torn:
    "nd_js s = JsTearing \<Longrightarrow> bw_returned (nd_watch s) \<Longrightarrow>
       node_step F s (s\<lparr>nd_freed := nd_freed s + 1, nd_js := JsEnded\<rparr>)"
| nd_ends: "nd_js s = JsIdle \<Longrightarrow> \<not> nd_registered s \<Longrightarrow> node_step F s (s\<lparr>nd_js := JsEnded\<rparr>)"
| nd_finalize:
    "nd_js s = JsTearing \<or> nd_js s = JsEnded \<Longrightarrow>
       node_step F s (s\<lparr>nd_finalized := True, nd_queue := []\<rparr>)"

text \<open>A \<open>Watcher\<close> that was just made over a watch of any run: on a worker, the pump may have told
  something by then, which waits in the queue.\<close>

inductive node_run :: "foreign_debug \<Rightarrow> node_watcher \<Rightarrow> bool" for F where
  node_started:
    "pump_run start w \<Longrightarrow> \<not> bw_closed w \<Longrightarrow> node_watcher_new 0 w l = (Inr s, w) \<Longrightarrow>
       node_run F (s\<lparr>nd_queue := map (node_value F l) (bw_out w)\<rparr>)"
| node_more: "node_run F s \<Longrightarrow> node_step F s s' \<Longrightarrow> node_run F s'"

section \<open>Facts\<close>

text \<open>The pump only ever adds to what it has told.\<close>

lemma pump_tells_more: "pump_step w b \<Longrightarrow> \<exists>ds. bw_out b = bw_out w @ ds"
  by (induction rule: pump_step.induct)
    (auto simp: bw_defs split: option.splits prod.splits watch_event.splits)

definition box_ok :: "node_watcher \<Rightarrow> bool" where
  "box_ok s \<longleftrightarrow>
     nd_freed s = (if nd_registered s \<or> nd_js s = JsTearing then 0 else 1)
     \<and> (nd_hook s \<longrightarrow> nd_registered s) \<and> (nd_js s = JsTearing \<longrightarrow> \<not> nd_registered s)"

definition told_ok :: "foreign_debug \<Rightarrow> node_watcher \<Rightarrow> bool" where
  "told_ok F s \<longleftrightarrow>
     (nd_open s \<and> \<not> nd_finalized s \<longrightarrow>
        nd_called s @ nd_queue s = map (node_value F (nd_layering s)) (bw_out (nd_watch s)))"

lemma step_box_ok: "node_step F s s' \<Longrightarrow> box_ok s \<Longrightarrow> box_ok s'"
  by (induction rule: node_step.induct)
    (auto simp: box_ok_def node_deliver_def gate_call_def node_unhook_def Let_def split: if_splits)

lemma step_told_ok: "node_step F s s' \<Longrightarrow> told_ok F s \<Longrightarrow> told_ok F s'"
proof (induction rule: node_step.induct)
  case (nd_pump s b)
  then show ?case using pump_tells_more [OF nd_pump(1)]
    by (auto simp: told_ok_def node_deliver_def simp flip: append_assoc)
qed (auto simp: told_ok_def gate_call_def node_unhook_def begin_close_def Let_def)

lemma node_run_ok: "node_run F s \<Longrightarrow> box_ok s \<and> told_ok F s"
proof (induction rule: node_run.induct)
  case (node_started start w l s)
  then show ?case by (auto simp: node_watcher_new_def box_ok_def told_ok_def)
next
  case (node_more s s')
  then show ?case using step_box_ok step_told_ok by blast
qed

lemma gate_stays_shut: "node_step F s s' \<Longrightarrow> \<not> nd_open s \<Longrightarrow> \<not> nd_open s' \<and> nd_called s' = nd_called s"
  by (induction rule: node_step.induct)
    (auto simp: node_deliver_def gate_call_def node_unhook_def Let_def)

text \<open>One change, told while the watch was started, is run from the queue, and the watch closed.\<close>

definition node_fresh :: node_watcher where
  "node_fresh =
     \<lparr> nd_watch = sample_told, nd_layering = None, nd_open = True,
       nd_queue = map (node_value sample_debug None) (bw_out sample_told), nd_called = [],
       nd_finalized = False, nd_hook = True, nd_registered = True, nd_freed = 0, nd_js = JsIdle \<rparr>"

definition node_told :: node_watcher where
  "node_told = gate_call (hd (nd_queue node_fresh)) (node_fresh\<lparr>nd_queue := []\<rparr>)"

definition node_closing :: node_watcher where
  "node_closing =
     node_told\<lparr>nd_open := False, nd_watch := begin_close (nd_watch node_told), nd_js := JsClosing\<rparr>"

lemma sample_told_out: "bw_out sample_told = [Changed sample_change]" "\<not> bw_closed sample_told"
  by code_simp+

lemma node_fresh_runs: "node_run sample_debug node_fresh"
proof -
  let ?s = "node_fresh\<lparr>nd_queue := []\<rparr>"
  have "node_watcher_new 0 sample_told None = (Inr ?s, sample_told)"
    by (simp add: node_watcher_new_def node_fresh_def)
  from node_started [OF sample_run_told sample_told_out(2) this, of sample_debug] show ?thesis
    by (simp add: node_fresh_def)
qed

lemma node_told_runs: "node_run sample_debug node_told"
proof -
  have "nd_js node_fresh = JsIdle" "nd_queue node_fresh = hd (nd_queue node_fresh) # []"
    by (simp_all add: node_fresh_def sample_told_out)
  from node_more [OF node_fresh_runs nd_call [OF this]] show ?thesis by (simp add: node_told_def)
qed

lemma node_closing_step: "node_step sample_debug node_told node_closing"
  unfolding node_closing_def by (rule nd_close) (simp add: node_told_def gate_call_def node_fresh_def)

section \<open>The same route in every language\<close>

lemmas pw_route_numbers = PW_ROUTE_STEPS_def PW_ROUTE_PAC_def PW_ROUTE_PAC_INLINE_def PW_ROUTE_WPAD_def
  PW_ENGINE_NONE_def PW_ENGINE_NATIVE_def PW_ENGINE_QUICKJS_def

lemma c_string_value: "c_string v = Inr w \<Longrightarrow> w = v"
  by (simp add: c_string_def split: if_splits)

lemma c_step_shows: "c_step_of L st = Inr x \<Longrightarrow>
    step_url (cl_external L) (cl_debug L) st = Inr (ct_uri_with_auth x)"
  by (auto simp: c_step_of_def Let_def dest!: c_string_value split: sum.splits option.splits)

lemma c_steps_show:
  "c_collect (c_step_of L) chain = Inr xs \<Longrightarrow>
     step_urls (cl_external L) (cl_debug L) chain = Inr (map ct_uri_with_auth xs)"
proof (induction chain arbitrary: xs)
  case (Cons st chain)
  then show ?case by (auto split: sum.splits simp: map_sum_def dest: c_step_shows)
qed simp

text \<open>What is left to the caller is what the configuration says.\<close>

lemma route_left_to_caller:
  assumes "fst (route E U F os G c text ro slots) = Inr a" "\<not> (\<exists>ss. an_route a = RouteSteps ss)"
  shows "a = answer_none (the (caller_route (effective c))) \<and> caller_route (effective c) \<noteq> None"
  using assms
  by (auto simp: route_def route_body_def route_fetched_def answered_def answer_none_def
      split: sum.splits option.splits if_splits prod.splits route_engine.splits)

section \<open>Properties\<close>

text \<open>C37. The route that a C program reads off a handle is the one Node and Python are given as data: the
  same steps with their credentials in the same order, the same kind and the same engine, by number
  there and by name here. What is no list of steps is what the configuration says: the address of its
  script, its body, or discovery, with no engine.\<close>

theorem bindings_show_the_same_route:
  "case fst (route (cl_external L) (cl_url_ops L) (cl_debug L) (cl_os L) (cl_engines L) c text ro slots) of
     Inl _ \<Rightarrow> True
   | Inr a \<Rightarrow>
       (case c_route_of L a of
          Inl _ \<Rightarrow> True
        | Inr r \<Rightarrow>
            (case answer_fields_of (cl_external L) (cl_debug L) a of
               Inl _ \<Rightarrow> False
             | Inr af \<Rightarrow>
                 map ct_uri_with_auth (cr_steps r) = unwrap_or [] (af_steps af)
                 \<and> (cr_engine r, af_engine af) =
                     (case an_engine a of
                        NoEngine \<Rightarrow> (0, ''none'') | NativeEngine \<Rightarrow> (1, ''native'')
                      | QuickJsEngine \<Rightarrow> (2, ''quickjs''))
                 \<and> (if af_steps af \<noteq> None
                    then (cr_kind r, af_kind af) = (0, ''steps'')
                      \<and> cr_pac r = None \<and> af_pac_url af = None \<and> af_script af = None
                    else an_engine a = NoEngine
                      \<and> (cr_kind r, af_kind af, cr_pac r, af_pac_url af, af_script af) =
                          (case effective c of
                             Pac u rej \<Rightarrow> (1, ''pac'', Some (as_str u), Some (as_str u), None)
                           | PacInline script rej \<Rightarrow>
                               (2, ''pac-inline'', Some script, None, Some script)
                           | _ \<Rightarrow> (3, ''wpad'', None, None, None))
                      \<and> caller_route (effective c) \<noteq> None)))"
proof (cases "fst (route (cl_external L) (cl_url_ops L) (cl_debug L) (cl_os L) (cl_engines L) c text ro slots)")
  case (Inr a)
  have engine: "(engine_number (an_engine a), engine_name (an_engine a)) =
      (case an_engine a of
         NoEngine \<Rightarrow> (0, ''none'') | NativeEngine \<Rightarrow> (1, ''native'') | QuickJsEngine \<Rightarrow> (2, ''quickjs''))"
    by (cases "an_engine a") (simp_all add: engine_number_def engine_name_def pw_route_numbers)
  show ?thesis
  proof (cases "\<exists>ss. an_route a = RouteSteps ss")
    case True
    then obtain ss where ss: "an_route a = RouteSteps ss" by blast
    then show ?thesis unfolding Inr
      using engine
      by (cases "c_collect (c_step_of L) ss")
        (simp_all add: c_route_of_def answer_fields_of_def Let_def pw_route_numbers c_steps_show)
  next
    case False
    with route_left_to_caller [OF Inr] have left: "a = answer_none (the (caller_route (effective c)))"
      "caller_route (effective c) \<noteq> None" by blast+
    then show ?thesis unfolding Inr
      using engine
      by (cases "effective c")
        (auto simp: c_route_of_def answer_fields_of_def Let_def pw_route_numbers answer_none_def
          caller_route_def c_string_def split: sum.splits if_splits)
  qed
qed simp

text \<open>C36. Until \<open>close\<close> is called, \<open>onChange\<close> is given what the pump told, each value once and in order, with
  the rest waiting in the queue; from the moment \<open>close\<close> is called it is given nothing more, not even
  what was queued before. The box of the cleanup hook is never freed twice, and is freed once the
  watch has no hook left.\<close>

theorem node_tells_in_order_until_closed:
  assumes "node_run F s" "(node_step F)\<^sup>*\<^sup>* s s'"
  shows "(if nd_open s \<and> \<not> nd_finalized s
      then nd_called s @ nd_queue s = map (node_value F (nd_layering s)) (bw_out (nd_watch s)) else True)
    \<and> (if nd_open s then True else nd_called s' = nd_called s)
    \<and> nd_freed s' \<le> 1
    \<and> (nd_freed s' = 1) = (\<not> nd_registered s' \<and> nd_js s' \<noteq> JsTearing)"
proof -
  have "\<not> nd_open s \<Longrightarrow> \<not> nd_open s' \<and> nd_called s' = nd_called s"
    using assms(2) by (induction rule: rtranclp_induct) (auto dest: gate_stays_shut)
  moreover have "node_run F s'" using assms(2,1) by (induction rule: rtranclp_induct) (auto intro: node_more)
  ultimately show ?thesis
    using node_run_ok [OF assms(1)] node_run_ok [of F s'] by (auto simp: told_ok_def box_ok_def split: if_splits)
qed

theorem node_tells_in_order_until_closed_witness:
  "nd_called node_told = [Inr \<lparr> sn_config = sample_change, sn_os_readable = True \<rparr>]
     \<and> nd_freed node_closing = 0"
proof -
  have now: "nd_open node_told" "\<not> nd_finalized node_told" "nd_queue node_told = []"
    "nd_registered node_closing" "nd_watch node_told = sample_told" "nd_layering node_told = None"
    by (simp_all add: node_closing_def node_told_def gate_call_def node_fresh_def)
  show ?thesis
    using node_tells_in_order_until_closed [OF node_told_runs r_into_rtranclp, OF node_closing_step] now
    by (auto simp: sample_told_out node_value_def delivered_value_def layering_apply_def)
qed

end
