(* ===== verification/Android_Facts.thy ===== *)
theory Android_Facts
  imports Android_Backend Stop_Facts Ios_Hints
begin

text \<open>
  What Android's backend keeps to: no call leaves an exception pending, a frame pushed or a thread
  attached, whatever Java answers; a registration that fails leaves no receiver behind, and one
  that succeeded wakes the watch it was made for; the first \<open>init\<close> that succeeds decides; and no
  drop of a watch, on any platform, waits for ever.
\<close>

section \<open>What Java holds for the process\<close>

text \<open>What a state of Java is observed by: the threads attached, the frames, the receivers that are
  registered, and whether an exception is pending.\<close>

record 'j jni_view =
  jv_attached :: "'j \<Rightarrow> nat"
  jv_frames :: "'j \<Rightarrow> nat"
  jv_receivers :: "'j \<Rightarrow> jref list"
  jv_pending :: "'j \<Rightarrow> bool"

text \<open>A call made with no exception pending gives back attachments and frames, does to the
  receivers what \<open>Q\<close> says of its result, and leaves an exception only when it failed.\<close>

definition j_does ::
    "'j jni_view \<Rightarrow> ('j, 'a) jcall \<Rightarrow> (string + 'a \<Rightarrow> jref list \<Rightarrow> jref list \<Rightarrow> bool) \<Rightarrow> bool" where
  "j_does V c Q \<longleftrightarrow>
     (\<forall>j r j'. \<not> jv_pending V j \<longrightarrow> c j = (r, j') \<longrightarrow>
        jv_attached V j' = jv_attached V j \<and> jv_frames V j' = jv_frames V j
        \<and> Q r (jv_receivers V j) (jv_receivers V j') \<and> (is_ok r \<longrightarrow> \<not> jv_pending V j'))"

abbreviation tidy :: "'j jni_view \<Rightarrow> ('j, 'a) jcall \<Rightarrow> bool" where
  "tidy V c \<equiv> j_does V c (\<lambda>_ before after. after = before)"

text \<open>The documented laws of the interface. Only three calls may be made with an exception pending
  beside those that look at it: the pop of a frame, and the detaching.\<close>

definition frame_laws :: "'j jni \<Rightarrow> 'j jni_view \<Rightarrow> bool" where
  "frame_laws J V \<longleftrightarrow>
     (\<forall>n j r j'. \<not> jv_pending V j \<longrightarrow> jn_push_frame J n j = (r, j') \<longrightarrow>
        jv_attached V j' = jv_attached V j \<and> jv_receivers V j' = jv_receivers V j
        \<and> jv_frames V j' = jv_frames V j + (if is_ok r then 1 else 0)
        \<and> (is_ok r \<longrightarrow> \<not> jv_pending V j'))
     \<and> (\<forall>j r j'. jn_pop_frame J j = (r, j') \<longrightarrow>
        r = Inr () \<and> jv_attached V j' = jv_attached V j \<and> jv_receivers V j' = jv_receivers V j
        \<and> jv_frames V j' = jv_frames V j - 1 \<and> jv_pending V j' = jv_pending V j)
     \<and> (\<forall>vm j r j'. jn_attach J vm j = (r, j') \<longrightarrow>
        jv_attached V j' = jv_attached V j + (if is_ok r then 1 else 0)
        \<and> jv_receivers V j' = jv_receivers V j \<and> jv_frames V j' = jv_frames V j
        \<and> jv_pending V j' = jv_pending V j)
     \<and> (\<forall>j. jv_attached V (jn_detach J j) = jv_attached V j - 1
        \<and> jv_receivers V (jn_detach J j) = jv_receivers V j
        \<and> jv_frames V (jn_detach J j) = jv_frames V j \<and> jv_pending V (jn_detach J j) = jv_pending V j)"

definition same_holdings :: "'j jni_view \<Rightarrow> 'j \<Rightarrow> 'j \<Rightarrow> bool" where
  "same_holdings V j j' \<longleftrightarrow>
     jv_attached V j' = jv_attached V j \<and> jv_receivers V j' = jv_receivers V j
     \<and> jv_frames V j' = jv_frames V j"

definition exception_laws :: "'j jni \<Rightarrow> 'j jni_view \<Rightarrow> bool" where
  "exception_laws J V \<longleftrightarrow>
     (\<forall>j r j'. jn_exception_check J j = (r, j') \<longrightarrow>
        r = Inr (jv_pending V j) \<and> same_holdings V j j' \<and> jv_pending V j' = jv_pending V j)
     \<and> (\<forall>j r j'. jn_exception_occurred J j = (r, j') \<longrightarrow> same_holdings V j j')
     \<and> (\<forall>j r j'. jn_exception_clear J j = (r, j') \<longrightarrow> same_holdings V j j' \<and> \<not> jv_pending V j')
     \<and> (\<forall>x j r j'. jn_delete_local J x j = (r, j') \<longrightarrow>
          same_holdings V j j' \<and> jv_pending V j' = jv_pending V j)"

text \<open>Any Java method may throw. Only \<open>registerReceiver\<close> and \<open>unregisterReceiver\<close> change what is
  registered, and not when they throw.\<close>

definition call_laws :: "'j jni \<Rightarrow> 'j jni_view \<Rightarrow> bool" where
  "call_laws J V \<longleftrightarrow>
     (\<forall>cls field sig. tidy V (jn_static_field J cls field sig))
     \<and> (\<forall>cls name sig args. tidy V (jn_call_static J cls name sig args))
     \<and> (\<forall>x name sig args. name \<noteq> ''registerReceiver'' \<longrightarrow> name \<noteq> ''unregisterReceiver'' \<longrightarrow>
          tidy V (jn_call J x name sig args))
     \<and> (\<forall>x r sig args. j_does V (jn_call J x ''registerReceiver'' sig (JObject r # args))
          (\<lambda>res before after. after = (if is_ok res then r # before else before)))
     \<and> (\<forall>x r sig. j_does V (jn_call J x ''unregisterReceiver'' sig [JObject r])
          (\<lambda>res before after. after = (if is_ok res then remove1 r before else before)))
     \<and> (\<forall>cls sig args. tidy V (jn_new_object J cls sig args))
     \<and> (\<forall>s. tidy V (jn_new_string J s)) \<and> (\<forall>s. tidy V (jn_new_bytes J s))
     \<and> (\<forall>x. tidy V (jn_get_string J x)) \<and> (\<forall>x. tidy V (jn_array_length J x))
     \<and> (\<forall>x i. tidy V (jn_array_element J x i)) \<and> (\<forall>x ms. tidy V (jn_register_natives J x ms))
     \<and> (\<forall>x. tidy V (jn_new_global J x))"

definition jni_laws :: "'j jni \<Rightarrow> 'j jni_view \<Rightarrow> bool" where
  "jni_laws J V \<longleftrightarrow> frame_laws J V \<and> exception_laws J V \<and> call_laws J V"

section \<open>Rules\<close>

named_theorems tidy_intros

lemma tidy_return [tidy_intros]: "tidy V (j_return x)"
  by (simp add: j_does_def j_return_def)

lemma tidy_lift [tidy_intros]: "tidy V (j_lift r)"
  by (simp add: j_does_def j_lift_def)

text \<open>The rule of \<open>?\<close>: a failure of the first ends it.\<close>

lemma j_does_then:
  assumes "tidy V c" "\<And>x. j_does V (f x) Q" "\<And>e rs. Q (Inl e) rs rs"
  shows "j_does V (j_then c f) Q"
  unfolding j_does_def
proof (intro allI impI)
  fix j r j'
  assume quiet: "\<not> jv_pending V j" and run: "j_then c f j = (r, j')"
  obtain r1 j1 where c: "c j = (r1, j1)" by fastforce
  note one = assms(1) [unfolded j_does_def, rule_format, OF quiet c]
  show "jv_attached V j' = jv_attached V j \<and> jv_frames V j' = jv_frames V j
      \<and> Q r (jv_receivers V j) (jv_receivers V j') \<and> (is_ok r \<longrightarrow> \<not> jv_pending V j')"
  proof (cases r1)
    case (Inl e)
    then show ?thesis using run c one assms(3) by (auto simp: j_then_def is_ok_def)
  next
    case (Inr x)
    with one have "\<not> jv_pending V j1" by (simp add: is_ok_def)
    moreover have "f x j1 = (r, j')" using run c Inr by (simp add: j_then_def)
    ultimately show ?thesis using assms(2) [of x] one unfolding j_does_def by fastforce
  qed
qed

lemma tidy_then [tidy_intros]: "tidy V c \<Longrightarrow> (\<And>x. tidy V (f x)) \<Longrightarrow> tidy V (j_then c f)"
  by (rule j_does_then) simp_all

lemma tidy_if [tidy_intros]: "(b \<Longrightarrow> tidy V c) \<Longrightarrow> (\<not> b \<Longrightarrow> tidy V d) \<Longrightarrow> tidy V (if b then c else d)"
  by simp

lemma tidy_comp [tidy_intros]: "(\<And>x. tidy V (f x)) \<Longrightarrow> tidy V ((f \<circ> g) x)"
  by simp

lemma tidy_case_prod [tidy_intros]: "(\<And>a b. tidy V (f a b)) \<Longrightarrow> tidy V (case x of (a, b) \<Rightarrow> f a b)"
  by (cases x) simp

lemma jni_tidy:
  assumes "jni_laws J V"
  shows "tidy V (jn_static_field J cls field sig)" "tidy V (jn_call_static J cls name sig args)"
    "name \<noteq> ''registerReceiver'' \<Longrightarrow> name \<noteq> ''unregisterReceiver'' \<Longrightarrow> tidy V (jn_call J x name sig args)"
    "tidy V (jn_new_object J class_or_name sig args)" "tidy V (jn_new_string J t)" "tidy V (jn_new_bytes J t)"
    "tidy V (jn_get_string J x)" "tidy V (jn_array_length J x)" "tidy V (jn_array_element J x i)"
    "tidy V (jn_register_natives J x ms)" "tidy V (jn_new_global J x)"
  using assms unfolding jni_laws_def call_laws_def by simp_all

lemma delete_tidy: "jni_laws J V \<Longrightarrow> tidy V (jn_delete_local J x)"
  by (auto simp: jni_laws_def exception_laws_def same_holdings_def j_does_def)

lemma frame_does:
  assumes laws: "jni_laws J V" and body: "j_does V body Q"
    and fails: "\<And>e rs. Q (Inl e) rs rs"
  shows "j_does V (with_local_frame J n body) Q"
  unfolding j_does_def
proof (intro allI impI)
  fix j r j'
  assume quiet: "\<not> jv_pending V j" and run: "with_local_frame J n body j = (r, j')"
  obtain r1 j1 where push: "jn_push_frame J n j = (r1, j1)" by fastforce
  obtain r2 j2 where b: "body j1 = (r2, j2)" by fastforce
  obtain r3 j3 where pop: "jn_pop_frame J j2 = (r3, j3)" by fastforce
  have fr: "frame_laws J V" using laws by (simp add: jni_laws_def)
  have one: "jv_attached V j1 = jv_attached V j" "jv_receivers V j1 = jv_receivers V j"
    "jv_frames V j1 = jv_frames V j + (if is_ok r1 then 1 else 0)" "is_ok r1 \<longrightarrow> \<not> jv_pending V j1"
    using fr quiet push unfolding frame_laws_def by blast+
  have three: "jv_attached V j3 = jv_attached V j2" "jv_receivers V j3 = jv_receivers V j2"
    "jv_frames V j3 = jv_frames V j2 - 1" "jv_pending V j3 = jv_pending V j2" "r3 = Inr ()"
    using fr pop unfolding frame_laws_def by blast+
  show "jv_attached V j' = jv_attached V j \<and> jv_frames V j' = jv_frames V j
      \<and> Q r (jv_receivers V j) (jv_receivers V j') \<and> (is_ok r \<longrightarrow> \<not> jv_pending V j')"
  proof (cases r1)
    case (Inl e)
    then show ?thesis using run push one fails by (auto simp: with_local_frame_def j_then_def is_ok_def)
  next
    case (Inr x)
    then have "\<not> jv_pending V j1" using one(4) by (simp add: is_ok_def)
    note two = body [unfolded j_does_def, rule_format, OF this b]
    have "r = r2" "j' = j3"
      using run push b pop Inr three(5) by (simp_all add: with_local_frame_def j_then_def j_lift_def)
    then show ?thesis using one two three Inr by (simp add: is_ok_def)
  qed
qed

lemma frame_tidy: "jni_laws J V \<Longrightarrow> tidy V body \<Longrightarrow> tidy V (with_local_frame J n body)"
  by (rule frame_does) simp_all

text \<open>Each function, call by call.\<close>

lemma call_object_tidy:
  "jni_laws J V \<Longrightarrow> name \<noteq> ''registerReceiver'' \<Longrightarrow> name \<noteq> ''unregisterReceiver'' \<Longrightarrow>
     tidy V (call_object J x name sig args)"
  "jni_laws J V \<Longrightarrow> name \<noteq> ''registerReceiver'' \<Longrightarrow> name \<noteq> ''unregisterReceiver'' \<Longrightarrow>
     tidy V (call_int J x name)"
  "jni_laws J V \<Longrightarrow> tidy V (call_static_object J cls name sig args)"
  by (simp_all add: call_object_def call_int_def call_static_object_def tidy_intros jni_tidy)

lemma string_of_tidy:
  "jni_laws J V \<Longrightarrow> getter \<noteq> ''registerReceiver'' \<Longrightarrow> getter \<noteq> ''unregisterReceiver'' \<Longrightarrow>
     tidy V (string_of J x getter)"
  by (simp add: string_of_def tidy_intros jni_tidy call_object_tidy)

lemma exclusions_tidy: "jni_laws J V \<Longrightarrow> tidy V (array_texts J list i n)"
  by (induction n arbitrary: i) (simp_all add: tidy_intros jni_tidy delete_tidy)

lemma read_info_tidy: "jni_laws J V \<Longrightarrow> tidy V (read_info_in J app)"
  by (simp add: read_info_in_def exclusions_of_def tidy_intros jni_tidy call_object_tidy string_of_tidy
      exclusions_tidy)

lemma selected_tidy: "jni_laws J V \<Longrightarrow> tidy V (selected_entries J list i n)"
  by (induction n arbitrary: i)
    (simp_all add: selected_entry_def frame_tidy tidy_intros jni_tidy call_object_tidy string_of_tidy)

lemma select_tidy: "jni_laws J V \<Longrightarrow> tidy V (select_in J uri)"
  by (simp add: select_in_def tidy_intros jni_tidy call_object_tidy string_of_tidy selected_tidy)

lemma load_receiver_tidy: "jni_laws J V \<Longrightarrow> tidy V (load_receiver J dex app)"
  by (simp add: load_receiver_def tidy_intros jni_tidy call_object_tidy)

text \<open>The receiver is registered by the last call, or not at all.\<close>

abbreviation registers :: "string + jref option \<Rightarrow> jref list \<Rightarrow> jref list \<Rightarrow> bool" where
  "registers r before after \<equiv>
     after = (case r of Inr (Some receiver) \<Rightarrow> receiver # before | _ \<Rightarrow> before)"

lemma register_call_does:
  assumes "jni_laws J V"
  shows "j_does V (j_then (register_call J sdk app receiver intents) (\<lambda>_. j_return (Some receiver)))
    registers"
proof -
  have "j_does V (register_call J sdk app receiver intents)
      (\<lambda>res before after. after = (if is_ok res then receiver # before else before))"
    using assms by (simp add: register_call_def jni_laws_def call_laws_def)
  then show ?thesis unfolding j_does_def j_then_def j_return_def
    by (fastforce simp: is_ok_def split: sum.splits prod.splits)
qed

lemma no_receiver: "j_does V (j_return None) registers"
  by (simp add: j_does_def j_return_def)

lemma j_does_if: "j_does V c Q \<Longrightarrow> j_does V d Q \<Longrightarrow> j_does V (if b then c else d) Q"
  by simp

lemma register_receiver_does:
  assumes laws: "jni_laws J V"
  shows "j_does V (register_receiver J dex slot app) registers"
  unfolding register_receiver_def
  by (intro j_does_then j_does_if no_receiver tidy_lift jni_tidy(1,4,5,10,11) [OF laws]
      load_receiver_tidy [OF laws] register_call_does [OF laws]) simp_all

section \<open>What is left behind\<close>

lemma take_exception_clears:
  assumes laws: "jni_laws J V" and run: "take_exception J j = (t, j')"
  shows "same_holdings V j j' \<and> \<not> jv_pending V j'"
proof -
  have ex: "exception_laws J V" using laws by (simp add: jni_laws_def)
  have check: "r = Inr (jv_pending V j) \<and> same_holdings V j j' \<and> jv_pending V j' = jv_pending V j"
    if "jn_exception_check J j = (r, j')" for j r j'
    using ex that unfolding exception_laws_def by blast
  have occurred: "same_holdings V j (snd (jn_exception_occurred J j))" for j
    using ex unfolding exception_laws_def by (metis prod.collapse)
  have clear: "same_holdings V j (snd (jn_exception_clear J j))"
    "\<not> jv_pending V (snd (jn_exception_clear J j))" for j
    using ex unfolding exception_laws_def by (metis prod.collapse)+
  have delete: "same_holdings V j (snd (jn_delete_local J x j))"
    "jv_pending V (snd (jn_delete_local J x j)) = jv_pending V j" for x j
    using ex unfolding exception_laws_def by (metis prod.collapse)+
  have shown: "same_holdings V j (snd (with_local_frame J 4 (string_of J x ''toString'') j))"
    if "\<not> jv_pending V j" for x j
  proof -
    have "tidy V (with_local_frame J 4 (string_of J x ''toString''))"
      by (simp add: frame_tidy [OF laws] string_of_tidy [OF laws])
    then show ?thesis using that unfolding j_does_def same_holdings_def by (metis prod.collapse)
  qed
  obtain c j1 where c: "jn_exception_check J j = (c, j1)" by fastforce
  note c1 = check [OF c]
  show ?thesis
  proof (cases "jv_pending V j")
    case False
    then show ?thesis using run c c1 by (simp add: take_exception_def result_ok_def)
  next
    case True
    obtain th j2 where o: "jn_exception_occurred J j1 = (th, j2)" by fastforce
    obtain k j3 where k: "jn_exception_clear J j2 = (k, j3)" by fastforce
    have upto: "same_holdings V j j3 \<and> \<not> jv_pending V j3"
      using c1 occurred [of j1] clear [of j2] o k by (simp add: same_holdings_def)
    show ?thesis
    proof (cases th)
      case (Inl e)
      then show ?thesis using run c c1 o k True upto by (simp add: take_exception_def result_ok_def)
    next
      case (Inr x)
      obtain shownby j4 where f: "with_local_frame J 4 (string_of J x ''toString'') j3 = (shownby, j4)"
        by fastforce
      obtain d j5 where d: "jn_exception_check J j4 = (d, j5)" by fastforce
      note d1 = check [OF d]
      have "j' = snd (jn_delete_local J x (if jv_pending V j4 then snd (jn_exception_clear J j5) else j5))"
        using run c c1 o k f d d1 True Inr by (simp add: take_exception_def result_ok_def Let_def)
      then show ?thesis
        using upto shown [of j3 x] f d1 clear [of j5] delete
        by (auto simp: same_holdings_def split: if_splits)
    qed
  qed
qed

lemma call_in_does:
  assumes laws: "jni_laws J V" and body: "j_does V body Q" and fails: "\<And>e rs. Q (Inl e) rs rs"
    and ok: "\<And>x rs rs'. Q (Inr x) rs rs' \<Longrightarrow> P (Inr x) rs rs'"
    and err: "\<And>e e' rs rs'. Q (Inl e) rs rs' \<Longrightarrow> P (Inl e') rs rs'"
    and quiet: "\<not> jv_pending V j" and run: "call_in J what vm body j = (r, j')"
  shows "\<not> jv_pending V j' \<and> jv_attached V j' = jv_attached V j \<and> jv_frames V j' = jv_frames V j
    \<and> P r (jv_receivers V j) (jv_receivers V j')"
proof -
  obtain r1 j1 where a: "jn_attach J vm j = (r1, j1)" by fastforce
  obtain r2 j2 where b: "with_local_frame J 16 body j1 = (r2, j2)" by fastforce
  obtain t j3 where t: "take_exception J j2 = (t, j3)" by fastforce
  have fr: "frame_laws J V" using laws by (simp add: jni_laws_def)
  have one: "jv_attached V j1 = jv_attached V j + (if is_ok r1 then 1 else 0)"
    "jv_receivers V j1 = jv_receivers V j" "jv_frames V j1 = jv_frames V j" "\<not> jv_pending V j1"
    using fr a quiet unfolding frame_laws_def by blast+
  have detach: "jv_attached V (jn_detach J j) = jv_attached V j - 1"
    "jv_receivers V (jn_detach J j) = jv_receivers V j" "jv_frames V (jn_detach J j) = jv_frames V j"
    "jv_pending V (jn_detach J j) = jv_pending V j" for j
    using fr unfolding frame_laws_def by blast+
  note two = frame_does [OF laws body fails, unfolded j_does_def, rule_format, OF one(4) b]
  note three = take_exception_clears [OF laws t]
  show ?thesis
  proof (cases r1)
    case (Inl e)
    then show ?thesis using run a one err fails by (auto simp: call_in_def is_ok_def)
  next
    case (Inr x)
    then show ?thesis using run a b t one two three detach ok err
      by (cases r2) (auto simp: call_in_def is_ok_def same_holdings_def)
  qed
qed

text \<open>The same of the operations of the process.\<close>

definition f_does ::
    "'j jni_view \<Rightarrow> ('j android \<Rightarrow> (proxy_error + 'a) \<times> 'j android)
       \<Rightarrow> (proxy_error + 'a \<Rightarrow> jref list \<Rightarrow> jref list \<Rightarrow> bool) \<Rightarrow> bool" where
  "f_does V op P \<longleftrightarrow>
     (\<forall>s. \<not> jv_pending V (ap_java s) \<longrightarrow>
        (case op s of (r, s') \<Rightarrow>
           \<not> jv_pending V (ap_java s') \<and> jv_attached V (ap_java s') = jv_attached V (ap_java s)
           \<and> jv_frames V (ap_java s') = jv_frames V (ap_java s)
           \<and> P r (jv_receivers V (ap_java s)) (jv_receivers V (ap_java s'))
           \<and> s' = s\<lparr>ap_java := ap_java s'\<rparr>))"

lemma with_framework_does:
  fixes V :: "'j jni_view"
  assumes laws: "jni_laws J V" and body: "\<And>app. j_does V (body app) Q" and fails: "\<And>e rs. Q (Inl e) rs rs"
    and ok: "\<And>x rs rs'. Q (Inr x) rs rs' \<Longrightarrow> P (Inr x) rs rs'"
    and err: "\<And>e e' rs rs'. Q (Inl e) rs rs' \<Longrightarrow> P (Inl e') rs rs'"
  shows "f_does V (with_framework J what body) P"
  unfolding f_does_def
proof (intro allI impI)
  fix s :: "'j android"
  assume quiet: "\<not> jv_pending V (ap_java s)"
  have given: "j_does V (j_then (application_context J x) (\<lambda>app. body (if app = 0 then x else app))) Q" for x
    by (intro j_does_then body fails)
      (simp add: application_context_def call_object_tidy [OF laws])
  have call: "\<not> jv_pending V j' \<and> jv_attached V j' = jv_attached V (ap_java s)
      \<and> jv_frames V j' = jv_frames V (ap_java s) \<and> P r (jv_receivers V (ap_java s)) (jv_receivers V j')"
    if "j_does V c Q" "call_in J what vm c (ap_java s) = (r, j')" for c vm r j'
    using call_in_does [where Q = Q and P = P, OF laws that(1) fails ok err quiet that(2)] by simp
  show "case with_framework J what body s of (r, s') \<Rightarrow>
      \<not> jv_pending V (ap_java s') \<and> jv_attached V (ap_java s') = jv_attached V (ap_java s)
      \<and> jv_frames V (ap_java s') = jv_frames V (ap_java s)
      \<and> P r (jv_receivers V (ap_java s)) (jv_receivers V (ap_java s'))
      \<and> s' = s\<lparr>ap_java := ap_java s'\<rparr>"
    using quiet err [OF fails] call [OF body] call [OF given]
    by (auto simp: with_framework_def split: option.split prod.split)
qed

lemma with_framework_tidy:
  "jni_laws J V \<Longrightarrow> (\<And>app. tidy V (body app)) \<Longrightarrow>
     f_does V (with_framework J what body) (\<lambda>_ before after. after = before)"
  by (rule with_framework_does [where Q = "\<lambda>_ before after. after = before"]) simp_all

lemma register_does:
  "jni_laws J V \<Longrightarrow>
     f_does V (with_framework J what (register_receiver J dex slot))
       (\<lambda>r before after. after = (case r of Inr (Some receiver) \<Rightarrow> receiver # before | _ \<Rightarrow> before))"
  by (rule with_framework_does [OF _ register_receiver_does]) simp_all

lemma unregister_does:
  "jni_laws J V \<Longrightarrow>
     f_does V (with_framework J what (unregister_call J receiver))
       (\<lambda>r before after. after = (if is_ok r then remove1 receiver before else before))"
  by (rule with_framework_does
      [where Q = "\<lambda>r before after. after = (if is_ok r then remove1 receiver before else before)"])
    (simp_all add: unregister_call_def jni_laws_def call_laws_def is_ok_def)

section \<open>The table of wakers\<close>

definition slots_ok :: "(u64 \<times> nat) list \<Rightarrow> wake_slots \<Rightarrow> bool" where
  "slots_ok ks t \<longleftrightarrow>
     filed t = map_of ks \<and> list_all (\<lambda>k. fst k < next_id t) ks \<and> distinct (map fst ks)"

lemma slots_ok_new:
  "slots_ok ks t \<Longrightarrow> unat (next_id t) + 1 < 2 ^ 64 \<Longrightarrow>
     slots_ok ((next_id t, sender) # ks) (fst (wake_slot_new sender t))"
  using next_is_more [of "next_id t"]
  by (auto simp: slots_ok_def wake_slot_new_def list_all_iff)

lemma slots_ok_drop: "slots_ok ks t \<Longrightarrow> slots_ok (filter (\<lambda>k. fst k \<noteq> i) ks) (wake_slot_drop i t)"
  using map_of_filter_key [of "\<lambda>x. x" i ks]
  by (auto simp: slots_ok_def wake_slot_drop_def list_all_iff case_prod_unfold distinct_map_filter)

lemma slots_ok_undo:
  assumes "slots_ok ks t" "unat (next_id t) + 1 < 2 ^ 64"
  shows "slots_ok ks (wake_slot_drop (next_id t) (fst (wake_slot_new sender t)))"
proof -
  have "filter (\<lambda>k. fst k \<noteq> next_id t) ((next_id t, sender) # ks) = ks"
    using assms(1) by (auto simp: slots_ok_def list_all_iff filter_id_conv)
  then show ?thesis using slots_ok_drop [OF slots_ok_new [OF assms], of "next_id t" sender] by simp
qed

section \<open>The life of a process\<close>

definition java_clean :: "'j jni_view \<Rightarrow> 'j android \<Rightarrow> 'j android \<Rightarrow> bool" where
  "java_clean V s s' \<longleftrightarrow>
     \<not> jv_pending V (ap_java s') \<and> jv_attached V (ap_java s') = jv_attached V (ap_java s)
     \<and> jv_frames V (ap_java s') = jv_frames V (ap_java s)"

lemma java_clean_trans: "java_clean V s s' \<Longrightarrow> java_clean V s' s'' \<Longrightarrow> java_clean V s s''"
  by (simp add: java_clean_def)

lemma f_doesD:
  assumes "f_does V op P" "\<not> jv_pending V (ap_java s)" "op s = (r, s')"
  shows "java_clean V s s'" "P r (jv_receivers V (ap_java s)) (jv_receivers V (ap_java s'))"
    "ap_host s' = ap_host s" "ap_slots s' = ap_slots s"
proof -
  have "s' = s\<lparr>ap_java := ap_java s'\<rparr>" using assms by (auto simp: f_does_def)
  then show "ap_host s' = ap_host s" "ap_slots s' = ap_slots s"
    by (metis android.select_convs android.surjective android.update_convs(1))+
  show "java_clean V s s'" "P r (jv_receivers V (ap_java s)) (jv_receivers V (ap_java s'))"
    using assms by (auto simp: f_does_def java_clean_def)
qed

lemma registration_new_does:
  assumes laws: "jni_laws J V" and quiet: "\<not> jv_pending V (ap_java s)"
    and ok: "slots_ok ks (ap_slots s)" "unat (next_id (ap_slots s)) + 1 < 2 ^ 64"
    and run: "registration_new J dex sender s = (r, s')"
  shows "java_clean V s s' \<and> ap_host s' = ap_host s
    \<and> (case r of
         Inl _ \<Rightarrow> jv_receivers V (ap_java s') = jv_receivers V (ap_java s) \<and> slots_ok ks (ap_slots s')
       | Inr g \<Rightarrow> jv_receivers V (ap_java s') = rg_receiver g # jv_receivers V (ap_java s)
           \<and> rg_slot g = next_id (ap_slots s) \<and> slots_ok ((rg_slot g, sender) # ks) (ap_slots s'))"
proof -
  let ?slot = "next_id (ap_slots s)"
  let ?filed = "fst (wake_slot_new sender (ap_slots s))"
  let ?s = "s\<lparr>ap_slots := ?filed\<rparr>"
  obtain q s1 where call: "with_framework J REGISTERING (register_receiver J dex ?slot) ?s = (q, s1)"
    by fastforce
  have r: "(r, s') = (case q of
      Inl e \<Rightarrow> (Inl e, slots_of_process (wake_slot_drop ?slot) s1)
    | Inr None \<Rightarrow> (Inl Unsupported, slots_of_process (wake_slot_drop ?slot) s1)
    | Inr (Some receiver) \<Rightarrow> (Inr \<lparr> rg_receiver = receiver, rg_slot = ?slot \<rparr>, s1))"
    using run call by (auto simp: registration_new_def wake_slot_new_def split: sum.splits option.splits)
  have "\<not> jv_pending V (ap_java ?s)" using quiet by simp
  note did = f_doesD [OF register_does [OF laws] this call]
  show ?thesis
    using r did slots_ok_new [OF ok, of sender] slots_ok_undo [OF ok, of sender]
    by (auto simp: java_clean_def slots_of_process_def split: sum.splits option.splits)
qed

lemma registration_drop_does:
  assumes "jni_laws J V" "\<not> jv_pending V (ap_java s)" "slots_ok ks (ap_slots s)"
  shows "java_clean V s (registration_drop J g s)"
    "slots_ok (filter (\<lambda>k. fst k \<noteq> rg_slot g) ks) (ap_slots (registration_drop J g s))"
    "ap_host (registration_drop J g s) = ap_host s"
proof -
  obtain q s1 where call: "with_framework J REGISTERING (unregister_call J (rg_receiver g)) s = (q, s1)"
    by fastforce
  note did = f_doesD [OF unregister_does [OF assms(1)] assms(2) call]
  show "java_clean V s (registration_drop J g s)"
    "slots_ok (filter (\<lambda>k. fst k \<noteq> rg_slot g) ks) (ap_slots (registration_drop J g s))"
    "ap_host (registration_drop J g s) = ap_host s"
    using did slots_ok_drop [OF assms(3)]
    by (simp_all add: registration_drop_def call slots_of_process_def java_clean_def)
qed

lemma init_body_tidy: "jni_laws J V \<Longrightarrow> tidy V (init_body J x)"
  by (simp add: init_body_def application_context_def tidy_intros jni_tidy call_object_tidy)

lemma android_init_does:
  assumes laws: "jni_laws J V" and quiet: "\<not> jv_pending V (ap_java s)"
    and run: "android_init J raced raw given s = (r, s')"
  shows "java_clean V s s' \<and> ap_slots s' = ap_slots s"
    "ap_host s = Some h \<Longrightarrow> s' = s \<and> r = same_vm h raw"
proof -
  show "ap_host s = Some h \<Longrightarrow> s' = s \<and> r = same_vm h raw"
    using run by (simp add: android_init_def)
  have call: "\<not> jv_pending V j' \<and> jv_attached V j' = jv_attached V (ap_java s)
      \<and> jv_frames V j' = jv_frames V (ap_java s) \<and> True"
    if "call_in J INITIALIZING raw (init_body J given) (ap_java s) = (q, j')" for q j'
    using call_in_does [where P = "\<lambda>_ _ _. True", OF laws init_body_tidy [OF laws] _ _ _ quiet that]
    by simp
  show "java_clean V s s' \<and> ap_slots s' = ap_slots s"
    using run quiet call
    by (auto simp: android_init_def java_clean_def split: option.splits sum.splits prod.splits)
qed

text \<open>What a process does: \<open>live\<close> are the registrations that are held, with their senders, \<open>held\<close> those
  held at the start.\<close>

inductive android_run ::
    "external \<Rightarrow> 'j jni \<Rightarrow> string \<Rightarrow> (registration \<times> nat) list \<Rightarrow> 'j android
       \<Rightarrow> (registration \<times> nat) list \<Rightarrow> 'j android \<Rightarrow> bool"
  for E J dex held s0 where
  ar_start: "android_run E J dex held s0 held s0"
| ar_init:
    "android_run E J dex held s0 live s \<Longrightarrow> android_init J raced raw given s = (r, s') \<Longrightarrow>
       android_run E J dex held s0 live s'"
| ar_ndk: "android_run E J dex held s0 live s \<Longrightarrow> android_run E J dex held s0 live (s\<lparr>ap_ndk := host\<rparr>)"
| ar_read:
    "android_run E J dex held s0 live s \<Longrightarrow> android_read_config E J s = (answer, s') \<Longrightarrow>
       android_run E J dex held s0 live s'"
| ar_select:
    "android_run E J dex held s0 live s \<Longrightarrow> android_select J uri s = (selected, s') \<Longrightarrow>
       android_run E J dex held s0 live s'"
| ar_refused:
    "android_run E J dex held s0 live s \<Longrightarrow> unat (next_id (ap_slots s)) + 1 < 2 ^ 64 \<Longrightarrow>
       registration_new J dex sender s = (Inl e, s') \<Longrightarrow> android_run E J dex held s0 live s'"
| ar_registered:
    "android_run E J dex held s0 live s \<Longrightarrow> unat (next_id (ap_slots s)) + 1 < 2 ^ 64 \<Longrightarrow>
       registration_new J dex sender s = (Inr g, s') \<Longrightarrow> android_run E J dex held s0 ((g, sender) # live) s'"
| ar_dropped:
    "android_run E J dex held s0 live s \<Longrightarrow> (g, sender) \<in> set live \<Longrightarrow>
       android_run E J dex held s0 (filter (\<lambda>l. rg_slot (fst l) \<noteq> rg_slot g) live) (registration_drop J g s)"

definition slots_held :: "(registration \<times> nat) list \<Rightarrow> (u64 \<times> nat) list" where
  "slots_held live = map (\<lambda>(g, sender). (rg_slot g, sender)) live"

lemma slots_held_simps [simp]:
  "slots_held [] = []" "slots_held ((g, sender) # live) = (rg_slot g, sender) # slots_held live"
  "slots_held (filter (\<lambda>l. rg_slot (fst l) \<noteq> i) live) = filter (\<lambda>k. fst k \<noteq> i) (slots_held live)"
  by (simp_all add: slots_held_def filter_map comp_def case_prod_unfold)

definition android_ok ::
    "'j jni_view \<Rightarrow> 'j android \<Rightarrow> (registration \<times> nat) list \<Rightarrow> 'j android \<Rightarrow> bool" where
  "android_ok V s0 live s \<longleftrightarrow>
     java_clean V s0 s \<and> slots_ok (slots_held live) (ap_slots s)"

lemma read_config_does:
  assumes "jni_laws J V" "\<not> jv_pending V (ap_java s)" "android_read_config E J s = (answer, s')"
  shows "java_clean V s s' \<and> ap_host s' = ap_host s \<and> ap_slots s' = ap_slots s"
proof -
  have "f_does V (read_proxy_info J) (\<lambda>_ before after. after = before)"
    unfolding read_proxy_info_def by (rule with_framework_tidy [OF assms(1) read_info_tidy [OF assms(1)]])
  from f_doesD [OF this assms(2)] assms(3) show ?thesis
    by (auto simp: android_read_config_def split: prod.splits sum.splits)
qed

lemma select_does:
  assumes "jni_laws J V" "\<not> jv_pending V (ap_java s)" "android_select J uri s = (selected, s')"
  shows "java_clean V s s' \<and> ap_host s' = ap_host s \<and> ap_slots s' = ap_slots s"
proof -
  have "f_does V (android_select J uri) (\<lambda>_ before after. after = before)"
    unfolding android_select_def
    by (intro with_framework_tidy tidy_intros read_info_tidy select_tidy assms(1))
  from f_doesD [OF this assms(2,3)] show ?thesis by simp
qed

lemma android_run_ok:
  assumes laws: "jni_laws J V" and start: "\<not> jv_pending V (ap_java s0)" "slots_ok [] (ap_slots s0)"
  shows "android_run E J dex [] s0 live s \<Longrightarrow> android_ok V s0 live s"
proof (induction rule: android_run.induct)
  case ar_start
  then show ?case using start by (simp add: android_ok_def java_clean_def)
next
  case (ar_init live s raced raw given r s')
  then have "\<not> jv_pending V (ap_java s)" by (simp add: android_ok_def java_clean_def)
  from android_init_does [OF laws this ar_init(2)] ar_init(3) show ?case
    by (auto simp: android_ok_def java_clean_def)
next
  case (ar_ndk live s host)
  then show ?case by (simp add: android_ok_def java_clean_def)
next
  case (ar_read live s answer s')
  then have "\<not> jv_pending V (ap_java s)" by (simp add: android_ok_def java_clean_def)
  from read_config_does [OF laws this ar_read(2)] ar_read(3) show ?case
    by (auto simp: android_ok_def java_clean_def)
next
  case (ar_select live s uri selected s')
  then have "\<not> jv_pending V (ap_java s)" by (simp add: android_ok_def java_clean_def)
  from select_does [OF laws this ar_select(2)] ar_select(3) show ?case
    by (auto simp: android_ok_def java_clean_def)
next
  case (ar_refused live s sender e s')
  then have "\<not> jv_pending V (ap_java s)" "slots_ok (slots_held live) (ap_slots s)"
    by (simp_all add: android_ok_def java_clean_def)
  from registration_new_does [OF laws this ar_refused(2,3)] ar_refused(4) show ?case
    by (auto simp: android_ok_def java_clean_def)
next
  case (ar_registered live s sender g s')
  then have "\<not> jv_pending V (ap_java s)" "slots_ok (slots_held live) (ap_slots s)"
    by (simp_all add: android_ok_def java_clean_def)
  from registration_new_does [OF laws this ar_registered(2,3)] ar_registered(4) show ?case
    by (auto simp: android_ok_def java_clean_def)
next
  case (ar_dropped live s g sender)
  then have "\<not> jv_pending V (ap_java s)" "slots_ok (slots_held live) (ap_slots s)"
    by (simp_all add: android_ok_def java_clean_def)
  from registration_drop_does [OF laws this] ar_dropped(3) show ?case
    by (auto simp: android_ok_def java_clean_def)
qed

section \<open>The host\<close>

lemma init_gives_host:
  assumes "ap_host s1 = None" "android_init J raced raw given s1 = (Inr (), s2)"
  shows "\<exists>h. ap_host s2 = Some h \<and> ah_vm h = raw
    \<and> (case raced of
         None \<Rightarrow> fst (call_in J INITIALIZING raw (init_body J given) (ap_java s1)) = Inr (ah_app h)
       | Some other \<Rightarrow> h = other)"
  using assms
  by (auto simp: android_init_def same_vm_def split: option.splits sum.splits prod.splits if_splits)

lemma with_framework_host: "with_framework J what body s = (r, s') \<Longrightarrow> ap_host s' = ap_host s"
  by (auto simp: with_framework_def split: option.splits prod.splits)

lemma registration_new_host: "registration_new J dex sender s = (r, s') \<Longrightarrow> ap_host s' = ap_host s"
  by (auto simp: registration_new_def Let_def slots_of_process_def dest!: with_framework_host
      split: prod.splits sum.splits option.splits)

lemma registration_drop_host: "ap_host (registration_drop J g s) = ap_host s"
  using with_framework_host [of J REGISTERING "unregister_call J (rg_receiver g)" s]
  by (cases "with_framework J REGISTERING (unregister_call J (rg_receiver g)) s")
    (simp add: registration_drop_def slots_of_process_def)

lemma run_keeps_host: "android_run E J dex held s0 live s \<Longrightarrow> ap_host s0 = Some h \<Longrightarrow> ap_host s = Some h"
proof (induction rule: android_run.induct)
  case (ar_init live s raced raw given r s')
  then show ?case by (auto simp: android_init_def)
next
  case (ar_read live s answer s')
  then show ?case
    by (auto simp: android_read_config_def read_proxy_info_def dest!: with_framework_host
        split: prod.splits sum.splits)
next
  case (ar_select live s uri selected s')
  then show ?case by (auto simp: android_select_def dest!: with_framework_host)
qed (auto simp: registration_drop_host dest!: registration_new_host)

section \<open>A Java for concrete inputs\<close>

text \<open>It throws in \<open>getDefaultProxy\<close>, and keeps account of frames, attachments and receivers.\<close>

record plain_java =
  pj_attached :: nat
  pj_frames :: nat
  pj_receivers :: "jref list"
  pj_pending :: bool

definition plain_call :: "jref \<Rightarrow> string \<Rightarrow> string \<Rightarrow> jvalue list \<Rightarrow> (plain_java, jvalue) jcall" where
  "plain_call x name sig args j =
     (if name = ''registerReceiver'' then
        (case args of
           JObject r # _ \<Rightarrow> (Inr (JObject 0), j\<lparr>pj_receivers := r # pj_receivers j\<rparr>)
         | _ \<Rightarrow> (Inr JVoid, j))
      else if name = ''unregisterReceiver'' then
        (case args of
           JObject r # _ \<Rightarrow> (Inr JVoid, j\<lparr>pj_receivers := remove1 r (pj_receivers j)\<rparr>)
         | _ \<Rightarrow> (Inr JVoid, j))
      else if name = ''getDefaultProxy'' then (Inl ''Java exception was thrown'', j\<lparr>pj_pending := True\<rparr>)
      else (Inr (JObject 7), j))"

definition plain_jni :: "plain_java jni" where
  "plain_jni =
     \<lparr> jn_vm = (\<lambda>raw. if raw = 0 then Some ''null'' else None), jn_wrong_value = (\<lambda>t v. t), jn_null = id,
       jn_now = (\<lambda>j. 0), jn_attach = (\<lambda>vm j. (Inr (), j\<lparr>pj_attached := pj_attached j + 1\<rparr>)),
       jn_detach = (\<lambda>j. j\<lparr>pj_attached := pj_attached j - 1\<rparr>),
       jn_push_frame = (\<lambda>n j. (Inr (), j\<lparr>pj_frames := pj_frames j + 1\<rparr>)),
       jn_pop_frame = (\<lambda>j. (Inr (), j\<lparr>pj_frames := pj_frames j - 1\<rparr>)),
       jn_static_field = (\<lambda>cls field sig j. (Inr (if field = ''SDK_INT'' then JInt 34 else JObject 9), j)),
       jn_call = plain_call, jn_call_static = (\<lambda>cls name sig args j. (Inr (JObject 7), j)),
       jn_new_object = (\<lambda>cls sig args j. (Inr 8, j)), jn_new_string = (\<lambda>s j. (Inr 9, j)),
       jn_new_bytes = (\<lambda>s j. (Inr 9, j)), jn_get_string = (\<lambda>x j. (Inr ''text'', j)),
       jn_array_length = (\<lambda>x j. (Inr 0, j)), jn_array_element = (\<lambda>x i j. (Inr 0, j)),
       jn_register_natives = (\<lambda>x ms j. (Inr (), j)), jn_new_global = (\<lambda>x j. (Inr (x + 100), j)),
       jn_delete_local = (\<lambda>x j. (Inr (), j)), jn_exception_check = (\<lambda>j. (Inr (pj_pending j), j)),
       jn_exception_occurred = (\<lambda>j. (Inr 11, j)),
       jn_exception_clear = (\<lambda>j. (Inr (), j\<lparr>pj_pending := False\<rparr>)) \<rparr>"

definition plain_view :: "plain_java jni_view" where
  "plain_view =
     \<lparr> jv_attached = pj_attached, jv_frames = pj_frames, jv_receivers = pj_receivers,
       jv_pending = pj_pending \<rparr>"

lemma plain_laws: "jni_laws plain_jni plain_view"
  by (simp add: jni_laws_def frame_laws_def exception_laws_def call_laws_def j_does_def same_holdings_def
      plain_jni_def plain_view_def plain_call_def is_ok_def)

text \<open>A process that read, which threw, and registered a receiver.\<close>

definition plain_start :: "plain_java android" where
  "plain_start =
     \<lparr> ap_java = \<lparr> pj_attached = 0, pj_frames = 0, pj_receivers = [], pj_pending = False \<rparr>,
       ap_host = None, ap_ndk = Some (1, 2), ap_slots = slots_new, ap_refusal = None \<rparr>"

definition plain_read :: "plain_java android" where
  "plain_read = snd (android_read_config plain_external plain_jni plain_start)"

definition plain_registered :: "plain_java android" where
  "plain_registered = snd (registration_new plain_jni [] 5 plain_read)"

lemma plain_registration:
  "registration_new plain_jni [] 5 plain_read = (Inr \<lparr> rg_receiver = 108, rg_slot = 1 \<rparr>, plain_registered)"
proof -
  have "fst (registration_new plain_jni [] 5 plain_read) = Inr \<lparr> rg_receiver = 108, rg_slot = 1 \<rparr>"
    by code_simp
  then show ?thesis by (simp add: plain_registered_def prod_eq_iff)
qed

lemma plain_room: "unat (next_id (ap_slots plain_read)) + 1 < 2 ^ 64"
proof -
  have "next_id (ap_slots plain_read) = 1" by code_simp
  then show ?thesis by simp
qed

lemma plain_reads: "android_run plain_external plain_jni [] [] plain_start [] plain_read"
  by (rule ar_read [OF ar_start, where answer = "fst (android_read_config plain_external plain_jni plain_start)"])
    (simp add: plain_read_def)

lemma plain_run:
  "android_run plain_external plain_jni [] [] plain_start [(\<lparr> rg_receiver = 108, rg_slot = 1 \<rparr>, 5)] plain_registered"
  by (rule ar_registered [OF plain_reads plain_room plain_registration])

lemma plain_starts:
  "\<not> jv_pending plain_view (ap_java plain_start)" "ap_slots plain_start = slots_new"
  "slots_ok [] (ap_slots plain_start)"
  by (simp_all add: plain_view_def plain_start_def slots_ok_def slots_new_def)

section \<open>Properties\<close>


text \<open>C38. In every life of a process, whatever Java answers and throws, no operation leaves an exception
  pending, a frame pushed or a thread attached; and a broadcast wakes the sender of the registration
  whose number it carries, as long as that is held, and nothing otherwise.\<close>

theorem android_leaves_java_clean:
  assumes "jni_laws J V" "android_run E J dex [] s0 live s" "\<not> jv_pending V (ap_java s0)"
    "ap_slots s0 = slots_new"
  shows "\<not> jv_pending V (ap_java s) \<and> jv_attached V (ap_java s) = jv_attached V (ap_java s0)
    \<and> jv_frames V (ap_java s) = jv_frames V (ap_java s0)
    \<and> receiver_changed (sint (i :: u64)) s = map_of (slots_held live) i"
proof -
  have "slots_ok [] (ap_slots s0)" by (simp add: assms(4) slots_ok_def slots_new_def)
  from android_run_ok [OF assms(1,3) this assms(2)] show ?thesis
    by (auto simp: android_ok_def java_clean_def slots_ok_def receiver_changed_def slot_wake_def)
qed

text \<open>C40. The first \<open>init\<close> that succeeds decides. It leaves a host of its own \<open>JavaVM\<close>, with the context
  it took a global reference to, or the one another call set first, of the same \<open>JavaVM\<close>. From there
  on, whatever the process does, that host is the one every call into Java is made with, and a
  further \<open>init\<close> changes nothing and fails for another \<open>JavaVM\<close> only. One that fails decides nothing.\<close>

theorem the_first_init_decides:
  assumes "ap_host s1 = None" "android_init J raced raw given s1 = (Inr (), s2)"
    "android_run E J dex held s2 live s3"
  shows "(\<exists>h. ap_host s2 = Some h \<and> ah_vm h = raw
      \<and> (case raced of
           None \<Rightarrow> fst (call_in J INITIALIZING raw (init_body J given) (ap_java s1)) = Inr (ah_app h)
         | Some other \<Rightarrow> h = other)
      \<and> with_framework J what body s3 =
          (case call_in J what raw (body (ah_app h)) (ap_java s3) of (r, j) \<Rightarrow> (r, s3\<lparr>ap_java := j\<rparr>)))
    \<and> android_init J raced' raw' given' s3
        = (if raw' = raw then Inr ()
           else Inl (jni_error INITIALIZING ''called again with a different JavaVM than the first call''), s3)
    \<and> (case android_init J raced' raw' given' s1 of
         (Inl _, failed) \<Rightarrow> ap_host failed = raced' | (Inr _, _) \<Rightarrow> True)"
proof -
  obtain h where h: "ap_host s2 = Some h" "ah_vm h = raw"
    "case raced of
       None \<Rightarrow> fst (call_in J INITIALIZING raw (init_body J given) (ap_java s1)) = Inr (ah_app h)
     | Some other \<Rightarrow> h = other"
    using init_gives_host [OF assms(1,2)] by blast
  from run_keeps_host [OF assms(3) h(1)] have "ap_host s3 = Some h" .
  then have "with_framework J what body s3 =
      (case call_in J what raw (body (ah_app h)) (ap_java s3) of (r, j) \<Rightarrow> (r, s3\<lparr>ap_java := j\<rparr>))"
    "android_init J raced' raw' given' s3
      = (if raw' = raw then Inr ()
         else Inl (jni_error INITIALIZING ''called again with a different JavaVM than the first call''), s3)"
    using h(2) by (auto simp: with_framework_def android_init_def same_vm_def)
  moreover have "case android_init J raced' raw' given' s1 of
      (Inl _, failed) \<Rightarrow> ap_host failed = raced' | (Inr _, _) \<Rightarrow> True"
    using assms(1) by (auto simp: android_init_def split: option.splits sum.splits prod.splits)
  ultimately show ?thesis using h by blast
qed

text \<open>C39. A registration that fails, wherever in Java it does, leaves no receiver registered and no
  waker filed; one that succeeds leaves exactly its own, which carries the number of its waker.\<close>

theorem a_failed_registration_leaves_no_receiver:
  assumes "jni_laws J V" "\<not> jv_pending V (ap_java s)" "slots_ok ks (ap_slots s)"
    "unat (next_id (ap_slots s)) + 1 < 2 ^ 64"
  shows "case registration_new J dex sender s of
      (Inl _, s') \<Rightarrow> jv_receivers V (ap_java s') = jv_receivers V (ap_java s)
        \<and> filed (ap_slots s') = filed (ap_slots s)
    | (Inr g, s') \<Rightarrow> jv_receivers V (ap_java s') = rg_receiver g # jv_receivers V (ap_java s)
        \<and> filed (ap_slots s') = (filed (ap_slots s))(rg_slot g \<mapsto> sender)
        \<and> filed (ap_slots s) (rg_slot g) = None"
proof -
  obtain r s' where run: "registration_new J dex sender s = (r, s')" by fastforce
  have "filed (ap_slots s) (next_id (ap_slots s)) = None"
    using assms(3) by (auto simp: slots_ok_def map_of_eq_None_iff list_all_iff)
  with registration_new_does [OF assms run] assms(3) show ?thesis
    by (auto simp: run slots_ok_def split: sum.splits)
qed


text \<open>A process that was given its \<open>JavaVM\<close>, and read.\<close>

definition plain_hosted :: "plain_java android" where
  "plain_hosted = snd (android_init plain_jni None 3 4 plain_start)"

definition plain_hosted_read :: "plain_java android" where
  "plain_hosted_read = snd (android_read_config plain_external plain_jni plain_hosted)"

theorem the_first_init_decides_witness:
  "ap_host plain_hosted = Some \<lparr> ah_vm = 3, ah_app = 107 \<rparr>
   \<and> android_init plain_jni None 5 4 plain_hosted_read
     = (Inl (jni_error INITIALIZING ''called again with a different JavaVM than the first call''), plain_hosted_read)"
proof -
  have "fst (android_init plain_jni None 3 4 plain_start) = Inr ()" by code_simp
  then have init: "android_init plain_jni None 3 4 plain_start = (Inr (), plain_hosted)"
    by (simp add: plain_hosted_def prod_eq_iff)
  have start: "ap_host plain_start = None" by (simp add: plain_start_def)
  have "android_run plain_external plain_jni [] [] plain_hosted [] plain_hosted_read"
    by (rule ar_read [OF ar_start, where answer = "fst (android_read_config plain_external plain_jni plain_hosted)"])
      (simp add: plain_hosted_read_def)
  from the_first_init_decides [OF start init this, of REGISTERING "\<lambda>_. j_return ()" None 5 4]
  have "\<exists>h. ap_host plain_hosted = Some h \<and> ah_vm h = 3
      \<and> fst (call_in plain_jni INITIALIZING 3 (init_body plain_jni 4) (ap_java plain_start)) = Inr (ah_app h)"
    "android_init plain_jni None 5 4 plain_hosted_read
     = (Inl (jni_error INITIALIZING ''called again with a different JavaVM than the first call''), plain_hosted_read)"
    by auto
  moreover have "fst (call_in plain_jni INITIALIZING 3 (init_body plain_jni 4) (ap_java plain_start)) = Inr 107"
    by code_simp
  ultimately show ?thesis by auto
qed

theorem android_leaves_java_clean_witness:
  "\<not> pj_pending (ap_java plain_registered) \<and> pj_frames (ap_java plain_registered) = 0
     \<and> receiver_changed 1 plain_registered = Some 5"
  using android_leaves_java_clean [OF plain_laws plain_run plain_starts(1,2), of 1]
  by (simp add: plain_view_def plain_start_def)

theorem a_failed_registration_leaves_no_receiver_witness:
  "pj_receivers (ap_java plain_registered) = 108 # pj_receivers (ap_java plain_read)
     \<and> filed (ap_slots plain_read) 1 = None"
proof -
  have "\<not> jv_pending plain_view (ap_java plain_read)" "slots_ok [] (ap_slots plain_read)"
    using android_run_ok [OF plain_laws plain_starts(1,3) plain_reads]
    by (simp_all add: android_ok_def java_clean_def)
  from a_failed_registration_leaves_no_receiver [OF plain_laws this plain_room, where dex = "[]" and sender = 5]
  show ?thesis by (simp add: plain_registration plain_view_def)
qed

end
