(* ===== verification/Spec2Isabelle.thy ===== *)
theory Spec2Isabelle
  imports Util_Facts Net_Addr_Facts Mode_Facts Watch_Facts Resolve_Correct Bypass_Correct
    Endpoint_Facts Pac_Host Pac_Calendar Pac_Dispatch Pac_Budget_Facts Gnome_Facts Kio_Facts Kde_Facts
    Dict_Facts Linux_Facts Proxy_Info Windows_Facts Apple_Facts Loop_Facts Pac_Worker_Facts Seccomp
    Pac_Native_Facts Pac_Engines Log_Render Binding_Route_Facts Binding_Describe Binding_Watch Stop_Facts Bridge Ios_Hints Binding_C_Facts Binding_Node Android_Facts
begin

text \<open>
  A verification development for \<open>proxy-watch\<close>, a Rust crate that reads the proxy settings
  of the operating system and of the environment, says for each URL whether it goes direct
  or through a proxy, and delivers the changes of the settings as a stream.

  The program. A source hands over strings: the Windows \<open>ProxyServer\<close> and \<open>ProxyOverride\<close>
  values, \<open>*_proxy\<close> variables, the keys of GNOME, KDE, macOS, iOS and Android, the answer of a
  PAC script. They are read with the grammars of \<open>src/endpoint.rs\<close>, \<open>src/bypass.rs\<close> and
  \<open>src/util.rs\<close>. What was read is a mode (\<open>src/mode.rs\<close>), what could not be read a record in it
  (\<open>src/diagnostic.rs\<close>); the modes of all sources are a snapshot (\<open>src/config.rs\<close>), which
  \<open>src/resolve.rs\<close> turns into the steps that reach a URL, with a script run by one of the
  engines of \<open>src/pac\<close> where the mode is one. A backend thread of \<open>src/sys\<close> re-reads the
  settings when they change and publishes snapshots through the shared state of
  \<open>src/watch.rs\<close>; a consumer polls them off it, among them the pump that
  \<open>bindings/shared/src/lib.rs\<close> runs for the bindings of other languages.

  The theories, from the bottom up:

  \<^item> \<open>Prelude\<close>: results, options, indexing and the searches the source takes from its
    standard library. A fallible function gives \<open>error + 'a\<close>. \<open>Text\<close>: a text is the list of
    its UTF-8 bytes, as a Rust \<open>str\<close> is. \<open>Net_Addr\<close>, \<open>Net_Addr_Facts\<close>:
    addresses as words, read and shown as \<open>std::net\<close> does, and that both read back.
  \<^item> \<open>Util\<close>, \<open>Glob\<close>, \<open>Masking\<close>, \<open>Util_Facts\<close>: \<open>src/util.rs\<close>. The glob matcher against the
    language of a pattern; the one-pass mask against a definition by rescanning; what of a
    credential reaches a message.
  \<^item> \<open>External\<close>: the crates \<open>url\<close> and \<open>ipnet\<close>, which are not under \<open>src/\<close>, as a record of
    operations every definition that uses them takes as its first argument \<open>E\<close>. The laws a
    theorem asks of it are named there, and \<open>plain_external\<close> is an instance.
  \<^item> \<open>Diagnostic\<close>, \<open>Endpoint\<close>, \<open>Endpoint_Facts\<close>: \<open>src/diagnostic.rs\<close>, \<open>src/auth.rs\<close>,
    \<open>src/error.rs\<close>, \<open>src/endpoint.rs\<close>. An error holds what its message interpolates;
    \<open>Error_Text\<close> is the message and the \<open>Debug\<close> of each, with the words of every reason.
    \<open>Log_Render\<close> is \<open>src/trace.rs\<close>: what a log line may say, and that credentials and the line
    breaks of others do not reach one.
  \<^item> \<open>Bypass\<close>, \<open>Bypass_Rules\<close>, \<open>Bypass_Facts\<close>, \<open>Bypass_Correct\<close>: \<open>src/bypass.rs\<close>.
    \<open>HostPattern::parse_in\<close> is composed of its stages in the order of the source. The locale
    \<open>last_rule\<close> is the rule that the last entry that meets a destination decides.
  \<^item> \<open>Mode\<close>, \<open>Parse\<close>, \<open>Mode_Facts\<close>: \<open>src/mode.rs\<close> and \<open>src/parse.rs\<close>. A per-scheme map is a
    function to options. The locale \<open>answer_chain\<close> is the precedence rule both lookups follow,
    interpreted on each.
  \<^item> \<open>Env_Config\<close>, \<open>Resolve\<close>, \<open>Resolve_Facts\<close>, \<open>Resolve_Correct\<close>: \<open>src/env.rs\<close>,
    \<open>src/config.rs\<close>, \<open>src/resolve.rs\<close> and \<open>src/pac/result.rs\<close>. That a lost setting is never
    answered direct, that the environment is read as a set, what a script may answer.
  \<^item> \<open>Stores\<close>, \<open>Store_Contract\<close> and the stores: \<open>Gnome_Store\<close> (\<open>gsettings_map.rs\<close>,
    \<open>gnome.rs\<close>), \<open>Kioslaverc\<close> and \<open>Kde_File\<close> (\<open>kioslaverc.rs\<close>, \<open>kde.rs\<close>), \<open>Proxy_Dict\<close>
    (\<open>proxy_dict.rs\<close>), \<open>Proxy_Info\<close> (\<open>proxy_info.rs\<close>), with their facts: a key that is written
    and cannot be used never becomes a direct connection. The contract is a locale each store
    interprets.
  \<^item> \<open>Linux_Backend\<close>, \<open>Windows_Backend\<close>, \<open>Apple_Backend\<close>: which stores a read consults, in which
    order, and the snapshot it makes; the calls into the system are arguments.
  \<^item> \<open>Watch\<close>, \<open>Watch_Facts\<close>: \<open>src/watch.rs\<close>. An operation of \<open>Shared\<close> holds the mutex from
    its first access to its last, so it is one step; the runs are those of any backend and any
    consumer. The locale \<open>backend_operation\<close> is what every operation keeps of the invariant.
  \<^item> \<open>Reread\<close>, \<open>Poll_Loop\<close>, \<open>Mac_Loop\<close>, \<open>Win_Loop\<close>, \<open>Linux_Watcher\<close>, \<open>Loop_Facts\<close>: the threads
    of \<open>poll.rs\<close>, \<open>mac/notify.rs\<close>, \<open>win/notify.rs\<close> and \<open>linux/watcher.rs\<close> as step relations
    beside the settings they read and a consumer. The locale of \<open>Reread\<close> is the argument they
    share: a loop that re-reads after every notification loses no change.
  \<^item> \<open>Pac_Time\<close>, \<open>Pac_Calendar\<close>, \<open>Pac_Host\<close>: the policy, the calendar and the host functions of a
    script. \<open>Pac_Dispatch\<close>: which engine a mode is handed to, and what a script is shown of a URL.
    \<open>Pac_Budget\<close>, \<open>Pac_Budget_Facts\<close>: the slots and threads of the evaluations as a step
    relation.
  \<^item> \<open>Pac_Worker\<close>, \<open>Pac_Worker_Facts\<close>, \<open>Seccomp\<close>: \<open>src/pac/subprocess.rs\<close>. Both halves of the
    protocol on the bytes of the pipes, and the filter a worker runs under, executed on the
    machine of the locale \<open>bpf\<close>. \<open>Pac_WinHttp\<close>, \<open>Pac_CfNetwork\<close>, \<open>Pac_Engines\<close>,
    \<open>Pac_Native_Facts\<close>: what is asked of WinHTTP, CFNetwork, Android's service and QuickJS, and
    how each answer is read.
  \<^item> \<open>Binding_Route\<close>, \<open>Binding_Route_Facts\<close>, \<open>Binding_Describe\<close>, \<open>Binding_Watch\<close>:
    \<open>bindings/shared/src/lib.rs\<close>. The route and its engine, where the locale \<open>native_engine\<close> is
    what a native resolver owes, interpreted on the three of them; the snapshot as data; the
    watch with its pump, stepped together with the model of \<open>src/watch.rs\<close>.
  \<^item> \<open>Proxy_Watcher\<close>, \<open>Platforms\<close>, \<open>Stop_Facts\<close>: the constructor of \<open>ProxyWatcher\<close> over the contract of
    \<open>src/sys/mod.rs\<close>, the backends in that shape, and the end of their threads, an instance of the
    locale \<open>stopping_thread\<close> each. \<open>Ios_Hints\<close>: the early wake-ups of iOS.
  \<^item> \<open>Stream_Client\<close>, \<open>Bridge\<close>: what a reader of the stream relies on, and \<open>src/bridge.rs\<close>, whose
    channel is tokio's and a parameter.
  \<^item> \<open>Binding_C\<close>, \<open>Binding_C_Facts\<close>: \<open>bindings/c/src/lib.rs\<close>. A handle is an
    address of an explicit heap; each exported function is a function of the library's state; the
    runs are those of any program and its watch threads.
  \<^item> \<open>Binding_Node\<close>: \<open>bindings/node/src/lib.rs\<close>. A JavaScript value is opaque and what Node-API
    says of one a parameter; a watch is the JavaScript thread's steps beside the pump's.
  \<^item> \<open>Android_Backend\<close>, \<open>Android_Facts\<close>: \<open>src/sys/android.rs\<close> and its receiver. Java
    and the crate \<open>jni\<close> are a record of operations over a state, each of which may throw; what
    the code relies on of them are the laws of \<open>Android_Facts\<close>, and \<open>plain_jni\<close> an instance.

  Bounds. Ports are 16-bit words, digests 64-bit words, addresses 32 and 128 bits, the codes
  of Windows and of the packet filter 32 bits. The queue of the watcher has its bound of 1024,
  the chain of a script its bound of 64, a frame its bound of 1 MiB. No definition uses fuel:
  every loop of the source is a structural recursion here or carries its measure, and a thread
  is a step relation.

  Not modelled: foreign calls themselves (Win32, WinHTTP, CoreFoundation, GLib, D-Bus, JNI,
  QuickJS), which are arguments wherever their answer decides something; the handles that own
  what they return; the subscription to GSettings and the loading of GLib; the Python
  binding around the shared part; the channel of tokio under \<open>src/bridge.rs\<close>, which is
  a parameter; the release tooling of \<open>xtask\<close>, the examples and the tests.
\<close>

end
